(* ===== verification/Prelude.thy ===== *)
theory Prelude
  imports Main "HOL-Library.Word" "HOL-Library.Signed_Division"
begin

unbundle bit_operations_syntax

text \<open>
  The shared vocabulary of the development: the machine words of the simulator
  (\<^verbatim>\<open>reg_t\<close>, \<^verbatim>\<open>sreg_t\<close> and the fixed-width integers of stdint.h),
  the collections of rewrite rules that the component theories fill, and lemmas on words and
  on saturation that more than one component uses.

  A C signed integer is the same word read by \<open>sint\<close>; a C conversion between
  widths is \<open>ucast\<close> (unsigned source) or \<open>scast\<close> (signed source).
\<close>

type_synonym u8 = "8 word"
type_synonym u16 = "16 word"
type_synonym u32 = "32 word"
type_synonym u64 = "64 word"
type_synonym u128 = "128 word"

named_theorems fields
  \<comment> \<open>unfolds the instruction fields of insn_t\<close>
named_theorems macros
  \<comment> \<open>unfolds the register and pc macros of decode_macros.h\<close>
named_theorems insns
  \<comment> \<open>unfolds the instruction bodies of insns\<close>

section \<open>Bits of words\<close>

lemma msb_sint_neg: "bit (x::'a::len word) (LENGTH('a) - Suc 0) \<longleftrightarrow> sint x < 0"
  by (simp add: bit_last_iff)

section \<open>Aligned blocks of addresses\<close>

lemma unat_drop: "unat (drop_bit k a) = unat a div 2 ^ k" for a :: u64
  unfolding unat_drop_bit_eq by (simp add: drop_bit_eq_div)

text \<open>An offset that stays within one aligned block: a page, a sector.\<close>

lemma in_block:
  fixes a :: u64
  assumes "unat a mod 2 ^ k + j < 2 ^ k" "k \<le> 64"
  shows "drop_bit k (a + of_nat j) = drop_bit k a"
proof -
  have "unat a < 2 ^ 64" using unsigned_less [of a] by simp
  have "2 ^ k dvd (2 ^ 64 :: nat)" using assms(2) by (rule le_imp_power_dvd)
  then obtain m where m: "(2 ^ 64 :: nat) = 2 ^ k * m" by (elim dvdE)
  have "unat a div 2 ^ k < m" using \<open>unat a < 2 ^ 64\<close> unfolding m by (simp add: less_mult_imp_div_less mult.commute)
  then have "unat a div 2 ^ k + 1 \<le> m" by simp
  then have le: "2 ^ k * (unat a div 2 ^ k + 1) \<le> 2 ^ 64" unfolding m by (rule mult_le_mono2)
  then have le': "2 ^ k * (unat a div 2 ^ k) + 2 ^ k \<le> 2 ^ 64" by simp
  have e: "unat a + j = (unat a mod 2 ^ k + j) + 2 ^ k * (unat a div 2 ^ k)" by simp
  then have "unat a + j < 2 ^ 64" using le' assms(1) by linarith
  then have u: "unat (a + of_nat j) = unat a + j"
    by (simp add: unat_word_ariths unat_of_nat take_bit_eq_mod mod_simps)
  have "(unat a + j) div 2 ^ k = unat a div 2 ^ k + (unat a mod 2 ^ k + j) div 2 ^ k"
    unfolding e by (rule div_mult_self2) simp
  also have "\<dots> = unat a div 2 ^ k" using assms(1) by simp
  finally have "unat (drop_bit k (a + of_nat j)) = unat (drop_bit k a)" by (simp only: unat_drop u)
  then show ?thesis by (simp only: word_unat_eq_iff)
qed

end
