(* ===== verification/Arith.thy ===== *)
theory Arith
  imports Prelude
begin

text \<open>
  The arithmetic helpers of \<^verbatim>\<open>riscv/arith.h\<close>: the 64 by 64 bit high
  products, saturating addition and subtraction, bit-field extraction, counting and
  permutation. Every function is translated at its width, with the wrap-around of the C++
  unsigned arithmetic. \<^verbatim>\<open>assert\<close> failures are the value \<open>None\<close>.
\<close>

section \<open>High products\<close>

definition mulhu :: "u64 \<Rightarrow> u64 \<Rightarrow> u64" where
  "mulhu a b =
    (let a0 = ucast (ucast a :: u32); a1 = drop_bit 32 a;
         b0 = ucast (ucast b :: u32); b1 = drop_bit 32 b;
         t = a1 * b0 + drop_bit 32 (a0 * b0);
         y1 = (ucast t :: u32);
         y2 = (ucast (drop_bit 32 t) :: u32);
         t = a0 * b1 + ucast y1;
         t = a1 * b1 + ucast y2 + drop_bit 32 t;
         y2 = (ucast t :: u32);
         y3 = (ucast (drop_bit 32 t) :: u32)
     in push_bit 32 (ucast y3) OR ucast y2)"

definition mulh :: "u64 \<Rightarrow> u64 \<Rightarrow> u64" where
  "mulh a b =
    (let negate = ((a <s 0) \<noteq> (b <s 0));
         res = mulhu (if a <s 0 then - a else a) (if b <s 0 then - b else b)
     in if negate then NOT res + of_bool (a * b = 0) else res)"

definition mulhsu :: "u64 \<Rightarrow> u64 \<Rightarrow> u64" where
  "mulhsu a b =
    (let negate = (a <s 0);
         res = mulhu (if a <s 0 then - a else a) b
     in if negate then NOT res + of_bool (a * b = 0) else res)"

section \<open>Saturating arithmetic\<close>

text \<open>The templates take a signed type and its unsigned twin: one word width here.
  The result is the value and the flag \<^verbatim>\<open>sat\<close>.\<close>

definition sat_add :: "'a::len word \<Rightarrow> 'a word \<Rightarrow> 'a word \<times> bool" where
  "sat_add x y =
    (let ux = x; uy = y; res = ux + uy; sh = LENGTH('a) - 1;
         ux' = drop_bit sh ux + (push_bit sh 1 - 1)
     in if 0 \<le>s ((ux' XOR uy) OR NOT (uy XOR res)) then (ux', True) else (res, False))"

definition sat_add3 :: "'a::len word \<Rightarrow> 'a word \<Rightarrow> 'a word \<Rightarrow> 'a word \<times> bool" where
  "sat_add3 x y z =
    (let (a, b) = (if ((y XOR z) AND (x XOR z)) <s 0 then (z, y) else (y, z));
         (res, sat1) = sat_add x a;
         (res, sat2) = sat_add res b
     in (res, sat1 \<or> sat2))"

definition sat_sub :: "'a::len word \<Rightarrow> 'a word \<Rightarrow> 'a word \<times> bool" where
  "sat_sub x y =
    (let ux = x; uy = y; res = ux - uy; sh = LENGTH('a) - 1;
         ux' = drop_bit sh ux + (push_bit sh 1 - 1)
     in if ((ux' XOR uy) AND (ux' XOR res)) <s 0 then (ux', True) else (res, False))"

definition sat_addu :: "'a::len word \<Rightarrow> 'a word \<Rightarrow> 'a word \<times> bool" where
  "sat_addu x y =
    (let res = x + y; sat = (res < x) in (res OR - of_bool (res < x), sat))"

definition sat_subu :: "'a::len word \<Rightarrow> 'a word \<Rightarrow> 'a word \<times> bool" where
  "sat_subu x y =
    (let res = x - y; sat = (\<not> res \<le> x) in (res AND - of_bool (res \<le> x), sat))"

section \<open>Bit fields\<close>

definition extract64 :: "u64 \<Rightarrow> int \<Rightarrow> int \<Rightarrow> u64 option" where
  "extract64 val pos len =
    (if 0 \<le> pos \<and> 0 < len \<and> len \<le> 64 - pos
     then Some (drop_bit (nat pos) val AND drop_bit (nat (64 - len)) (NOT 0))
     else None)"

definition make_mask64 :: "int \<Rightarrow> int \<Rightarrow> u64 option" where
  "make_mask64 pos len =
    (if 0 \<le> pos \<and> 0 < len \<and> pos < 64 \<and> len \<le> 64
     then Some (push_bit (nat pos) (drop_bit (nat (64 - len)) (NOT 0)))
     else None)"

section \<open>Counting\<close>

definition popcount :: "u64 \<Rightarrow> u64" where
  "popcount val =
    (let val = (val AND 0x5555555555555555) + (drop_bit 1 val AND 0x5555555555555555);
         val = (val AND 0x3333333333333333) + (drop_bit 2 val AND 0x3333333333333333);
         val = (val AND 0x0f0f0f0f0f0f0f0f) + (drop_bit 4 val AND 0x0f0f0f0f0f0f0f0f);
         val = (val AND 0x00ff00ff00ff00ff) + (drop_bit 8 val AND 0x00ff00ff00ff00ff);
         val = (val AND 0x0000ffff0000ffff) + (drop_bit 16 val AND 0x0000ffff0000ffff);
         val = (val AND 0x00000000ffffffff) + (drop_bit 32 val AND 0x00000000ffffffff)
     in val)"

text \<open>One line of ctz: test the low \<open>n\<close> bits and skip them when they are zero;
  one line of clz: the same for the high bits.\<close>

definition ctz_line :: "nat \<Rightarrow> nat \<times> u64 \<Rightarrow> nat \<times> u64" where
  "ctz_line n = (\<lambda>(res, val).
     if push_bit (64 - n) val = 0 then (res + n, drop_bit n val) else (res, val))"

definition ctz :: "u64 \<Rightarrow> nat" where
  "ctz val =
    (if val = 0 then 0
     else fst (ctz_line 1 (ctz_line 2 (ctz_line 4 (ctz_line 8 (ctz_line 16
            (ctz_line 32 (0, val))))))))"

definition clz_line :: "nat \<Rightarrow> nat \<times> u64 \<Rightarrow> nat \<times> u64" where
  "clz_line n = (\<lambda>(res, val).
     if drop_bit (64 - n) val = 0 then (res + n, push_bit n val) else (res, val))"

definition clz :: "u64 \<Rightarrow> nat" where
  "clz val =
    (if val = 0 then 0
     else fst (clz_line 1 (clz_line 2 (clz_line 4 (clz_line 8 (clz_line 16
            (clz_line 32 (0, val))))))))"

function cto_loop :: "u64 \<Rightarrow> nat \<Rightarrow> nat" where
  "cto_loop val res =
     (if val AND 1 = 1 then cto_loop (drop_bit 1 val) (res + 1) else res)"
  by pat_completeness auto
termination
  proof (relation "measure (\<lambda>(v, r). unat v)")
  fix val :: u64 and res :: nat
  assume "val AND 1 = 1"
  then have "val \<noteq> 0" by auto
  then have "unat (drop_bit 1 val) < unat val"
    by (simp add: drop_bit_eq_div unat_div_distrib unat_gt_0)
  then show "((drop_bit 1 val, res + 1), val, res) \<in> measure (\<lambda>(v, r). unat v)" by simp
qed simp

definition log2_u64 :: "u64 \<Rightarrow> nat" where
  "log2_u64 val = (if val = 0 then 0 else 63 - clz val)"

section \<open>Permutation and rotation\<close>

definition xperm_step :: "u64 \<Rightarrow> u64 \<Rightarrow> nat \<Rightarrow> nat \<Rightarrow> nat \<Rightarrow> u64 \<Rightarrow> u64" where
  "xperm_step rs1 rs2 sz_log2 len i r =
    (let sz = 2 ^ sz_log2; mask = push_bit sz 1 - 1;
         pos = unat (push_bit sz_log2 (drop_bit i rs2 AND mask))
     in if pos < len then r OR push_bit i (drop_bit pos rs1 AND mask) else r)"

definition xperm :: "u64 \<Rightarrow> u64 \<Rightarrow> nat \<Rightarrow> nat \<Rightarrow> u64 option" where
  "xperm rs1 rs2 sz_log2 len =
    (if sz_log2 \<le> 6 \<and> len \<le> 64
     then Some (fold (xperm_step rs1 rs2 sz_log2 len)
                 (map (\<lambda>k. k * 2 ^ sz_log2) [0..<(len + 2 ^ sz_log2 - 1) div 2 ^ sz_log2]) 0)
     else None)"

definition rotate_right :: "'a::len word \<Rightarrow> u64 \<Rightarrow> 'a word" where
  "rotate_right x shiftamt =
    (let mask = of_nat (LENGTH('a) - 1);
         rshift = shiftamt AND mask; lshift = (- rshift) AND mask
     in push_bit (unat lshift) x OR drop_bit (unat rshift) x)"

definition rotate_left :: "'a::len word \<Rightarrow> u64 \<Rightarrow> 'a word" where
  "rotate_left x shiftamt =
    (let mask = of_nat (LENGTH('a) - 1);
         lshift = shiftamt AND mask; rshift = (- lshift) AND mask
     in push_bit (unat lshift) x OR drop_bit (unat rshift) x)"

end
