(* ===== verification/ArithFacts.thy ===== *)
theory ArithFacts
  imports Arith
begin

text \<open>
  What the helpers of \<^verbatim>\<open>riscv/arith.h\<close> compute, stated over the integers: the high
  products are the upper halves of the exact products, the saturating operations are the exact
  operations clamped to the range of the type, the counting functions are characterised by the
  bits of their argument, and the rotations move bit \<open>i + s\<close> to bit \<open>i\<close>.
\<close>

section \<open>High products\<close>

lemma recombine32:
  fixes t :: u64
  shows "push_bit 32 (ucast (ucast (drop_bit 32 t) :: u32)) OR ucast (ucast t :: u32) = t"
  by (rule bit_word_eqI) (auto simp: bit_simps)

lemma uint_low32: "uint (ucast (ucast (x::u64) :: u32) :: u64) = uint x mod 2^32"
  by (simp add: unsigned_ucast_eq take_bit_eq_mod uint_mod_distrib)

lemma uint_high: "uint (drop_bit n (x::u64)) = uint x div 2^n"
  by (metis drop_bit_eq_div unat_drop_bit_eq uint_nat of_nat_div of_nat_numeral of_nat_power)

lemma schoolbook_step:
  fixes W :: int
  assumes "p = W * p1 + p0" "a1 * b0 + p1 = W * h1 + l1" "a0 * b1 + l1 = W * h2 + l2"
  shows "(a1 * W + a0) * (b1 * W + b0) = (W * W) * (a1 * b1 + h1 + h2) + (l2 * W + p0) + (a0 * b0 - p)"
proof -
  have "(a1 * W + a0) * (b1 * W + b0) = a1 * b1 * W * W + (a1 * b0 + p1) * W + a0 * b1 * W - p1 * W + a0 * b0"
    by (simp add: algebra_simps)
  also have "\<dots> = a1 * b1 * W * W + (W * h1) * W + (a0 * b1 + l1) * W - p1 * W + a0 * b0"
    unfolding assms(2) by (simp add: algebra_simps)
  also have "\<dots> = a1 * b1 * W * W + (W * h1) * W + (W * h2 + l2) * W - p1 * W + a0 * b0"
    unfolding assms(3) ..
  finally show ?thesis using assms(1) by (simp add: algebra_simps)
qed

lemma schoolbook:
  fixes a0 a1 b0 b1 W :: int
  assumes W: "0 < W"
  defines "t1 \<equiv> a1 * b0 + a0 * b0 div W"
  defines "t2 \<equiv> a0 * b1 + t1 mod W"
  shows "(a1 * W + a0) * (b1 * W + b0) div (W * W) = a1 * b1 + t1 div W + t2 div W"
proof -
  have eq: "(a1 * W + a0) * (b1 * W + b0) =
      (W * W) * (a1 * b1 + t1 div W + t2 div W) + ((t2 mod W) * W + a0 * b0 mod W)"
    using schoolbook_step [of "a0 * b0" W "a0 * b0 div W" "a0 * b0 mod W" a1 b0 "t1 div W" "t1 mod W"
        a0 b1 "t2 div W" "t2 mod W"]
    by (simp add: t1_def t2_def)
  have "t2 mod W \<le> W - 1" using W by simp
  then have "(t2 mod W) * W \<le> (W - 1) * W" using W by (simp add: mult_right_mono)
  then have "(t2 mod W) * W + a0 * b0 mod W < W * W"
    using pos_mod_bound [OF W, of "a0 * b0"] unfolding left_diff_distrib by linarith
  moreover have "0 \<le> (t2 mod W) * W + a0 * b0 mod W" using W by simp
  ultimately have "((t2 mod W) * W + a0 * b0 mod W) div (W * W) = 0"
    by (simp add: div_pos_pos_trivial)
  with W show ?thesis unfolding eq by simp
qed

lemma half_prod_le:
  fixes x y :: int
  assumes "0 \<le> x" "x < 2^32" "0 \<le> y" "y < 2^32"
  shows "x * y \<le> (2^32 - 1) * (2^32 - 1)" "0 \<le> x * y"
  using assms mult_mono [of x "2^32 - 1" y "2^32 - 1"] by auto

lemma mulhu_high: "uint (mulhu a b) = (uint a * uint b) div 2 ^ 64"
proof -
  define a0 a1 b0 b1 where "a0 = uint a mod 2^32" and "a1 = uint a div 2^32"
    and "b0 = uint b mod 2^32" and "b1 = uint b div 2^32"
  have u64: "uint a < 2^64" "0 \<le> uint a" "uint b < 2^64" "0 \<le> uint b"
    using uint_lt2p [of a] uint_lt2p [of b] by auto
  have bounds: "0 \<le> a0" "a0 < 2^32" "0 \<le> a1" "a1 < 2^32" "0 \<le> b0" "b0 < 2^32" "0 \<le> b1" "b1 < 2^32"
    using u64 by (auto simp: a0_def a1_def b0_def b1_def pos_imp_zdiv_nonneg_iff)
  have prods: "a1 * b0 \<le> (2^32 - 1) * (2^32 - 1)" "0 \<le> a1 * b0"
      "a0 * b1 \<le> (2^32 - 1) * (2^32 - 1)" "0 \<le> a0 * b1"
      "a0 * b0 \<le> (2^32 - 1) * (2^32 - 1)" "0 \<le> a0 * b0"
      "a1 * b1 \<le> (2^32 - 1) * (2^32 - 1)" "0 \<le> a1 * b1"
    using bounds half_prod_le by blast+
  define t1 where "t1 = a1 * b0 + a0 * b0 div 2^32"
  define t2 where "t2 = a0 * b1 + t1 mod 2^32"
  define t3 where "t3 = a1 * b1 + t1 div 2^32 + t2 div 2^32"
  have t1: "0 \<le> t1" "t1 < 2^64" using prods by (auto simp: t1_def)
  have t2: "0 \<le> t2" "t2 < 2^64" using prods t1 by (auto simp: t2_def)
  have d: "0 \<le> t1 div 2^32" "t1 div 2^32 < 2^32" "0 \<le> t2 div 2^32" "t2 div 2^32 < 2^32"
    using t1 t2 by (auto simp: pos_imp_zdiv_nonneg_iff)
  then have t3: "0 \<le> t3" "t3 < 2^64" using prods(7,8) by (simp_all add: t3_def)
  define wa0 wa1 wb0 wb1 :: u64 where "wa0 = ucast (ucast a :: u32)" and "wa1 = drop_bit 32 a"
    and "wb0 = ucast (ucast b :: u32)" and "wb1 = drop_bit 32 b"
  have ws: "uint wa0 = a0" "uint wa1 = a1" "uint wb0 = b0" "uint wb1 = b1"
    by (simp_all only: wa0_def wa1_def wb0_def wb1_def a0_def a1_def b0_def b1_def uint_low32 uint_high)
  have mults: "uint (wa1 * wb0) = a1 * b0" "uint (wa0 * wb1) = a0 * b1"
      "uint (wa0 * wb0) = a0 * b0" "uint (wa1 * wb1) = a1 * b1"
    using prods ws by (simp_all add: uint_mult_lem [THEN iffD1])
  define w1 where "w1 = wa1 * wb0 + drop_bit 32 (wa0 * wb0)"
  have w1: "uint w1 = t1"
    using t1 unfolding w1_def t1_def
    by (subst uint_add_lem [THEN iffD1]) (simp_all only: uint_high mults, simp)
  define w2 where "w2 = wa0 * wb1 + ucast (ucast w1 :: u32)"
  have w2: "uint w2 = t2"
    using t2 unfolding w2_def t2_def
    by (subst uint_add_lem [THEN iffD1]) (simp_all only: uint_low32 mults w1, simp)
  define w3 where "w3 = wa1 * wb1 + ucast (ucast (drop_bit 32 w1) :: u32) + drop_bit 32 w2"
  have hi: "uint (ucast (ucast (drop_bit 32 w1) :: u32) :: u64) = t1 div 2^32"
    using d by (simp only: uint_low32 uint_high w1) simp
  have s: "uint (wa1 * wb1 + ucast (ucast (drop_bit 32 w1) :: u32)) = a1 * b1 + t1 div 2^32"
    using prods(7) d by (subst uint_add_lem [THEN iffD1]) (simp_all only: hi mults, simp)
  have w3: "uint w3 = t3"
    using t3 unfolding w3_def t3_def
    by (subst uint_add_lem [THEN iffD1]) (simp_all only: uint_high s w2, simp)
  have "mulhu a b = w3"
    unfolding mulhu_def Let_def w3_def w2_def w1_def wa0_def wa1_def wb0_def wb1_def by (rule recombine32)
  moreover have "uint a = a1 * 2^32 + a0" "uint b = b1 * 2^32 + b0"
    by (simp_all only: a0_def a1_def b0_def b1_def div_mult_mod_eq)
  then have "(uint a * uint b) div (2^32 * 2^32) = t3"
    using schoolbook [of "2^32" a1 a0 b1 b0] by (simp only: t3_def t2_def t1_def) simp
  ultimately show ?thesis using w3 by simp
qed

lemma uint_sint_mod: "uint (x::'a::len word) = sint x mod 2 ^ LENGTH('a)"
  by (simp add: uint_sint take_bit_eq_mod)

lemma sint_bounds64: "- (2^63) \<le> sint (x::u64)" "sint (x::u64) < 2^63"
  using sint_ge [of x] sint_lt [of x] by simp_all

lemma uint_of_abs64: "uint (if (x::u64) <s 0 then - x else x) = \<bar>sint x\<bar>"
proof (cases "sint x < 0")
  case True
  have "uint (- x) = (- uint x) mod 2 ^ 64"
    by (simp add: uint_word_ariths)
  also have "\<dots> = (- sint x) mod 2 ^ 64"
    by (simp add: uint_sint_mod [of x] mod_minus_eq)
  also have "\<dots> = - sint x"
    using True sint_bounds64 [of x] by simp
  finally show ?thesis using True by (simp add: word_sless_alt)
next
  case False
  then show ?thesis
    using sint_bounds64 [of x] by (simp add: word_sless_alt uint_sint_mod [of x])
qed

lemma sint_of_uint_small64:
  assumes "uint (x::u64) < 2^63"
  shows "sint x = uint x"
proof (cases "sint x < 0")
  case True
  then have "sint x mod 2^64 = sint x + 2^64"
    using sint_bounds64 [of x] mod_pos_pos_trivial [of "sint x + 2^64" "2^64"] by simp
  then show ?thesis using assms sint_bounds64 [of x] uint_sint_mod [of x] by simp
next
  case False
  then show ?thesis using sint_bounds64 [of x] uint_sint_mod [of x] by simp
qed

lemma neg_div_ceil:
  fixes P M :: int
  assumes "0 < M"
  shows "(- P) div M = - (P div M) - 1 + of_bool (P mod M = 0)"
  using assms by (simp add: zdiv_zminus1_eq_if)

lemma word_prod_zero_iff:
  "(a::u64) * b = 0 \<longleftrightarrow> (\<bar>sint a\<bar> * \<bar>sint b\<bar>) mod 2 ^ 64 = 0"
proof -
  have "a * b = 0 \<longleftrightarrow> uint (a * b) = 0" by (rule uint_0_iff [symmetric])
  also have "uint (a * b) = (sint a * sint b) mod 2 ^ 64"
    by (simp add: uint_word_ariths uint_sint_mod [of a] uint_sint_mod [of b] mod_mult_eq)
  also have "(sint a * sint b) mod 2 ^ 64 = 0 \<longleftrightarrow> 2 ^ 64 dvd \<bar>sint a * sint b\<bar>"
    by (simp add: mod_eq_0_iff_dvd)
  also have "\<dots> \<longleftrightarrow> (\<bar>sint a\<bar> * \<bar>sint b\<bar>) mod 2 ^ 64 = 0"
    by (simp add: mod_eq_0_iff_dvd abs_mult)
  finally show ?thesis .
qed

text \<open>The correction of \<^verbatim>\<open>mulh\<close> and \<^verbatim>\<open>mulhsu\<close>: complementing the high half
  of a magnitude gives the high half of the negated product.\<close>

lemma negated_high:
  fixes res :: u64 and P :: int
  assumes res: "uint res = P div 2 ^ 64" and P: "0 \<le> P" "P \<le> 2 ^ 127 "
  shows "sint (NOT res + of_bool (P mod 2 ^ 64 = 0)) = (- P) div 2 ^ 64"
proof -
  let ?c = "of_bool (P mod 2 ^ 64 = 0)"
  have hi: "0 \<le> P div 2^64" "P div 2 ^ 64 \<le> 2^63"
    using P by (auto simp: pos_imp_zdiv_nonneg_iff)
  have eq: "NOT res + ?c = (word_of_int ((- P) div 2 ^ 64) :: u64)"
  proof -
    have "NOT res = - res - 1" by (simp add: not_eq_complement)
    moreover have "res = word_of_int (P div 2 ^ 64)" by (metis res word_of_int_uint)
    ultimately show ?thesis
      by (subst neg_div_ceil) (auto simp: wi_hom_syms)
  qed
  have lo: "- (2^63) \<le> (- P) div 2 ^ 64" "(-P) div 2^64 < 2^63"
  proof -
    have "(- (2^127)) div 2^64 \<le> (- P) div (2^64::int)"
      using P by (intro zdiv_mono1) auto
    then show "- (2^63) \<le> (- P) div 2 ^ 64" by simp
    have "(- P) div (2^64::int) \<le> 0 div 2^64"
      using P by (intro zdiv_mono1) auto
    then show "(-P) div 2^64 < 2^63" by simp
  qed
  have "sint (word_of_int ((- P) div 2 ^ 64) :: u64) = (- P) div 2 ^ 64"
    unfolding sint_sbintrunc' using lo by (intro signed_take_bit_int_eq_self) simp_all
  then show ?thesis by (simp only: eq)
qed

lemma mulh_high: "sint (mulh a b) = (sint a * sint b) div 2 ^ 64"
proof -
  define P where "P = \<bar>sint a\<bar> * \<bar>sint b\<bar>"
  define res where "res = mulhu (if a <s 0 then - a else a) (if b <s 0 then - b else b)"
  have res: "uint res = P div 2 ^ 64"
    by (simp only: res_def P_def mulhu_high uint_of_abs64)
  have "\<bar>sint a\<bar> \<le> 2^63" "\<bar>sint b\<bar> \<le> 2^63" using sint_bounds64 [of a] sint_bounds64 [of b] by auto
  then have "P \<le> 2^63 * 2^63" unfolding P_def by (intro mult_mono) auto
  then have P: "0 \<le> P" "P \<le> 2 ^ 126" by (simp_all add: P_def)
  show ?thesis
  proof (cases "(a <s 0) \<noteq> (b <s 0)")
    case True
    then have "sint a * sint b = - P"
      by (auto simp: P_def word_sless_alt)
    moreover have "mulh a b = NOT res + of_bool (P mod 2 ^ 64 = 0)"
      using True by (simp add: mulh_def res_def word_prod_zero_iff P_def)
    ultimately show ?thesis using negated_high [OF res P(1)] P(2) by simp
  next
    case False
    then have "sint a * sint b = P"
      by (auto simp: P_def word_sless_alt abs_of_neg)
    moreover have "mulh a b = res"
      using False by (simp add: mulh_def res_def)
    moreover have "sint res = uint res"
    proof (rule sint_of_uint_small64)
      have "P div 2^64 \<le> 2^126 div 2^64" using P by (intro zdiv_mono1) auto
      then show "uint res < 2^63" using res by simp
    qed
    ultimately show ?thesis using res by simp
  qed
qed

lemma mulhsu_high: "sint (mulhsu a b) = (sint a * uint b) div 2 ^ 64"
proof -
  define P where "P = \<bar>sint a\<bar> * uint b"
  define res where "res = mulhu (if a <s 0 then - a else a) b"
  have res: "uint res = P div 2 ^ 64"
    by (simp only: res_def P_def mulhu_high uint_of_abs64)
  have "\<bar>sint a\<bar> \<le> 2^63" "uint b \<le> 2^64 - 1" "0 \<le> uint b"
    using sint_bounds64 [of a] uint_lt2p [of b] by auto
  then have "P \<le> 2^63 * (2^64 - 1)" unfolding P_def by (intro mult_mono) auto
  then have P: "0 \<le> P" "P < 2 ^ 127" by (simp_all add: P_def)
  have zero: "a * b = 0 \<longleftrightarrow> P mod 2 ^ 64 = 0"
  proof -
    have "uint (a * b) = (sint a * uint b) mod 2 ^ 64"
      by (simp add: uint_word_ariths uint_sint_mod [of a] mod_mult_left_eq)
    moreover have "(sint a * uint b) mod 2 ^ 64 = 0 \<longleftrightarrow> 2 ^ 64 dvd \<bar>sint a * uint b\<bar>"
      by (simp add: mod_eq_0_iff_dvd)
    moreover have "a * b = 0 \<longleftrightarrow> uint (a * b) = 0" by (rule uint_0_iff [symmetric])
    ultimately show ?thesis
      by (simp add: P_def mod_eq_0_iff_dvd abs_mult)
  qed
  show ?thesis
  proof (cases "a <s 0")
    case True
    then have "sint a * uint b = - P" by (auto simp: P_def word_sless_alt)
    moreover have "mulhsu a b = NOT res + of_bool (P mod 2 ^ 64 = 0)"
      using True by (simp only: mulhsu_def Let_def res_def [symmetric] zero if_True) (simp add: res_def)
    ultimately show ?thesis using negated_high [OF res P(1)] P(2) by simp
  next
    case False
    then have "sint a * uint b = P" by (auto simp: P_def word_sless_alt)
    moreover have "mulhsu a b = res"
      using False by (simp add: mulhsu_def res_def)
    moreover have "sint res = uint res"
    proof (rule sint_of_uint_small64)
      have "P div 2^64 \<le> (2^127 - 1) div 2^64" using P by (intro zdiv_mono1) auto
      then show "uint res < 2^63" using res by simp
    qed
    ultimately show ?thesis using res by simp
  qed
qed

section \<open>Saturation\<close>

definition smin :: "'a::len itself \<Rightarrow> int" where "smin _ = - (2 ^ (LENGTH('a) - 1))"
definition smax :: "'a::len itself \<Rightarrow> int" where "smax _ = 2 ^ (LENGTH('a) - 1) - 1"
definition clamp :: "int \<Rightarrow> int \<Rightarrow> int \<Rightarrow> int" where "clamp lo hi x = max lo (min hi x)"

lemma sint_range: "smin TYPE('a) \<le> sint (x::'a::len word)" "sint x \<le> smax TYPE('a)"
  using sint_ge [of x] sint_lt [of x] by (auto simp: smin_def smax_def)

lemma signed_wrap:
  fixes s :: int
  assumes "3 * smin TYPE('a::len) \<le> s" "s < - 3 * smin TYPE('a)"
  shows "sint (word_of_int s :: 'a word) =
    (if s < smin TYPE('a) then s - 2 * smin TYPE('a)
     else if smax TYPE('a) < s then s + 2 * smin TYPE('a) else s)"
proof -
  define N where "N = (2::int) ^ (LENGTH('a) - 1)"
  have len: "Suc (LENGTH('a) - 1) = LENGTH('a)" by simp
  have N: "0 < N" "(2::int) ^ LENGTH('a) = 2 * N"
    unfolding N_def by (simp, metis len power_Suc)
  have a: "- (3 * N) \<le> s" "s < 3 * N" using assms by (simp_all add: smin_def N_def)
  have "sint (word_of_int s :: 'a word) = (s + N) mod (2 * N) - N"
    by (simp only: sint_sbintrunc' signed_take_bit_eq_take_bit_shift len take_bit_eq_mod N_def [symmetric] N(2))
  moreover consider "s < - N" | "- N \<le> s" "s < N" | "N \<le> s" by linarith
  then have "(s + N) mod (2 * N) - N = (if s < - N then s + 2 * N else if N - 1 < s then s - 2 * N else s)"
  proof cases
    case 1
    have "(s + N) mod (2 * N) = (s + N + 2 * N) mod (2 * N)" by (rule mod_add_self2 [symmetric])
    also have "\<dots> = s + N + 2 * N"
      using a 1 N(1) by (intro mod_pos_pos_trivial) auto
    finally show ?thesis using 1 by simp
  next
    case 2
    then show ?thesis by simp
  next
    case 3
    have "(s + N) mod (2 * N) = (s - N + 2 * N) mod (2 * N)" by (simp add: add.commute)
    also have "\<dots> = (s - N) mod (2 * N)" by (rule mod_add_self2)
    also have "\<dots> = s - N"
      using a 3 N(1) by (intro mod_pos_pos_trivial) auto
    finally show ?thesis using 3 N by simp
  qed
  ultimately show ?thesis by (simp add: smin_def smax_def N_def)
qed

lemma sint_plus_wrap:
  fixes x y :: "'a::len word"
  defines "s \<equiv> sint x + sint y"
  shows "sint (x + y) =
    (if s < smin TYPE('a) then s - 2 * smin TYPE('a)
     else if smax TYPE('a) < s then s + 2 * smin TYPE('a) else s)"
proof -
  have "x + y = word_of_int s" by (simp add: s_def)
  moreover have "3 * smin TYPE('a) \<le> s" "s < - 3 * smin TYPE('a)"
    using sint_range [of x] sint_range [of y]
    by (auto simp: s_def smin_def smax_def)
  ultimately show ?thesis by (simp only: signed_wrap)
qed

lemma sint_minus_wrap:
  fixes x y :: "'a::len word"
  defines "s \<equiv> sint x - sint y"
  shows "sint (x - y) =
    (if s < smin TYPE('a) then s - 2 * smin TYPE('a)
     else if smax TYPE('a) < s then s + 2 * smin TYPE('a) else s)"
proof -
  have "x - y = word_of_int s" by (simp add: s_def)
  moreover have "3 * smin TYPE('a) \<le> s" "s < - 3 * smin TYPE('a)"
    using sint_range [of x] sint_range [of y]
    by (auto simp: s_def smin_def smax_def)
  ultimately show ?thesis by (simp only: signed_wrap)
qed

text \<open>The bound that the saturating templates compute from the sign bit of \<open>x\<close>.\<close>

lemma sint_sat_bound:
  "sint (drop_bit (LENGTH('a) - 1) x + (push_bit (LENGTH('a) - 1) 1 - 1)) =
     (if sint (x::'a::len word) < 0 then smin TYPE('a) else smax TYPE('a))"
proof -
  have d: "drop_bit (LENGTH('a) - 1) x = of_bool (bit x (LENGTH('a) - 1))"
  proof (rule bit_word_eqI)
    fix n
    show "bit (drop_bit (LENGTH('a) - 1) x) n = bit (of_bool (bit x (LENGTH('a) - 1)) :: 'a word) n"
      by (cases n) (auto simp: bit_simps dest: bit_imp_le_length)
  qed
  have p: "push_bit (LENGTH('a) - 1) 1 = (word_of_int (- smin TYPE('a)) :: 'a word)"
    by (simp add: push_bit_eq_mult smin_def)
  define M where "M = (2::int) ^ (LENGTH('a) - 1)"
  have M: "1 \<le> M" "smin TYPE('a) = - M" "smax TYPE('a) = M - 1"
    by (simp_all add: M_def smin_def smax_def)
  show ?thesis
  proof (cases "sint x < 0")
    case True
    then have "drop_bit (LENGTH('a) - 1) x + (push_bit (LENGTH('a) - 1) 1 - 1)
        = (word_of_int (- smin TYPE('a)) :: 'a word)"
      unfolding d p by (simp add: bit_last_iff)
    also have "sint \<dots> = smin TYPE('a)"
      using M by (subst signed_wrap) simp_all
    finally show ?thesis using True by simp
  next
    case False
    then have "drop_bit (LENGTH('a) - 1) x + (push_bit (LENGTH('a) - 1) 1 - 1)
        = (word_of_int (smax TYPE('a)) :: 'a word)"
      unfolding d p by (simp add: bit_last_iff smin_def smax_def)
    also have "sint \<dots> = smax TYPE('a)"
      using M by (subst signed_wrap) simp_all
    finally show ?thesis using False by simp
  qed
qed

lemma sign_xor: "sint ((x::'a::len word) XOR y) < 0 \<longleftrightarrow> (sint x < 0) \<noteq> (sint y < 0)"
  by (simp add: msb_sint_neg [symmetric] bit_simps)

lemma sign_and: "sint ((x::'a::len word) AND y) < 0 \<longleftrightarrow> (sint x < 0) \<and> (sint y < 0)"
  by (simp add: msb_sint_neg [symmetric] bit_simps)

lemma sign_or: "sint ((x::'a::len word) OR y) < 0 \<longleftrightarrow> (sint x < 0) \<or> (sint y < 0)"
  by (simp add: msb_sint_neg [symmetric] bit_simps)

lemma sign_not: "sint (NOT (x::'a::len word)) < 0 \<longleftrightarrow> \<not> sint x < 0"
  by (simp add: msb_sint_neg [symmetric] bit_simps)

lemma sless0: "(x::'a::len word) <s 0 \<longleftrightarrow> sint x < 0" by (simp add: word_sless_alt)
lemma sle0: "0 \<le>s (x::'a::len word) \<longleftrightarrow> \<not> sint x < 0" by (auto simp: word_sle_eq)

lemma smin_neg: "smin TYPE('a::len) < 0" "0 \<le> smax TYPE('a)" "smax TYPE('a) = - smin TYPE('a) - 1"
  by (auto simp: smin_def smax_def)

lemma sat_add_clamp:
  fixes x y :: "'a::len word"
  shows "sint (fst (sat_add x y)) = clamp (smin TYPE('a)) (smax TYPE('a)) (sint x + sint y)"
    and "snd (sat_add x y) \<longleftrightarrow> sint x + sint y < smin TYPE('a) \<or> smax TYPE('a) < sint x + sint y"
  using sint_range [of x] sint_range [of y] smin_neg [where 'a='a] sint_plus_wrap [of x y] sint_sat_bound [of x]
  by (auto simp: sat_add_def Let_def sle0 sign_or sign_xor sign_not clamp_def split: if_splits)

lemma sat_sub_clamp:
  fixes x y :: "'a::len word"
  shows "sint (fst (sat_sub x y)) = clamp (smin TYPE('a)) (smax TYPE('a)) (sint x - sint y)"
    and "snd (sat_sub x y) \<longleftrightarrow> sint x - sint y < smin TYPE('a) \<or> smax TYPE('a) < sint x - sint y"
  using sint_range [of x] sint_range [of y] smin_neg [where 'a='a] sint_minus_wrap [of x y] sint_sat_bound [of x]
  by (auto simp: sat_sub_def Let_def sless0 sign_and sign_xor clamp_def split: if_splits)

lemma clamp_pair:
  fixes x y z lo hi :: int
  assumes "lo < 0" "hi = - lo - 1" "lo \<le> x" "x \<le> hi" "lo \<le> y" "y \<le> hi" "lo \<le> z" "z \<le> hi"
    and "(x < 0) \<noteq> (y < 0) \<or> (y < 0) = (z < 0)"
  shows "clamp lo hi (clamp lo hi (x + y) + z) = clamp lo hi (x + y + z)"
    and "(x + y < lo \<or> hi < x + y \<or> clamp lo hi (x + y) + z < lo \<or> hi < clamp lo hi (x + y) + z)
      \<longleftrightarrow> (x + y + z < lo \<or> hi < x + y + z)"
  using assms by (auto simp: clamp_def min_def max_def)

lemma sat_add3_clamp:
  fixes x y z :: "'a::len word"
  shows "sint (fst (sat_add3 x y z)) = clamp (smin TYPE('a)) (smax TYPE('a)) (sint x + sint y + sint z)"
    and "snd (sat_add3 x y z) \<longleftrightarrow> sint x + sint y + sint z < smin TYPE('a) \<or> smax TYPE('a) < sint x + sint y + sint z"
proof -
  define w where "w = (((y XOR z) AND (x XOR z)) <s 0)"
  define a b where "a = (if w then z else y)" and "b = (if w then y else z)"
  define r where "r = fst (sat_add x a)"
  have w: "w \<longleftrightarrow> (sint y < 0) \<noteq> (sint z < 0) \<and> (sint x < 0) \<noteq> (sint z < 0)"
    by (simp add: w_def sless0 sign_and sign_xor)
  have eq: "sat_add3 x y z = (fst (sat_add r b), snd (sat_add x a) \<or> snd (sat_add r b))"
    by (auto simp: sat_add3_def w_def a_def b_def r_def split: prod.splits if_splits)
  have r: "sint r = clamp (smin TYPE('a)) (smax TYPE('a)) (sint x + sint a)"
    by (simp add: r_def sat_add_clamp)
  have "clamp (smin TYPE('a)) (smax TYPE('a)) (sint r + sint b) =
      clamp (smin TYPE('a)) (smax TYPE('a)) (sint x + sint a + sint b)"
    and "(sint x + sint a < smin TYPE('a) \<or> smax TYPE('a) < sint x + sint a \<or>
       sint r + sint b < smin TYPE('a) \<or> smax TYPE('a) < sint r + sint b) \<longleftrightarrow>
      (sint x + sint a + sint b < smin TYPE('a) \<or> smax TYPE('a) < sint x + sint a + sint b)"
    unfolding r using w sint_range smin_neg
    by (intro clamp_pair; auto simp: a_def b_def)+
  moreover have "sint x + sint a + sint b = sint x + sint y + sint z"
    by (simp add: a_def b_def)
  ultimately show "sint (fst (sat_add3 x y z)) = clamp (smin TYPE('a)) (smax TYPE('a)) (sint x + sint y + sint z)"
    and "snd (sat_add3 x y z) \<longleftrightarrow>
      sint x + sint y + sint z < smin TYPE('a) \<or> smax TYPE('a) < sint x + sint y + sint z"
    by (simp_all add: eq sat_add_clamp)
qed

lemma sat_addu_clamp:
  fixes x y :: "'a::len word"
  shows "uint (fst (sat_addu x y)) = min (2 ^ LENGTH('a) - 1) (uint x + uint y)"
    and "snd (sat_addu x y) \<longleftrightarrow> 2 ^ LENGTH('a) \<le> uint x + uint y"
proof -
  have c: "x + y < x \<longleftrightarrow> 2 ^ LENGTH('a) \<le> uint x + uint y"
    using no_olen_add [of x y] by (auto simp: not_le)
  show "snd (sat_addu x y) \<longleftrightarrow> 2 ^ LENGTH('a) \<le> uint x + uint y"
    by (simp add: sat_addu_def c)
  show "uint (fst (sat_addu x y)) = min (2 ^ LENGTH('a) - 1) (uint x + uint y)"
  proof (cases "x + y < x")
    case True
    then have "fst (sat_addu x y) = - 1" by (simp add: sat_addu_def Let_def)
    then show ?thesis using True c by (simp add: unsigned_minus_1_eq_mask mask_eq_exp_minus_1)
  next
    case False
    then have "fst (sat_addu x y) = x + y" by (simp add: sat_addu_def Let_def)
    then show ?thesis using False c uint_add_lem [of x y] by simp
  qed
qed

lemma sat_subu_clamp:
  fixes x y :: "'a::len word"
  shows "uint (fst (sat_subu x y)) = max 0 (uint x - uint y)"
    and "snd (sat_subu x y) \<longleftrightarrow> uint x < uint y"
proof -
  have c: "x - y \<le> x \<longleftrightarrow> y \<le> x"
    by (rule word_sub_le_iff)
  show "snd (sat_subu x y) \<longleftrightarrow> uint x < uint y"
    by (simp only: sat_subu_def Let_def snd_conv c) (simp add: word_le_def not_le)
  show "uint (fst (sat_subu x y)) = max 0 (uint x - uint y)"
    by (cases "y \<le> x") (simp_all add: sat_subu_def Let_def c [unfolded word_le_def] word_le_def uint_sub_lem [THEN iffD1])
qed

section \<open>Bit fields and counting\<close>

lemma extract64_Some:
  assumes "0 \<le> pos" "0 < len" "len \<le> 64 - pos"
  shows "\<exists>v. extract64 val pos len = Some v \<and> uint v = (uint val div 2 ^ nat pos) mod 2 ^ nat len"
proof -
  have m: "drop_bit (nat (64 - len)) (NOT 0) = (mask (nat len) :: u64)"
    using assms by (intro bit_word_eqI) (auto simp: bit_simps)
  have "uint (drop_bit (nat pos) val AND mask (nat len)) = (uint val div 2 ^ nat pos) mod 2 ^ nat len"
    using uint_lt2p [of val]
    by (simp add: take_bit_eq_mask [symmetric] unsigned_take_bit_eq unsigned_drop_bit_eq
        take_bit_eq_mod [where 'a=int] drop_bit_eq_div [where 'a=int])
  then show ?thesis using assms m by (simp add: extract64_def del: drop_bit_minus_one)
qed

lemma make_mask64_bit:
  assumes "make_mask64 pos len = Some m"
  shows "bit m i \<longleftrightarrow> nat pos \<le> i \<and> i < nat pos + nat len \<and> i < 64"
  using assms by (auto simp: make_mask64_def bit_simps split: if_splits)

lemma ctz_line_inv:
  assumes "n < 64" "val = drop_bit res v" "\<forall>i<res. \<not> bit v i" "val \<noteq> 0" "\<exists>k<2 * n. bit val k"
  shows "case ctz_line n (res, val) of (r', v') \<Rightarrow>
    v' = drop_bit r' v \<and> (\<forall>i<r'. \<not> bit v i) \<and> v' \<noteq> 0 \<and> (\<exists>k<n. bit v' k)"
proof (cases "push_bit (64 - n) val = 0")
  case True
  have low: "\<not> bit val i" if "i < n" for i
  proof -
    have "bit (push_bit (64 - n) val) (64 - n + i) \<longleftrightarrow> bit val i"
      using that assms(1) by (auto simp: bit_simps)
    then show ?thesis using True by simp
  qed
  from assms(5) obtain k where k: "k < 2 * n" "bit val k" by blast
  with low have "n \<le> k" by (metis not_le)
  with k have k': "bit (drop_bit n val) (k - n)" "k - n < n" by (auto simp: bit_simps)
  have "\<not> bit v i" if "i < res + n" for i
    using that assms(2,3) low [of "i - res"] by (cases "i < res") (auto simp: bit_simps)
  moreover have "drop_bit n val \<noteq> 0" using k' by auto
  ultimately show ?thesis using True k' assms(2)
    by (auto simp: ctz_line_def add.commute)
next
  case False
  then obtain j where "bit (push_bit (64 - n) val) j" by (auto simp: bit_eq_iff)
  then have "bit val (j - (64 - n))" "j - (64 - n) < n"
    using assms(1) by (auto simp: bit_simps)
  then show ?thesis using False assms by (auto simp: ctz_line_def)
qed

lemma ctz_correct:
  assumes "v \<noteq> 0"
  shows "bit v (ctz v) \<and> (\<forall>i<ctz v. \<not> bit v i)"
proof -
  define P where "P n = (\<lambda>(r, w). w = drop_bit r v \<and> (\<forall>i<r. \<not> bit v i) \<and> w \<noteq> 0 \<and> (\<exists>k<n. bit w k))" for n :: nat
  have step: "P (2 * n) s \<Longrightarrow> n < 64 \<Longrightarrow> P n (ctz_line n s)" for n s
    using ctz_line_inv [of n "snd s" "fst s" v] by (cases s) (auto simp: P_def)
  from assms obtain k where "bit v k" by (auto simp: bit_eq_iff)
  then have "P 64 (0, v)" using assms bit_imp_le_length [of v k] by (auto simp: P_def)
  then have "P 32 (ctz_line 32 (0, v))" using step [of 32] by simp
  then have "P 16 (ctz_line 16 (ctz_line 32 (0, v)))" using step [of 16] by simp
  then have "P 8 (ctz_line 8 (ctz_line 16 (ctz_line 32 (0, v))))" using step [of 8] by simp
  then have "P 4 (ctz_line 4 (ctz_line 8 (ctz_line 16 (ctz_line 32 (0, v)))))" using step [of 4] by simp
  then have "P 2 (ctz_line 2 (ctz_line 4 (ctz_line 8 (ctz_line 16 (ctz_line 32 (0, v))))))" using step [of 2] by simp
  then have "P 1 (ctz_line 1 (ctz_line 2 (ctz_line 4 (ctz_line 8 (ctz_line 16 (ctz_line 32 (0, v)))))))"
    using step [of 1] by simp
  then show ?thesis using assms by (auto simp: P_def ctz_def bit_simps split: prod.splits)
qed

lemma le_63: "63 \<le> k \<Longrightarrow> k < 64 \<Longrightarrow> k = (63::nat)" by simp

lemma clz_line_inv:
  assumes "n < 64" "val = push_bit res v" "\<forall>i. 64 - res \<le> i \<longrightarrow> \<not> bit v i" "res < 64"
    "\<exists>k<64. 64 - 2 * n \<le> k \<and> bit val k"
  shows "case clz_line n (res, val) of (r', v') \<Rightarrow>
    v' = push_bit r' v \<and> (\<forall>i. 64 - r' \<le> i \<longrightarrow> \<not> bit v i) \<and> r' < 64 \<and> (\<exists>k<64. 64 - n \<le> k \<and> bit v' k)"
proof (cases "drop_bit (64 - n) val = 0")
  case True
  have high: "\<not> bit val i" if "64 - n \<le> i" for i
  proof -
    have "bit (drop_bit (64 - n) val) (i - (64 - n)) \<longleftrightarrow> bit val i"
      using that by (auto simp: bit_simps)
    then show ?thesis using True by simp
  qed
  from assms(5) obtain k where k: "k < 64" "64 - 2 * n \<le> k" "bit val k" by blast
  with high have kn: "k < 64 - n" by (metis not_le)
  have "bit v (k - res)" "res \<le> k" using k assms(2) by (auto simp: bit_simps)
  with kn have rn: "res + n < 64" by simp
  have k': "bit (push_bit n val) (k + n)" using k kn by (auto simp: bit_simps)
  have "\<not> bit v i" if "64 - (res + n) \<le> i" for i
    using that assms(2,3) high [of "i + res"] rn by (cases "64 - res \<le> i") (auto simp: bit_simps)
  moreover have "push_bit n val = push_bit (res + n) v" using assms(2) by (simp add: add.commute)
  ultimately show ?thesis using True k' kn k rn
    by (auto simp: clz_line_def intro!: exI [of _ "k + n"])
next
  case False
  then obtain j where "bit (drop_bit (64 - n) val) j" by (auto simp: bit_eq_iff)
  then have "bit val (64 - n + j)" "64 - n + j < 64"
    using bit_imp_le_length [of val "64 - n + j"] by (auto simp: bit_simps)
  then show ?thesis using False assms by (auto simp: clz_line_def intro!: exI [of _ "64 - n + j"])
qed

lemma clz_correct:
  assumes "v \<noteq> 0"
  shows "clz v < 64 \<and> bit v (63 - clz v) \<and> (\<forall>i>63 - clz v. \<not> bit v i)"
proof -
  define P where "P n = (\<lambda>(r, w). w = push_bit r v \<and> (\<forall>i. 64 - r \<le> i \<longrightarrow> \<not> bit v i) \<and> r < 64
    \<and> (\<exists>k<64. 64 - n \<le> k \<and> bit w k))" for n :: nat
  have step: "P (2 * n) s \<Longrightarrow> n < 64 \<Longrightarrow> P n (clz_line n s)" for n s
    using clz_line_inv [of n "snd s" "fst s" v] by (cases s) (auto simp: P_def)
  from assms obtain k where "bit v k" by (auto simp: bit_eq_iff)
  then have "P 64 (0, v)" using bit_imp_le_length [of v] by (auto simp: P_def dest: bit_imp_le_length)
  then have "P 32 (clz_line 32 (0, v))" using step [of 32] by simp
  then have "P 16 (clz_line 16 (clz_line 32 (0, v)))" using step [of 16] by simp
  then have "P 8 (clz_line 8 (clz_line 16 (clz_line 32 (0, v))))" using step [of 8] by simp
  then have "P 4 (clz_line 4 (clz_line 8 (clz_line 16 (clz_line 32 (0, v)))))" using step [of 4] by simp
  then have "P 2 (clz_line 2 (clz_line 4 (clz_line 8 (clz_line 16 (clz_line 32 (0, v))))))" using step [of 2] by simp
  then have "P 1 (clz_line 1 (clz_line 2 (clz_line 4 (clz_line 8 (clz_line 16 (clz_line 32 (0, v)))))))"
    using step [of 1] by simp
  moreover define r w where "r = fst (clz_line 1 (clz_line 2 (clz_line 4 (clz_line 8 (clz_line 16 (clz_line 32 (0, v)))))))"
    and "w = snd (clz_line 1 (clz_line 2 (clz_line 4 (clz_line 8 (clz_line 16 (clz_line 32 (0, v)))))))"
  ultimately have r: "w = push_bit r v" "\<forall>i. 64 - r \<le> i \<longrightarrow> \<not> bit v i" "r < 64" "bit w 63"
    by (auto simp: P_def split: prod.splits dest!: le_63)
  then have "bit v (63 - r)" by (simp add: bit_simps)
  moreover have "clz v = r" using assms by (simp add: clz_def r_def)
  moreover have "\<not> bit v i" if "63 - r < i" for i
    using r(2,3) that by (auto simp: Suc_diff_Suc Suc_le_eq)
  ultimately show ?thesis using r by auto
qed

lemma unat_ge_bit: "bit (v::u64) n \<Longrightarrow> 2 ^ n \<le> unat v"
proof -
  assume "bit v n"
  then have "odd (unat v div 2 ^ n)" by (simp add: bit_iff_odd [symmetric] bit_unsigned_iff)
  then have "unat v div 2 ^ n \<noteq> 0" by (metis even_zero)
  then show ?thesis by (metis div_less not_le)
qed

lemma unat_less_bits: "(\<forall>i\<ge>n. \<not> bit (v::u64) i) \<Longrightarrow> unat v < 2 ^ n"
proof -
  assume "\<forall>i\<ge>n. \<not> bit v i"
  then have "take_bit n v = v" by (intro bit_word_eqI) (auto simp: bit_simps, metis not_less)
  then have "take_bit n (unat v) = unat v" by (metis unsigned_take_bit_eq)
  then show ?thesis by (simp add: take_bit_nat_eq_self_iff)
qed

lemma log2_u64_correct:
  assumes "v \<noteq> 0"
  shows "2 ^ log2_u64 v \<le> unat v \<and> unat v < 2 ^ Suc (log2_u64 v)"
  using clz_correct [OF assms] assms
  by (auto simp: log2_u64_def simp del: power_Suc intro!: unat_ge_bit unat_less_bits)

declare cto_loop.simps [simp del]

lemma cto_loop_correct:
  "\<exists>n. cto_loop v r = r + n \<and> \<not> bit v n \<and> (\<forall>i<n. bit v i)"
proof (induction v r rule: cto_loop.induct)
  case (1 v r)
  have b0: "v AND 1 = 1 \<longleftrightarrow> bit v 0" by (simp add: and_one_eq bit_0 mod_2_eq_odd)
  show ?case
  proof (cases "bit v 0")
    case True
    then obtain n where n: "cto_loop (drop_bit 1 v) (r + 1) = r + 1 + n" "\<not> bit (drop_bit 1 v) n"
      "\<forall>i<n. bit (drop_bit 1 v) i" using "1.IH" b0 by blast
    then have "cto_loop v r = r + Suc n \<and> \<not> bit v (Suc n)" using True b0
      by (subst cto_loop.simps) (simp add: bit_simps)
    moreover have "bit v i" if "i < Suc n" for i
      using that n(3) True by (cases i) (auto simp: bit_simps)
    ultimately show ?thesis by blast
  next
    case False
    then show ?thesis using b0 by (subst cto_loop.simps) (auto intro!: exI [of _ 0])
  qed
qed

text \<open>Reading a number as two interleaved sequences of \<open>w\<close>-bit digits.\<close>

fun pairs_value :: "nat \<Rightarrow> (int \<times> int) list \<Rightarrow> int" where
  "pairs_value w [] = 0"
| "pairs_value w ((a, b) # ps) = (a + 2 ^ w * b) + 2 ^ (2 * w) * pairs_value w ps"

fun even_mask :: "nat \<Rightarrow> nat \<Rightarrow> int" where
  "even_mask w 0 = 0"
| "even_mask w (Suc n) = mask w + 2 ^ (2 * w) * even_mask w n"

fun pair_sums :: "nat \<Rightarrow> (int \<times> int) list \<Rightarrow> int" where
  "pair_sums w [] = 0"
| "pair_sums w ((a, b) # ps) = (a + b) + 2 ^ (2 * w) * pair_sums w ps"

definition digits_ok :: "nat \<Rightarrow> (int \<times> int) list \<Rightarrow> bool" where
  "digits_ok w ps \<longleftrightarrow> (\<forall>(a, b) \<in> set ps. 0 \<le> a \<and> a < 2 ^ w \<and> 0 \<le> b \<and> b < 2 ^ w)"

lemma and_concat:
  fixes x y p q :: int
  assumes "0 \<le> x" "x < 2 ^ k" "0 \<le> p" "p < 2 ^ k"
  shows "(x + 2 ^ k * y) AND (p + 2 ^ k * q) = (x AND p) + 2 ^ k * (y AND q)"
proof -
  have t: "take_bit k x = x" "take_bit k p = p" using assms by (simp_all add: take_bit_int_eq_self)
  have c: "concat_bit k u v = u + 2 ^ k * v" if "take_bit k u = u" for u v :: int
    using that by (simp add: concat_bit_eq push_bit_eq_mult mult.commute)
  have "concat_bit k x y AND concat_bit k p q = concat_bit k (x AND p) (y AND q)"
    by (rule bit_eqI) (auto simp: bit_concat_bit_iff bit_and_iff)
  then show ?thesis using t by (simp add: c take_bit_and)
qed

lemma two_digits:
  fixes a b :: int
  assumes "0 \<le> a" "a < 2 ^ w" "0 \<le> b" "b < 2 ^ w"
  shows "0 \<le> a + 2 ^ w * b" "a + 2 ^ w * b < 2 ^ (2 * w)" "(a + 2 ^ w * b) AND mask w = a"
    "drop_bit w (a + 2 ^ w * b) = b"
proof -
  have "a + 2 ^ w * b < 2 ^ w + 2 ^ w * b" using assms by simp
  also have "\<dots> = 2 ^ w * (b + 1)" by (simp add: algebra_simps)
  also have "\<dots> \<le> 2 ^ w * 2 ^ w" using assms by simp
  finally show "a + 2 ^ w * b < 2 ^ (2 * w)" by (simp add: mult_2 power_add)
  show "(a + 2 ^ w * b) AND mask w = a" "drop_bit w (a + 2 ^ w * b) = b"
    using assms by (simp_all add: take_bit_eq_mask [symmetric] take_bit_eq_mod drop_bit_eq_div)
qed (use assms in simp)

lemma pow_twice: "(2::int) ^ (2 * w) = 2 ^ w * 2 ^ w" "(2::int) ^ (w * 2) = 2 ^ w * 2 ^ w"
    "(2::int) ^ (w * 4) = 2 ^ w * 2 ^ w * (2 ^ w * 2 ^ w)"
  by (simp_all flip: power_add)

lemma mask_bounds: "(0::int) \<le> mask w" "(mask w :: int) < 2 ^ (2 * w)"
proof -
  have "(mask w :: int) < 2 ^ w" by (simp add: mask_eq_exp_minus_1)
  also have "(2::int) ^ w \<le> 2 ^ (2 * w)" by (simp add: power_increasing)
  finally show "(mask w :: int) < 2 ^ (2 * w)" .
qed simp

lemma swar_step:
  assumes "digits_ok w ps"
  shows "(pairs_value w ps AND even_mask w (length ps)) +
    (drop_bit w (pairs_value w ps) AND even_mask w (length ps)) = pair_sums w ps"
  using assms
proof (induction ps)
  case (Cons p ps)
  obtain a b where p: "p = (a, b)" by (cases p)
  let ?V = "pairs_value w ps" and ?M = "even_mask w (length ps)"
  have ab: "0 \<le> a" "a < 2 ^ w" "0 \<le> b" "b < 2 ^ w" and ok: "digits_ok w ps"
    using Cons.prems by (auto simp: digits_ok_def p)
  have even: "pairs_value w (p # ps) AND even_mask w (length (p # ps)) = a + 2 ^ (2 * w) * (?V AND ?M)"
    using and_concat [of "a + 2 ^ w * b" "2 * w" "mask w" ?V ?M] two_digits [OF ab] mask_bounds [of w]
    by (simp add: p)
  have t: "0 \<le> take_bit w ?V" "take_bit w ?V < 2 ^ w" by simp_all
  have "drop_bit w (pairs_value w (p # ps)) = b + 2 ^ w * ?V"
  proof -
    have "pairs_value w (p # ps) = a + 2 ^ w * (b + 2 ^ w * ?V)"
      by (simp add: p algebra_simps pow_twice)
    then show ?thesis using ab by (simp add: drop_bit_eq_div)
  qed
  also have "\<dots> = b + 2 ^ w * (2 ^ w * drop_bit w ?V + take_bit w ?V)"
    by (simp add: drop_bit_eq_div take_bit_eq_mod)
  also have "\<dots> = (b + 2 ^ w * take_bit w ?V) + 2 ^ (2 * w) * drop_bit w ?V"
    by (simp add: algebra_simps pow_twice)
  finally have odd: "drop_bit w (pairs_value w (p # ps)) AND even_mask w (length (p # ps)) =
      b + 2 ^ (2 * w) * (drop_bit w ?V AND ?M)"
    using and_concat [of "b + 2 ^ w * take_bit w ?V" "2 * w" "mask w" "drop_bit w ?V" ?M]
      two_digits [OF ab(3,4) t] mask_bounds [of w]
    by simp
  have "pair_sums w (p # ps) = a + b + 2 ^ (2 * w) * ((?V AND ?M) + (drop_bit w ?V AND ?M))"
    by (simp add: p Cons.IH [OF ok])
  then show ?case unfolding even odd by (simp add: algebra_simps)
qed simp

text \<open>The sums of one step, read again as pairs of digits of twice the width.\<close>

fun repair :: "(int \<times> int) list \<Rightarrow> (int \<times> int) list" where
  "repair ((a, b) # (c, d) # ps) = (a + b, c + d) # repair ps"
| "repair _ = []"

lemma pair_sums_repair:
  "even (length ps) \<Longrightarrow> pair_sums w ps = pairs_value (2 * w) (repair ps)"
  by (induction ps rule: repair.induct) (auto simp: algebra_simps pow_twice)

definition digits_le :: "int \<Rightarrow> (int \<times> int) list \<Rightarrow> bool" where
  "digits_le m ps \<longleftrightarrow> (\<forall>(a, b) \<in> set ps. 0 \<le> a \<and> a \<le> m \<and> 0 \<le> b \<and> b \<le> m)"

lemma digits_le_repair: "digits_le m ps \<Longrightarrow> digits_le (2 * m) (repair ps)"
  by (induction ps rule: repair.induct) (auto simp: digits_le_def)

lemma length_repair: "length (repair ps) = length ps div 2"
  by (induction ps rule: repair.induct) auto

fun pairs_total :: "(int \<times> int) list \<Rightarrow> int" where
  "pairs_total [] = 0"
| "pairs_total ((a, b) # ps) = a + b + pairs_total ps"

lemma pairs_total_repair: "even (length ps) \<Longrightarrow> pairs_total (repair ps) = pairs_total ps"
  by (induction ps rule: repair.induct) auto

definition bit_pairs :: "u64 \<Rightarrow> (int \<times> int) list" where
  "bit_pairs v = map (\<lambda>i. (of_bool (bit v (2 * i)), of_bool (bit v (2 * i + 1)))) [0..<32]"

lemma pairs_value_low:
  "pairs_value 1 (map (\<lambda>i. (of_bool (bit v (2 * i)), of_bool (bit v (2 * i + 1)))) [m..<m + n]) =
   take_bit (2 * n) (drop_bit (2 * m) v)" for v :: int
proof (induction n arbitrary: m)
  case (Suc n)
  have "[m..<m + Suc n] = m # [Suc m..<Suc m + n]" by (simp add: upt_rec)
  moreover have "take_bit (2 * Suc n) x = of_bool (bit x 0) + 2 * of_bool (bit x 1) + 4 * take_bit (2 * n) (drop_bit 2 x)"
    for x :: int
    by (simp add: take_bit_Suc bit_0 bit_Suc drop_bit_Suc mod_2_eq_odd numeral_2_eq_2 del: take_bit_rec)
  moreover have "drop_bit 2 (drop_bit (2 * m) v) = drop_bit (2 * Suc m) v" by simp
  ultimately show ?case using Suc.IH [of "Suc m"] by (simp add: bit_drop_bit_eq)
qed simp

lemma pairs_value_bits: "pairs_value 1 (bit_pairs v) = uint v"
proof -
  have "bit_pairs v =
      map (\<lambda>i. (of_bool (bit (uint v) (2 * i)), of_bool (bit (uint v) (2 * i + 1)))) [0..<0 + 32]"
    unfolding bit_pairs_def by (rule map_cong) (auto simp: bit_uint_iff)
  then have "pairs_value 1 (bit_pairs v) = take_bit 64 (uint v)"
    using pairs_value_low [of "uint v" 0 32] by simp
  then show ?thesis using uint_lt2p [of v] by (simp add: take_bit_int_eq_self)
qed

lemma pairs_value_bound:
  "digits_ok w ps \<Longrightarrow> 0 \<le> pairs_value w ps \<and> pairs_value w ps < 2 ^ (2 * w * length ps)"
proof (induction ps)
  case (Cons p ps)
  obtain a b where p: "p = (a, b)" by (cases p)
  have ab: "0 \<le> a" "a < 2 ^ w" "0 \<le> b" "b < 2 ^ w" and ok: "digits_ok w ps"
    using Cons.prems by (auto simp: digits_ok_def p)
  from Cons.IH [OF ok] have V: "0 \<le> pairs_value w ps" "pairs_value w ps + 1 \<le> 2 ^ (2 * w * length ps)" by auto
  have "(a + 2 ^ w * b) + 2 ^ (2 * w) * pairs_value w ps < 2 ^ (2 * w) * (pairs_value w ps + 1)"
    using two_digits(2) [OF ab] by (simp add: algebra_simps)
  also have "\<dots> \<le> 2 ^ (2 * w) * 2 ^ (2 * w * length ps)" using V(2) by (intro mult_left_mono) auto
  also have "\<dots> = 2 ^ (2 * w * length (p # ps))" by (simp add: power_add)
  finally show ?case using V(1) two_digits(1) [OF ab] by (simp add: p)
qed (simp add: digits_ok_def)

lemma digits_le_ok: "digits_le m ps \<Longrightarrow> m < 2 ^ w \<Longrightarrow> digits_ok w ps"
  by (fastforce simp: digits_le_def digits_ok_def)

lemma uint_drop64: "uint (drop_bit n (v::u64)) = drop_bit n (uint v)"
  using uint_lt2p [of v] by (simp add: unsigned_drop_bit_eq take_bit_int_eq_self)

lemma popcount_level:
  fixes val M :: u64
  assumes v: "uint val = pairs_value w ps" and d: "digits_ok w ps"
    and M: "uint M = even_mask w (length ps)" and s: "pair_sums w ps < 2 ^ 64"
  shows "uint ((val AND M) + (drop_bit w val AND M)) = pair_sums w ps"
proof -
  have "uint (val AND M) + uint (drop_bit w val AND M) = pair_sums w ps"
    by (simp only: unsigned_and_eq uint_drop64 v M swar_step [OF d])
  then show ?thesis using s uint_add_lem [of "val AND M" "drop_bit w val AND M"] by simp
qed

lemma popcount_next:
  fixes val M :: u64
  assumes "uint val = pairs_value w ps" "digits_le m ps" "m < 2 ^ w" "2 * w * length ps = 64"
    "even (length ps)" "uint M = even_mask w (length ps)" "0 < w"
  shows "uint ((val AND M) + (drop_bit w val AND M)) = pairs_value (2 * w) (repair ps)"
proof -
  have "2 * m < 2 * 2 ^ w" using assms(3) by simp
  also have "(2::int) * 2 ^ w \<le> 2 ^ w * 2 ^ w" using assms(7) by (simp add: mult_right_mono self_le_power)
  finally have "digits_ok (2 * w) (repair ps)"
    using assms(2) by (intro digits_le_ok [OF digits_le_repair]) (auto simp: pow_twice)
  moreover have "2 * (2 * w) * length (repair ps) = 64"
    using assms(4,5) by (auto simp: length_repair mult.commute elim!: evenE)
  ultimately have "pairs_value (2 * w) (repair ps) < 2 ^ 64"
    using pairs_value_bound [of "2 * w" "repair ps"] by metis
  then have "pair_sums w ps < 2 ^ 64" using assms(5) by (simp add: pair_sums_repair)
  then show ?thesis
    using popcount_level [OF assms(1) digits_le_ok [OF assms(2,3)] assms(6)] assms(5)
    by (simp add: pair_sums_repair)
qed

lemma even_masks:
  "even_mask 1 32 = 0x5555555555555555" "even_mask 2 16 = 0x3333333333333333"
  "even_mask 4 8 = 0x0f0f0f0f0f0f0f0f" "even_mask 8 4 = 0x00ff00ff00ff00ff"
  "even_mask 16 2 = 0x0000ffff0000ffff" "even_mask 32 1 = 0x00000000ffffffff"
  by (simp_all add: numeral_eq_Suc mask_eq_exp_minus_1)

lemma popcount_total: "uint (popcount v) = pairs_total (bit_pairs v)"
proof -
  define p1 where "p1 = bit_pairs v"
  have "length p1 = 32" "digits_le 1 p1" by (auto simp: p1_def bit_pairs_def digits_le_def)
  define p2 p3 p4 p5 p6 where "p2 = repair p1" and "p3 = repair p2" and "p4 = repair p3" and "p5 = repair p4"
    and "p6 = repair p5"
  note ps = p2_def p3_def p4_def p5_def p6_def
  have len: "length p1 = 32" "length p2 = 16" "length p3 = 8" "length p4 = 4" "length p5 = 2" "length p6 = 1"
    by (simp_all add: ps length_repair \<open>length p1 = 32\<close>)
  have le: "digits_le 1 p1" "digits_le 2 p2" "digits_le 4 p3" "digits_le 8 p4" "digits_le 16 p5" "digits_le 32 p6"
    using digits_le_repair [of 1 p1] digits_le_repair [of 2 p2] digits_le_repair [of 4 p3]
      digits_le_repair [of 8 p4] digits_le_repair [of 16 p5] \<open>digits_le 1 p1\<close>
    by (simp_all add: ps)
  have tot: "pairs_total p6 = pairs_total p1"
    by (simp add: ps pairs_total_repair length_repair \<open>length p1 = 32\<close>)
  define v1 v2 v3 v4 v5 v6 where
    "v1 = (v AND 0x5555555555555555) + (drop_bit 1 v AND 0x5555555555555555)" and
    "v2 = (v1 AND 0x3333333333333333) + (drop_bit 2 v1 AND 0x3333333333333333)" and
    "v3 = (v2 AND 0x0f0f0f0f0f0f0f0f) + (drop_bit 4 v2 AND 0x0f0f0f0f0f0f0f0f)" and
    "v4 = (v3 AND 0x00ff00ff00ff00ff) + (drop_bit 8 v3 AND 0x00ff00ff00ff00ff)" and
    "v5 = (v4 AND 0x0000ffff0000ffff) + (drop_bit 16 v4 AND 0x0000ffff0000ffff)" and
    "v6 = (v5 AND 0x00000000ffffffff) + (drop_bit 32 v5 AND 0x00000000ffffffff)"
  have "uint v = pairs_value 1 p1" by (simp only: p1_def pairs_value_bits)
  then have "uint v1 = pairs_value 2 p2" unfolding v1_def
    using popcount_next [of v 1 p1 1] len le even_masks by (simp add: ps(1) [symmetric])
  then have "uint v2 = pairs_value 4 p3" unfolding v2_def
    using popcount_next [of v1 2 p2 2] len le even_masks by (simp add: ps(2) [symmetric])
  then have "uint v3 = pairs_value 8 p4" unfolding v3_def
    using popcount_next [of v2 4 p3 4] len le even_masks by (simp add: ps(3) [symmetric])
  then have "uint v4 = pairs_value 16 p5" unfolding v4_def
    using popcount_next [of v3 8 p4 8] len le even_masks by (simp add: ps(4) [symmetric])
  then have "uint v5 = pairs_value 32 p6" unfolding v5_def
    using popcount_next [of v4 16 p5 16] len le even_masks by (simp add: ps(5) [symmetric])
  obtain x y where p6: "p6 = [(x, y)]" using len(6) by (metis One_nat_def length_0_conv length_Suc_conv surj_pair)
  then have "uint v6 = pair_sums 32 p6" unfolding v6_def
    using popcount_level [of v5 32 p6] \<open>uint v5 = _\<close> le(6) digits_le_ok [of 32 p6 32]
    by (simp add: digits_le_def mask_eq_exp_minus_1)
  moreover have "popcount v = v6"
    by (simp add: popcount_def Let_def v1_def v2_def v3_def v4_def v5_def v6_def)
  ultimately show ?thesis using tot by (simp add: p6 p1_def)
qed

lemma pairs_total_sum:
  "pairs_total (map (\<lambda>i. (of_bool (f (2 * i)), of_bool (f (2 * i + 1)))) [0..<n]) =
   (\<Sum>i<2 * n. of_bool (f i))"
proof -
  have snoc: "pairs_total (ps @ [(a, b)]) = pairs_total ps + a + b" for ps a b
    by (induction ps rule: pairs_total.induct) auto
  show ?thesis by (induction n) (simp_all add: snoc)
qed

lemma popcount_card: "unat (popcount v) = card {i. bit v i}"
proof -
  have "uint (popcount v) = (\<Sum>i<64. of_bool (bit v i))"
    using popcount_total [of v] pairs_total_sum [of "bit v" 32] by (simp add: bit_pairs_def)
  also have "\<dots> = int (card {i\<in>{..<64}. bit v i})"
    by (simp add: of_bool_def sum.If_cases Int_def)
  also have "{i\<in>{..<64}. bit v i} = {i. bit v i}" using bit_imp_le_length [of v] by auto
  finally have "int (unat (popcount v)) = int (card {i. bit v i})" by simp
  then show ?thesis by (simp only: of_nat_eq_iff)
qed

section \<open>Rotation\<close>

lemma take_bit_neg_word:
  assumes "k < LENGTH('a)" shows "unat (take_bit k (- s :: 'a::len word)) = (2 ^ k - unat s mod 2 ^ k) mod 2 ^ k"
proof -
  have "uint (take_bit k (- s)) = (- uint s) mod 2 ^ k"
  proof -
    have "uint (take_bit k (- s)) = take_bit k (take_bit LENGTH('a) (- uint s))"
      by (simp only: unsigned_take_bit_eq uint_word_ariths take_bit_eq_mod [where 'a=int])
    also have "\<dots> = take_bit k (- uint s)" using assms by (simp add: min_def)
    finally show ?thesis by (simp only: take_bit_eq_mod [where 'a=int])
  qed
  also have "\<dots> = (2 ^ k - uint s mod 2 ^ k) mod 2 ^ k" by (metis diff_0 minus_mod_self1 mod_diff_right_eq)
  finally have "int (unat (take_bit k (- s))) = (2 ^ k - int (unat s) mod 2 ^ k) mod 2 ^ k" by simp
  also have "\<dots> = int ((2 ^ k - unat s mod 2 ^ k) mod 2 ^ k)" by (simp add: of_nat_diff zmod_int)
  finally show ?thesis by linarith
qed

lemma rotate_amount:
  assumes "LENGTH('a::len) = 2 ^ k" "k \<le> 6"
  shows "(s :: u64) AND of_nat (LENGTH('a) - 1) = take_bit k s"
proof -
  have "(of_nat (LENGTH('a) - 1) :: u64) = mask k"
    by (simp add: assms mask_eq_exp_minus_1 of_nat_diff)
  then show ?thesis by (simp add: take_bit_eq_mask)
qed

lemma rotate_unfold:
  fixes x :: "'a::len word"
  assumes "LENGTH('a) = 2 ^ k" "k \<le> 6"
  shows "rotate_right x s =
      push_bit ((2 ^ k - unat s mod 2 ^ k) mod 2 ^ k) x OR drop_bit (unat s mod 2 ^ k) x"
    and "rotate_left x s =
      push_bit (unat s mod 2 ^ k) x OR drop_bit ((2 ^ k - unat s mod 2 ^ k) mod 2 ^ k) x"
proof -
  have "unat (take_bit k s) = unat s mod 2 ^ k"
    "unat (take_bit k (- take_bit k s)) = (2 ^ k - unat s mod 2 ^ k) mod 2 ^ k"
    using assms(2) take_bit_neg_word [of k "take_bit k s"]
    by (simp_all add: unsigned_take_bit_eq take_bit_eq_mod [where 'a=nat])
  then show "rotate_right x s =
      push_bit ((2 ^ k - unat s mod 2 ^ k) mod 2 ^ k) x OR drop_bit (unat s mod 2 ^ k) x"
    "rotate_left x s =
      push_bit (unat s mod 2 ^ k) x OR drop_bit ((2 ^ k - unat s mod 2 ^ k) mod 2 ^ k) x"
    by (simp_all only: rotate_right_def rotate_left_def Let_def rotate_amount [OF assms])
qed

lemma rotate_index:
  "i < N \<Longrightarrow> (i + s) mod N = (if i + s mod N < N then i + s mod N else i + s mod N - N)" for N :: nat
proof -
  assume "i < N"
  have "(i + s) mod N = (i + s mod N) mod N" by (simp add: mod_add_right_eq)
  moreover have "(i + r) mod N = (if i + r < N then i + r else i + r - N)" if "r < N" for r
    using that \<open>i < N\<close> by (simp add: le_mod_geq)
  moreover have "s mod N < N" using \<open>i < N\<close> by simp
  ultimately show ?thesis by presburger
qed

lemma rotate_right_bit:
  fixes x :: "'a::len word"
  assumes "LENGTH('a) = 2 ^ k" "k \<le> 6" "i < LENGTH('a)"
  shows "bit (rotate_right x s) i = bit x ((i + unat s) mod LENGTH('a))"
proof -
  define r where "r = unat s mod 2 ^ k"
  have r: "r < 2 ^ k" "0 < r \<Longrightarrow> (2 ^ k - r) mod 2 ^ k = 2 ^ k - r" by (simp_all add: r_def)
  have e: "rotate_right x s = push_bit ((2 ^ k - r) mod 2 ^ k) x OR drop_bit r x"
    using rotate_unfold(1) [OF assms(1,2)] by (simp add: r_def)
  have m: "(i + unat s) mod LENGTH('a) = (if i + r < 2 ^ k then i + r else i + r - 2 ^ k)"
    using rotate_index [OF assms(3), of "unat s"] by (simp add: assms(1) r_def)
  show ?thesis using assms(1,3) r bit_imp_le_length [of x "i + r"] unfolding e m
    by (cases "r = 0") (auto simp: bit_simps add.commute [of r i])
qed

lemma rotate_left_bit:
  fixes x :: "'a::len word"
  assumes "LENGTH('a) = 2 ^ k" "k \<le> 6" "i < LENGTH('a)"
  shows "bit (rotate_left x s) ((i + unat s) mod LENGTH('a)) = bit x i"
proof -
  define r where "r = unat s mod 2 ^ k"
  have r: "r < 2 ^ k" "0 < r \<Longrightarrow> (2 ^ k - r) mod 2 ^ k = 2 ^ k - r" by (simp_all add: r_def)
  have e: "rotate_left x s = push_bit r x OR drop_bit ((2 ^ k - r) mod 2 ^ k) x"
    using rotate_unfold(2) [OF assms(1,2)] by (simp add: r_def)
  have m: "(i + unat s) mod LENGTH('a) = (if i + r < 2 ^ k then i + r else i + r - 2 ^ k)"
    using rotate_index [OF assms(3), of "unat s"] by (simp add: assms(1) r_def)
  show ?thesis using assms(1,3) r bit_imp_le_length [of x "2 ^ k + i"] unfolding e m
    by (cases "r = 0") (auto simp: bit_simps)
qed

section \<open>Properties\<close>

text \<open>C35: the three high-product helpers return the upper 64 bits of the exact 128-bit product,
  for the unsigned, the signed and the mixed reading of their operands.\<close>

theorem high_products:
  "uint (mulhu a b) = (uint a * uint b) div 2 ^ 64 \<and>
   sint (mulh a b) = (sint a * sint b) div 2 ^ 64 \<and>
   sint (mulhsu a b) = (sint a * uint b) div 2 ^ 64"
  by (intro conjI mulhu_high mulh_high mulhsu_high)

text \<open>The saturating helpers compute the exact sum, three-operand sum or difference of their
  operands clamped to the range of the type, and report saturation exactly when the exact value
  leaves that range, at every word width.\<close>

lemma saturating_arithmetic:
  fixes x y z :: "'a::len word"
  defines "lo \<equiv> smin TYPE('a)" and "hi \<equiv> smax TYPE('a)" and "umax \<equiv> 2 ^ LENGTH('a) - 1 :: int"
  shows "sint (fst (sat_add x y)) = clamp lo hi (sint x + sint y) \<and>
    snd (sat_add x y) = (sint x + sint y \<notin> {lo..hi}) \<and>
    sint (fst (sat_add3 x y z)) = clamp lo hi (sint x + sint y + sint z) \<and>
    snd (sat_add3 x y z) = (sint x + sint y + sint z \<notin> {lo..hi}) \<and>
    sint (fst (sat_sub x y)) = clamp lo hi (sint x - sint y) \<and>
    snd (sat_sub x y) = (sint x - sint y \<notin> {lo..hi}) \<and>
    uint (fst (sat_addu x y)) = clamp 0 umax (uint x + uint y) \<and>
    snd (sat_addu x y) = (uint x + uint y \<notin> {0..umax}) \<and>
    uint (fst (sat_subu x y)) = clamp 0 umax (uint x - uint y) \<and>
    snd (sat_subu x y) = (uint x - uint y \<notin> {0..umax})"
  using uint_lt2p [of x] uint_lt2p [of y]
  by (auto simp: lo_def hi_def umax_def sat_add_clamp sat_add3_clamp sat_sub_clamp sat_addu_clamp
      sat_subu_clamp clamp_def)

text \<open>The counting helpers. \<^verbatim>\<open>popcount\<close> is the number of set bits;
  \<^verbatim>\<open>ctz\<close> and \<^verbatim>\<open>clz\<close> of a nonzero word locate its lowest and its
  highest set bit, and \<^verbatim>\<open>log2\<close> is the integer logarithm.\<close>

lemma bit_counting:
  assumes "v \<noteq> 0"
  shows "unat (popcount v) = card {i. bit v i} \<and>
    bit v (ctz v) \<and> (\<forall>i. i < ctz v \<longrightarrow> \<not> bit v i) \<and>
    clz v < 64 \<and> bit v (63 - clz v) \<and> (\<forall>i. 63 - clz v < i \<longrightarrow> \<not> bit v i) \<and>
    2 ^ log2_u64 v \<le> unat v \<and> unat v < 2 ^ Suc (log2_u64 v)"
  using ctz_correct [OF assms] clz_correct [OF assms] log2_u64_correct [OF assms] popcount_card [of v]
  by blast

lemma bit_counting_witness:
  "ctz 0x28 = 3 \<and> clz 0x28 = 58 \<and> bit (0x28 :: u64) (ctz 0x28) \<and> (2::nat) ^ log2_u64 0x28 \<le> 40"
proof -
  have "ctz 0x28 = 3" "clz 0x28 = 58"
    by (simp_all add: ctz_def ctz_line_def clz_def clz_line_def)
  then show ?thesis using bit_counting [of "0x28"] by simp
qed

text \<open>Rotation moves every bit by the rotation amount modulo the width, for all the power of
  two widths up to 64 bits and every 64-bit amount.\<close>

lemma rotation_moves_bits:
  fixes x :: "'a::len word"
  assumes "LENGTH('a) = 2 ^ k" "k \<le> 6" "i < LENGTH('a)"
  shows "bit (rotate_right x s) i = bit x ((i + unat s) mod LENGTH('a)) \<and>
    bit (rotate_left x s) ((i + unat s) mod LENGTH('a)) = bit x i"
  using rotate_right_bit [OF assms] rotate_left_bit [OF assms] by blast

lemma rotation_moves_bits_witness:
  "bit (rotate_right (0x12345678 :: 32 word) 40) 20 = bit (0x12345678 :: 32 word) 28"
  using rotation_moves_bits [where 'a=32, of 5 20 "0x12345678" 40] by simp

end
