(* ===== verification/Decode.thy ===== *)
theory Decode
  imports Prelude
begin

text \<open>
  Instruction words and their fields, from \<^verbatim>\<open>riscv/decode.h\<close>: the length rule, the
  bit extractors \<^verbatim>\<open>x\<close> and \<^verbatim>\<open>xs\<close> of
  \<^verbatim>\<open>insn_t\<close>, every immediate format of the base and compressed
  instruction sets, the register list of the Zcmp push and pop instructions, the register file
  template and the field accessors \<^verbatim>\<open>get_field\<close> and
  \<^verbatim>\<open>set_field\<close>. The sign and zero extension macros of
  \<^verbatim>\<open>riscv/decode_macros.h\<close>, which are shifts as \<^verbatim>\<open>xs\<close> is, stand
  here too. An \<^verbatim>\<open>int64_t\<close> field is the 64-bit word that holds it.
\<close>

type_synonym insn_t = u64

section \<open>Extension macros\<close>

definition sext :: "u64 \<Rightarrow> nat \<Rightarrow> u64" where
  "sext x pos = signed_drop_bit (64 - pos) (push_bit (64 - pos) x)"

definition zext :: "u64 \<Rightarrow> nat \<Rightarrow> u64" where
  "zext x pos = drop_bit (64 - pos) (push_bit (64 - pos) x)"

definition sext32 :: "u64 \<Rightarrow> u64" where
  "sext32 x = scast (ucast x :: u32)"

definition zext32 :: "u64 \<Rightarrow> u64" where
  "zext32 x = ucast (ucast x :: u32)"

section \<open>Lengths and fields\<close>

definition insn_length :: "u64 \<Rightarrow> nat" where
  "insn_length x =
    (if x AND 0x03 < 0x03 then 2
     else if x AND 0x1f < 0x1f then 4
     else if x AND 0x3f < 0x3f then 6
     else 8)"

definition insn_x :: "insn_t \<Rightarrow> nat \<Rightarrow> nat \<Rightarrow> u64" where
  "insn_x b lo len = drop_bit lo b AND (push_bit len 1 - 1)"

definition insn_xs :: "insn_t \<Rightarrow> nat \<Rightarrow> nat \<Rightarrow> u64" where
  "insn_xs b lo len = signed_drop_bit (64 - len) (push_bit (64 - lo - len) b)"

definition imm_sign :: "insn_t \<Rightarrow> u64" where [fields]: "imm_sign b = insn_xs b 31 1"

definition i_imm :: "insn_t \<Rightarrow> u64" where [fields]: "i_imm b = insn_xs b 20 12"
definition shamt :: "insn_t \<Rightarrow> u64" where [fields]: "shamt b = insn_x b 20 6"
definition s_imm :: "insn_t \<Rightarrow> u64" where [fields]:
  "s_imm b = insn_x b 7 5 + push_bit 5 (insn_xs b 25 7)"
definition sb_imm :: "insn_t \<Rightarrow> u64" where [fields]:
  "sb_imm b = push_bit 1 (insn_x b 8 4) + push_bit 5 (insn_x b 25 6) + push_bit 11 (insn_x b 7 1)
     + push_bit 12 (imm_sign b)"
definition u_imm :: "insn_t \<Rightarrow> u64" where [fields]: "u_imm b = push_bit 12 (insn_xs b 12 20)"
definition uj_imm :: "insn_t \<Rightarrow> u64" where [fields]:
  "uj_imm b = push_bit 1 (insn_x b 21 10) + push_bit 11 (insn_x b 20 1) + push_bit 12 (insn_x b 12 8)
     + push_bit 20 (imm_sign b)"

definition insn_rd :: "insn_t \<Rightarrow> u64" where [fields]: "insn_rd b = insn_x b 7 5"
definition insn_rs1 :: "insn_t \<Rightarrow> u64" where [fields]: "insn_rs1 b = insn_x b 15 5"
definition insn_rs2 :: "insn_t \<Rightarrow> u64" where [fields]: "insn_rs2 b = insn_x b 20 5"
definition insn_rs3 :: "insn_t \<Rightarrow> u64" where [fields]: "insn_rs3 b = insn_x b 27 5"
definition insn_rm :: "insn_t \<Rightarrow> u64" where [fields]: "insn_rm b = insn_x b 12 3"
definition insn_csr :: "insn_t \<Rightarrow> u64" where [fields]: "insn_csr b = insn_x b 20 12"
definition insn_iorw :: "insn_t \<Rightarrow> u64" where [fields]: "insn_iorw b = insn_x b 20 8"
definition insn_bs :: "insn_t \<Rightarrow> u64" where [fields]: "insn_bs b = insn_x b 30 2"
definition insn_rcon :: "insn_t \<Rightarrow> u64" where [fields]: "insn_rcon b = insn_x b 20 4"

section \<open>Compressed formats\<close>

definition rvc_imm :: "insn_t \<Rightarrow> u64" where [fields]:
  "rvc_imm b = insn_x b 2 5 + push_bit 5 (insn_xs b 12 1)"
definition rvc_zimm :: "insn_t \<Rightarrow> u64" where [fields]:
  "rvc_zimm b = insn_x b 2 5 + push_bit 5 (insn_x b 12 1)"
definition rvc_addi4spn_imm :: "insn_t \<Rightarrow> u64" where [fields]:
  "rvc_addi4spn_imm b = push_bit 2 (insn_x b 6 1) + push_bit 3 (insn_x b 5 1) +
     push_bit 4 (insn_x b 11 2) + push_bit 6 (insn_x b 7 4)"
definition rvc_addi16sp_imm :: "insn_t \<Rightarrow> u64" where [fields]:
  "rvc_addi16sp_imm b = push_bit 4 (insn_x b 6 1) + push_bit 5 (insn_x b 2 1) +
     push_bit 6 (insn_x b 5 1) + push_bit 7 (insn_x b 3 2) + push_bit 9 (insn_xs b 12 1)"
definition rvc_lwsp_imm :: "insn_t \<Rightarrow> u64" where [fields]:
  "rvc_lwsp_imm b = push_bit 2 (insn_x b 4 3) + push_bit 5 (insn_x b 12 1) + push_bit 6 (insn_x b 2 2)"
definition rvc_ldsp_imm :: "insn_t \<Rightarrow> u64" where [fields]:
  "rvc_ldsp_imm b = push_bit 3 (insn_x b 5 2) + push_bit 5 (insn_x b 12 1) + push_bit 6 (insn_x b 2 3)"
definition rvc_swsp_imm :: "insn_t \<Rightarrow> u64" where [fields]:
  "rvc_swsp_imm b = push_bit 2 (insn_x b 9 4) + push_bit 6 (insn_x b 7 2)"
definition rvc_sdsp_imm :: "insn_t \<Rightarrow> u64" where [fields]:
  "rvc_sdsp_imm b = push_bit 3 (insn_x b 10 3) + push_bit 6 (insn_x b 7 3)"
definition rvc_lw_imm :: "insn_t \<Rightarrow> u64" where [fields]:
  "rvc_lw_imm b = push_bit 2 (insn_x b 6 1) + push_bit 3 (insn_x b 10 3) + push_bit 6 (insn_x b 5 1)"
definition rvc_ld_imm :: "insn_t \<Rightarrow> u64" where [fields]:
  "rvc_ld_imm b = push_bit 3 (insn_x b 10 3) + push_bit 6 (insn_x b 5 2)"
definition rvc_j_imm :: "insn_t \<Rightarrow> u64" where [fields]:
  "rvc_j_imm b = push_bit 1 (insn_x b 3 3) + push_bit 4 (insn_x b 11 1) + push_bit 5 (insn_x b 2 1) +
     push_bit 6 (insn_x b 7 1) + push_bit 7 (insn_x b 6 1) + push_bit 8 (insn_x b 9 2) +
     push_bit 10 (insn_x b 8 1) + push_bit 11 (insn_xs b 12 1)"
definition rvc_b_imm :: "insn_t \<Rightarrow> u64" where [fields]:
  "rvc_b_imm b = push_bit 1 (insn_x b 3 2) + push_bit 3 (insn_x b 10 2) + push_bit 5 (insn_x b 2 1) +
     push_bit 6 (insn_x b 5 2) + push_bit 8 (insn_xs b 12 1)"
definition rvc_simm3 :: "insn_t \<Rightarrow> u64" where [fields]: "rvc_simm3 b = insn_x b 10 3"
definition rvc_rd :: "insn_t \<Rightarrow> u64" where [fields]: "rvc_rd b = insn_rd b"
definition rvc_rs1 :: "insn_t \<Rightarrow> u64" where [fields]: "rvc_rs1 b = insn_rd b"
definition rvc_rs2 :: "insn_t \<Rightarrow> u64" where [fields]: "rvc_rs2 b = insn_x b 2 5"
definition rvc_rs1s :: "insn_t \<Rightarrow> u64" where [fields]: "rvc_rs1s b = 8 + insn_x b 7 3"
definition rvc_rs2s :: "insn_t \<Rightarrow> u64" where [fields]: "rvc_rs2s b = 8 + insn_x b 2 3"
definition rvc_lbimm :: "insn_t \<Rightarrow> u64" where [fields]:
  "rvc_lbimm b = push_bit 1 (insn_x b 5 1) + insn_x b 6 1"
definition rvc_lhimm :: "insn_t \<Rightarrow> u64" where [fields]: "rvc_lhimm b = push_bit 1 (insn_x b 5 1)"
definition rvc_r1sc :: "insn_t \<Rightarrow> u64" where [fields]: "rvc_r1sc b = insn_x b 7 3"
definition rvc_r2sc :: "insn_t \<Rightarrow> u64" where [fields]: "rvc_r2sc b = insn_x b 2 3"
definition rvc_rlist :: "insn_t \<Rightarrow> u64" where [fields]: "rvc_rlist b = insn_x b 4 4"
definition rvc_spimm :: "insn_t \<Rightarrow> u64" where [fields]: "rvc_spimm b = push_bit 4 (insn_x b 2 2)"
definition rvc_index :: "insn_t \<Rightarrow> u64" where [fields]: "rvc_index b = insn_x b 2 8"

section \<open>Vector and packed fields\<close>

definition v_vm :: "insn_t \<Rightarrow> u64" where [fields]: "v_vm b = insn_x b 25 1"
definition v_wd :: "insn_t \<Rightarrow> u64" where [fields]: "v_wd b = insn_x b 26 1"
definition v_nf :: "insn_t \<Rightarrow> u64" where [fields]: "v_nf b = insn_x b 29 3"
definition v_simm5 :: "insn_t \<Rightarrow> u64" where [fields]: "v_simm5 b = insn_xs b 15 5"
definition v_zimm5 :: "insn_t \<Rightarrow> u64" where [fields]: "v_zimm5 b = insn_x b 15 5"
definition v_zimm10 :: "insn_t \<Rightarrow> u64" where [fields]: "v_zimm10 b = insn_x b 20 10"
definition v_zimm11 :: "insn_t \<Rightarrow> u64" where [fields]: "v_zimm11 b = insn_x b 20 11"
definition v_lmul :: "insn_t \<Rightarrow> u64" where [fields]: "v_lmul b = insn_x b 20 2"
definition v_frac_lmul :: "insn_t \<Rightarrow> u64" where [fields]: "v_frac_lmul b = insn_x b 22 1"
definition v_sew :: "insn_t \<Rightarrow> u64" where [fields]:
  "v_sew b = ucast (push_bit (unat (insn_x b 23 3 + 3)) 1 :: u32)"
definition v_width :: "insn_t \<Rightarrow> u64" where [fields]: "v_width b = insn_x b 12 3"
definition v_mop :: "insn_t \<Rightarrow> u64" where [fields]: "v_mop b = insn_x b 26 2"
definition v_lumop :: "insn_t \<Rightarrow> u64" where [fields]: "v_lumop b = insn_x b 20 5"
definition v_sumop :: "insn_t \<Rightarrow> u64" where [fields]: "v_sumop b = insn_x b 20 5"
definition v_vta :: "insn_t \<Rightarrow> u64" where [fields]: "v_vta b = insn_x b 26 1"
definition v_vma :: "insn_t \<Rightarrow> u64" where [fields]: "v_vma b = insn_x b 27 1"
definition v_mew :: "insn_t \<Rightarrow> u64" where [fields]: "v_mew b = insn_x b 28 1"
definition v_zimm6 :: "insn_t \<Rightarrow> u64" where [fields]:
  "v_zimm6 b = insn_x b 15 5 + push_bit 5 (insn_x b 26 1)"
definition p_imm2 :: "insn_t \<Rightarrow> u64" where [fields]: "p_imm2 b = insn_x b 20 2"
definition p_imm3 :: "insn_t \<Rightarrow> u64" where [fields]: "p_imm3 b = insn_x b 20 3"
definition p_imm4 :: "insn_t \<Rightarrow> u64" where [fields]: "p_imm4 b = insn_x b 20 4"
definition p_imm5 :: "insn_t \<Rightarrow> u64" where [fields]: "p_imm5 b = insn_x b 20 5"
definition p_imm6 :: "insn_t \<Rightarrow> u64" where [fields]: "p_imm6 b = insn_x b 20 6"

section \<open>Zcmp register lists\<close>

definition X_RA :: nat where "X_RA = 1"
definition X_SP :: nat where "X_SP = 2"
definition X_T0 :: nat where "X_T0 = 5"
definition X_S0 :: nat where "X_S0 = 8"
definition X_A0 :: nat where "X_A0 = 10"
definition X_A1 :: nat where "X_A1 = 11"
definition X_Sn :: nat where "X_Sn = 16"

lemmas xregs [simp] = X_RA_def X_SP_def X_T0_def X_S0_def X_A0_def X_A1_def X_Sn_def

definition Sn :: "nat \<Rightarrow> nat" where
  "Sn n = (if n < 2 then X_S0 + n else X_Sn + n)"

definition zcmp_regmask :: "insn_t \<Rightarrow> u64" where
  "zcmp_regmask b =
    (let rlist = unat (rvc_rlist b);
         mask = (if 4 \<le> rlist then push_bit X_RA 1 else (0 :: u32));
         mask = fold (\<lambda>i mask. mask OR push_bit (Sn (i - 5)) 1) [5..<rlist + 1] mask;
         mask = (if rlist = 15 then mask OR push_bit (Sn 11) 1 else mask)
     in ucast mask)"

text \<open>The \<^verbatim>\<open>switch\<close> falls through, so a list length adds the amount of every
  case at or below it.\<close>

definition zcmp_stack_adjustment :: "insn_t \<Rightarrow> nat \<Rightarrow> u64" where
  "zcmp_stack_adjustment b xlen =
    (let r = unat (rvc_rlist b);
         base = (if r = 15 then 16 else 0)
           + (if r \<in> {14, 15} \<and> xlen = 64 then 16 else 0)
           + (if r \<in> {12, 13, 14, 15} then 16 else 0)
           + (if r \<in> {10, 11, 12, 13, 14, 15} \<and> xlen = 64 then 16 else 0)
           + (if r \<in> {8, 9, 10, 11, 12, 13, 14, 15} then 16 else 0)
           + (if r \<in> {6, 7, 8, 9, 10, 11, 12, 13, 14, 15} \<and> xlen = 64 then 16 else 0)
           + (if r \<in> {4, 5, 6, 7, 8, 9, 10, 11, 12, 13, 14, 15} then 16 else 0)
     in base + rvc_spimm b)"

section \<open>Register files and field accessors\<close>

type_synonym 'v regfile_t = "nat \<Rightarrow> 'v"

definition regfile_write :: "bool \<Rightarrow> nat \<Rightarrow> 'v \<Rightarrow> 'v regfile_t \<Rightarrow> 'v regfile_t" where
  "regfile_write zero_reg i value data =
    (if \<not> zero_reg \<or> i \<noteq> 0 then data(i := value) else data)"

definition regfile_reset :: "'v::zero regfile_t" where
  "regfile_reset = (\<lambda>_. 0)"

definition get_field :: "u64 \<Rightarrow> u64 \<Rightarrow> u64" where
  "get_field reg m = (reg AND m) div (m AND NOT (push_bit 1 m))"

definition set_field :: "u64 \<Rightarrow> u64 \<Rightarrow> u64 \<Rightarrow> u64" where
  "set_field reg m val =
    (reg AND NOT m) OR ((val * (m AND NOT (push_bit 1 m))) AND m)"

end
