(* ===== verification/Opcodes.thy ===== *)
theory Opcodes
  imports Decode
begin

text \<open>
  The instruction encoders of \<^verbatim>\<open>riscv/opcodes.h\<close>, with which the debug module
  writes its program buffers and its ROM. All of them build an unsigned 32-bit word; register
  numbers are \<^verbatim>\<open>unsigned int\<close>, offsets \<^verbatim>\<open>uint16_t\<close>.
\<close>

definition opc_bits :: "u32 \<Rightarrow> nat \<Rightarrow> nat \<Rightarrow> u32" where
  "opc_bits value hi lo = drop_bit lo value AND (push_bit (hi + 1 - lo) 1 - 1)"

definition opc_bit :: "u32 \<Rightarrow> nat \<Rightarrow> u32" where
  "opc_bit value b = drop_bit b value AND 1"

definition opc_jal :: "u32 \<Rightarrow> u32 \<Rightarrow> u32" where
  "opc_jal rd imm =
    push_bit 31 (opc_bit imm 20) OR push_bit 21 (opc_bits imm 10 1) OR push_bit 20 (opc_bit imm 11) OR
    push_bit 12 (opc_bits imm 19 12) OR push_bit 7 rd OR 0x6f"

definition opc_csrsi :: "u32 \<Rightarrow> u16 \<Rightarrow> u32" where
  "opc_csrsi csr imm = push_bit 20 csr OR push_bit 15 (opc_bits (ucast imm) 4 0) OR 0x6073"

definition opc_sw :: "u32 \<Rightarrow> u32 \<Rightarrow> u16 \<Rightarrow> u32" where
  "opc_sw src base offset =
    push_bit 25 (opc_bits (ucast offset) 11 5) OR push_bit 20 src OR push_bit 15 base OR
    push_bit 7 (opc_bits (ucast offset) 4 0) OR 0x2023"

definition opc_sd :: "u32 \<Rightarrow> u32 \<Rightarrow> u16 \<Rightarrow> u32" where
  "opc_sd src base offset =
    push_bit 25 (opc_bits (ucast offset) 11 5) OR push_bit 20 src OR push_bit 15 base OR
    push_bit 7 (opc_bits (ucast offset) 4 0) OR 0x3023"

definition opc_sh :: "u32 \<Rightarrow> u32 \<Rightarrow> u16 \<Rightarrow> u32" where
  "opc_sh src base offset =
    push_bit 25 (opc_bits (ucast offset) 11 5) OR push_bit 20 src OR push_bit 15 base OR
    push_bit 7 (opc_bits (ucast offset) 4 0) OR 0x1023"

definition opc_sb :: "u32 \<Rightarrow> u32 \<Rightarrow> u16 \<Rightarrow> u32" where
  "opc_sb src base offset =
    push_bit 25 (opc_bits (ucast offset) 11 5) OR push_bit 20 src OR push_bit 15 base OR
    push_bit 7 (opc_bits (ucast offset) 4 0) OR 0x23"

definition opc_ld :: "u32 \<Rightarrow> u32 \<Rightarrow> u16 \<Rightarrow> u32" where
  "opc_ld rd base offset =
    push_bit 20 (opc_bits (ucast offset) 11 0) OR push_bit 15 base OR push_bit 7 (opc_bits rd 4 0) OR 0x3003"

definition opc_lw :: "u32 \<Rightarrow> u32 \<Rightarrow> u16 \<Rightarrow> u32" where
  "opc_lw rd base offset =
    push_bit 20 (opc_bits (ucast offset) 11 0) OR push_bit 15 base OR push_bit 7 (opc_bits rd 4 0) OR 0x2003"

definition opc_lh :: "u32 \<Rightarrow> u32 \<Rightarrow> u16 \<Rightarrow> u32" where
  "opc_lh rd base offset =
    push_bit 20 (opc_bits (ucast offset) 11 0) OR push_bit 15 base OR push_bit 7 (opc_bits rd 4 0) OR 0x1003"

definition opc_lb :: "u32 \<Rightarrow> u32 \<Rightarrow> u16 \<Rightarrow> u32" where
  "opc_lb rd base offset =
    push_bit 20 (opc_bits (ucast offset) 11 0) OR push_bit 15 base OR push_bit 7 (opc_bits rd 4 0) OR 0x3"

definition opc_csrw :: "u32 \<Rightarrow> u32 \<Rightarrow> u32" where
  "opc_csrw source csr = push_bit 20 csr OR push_bit 15 source OR 0x1073"

definition opc_addi :: "u32 \<Rightarrow> u32 \<Rightarrow> u16 \<Rightarrow> u32" where
  "opc_addi dest src imm =
    push_bit 20 (opc_bits (ucast imm) 11 0) OR push_bit 15 src OR push_bit 7 dest OR 0x13"

definition opc_csrr :: "u32 \<Rightarrow> u32 \<Rightarrow> u32" where
  "opc_csrr rd csr = push_bit 20 csr OR push_bit 7 rd OR 0x2073"

definition opc_csrrs :: "u32 \<Rightarrow> u32 \<Rightarrow> u32 \<Rightarrow> u32" where
  "opc_csrrs rd rs1 csr = push_bit 20 csr OR push_bit 15 rs1 OR push_bit 7 rd OR 0x2073"

definition opc_fsw :: "u32 \<Rightarrow> u32 \<Rightarrow> u16 \<Rightarrow> u32" where
  "opc_fsw src base offset =
    push_bit 25 (opc_bits (ucast offset) 11 5) OR push_bit 20 (opc_bits src 4 0) OR push_bit 15 base OR
    push_bit 7 (opc_bits (ucast offset) 4 0) OR 0x2027"

definition opc_fsd :: "u32 \<Rightarrow> u32 \<Rightarrow> u16 \<Rightarrow> u32" where
  "opc_fsd src base offset =
    push_bit 25 (opc_bits (ucast offset) 11 5) OR push_bit 20 (opc_bits src 4 0) OR push_bit 15 base OR
    push_bit 7 (opc_bits (ucast offset) 4 0) OR 0x3027"

definition opc_flw :: "u32 \<Rightarrow> u32 \<Rightarrow> u16 \<Rightarrow> u32" where
  "opc_flw dest base offset =
    push_bit 20 (opc_bits (ucast offset) 11 0) OR push_bit 15 base OR push_bit 7 (opc_bits dest 4 0) OR 0x2007"

definition opc_fld :: "u32 \<Rightarrow> u32 \<Rightarrow> u16 \<Rightarrow> u32" where
  "opc_fld dest base offset =
    push_bit 20 (opc_bits (ucast offset) 11 0) OR push_bit 15 base OR push_bit 7 (opc_bits dest 4 0) OR 0x3007"

definition opc_ebreak :: u32 where "opc_ebreak = 0x100073"
definition opc_ebreak_c :: u32 where "opc_ebreak_c = 0x9002"
definition opc_dret :: u32 where "opc_dret = 0x7b200073"
definition opc_fence_i :: u32 where "opc_fence_i = 0x100f"

definition opc_lui :: "u32 \<Rightarrow> u32 \<Rightarrow> u32" where
  "opc_lui dest imm = push_bit 12 (opc_bits imm 19 0) OR push_bit 7 dest OR 0x37"

definition opc_xori :: "u32 \<Rightarrow> u32 \<Rightarrow> u16 \<Rightarrow> u32" where
  "opc_xori dest src imm =
    push_bit 20 (opc_bits (ucast imm) 11 0) OR push_bit 15 src OR push_bit 7 dest OR 0x4013"

definition opc_srli :: "u32 \<Rightarrow> u32 \<Rightarrow> u8 \<Rightarrow> u32" where
  "opc_srli dest src sh =
    push_bit 20 (opc_bits (ucast sh) 4 0) OR push_bit 15 src OR push_bit 7 dest OR 0x5013"

end
