(* ===== verification/DecodeFacts.thy ===== *)
theory DecodeFacts
  imports Decode Opcodes ArithFacts
begin

text \<open>
  Facts about instruction words. Each immediate format is characterised by its bits, from which
  its range and its alignment follow; the encoders of \<^verbatim>\<open>riscv/opcodes.h\<close> are
  inverted by the extractors of \<^verbatim>\<open>riscv/decode.h\<close>; a field written by
  \<^verbatim>\<open>set_field\<close> is read back by \<^verbatim>\<open>get_field\<close>; and the Zcmp stack
  adjustment makes room for the registers of the list.
\<close>

section \<open>Bits of the fields\<close>

lemma bit_insn_x [bit_simps]: "bit (insn_x b lo len) n \<longleftrightarrow> n < len \<and> bit b (lo + n)"
  using bit_imp_le_length [of b "lo + n"]
  by (auto simp: insn_x_def mask_eq_exp_minus_1 [symmetric] push_bit_eq_mult bit_simps)

lemma bit_sext:
  assumes "0 < pos" "pos \<le> 64"
  shows "bit (sext x pos) n \<longleftrightarrow> n < 64 \<and> bit x (min n (pos - 1))"
  using assms by (auto simp: sext_def bit_signed_drop_bit_iff bit_simps min_def)

lemma bit_zext:
  assumes "pos \<le> 64"
  shows "bit (zext x pos) n \<longleftrightarrow> n < pos \<and> bit x n"
  using assms bit_imp_le_length [of x n] by (auto simp: zext_def bit_simps)

lemma bit_insn_xs:
  assumes "0 < len" "lo + len \<le> 64"
  shows "bit (insn_xs b lo len) n \<longleftrightarrow> n < 64 \<and> bit b (lo + min n (len - 1))"
  using assms by (auto simp: insn_xs_def bit_signed_drop_bit_iff bit_simps min_def add.commute)
   

text \<open>The immediate formats add fields that lie at increasing positions: each sum is a
  disjunction, and its bits are the bits of the parts.\<close>

definition below :: "u64 \<Rightarrow> nat \<Rightarrow> bool" where
  "below a k \<longleftrightarrow> (\<forall>n\<ge>k. \<not> bit a n)"

lemma below_x: "len \<le> k \<Longrightarrow> below (insn_x b lo len) k"
  and below_push_x: "p + len \<le> k \<Longrightarrow> below (push_bit p (insn_x b lo len)) k"
  and below_or: "below (a OR c) k \<longleftrightarrow> below a k \<and> below c k"
  by (auto simp: below_def bit_simps bit_insn_x)

lemma field_add: "below a k \<Longrightarrow> a + push_bit k c = a OR push_bit k c"
  by (rule disjunctive_add) (auto simp: below_def bit_simps not_le)

lemmas field_bits = below_x below_push_x below_or field_add bit_insn_xs bit_simps

lemma bit_i_imm: "bit (i_imm b) n \<longleftrightarrow> n < 64 \<and> bit b (20 + min n 11)"
  by (simp add: i_imm_def field_bits)
lemma bit_s_imm: "bit (s_imm b) n \<longleftrightarrow> n < 64 \<and> (if n < 5 then bit b (7 + n) else bit b (min (20 + n) 31))"
  by (auto simp add: s_imm_def field_bits min_def simp del: push_bit_Suc)
lemma bit_sb_imm: "bit (sb_imm b) n \<longleftrightarrow> n < 64 \<and> n \<noteq> 0 \<and>
   (if n < 5 then bit b (7 + n) else if n < 11 then bit b (20 + n) else bit b (if n = 11 then 7 else 31))"
  by (auto simp add: sb_imm_def imm_sign_def field_bits min_def simp del: push_bit_Suc)
lemma bit_u_imm: "bit (u_imm b) n \<longleftrightarrow> n < 64 \<and> 12 \<le> n \<and> bit b (min n 31)"
  by (auto simp add: u_imm_def field_bits min_def simp del: push_bit_Suc)
lemma bit_uj_imm: "bit (uj_imm b) n \<longleftrightarrow> n < 64 \<and> n \<noteq> 0 \<and>
   (if n < 11 then bit b (20 + n) else if n = 11 then bit b 20 else if n < 20 then bit b n else bit b 31)"
  by (auto simp add: uj_imm_def imm_sign_def field_bits min_def simp del: push_bit_Suc)

section \<open>Encoders\<close>

lemma bit_opc_bits [bit_simps]: "bit (opc_bits v hi lo) n \<longleftrightarrow> n < hi + 1 - lo \<and> bit v (lo + n)"
  using bit_imp_le_length [of v "lo + n"]
  by (auto simp: opc_bits_def mask_eq_exp_minus_1 [symmetric] push_bit_eq_mult bit_simps)

lemma bit_opc_bit [bit_simps]: "bit (opc_bit v b) n \<longleftrightarrow> n = 0 \<and> bit v b"
  by (auto simp: opc_bit_def bit_simps)


definition opmask :: u32 where "opmask = mask 7 OR push_bit 12 (mask 3)"

lemma bit_opmask: "bit opmask n \<longleftrightarrow> n < 7 \<or> 12 \<le> n \<and> n < 15"
  by (auto simp: opmask_def bit_simps)

lemma itype_fields:
  fixes a s d m :: u32
  defines "w \<equiv> (ucast (push_bit 20 a OR push_bit 15 (take_bit 5 s) OR push_bit 7 (take_bit 5 d) OR (m AND opmask)) :: u64)"
  shows "insn_rd w = ucast (take_bit 5 d)" "insn_rs1 w = ucast (take_bit 5 s)" "i_imm w = sext (ucast a) 12"
    "insn_csr w = take_bit 12 (ucast a)" "w AND ucast opmask = ucast (m AND opmask)"
  by (auto intro!: bit_word_eqI simp: w_def insn_rd_def insn_rs1_def insn_csr_def
      bit_i_imm bit_sext bit_simps bit_opmask min_def)

lemma stype_fields:
  fixes a b s d m :: u32
  defines "w \<equiv> (ucast (push_bit 25 a OR push_bit 20 (take_bit 5 s) OR push_bit 15 (take_bit 5 b) OR
    push_bit 7 (take_bit 5 d) OR (m AND opmask)) :: u64)"
  shows "insn_rs2 w = ucast (take_bit 5 s)" "insn_rs1 w = ucast (take_bit 5 b)" 
    "s_imm w = sext (ucast (push_bit 5 a OR take_bit 5 d)) 12"
    "w AND ucast opmask = ucast (m AND opmask)"
  by (auto intro!: bit_word_eqI simp: w_def insn_rs2_def insn_rs1_def insn_csr_def
      bit_s_imm bit_sext bit_simps bit_opmask min_def split: if_splits)

lemma reg_take: "(r::u32) < 32 \<Longrightarrow> take_bit 5 r = r"
  using less_mask_eq [of r 5] by (simp add: take_bit_eq_mask mask_eq_exp_minus_1)

section \<open>Ranges\<close>

lemma sint_range_bits:
  fixes w :: u64
  assumes "k < 64" "\<And>n. k \<le> n \<Longrightarrow> n < 64 \<Longrightarrow> bit w n = bit w 63"
  shows "- (2 ^ k) \<le> sint w" "sint w < 2 ^ k"
proof -
  have "sint w = signed_take_bit k (sint w)"
  proof (rule bit_eqI)
    fix n
    have "bit (sint w) m \<longleftrightarrow> bit w (min m 63)" for m using bit_imp_le_length [of w m] by (auto simp: bit_sint_iff min_def)
    then show "bit (sint w) n = bit (signed_take_bit k (sint w)) n"
      using assms(2) [of n] assms(2) [of k] assms(1) by (auto simp: bit_signed_take_bit_iff min_def)
  qed
  then show "- (2 ^ k) \<le> sint w" "sint w < 2 ^ k"
    by (metis signed_take_bit_int_greater_eq_minus_exp, metis signed_take_bit_int_less_exp)
qed

lemma aligned_bits: "(\<And>n. n < k \<Longrightarrow> \<not> bit w n) \<Longrightarrow> 2 ^ k dvd uint (w :: u64)"
proof -
  assume "\<And>n. n < k \<Longrightarrow> \<not> bit w n"
  then have "take_bit k (uint w) = 0" by (intro bit_eqI) (auto simp: bit_simps)
  then show ?thesis by (simp add: take_bit_eq_mod mod_eq_0_iff_dvd)
qed

lemma immediate_ranges:
  "- (2 ^ 11) \<le> sint (i_imm b) \<and> sint (i_imm b) < 2 ^ 11 \<and>
   - (2 ^ 11) \<le> sint (s_imm b) \<and> sint (s_imm b) < 2 ^ 11 \<and>
   - (2 ^ 12) \<le> sint (sb_imm b) \<and> sint (sb_imm b) < 2 ^ 12 \<and> 2 dvd uint (sb_imm b) \<and>
   - (2 ^ 31) \<le> sint (u_imm b) \<and> sint (u_imm b) < 2 ^ 31 \<and> 2 ^ 12 dvd uint (u_imm b) \<and>
   - (2 ^ 20) \<le> sint (uj_imm b) \<and> sint (uj_imm b) < 2 ^ 20 \<and> 2 dvd uint (uj_imm b)"
  using sint_range_bits [of 11 "i_imm b"] sint_range_bits [of 11 "s_imm b"] sint_range_bits [of 12 "sb_imm b"]
    sint_range_bits [of 31 "u_imm b"] sint_range_bits [of 20 "uj_imm b"]
    aligned_bits [of 1 "sb_imm b"] aligned_bits [of 12 "u_imm b"] aligned_bits [of 1 "uj_imm b"]
  by (simp add: bit_i_imm bit_s_imm bit_sb_imm bit_u_imm bit_uj_imm)


lemmas rvc_defs = rvc_imm_def rvc_zimm_def rvc_addi4spn_imm_def rvc_addi16sp_imm_def rvc_lwsp_imm_def
  rvc_ldsp_imm_def rvc_swsp_imm_def rvc_sdsp_imm_def rvc_lw_imm_def rvc_ld_imm_def rvc_j_imm_def rvc_b_imm_def

lemma compressed_ranges:
  "- (2 ^ 5) \<le> sint (rvc_imm b) \<and> sint (rvc_imm b) < 2 ^ 5 \<and>
   - (2 ^ 9) \<le> sint (rvc_addi16sp_imm b) \<and> sint (rvc_addi16sp_imm b) < 2 ^ 9 \<and> 2 ^ 4 dvd uint (rvc_addi16sp_imm b) \<and>
   - (2 ^ 11) \<le> sint (rvc_j_imm b) \<and> sint (rvc_j_imm b) < 2 ^ 11 \<and> 2 ^ 1 dvd uint (rvc_j_imm b) \<and>
   - (2 ^ 8) \<le> sint (rvc_b_imm b) \<and> sint (rvc_b_imm b) < 2 ^ 8 \<and> 2 ^ 1 dvd uint (rvc_b_imm b) \<and>
   2 ^ 2 ^ 1 dvd uint (rvc_addi4spn_imm b) \<and> 2 ^ 2 ^ 1 dvd uint (rvc_lwsp_imm b) \<and> 2 ^ 3 dvd uint (rvc_ldsp_imm b) \<and>
   2 ^ 2 ^ 1 dvd uint (rvc_swsp_imm b) \<and> 2 ^ 3 dvd uint (rvc_sdsp_imm b) \<and> 2 ^ 2 ^ 1 dvd uint (rvc_lw_imm b) \<and>
   2 ^ 3 dvd uint (rvc_ld_imm b)"
  by (intro conjI sint_range_bits aligned_bits; auto simp: rvc_defs field_bits simp del: push_bit_Suc)

section \<open>Status fields and register lists\<close>

definition field_mask :: "nat \<Rightarrow> nat \<Rightarrow> u64" where
  "field_mask lo len = push_bit lo (mask len)"

lemma field_mask_lsb:
  assumes "0 < len" "lo + len \<le> 64"
  shows "field_mask lo len AND NOT (push_bit 1 (field_mask lo len)) = push_bit lo 1"
  using assms by (intro bit_word_eqI) (auto simp: field_mask_def bit_simps simp del: push_bit_Suc)

lemma get_field_mask:
  assumes "0 < len" "lo + len \<le> 64"
  shows "get_field reg (field_mask lo len) = take_bit len (drop_bit lo reg)"
proof -
  have "(push_bit lo 1 :: u64) = 2 ^ lo" by (simp add: push_bit_eq_mult)
  then have "get_field reg (field_mask lo len) = drop_bit lo (reg AND field_mask lo len)"
    unfolding get_field_def field_mask_lsb [OF assms] by (simp only: drop_bit_eq_div)
  also have "\<dots> = take_bit len (drop_bit lo reg)"
    using assms by (intro bit_word_eqI) (auto simp: field_mask_def bit_simps)
  finally show ?thesis .
qed

lemma set_field_mask:
  assumes "0 < len" "lo + len \<le> 64"
  shows "set_field reg (field_mask lo len) val = (reg AND NOT (field_mask lo len)) OR push_bit lo (take_bit len val)"
proof -
  have "val * push_bit lo 1 = push_bit lo val" by (simp add: push_bit_eq_mult)
  then show ?thesis
    unfolding set_field_def field_mask_lsb [OF assms] 
    using assms by (intro bit_word_eqI) (auto simp: field_mask_def bit_simps)
qed

lemma get_set_field:
  assumes "0 < len" "lo + len \<le> 64"
  shows "get_field (set_field reg (field_mask lo len) val) (field_mask lo len) = take_bit len val"
proof (rule bit_word_eqI)
  fix n
  have "bit (push_bit lo (mask len) :: u64) (lo + n) \<longleftrightarrow> n < len" if "n < 64" using that assms by (auto simp: bit_simps)
  moreover have "n < len \<Longrightarrow> lo + n < 64" using assms by simp
  ultimately show "bit (get_field (set_field reg (field_mask lo len) val) (field_mask lo len)) n = bit (take_bit len val) n"
    using assms by (auto simp: get_field_mask [OF assms] set_field_mask [OF assms] bit_simps) (auto simp: field_mask_def bit_simps)
qed

lemma zcmp_rlist_cases: "unat (rvc_rlist b) \<in> {..<16}"
proof -
  have "rvc_rlist b = take_bit 4 (rvc_rlist b)" by (rule bit_word_eqI) (auto simp: rvc_rlist_def bit_simps)
  then have "unat (rvc_rlist b) = take_bit 4 (unat (rvc_rlist b))" by (metis unsigned_take_bit_eq)
  then have "unat (rvc_rlist b) < 2 ^ 4" by (metis take_bit_nat_less_exp)
  then show ?thesis by simp
qed

definition zcmp_mask_of :: "nat \<Rightarrow> u64" where
  "zcmp_mask_of rlist =
    (let mask = (if 4 \<le> rlist then push_bit X_RA 1 else (0 :: u32));
         mask = fold (\<lambda>i mask. mask OR push_bit (Sn (i - 5)) 1) [5..<rlist + 1] mask;
         mask = (if rlist = 15 then mask OR push_bit (Sn 11) 1 else mask)
     in ucast mask)"


lemma lt16_cases:
  "n < (16::nat) \<Longrightarrow> n \<in> {0, 1, 2, 3, 4, 5, 6, 7, 8, 9, 10, 11, 12, 13, 14, 15}"
  by (simp add: numeral_eq_Suc less_Suc_eq)
lemma zcmp_mask_popcount: "r < 16 \<Longrightarrow>
  unat (popcount (zcmp_mask_of r)) = (if r < 4 then 0 else if r = 15 then 13 else r - 3)"
  by (drule lt16_cases, simp only: insert_iff empty_iff, elim disjE)
    (simp_all add: zcmp_mask_of_def popcount_def Sn_def)

lemma small_word_cases:
  assumes "take_bit 2 (v::u64) = v"
  shows "v \<in> {0, 1, 2, 3}"
proof -
  have "unat v = take_bit 2 (unat v)" by (metis assms unsigned_take_bit_eq)
  then have "unat v < 2 ^ 2" by (metis take_bit_nat_less_exp)
  then have "unat v = 0 \<or> unat v = 1 \<or> unat v = 2 \<or> unat v = 3" by auto
  then show ?thesis by (simp add: word_unat_eq_iff)
qed

lemma insn_x_two: "insn_x b lo 2 \<in> {0, 1, 2, 3}"
  by (rule small_word_cases, rule bit_word_eqI) (auto simp: bit_simps)

lemma zcmp_regmask_of: "zcmp_regmask b = zcmp_mask_of (unat (rvc_rlist b))"
  by (simp only: zcmp_regmask_def zcmp_mask_of_def Let_def)

definition zcmp_adjustment_of :: "nat \<Rightarrow> nat \<Rightarrow> nat" where
  "zcmp_adjustment_of r xlen =
    (if r < 4 then 0 else if xlen = 64 then ((r - 3 + of_bool (r = 15)) * 8 + 15) div 16 * 16
     else ((r - 3 + of_bool (r = 15)) * 4 + 15) div 16 * 16)"

lemma zcmp_stack_adjustment_of:
  assumes "xlen = 32 \<or> xlen = 64"
  shows "unat (zcmp_stack_adjustment b xlen) = zcmp_adjustment_of (unat (rvc_rlist b)) xlen + 16 * unat (insn_x b 2 2)"
proof -
  have "unat (rvc_rlist b) < 16" using zcmp_rlist_cases by blast
  note r = lt16_cases [OF this]
  have s: "insn_x b 2 2 \<in> {0, 1, 2, 3}" by (rule insn_x_two)
  show ?thesis
    using assms r s unfolding zcmp_stack_adjustment_def Let_def rvc_spimm_def insert_iff empty_iff zcmp_adjustment_of_def
    by (elim disjE) simp_all
qed

section \<open>Properties\<close>

definition itype_decodes :: "u32 \<Rightarrow> u32 \<Rightarrow> u32 \<Rightarrow> u16 \<Rightarrow> u32 \<Rightarrow> bool" where
  "itype_decodes w d s imm opcode \<longleftrightarrow>
     insn_rd (ucast w) = ucast d \<and> insn_rs1 (ucast w) = ucast s \<and>
     i_imm (ucast w) = sext (ucast imm) 12 \<and> w AND 0x707f = opcode"

definition stype_decodes :: "u32 \<Rightarrow> u32 \<Rightarrow> u32 \<Rightarrow> u16 \<Rightarrow> u32 \<Rightarrow> bool" where
  "stype_decodes w s b imm opcode \<longleftrightarrow>
     insn_rs2 (ucast w) = ucast s \<and> insn_rs1 (ucast w) = ucast b \<and>
     s_imm (ucast w) = sext (ucast imm) 12 \<and> w AND 0x707f = opcode"

text \<open>The formats of the register accesses and of the shift by an immediate: the twelve upper bits are a field of their
  own.\<close>

definition ctype_decodes :: "u32 \<Rightarrow> u32 \<Rightarrow> u32 \<Rightarrow> u32 \<Rightarrow> u32 \<Rightarrow> bool" where
  "ctype_decodes w d s field opcode \<longleftrightarrow>
     insn_rd (ucast w) = ucast d \<and> insn_rs1 (ucast w) = ucast s \<and>
     insn_csr (ucast w) = ucast field \<and> w AND 0x707f = opcode"

lemma opmask_value: "opmask = 0x707f" by (simp add: opmask_def mask_eq_exp_minus_1 push_bit_eq_mult)

lemma low_imm: "sext (ucast (opc_bits (ucast (imm::u16)) 11 0)) 12 = sext (ucast imm) 12"
  "sext (ucast (push_bit 5 (opc_bits (ucast imm) 11 5) OR opc_bits (ucast imm) 4 0)) 12 =
   sext (ucast imm) 12"
  by (auto intro!: bit_word_eqI simp: bit_sext bit_simps min_def split: if_splits)

lemma opc_bits_low: "opc_bits v 4 0 = take_bit 5 v"
  by (rule bit_word_eqI) (auto simp: bit_simps)

lemma opcode_kept:
  "(push_bit 20 a OR push_bit 15 (take_bit 5 s) OR push_bit 7 (take_bit 5 d) OR (m AND opmask)) AND opmask = m AND opmask"
  "(push_bit 25 a OR push_bit 20 (take_bit 5 s) OR push_bit 15 (take_bit 5 b) OR push_bit 7 (take_bit 5 d) OR (m AND opmask))
     AND opmask = m AND opmask" for m :: u32
  by (auto intro!: bit_word_eqI simp: bit_simps bit_opmask)

lemma itype_decodes_encode:
  assumes "s < 32" "d < 32" "m AND 0x707f = m"
  shows "itype_decodes (push_bit 20 (opc_bits (ucast imm) 11 0) OR push_bit 15 s OR push_bit 7 d OR m) d s imm m"
proof -
  have e: "take_bit 5 s = s" "take_bit 5 d = d" "m AND opmask = m"
    using assms by (simp_all add: reg_take opmask_value)
  show ?thesis
    using itype_fields [of "opc_bits (ucast imm) 11 0" s d m, unfolded e]
      opcode_kept(1) [of "opc_bits (ucast imm) 11 0" s d m, unfolded e]
    by (simp add: itype_decodes_def low_imm opmask_value)
qed

lemma stype_decodes_encode:
  assumes "s < 32" "b < 32" "m AND 0x707f = m"
  shows "stype_decodes (push_bit 25 (opc_bits (ucast imm) 11 5) OR push_bit 20 s OR push_bit 15 b OR
    push_bit 7 (opc_bits (ucast imm) 4 0) OR m) s b imm m"
proof -
  have e: "take_bit 5 s = s" "take_bit 5 b = b" "m AND opmask = m"
     "take_bit 5 (opc_bits (ucast imm) 4 0) = opc_bits (ucast imm) 4 0"
    using assms by (simp_all add: reg_take opmask_value opc_bits_low)
  show ?thesis
    using stype_fields [of "opc_bits (ucast imm) 11 5" s b "opc_bits (ucast imm) 4 0" m, unfolded e]
      opcode_kept(2) [of "opc_bits (ucast imm) 11 5" s b "opc_bits (ucast imm) 4 0" m, unfolded e]
    by (simp add: stype_decodes_def low_imm(2) opmask_value)
qed

lemma ctype_decodes_encode:
  assumes "s < 32" "d < 32" "field < 0x1000" "m AND 0x707f = m"
  shows "ctype_decodes (push_bit 20 field OR push_bit 15 s OR push_bit 7 d OR m) d s field m"
proof -
  have e: "take_bit 5 s = s" "take_bit 5 d = d" "m AND opmask = m"
    using assms by (simp_all add: reg_take opmask_value)
  have "take_bit 12 field = field"
    using assms(3) less_mask_eq [of field 12] by (simp add: take_bit_eq_mask mask_eq_exp_minus_1)
  then have f: "take_bit 12 (ucast field :: u64) = ucast field"
    by (metis unsigned_take_bit_eq)
  show ?thesis
    using itype_fields [of field s d m, unfolded e] opcode_kept(1) [of field s d m, unfolded e]
    by (simp add: ctype_decodes_def opmask_value f)
qed

lemma csr_encodings:
  assumes "d < 32" "s < 32" "csr < 0x1000"
  shows "ctype_decodes (opc_csrw s csr) 0 s csr 0x1073" "ctype_decodes (opc_csrr d csr) d 0 csr 0x2073"
    "ctype_decodes (opc_csrrs d s csr) d s csr 0x2073"
    "ctype_decodes (opc_csrsi csr imm) 0 (take_bit 5 (ucast imm)) csr 0x6073"
    "ctype_decodes (opc_srli d s sh) d s (take_bit 5 (ucast sh)) 0x5013"
proof -
  have z: "(0::u32) < 32" "take_bit 5 x < 32" "take_bit 5 x < 0x1000" for x :: u32
    using take_bit_nat_less_exp [of 5 "unat x"] by (simp_all add: word_less_nat_alt unsigned_take_bit_eq)
  show "ctype_decodes (opc_csrw s csr) 0 s csr 0x1073"
    using ctype_decodes_encode [of s 0 csr "0x1073"] assms by (simp add: opc_csrw_def)
  show "ctype_decodes (opc_csrr d csr) d 0 csr 0x2073"
    using ctype_decodes_encode [of 0 d csr "0x2073"] assms by (simp add: opc_csrr_def)
  show "ctype_decodes (opc_csrrs d s csr) d s csr 0x2073"
    using ctype_decodes_encode [of s d csr "0x2073"] assms by (simp add: opc_csrrs_def)
  show "ctype_decodes (opc_csrsi csr imm) 0 (take_bit 5 (ucast imm)) csr 0x6073"
    using ctype_decodes_encode [of "take_bit 5 (ucast imm)" 0 csr "0x6073"] assms z by (simp add: opc_csrsi_def opc_bits_low)
  show "ctype_decodes (opc_srli d s sh) d s (take_bit 5 (ucast sh)) 0x5013"
    using ctype_decodes_encode [of s d "take_bit 5 (ucast sh)" "0x5013"] assms z by (simp add: opc_srli_def opc_bits_low)
qed

lemma jal_fields:
  assumes "d < 32"
  shows "insn_rd (ucast (opc_jal d imm)) = ucast d"
    "uj_imm (ucast (opc_jal d imm)) = sext (ucast imm AND NOT 1) 21"
    "opc_jal d imm AND 0x7f = 0x6f"
proof -
  have d: "opc_jal d imm = push_bit 31 (opc_bit imm 20) OR push_bit 21 (opc_bits imm 10 1) OR push_bit 20 (opc_bit imm 11) OR
    push_bit 12 (opc_bits imm 19 12) OR push_bit 7 (take_bit 5 d) OR (0x6f AND mask 7)"
    using assms by (simp add: opc_jal_def reg_take mask_eq_exp_minus_1)
  show "insn_rd (ucast (opc_jal d imm)) = ucast d"
    unfolding d
    by (subst (2) reg_take [OF assms, symmetric], rule bit_word_eqI) (auto simp: insn_rd_def bit_simps)
  show "uj_imm (ucast (opc_jal d imm)) = sext (ucast imm AND NOT 1) 21"
    unfolding d
    by (intro bit_word_eqI) (auto simp: bit_uj_imm bit_sext bit_simps min_def split: if_splits)
  show "opc_jal d imm AND 0x7f = 0x6f"
  proof -
    have m: "(0x7f :: u32) = mask 7" by (simp add: mask_eq_exp_minus_1)
    have "opc_jal d imm AND mask 7 = 0x6f AND mask 7"
      unfolding d by (rule bit_word_eqI) (auto simp: bit_simps)
    then show ?thesis unfolding m by (simp add: mask_eq_exp_minus_1)
  qed
qed

lemma lui_fields:
  assumes "d < 32"
  shows "insn_rd (ucast (opc_lui d imm)) = ucast d"
    "u_imm (ucast (opc_lui d imm)) = sext (push_bit 12 (ucast imm)) 32"
    "opc_lui d imm AND 0x7f = 0x37"
proof -
  have d: "opc_lui d imm = push_bit 12 (opc_bits imm 19 0) OR push_bit 7 (take_bit 5 d) OR (0x37 AND mask 7)"
    using assms by (simp add: opc_lui_def reg_take mask_eq_exp_minus_1)
  show "insn_rd (ucast (opc_lui d imm)) = ucast d"
    unfolding d
    by (subst (2) reg_take [OF assms, symmetric], rule bit_word_eqI) (auto simp: insn_rd_def bit_simps)
  show "u_imm (ucast (opc_lui d imm)) = sext (push_bit 12 (ucast imm)) 32"
    unfolding d
    by (intro bit_word_eqI) (auto simp: bit_u_imm bit_sext bit_simps min_def split: if_splits)
  show "opc_lui d imm AND 0x7f = 0x37"
  proof -
    have m: "(0x7f :: u32) = mask 7" by (simp add: mask_eq_exp_minus_1)
    have "opc_lui d imm AND mask 7 = 0x37 AND mask 7"
      unfolding d by (rule bit_word_eqI) (auto simp: bit_simps)
    then show ?thesis unfolding m by (simp add: mask_eq_exp_minus_1)
  qed
qed

lemma opc_bits_reg: "(r::u32) < 32 \<Longrightarrow> opc_bits r 4 0 = r"
  by (simp add: opc_bits_low reg_take)


text \<open>C24: decoding inverts encoding. For register numbers below 32, the words that
  \<^verbatim>\<open>opcodes.h\<close> builds for the debug module carry the opcode of the instruction,
  and the extractors of \<^verbatim>\<open>insn_t\<close> read back the registers and the sign-extended
  immediate that were encoded, for the I, S, J and U formats. The words of the register accesses csrw, csrr, csrrs and
  csrsi name the register and the operand they were built for, and the shift has the low five bits of its amount.\<close>

theorem encode_decode:
  assumes "d < 32" "s < 32" "b < 32" "csr < 0x1000"
  shows "itype_decodes (opc_addi d s imm) d s imm 0x13 \<and> itype_decodes (opc_xori d s imm) d s imm 0x4013 \<and>
    itype_decodes (opc_lb d s imm) d s imm 0x3 \<and> itype_decodes (opc_lh d s imm) d s imm 0x1003 \<and>
    itype_decodes (opc_lw d s imm) d s imm 0x2003 \<and> itype_decodes (opc_ld d s imm) d s imm 0x3003 \<and>
    itype_decodes (opc_flw d s imm) d s imm 0x2007 \<and> itype_decodes (opc_fld d s imm) d s imm 0x3007 \<and>
    stype_decodes (opc_sb s b imm) s b imm 0x23 \<and> stype_decodes (opc_sh s b imm) s b imm 0x1023 \<and>
    stype_decodes (opc_sw s b imm) s b imm 0x2023 \<and> stype_decodes (opc_sd s b imm) s b imm 0x3023 \<and>
    stype_decodes (opc_fsw s b imm) s b imm 0x2027 \<and> stype_decodes (opc_fsd s b imm) s b imm 0x3027 \<and>
    insn_rd (ucast (opc_jal d off)) = ucast d \<and> uj_imm (ucast (opc_jal d off)) = sext (ucast off AND NOT 1) 21 \<and>
    insn_rd (ucast (opc_lui d off)) = ucast d \<and> u_imm (ucast (opc_lui d off)) = sext (push_bit 12 (ucast off)) 32 \<and>
    opc_jal d off AND 0x7f = 0x6f \<and> opc_lui d off AND 0x7f = 0x37 \<and>
    ctype_decodes (opc_csrw s csr) 0 s csr 0x1073 \<and> ctype_decodes (opc_csrr d csr) d 0 csr 0x2073 \<and>
    ctype_decodes (opc_csrrs d s csr) d s csr 0x2073 \<and>
    ctype_decodes (opc_csrsi csr imm) 0 (take_bit 5 (ucast imm)) csr 0x6073 \<and>
    ctype_decodes (opc_srli d s sh) d s (take_bit 5 (ucast sh)) 0x5013"
  using assms
  by (simp add: csr_encodings opc_addi_def opc_xori_def opc_lb_def opc_lh_def opc_lw_def opc_ld_def opc_flw_def opc_fld_def
      opc_sb_def opc_sh_def opc_sw_def opc_sd_def opc_fsw_def opc_fsd_def itype_decodes_encode
      stype_decodes_encode jal_fields lui_fields opc_bits_reg)

theorem encode_decode_witness:
  "itype_decodes (opc_addi 5 8 0xfff) 5 8 0xfff 0x13 \<and> stype_decodes (opc_sw 8 9 0x7ff) 8 9 0x7ff 0x2023 \<and>
   uj_imm (ucast (opc_jal 5 0x1ffffe)) = - 2 \<and> ctype_decodes (opc_csrw 8 0x7b2) 0 8 0x7b2 0x1073"
  using encode_decode [of 5 8 9 "0x7b2" "0xfff" "0x1ffffe"] encode_decode [of 5 8 9 0 "0x7ff"] by (simp add: sext_def)

text \<open>Every immediate of the base formats is a sign-extended number of the width and the
  alignment of its format, for every instruction word.\<close>

lemma immediate_format_ranges:
  "- (2 ^ 11) \<le> sint (i_imm b) \<and> sint (i_imm b) < 2 ^ 11 \<and>
   - (2 ^ 11) \<le> sint (s_imm b) \<and> sint (s_imm b) < 2 ^ 11 \<and>
   - (2 ^ 12) \<le> sint (sb_imm b) \<and> sint (sb_imm b) < 2 ^ 12 \<and> 2 dvd uint (sb_imm b) \<and>
   - (2 ^ 31) \<le> sint (u_imm b) \<and> sint (u_imm b) < 2 ^ 31 \<and> 2 ^ 12 dvd uint (u_imm b) \<and>
   - (2 ^ 20) \<le> sint (uj_imm b) \<and> sint (uj_imm b) < 2 ^ 20 \<and> 2 dvd uint (uj_imm b)"
  by (rule immediate_ranges)

text \<open>The Zcmp stack adjustment is 16-byte aligned, makes room for every register of the
  register list at the width of the machine, and exceeds that room by less than 64 bytes.\<close>

lemma zcmp_stack_room:
  assumes "xlen = 32 \<or> xlen = 64"
  shows "unat (popcount (zcmp_regmask b)) * (xlen div 8) \<le> unat (zcmp_stack_adjustment b xlen) \<and>
    16 dvd unat (zcmp_stack_adjustment b xlen) \<and>
    unat (zcmp_stack_adjustment b xlen) < unat (popcount (zcmp_regmask b)) * (xlen div 8) + 64"
proof -
  have "unat (rvc_rlist b) < 16" using zcmp_rlist_cases by blast
  note r = zcmp_mask_popcount [OF this] lt16_cases [OF this]
  have s: "unat (insn_x b 2 2) < 4" 
    using insn_x_two [of b 2] by auto
  show ?thesis
    using assms r(2) s unfolding zcmp_regmask_of r(1) zcmp_stack_adjustment_of [OF assms] insert_iff empty_iff zcmp_adjustment_of_def
    by (elim disjE) simp_all
qed

lemma zcmp_stack_room_witness:
  "unat (zcmp_stack_adjustment 0xb8f2 32) = 64 \<and> unat (popcount (zcmp_regmask 0xb8f2)) * 4 \<le> 64"
proof -
  have "zcmp_stack_adjustment 0xb8f2 32 = 64" by (simp add: zcmp_stack_adjustment_def rvc_rlist_def rvc_spimm_def insn_x_def)
  then show ?thesis using zcmp_stack_room [of 32 "0xb8f2"] by simp
qed

end
