(* ===== verification/Hart.thy ===== *)
theory Hart
  imports Decode
begin

text \<open>
  The state of a hart and the ways an instruction can end. The record \<^verbatim>\<open>hart\<close>
  collects \<^verbatim>\<open>state_t\<close> and the fields of \<^verbatim>\<open>processor_t\<close> and
  \<^verbatim>\<open>mmu_t\<close> that the modelled code uses (\<^verbatim>\<open>riscv/processor.h\<close>,
  \<^verbatim>\<open>riscv/csrs.h\<close>, \<^verbatim>\<open>riscv/mmu.h\<close>). A control and status register
  object is represented by its member \<^verbatim>\<open>val\<close>; an object that is only created for
  some configurations is an \<^verbatim>\<open>option\<close>. The field \<^verbatim>\<open>npc\<close> is the local
  variable of the same name of \<^verbatim>\<open>insn_template.cc\<close>. The type parameter is the state
  of the devices behind the bus, which the processor only reaches through parameters.
\<close>

section \<open>Extensions\<close>

text \<open>A letter is an extension of misa, the others are entries of
  \<^verbatim>\<open>extension_enable_table\<close>.\<close>

datatype (plugins only:) isa_extension =
    Ext char | EXT_ZFH | EXT_ZFHMIN | EXT_ZBA | EXT_ZBB | EXT_ZBC | EXT_ZBS | EXT_ZBKB
    | EXT_ZBKC | EXT_ZBKX | EXT_ZCA | EXT_ZCB | EXT_ZCD | EXT_ZCF | EXT_ZCLSD | EXT_ZCMP
    | EXT_ZCMT | EXT_ZKND | EXT_ZKNE | EXT_ZKNH | EXT_ZKSED | EXT_ZKSH | EXT_ZKR | EXT_ZMMUL
    | EXT_ZVFH | EXT_ZVFHMIN | EXT_SMEPMP | EXT_SMSTATEEN | EXT_SMRNMI | EXT_SSCOFPMF
    | EXT_SVADU | EXT_SVNAPOT | EXT_SVPBMT | EXT_SVINVAL | EXT_ZDINX | EXT_ZFA | EXT_ZFBFMIN
    | EXT_ZFINX | EXT_ZHINX | EXT_ZHINXMIN | EXT_ZICBOM | EXT_ZICBOZ | EXT_ZICNTR | EXT_ZICOND
    | EXT_ZIHPM | EXT_ZILSD | EXT_ZVBB | EXT_ZVBC | EXT_ZVFBFMIN | EXT_ZVFBFWMA | EXT_ZVKG
    | EXT_ZVKNED | EXT_ZVKNHA | EXT_ZVKNHB | EXT_ZVKSED | EXT_ZVKSH | EXT_SSTC | EXT_ZAAMO
    | EXT_ZALRSC | EXT_ZACAS | EXT_ZABHA | EXT_ZAWRS | EXT_INTERNAL_ZFH_MOVE | EXT_SMCSRIND
    | EXT_SSCSRIND | EXT_SMCNTRPMF | EXT_ZIMOP | EXT_ZCMOP | EXT_ZALASR | EXT_SSQOSID
    | EXT_ZICFILP | EXT_ZICFISS | EXT_SSDBLTRP | EXT_SMDBLTRP | EXT_SMMPM | EXT_SMNPM
    | EXT_SSNPM

datatype (plugins only:) impl_extension =
    IMPL_MMU_SV32 | IMPL_MMU_SV39 | IMPL_MMU_SV48 | IMPL_MMU_SV57 | IMPL_MMU_SBARE
  | IMPL_MMU | IMPL_MMU_VMID | IMPL_MMU_ASID

section \<open>Traps\<close>

text \<open>The class hierarchy of \<^verbatim>\<open>trap_t\<close> flattened: the accessors of a class that
  does not override them return zero.\<close>

record trap_t =
  which :: u64
  has_gva :: bool
  get_tval :: u64
  get_tval2 :: u64
  get_tinst :: u64

definition plain_trap :: "u64 \<Rightarrow> trap_t" where
  "plain_trap w = \<lparr>which = w, has_gva = False, get_tval = 0, get_tval2 = 0, get_tinst = 0\<rparr>"

definition insn_trap :: "u64 \<Rightarrow> bool \<Rightarrow> u64 \<Rightarrow> trap_t" where
  "insn_trap w gva tval =
    \<lparr>which = w, has_gva = gva, get_tval = tval, get_tval2 = 0, get_tinst = 0\<rparr>"

definition mem_trap :: "u64 \<Rightarrow> bool \<Rightarrow> u64 \<Rightarrow> u64 \<Rightarrow> u64 \<Rightarrow> trap_t" where
  "mem_trap w gva tval tval2 tinst =
    \<lparr>which = w, has_gva = gva, get_tval = tval, get_tval2 = tval2, get_tinst = tinst\<rparr>"

abbreviation (input) CAUSE_MISALIGNED_FETCH :: u64 where "CAUSE_MISALIGNED_FETCH \<equiv> 0"
abbreviation (input) CAUSE_FETCH_ACCESS :: u64 where "CAUSE_FETCH_ACCESS \<equiv> 1"
abbreviation (input) CAUSE_ILLEGAL_INSTRUCTION :: u64 where "CAUSE_ILLEGAL_INSTRUCTION \<equiv> 2"
abbreviation (input) CAUSE_BREAKPOINT :: u64 where "CAUSE_BREAKPOINT \<equiv> 3"
abbreviation (input) CAUSE_MISALIGNED_LOAD :: u64 where "CAUSE_MISALIGNED_LOAD \<equiv> 4"
abbreviation (input) CAUSE_LOAD_ACCESS :: u64 where "CAUSE_LOAD_ACCESS \<equiv> 5"
abbreviation (input) CAUSE_MISALIGNED_STORE :: u64 where "CAUSE_MISALIGNED_STORE \<equiv> 6"
abbreviation (input) CAUSE_STORE_ACCESS :: u64 where "CAUSE_STORE_ACCESS \<equiv> 7"
abbreviation (input) CAUSE_USER_ECALL :: u64 where "CAUSE_USER_ECALL \<equiv> 8"
abbreviation (input) CAUSE_SUPERVISOR_ECALL :: u64 where "CAUSE_SUPERVISOR_ECALL \<equiv> 9"
abbreviation (input) CAUSE_VIRTUAL_SUPERVISOR_ECALL :: u64 where "CAUSE_VIRTUAL_SUPERVISOR_ECALL \<equiv> 10"
abbreviation (input) CAUSE_MACHINE_ECALL :: u64 where "CAUSE_MACHINE_ECALL \<equiv> 11"
abbreviation (input) CAUSE_FETCH_PAGE_FAULT :: u64 where "CAUSE_FETCH_PAGE_FAULT \<equiv> 12"
abbreviation (input) CAUSE_LOAD_PAGE_FAULT :: u64 where "CAUSE_LOAD_PAGE_FAULT \<equiv> 13"
abbreviation (input) CAUSE_STORE_PAGE_FAULT :: u64 where "CAUSE_STORE_PAGE_FAULT \<equiv> 15"
abbreviation (input) CAUSE_DOUBLE_TRAP :: u64 where "CAUSE_DOUBLE_TRAP \<equiv> 16"
abbreviation (input) CAUSE_SOFTWARE_CHECK_FAULT :: u64 where "CAUSE_SOFTWARE_CHECK_FAULT \<equiv> 18"
abbreviation (input) CAUSE_HARDWARE_ERROR_FAULT :: u64 where "CAUSE_HARDWARE_ERROR_FAULT \<equiv> 19"
abbreviation (input) CAUSE_FETCH_GUEST_PAGE_FAULT :: u64 where "CAUSE_FETCH_GUEST_PAGE_FAULT \<equiv> 20"
abbreviation (input) CAUSE_LOAD_GUEST_PAGE_FAULT :: u64 where "CAUSE_LOAD_GUEST_PAGE_FAULT \<equiv> 21"
abbreviation (input) CAUSE_VIRTUAL_INSTRUCTION :: u64 where "CAUSE_VIRTUAL_INSTRUCTION \<equiv> 22"
abbreviation (input) CAUSE_STORE_GUEST_PAGE_FAULT :: u64 where "CAUSE_STORE_GUEST_PAGE_FAULT \<equiv> 23"

definition trap_instruction_address_misaligned :: "bool \<Rightarrow> u64 \<Rightarrow> u64 \<Rightarrow> u64 \<Rightarrow> trap_t" where
  "trap_instruction_address_misaligned gva tval tval2 tinst = mem_trap CAUSE_MISALIGNED_FETCH gva tval tval2 tinst"
definition trap_instruction_access_fault :: "bool \<Rightarrow> u64 \<Rightarrow> u64 \<Rightarrow> u64 \<Rightarrow> trap_t" where
  "trap_instruction_access_fault gva tval tval2 tinst = mem_trap CAUSE_FETCH_ACCESS gva tval tval2 tinst"
definition trap_load_address_misaligned :: "bool \<Rightarrow> u64 \<Rightarrow> u64 \<Rightarrow> u64 \<Rightarrow> trap_t" where
  "trap_load_address_misaligned gva tval tval2 tinst = mem_trap CAUSE_MISALIGNED_LOAD gva tval tval2 tinst"
definition trap_store_address_misaligned :: "bool \<Rightarrow> u64 \<Rightarrow> u64 \<Rightarrow> u64 \<Rightarrow> trap_t" where
  "trap_store_address_misaligned gva tval tval2 tinst = mem_trap CAUSE_MISALIGNED_STORE gva tval tval2 tinst"
definition trap_load_access_fault :: "bool \<Rightarrow> u64 \<Rightarrow> u64 \<Rightarrow> u64 \<Rightarrow> trap_t" where
  "trap_load_access_fault gva tval tval2 tinst = mem_trap CAUSE_LOAD_ACCESS gva tval tval2 tinst"
definition trap_store_access_fault :: "bool \<Rightarrow> u64 \<Rightarrow> u64 \<Rightarrow> u64 \<Rightarrow> trap_t" where
  "trap_store_access_fault gva tval tval2 tinst = mem_trap CAUSE_STORE_ACCESS gva tval tval2 tinst"
definition trap_instruction_page_fault :: "bool \<Rightarrow> u64 \<Rightarrow> u64 \<Rightarrow> u64 \<Rightarrow> trap_t" where
  "trap_instruction_page_fault gva tval tval2 tinst = mem_trap CAUSE_FETCH_PAGE_FAULT gva tval tval2 tinst"
definition trap_load_page_fault :: "bool \<Rightarrow> u64 \<Rightarrow> u64 \<Rightarrow> u64 \<Rightarrow> trap_t" where
  "trap_load_page_fault gva tval tval2 tinst = mem_trap CAUSE_LOAD_PAGE_FAULT gva tval tval2 tinst"
definition trap_store_page_fault :: "bool \<Rightarrow> u64 \<Rightarrow> u64 \<Rightarrow> u64 \<Rightarrow> trap_t" where
  "trap_store_page_fault gva tval tval2 tinst = mem_trap CAUSE_STORE_PAGE_FAULT gva tval tval2 tinst"
definition trap_instruction_guest_page_fault :: "u64 \<Rightarrow> u64 \<Rightarrow> u64 \<Rightarrow> trap_t" where
  "trap_instruction_guest_page_fault tval tval2 tinst = mem_trap CAUSE_FETCH_GUEST_PAGE_FAULT True tval tval2 tinst"
definition trap_load_guest_page_fault :: "u64 \<Rightarrow> u64 \<Rightarrow> u64 \<Rightarrow> trap_t" where
  "trap_load_guest_page_fault tval tval2 tinst = mem_trap CAUSE_LOAD_GUEST_PAGE_FAULT True tval tval2 tinst"
definition trap_store_guest_page_fault :: "u64 \<Rightarrow> u64 \<Rightarrow> u64 \<Rightarrow> trap_t" where
  "trap_store_guest_page_fault tval tval2 tinst = mem_trap CAUSE_STORE_GUEST_PAGE_FAULT True tval tval2 tinst"
definition trap_illegal_instruction :: "u64 \<Rightarrow> trap_t" where
  "trap_illegal_instruction tval = insn_trap CAUSE_ILLEGAL_INSTRUCTION False tval"
definition trap_virtual_instruction :: "u64 \<Rightarrow> trap_t" where
  "trap_virtual_instruction tval = insn_trap CAUSE_VIRTUAL_INSTRUCTION False tval"
definition trap_software_check :: "u64 \<Rightarrow> trap_t" where
  "trap_software_check tval = insn_trap CAUSE_SOFTWARE_CHECK_FAULT False tval"
definition trap_breakpoint :: "bool \<Rightarrow> u64 \<Rightarrow> trap_t" where
  "trap_breakpoint gva tval = insn_trap CAUSE_BREAKPOINT gva tval"
definition trap_user_ecall :: trap_t where "trap_user_ecall = plain_trap CAUSE_USER_ECALL"
definition trap_supervisor_ecall :: trap_t where "trap_supervisor_ecall = plain_trap CAUSE_SUPERVISOR_ECALL"
definition trap_virtual_supervisor_ecall :: trap_t where "trap_virtual_supervisor_ecall = plain_trap CAUSE_VIRTUAL_SUPERVISOR_ECALL"
definition trap_machine_ecall :: trap_t where "trap_machine_ecall = plain_trap CAUSE_MACHINE_ECALL"
definition trap_double_trap :: trap_t where "trap_double_trap = plain_trap CAUSE_DOUBLE_TRAP"

text \<open>The exception of a matched trigger, \<^verbatim>\<open>triggers::matched_t\<close>.\<close>

datatype trigger_operation_t = OPERATION_EXECUTE | OPERATION_STORE | OPERATION_LOAD
datatype trigger_timing_t = TIMING_BEFORE | TIMING_AFTER
datatype trigger_action_t =
    ACTION_DEBUG_EXCEPTION | ACTION_DEBUG_MODE | ACTION_TRACE_START | ACTION_TRACE_STOP
  | ACTION_TRACE_EMIT

record matched_t =
  trig_operation :: trigger_operation_t
  trig_address :: u64
  trig_action :: trigger_action_t
  trig_gva :: bool

section \<open>The state record\<close>

record freg_t =
  v0 :: u64
  v1 :: u64

datatype elp_t = NO_LP_EXPECTED | LP_EXPECTED

datatype single_step_t = STEP_NONE | STEP_STEPPING | STEP_STEPPED

record dcsr_t =
  dcsr_prv :: u8
  dcsr_step :: bool
  dcsr_ebreakm :: bool
  dcsr_ebreaks :: bool
  dcsr_ebreaku :: bool
  dcsr_ebreakvs :: bool
  dcsr_ebreakvu :: bool
  dcsr_v :: bool
  dcsr_cause :: u8
  dcsr_ext_cause :: u8
  dcsr_cetrig :: bool
  dcsr_pelp :: elp_t

text \<open>The record is built in four layers, each a part of \<^verbatim>\<open>state_t\<close>: the execution
  state, the machine and supervisor trap registers, those of the hypervisor and debug mode, and
  the environment, floating-point and memory protection state.\<close>

record core_state =
  pc :: u64
  npc :: u64
  XPR :: "u64 regfile_t"
  FPR :: "freg_t regfile_t"
  prv :: u64
  prev_prv :: u64
  prv_changed :: bool
  virt :: bool
  prev_virt :: bool
  virt_changed :: bool
  debug_mode :: bool
  serialized :: bool
  single_step :: single_step_t
  elp :: elp_t
  critical_error :: bool
  in_wfi :: bool

record trap_csrs = core_state +
  misa_val :: u64
  extension_enable_table :: "isa_extension \<Rightarrow> bool"
  impl_table :: "impl_extension \<Rightarrow> bool"
  sstatus_write_mask :: u64
  has_page :: bool
  mstatus_val :: u64
  mepc_val :: u64
  mtval_val :: u64
  mtvec_val :: u64
  mcause_val :: u64
  mie_val :: u64
  mip_val :: u64
  hvip_val :: u64
  medeleg_val :: u64
  mideleg_val :: u64
  mnstatus_val :: "u64 option"
  mnepc_val :: u64
  sepc_val :: u64
  stval_val :: u64
  stvec_val :: u64
  scause_val :: u64
  satp_val :: u64

record virt_csrs = trap_csrs +
  mtval2_val :: u64
  mtinst_val :: u64
  hstatus_val :: u64
  hideleg_val :: u64
  hedeleg_val :: u64
  htval_val :: u64
  htinst_val :: u64
  hgatp_val :: u64
  vsstatus_val :: u64
  vstvec_val :: u64
  vsepc_val :: u64
  vscause_val :: u64
  vstval_val :: u64
  vsatp_val :: u64
  dpc_val :: u64
  dcsr :: dcsr_t
  tcontrol_val :: "u64 option"

record 'd hart = virt_csrs +
  menvcfg_val :: u64
  senvcfg_val :: u64
  henvcfg_val :: u64
  mseccfg_val :: u64
  jvt_val :: u64
  ssp_val :: u64
  mstateen0_val :: u64
  sstateen0_val :: u64
  hstateen0_val :: u64
  menvcfg_mask :: u64
  senvcfg_mask :: u64
  henvcfg_mask :: u64
  misa_write_mask :: u64
  fflags_val :: u64
  frm_val :: u64
  pmpaddr_val :: "nat \<Rightarrow> u64"
  pmpaddr_cfg :: "nat \<Rightarrow> u8"
  n_pmp :: nat
  lg_pmp_granularity :: nat
  softfloat_exceptionFlags :: u8
  softfloat_roundingMode :: u8
  tlb_insn_tag :: "nat \<Rightarrow> u64"
  tlb_load_tag :: "nat \<Rightarrow> u64"
  tlb_store_tag :: "nat \<Rightarrow> u64"
  tlb_data :: "nat \<Rightarrow> u64"
  icache_tag :: "nat \<Rightarrow> u64"
  icache_insn :: "nat \<Rightarrow> u64"
  check_triggers_fetch :: bool
  check_triggers_load :: bool
  check_triggers_store :: bool
  matched_trigger :: "matched_t option"
  load_reservation_address :: u64
  dev :: 'd

text \<open>What an instruction handler is given: the width of the machine, the instruction, its
  address, and the parts of the configuration that never change.\<close>

record ctx =
  xlen :: nat
  max_xlen :: nat
  insn_bits :: insn_t
  insn_pc :: u64
  any_custom_extensions :: bool
  isa_table :: "isa_extension \<Rightarrow> bool"

section \<open>Outcomes\<close>

text \<open>\<^verbatim>\<open>Abort\<close> stands for \<^verbatim>\<open>abort()\<close> and for a failed
  \<^verbatim>\<open>assert\<close>; \<^verbatim>\<open>SerializeBefore\<close> is the early return of
  \<^verbatim>\<open>PC_SERIALIZE_BEFORE\<close> in \<^verbatim>\<open>validate_csr\<close>. The state reached so far
  is kept when an exception is thrown, as in the C++ code.\<close>

datatype exn = Trap trap_t | TriggerMatched matched_t | TrapDebugMode | WaitForInterrupt | SerializeBefore | Abort

type_synonym ('s, 'a) M = "'s \<Rightarrow> (exn + 'a) \<times> 's"

definition returnM :: "'a \<Rightarrow> ('s, 'a) M" where
  "returnM x s = (Inr x, s)"

definition throwM :: "exn \<Rightarrow> ('s, 'a) M" where
  "throwM e s = (Inl e, s)"

definition bindM :: "('s, 'a) M \<Rightarrow> ('a \<Rightarrow> ('s, 'b) M) \<Rightarrow> ('s, 'b) M" where
  "bindM m f s = (case m s of (Inl e, s') \<Rightarrow> (Inl e, s') | (Inr x, s') \<Rightarrow> f x s')"

definition thenM :: "('s, 'a) M \<Rightarrow> ('s, 'b) M \<Rightarrow> ('s, 'b) M" where
  "thenM m n = bindM m (\<lambda>_. n)"

definition modifyM :: "('s \<Rightarrow> 's) \<Rightarrow> ('s, unit) M" where
  "modifyM f s = (Inr (), f s)"

lemmas monad_defs = returnM_def throwM_def bindM_def thenM_def modifyM_def

definition PRV_U :: u64 where "PRV_U = 0"
definition PRV_S :: u64 where "PRV_S = 1"
definition PRV_HS :: u64 where "PRV_HS = PRV_S + 1"
definition PRV_M :: u64 where "PRV_M = 3"

lemmas prv_defs = PRV_U_def PRV_S_def PRV_HS_def PRV_M_def

end
