(* ===== verification/Csr.thy ===== *)
theory Csr
  imports Hart
begin

text \<open>
  Control and status registers, from \<^verbatim>\<open>riscv/csrs.cc\<close> and
  \<^verbatim>\<open>riscv/csrs.h\<close>: for each class its \<^verbatim>\<open>read\<close> and its
  \<^verbatim>\<open>write\<close> (\<^verbatim>\<open>unlogged_write\<close>; the commit log is not modelled), and the
  privilege operations of \<^verbatim>\<open>riscv/processor.cc\<close> that they call. The masks that a
  constructor computes once are fields of the state.
\<close>

section \<open>Status field masks\<close>

abbreviation (input) MSTATUS_SIE :: u64 where "MSTATUS_SIE \<equiv> 0x00000002"
abbreviation (input) MSTATUS_MIE :: u64 where "MSTATUS_MIE \<equiv> 0x00000008"
abbreviation (input) MSTATUS_SPIE :: u64 where "MSTATUS_SPIE \<equiv> 0x00000020"
abbreviation (input) MSTATUS_MPIE :: u64 where "MSTATUS_MPIE \<equiv> 0x00000080"
abbreviation (input) MSTATUS_SPP :: u64 where "MSTATUS_SPP \<equiv> 0x00000100"
abbreviation (input) MSTATUS_MPP :: u64 where "MSTATUS_MPP \<equiv> 0x00001800"
abbreviation (input) MSTATUS_MPRV :: u64 where "MSTATUS_MPRV \<equiv> 0x00020000"
abbreviation (input) MSTATUS_TVM :: u64 where "MSTATUS_TVM \<equiv> 0x00100000"
abbreviation (input) MSTATUS_TW :: u64 where "MSTATUS_TW \<equiv> 0x00200000"
abbreviation (input) MSTATUS_TSR :: u64 where "MSTATUS_TSR \<equiv> 0x00400000"
abbreviation (input) MSTATUS_SPELP :: u64 where "MSTATUS_SPELP \<equiv> 0x00800000"
abbreviation (input) MSTATUS_SDT :: u64 where "MSTATUS_SDT \<equiv> 0x01000000"
abbreviation (input) MSTATUS_MXR :: u64 where "MSTATUS_MXR \<equiv> 0x00080000"
abbreviation (input) MSTATUS_SUM :: u64 where "MSTATUS_SUM \<equiv> 0x00040000"
abbreviation (input) MSTATUS_GVA :: u64 where "MSTATUS_GVA \<equiv> 0x0000004000000000"
abbreviation (input) MSTATUS_MPV :: u64 where "MSTATUS_MPV \<equiv> 0x0000008000000000"
abbreviation (input) MSTATUS_MPELP :: u64 where "MSTATUS_MPELP \<equiv> 0x0000020000000000"
abbreviation (input) MSTATUS_MDT :: u64 where "MSTATUS_MDT \<equiv> 0x0000040000000000"
abbreviation (input) SSTATUS_UBE :: u64 where "SSTATUS_UBE \<equiv> 0x00000040"
abbreviation (input) SSTATUS_SIE :: u64 where "SSTATUS_SIE \<equiv> 0x00000002"
abbreviation (input) SSTATUS_SPIE :: u64 where "SSTATUS_SPIE \<equiv> 0x00000020"
abbreviation (input) SSTATUS_SPP :: u64 where "SSTATUS_SPP \<equiv> 0x00000100"
abbreviation (input) SSTATUS_VS :: u64 where "SSTATUS_VS \<equiv> 0x00000600"
abbreviation (input) SSTATUS_FS :: u64 where "SSTATUS_FS \<equiv> 0x00006000"
abbreviation (input) SSTATUS_XS :: u64 where "SSTATUS_XS \<equiv> 0x00018000"
abbreviation (input) SSTATUS_SPELP :: u64 where "SSTATUS_SPELP \<equiv> 0x00800000"
abbreviation (input) SSTATUS_SDT :: u64 where "SSTATUS_SDT \<equiv> 0x01000000"
abbreviation (input) SSTATUS32_SD :: u64 where "SSTATUS32_SD \<equiv> 0x80000000"
abbreviation (input) SSTATUS64_SD :: u64 where "SSTATUS64_SD \<equiv> 0x8000000000000000"
abbreviation (input) SSTATUS_UXL :: u64 where "SSTATUS_UXL \<equiv> 0x0000000300000000"
abbreviation (input) HSTATUS_VTSR :: u64 where "HSTATUS_VTSR \<equiv> 0x00400000"
abbreviation (input) HSTATUS_VTW :: u64 where "HSTATUS_VTW \<equiv> 0x00200000"
abbreviation (input) HSTATUS_VTVM :: u64 where "HSTATUS_VTVM \<equiv> 0x00100000"
abbreviation (input) HSTATUS_HU :: u64 where "HSTATUS_HU \<equiv> 0x00000200"
abbreviation (input) HSTATUS_SPVP :: u64 where "HSTATUS_SPVP \<equiv> 0x00000100"
abbreviation (input) HSTATUS_SPV :: u64 where "HSTATUS_SPV \<equiv> 0x00000080"
abbreviation (input) HSTATUS_GVA :: u64 where "HSTATUS_GVA \<equiv> 0x00000040"
abbreviation (input) HSTATUS_HUPMM :: u64 where "HSTATUS_HUPMM \<equiv> 0x0003000000000000"
abbreviation (input) MENVCFG_LPE :: u64 where "MENVCFG_LPE \<equiv> 0x00000004"
abbreviation (input) MENVCFG_SSE :: u64 where "MENVCFG_SSE \<equiv> 0x00000008"
abbreviation (input) MENVCFG_CBIE :: u64 where "MENVCFG_CBIE \<equiv> 0x00000030"
abbreviation (input) MENVCFG_CBCFE :: u64 where "MENVCFG_CBCFE \<equiv> 0x00000040"
abbreviation (input) MENVCFG_CBZE :: u64 where "MENVCFG_CBZE \<equiv> 0x00000080"
abbreviation (input) MENVCFG_PMM :: u64 where "MENVCFG_PMM \<equiv> 0x0000000300000000"
abbreviation (input) MENVCFG_DTE :: u64 where "MENVCFG_DTE \<equiv> 0x0800000000000000"
abbreviation (input) MENVCFG_ADUE :: u64 where "MENVCFG_ADUE \<equiv> 0x2000000000000000"
abbreviation (input) MENVCFG_PBMTE :: u64 where "MENVCFG_PBMTE \<equiv> 0x4000000000000000"
abbreviation (input) MENVCFG_STCE :: u64 where "MENVCFG_STCE \<equiv> 0x8000000000000000"
abbreviation (input) MSECCFG_MML :: u64 where "MSECCFG_MML \<equiv> 0x00000001"
abbreviation (input) MSECCFG_MMWP :: u64 where "MSECCFG_MMWP \<equiv> 0x00000002"
abbreviation (input) MSECCFG_RLB :: u64 where "MSECCFG_RLB \<equiv> 0x00000004"
abbreviation (input) MSECCFG_USEED :: u64 where "MSECCFG_USEED \<equiv> 0x00000100"
abbreviation (input) MSECCFG_SSEED :: u64 where "MSECCFG_SSEED \<equiv> 0x00000200"
abbreviation (input) MSECCFG_MLPE :: u64 where "MSECCFG_MLPE \<equiv> 0x00000400"
abbreviation (input) MSECCFG_PMM :: u64 where "MSECCFG_PMM \<equiv> 0x0000000300000000"
abbreviation (input) MIP_SSIP :: u64 where "MIP_SSIP \<equiv> 0x2"
abbreviation (input) MIP_VSSIP :: u64 where "MIP_VSSIP \<equiv> 0x4"
abbreviation (input) MIP_MSIP :: u64 where "MIP_MSIP \<equiv> 0x8"
abbreviation (input) MIP_STIP :: u64 where "MIP_STIP \<equiv> 0x20"
abbreviation (input) MIP_VSTIP :: u64 where "MIP_VSTIP \<equiv> 0x40"
abbreviation (input) MIP_MTIP :: u64 where "MIP_MTIP \<equiv> 0x80"
abbreviation (input) MIP_SEIP :: u64 where "MIP_SEIP \<equiv> 0x200"
abbreviation (input) MIP_VSEIP :: u64 where "MIP_VSEIP \<equiv> 0x400"
abbreviation (input) MIP_MEIP :: u64 where "MIP_MEIP \<equiv> 0x800"
abbreviation (input) MIP_SGEIP :: u64 where "MIP_SGEIP \<equiv> 0x1000"
abbreviation (input) MIP_LCOFIP :: u64 where "MIP_LCOFIP \<equiv> 0x2000"
abbreviation (input) MIP_VS_MASK :: u64 where "MIP_VS_MASK \<equiv> 0x444"
abbreviation (input) MIP_HS_MASK :: u64 where "MIP_HS_MASK \<equiv> 0x1444"
abbreviation (input) MNSTATUS_NMIE :: u64 where "MNSTATUS_NMIE \<equiv> 0x00000008"
abbreviation (input) MNSTATUS_MNPP :: u64 where "MNSTATUS_MNPP \<equiv> 0x00001800"
abbreviation (input) MNSTATUS_MNPV :: u64 where "MNSTATUS_MNPV \<equiv> 0x00000080"

section \<open>Extensions and privilege\<close>

definition misa_extension_enabled :: "'d hart \<Rightarrow> char \<Rightarrow> bool" where
  "misa_extension_enabled s ch = (drop_bit (of_char ch - 65) (misa_val s) AND 1 = 1)"

definition extension_enabled :: "'d hart \<Rightarrow> isa_extension \<Rightarrow> bool" where
  "extension_enabled s e =
    (case e of Ext ch \<Rightarrow> misa_extension_enabled s ch | e \<Rightarrow> extension_enable_table s e)"

definition supports_impl :: "'d hart \<Rightarrow> impl_extension \<Rightarrow> bool" where
  "supports_impl s i = impl_table s i"

definition flush_icache :: "'d hart \<Rightarrow> 'd hart" where
  "flush_icache s = s\<lparr>icache_tag := (\<lambda>_. - 1)\<rparr>"

definition flush_tlb :: "'d hart \<Rightarrow> 'd hart" where
  "flush_tlb s = flush_icache (s\<lparr>tlb_insn_tag := (\<lambda>_. - 1), tlb_load_tag := (\<lambda>_. - 1),
     tlb_store_tag := (\<lambda>_. - 1)\<rparr>)"

text \<open>The \<^verbatim>\<open>assert(prv <= PRV_M)\<close> holds at every call: the argument is a two-bit
  field or a constant.\<close>

definition legalize_privilege :: "'d hart \<Rightarrow> u64 \<Rightarrow> u64" where
  "legalize_privilege s p =
    (if \<not> extension_enabled s (Ext CHR ''U'') then PRV_M
     else if p = PRV_HS \<or> (p = PRV_S \<and> \<not> extension_enabled s (Ext CHR ''S'')) then PRV_U
     else p)"

definition set_privilege :: "u64 \<Rightarrow> bool \<Rightarrow> 'd hart \<Rightarrow> 'd hart" where
  "set_privilege p vir s =
    (let s = flush_tlb s;
         s = s\<lparr>prev_prv := prv s, prev_virt := virt s\<rparr>;
         s = s\<lparr>prv := legalize_privilege s p\<rparr>;
         s = s\<lparr>virt := vir \<and> prv s \<noteq> PRV_M\<rparr>
     in s\<lparr>prv_changed := (prv s \<noteq> prev_prv s), virt_changed := (virt s \<noteq> prev_virt s)\<rparr>)"

definition pc_alignment_mask :: "'d hart \<Rightarrow> u64" where
  "pc_alignment_mask s =
    (let ialign = (if extension_enabled s EXT_ZCA then 16 else 32 :: nat)
     in NOT (if ialign = 16 then 0 else 2))"

section \<open>Simple classes\<close>

definition masked_write :: "u64 \<Rightarrow> u64 \<Rightarrow> u64 \<Rightarrow> u64" where
  "masked_write mask' old val = (old AND NOT mask') OR (val AND mask')"

definition epc_read :: "'d hart \<Rightarrow> u64 \<Rightarrow> u64" where
  "epc_read s v = v AND pc_alignment_mask s"

definition epc_write :: "u64 \<Rightarrow> u64" where
  "epc_write v = v AND NOT 1"

definition tvec_write :: "u64 \<Rightarrow> u64" where
  "tvec_write v = v AND NOT 2"

definition cause_read :: "ctx \<Rightarrow> u64 \<Rightarrow> u64" where
  "cause_read c v =
    (if xlen c < max_xlen c
     then v OR push_bit (xlen c - 1) (drop_bit (max_xlen c - 1) v) else v)"

section \<open>The mstatus family\<close>

definition sstatus_read_mask :: "ctx \<Rightarrow> 'd hart \<Rightarrow> u64" where
  "sstatus_read_mask c s =
    sstatus_write_mask s OR SSTATUS_UBE OR SSTATUS_UXL OR
      (if xlen c = 32 then SSTATUS32_SD else SSTATUS64_SD)"

definition compute_sstatus_write_mask :: "ctx \<Rightarrow> bool \<Rightarrow> 'd hart \<Rightarrow> u64" where
  "compute_sstatus_write_mask c any_vector_extensions s =
    (let has_fs = ((extension_enabled s (Ext CHR ''S'') \<or> extension_enabled s (Ext CHR ''F''))
                   \<and> \<not> extension_enabled s EXT_ZFINX);
         has_vs = any_vector_extensions
     in (if extension_enabled s (Ext CHR ''S'') then SSTATUS_SIE OR SSTATUS_SPIE OR SSTATUS_SPP else 0)
        OR (if has_page s then MSTATUS_SUM OR MSTATUS_MXR else 0)
        OR (if has_fs then SSTATUS_FS else 0)
        OR (if any_custom_extensions c then SSTATUS_XS else 0)
        OR (if has_vs then SSTATUS_VS else 0)
        OR (if extension_enabled s EXT_ZICFILP then SSTATUS_SPELP else 0)
        OR (if extension_enabled s EXT_SSDBLTRP then SSTATUS_SDT else 0))"

definition adjust_sd :: "ctx \<Rightarrow> u64 \<Rightarrow> u64" where
  "adjust_sd c v =
    (let sd_bit = (if xlen c = 64 then SSTATUS64_SD else SSTATUS32_SD)
     in if v AND SSTATUS_FS = SSTATUS_FS \<or> v AND SSTATUS_VS = SSTATUS_VS \<or> v AND SSTATUS_XS = SSTATUS_XS
        then v OR sd_bit else v AND NOT sd_bit)"

definition mstatus_read :: "'d hart \<Rightarrow> u64" where
  "mstatus_read s = mstatus_val s"

definition maybe_flush_tlb :: "u64 \<Rightarrow> u64 \<Rightarrow> 'd hart \<Rightarrow> 'd hart" where
  "maybe_flush_tlb newval old s =
    (if (newval XOR old) AND (MSTATUS_MPP OR MSTATUS_MPRV OR
          (if has_page s then MSTATUS_MXR OR MSTATUS_SUM else 0)) \<noteq> 0
     then flush_tlb s else s)"

definition mstatus_mask :: "'d hart \<Rightarrow> u64" where
  "mstatus_mask s =
    (let has_mpv = extension_enabled s (Ext CHR ''H''); has_gva = has_mpv
     in sstatus_write_mask s OR MSTATUS_MIE OR MSTATUS_MPIE
        OR (if extension_enabled s (Ext CHR ''U'') then MSTATUS_MPRV else 0)
        OR MSTATUS_MPP OR MSTATUS_TW
        OR (if extension_enabled s (Ext CHR ''S'') then MSTATUS_TSR else 0)
        OR (if has_page s then MSTATUS_TVM else 0)
        OR (if has_gva then MSTATUS_GVA else 0)
        OR (if has_mpv then MSTATUS_MPV else 0)
        OR (if extension_enabled s EXT_SMDBLTRP then MSTATUS_MDT else 0)
        OR (if extension_enabled s EXT_ZICFILP then MSTATUS_SPELP OR MSTATUS_MPELP else 0)
        OR (if extension_enabled s EXT_SSDBLTRP then SSTATUS_SDT else 0))"

definition mstatus_write :: "ctx \<Rightarrow> u64 \<Rightarrow> 'd hart \<Rightarrow> 'd hart" where
  "mstatus_write c v s =
    (let m = mstatus_mask s;
         requested_mpp = legalize_privilege s (get_field v MSTATUS_MPP);
         adjusted_val = set_field v MSTATUS_MPP requested_mpp;
         new_mstatus = (mstatus_read s AND NOT m) OR (adjusted_val AND m);
         new_mstatus = (if new_mstatus AND MSTATUS_MDT \<noteq> 0 then new_mstatus AND NOT MSTATUS_MIE else new_mstatus);
         new_mstatus = (if new_mstatus AND MSTATUS_SDT \<noteq> 0 then new_mstatus AND NOT MSTATUS_SIE else new_mstatus)
     in (maybe_flush_tlb new_mstatus (mstatus_read s) s)\<lparr>mstatus_val := adjust_sd c new_mstatus\<rparr>)"

text \<open>On RV32 \<^verbatim>\<open>mstatush\<close> is a view of the upper half of \<^verbatim>\<open>mstatus\<close>.\<close>

definition mstatush_write :: "ctx \<Rightarrow> u64 \<Rightarrow> 'd hart \<Rightarrow> 'd hart" where
  "mstatush_write c v s =
    mstatus_write c (drop_bit 32 (push_bit 32 (mstatus_read s)) OR push_bit 32 (v AND 0xffffffff)) s"

definition henvcfg_read :: "'d hart \<Rightarrow> u64" where
  "henvcfg_read s =
    (menvcfg_val s OR NOT (MENVCFG_PBMTE OR MENVCFG_STCE OR MENVCFG_ADUE OR MENVCFG_DTE OR MENVCFG_SSE))
      AND henvcfg_val s"

definition senvcfg_read :: "'d hart \<Rightarrow> u64" where
  "senvcfg_read s =
    (let envcfg = (if virt s then henvcfg_read s else menvcfg_val s)
     in senvcfg_val s AND NOT (if envcfg AND MENVCFG_SSE \<noteq> 0 then 0 else MENVCFG_SSE))"

definition nonvirtual_sstatus_read :: "ctx \<Rightarrow> 'd hart \<Rightarrow> u64" where
  "nonvirtual_sstatus_read c s =
    (let mDTE = menvcfg_val s AND MENVCFG_DTE;
         adj_read_mask = sstatus_read_mask c s AND NOT (if mDTE \<noteq> 0 then 0 else SSTATUS_SDT)
     in mstatus_read s AND adj_read_mask)"

definition nonvirtual_sstatus_write :: "ctx \<Rightarrow> u64 \<Rightarrow> 'd hart \<Rightarrow> 'd hart" where
  "nonvirtual_sstatus_write c v s =
    (let mDTE = menvcfg_val s AND MENVCFG_DTE;
         adj_write_mask = sstatus_write_mask s AND NOT (if mDTE \<noteq> 0 then 0 else SSTATUS_SDT);
         new_mstatus = (mstatus_read s AND NOT adj_write_mask) OR (v AND adj_write_mask);
         new_mstatus = (if new_mstatus AND SSTATUS_SDT \<noteq> 0 then new_mstatus AND NOT SSTATUS_SIE else new_mstatus)
     in mstatus_write c new_mstatus s)"

definition vsstatus_read :: "ctx \<Rightarrow> 'd hart \<Rightarrow> u64" where
  "vsstatus_read c s =
    (let hDTE = henvcfg_read s AND MENVCFG_DTE;
         adj_read_mask = sstatus_read_mask c s AND NOT (if hDTE \<noteq> 0 then 0 else SSTATUS_SDT)
     in vsstatus_val s AND adj_read_mask)"

definition vsstatus_write :: "ctx \<Rightarrow> u64 \<Rightarrow> 'd hart \<Rightarrow> 'd hart" where
  "vsstatus_write c v s =
    (let hDTE = henvcfg_read s AND MENVCFG_DTE;
         adj_write_mask = sstatus_write_mask s AND NOT (if hDTE \<noteq> 0 then 0 else SSTATUS_SDT);
         newval = (vsstatus_val s AND NOT adj_write_mask) OR (v AND adj_write_mask);
         newval = (if newval AND SSTATUS_SDT \<noteq> 0 then newval AND NOT SSTATUS_SIE else newval);
         s = (if virt s then maybe_flush_tlb newval (vsstatus_read c s) s else s)
     in s\<lparr>vsstatus_val := adjust_sd c newval\<rparr>)"

definition sstatus_read :: "ctx \<Rightarrow> 'd hart \<Rightarrow> u64" where
  "sstatus_read c s = (if virt s then vsstatus_read c s else nonvirtual_sstatus_read c s)"

definition sstatus_write :: "ctx \<Rightarrow> u64 \<Rightarrow> 'd hart \<Rightarrow> 'd hart" where
  "sstatus_write c v s = (if virt s then vsstatus_write c v s else nonvirtual_sstatus_write c v s)"

definition sstatus_enabled :: "ctx \<Rightarrow> u64 \<Rightarrow> 'd hart \<Rightarrow> bool" where
  "sstatus_enabled c w s =
    (nonvirtual_sstatus_read c s AND w \<noteq> 0 \<and> (\<not> virt s \<or> vsstatus_read c s AND w \<noteq> 0))"

definition sstatus_dirty :: "ctx \<Rightarrow> u64 \<Rightarrow> ('d hart, unit) M" where
  "sstatus_dirty c dirties s =
    (if nonvirtual_sstatus_read c s AND dirties = dirties \<and>
        (\<not> virt s \<or> vsstatus_read c s AND dirties = dirties)
     then returnM () s
     else if \<not> sstatus_enabled c dirties s then throwM Abort s
     else let s = nonvirtual_sstatus_write c (nonvirtual_sstatus_read c s OR dirties) s;
              s = (if virt s then vsstatus_write c (vsstatus_read c s OR dirties) s else s)
          in returnM () s)"

definition mnstatus_write :: "u64 \<Rightarrow> 'd hart \<Rightarrow> 'd hart" where
  "mnstatus_write v s =
    (case mnstatus_val s of None \<Rightarrow> s | Some old \<Rightarrow>
      let m = (NOT old AND MNSTATUS_NMIE) OR (if extension_enabled s (Ext CHR ''H'') then MNSTATUS_MNPV else 0)
              OR MNSTATUS_MNPP;
          requested_mnpp = legalize_privilege s (get_field v MNSTATUS_MNPP);
          adjusted_val = set_field v MNSTATUS_MNPP requested_mnpp
      in s\<lparr>mnstatus_val := Some ((old AND NOT m) OR (adjusted_val AND m))\<rparr>)"

definition hstatus_write :: "u64 \<Rightarrow> 'd hart \<Rightarrow> 'd hart" where
  "hstatus_write v s =
    (let m = HSTATUS_VTSR OR HSTATUS_VTW OR (if supports_impl s IMPL_MMU then HSTATUS_VTVM else 0)
             OR (if extension_enabled s EXT_SSNPM then HSTATUS_HUPMM else 0)
             OR HSTATUS_HU OR HSTATUS_SPVP OR HSTATUS_SPV OR HSTATUS_GVA;
         pmm = get_field v HSTATUS_HUPMM;
         adjusted_val = set_field v HSTATUS_HUPMM (if pmm \<noteq> 1 then pmm else 0);
         new_hstatus = (hstatus_val s AND NOT m) OR (adjusted_val AND m);
         s = (if get_field new_hstatus HSTATUS_HUPMM \<noteq> get_field (hstatus_val s) HSTATUS_HUPMM
              then flush_tlb s else s)
     in s\<lparr>hstatus_val := new_hstatus\<rparr>)"

end
