(* ===== verification/CsrFile.thy ===== *)
theory CsrFile
  imports Csr
begin

text \<open>
  The interrupt, delegation, configuration, translation, debug and floating-point registers of
  \<^verbatim>\<open>riscv/csrs.cc\<close>, the write of misa with the extensions it switches, and the
  permission checks that the access instructions make.
\<close>

section \<open>Interrupt registers\<close>

definition mip_read :: "'d hart \<Rightarrow> u64" where
  "mip_read s = mip_val s OR hvip_val s"

definition mip_write_with_mask :: "u64 \<Rightarrow> u64 \<Rightarrow> 'd hart \<Rightarrow> 'd hart" where
  "mip_write_with_mask m v s = s\<lparr>mip_val := (mip_val s AND NOT m) OR (v AND m)\<rparr>"

definition mie_write_with_mask :: "u64 \<Rightarrow> u64 \<Rightarrow> 'd hart \<Rightarrow> 'd hart" where
  "mie_write_with_mask m v s = s\<lparr>mie_val := (mie_val s AND NOT m) OR (v AND m)\<rparr>"

definition mip_backdoor_write_with_mask :: "u64 \<Rightarrow> u64 \<Rightarrow> 'd hart \<Rightarrow> 'd hart" where
  "mip_backdoor_write_with_mask m v s = s\<lparr>mip_val := (mip_val s AND NOT m) OR (v AND m)\<rparr>"

definition mip_write_mask :: "'d hart \<Rightarrow> u64" where
  "mip_write_mask s =
    (let supervisor_ints =
           (if extension_enabled s (Ext CHR ''S'')
            then MIP_SSIP OR (if menvcfg_val s AND MENVCFG_STCE \<noteq> 0 then 0 else MIP_STIP) OR MIP_SEIP else 0);
         lscof_int = (if extension_enabled s EXT_SSCOFPMF then MIP_LCOFIP else 0);
         vssip_int = (if extension_enabled s (Ext CHR ''H'') then MIP_VSSIP else 0);
         hypervisor_ints = (if extension_enabled s (Ext CHR ''H'') then MIP_HS_MASK else 0)
     in (supervisor_ints OR hypervisor_ints OR lscof_int) AND
        (MIP_SEIP OR MIP_SSIP OR MIP_STIP OR MIP_LCOFIP OR vssip_int))"

definition mip_write :: "u64 \<Rightarrow> 'd hart \<Rightarrow> 'd hart" where
  "mip_write v s = mip_write_with_mask (mip_write_mask s) v s"

definition mie_write_mask :: "ctx \<Rightarrow> 'd hart \<Rightarrow> u64" where
  "mie_write_mask c s =
    (let supervisor_ints = (if extension_enabled s (Ext CHR ''S'') then MIP_SSIP OR MIP_STIP OR MIP_SEIP else 0);
         lscof_int = (if extension_enabled s EXT_SSCOFPMF then MIP_LCOFIP else 0);
         hypervisor_ints = (if extension_enabled s (Ext CHR ''H'') then MIP_HS_MASK else 0);
         coprocessor_ints = push_bit 12 (of_bool (any_custom_extensions c));
         delegable_ints = supervisor_ints OR coprocessor_ints OR lscof_int
     in delegable_ints OR hypervisor_ints OR MIP_MSIP OR MIP_MTIP OR MIP_MEIP)"

definition mie_write :: "ctx \<Rightarrow> u64 \<Rightarrow> 'd hart \<Rightarrow> 'd hart" where
  "mie_write c v s = mie_write_with_mask (mie_write_mask c s) v s"

definition mideleg_read :: "'d hart \<Rightarrow> u64" where
  "mideleg_read s =
    (if extension_enabled s (Ext CHR ''H'') then mideleg_val s OR MIP_HS_MASK else mideleg_val s)"

definition mideleg_write :: "ctx \<Rightarrow> u64 \<Rightarrow> 'd hart \<Rightarrow> 'd hart" where
  "mideleg_write c v s =
    (let supervisor_ints = (if extension_enabled s (Ext CHR ''S'') then MIP_SSIP OR MIP_STIP OR MIP_SEIP else 0);
         lscof_int = (if extension_enabled s EXT_SSCOFPMF then MIP_LCOFIP else 0);
         coprocessor_ints = push_bit 12 (of_bool (any_custom_extensions c));
         delegable_ints = supervisor_ints OR coprocessor_ints OR lscof_int
     in s\<lparr>mideleg_val := v AND delegable_ints\<rparr>)"

definition hideleg_read :: "'d hart \<Rightarrow> u64" where
  "hideleg_read s = hideleg_val s AND mideleg_read s"

definition hideleg_write :: "u64 \<Rightarrow> 'd hart \<Rightarrow> 'd hart" where
  "hideleg_write v s = s\<lparr>hideleg_val := masked_write MIP_VS_MASK (hideleg_read s) v\<rparr>"

definition cause_bit :: "u64 \<Rightarrow> u64" where
  "cause_bit n = push_bit (unat n) 1"

definition hypervisor_exceptions :: u64 where
  "hypervisor_exceptions = cause_bit CAUSE_VIRTUAL_SUPERVISOR_ECALL OR cause_bit CAUSE_FETCH_GUEST_PAGE_FAULT OR
     cause_bit CAUSE_LOAD_GUEST_PAGE_FAULT OR cause_bit CAUSE_VIRTUAL_INSTRUCTION OR
     cause_bit CAUSE_STORE_GUEST_PAGE_FAULT"

definition medeleg_mask :: "'d hart \<Rightarrow> u64" where
  "medeleg_mask s =
    cause_bit CAUSE_MISALIGNED_FETCH OR cause_bit CAUSE_FETCH_ACCESS OR cause_bit CAUSE_ILLEGAL_INSTRUCTION OR
    cause_bit CAUSE_BREAKPOINT OR cause_bit CAUSE_MISALIGNED_LOAD OR cause_bit CAUSE_LOAD_ACCESS OR
    cause_bit CAUSE_MISALIGNED_STORE OR cause_bit CAUSE_STORE_ACCESS OR cause_bit CAUSE_USER_ECALL OR
    cause_bit CAUSE_SUPERVISOR_ECALL OR cause_bit CAUSE_FETCH_PAGE_FAULT OR cause_bit CAUSE_LOAD_PAGE_FAULT OR
    cause_bit CAUSE_STORE_PAGE_FAULT OR (if extension_enabled s (Ext CHR ''H'') then hypervisor_exceptions else 0) OR
    cause_bit CAUSE_SOFTWARE_CHECK_FAULT OR cause_bit CAUSE_HARDWARE_ERROR_FAULT"

definition medeleg_write :: "u64 \<Rightarrow> 'd hart \<Rightarrow> 'd hart" where
  "medeleg_write v s = s\<lparr>medeleg_val := masked_write (medeleg_mask s) (medeleg_val s) v\<rparr>"

definition hedeleg_mask :: u64 where
  "hedeleg_mask =
    cause_bit CAUSE_MISALIGNED_FETCH OR cause_bit CAUSE_FETCH_ACCESS OR cause_bit CAUSE_ILLEGAL_INSTRUCTION OR
    cause_bit CAUSE_BREAKPOINT OR cause_bit CAUSE_MISALIGNED_LOAD OR cause_bit CAUSE_LOAD_ACCESS OR
    cause_bit CAUSE_MISALIGNED_STORE OR cause_bit CAUSE_STORE_ACCESS OR cause_bit CAUSE_USER_ECALL OR
    cause_bit CAUSE_FETCH_PAGE_FAULT OR cause_bit CAUSE_LOAD_PAGE_FAULT OR cause_bit CAUSE_STORE_PAGE_FAULT OR
    cause_bit CAUSE_SOFTWARE_CHECK_FAULT OR cause_bit CAUSE_HARDWARE_ERROR_FAULT"

definition hedeleg_write :: "u64 \<Rightarrow> 'd hart \<Rightarrow> 'd hart" where
  "hedeleg_write v s = s\<lparr>hedeleg_val := masked_write hedeleg_mask (hedeleg_val s) v\<rparr>"

definition hvip_read :: "'d hart \<Rightarrow> u64" where
  "hvip_read s = hvip_val s OR (mip_read s AND MIP_VSSIP)"

definition hvip_write :: "u64 \<Rightarrow> 'd hart \<Rightarrow> 'd hart" where
  "hvip_write v s = (mip_write_with_mask MIP_VSSIP v s)\<lparr>hvip_val := v AND (MIP_VSEIP OR MIP_VSTIP)\<rparr>"

datatype mask_mode_t = MIDELEG | HIDELEG | NONE

text \<open>\<^verbatim>\<open>generic_int_accessor_t\<close>: a view of mip and mie through a delegation mask.\<close>

record int_accessor =
  read_mask :: u64
  ip_write_mask :: u64
  ie_write_mask :: u64
  mask_mode :: mask_mode_t
  shiftamt :: nat

definition deleg_mask :: "int_accessor \<Rightarrow> 'd hart \<Rightarrow> u64" where
  "deleg_mask a s =
    (let hideleg_mask = (if mask_mode a = HIDELEG then hideleg_read s else NOT 0);
         mideleg_mask = (if mask_mode a = MIDELEG then mideleg_read s else NOT 0)
     in hideleg_mask AND mideleg_mask)"

definition ip_read :: "int_accessor \<Rightarrow> 'd hart \<Rightarrow> u64" where
  "ip_read a s = drop_bit (shiftamt a) (mip_read s AND deleg_mask a s AND read_mask a)"

definition ip_write :: "int_accessor \<Rightarrow> u64 \<Rightarrow> 'd hart \<Rightarrow> 'd hart" where
  "ip_write a v s = mip_write_with_mask (deleg_mask a s AND ip_write_mask a) (push_bit (shiftamt a) v) s"

definition ie_read :: "int_accessor \<Rightarrow> 'd hart \<Rightarrow> u64" where
  "ie_read a s = drop_bit (shiftamt a) (mie_val s AND deleg_mask a s AND read_mask a)"

definition ie_write :: "int_accessor \<Rightarrow> u64 \<Rightarrow> 'd hart \<Rightarrow> 'd hart" where
  "ie_write a v s = mie_write_with_mask (deleg_mask a s AND ie_write_mask a) (push_bit (shiftamt a) v) s"

definition sip_sie_accr :: int_accessor where
  "sip_sie_accr = \<lparr>read_mask = NOT MIP_HS_MASK, ip_write_mask = MIP_SSIP OR MIP_LCOFIP,
     ie_write_mask = NOT MIP_HS_MASK, mask_mode = MIDELEG, shiftamt = 0\<rparr>"

definition hip_hie_accr :: int_accessor where
  "hip_hie_accr = \<lparr>read_mask = MIP_HS_MASK, ip_write_mask = MIP_VSSIP,
     ie_write_mask = MIP_HS_MASK, mask_mode = MIDELEG, shiftamt = 0\<rparr>"

definition vsip_vsie_accr :: int_accessor where
  "vsip_vsie_accr = \<lparr>read_mask = MIP_VS_MASK, ip_write_mask = MIP_VSSIP,
     ie_write_mask = MIP_VS_MASK, mask_mode = HIDELEG, shiftamt = 1\<rparr>"

section \<open>Environment configuration\<close>

definition envcfg_adjust :: "u64 \<Rightarrow> u64" where
  "envcfg_adjust v =
    (let adjusted_val = (if get_field v MENVCFG_CBIE \<noteq> 2 then v else set_field v MENVCFG_CBIE 0);
         pmm = get_field adjusted_val MENVCFG_PMM
     in set_field adjusted_val MENVCFG_PMM (if pmm \<noteq> 1 then pmm else 0))"

definition menvcfg_write :: "u64 \<Rightarrow> 'd hart \<Rightarrow> 'd hart" where
  "menvcfg_write v s =
    (let adjusted_val = envcfg_adjust v;
         s = (if get_field adjusted_val MENVCFG_PMM \<noteq> get_field (menvcfg_val s) MENVCFG_PMM then flush_tlb s else s)
     in s\<lparr>menvcfg_val := masked_write (menvcfg_mask s) (menvcfg_val s) adjusted_val\<rparr>)"

definition senvcfg_write :: "u64 \<Rightarrow> 'd hart \<Rightarrow> 'd hart" where
  "senvcfg_write v s =
    (let envcfg = (if virt s then henvcfg_read s else menvcfg_val s);
         m = envcfg OR NOT MENVCFG_SSE;
         v = (senvcfg_val s AND NOT m) OR (v AND m);
         adjusted_val = envcfg_adjust v;
         s = (if get_field adjusted_val MENVCFG_PMM \<noteq> get_field (senvcfg_read s) MENVCFG_PMM then flush_tlb s else s)
     in s\<lparr>senvcfg_val := masked_write (senvcfg_mask s) (senvcfg_read s) adjusted_val\<rparr>)"

definition henvcfg_write :: "u64 \<Rightarrow> 'd hart \<Rightarrow> 'd hart" where
  "henvcfg_write v s =
    (let m = menvcfg_val s OR NOT (MENVCFG_PBMTE OR MENVCFG_STCE OR MENVCFG_ADUE OR MENVCFG_DTE OR MENVCFG_SSE);
         v = (henvcfg_val s AND NOT m) OR (v AND m);
         adjusted_val = envcfg_adjust v;
         s = (if get_field adjusted_val MENVCFG_PMM \<noteq> get_field (henvcfg_read s) MENVCFG_PMM then flush_tlb s else s)
     in s\<lparr>henvcfg_val := masked_write (henvcfg_mask s) (henvcfg_read s) adjusted_val\<rparr>)"

definition hstateen0_read :: "'d hart \<Rightarrow> u64" where
  "hstateen0_read s = hstateen0_val s AND mstateen0_val s"

definition sstateen0_read :: "'d hart \<Rightarrow> u64" where
  "sstateen0_read s =
    (if virt s then (sstateen0_val s AND mstateen0_val s) AND hstateen0_read s
     else sstateen0_val s AND mstateen0_val s)"

section \<open>Address translation\<close>

definition satp_valid :: "ctx \<Rightarrow> 'd hart \<Rightarrow> u64 \<Rightarrow> bool" where
  "satp_valid c s v =
    (if xlen c = 32
     then (let mode = get_field v 0x80000000
           in if mode = 1 then supports_impl s IMPL_MMU_SV32 else mode = 0)
     else (let mode = get_field v 0xF000000000000000
           in if mode = 8 then supports_impl s IMPL_MMU_SV39
              else if mode = 9 then supports_impl s IMPL_MMU_SV48
              else if mode = 10 then supports_impl s IMPL_MMU_SV57
              else mode = 0))"

definition compute_new_satp :: "ctx \<Rightarrow> 'd hart \<Rightarrow> u64 \<Rightarrow> u64 \<Rightarrow> u64" where
  "compute_new_satp c s old v =
    (let rv64_ppn_mask = push_bit (56 - 12) 1 - 1;
         mode_mask = (if xlen c = 32 then 0x80000000 else 0xF000000000000000);
         asid_mask_if_enabled = (if xlen c = 32 then 0x7FC00000 else 0x0FFFF00000000000);
         asid_mask = (if supports_impl s IMPL_MMU_ASID then asid_mask_if_enabled else 0);
         ppn_mask = (if xlen c = 32 then 0x003FFFFF else 0x00000FFFFFFFFFFF AND rv64_ppn_mask);
         new_mask = (if satp_valid c s v then mode_mask else 0) OR asid_mask OR ppn_mask;
         old_mask = (if satp_valid c s v then 0 else mode_mask)
     in (new_mask AND v) OR (old_mask AND old))"

definition nonvirtual_satp_write :: "ctx \<Rightarrow> u64 \<Rightarrow> 'd hart \<Rightarrow> 'd hart" where
  "nonvirtual_satp_write c v s =
    (let newval = (if supports_impl s IMPL_MMU then compute_new_satp c s (satp_val s) v else 0);
         s = (if newval \<noteq> satp_val s then flush_tlb s else s)
     in s\<lparr>satp_val := newval\<rparr>)"

definition vsatp_write :: "ctx \<Rightarrow> u64 \<Rightarrow> 'd hart \<Rightarrow> 'd hart" where
  "vsatp_write c v s =
    (let newval = (if supports_impl s IMPL_MMU then compute_new_satp c s (vsatp_val s) v else 0);
         s = (if newval \<noteq> vsatp_val s then flush_tlb s else s)
     in s\<lparr>vsatp_val := newval\<rparr>)"

definition satp_write :: "ctx \<Rightarrow> u64 \<Rightarrow> 'd hart \<Rightarrow> 'd hart" where
  "satp_write c v s =
    (let old = (if virt s then vsatp_val s else satp_val s);
         newval = (if satp_valid c s v then v else old)
     in if virt s then vsatp_write c newval s else nonvirtual_satp_write c newval s)"

section \<open>Debug and floating-point registers\<close>

definition dcsr_update_fields :: "u8 \<Rightarrow> u8 \<Rightarrow> u64 \<Rightarrow> bool \<Rightarrow> elp_t \<Rightarrow> dcsr_t \<Rightarrow> dcsr_t" where
  "dcsr_update_fields cause ext_cause p v pelp d =
    d\<lparr>dcsr_cause := cause, dcsr_ext_cause := ext_cause, dcsr_prv := ucast p, dcsr_v := v, dcsr_pelp := pelp\<rparr>"

definition tcontrol_write :: "u64 \<Rightarrow> 'd hart \<Rightarrow> 'd hart" where
  "tcontrol_write v s =
    (case tcontrol_val s of None \<Rightarrow> s | Some old \<Rightarrow> s\<lparr>tcontrol_val := Some (masked_write 0x88 old v)\<rparr>)"

definition fflags_write :: "ctx \<Rightarrow> u64 \<Rightarrow> ('d hart, unit) M" where
  "fflags_write c v = thenM (sstatus_dirty c SSTATUS_FS)
     (modifyM (\<lambda>s. s\<lparr>fflags_val := masked_write 0x1f (fflags_val s) v\<rparr>))"

definition frm_write :: "ctx \<Rightarrow> u64 \<Rightarrow> ('d hart, unit) M" where
  "frm_write c v = thenM (sstatus_dirty c SSTATUS_FS)
     (modifyM (\<lambda>s. s\<lparr>frm_val := masked_write 0x7 (frm_val s) v\<rparr>))"

section \<open>misa\<close>

definition misa_bit :: "char \<Rightarrow> u64" where
  "misa_bit ch = push_bit (of_char ch - 65) 1"

definition misa_dependency :: "u64 \<Rightarrow> char \<Rightarrow> char \<Rightarrow> u64" where
  "misa_dependency v feature depends_on =
    (if v AND misa_bit depends_on \<noteq> 0 then v else v AND NOT (misa_bit feature))"

definition set_extension_enable :: "ctx \<Rightarrow> isa_extension \<Rightarrow> bool \<Rightarrow> 'd hart \<Rightarrow> 'd hart" where
  "set_extension_enable c e enable s =
    s\<lparr>extension_enable_table := (extension_enable_table s)(e := (enable \<and> isa_table c e))\<rparr>"

definition misa_update_extensions :: "ctx \<Rightarrow> u64 \<Rightarrow> 'd hart \<Rightarrow> 'd hart" where
  "misa_update_extensions c new_misa s =
    (let has = (\<lambda>ch. new_misa AND misa_bit ch \<noteq> 0);
         s = set_extension_enable c EXT_ZCA (has CHR ''C'' \<or> \<not> isa_table c (Ext CHR ''C'')) s;
         s = set_extension_enable c EXT_ZCF (has CHR ''F'' \<and> extension_enabled s EXT_ZCA) s;
         s = set_extension_enable c EXT_ZCD (has CHR ''D'' \<and> extension_enabled s EXT_ZCA) s;
         s = set_extension_enable c EXT_ZCB (extension_enabled s EXT_ZCA) s;
         s = set_extension_enable c EXT_ZCMP (extension_enabled s EXT_ZCA) s;
         s = set_extension_enable c EXT_ZCMT (extension_enabled s EXT_ZCA) s;
         s = set_extension_enable c EXT_ZFH (has CHR ''F'') s;
         s = set_extension_enable c EXT_ZFHMIN (has CHR ''F'') s;
         s = set_extension_enable c EXT_ZVFH (has CHR ''V'' \<and> extension_enabled s EXT_ZFHMIN) s;
         s = set_extension_enable c EXT_ZVFHMIN (has CHR ''V'') s;
         s = set_extension_enable c EXT_ZAAMO (has CHR ''A'' \<or> \<not> isa_table c (Ext CHR ''A'')) s;
         s = set_extension_enable c EXT_ZALRSC (has CHR ''A'' \<or> \<not> isa_table c (Ext CHR ''A'')) s;
         s = set_extension_enable c EXT_ZBA (has CHR ''B'' \<or> \<not> isa_table c (Ext CHR ''B'')) s;
         s = set_extension_enable c EXT_ZBB (has CHR ''B'' \<or> \<not> isa_table c (Ext CHR ''B'')) s
     in set_extension_enable c EXT_ZBS (has CHR ''B'' \<or> \<not> isa_table c (Ext CHR ''B'')) s)"

text \<open>The hypervisor-only state that goes with a cleared H bit; the event selectors of the
  performance counters are not part of the state.\<close>

definition misa_clear_hypervisor :: "ctx \<Rightarrow> 'd hart \<Rightarrow> 'd hart" where
  "misa_clear_hypervisor c s =
    (let s = medeleg_write (medeleg_val s AND NOT hypervisor_exceptions) s;
         s = (case mnstatus_val s of None \<Rightarrow> s | Some m \<Rightarrow> mnstatus_write (m AND NOT MNSTATUS_MNPV) s);
         new_mstatus = mstatus_read s AND NOT (MSTATUS_GVA OR MSTATUS_MPV);
         s = mstatus_write c new_mstatus s;
         s = (if max_xlen c = 32 then mstatush_write c (drop_bit 32 new_mstatus) s else s);
         s = mie_write_with_mask MIP_HS_MASK 0 s;
         s = mip_write_with_mask MIP_HS_MASK 0 s
     in hstatus_write 0 s)"

definition misa_write :: "ctx \<Rightarrow> u64 \<Rightarrow> 'd hart \<Rightarrow> 'd hart" where
  "misa_write c v s =
    (let old_misa = misa_val s
     in if v AND misa_bit CHR ''C'' = 0 \<and> old_misa AND misa_bit CHR ''C'' \<noteq> 0 \<and> pc s AND 2 \<noteq> 0 then s
        else
          let adjusted_val = misa_dependency v CHR ''D'' CHR ''F'';
              adjusted_val = misa_dependency adjusted_val CHR ''Q'' CHR ''D'';
              adjusted_val = misa_dependency adjusted_val CHR ''V'' CHR ''D'';
              prev_h = (old_misa AND misa_bit CHR ''H'' \<noteq> 0);
              new_misa = (adjusted_val AND misa_write_mask s) OR (old_misa AND NOT (misa_write_mask s));
              new_h = (new_misa AND misa_bit CHR ''H'' \<noteq> 0);
              s = misa_update_extensions c new_misa s;
              s = (if \<not> new_h \<and> prev_h then misa_clear_hypervisor c s else s)
          in s\<lparr>misa_val := new_misa\<rparr>)"

section \<open>Permission checks\<close>

definition csr_priv :: "u64 \<Rightarrow> u64" where "csr_priv addr = get_field addr 0x300"
definition csr_read_only :: "u64 \<Rightarrow> bool" where "csr_read_only addr = (get_field addr 0xC00 = 3)"

definition csr_verify_permissions :: "ctx \<Rightarrow> u64 \<Rightarrow> bool \<Rightarrow> ('d hart, unit) M" where
  "csr_verify_permissions c addr write s =
    (let priv = (if prv s = PRV_S \<and> \<not> virt s then PRV_HS else prv s);
         cpriv = csr_priv addr
     in if (cpriv = PRV_S \<and> \<not> extension_enabled s (Ext CHR ''S'')) \<or>
           (cpriv = PRV_HS \<and> \<not> extension_enabled s (Ext CHR ''H''))
        then throwM (Trap (trap_illegal_instruction (insn_bits c))) s
        else if write \<and> csr_read_only addr then throwM (Trap (trap_illegal_instruction (insn_bits c))) s
        else if priv < cpriv
        then (if virt s \<and> cpriv \<le> PRV_HS then throwM (Trap (trap_virtual_instruction (insn_bits c))) s
              else throwM (Trap (trap_illegal_instruction (insn_bits c))) s)
        else returnM () s)"

end
