(* ===== verification/Macros.thy ===== *)
theory Macros
  imports CsrFile
begin

text \<open>
  The vocabulary of the instruction bodies: the register, requirement, pc and floating-point
  macros of \<^verbatim>\<open>riscv/decode_macros.h\<close> and \<^verbatim>\<open>riscv/insn_macros.h\<close>,
  and the template of \<^verbatim>\<open>riscv/insn_template.cc\<close> that runs a body. A requirement takes the
  rest of the body as its last argument, so that a failed one ends the instruction there.
\<close>

section \<open>Integer registers\<close>

definition READ_REG :: "u64 \<Rightarrow> 'd hart \<Rightarrow> u64" where
  [macros]: "READ_REG r s = XPR s (unat r)"

definition RD :: "ctx \<Rightarrow> 'd hart \<Rightarrow> u64" where [macros]: "RD c s = READ_REG (insn_rd (insn_bits c)) s"
definition RS1 :: "ctx \<Rightarrow> 'd hart \<Rightarrow> u64" where [macros]: "RS1 c s = READ_REG (insn_rs1 (insn_bits c)) s"
definition RS2 :: "ctx \<Rightarrow> 'd hart \<Rightarrow> u64" where [macros]: "RS2 c s = READ_REG (insn_rs2 (insn_bits c)) s"
definition RS3 :: "ctx \<Rightarrow> 'd hart \<Rightarrow> u64" where [macros]: "RS3 c s = READ_REG (insn_rs3 (insn_bits c)) s"

definition WRITE_REG :: "u64 \<Rightarrow> u64 \<Rightarrow> ('d hart, unit) M" where
  [macros]: "WRITE_REG r v s = (Inr (), s\<lparr>XPR := regfile_write True (unat r) v (XPR s)\<rparr>)"

definition WRITE_RD :: "ctx \<Rightarrow> u64 \<Rightarrow> ('d hart, unit) M" where
  [macros]: "WRITE_RD c v = WRITE_REG (insn_rd (insn_bits c)) v"

section \<open>Requirements\<close>

definition require :: "ctx \<Rightarrow> bool \<Rightarrow> ('d hart, 'a) M \<Rightarrow> ('d hart, 'a) M" where
  [macros]: "require c b k s =
    (if b then k s else (Inl (Trap (trap_illegal_instruction (insn_bits c))), s))"

definition require_privilege :: "ctx \<Rightarrow> u64 \<Rightarrow> ('d hart, 'a) M \<Rightarrow> ('d hart, 'a) M" where
  [macros]: "require_privilege c p k s = require c (p \<le> prv s) k s"

definition require_novirt :: "ctx \<Rightarrow> ('d hart, 'a) M \<Rightarrow> ('d hart, 'a) M" where
  [macros]: "require_novirt c k s =
    (if virt s then (Inl (Trap (trap_virtual_instruction (insn_bits c))), s) else k s)"

definition require_hs_qualified :: "ctx \<Rightarrow> bool \<Rightarrow> ('d hart, 'a) M \<Rightarrow> ('d hart, 'a) M" where
  [macros]: "require_hs_qualified c cond k s =
    (if virt s \<and> \<not> cond then require_novirt c k s else require c cond k s)"

definition require_rv64 :: "ctx \<Rightarrow> ('d hart, 'a) M \<Rightarrow> ('d hart, 'a) M" where
  [macros]: "require_rv64 c k s = require c (xlen c = 64) k s"

definition require_rv32 :: "ctx \<Rightarrow> ('d hart, 'a) M \<Rightarrow> ('d hart, 'a) M" where
  [macros]: "require_rv32 c k s = require c (xlen c = 32) k s"

definition require_extension :: "ctx \<Rightarrow> isa_extension \<Rightarrow> ('d hart, 'a) M \<Rightarrow> ('d hart, 'a) M" where
  [macros]: "require_extension c e k s = require c (extension_enabled s e) k s"

definition require_either_extension ::
    "ctx \<Rightarrow> isa_extension \<Rightarrow> isa_extension \<Rightarrow> ('d hart, 'a) M \<Rightarrow> ('d hart, 'a) M" where
  [macros]: "require_either_extension c a b k s =
    require c (extension_enabled s a \<or> extension_enabled s b) k s"

definition require_impl :: "ctx \<Rightarrow> impl_extension \<Rightarrow> ('d hart, 'a) M \<Rightarrow> ('d hart, 'a) M" where
  [macros]: "require_impl c i k s = require c (supports_impl s i) k s"

definition require_fs :: "ctx \<Rightarrow> ('d hart, 'a) M \<Rightarrow> ('d hart, 'a) M" where
  [macros]: "require_fs c k s = require c (sstatus_enabled c SSTATUS_FS s) k s"

definition require_accelerator :: "ctx \<Rightarrow> ('d hart, 'a) M \<Rightarrow> ('d hart, 'a) M" where
  [macros]: "require_accelerator c k s = require c (sstatus_enabled c SSTATUS_XS s) k s"

text \<open>\<^verbatim>\<open>require_envcfg(field)\<close>: the three arguments are the values of the field in
  menvcfg, senvcfg and henvcfg.\<close>

definition require_envcfg :: "ctx \<Rightarrow> u64 \<Rightarrow> u64 \<Rightarrow> u64 \<Rightarrow> ('d hart, 'a) M \<Rightarrow> ('d hart, 'a) M" where
  [macros]: "require_envcfg c mf sf hf k s =
    (if (prv s \<noteq> PRV_M \<and> mf = 0) \<or> (prv s = PRV_U \<and> \<not> virt s \<and> sf = 0)
     then (Inl (Trap (trap_illegal_instruction (insn_bits c))), s)
     else if virt s \<and> (hf = 0 \<or> (prv s = PRV_U \<and> sf = 0))
     then (Inl (Trap (trap_virtual_instruction (insn_bits c))), s)
     else k s)"

definition require_zcmp_pushpop :: "ctx \<Rightarrow> ('d hart, 'a) M \<Rightarrow> ('d hart, 'a) M" where
  [macros]: "require_zcmp_pushpop c k s =
    require_extension c EXT_ZCMP
      (require c (4 \<le> rvc_rlist (insn_bits c))
        (if extension_enabled s (Ext CHR ''E'')
         then require c (rvc_rlist (insn_bits c) \<le> 6) k else k)) s"

definition is_aligned :: "u32 \<Rightarrow> u32 \<Rightarrow> bool" where
  [macros]: "is_aligned val pos = (if pos \<noteq> 0 then val AND (pos - 1) = 0 else True)"

section \<open>Register pairs\<close>

text \<open>The value is an argument of a macro: it is computed (a load, for example) only where its text stands, after the
  requirement and not at all for register 0.\<close>

definition WRITE_REG_PAIR :: "ctx \<Rightarrow> u64 \<Rightarrow> ('d hart, u64) M \<Rightarrow> ('d hart, unit) M" where
  [macros]: "WRITE_REG_PAIR c r v =
    (if r \<noteq> 0
     then require c (r mod 2 = 0)
            (bindM v (\<lambda>w. thenM (WRITE_REG r (sext32 w)) (WRITE_REG (r + 1) (signed_drop_bit 32 w))))
     else returnM ())"

definition READ_REG_PAIR :: "ctx \<Rightarrow> u64 \<Rightarrow> ('d hart, u64) M" where
  [macros]: "READ_REG_PAIR c r s =
    require c (r mod 2 = 0)
      (returnM (if r = 0 then 0 else push_bit 32 (READ_REG (r + 1) s) + zext32 (READ_REG r s))) s"

definition WRITE_RD_PAIR :: "ctx \<Rightarrow> ('d hart, u64) M \<Rightarrow> ('d hart, unit) M" where
  [macros]: "WRITE_RD_PAIR c v = WRITE_REG_PAIR c (insn_rd (insn_bits c)) v"

definition WRITE_RD_D :: "ctx \<Rightarrow> u64 \<Rightarrow> ('d hart, unit) M" where
  [macros]: "WRITE_RD_D c v = (if xlen c = 32 then WRITE_RD_PAIR c (returnM v) else WRITE_RD c v)"

section \<open>Compressed registers\<close>

definition WRITE_RVC_RS1S :: "ctx \<Rightarrow> u64 \<Rightarrow> ('d hart, unit) M" where
  [macros]: "WRITE_RVC_RS1S c v = WRITE_REG (rvc_rs1s (insn_bits c)) v"
definition WRITE_RVC_RS2S :: "ctx \<Rightarrow> u64 \<Rightarrow> ('d hart, unit) M" where
  [macros]: "WRITE_RVC_RS2S c v = WRITE_REG (rvc_rs2s (insn_bits c)) v"
definition RVC_RS1 :: "ctx \<Rightarrow> 'd hart \<Rightarrow> u64" where [macros]: "RVC_RS1 c s = READ_REG (rvc_rs1 (insn_bits c)) s"
definition RVC_RS2 :: "ctx \<Rightarrow> 'd hart \<Rightarrow> u64" where [macros]: "RVC_RS2 c s = READ_REG (rvc_rs2 (insn_bits c)) s"
definition RVC_RS1S :: "ctx \<Rightarrow> 'd hart \<Rightarrow> u64" where [macros]: "RVC_RS1S c s = READ_REG (rvc_rs1s (insn_bits c)) s"
definition RVC_RS2S :: "ctx \<Rightarrow> 'd hart \<Rightarrow> u64" where [macros]: "RVC_RS2S c s = READ_REG (rvc_rs2s (insn_bits c)) s"
definition RVC_SP :: "'d hart \<Rightarrow> u64" where [macros]: "RVC_SP s = READ_REG (of_nat X_SP) s"
definition SP :: "'d hart \<Rightarrow> u64" where [macros]: "SP s = READ_REG (of_nat X_SP) s"
definition RA :: "'d hart \<Rightarrow> u64" where [macros]: "RA s = READ_REG (of_nat X_RA) s"
definition RVC_R1S :: "ctx \<Rightarrow> u64" where [macros]: "RVC_R1S c = of_nat (Sn (unat (rvc_r1sc (insn_bits c))))"
definition RVC_R2S :: "ctx \<Rightarrow> u64" where [macros]: "RVC_R2S c = of_nat (Sn (unat (rvc_r2sc (insn_bits c))))"

section \<open>The width of the machine and the pc\<close>

definition sext_xlen :: "ctx \<Rightarrow> u64 \<Rightarrow> u64" where [macros]: "sext_xlen c x = sext x (xlen c)"
definition zext_xlen :: "ctx \<Rightarrow> u64 \<Rightarrow> u64" where [macros]: "zext_xlen c x = zext x (xlen c)"
definition SHAMT :: "ctx \<Rightarrow> u64" where [macros]: "SHAMT c = i_imm (insn_bits c) AND 0x3F"
definition BRANCH_TARGET :: "ctx \<Rightarrow> u64" where [macros]: "BRANCH_TARGET c = insn_pc c + sb_imm (insn_bits c)"
definition JUMP_TARGET :: "ctx \<Rightarrow> u64" where [macros]: "JUMP_TARGET c = insn_pc c + uj_imm (insn_bits c)"

definition check_pc_alignment :: "u64 \<Rightarrow> ('d hart, unit) M" where
  "check_pc_alignment p s =
    (if p AND NOT (pc_alignment_mask s) \<noteq> 0
     then (Inl (Trap (trap_instruction_address_misaligned (virt s) p 0 0)), s) else (Inr (), s))"

definition set_pc :: "ctx \<Rightarrow> u64 \<Rightarrow> ('d hart, unit) M" where
  "set_pc c x = thenM (check_pc_alignment x) (modifyM (\<lambda>s. s\<lparr>npc := sext_xlen c x\<rparr>))"

definition PC_SERIALIZE_BEFORE :: u64 where "PC_SERIALIZE_BEFORE = 3"
definition PC_SERIALIZE_AFTER :: u64 where "PC_SERIALIZE_AFTER = 5"
definition invalid_pc :: "u64 \<Rightarrow> bool" where "invalid_pc p = (p AND 1 \<noteq> 0)"

definition set_pc_and_serialize :: "u64 \<Rightarrow> 'd hart \<Rightarrow> 'd hart" where
  "set_pc_and_serialize x s = s\<lparr>npc := PC_SERIALIZE_AFTER, pc := x AND pc_alignment_mask s\<rparr>"

definition serialize :: "'d hart \<Rightarrow> 'd hart" where
  "serialize s = set_pc_and_serialize (npc s) s"

definition wfi :: "('d hart, unit) M" where
  "wfi s = (Inl WaitForInterrupt, set_pc_and_serialize (npc s) s)"

definition validate_csr :: "('d hart, unit) M" where
  "validate_csr s =
    (if \<not> serialized s then (Inl SerializeBefore, s) else (Inr (), s\<lparr>serialized := False\<rparr>))"

definition software_check :: "bool \<Rightarrow> u64 \<Rightarrow> ('d hart, unit) M" where
  "software_check x tval s = (if \<not> x then (Inl (Trap (trap_software_check tval)), s) else (Inr (), s))"

definition ZICFILP_xLPE :: "bool \<Rightarrow> u64 \<Rightarrow> ('d hart, u64) M" where
  "ZICFILP_xLPE v p s =
    (if extension_enabled s EXT_ZICFILP
     then (let mLPE = get_field (menvcfg_val s) MENVCFG_LPE; sLPE = get_field (senvcfg_read s) MENVCFG_LPE;
               hLPE = get_field (henvcfg_read s) MENVCFG_LPE; msecLPE = get_field (mseccfg_val s) MSECCFG_MLPE
           in if p = PRV_U then (Inr (if extension_enabled s (Ext CHR ''S'') then sLPE else mLPE), s)
              else if p = PRV_S then (Inr (if v then hLPE else mLPE), s)
              else if p = PRV_M then (Inr msecLPE, s)
              else (Inl Abort, s))
     else (Inr 0, s))"

definition ZICFILP_IS_LP_EXPECTED :: "u64 \<Rightarrow> elp_t" where
  "ZICFILP_IS_LP_EXPECTED r = (if r \<noteq> 1 \<and> r \<noteq> 5 \<and> r \<noteq> 7 then LP_EXPECTED else NO_LP_EXPECTED)"

definition elp_of :: "u64 \<Rightarrow> elp_t" where "elp_of w = (if w = 0 then NO_LP_EXPECTED else LP_EXPECTED)"
definition of_elp :: "elp_t \<Rightarrow> u64" where "of_elp e = (case e of NO_LP_EXPECTED \<Rightarrow> 0 | LP_EXPECTED \<Rightarrow> 1)"

section \<open>Floating-point registers\<close>

definition isBoxedF64 :: "freg_t \<Rightarrow> bool" where "isBoxedF64 r = (v1 r + 1 = 0)"
definition isBoxedF32 :: "freg_t \<Rightarrow> bool" where
  "isBoxedF32 r = (isBoxedF64 r \<and> (ucast (drop_bit 32 (v0 r) + 1) :: u32) = 0)"
definition isBoxedF16 :: "freg_t \<Rightarrow> bool" where
  "isBoxedF16 r = (isBoxedF32 r \<and> drop_bit 16 (v0 r) + 1 = push_bit 48 1)"

definition unboxF16 :: "freg_t \<Rightarrow> u16" where "unboxF16 r = (if isBoxedF16 r then ucast (v0 r) else 0x7E00)"
definition unboxBF16 :: "freg_t \<Rightarrow> u16" where "unboxBF16 r = (if isBoxedF16 r then ucast (v0 r) else 0x7FC0)"
definition unboxF32 :: "freg_t \<Rightarrow> u32" where "unboxF32 r = (if isBoxedF32 r then ucast (v0 r) else 0x7FC00000)"
definition unboxF64 :: "freg_t \<Rightarrow> u64" where
  "unboxF64 r = (if isBoxedF64 r then v0 r else 0x7FF8000000000000)"

definition freg16 :: "u16 \<Rightarrow> freg_t" where
  "freg16 f = \<lparr>v0 = push_bit 16 (- 1) OR ucast f, v1 = - 1\<rparr>"
definition freg32 :: "u32 \<Rightarrow> freg_t" where
  "freg32 f = \<lparr>v0 = push_bit 32 (- 1) OR ucast f, v1 = - 1\<rparr>"
definition freg64 :: "u64 \<Rightarrow> freg_t" where "freg64 f = \<lparr>v0 = f, v1 = - 1\<rparr>"

definition READ_FREG :: "u64 \<Rightarrow> 'd hart \<Rightarrow> freg_t" where "READ_FREG r s = FPR s (unat r)"

definition READ_ZDINX_REG :: "ctx \<Rightarrow> u64 \<Rightarrow> ('d hart, u64) M" where
  "READ_ZDINX_REG c r s = (if xlen c = 32 then READ_REG_PAIR c r s else (Inr (XPR s (unat r)), s))"

definition READ_FREG_H :: "u64 \<Rightarrow> 'd hart \<Rightarrow> u16" where
  "READ_FREG_H r s = (if extension_enabled s EXT_ZFINX then ucast (XPR s (unat r)) else unboxF16 (READ_FREG r s))"
definition READ_FREG_BF :: "u64 \<Rightarrow> 'd hart \<Rightarrow> u16" where
  "READ_FREG_BF r s = (if extension_enabled s EXT_ZFINX then ucast (XPR s (unat r)) else unboxBF16 (READ_FREG r s))"
definition READ_FREG_F :: "u64 \<Rightarrow> 'd hart \<Rightarrow> u32" where
  "READ_FREG_F r s = (if extension_enabled s EXT_ZFINX then ucast (XPR s (unat r)) else unboxF32 (READ_FREG r s))"
definition READ_FREG_D :: "ctx \<Rightarrow> u64 \<Rightarrow> ('d hart, u64) M" where
  "READ_FREG_D c r s =
    (if extension_enabled s EXT_ZFINX then READ_ZDINX_REG c r s else (Inr (unboxF64 (READ_FREG r s)), s))"

definition dirty_fp_state :: "ctx \<Rightarrow> ('d hart, unit) M" where
  "dirty_fp_state c = sstatus_dirty c SSTATUS_FS"

definition DO_WRITE_FREG :: "ctx \<Rightarrow> u64 \<Rightarrow> freg_t \<Rightarrow> ('d hart, unit) M" where
  "DO_WRITE_FREG c r v =
    thenM (modifyM (\<lambda>s. s\<lparr>FPR := regfile_write False (unat r) v (FPR s)\<rparr>)) (dirty_fp_state c)"

definition WRITE_FRD :: "ctx \<Rightarrow> freg_t \<Rightarrow> ('d hart, unit) M" where
  "WRITE_FRD c v = DO_WRITE_FREG c (insn_rd (insn_bits c)) v"

definition WRITE_FRD_H :: "ctx \<Rightarrow> u16 \<Rightarrow> ('d hart, unit) M" where
  "WRITE_FRD_H c v s =
    (if extension_enabled s EXT_ZFINX then WRITE_REG (insn_rd (insn_bits c)) (sext_xlen c (scast v)) s
     else WRITE_FRD c (freg16 v) s)"

definition WRITE_FRD_F :: "ctx \<Rightarrow> u32 \<Rightarrow> ('d hart, unit) M" where
  "WRITE_FRD_F c v s =
    (if extension_enabled s EXT_ZFINX then WRITE_REG (insn_rd (insn_bits c)) (sext_xlen c (ucast v)) s
     else WRITE_FRD c (freg32 v) s)"

definition WRITE_FRD_D :: "ctx \<Rightarrow> u64 \<Rightarrow> ('d hart, unit) M" where
  "WRITE_FRD_D c v s =
    (if extension_enabled s EXT_ZFINX
     then (if xlen c = 32 then WRITE_RD_PAIR c (returnM v) s else WRITE_REG (insn_rd (insn_bits c)) v s)
     else WRITE_FRD c (freg64 v) s)"

definition F16_SIGN :: u16 where "F16_SIGN = push_bit 15 1"
definition F32_SIGN :: u32 where "F32_SIGN = push_bit 31 1"
definition F64_SIGN :: u64 where "F64_SIGN = push_bit 63 1"

definition fsgnj16 :: "u16 \<Rightarrow> u16 \<Rightarrow> bool \<Rightarrow> bool \<Rightarrow> u16" where
  "fsgnj16 a b n x = (a AND NOT F16_SIGN) OR (((if x then a else if n then F16_SIGN else 0) XOR b) AND F16_SIGN)"
definition fsgnj32 :: "u32 \<Rightarrow> u32 \<Rightarrow> bool \<Rightarrow> bool \<Rightarrow> u32" where
  "fsgnj32 a b n x = (a AND NOT F32_SIGN) OR (((if x then a else if n then F32_SIGN else 0) XOR b) AND F32_SIGN)"
definition fsgnj64 :: "u64 \<Rightarrow> u64 \<Rightarrow> bool \<Rightarrow> bool \<Rightarrow> u64" where
  "fsgnj64 a b n x = (a AND NOT F64_SIGN) OR (((if x then a else if n then F64_SIGN else 0) XOR b) AND F64_SIGN)"
definition fsgnj128 :: "freg_t \<Rightarrow> freg_t \<Rightarrow> bool \<Rightarrow> bool \<Rightarrow> freg_t" where
  "fsgnj128 a b n x = a\<lparr>v1 := (v1 a AND NOT F64_SIGN) OR
     (((if x then v1 a else if n then F64_SIGN else 0) XOR v1 b) AND F64_SIGN)\<rparr>"
definition f128_negate :: "freg_t \<Rightarrow> freg_t" where "f128_negate a = a\<lparr>v1 := v1 a XOR F64_SIGN\<rparr>"

text \<open>\<^verbatim>\<open>require_fp\<close> is the permission check of fflags, CSR 1.\<close>

definition fflags_verify_permissions :: "ctx \<Rightarrow> ('d hart, unit) M" where
  "fflags_verify_permissions c =
    thenM (csr_verify_permissions c 1 False)
     (\<lambda>s. require_fs c
       (if \<not> extension_enabled s (Ext CHR ''F'') \<and> \<not> extension_enabled s EXT_ZFINX
        then throwM (Trap (trap_illegal_instruction (insn_bits c)))
        else if extension_enabled s EXT_SMSTATEEN \<and> extension_enabled s EXT_ZFINX
        then (if prv s < PRV_M \<and> mstateen0_val s AND 2 = 0
              then throwM (Trap (trap_illegal_instruction (insn_bits c)))
              else if virt s \<and> hstateen0_read s AND 2 = 0
              then throwM (Trap (trap_virtual_instruction (insn_bits c)))
              else if extension_enabled s (Ext CHR ''S'') \<and> prv s < PRV_S \<and> sstateen0_read s AND 2 = 0
              then (if virt s then throwM (Trap (trap_virtual_instruction (insn_bits c)))
                    else throwM (Trap (trap_illegal_instruction (insn_bits c))))
              else returnM ())
        else returnM ()) s)"

definition require_fp :: "ctx \<Rightarrow> ('d hart, 'a) M \<Rightarrow> ('d hart, 'a) M" where
  "require_fp c k = thenM (fflags_verify_permissions c) k"

definition RM :: "ctx \<Rightarrow> ('d hart, u8) M" where
  "RM c s =
    (let rm = (if insn_rm (insn_bits c) = 7 then frm_val s else insn_rm (insn_bits c))
     in if 4 < rm then (Inl (Trap (trap_illegal_instruction (insn_bits c))), s) else (Inr (ucast rm), s))"

definition raise_fp_exceptions :: "ctx \<Rightarrow> u8 \<Rightarrow> ('d hart, unit) M" where
  "raise_fp_exceptions c flags s =
    (if flags \<noteq> 0 then fflags_write c (fflags_val s OR ucast flags) s else (Inr (), s))"

definition set_fp_exceptions :: "ctx \<Rightarrow> ('d hart, unit) M" where
  "set_fp_exceptions c s =
    thenM (raise_fp_exceptions c (softfloat_exceptionFlags s))
      (modifyM (\<lambda>s. s\<lparr>softfloat_exceptionFlags := 0\<rparr>)) s"

section \<open>Running a body\<close>

text \<open>\<^verbatim>\<open>fast_rv32i_NAME\<close> and \<^verbatim>\<open>fast_rv64i_NAME\<close>: the prologue computes the
  address of the next instruction from the length of the opcode, and the epilogue returns
  \<^verbatim>\<open>npc\<close>, which the body may have changed.\<close>

definition fast_insn :: "u64 \<Rightarrow> (ctx \<Rightarrow> ('d hart, unit) M) \<Rightarrow> ctx \<Rightarrow> ('d hart, u64) M" where
  "fast_insn opcode body c s =
    bindM (body c) (\<lambda>_ s. (Inr (npc s), s))
      (s\<lparr>npc := sext_xlen c (insn_pc c + of_nat (insn_length opcode))\<rparr>)"

end
