(* ===== verification/InsnInt.thy ===== *)
theory InsnInt
  imports Macros Arith
begin

text \<open>
  The integer instructions, one definition for each file of
  \<^verbatim>\<open>riscv/insns\<close> that does not touch memory: the base arithmetic and control
  transfer instructions, multiplication and division, and the bit-manipulation extensions.
\<close>

text \<open>Division of signed operands truncates towards zero; the body divides 64-bit operands.\<close>

definition c_sdiv :: "u64 \<Rightarrow> u64 \<Rightarrow> u64" where "c_sdiv a b = word_of_int (sint a sdiv sint b)"
definition c_smod :: "u64 \<Rightarrow> u64 \<Rightarrow> u64" where "c_smod a b = word_of_int (sint a smod sint b)"

text \<open>The loops of clz and ctz: the first index whose bit is set, else the bound.\<close>

definition find_bit :: "(nat \<Rightarrow> u64) \<Rightarrow> nat \<Rightarrow> u64" where
  "find_bit f n = (case find (\<lambda>i. 1 AND f i \<noteq> 0) [0..<n] of Some i \<Rightarrow> of_nat i | None \<Rightarrow> of_nat n)"

definition grev_step :: "nat \<Rightarrow> u64 \<Rightarrow> u64 \<Rightarrow> u64 \<Rightarrow> u64 \<Rightarrow> u64" where
  "grev_step n lo hi sh x =
    (if sh AND of_nat n \<noteq> 0 then push_bit n (x AND lo) OR drop_bit n (x AND hi) else x)"

definition grev :: "u64 \<Rightarrow> u64 \<Rightarrow> u64" where
  "grev sh x =
    grev_step 32 0x00000000FFFFFFFF 0xFFFFFFFF00000000 sh
      (grev_step 16 0x0000FFFF0000FFFF 0xFFFF0000FFFF0000 sh
        (grev_step 8 0x00FF00FF00FF00FF 0xFF00FF00FF00FF00 sh
          (grev_step 4 0x0F0F0F0F0F0F0F0F 0xF0F0F0F0F0F0F0F0 sh
            (grev_step 2 0x3333333333333333 0xCCCCCCCCCCCCCCCC sh
              (grev_step 1 0x5555555555555555 0xAAAAAAAAAAAAAAAA sh x)))))"

section \<open>Arithmetic and logic\<close>

definition insn_add :: "ctx \<Rightarrow> ('d hart, unit) M" where
  [insns]: "insn_add c s =
    (WRITE_RD c (sext_xlen c (RS1 c s + RS2 c s)) s)"

definition insn_addi :: "ctx \<Rightarrow> ('d hart, unit) M" where
  [insns]: "insn_addi c s =
    (WRITE_RD c (sext_xlen c (RS1 c s + i_imm (insn_bits c))) s)"

definition insn_addiw :: "ctx \<Rightarrow> ('d hart, unit) M" where
  [insns]: "insn_addiw c s =
    (require_rv64 c (\<lambda>s. WRITE_RD c (sext32 (i_imm (insn_bits c) + RS1 c s)) s) s)"

definition insn_addw :: "ctx \<Rightarrow> ('d hart, unit) M" where
  [insns]: "insn_addw c s =
    (require_rv64 c (\<lambda>s. WRITE_RD c (sext32 (RS1 c s + RS2 c s)) s) s)"

definition insn_sub :: "ctx \<Rightarrow> ('d hart, unit) M" where
  [insns]: "insn_sub c s =
    (WRITE_RD c (sext_xlen c (RS1 c s - RS2 c s)) s)"

definition insn_subw :: "ctx \<Rightarrow> ('d hart, unit) M" where
  [insns]: "insn_subw c s =
    (require_rv64 c (\<lambda>s. WRITE_RD c (sext32 (RS1 c s - RS2 c s)) s) s)"

definition insn_and :: "ctx \<Rightarrow> ('d hart, unit) M" where
  [insns]: "insn_and c s =
    (WRITE_RD c (RS1 c s AND RS2 c s) s)"

definition insn_andi :: "ctx \<Rightarrow> ('d hart, unit) M" where
  [insns]: "insn_andi c s =
    (WRITE_RD c (i_imm (insn_bits c) AND RS1 c s) s)"

definition insn_or :: "ctx \<Rightarrow> ('d hart, unit) M" where
  [insns]: "insn_or c s =
    (WRITE_RD c (RS1 c s OR RS2 c s) s)"

definition insn_ori :: "ctx \<Rightarrow> ('d hart, unit) M" where
  [insns]: "insn_ori c s =
    (WRITE_RD c (i_imm (insn_bits c) OR RS1 c s) s)"

definition insn_xor :: "ctx \<Rightarrow> ('d hart, unit) M" where
  [insns]: "insn_xor c s =
    (WRITE_RD c (RS1 c s XOR RS2 c s) s)"

definition insn_xori :: "ctx \<Rightarrow> ('d hart, unit) M" where
  [insns]: "insn_xori c s =
    (WRITE_RD c (i_imm (insn_bits c) XOR RS1 c s) s)"

definition insn_lui :: "ctx \<Rightarrow> ('d hart, unit) M" where
  [insns]: "insn_lui c s =
    (WRITE_RD c (u_imm (insn_bits c)) s)"

definition insn_auipc :: "ctx \<Rightarrow> ('d hart, unit) M" where
  [insns]: "insn_auipc c s =
    (WRITE_RD c (sext_xlen c (u_imm (insn_bits c) + insn_pc c)) s)"

definition insn_sll :: "ctx \<Rightarrow> ('d hart, unit) M" where
  [insns]: "insn_sll c s =
    (WRITE_RD c (sext_xlen c (push_bit (unat (RS2 c s AND (of_nat (xlen c) - 1))) (RS1 c s))) s)"

definition insn_slli :: "ctx \<Rightarrow> ('d hart, unit) M" where
  [insns]: "insn_slli c s =
    (require c (SHAMT c < of_nat (xlen c)) (\<lambda>s. WRITE_RD c (sext_xlen c (push_bit (unat (SHAMT c)) (RS1 c s))) s) s)"

definition insn_slliw :: "ctx \<Rightarrow> ('d hart, unit) M" where
  [insns]: "insn_slliw c s =
    (require_rv64 c (\<lambda>s. WRITE_RD c (sext32 (push_bit (unat (SHAMT c)) (RS1 c s))) s) s)"

definition insn_sllw :: "ctx \<Rightarrow> ('d hart, unit) M" where
  [insns]: "insn_sllw c s =
    (require_rv64 c (\<lambda>s. WRITE_RD c (sext32 (push_bit (unat (RS2 c s AND 0x1F)) (RS1 c s))) s) s)"

definition insn_srl :: "ctx \<Rightarrow> ('d hart, unit) M" where
  [insns]: "insn_srl c s =
    (WRITE_RD c (sext_xlen c (drop_bit (unat (RS2 c s AND (of_nat (xlen c) - 1))) (zext_xlen c (RS1 c s)))) s)"

definition insn_srli :: "ctx \<Rightarrow> ('d hart, unit) M" where
  [insns]: "insn_srli c s =
    (require c (SHAMT c < of_nat (xlen c)) (\<lambda>s. WRITE_RD c (sext_xlen c (drop_bit (unat (SHAMT c)) (zext_xlen c (RS1 c s)))) s) s)"

definition insn_srliw :: "ctx \<Rightarrow> ('d hart, unit) M" where
  [insns]: "insn_srliw c s =
    (require_rv64 c (\<lambda>s. WRITE_RD c (sext32 (ucast (drop_bit (unat (SHAMT c)) (ucast (RS1 c s) :: u32)))) s) s)"

definition insn_srlw :: "ctx \<Rightarrow> ('d hart, unit) M" where
  [insns]: "insn_srlw c s =
    (require_rv64 c (\<lambda>s. WRITE_RD c (sext32 (ucast (drop_bit (unat (RS2 c s AND 0x1F)) (ucast (RS1 c s) :: u32)))) s) s)"

definition insn_sra :: "ctx \<Rightarrow> ('d hart, unit) M" where
  [insns]: "insn_sra c s =
    (WRITE_RD c (sext_xlen c (signed_drop_bit (unat (RS2 c s AND (of_nat (xlen c) - 1))) (sext_xlen c (RS1 c s)))) s)"

definition insn_srai :: "ctx \<Rightarrow> ('d hart, unit) M" where
  [insns]: "insn_srai c s =
    (require c (SHAMT c < of_nat (xlen c)) (\<lambda>s. WRITE_RD c (sext_xlen c (signed_drop_bit (unat (SHAMT c)) (sext_xlen c (RS1 c s)))) s) s)"

definition insn_sraiw :: "ctx \<Rightarrow> ('d hart, unit) M" where
  [insns]: "insn_sraiw c s =
    (require_rv64 c (\<lambda>s. WRITE_RD c (sext32 (scast (signed_drop_bit (unat (SHAMT c)) (ucast (RS1 c s) :: u32)))) s) s)"

definition insn_sraw :: "ctx \<Rightarrow> ('d hart, unit) M" where
  [insns]: "insn_sraw c s =
    (require_rv64 c (\<lambda>s. WRITE_RD c (sext32 (scast (signed_drop_bit (unat (RS2 c s AND 0x1F)) (ucast (RS1 c s) :: u32)))) s) s)"

definition insn_slt :: "ctx \<Rightarrow> ('d hart, unit) M" where
  [insns]: "insn_slt c s =
    (WRITE_RD c (of_bool (RS1 c s <s RS2 c s)) s)"

definition insn_slti :: "ctx \<Rightarrow> ('d hart, unit) M" where
  [insns]: "insn_slti c s =
    (WRITE_RD c (of_bool (RS1 c s <s i_imm (insn_bits c))) s)"

definition insn_sltu :: "ctx \<Rightarrow> ('d hart, unit) M" where
  [insns]: "insn_sltu c s =
    (WRITE_RD c (of_bool (RS1 c s < RS2 c s)) s)"

definition insn_sltiu :: "ctx \<Rightarrow> ('d hart, unit) M" where
  [insns]: "insn_sltiu c s =
    (WRITE_RD c (of_bool (RS1 c s < i_imm (insn_bits c))) s)"

section \<open>Control transfer\<close>

definition insn_beq :: "ctx \<Rightarrow> ('d hart, unit) M" where
  [insns]: "insn_beq c s =
    (if RS1 c s = RS2 c s then set_pc c (BRANCH_TARGET c) s else returnM () s)"

definition insn_bne :: "ctx \<Rightarrow> ('d hart, unit) M" where
  [insns]: "insn_bne c s =
    (if RS1 c s \<noteq> RS2 c s then set_pc c (BRANCH_TARGET c) s else returnM () s)"

definition insn_blt :: "ctx \<Rightarrow> ('d hart, unit) M" where
  [insns]: "insn_blt c s =
    (if RS1 c s <s RS2 c s then set_pc c (BRANCH_TARGET c) s else returnM () s)"

definition insn_bltu :: "ctx \<Rightarrow> ('d hart, unit) M" where
  [insns]: "insn_bltu c s =
    (if RS1 c s < RS2 c s then set_pc c (BRANCH_TARGET c) s else returnM () s)"

definition insn_bge :: "ctx \<Rightarrow> ('d hart, unit) M" where
  [insns]: "insn_bge c s =
    (if RS2 c s \<le>s RS1 c s then set_pc c (BRANCH_TARGET c) s else returnM () s)"

definition insn_bgeu :: "ctx \<Rightarrow> ('d hart, unit) M" where
  [insns]: "insn_bgeu c s =
    (if RS2 c s \<le> RS1 c s then set_pc c (BRANCH_TARGET c) s else returnM () s)"

definition insn_jal :: "ctx \<Rightarrow> ('d hart, unit) M" where
  [insns]: "insn_jal c s =
    (let tmp = npc s in thenM (set_pc c (JUMP_TARGET c)) (WRITE_RD c tmp) s)"

definition insn_jalr :: "ctx \<Rightarrow> ('d hart, unit) M" where
  [insns]: "insn_jalr c s =
    (let tmp = npc s
     in thenM (set_pc c ((RS1 c s + i_imm (insn_bits c)) AND NOT 1))
         (thenM (WRITE_RD c tmp)
           (bindM (\<lambda>s. ZICFILP_xLPE (virt s) (prv s) s)
             (\<lambda>lpe. if lpe \<noteq> 0
                then modifyM (\<lambda>s. serialize (s\<lparr>elp := ZICFILP_IS_LP_EXPECTED (insn_rs1 (insn_bits c))\<rparr>))
                else returnM ()))) s)"

definition insn_ebreak :: "ctx \<Rightarrow> ('d hart, unit) M" where
  [insns]: "insn_ebreak c s =
    (if \<not> debug_mode s \<and>
        ((\<not> virt s \<and> prv s = PRV_M \<and> dcsr_ebreakm (dcsr s)) \<or>
         (\<not> virt s \<and> prv s = PRV_S \<and> dcsr_ebreaks (dcsr s)) \<or>
         (\<not> virt s \<and> prv s = PRV_U \<and> dcsr_ebreaku (dcsr s)) \<or>
         (virt s \<and> prv s = PRV_S \<and> dcsr_ebreakvs (dcsr s)) \<or>
         (virt s \<and> prv s = PRV_U \<and> dcsr_ebreakvu (dcsr s)))
     then throwM TrapDebugMode s
     else throwM (Trap (trap_breakpoint (virt s) (insn_pc c))) s)"

definition insn_ecall :: "ctx \<Rightarrow> ('d hart, unit) M" where
  [insns]: "insn_ecall c s =
    (if prv s = PRV_U then throwM (Trap trap_user_ecall) s
     else if prv s = PRV_S
     then (if virt s then throwM (Trap trap_virtual_supervisor_ecall) s else throwM (Trap trap_supervisor_ecall) s)
     else if prv s = PRV_M then throwM (Trap trap_machine_ecall) s
     else throwM Abort s)"

definition insn_lpad :: "ctx \<Rightarrow> ('d hart, unit) M" where
  [insns]: "insn_lpad c s =
    (bindM (\<lambda>s. ZICFILP_xLPE (virt s) (prv s) s)
      (\<lambda>lpe s. if lpe \<noteq> 0 \<and> elp s = LP_EXPECTED
         then thenM (software_check
                (insn_pc c mod 4 = 0 \<and>
                 (READ_REG 7 s AND 0xFFFFF000 = u_imm (insn_bits c) AND 0xFFFFF000 \<or> u_imm (insn_bits c) = 0)) 2)
              (modifyM (\<lambda>s. s\<lparr>elp := NO_LP_EXPECTED\<rparr>)) s
         else returnM () s) s)"

section \<open>Multiplication and division\<close>

definition insn_mul :: "ctx \<Rightarrow> ('d hart, unit) M" where
  [insns]: "insn_mul c s =
    (require_either_extension c (Ext CHR ''M'') EXT_ZMMUL (\<lambda>s. WRITE_RD c (sext_xlen c (RS1 c s * RS2 c s)) s) s)"

definition insn_mulh :: "ctx \<Rightarrow> ('d hart, unit) M" where
  [insns]: "insn_mulh c s =
    (require_either_extension c (Ext CHR ''M'') EXT_ZMMUL (\<lambda>s. if xlen c = 64 then WRITE_RD c (mulh (RS1 c s) (RS2 c s)) s
       else WRITE_RD c (sext32 (signed_drop_bit 32 (sext32 (RS1 c s) * sext32 (RS2 c s)))) s) s)"

definition insn_mulhsu :: "ctx \<Rightarrow> ('d hart, unit) M" where
  [insns]: "insn_mulhsu c s =
    (require_either_extension c (Ext CHR ''M'') EXT_ZMMUL (\<lambda>s. if xlen c = 64 then WRITE_RD c (mulhsu (RS1 c s) (RS2 c s)) s
       else WRITE_RD c (sext32 (drop_bit 32 (sext32 (RS1 c s) * zext32 (RS2 c s)))) s) s)"

definition insn_mulhu :: "ctx \<Rightarrow> ('d hart, unit) M" where
  [insns]: "insn_mulhu c s =
    (require_either_extension c (Ext CHR ''M'') EXT_ZMMUL (\<lambda>s. if xlen c = 64 then WRITE_RD c (mulhu (RS1 c s) (RS2 c s)) s
       else WRITE_RD c (sext32 (drop_bit 32 (zext32 (RS1 c s) * zext32 (RS2 c s)))) s) s)"

definition insn_mulw :: "ctx \<Rightarrow> ('d hart, unit) M" where
  [insns]: "insn_mulw c s =
    (require_either_extension c (Ext CHR ''M'') EXT_ZMMUL (\<lambda>s. require_rv64 c (\<lambda>s. WRITE_RD c (sext32 (RS1 c s * RS2 c s)) s) s) s)"

definition insn_div :: "ctx \<Rightarrow> ('d hart, unit) M" where
  [insns]: "insn_div c s =
    (require_extension c (Ext CHR ''M'') (\<lambda>s. let lhs = sext_xlen c (RS1 c s); rhs = sext_xlen c (RS2 c s)
       in if rhs = 0 then WRITE_RD c (- 1) s
          else if lhs = push_bit 63 1 \<and> rhs = - 1 then WRITE_RD c lhs s
          else WRITE_RD c (sext_xlen c (c_sdiv lhs rhs)) s) s)"

definition insn_divu :: "ctx \<Rightarrow> ('d hart, unit) M" where
  [insns]: "insn_divu c s =
    (require_extension c (Ext CHR ''M'') (\<lambda>s. let lhs = zext_xlen c (RS1 c s); rhs = zext_xlen c (RS2 c s)
       in if rhs = 0 then WRITE_RD c (- 1) s else WRITE_RD c (sext_xlen c (lhs div rhs)) s) s)"

definition insn_divw :: "ctx \<Rightarrow> ('d hart, unit) M" where
  [insns]: "insn_divw c s =
    (require_extension c (Ext CHR ''M'') (\<lambda>s. require_rv64 c (\<lambda>s. let lhs = sext32 (RS1 c s); rhs = sext32 (RS2 c s)
       in if rhs = 0 then WRITE_RD c (- 1) s else WRITE_RD c (sext32 (c_sdiv lhs rhs)) s) s) s)"

definition insn_divuw :: "ctx \<Rightarrow> ('d hart, unit) M" where
  [insns]: "insn_divuw c s =
    (require_extension c (Ext CHR ''M'') (\<lambda>s. require_rv64 c (\<lambda>s. let lhs = zext32 (RS1 c s); rhs = zext32 (RS2 c s)
       in if rhs = 0 then WRITE_RD c (- 1) s else WRITE_RD c (sext32 (lhs div rhs)) s) s) s)"

definition insn_rem :: "ctx \<Rightarrow> ('d hart, unit) M" where
  [insns]: "insn_rem c s =
    (require_extension c (Ext CHR ''M'') (\<lambda>s. let lhs = sext_xlen c (RS1 c s); rhs = sext_xlen c (RS2 c s)
       in if rhs = 0 then WRITE_RD c lhs s
          else if lhs = push_bit 63 1 \<and> rhs = - 1 then WRITE_RD c 0 s
          else WRITE_RD c (sext_xlen c (c_smod lhs rhs)) s) s)"

definition insn_remu :: "ctx \<Rightarrow> ('d hart, unit) M" where
  [insns]: "insn_remu c s =
    (require_extension c (Ext CHR ''M'') (\<lambda>s. let lhs = zext_xlen c (RS1 c s); rhs = zext_xlen c (RS2 c s)
       in if rhs = 0 then WRITE_RD c (sext_xlen c (RS1 c s)) s else WRITE_RD c (sext_xlen c (lhs mod rhs)) s) s)"

definition insn_remw :: "ctx \<Rightarrow> ('d hart, unit) M" where
  [insns]: "insn_remw c s =
    (require_extension c (Ext CHR ''M'') (\<lambda>s. require_rv64 c (\<lambda>s. let lhs = sext32 (RS1 c s); rhs = sext32 (RS2 c s)
       in if rhs = 0 then WRITE_RD c lhs s else WRITE_RD c (sext32 (c_smod lhs rhs)) s) s) s)"

definition insn_remuw :: "ctx \<Rightarrow> ('d hart, unit) M" where
  [insns]: "insn_remuw c s =
    (require_extension c (Ext CHR ''M'') (\<lambda>s. require_rv64 c (\<lambda>s. let lhs = zext32 (RS1 c s); rhs = zext32 (RS2 c s)
       in if rhs = 0 then WRITE_RD c (sext32 lhs) s else WRITE_RD c (sext32 (lhs mod rhs)) s) s) s)"

section \<open>Bit manipulation\<close>

definition insn_add_uw :: "ctx \<Rightarrow> ('d hart, unit) M" where
  [insns]: "insn_add_uw c s =
    (require_rv64 c (\<lambda>s. require_extension c EXT_ZBA (\<lambda>s. WRITE_RD c (sext_xlen c (zext32 (RS1 c s) + RS2 c s)) s) s) s)"

definition insn_slli_uw :: "ctx \<Rightarrow> ('d hart, unit) M" where
  [insns]: "insn_slli_uw c s =
    (require_rv64 c (\<lambda>s. require_extension c EXT_ZBA (\<lambda>s. WRITE_RD c (sext_xlen c (push_bit (unat (SHAMT c)) (zext32 (RS1 c s)))) s) s) s)"

definition insn_sh1add :: "ctx \<Rightarrow> ('d hart, unit) M" where
  [insns]: "insn_sh1add c s =
    (require_extension c EXT_ZBA (\<lambda>s. WRITE_RD c (sext_xlen c (push_bit 1 (RS1 c s) + RS2 c s)) s) s)"

definition insn_sh1add_uw :: "ctx \<Rightarrow> ('d hart, unit) M" where
  [insns]: "insn_sh1add_uw c s =
    (require_rv64 c (\<lambda>s. require_extension c EXT_ZBA (\<lambda>s. WRITE_RD c (sext_xlen c (push_bit 1 (zext32 (RS1 c s)) + RS2 c s)) s) s) s)"

definition insn_sh2add :: "ctx \<Rightarrow> ('d hart, unit) M" where
  [insns]: "insn_sh2add c s =
    (require_extension c EXT_ZBA (\<lambda>s. WRITE_RD c (sext_xlen c (push_bit 2 (RS1 c s) + RS2 c s)) s) s)"

definition insn_sh2add_uw :: "ctx \<Rightarrow> ('d hart, unit) M" where
  [insns]: "insn_sh2add_uw c s =
    (require_rv64 c (\<lambda>s. require_extension c EXT_ZBA (\<lambda>s. WRITE_RD c (sext_xlen c (push_bit 2 (zext32 (RS1 c s)) + RS2 c s)) s) s) s)"

definition insn_sh3add :: "ctx \<Rightarrow> ('d hart, unit) M" where
  [insns]: "insn_sh3add c s =
    (require_extension c EXT_ZBA (\<lambda>s. WRITE_RD c (sext_xlen c (push_bit 3 (RS1 c s) + RS2 c s)) s) s)"

definition insn_sh3add_uw :: "ctx \<Rightarrow> ('d hart, unit) M" where
  [insns]: "insn_sh3add_uw c s =
    (require_rv64 c (\<lambda>s. require_extension c EXT_ZBA (\<lambda>s. WRITE_RD c (sext_xlen c (push_bit 3 (zext32 (RS1 c s)) + RS2 c s)) s) s) s)"

definition insn_andn :: "ctx \<Rightarrow> ('d hart, unit) M" where
  [insns]: "insn_andn c s =
    (require_either_extension c EXT_ZBB EXT_ZBKB (\<lambda>s. WRITE_RD c (RS1 c s AND NOT (RS2 c s)) s) s)"

definition insn_orn :: "ctx \<Rightarrow> ('d hart, unit) M" where
  [insns]: "insn_orn c s =
    (require_either_extension c EXT_ZBB EXT_ZBKB (\<lambda>s. WRITE_RD c (RS1 c s OR NOT (RS2 c s)) s) s)"

definition insn_xnor :: "ctx \<Rightarrow> ('d hart, unit) M" where
  [insns]: "insn_xnor c s =
    (require_either_extension c EXT_ZBB EXT_ZBKB (\<lambda>s. WRITE_RD c (RS1 c s XOR NOT (RS2 c s)) s) s)"

definition insn_max :: "ctx \<Rightarrow> ('d hart, unit) M" where
  [insns]: "insn_max c s =
    (require_extension c EXT_ZBB (\<lambda>s. WRITE_RD c (sext_xlen c (if RS2 c s <s RS1 c s then RS1 c s else RS2 c s)) s) s)"

definition insn_maxu :: "ctx \<Rightarrow> ('d hart, unit) M" where
  [insns]: "insn_maxu c s =
    (require_extension c EXT_ZBB (\<lambda>s. WRITE_RD c (sext_xlen c (if RS2 c s < RS1 c s then RS1 c s else RS2 c s)) s) s)"

definition insn_min :: "ctx \<Rightarrow> ('d hart, unit) M" where
  [insns]: "insn_min c s =
    (require_extension c EXT_ZBB (\<lambda>s. WRITE_RD c (sext_xlen c (if RS1 c s <s RS2 c s then RS1 c s else RS2 c s)) s) s)"

definition insn_minu :: "ctx \<Rightarrow> ('d hart, unit) M" where
  [insns]: "insn_minu c s =
    (require_extension c EXT_ZBB (\<lambda>s. WRITE_RD c (sext_xlen c (if RS1 c s < RS2 c s then RS1 c s else RS2 c s)) s) s)"

definition insn_sext_b :: "ctx \<Rightarrow> ('d hart, unit) M" where
  [insns]: "insn_sext_b c s =
    (require_extension c EXT_ZBB (\<lambda>s. WRITE_RD c (scast (ucast (RS1 c s) :: u8)) s) s)"

definition insn_sext_h :: "ctx \<Rightarrow> ('d hart, unit) M" where
  [insns]: "insn_sext_h c s =
    (require_extension c EXT_ZBB (\<lambda>s. WRITE_RD c (scast (ucast (RS1 c s) :: u16)) s) s)"

definition insn_bclr :: "ctx \<Rightarrow> ('d hart, unit) M" where
  [insns]: "insn_bclr c s =
    (require_extension c EXT_ZBS (\<lambda>s. let shamt = unat (RS2 c s AND (of_nat (xlen c) - 1)) in WRITE_RD c (sext_xlen c (RS1 c s AND NOT (push_bit shamt 1))) s) s)"

definition insn_bclri :: "ctx \<Rightarrow> ('d hart, unit) M" where
  [insns]: "insn_bclri c s =
    (require_extension c EXT_ZBS (\<lambda>s. let shamt = unat (SHAMT c AND (of_nat (xlen c) - 1)) in WRITE_RD c (sext_xlen c (RS1 c s AND NOT (push_bit shamt 1))) s) s)"

definition insn_bset :: "ctx \<Rightarrow> ('d hart, unit) M" where
  [insns]: "insn_bset c s =
    (require_extension c EXT_ZBS (\<lambda>s. let shamt = unat (RS2 c s AND (of_nat (xlen c) - 1)) in WRITE_RD c (sext_xlen c (RS1 c s OR push_bit shamt 1)) s) s)"

definition insn_bseti :: "ctx \<Rightarrow> ('d hart, unit) M" where
  [insns]: "insn_bseti c s =
    (require_extension c EXT_ZBS (\<lambda>s. let shamt = unat (SHAMT c AND (of_nat (xlen c) - 1)) in WRITE_RD c (sext_xlen c (RS1 c s OR push_bit shamt 1)) s) s)"

definition insn_binv :: "ctx \<Rightarrow> ('d hart, unit) M" where
  [insns]: "insn_binv c s =
    (require_extension c EXT_ZBS (\<lambda>s. let shamt = unat (RS2 c s AND (of_nat (xlen c) - 1)) in WRITE_RD c (sext_xlen c (RS1 c s XOR push_bit shamt 1)) s) s)"

definition insn_binvi :: "ctx \<Rightarrow> ('d hart, unit) M" where
  [insns]: "insn_binvi c s =
    (require_extension c EXT_ZBS (\<lambda>s. let shamt = unat (SHAMT c AND (of_nat (xlen c) - 1)) in WRITE_RD c (sext_xlen c (RS1 c s XOR push_bit shamt 1)) s) s)"

definition insn_bext :: "ctx \<Rightarrow> ('d hart, unit) M" where
  [insns]: "insn_bext c s =
    (require_extension c EXT_ZBS (\<lambda>s. let shamt = unat (RS2 c s AND (of_nat (xlen c) - 1)) in WRITE_RD c (sext_xlen c (1 AND drop_bit shamt (RS1 c s))) s) s)"

definition insn_bexti :: "ctx \<Rightarrow> ('d hart, unit) M" where
  [insns]: "insn_bexti c s =
    (require_extension c EXT_ZBS (\<lambda>s. let shamt = unat (SHAMT c AND (of_nat (xlen c) - 1)) in WRITE_RD c (sext_xlen c (1 AND drop_bit shamt (RS1 c s))) s) s)"

definition insn_clz :: "ctx \<Rightarrow> ('d hart, unit) M" where
  [insns]: "insn_clz c s =
    (require_extension c EXT_ZBB (\<lambda>s. WRITE_RD c (sext_xlen c (find_bit (\<lambda>i. drop_bit (xlen c - i - 1) (RS1 c s)) (xlen c))) s) s)"

definition insn_clzw :: "ctx \<Rightarrow> ('d hart, unit) M" where
  [insns]: "insn_clzw c s =
    (require_rv64 c (\<lambda>s. require_extension c EXT_ZBB (\<lambda>s. WRITE_RD c (sext32 (find_bit (\<lambda>i. drop_bit (31 - i) (RS1 c s)) 32)) s) s) s)"

definition insn_ctz :: "ctx \<Rightarrow> ('d hart, unit) M" where
  [insns]: "insn_ctz c s =
    (require_extension c EXT_ZBB (\<lambda>s. WRITE_RD c (sext_xlen c (find_bit (\<lambda>i. drop_bit i (RS1 c s)) (xlen c))) s) s)"

definition insn_ctzw :: "ctx \<Rightarrow> ('d hart, unit) M" where
  [insns]: "insn_ctzw c s =
    (require_rv64 c (\<lambda>s. require_extension c EXT_ZBB (\<lambda>s. WRITE_RD c (sext32 (find_bit (\<lambda>i. drop_bit i (RS1 c s)) 32)) s) s) s)"

definition insn_cpop :: "ctx \<Rightarrow> ('d hart, unit) M" where
  [insns]: "insn_cpop c s =
    (require_extension c EXT_ZBB (\<lambda>s. WRITE_RD c (sext_xlen c (fold (\<lambda>i x. if 1 AND drop_bit i (RS1 c s) \<noteq> 0 then x + 1 else x) [0..<xlen c] 0)) s) s)"

definition insn_cpopw :: "ctx \<Rightarrow> ('d hart, unit) M" where
  [insns]: "insn_cpopw c s =
    (require_rv64 c (\<lambda>s. require_extension c EXT_ZBB (\<lambda>s. WRITE_RD c (sext32 (fold (\<lambda>i x. if 1 AND drop_bit i (RS1 c s) \<noteq> 0 then x + 1 else x) [0..<32] 0)) s) s) s)"

definition insn_clmul :: "ctx \<Rightarrow> ('d hart, unit) M" where
  [insns]: "insn_clmul c s =
    (require_either_extension c EXT_ZBC EXT_ZBKC (\<lambda>s. let a = zext_xlen c (RS1 c s); b = zext_xlen c (RS2 c s);
           x = fold (\<lambda>i x. if drop_bit i b AND 1 \<noteq> 0 then x XOR push_bit i a else x) [0..<xlen c] 0
       in WRITE_RD c (sext_xlen c x) s) s)"

definition insn_clmulh :: "ctx \<Rightarrow> ('d hart, unit) M" where
  [insns]: "insn_clmulh c s =
    (require_either_extension c EXT_ZBC EXT_ZBKC (\<lambda>s. let a = zext_xlen c (RS1 c s); b = zext_xlen c (RS2 c s);
           x = fold (\<lambda>i x. if drop_bit i b AND 1 \<noteq> 0 then x XOR drop_bit (xlen c - i) a else x) [1..<xlen c] 0
       in WRITE_RD c (sext_xlen c x) s) s)"

definition insn_clmulr :: "ctx \<Rightarrow> ('d hart, unit) M" where
  [insns]: "insn_clmulr c s =
    (require_extension c EXT_ZBC (\<lambda>s. let a = zext_xlen c (RS1 c s); b = zext_xlen c (RS2 c s);
           x = fold (\<lambda>i x. if drop_bit i b AND 1 \<noteq> 0 then x XOR drop_bit (xlen c - i - 1) a else x) [0..<xlen c] 0
       in WRITE_RD c (sext_xlen c x) s) s)"

definition insn_rol :: "ctx \<Rightarrow> ('d hart, unit) M" where
  [insns]: "insn_rol c s =
    (require_either_extension c EXT_ZBB EXT_ZBKB (\<lambda>s. let shamt = RS2 c s AND (of_nat (xlen c) - 1); rshamt = (- shamt) AND (of_nat (xlen c) - 1)
       in WRITE_RD c (sext_xlen c (push_bit (unat shamt) (RS1 c s) OR drop_bit (unat rshamt) (zext_xlen c (RS1 c s)))) s) s)"

definition insn_rolw :: "ctx \<Rightarrow> ('d hart, unit) M" where
  [insns]: "insn_rolw c s =
    (require_rv64 c (\<lambda>s. require_either_extension c EXT_ZBB EXT_ZBKB (\<lambda>s. let shamt = RS2 c s AND 31; rshamt = (- shamt) AND 31
       in WRITE_RD c (sext32 (push_bit (unat shamt) (RS1 c s) OR drop_bit (unat rshamt) (zext32 (RS1 c s)))) s) s) s)"

definition insn_ror :: "ctx \<Rightarrow> ('d hart, unit) M" where
  [insns]: "insn_ror c s =
    (require_either_extension c EXT_ZBB EXT_ZBKB (\<lambda>s. let shamt = RS2 c s AND (of_nat (xlen c) - 1); rshamt = (- shamt) AND (of_nat (xlen c) - 1)
       in WRITE_RD c (sext_xlen c (push_bit (unat rshamt) (RS1 c s) OR drop_bit (unat shamt) (zext_xlen c (RS1 c s)))) s) s)"

definition insn_rori :: "ctx \<Rightarrow> ('d hart, unit) M" where
  [insns]: "insn_rori c s =
    (require_either_extension c EXT_ZBB EXT_ZBKB (\<lambda>s. require c (SHAMT c < of_nat (xlen c)) (\<lambda>s. let shamt = SHAMT c AND (of_nat (xlen c) - 1); rshamt = (- shamt) AND (of_nat (xlen c) - 1)
       in WRITE_RD c (sext_xlen c (push_bit (unat rshamt) (RS1 c s) OR drop_bit (unat shamt) (zext_xlen c (RS1 c s)))) s) s) s)"

definition insn_rorw :: "ctx \<Rightarrow> ('d hart, unit) M" where
  [insns]: "insn_rorw c s =
    (require_rv64 c (\<lambda>s. require_either_extension c EXT_ZBB EXT_ZBKB (\<lambda>s. let shamt = RS2 c s AND 31; rshamt = (- shamt) AND 31
       in WRITE_RD c (sext32 (push_bit (unat rshamt) (RS1 c s) OR drop_bit (unat shamt) (zext32 (RS1 c s)))) s) s) s)"

definition insn_roriw :: "ctx \<Rightarrow> ('d hart, unit) M" where
  [insns]: "insn_roriw c s =
    (require_rv64 c (\<lambda>s. require_either_extension c EXT_ZBB EXT_ZBKB (\<lambda>s. require c (SHAMT c < 32) (\<lambda>s. let shamt = SHAMT c AND 31; rshamt = (- shamt) AND 31
       in WRITE_RD c (sext32 (push_bit (unat rshamt) (RS1 c s) OR drop_bit (unat shamt) (zext32 (RS1 c s)))) s) s) s) s)"

definition insn_pack :: "ctx \<Rightarrow> ('d hart, unit) M" where
  [insns]: "insn_pack c s =
    (require c ((xlen c = 32 \<and> insn_rs2 (insn_bits c) = 0 \<and> extension_enabled s EXT_ZBB) \<or> extension_enabled s EXT_ZBKB) (\<lambda>s. let lo = drop_bit (xlen c div 2) (zext_xlen c (push_bit (xlen c div 2) (RS1 c s)));
           hi = zext_xlen c (push_bit (xlen c div 2) (RS2 c s))
       in WRITE_RD c (sext_xlen c (lo OR hi)) s) s)"

definition insn_packh :: "ctx \<Rightarrow> ('d hart, unit) M" where
  [insns]: "insn_packh c s =
    (require_extension c EXT_ZBKB (\<lambda>s. let lo = drop_bit (xlen c - 8) (zext_xlen c (push_bit (xlen c - 8) (RS1 c s)));
           hi = drop_bit (xlen c - 16) (zext_xlen c (push_bit (xlen c - 8) (RS2 c s)))
       in WRITE_RD c (sext_xlen c (lo OR hi)) s) s)"

definition insn_packw :: "ctx \<Rightarrow> ('d hart, unit) M" where
  [insns]: "insn_packw c s =
    (require c ((insn_rs2 (insn_bits c) = 0 \<and> extension_enabled s EXT_ZBB) \<or> extension_enabled s EXT_ZBKB) (\<lambda>s. require_rv64 c (\<lambda>s. let lo = drop_bit 16 (zext32 (push_bit 16 (RS1 c s))); hi = zext32 (push_bit 16 (RS2 c s))
       in WRITE_RD c (sext32 (lo OR hi)) s) s) s)"

definition insn_czero_eqz :: "ctx \<Rightarrow> ('d hart, unit) M" where
  [insns]: "insn_czero_eqz c s =
    (require_extension c EXT_ZICOND (\<lambda>s. WRITE_RD c (if RS2 c s = 0 then 0 else RS1 c s) s) s)"

definition insn_czero_nez :: "ctx \<Rightarrow> ('d hart, unit) M" where
  [insns]: "insn_czero_nez c s =
    (require_extension c EXT_ZICOND (\<lambda>s. WRITE_RD c (if RS2 c s \<noteq> 0 then 0 else RS1 c s) s) s)"

definition insn_mop_r_N :: "ctx \<Rightarrow> ('d hart, unit) M" where
  [insns]: "insn_mop_r_N c s =
    (require_extension c EXT_ZIMOP (\<lambda>s. WRITE_RD c (0) s) s)"

definition insn_mop_rr_N :: "ctx \<Rightarrow> ('d hart, unit) M" where
  [insns]: "insn_mop_rr_N c s =
    (require_extension c EXT_ZIMOP (\<lambda>s. WRITE_RD c (0) s) s)"

definition insn_gorci :: "ctx \<Rightarrow> ('d hart, unit) M" where
  [insns]: "insn_gorci c s =
    (require c (SHAMT c = 7 \<and> extension_enabled s EXT_ZBB) (\<lambda>s. require c (SHAMT c < of_nat (xlen c)) (\<lambda>s. let x = RS1 c s; shamt = SHAMT c;
           x = (if shamt AND 1 \<noteq> 0 then x OR (push_bit 1 (x AND 0x5555555555555555) OR drop_bit 1 (x AND 0xAAAAAAAAAAAAAAAA)) else x);
           x = (if shamt AND 2 \<noteq> 0 then x OR (push_bit 2 (x AND 0x3333333333333333) OR drop_bit 2 (x AND 0xCCCCCCCCCCCCCCCC)) else x);
           x = (if shamt AND 4 \<noteq> 0 then x OR (push_bit 4 (x AND 0x0F0F0F0F0F0F0F0F) OR drop_bit 4 (x AND 0xF0F0F0F0F0F0F0F0)) else x);
           x = (if shamt AND 8 \<noteq> 0 then x OR (push_bit 8 (x AND 0x00FF00FF00FF00FF) OR drop_bit 8 (x AND 0xFF00FF00FF00FF00)) else x);
           x = (if shamt AND 16 \<noteq> 0 then x OR (push_bit 16 (x AND 0x0000FFFF0000FFFF) OR drop_bit 16 (x AND 0xFFFF0000FFFF0000)) else x);
           x = (if shamt AND 32 \<noteq> 0 then x OR (push_bit 32 (x AND 0x00000000FFFFFFFF) OR drop_bit 32 (x AND 0xFFFFFFFF00000000)) else x)
       in WRITE_RD c (sext_xlen c x) s) s) s)"

definition insn_grevi :: "ctx \<Rightarrow> ('d hart, unit) M" where
  [insns]: "insn_grevi c s =
    (let shamt = SHAMT c in require c ((shamt = of_nat (xlen c) - 8 \<and> (extension_enabled s EXT_ZBB \<or> extension_enabled s EXT_ZBKB)) \<or>
        (shamt = 7 \<and> extension_enabled s EXT_ZBKB)) (\<lambda>s. require c (shamt < of_nat (xlen c)) (\<lambda>s. WRITE_RD c (sext_xlen c (grev shamt (RS1 c s))) s) s) s)"

definition insn_shfli :: "ctx \<Rightarrow> ('d hart, unit) M" where
  [insns]: "insn_shfli c s =
    (require_rv32 c (\<lambda>s. require c (insn_rs2 (insn_bits c) = of_nat (xlen c div 2) - 1 \<and> extension_enabled s EXT_ZBKB) (\<lambda>s. require c (SHAMT c < of_nat (xlen c div 2)) (\<lambda>s. let x = RS1 c s; shamt = SHAMT c AND drop_bit 1 (of_nat (xlen c) - 1);
           x = (if shamt AND 16 \<noteq> 0 then (x AND 0xFFFF00000000FFFF) OR drop_bit 16 (x AND 0x0000FFFF00000000) OR push_bit 16 (x AND 0x00000000FFFF0000) else x);
           x = (if shamt AND 8 \<noteq> 0 then (x AND 0xFF0000FFFF0000FF) OR drop_bit 8 (x AND 0x00FF000000FF0000) OR push_bit 8 (x AND 0x0000FF000000FF00) else x);
           x = (if shamt AND 4 \<noteq> 0 then (x AND 0xF00FF00FF00FF00F) OR drop_bit 4 (x AND 0x0F000F000F000F00) OR push_bit 4 (x AND 0x00F000F000F000F0) else x);
           x = (if shamt AND 2 \<noteq> 0 then (x AND 0xC3C3C3C3C3C3C3C3) OR drop_bit 2 (x AND 0x3030303030303030) OR push_bit 2 (x AND 0x0C0C0C0C0C0C0C0C) else x);
           x = (if shamt AND 1 \<noteq> 0 then (x AND 0x9999999999999999) OR drop_bit 1 (x AND 0x4444444444444444) OR push_bit 1 (x AND 0x2222222222222222) else x)
       in WRITE_RD c (sext_xlen c x) s) s) s) s)"

definition insn_unshfli :: "ctx \<Rightarrow> ('d hart, unit) M" where
  [insns]: "insn_unshfli c s =
    (require_rv32 c (\<lambda>s. require c (insn_rs2 (insn_bits c) = of_nat (xlen c div 2) - 1 \<and> extension_enabled s EXT_ZBKB) (\<lambda>s. require c (SHAMT c < of_nat (xlen c div 2)) (\<lambda>s. let x = RS1 c s; shamt = SHAMT c AND drop_bit 1 (of_nat (xlen c) - 1);
           x = (if shamt AND 1 \<noteq> 0 then (x AND 0x9999999999999999) OR drop_bit 1 (x AND 0x4444444444444444) OR push_bit 1 (x AND 0x2222222222222222) else x);
           x = (if shamt AND 2 \<noteq> 0 then (x AND 0xC3C3C3C3C3C3C3C3) OR drop_bit 2 (x AND 0x3030303030303030) OR push_bit 2 (x AND 0x0C0C0C0C0C0C0C0C) else x);
           x = (if shamt AND 4 \<noteq> 0 then (x AND 0xF00FF00FF00FF00F) OR drop_bit 4 (x AND 0x0F000F000F000F00) OR push_bit 4 (x AND 0x00F000F000F000F0) else x);
           x = (if shamt AND 8 \<noteq> 0 then (x AND 0xFF0000FFFF0000FF) OR drop_bit 8 (x AND 0x00FF000000FF0000) OR push_bit 8 (x AND 0x0000FF000000FF00) else x);
           x = (if shamt AND 16 \<noteq> 0 then (x AND 0xFFFF00000000FFFF) OR drop_bit 16 (x AND 0x0000FFFF00000000) OR push_bit 16 (x AND 0x00000000FFFF0000) else x)
       in WRITE_RD c (sext_xlen c x) s) s) s) s)"

definition insn_xperm4 :: "ctx \<Rightarrow> ('d hart, unit) M" where
  [insns]: "insn_xperm4 c s =
    (require_extension c EXT_ZBKX (\<lambda>s. case xperm (RS1 c s) (RS2 c s) 2 (xlen c) of None \<Rightarrow> throwM Abort s
       | Some x \<Rightarrow> WRITE_RD c (sext_xlen c x) s) s)"

definition insn_xperm8 :: "ctx \<Rightarrow> ('d hart, unit) M" where
  [insns]: "insn_xperm8 c s =
    (require_extension c EXT_ZBKX (\<lambda>s. case xperm (RS1 c s) (RS2 c s) 3 (xlen c) of None \<Rightarrow> throwM Abort s
       | Some x \<Rightarrow> WRITE_RD c (sext_xlen c x) s) s)"

end
