(* ===== verification/InsnC.thy ===== *)
theory InsnC
  imports InsnInt
begin

text \<open>
  The compressed instructions of \<^verbatim>\<open>riscv/insns\<close> that do not touch memory:
  \<^verbatim>\<open>c_*.h\<close> of Zca and Zcb and the register moves of Zcmp.
\<close>

section \<open>Compressed instructions\<close>

definition insn_c_add :: "ctx \<Rightarrow> ('d hart, unit) M" where
  [insns]: "insn_c_add c s =
    (require_extension c EXT_ZCA (\<lambda>s. require c (rvc_rs2 (insn_bits c) \<noteq> 0) (\<lambda>s. WRITE_RD c (sext_xlen c (RVC_RS1 c s + RVC_RS2 c s)) s) s) s)"

definition insn_c_addi :: "ctx \<Rightarrow> ('d hart, unit) M" where
  [insns]: "insn_c_addi c s =
    (require_extension c EXT_ZCA (\<lambda>s. WRITE_RD c (sext_xlen c (RVC_RS1 c s + rvc_imm (insn_bits c))) s) s)"

definition insn_c_addi4spn :: "ctx \<Rightarrow> ('d hart, unit) M" where
  [insns]: "insn_c_addi4spn c s =
    (require_extension c EXT_ZCA (\<lambda>s. require c (rvc_addi4spn_imm (insn_bits c) \<noteq> 0) (\<lambda>s. WRITE_RVC_RS2S c (sext_xlen c (RVC_SP s + rvc_addi4spn_imm (insn_bits c))) s) s) s)"

definition insn_c_addw :: "ctx \<Rightarrow> ('d hart, unit) M" where
  [insns]: "insn_c_addw c s =
    (require_extension c EXT_ZCA (\<lambda>s. require_rv64 c (\<lambda>s. WRITE_RVC_RS1S c (sext32 (RVC_RS1S c s + RVC_RS2S c s)) s) s) s)"

definition insn_c_and :: "ctx \<Rightarrow> ('d hart, unit) M" where
  [insns]: "insn_c_and c s =
    (require_extension c EXT_ZCA (\<lambda>s. WRITE_RVC_RS1S c (RVC_RS1S c s AND RVC_RS2S c s) s) s)"

definition insn_c_andi :: "ctx \<Rightarrow> ('d hart, unit) M" where
  [insns]: "insn_c_andi c s =
    (require_extension c EXT_ZCA (\<lambda>s. WRITE_RVC_RS1S c (RVC_RS1S c s AND rvc_imm (insn_bits c)) s) s)"

definition insn_c_or :: "ctx \<Rightarrow> ('d hart, unit) M" where
  [insns]: "insn_c_or c s =
    (require_extension c EXT_ZCA (\<lambda>s. WRITE_RVC_RS1S c (RVC_RS1S c s OR RVC_RS2S c s) s) s)"

definition insn_c_xor :: "ctx \<Rightarrow> ('d hart, unit) M" where
  [insns]: "insn_c_xor c s =
    (require_extension c EXT_ZCA (\<lambda>s. WRITE_RVC_RS1S c (RVC_RS1S c s XOR RVC_RS2S c s) s) s)"

definition insn_c_beqz :: "ctx \<Rightarrow> ('d hart, unit) M" where
  [insns]: "insn_c_beqz c s =
    (require_extension c EXT_ZCA (\<lambda>s. if RVC_RS1S c s = 0 then set_pc c (insn_pc c + rvc_b_imm (insn_bits c)) s else returnM () s) s)"

definition insn_c_bnez :: "ctx \<Rightarrow> ('d hart, unit) M" where
  [insns]: "insn_c_bnez c s =
    (require_extension c EXT_ZCA (\<lambda>s. if RVC_RS1S c s \<noteq> 0 then set_pc c (insn_pc c + rvc_b_imm (insn_bits c)) s else returnM () s) s)"

definition insn_c_ebreak :: "ctx \<Rightarrow> ('d hart, unit) M" where
  [insns]: "insn_c_ebreak c s =
    (require_extension c EXT_ZCA (\<lambda>s. insn_ebreak c s) s)"

definition insn_c_j :: "ctx \<Rightarrow> ('d hart, unit) M" where
  [insns]: "insn_c_j c s =
    (require_extension c EXT_ZCA (\<lambda>s. set_pc c (insn_pc c + rvc_j_imm (insn_bits c)) s) s)"

definition insn_c_jal :: "ctx \<Rightarrow> ('d hart, unit) M" where
  [insns]: "insn_c_jal c s =
    (require_extension c EXT_ZCA (\<lambda>s. if xlen c = 32
       then (let tmp = npc s in thenM (set_pc c (insn_pc c + rvc_j_imm (insn_bits c))) (WRITE_REG (of_nat X_RA) tmp) s)
       else require c (rvc_rd (insn_bits c) \<noteq> 0) (WRITE_RD c (sext32 (RVC_RS1 c s + rvc_imm (insn_bits c)))) s) s)"

definition insn_c_jalr :: "ctx \<Rightarrow> ('d hart, unit) M" where
  [insns]: "insn_c_jalr c s =
    (require_extension c EXT_ZCA (\<lambda>s. require c (rvc_rs1 (insn_bits c) \<noteq> 0) (\<lambda>s. let tmp = npc s
       in thenM (set_pc c (RVC_RS1 c s AND NOT 1)) (thenM (WRITE_REG (of_nat X_RA) tmp)
            (bindM (\<lambda>s. ZICFILP_xLPE (virt s) (prv s) s)
               (\<lambda>lpe. if lpe \<noteq> 0
                  then modifyM (\<lambda>s. serialize (s\<lparr>elp := ZICFILP_IS_LP_EXPECTED (rvc_rs1 (insn_bits c))\<rparr>))
                  else returnM ()))) s) s) s)"

definition insn_c_jr :: "ctx \<Rightarrow> ('d hart, unit) M" where
  [insns]: "insn_c_jr c s =
    (require_extension c EXT_ZCA (\<lambda>s. require c (rvc_rs1 (insn_bits c) \<noteq> 0) (\<lambda>s. thenM (set_pc c (RVC_RS1 c s AND NOT 1))
            (bindM (\<lambda>s. ZICFILP_xLPE (virt s) (prv s) s)
               (\<lambda>lpe. if lpe \<noteq> 0
                  then modifyM (\<lambda>s. serialize (s\<lparr>elp := ZICFILP_IS_LP_EXPECTED (rvc_rs1 (insn_bits c))\<rparr>))
                  else returnM ())) s) s) s)"

definition insn_c_li :: "ctx \<Rightarrow> ('d hart, unit) M" where
  [insns]: "insn_c_li c s =
    (require_extension c EXT_ZCA (\<lambda>s. WRITE_RD c (rvc_imm (insn_bits c)) s) s)"

definition insn_c_mop_N :: "ctx \<Rightarrow> ('d hart, unit) M" where
  [insns]: "insn_c_mop_N c s =
    (require_extension c EXT_ZCA (\<lambda>s. require_extension c EXT_ZCMOP (\<lambda>s. returnM () s) s) s)"

definition insn_c_mul :: "ctx \<Rightarrow> ('d hart, unit) M" where
  [insns]: "insn_c_mul c s =
    (require_extension c EXT_ZCB (\<lambda>s. require_either_extension c (Ext CHR ''M'') EXT_ZMMUL (\<lambda>s. WRITE_RVC_RS1S c (sext_xlen c (RVC_RS1S c s * RVC_RS2S c s)) s) s) s)"

definition insn_c_mv :: "ctx \<Rightarrow> ('d hart, unit) M" where
  [insns]: "insn_c_mv c s =
    (require_extension c EXT_ZCA (\<lambda>s. require c (rvc_rs2 (insn_bits c) \<noteq> 0) (\<lambda>s. WRITE_RD c (RVC_RS2 c s) s) s) s)"

definition insn_c_not :: "ctx \<Rightarrow> ('d hart, unit) M" where
  [insns]: "insn_c_not c s =
    (require_extension c EXT_ZCB (\<lambda>s. WRITE_RVC_RS1S c (sext_xlen c (NOT (RVC_RS1S c s))) s) s)"

definition insn_c_sext_b :: "ctx \<Rightarrow> ('d hart, unit) M" where
  [insns]: "insn_c_sext_b c s =
    (require_extension c EXT_ZCB (\<lambda>s. require_extension c EXT_ZBB (\<lambda>s. WRITE_RVC_RS1S c (scast (ucast (RVC_RS1S c s) :: u8)) s) s) s)"

definition insn_c_sext_h :: "ctx \<Rightarrow> ('d hart, unit) M" where
  [insns]: "insn_c_sext_h c s =
    (require_extension c EXT_ZCB (\<lambda>s. require_extension c EXT_ZBB (\<lambda>s. WRITE_RVC_RS1S c (scast (ucast (RVC_RS1S c s) :: u16)) s) s) s)"

definition insn_c_slli :: "ctx \<Rightarrow> ('d hart, unit) M" where
  [insns]: "insn_c_slli c s =
    (require_extension c EXT_ZCA (\<lambda>s. require c (rvc_zimm (insn_bits c) < of_nat (xlen c)) (\<lambda>s. WRITE_RD c (sext_xlen c (push_bit (unat (rvc_zimm (insn_bits c))) (RVC_RS1 c s))) s) s) s)"

definition insn_c_srai :: "ctx \<Rightarrow> ('d hart, unit) M" where
  [insns]: "insn_c_srai c s =
    (require_extension c EXT_ZCA (\<lambda>s. require c (rvc_zimm (insn_bits c) < of_nat (xlen c)) (\<lambda>s. WRITE_RVC_RS1S c (sext_xlen c (signed_drop_bit (unat (rvc_zimm (insn_bits c))) (sext_xlen c (RVC_RS1S c s)))) s) s) s)"

definition insn_c_srli :: "ctx \<Rightarrow> ('d hart, unit) M" where
  [insns]: "insn_c_srli c s =
    (require_extension c EXT_ZCA (\<lambda>s. require c (rvc_zimm (insn_bits c) < of_nat (xlen c)) (\<lambda>s. WRITE_RVC_RS1S c (sext_xlen c (drop_bit (unat (rvc_zimm (insn_bits c))) (zext_xlen c (RVC_RS1S c s)))) s) s) s)"

definition insn_c_sub :: "ctx \<Rightarrow> ('d hart, unit) M" where
  [insns]: "insn_c_sub c s =
    (require_extension c EXT_ZCA (\<lambda>s. WRITE_RVC_RS1S c (sext_xlen c (RVC_RS1S c s - RVC_RS2S c s)) s) s)"

definition insn_c_subw :: "ctx \<Rightarrow> ('d hart, unit) M" where
  [insns]: "insn_c_subw c s =
    (require_extension c EXT_ZCA (\<lambda>s. require_rv64 c (\<lambda>s. WRITE_RVC_RS1S c (sext32 (RVC_RS1S c s - RVC_RS2S c s)) s) s) s)"

definition insn_c_zext_b :: "ctx \<Rightarrow> ('d hart, unit) M" where
  [insns]: "insn_c_zext_b c s =
    (require_extension c EXT_ZCB (\<lambda>s. WRITE_RVC_RS1S c (ucast (ucast (RVC_RS1S c s) :: u8)) s) s)"

definition insn_c_zext_h :: "ctx \<Rightarrow> ('d hart, unit) M" where
  [insns]: "insn_c_zext_h c s =
    (require_extension c EXT_ZCB (\<lambda>s. require_extension c EXT_ZBB (\<lambda>s. WRITE_RVC_RS1S c (ucast (ucast (RVC_RS1S c s) :: u16)) s) s) s)"

definition insn_c_zext_w :: "ctx \<Rightarrow> ('d hart, unit) M" where
  [insns]: "insn_c_zext_w c s =
    (require_extension c EXT_ZCB (\<lambda>s. require_extension c EXT_ZBA (\<lambda>s. require_rv64 c (\<lambda>s. WRITE_RVC_RS1S c (ucast (ucast (RVC_RS1S c s) :: u32)) s) s) s) s)"

definition insn_cm_mva01s :: "ctx \<Rightarrow> ('d hart, unit) M" where
  [insns]: "insn_cm_mva01s c s =
    (require_extension c EXT_ZCMP (\<lambda>s. thenM (\<lambda>s. WRITE_REG (of_nat X_A0) (READ_REG (RVC_R1S c) s) s)
        (\<lambda>s. WRITE_REG (of_nat X_A1) (READ_REG (RVC_R2S c) s) s) s) s)"

definition insn_cm_mvsa01 :: "ctx \<Rightarrow> ('d hart, unit) M" where
  [insns]: "insn_cm_mvsa01 c s =
    (require_extension c EXT_ZCMP (\<lambda>s. require c (rvc_r1sc (insn_bits c) \<noteq> rvc_r2sc (insn_bits c)) (\<lambda>s. thenM (\<lambda>s. WRITE_REG (RVC_R1S c) (READ_REG (of_nat X_A0) s) s)
        (\<lambda>s. WRITE_REG (RVC_R2S c) (READ_REG (of_nat X_A1) s) s) s) s) s)"

end
