(* ===== verification/Reset.thy ===== *)
theory Reset
  imports CsrFile
begin

text \<open>
  The state of a hart after \<^verbatim>\<open>processor_t::reset\<close>: \<^verbatim>\<open>state_t::reset\<close>
  of \<^verbatim>\<open>riscv/processor.cc\<close>, the initial values and write masks that
  \<^verbatim>\<open>state_t::csr_init\<close> (\<^verbatim>\<open>riscv/csr_init.cc\<close>) gives to the modelled registers,
  and the flushed translation caches of a new \<^verbatim>\<open>mmu_t\<close>.
\<close>

record config =
  cfg_impl :: "impl_extension \<Rightarrow> bool"
  max_isa :: u64
  big_endian :: bool
  any_vector_extensions :: bool
  trigger_count :: nat
  pmpregions :: nat
  lg_pmpgranularity :: nat

text \<open>\<^verbatim>\<open>xlen_to_uxl\<close>; any other width aborts, and the isa parser yields none.\<close>

definition xlen_to_uxl :: "nat \<Rightarrow> u64" where
  "xlen_to_uxl x = (if x = 32 then 1 else 2)"

definition compute_mstatus_initial_value :: "ctx \<Rightarrow> bool \<Rightarrow> u64" where
  "compute_mstatus_initial_value c big =
    (let u = isa_table c (Ext CHR ''U''); s = isa_table c (Ext CHR ''S'');
         big_endian_bits = (if u then 0x40 else 0) OR (if s then 0x1000000000 else 0) OR 0x2000000000
     in set_field 0 MSTATUS_MPP (if u then PRV_U else PRV_M)
        OR (if u \<and> max_xlen c \<noteq> 32 then set_field 0 0x300000000 (xlen_to_uxl (max_xlen c)) else 0)
        OR (if s \<and> max_xlen c \<noteq> 32 then set_field 0 0xC00000000 (xlen_to_uxl (max_xlen c)) else 0)
        OR (if big then big_endian_bits else 0)
        OR (if isa_table c EXT_SMDBLTRP then MSTATUS_MDT else 0))"

definition menvcfg_mask_init :: "ctx \<Rightarrow> u64" where
  "menvcfg_mask_init c =
    (let e = isa_table c
     in (if e EXT_ZICBOM then MENVCFG_CBCFE OR MENVCFG_CBIE else 0) OR (if e EXT_ZICBOZ then MENVCFG_CBZE else 0)
        OR (if e EXT_SMNPM then MENVCFG_PMM else 0) OR (if e EXT_SVADU then MENVCFG_ADUE else 0)
        OR (if e EXT_SVPBMT then MENVCFG_PBMTE else 0) OR (if e EXT_SSTC then MENVCFG_STCE else 0)
        OR (if e EXT_ZICFILP then MENVCFG_LPE else 0) OR (if e EXT_ZICFISS then MENVCFG_SSE else 0)
        OR (if e EXT_SSDBLTRP then MENVCFG_DTE else 0))"

definition senvcfg_mask_init :: "ctx \<Rightarrow> u64" where
  "senvcfg_mask_init c =
    (let e = isa_table c
     in (if e EXT_ZICBOM then MENVCFG_CBCFE OR MENVCFG_CBIE else 0) OR (if e EXT_ZICBOZ then MENVCFG_CBZE else 0)
        OR (if e EXT_SSNPM then MENVCFG_PMM else 0)
        OR (if e EXT_ZICFILP then MENVCFG_LPE else 0) OR (if e EXT_ZICFISS then MENVCFG_SSE else 0))"

definition henvcfg_mask_init :: "ctx \<Rightarrow> u64" where
  "henvcfg_mask_init c =
    (let e = isa_table c
     in (if e EXT_ZICBOM then MENVCFG_CBCFE OR MENVCFG_CBIE else 0) OR (if e EXT_ZICBOZ then MENVCFG_CBZE else 0)
        OR (if e EXT_SSNPM then MENVCFG_PMM else 0) OR (if e EXT_SVADU then MENVCFG_ADUE else 0)
        OR (if e EXT_SVPBMT then MENVCFG_PBMTE else 0) OR (if e EXT_SSTC then MENVCFG_STCE else 0)
        OR (if e EXT_ZICFILP then MENVCFG_LPE else 0) OR (if e EXT_ZICFISS then MENVCFG_SSE else 0)
        OR (if e EXT_SSDBLTRP then MENVCFG_DTE else 0))"

text \<open>The bits of misa that software may change: M, A, B, F, D, Q, C, H and V.\<close>

definition misa_write_mask_init :: "u64 \<Rightarrow> u64" where
  "misa_write_mask_init isa =
    isa AND (misa_bit CHR ''M'' OR misa_bit CHR ''A'' OR misa_bit CHR ''B'' OR misa_bit CHR ''F'' OR
             misa_bit CHR ''D'' OR misa_bit CHR ''Q'' OR misa_bit CHR ''C'' OR misa_bit CHR ''H'' OR
             misa_bit CHR ''V'')"

definition dcsr_init :: dcsr_t where
  "dcsr_init = \<lparr>dcsr_prv = 0, dcsr_step = False, dcsr_ebreakm = False, dcsr_ebreaks = False,
     dcsr_ebreaku = False, dcsr_ebreakvs = False, dcsr_ebreakvu = False, dcsr_v = False,
     dcsr_cause = 0, dcsr_ext_cause = 0, dcsr_cetrig = False, dcsr_pelp = NO_LP_EXPECTED\<rparr>"

text \<open>The record before the registers whose initial value depends on others are filled in.\<close>

definition hart_blank :: "ctx \<Rightarrow> config \<Rightarrow> 'd \<Rightarrow> 'd hart" where
  "hart_blank c g d = \<lparr>
     pc = 0x1000, npc = 0, XPR = regfile_reset, FPR = (\<lambda>_. \<lparr>v0 = 0, v1 = 0\<rparr>),
     prv = PRV_M, prev_prv = PRV_M, prv_changed = False, virt = False, prev_virt = False,
     virt_changed = False, debug_mode = False, serialized = False, single_step = STEP_NONE,
     elp = NO_LP_EXPECTED, critical_error = False, in_wfi = False,
     misa_val = max_isa g, extension_enable_table = isa_table c, impl_table = cfg_impl g,
     sstatus_write_mask = 0,
     has_page = (isa_table c (Ext CHR ''S'') \<and> cfg_impl g IMPL_MMU),
     mstatus_val = compute_mstatus_initial_value c (big_endian g),
     mepc_val = 0, mtval_val = 0, mtvec_val = 0, mcause_val = 0, mie_val = 0, mip_val = 0, hvip_val = 0,
     medeleg_val = 0, mideleg_val = 0,
     mnstatus_val = (if isa_table c EXT_SMRNMI then Some 0 else None), mnepc_val = 0,
     sepc_val = 0, stval_val = 0, stvec_val = 0, scause_val = 0, satp_val = 0,
     mtval2_val = 0, mtinst_val = 0,
     hstatus_val = set_field 0 0x300000000 (xlen_to_uxl (max_xlen c)),
     hideleg_val = 0, hedeleg_val = 0, htval_val = 0, htinst_val = 0, hgatp_val = 0,
     vsstatus_val = 0, vstvec_val = 0, vsepc_val = 0, vscause_val = 0, vstval_val = 0, vsatp_val = 0,
     dpc_val = 0, dcsr = dcsr_init,
     tcontrol_val = (if 0 < trigger_count g \<and> \<not> isa_table c (Ext CHR ''S'') then Some 0 else None),
     menvcfg_val = 0, senvcfg_val = 0, henvcfg_val = 0, mseccfg_val = 0, jvt_val = 0, ssp_val = 0,
     mstateen0_val = 0, sstateen0_val = 0, hstateen0_val = 0,
     menvcfg_mask = menvcfg_mask_init c, senvcfg_mask = senvcfg_mask_init c,
     henvcfg_mask = henvcfg_mask_init c, misa_write_mask = misa_write_mask_init (max_isa g),
     fflags_val = 0, frm_val = 0, pmpaddr_val = (\<lambda>_. 0), pmpaddr_cfg = (\<lambda>_. 0),
     n_pmp = pmpregions g, lg_pmp_granularity = lg_pmpgranularity g,
     softfloat_exceptionFlags = 0, softfloat_roundingMode = 0,
     tlb_insn_tag = (\<lambda>_. - 1), tlb_load_tag = (\<lambda>_. - 1), tlb_store_tag = (\<lambda>_. - 1),
     tlb_data = (\<lambda>_. 0), icache_tag = (\<lambda>_. - 1), icache_insn = (\<lambda>_. 0),
     check_triggers_fetch = False, check_triggers_load = False, check_triggers_store = False, matched_trigger = None, load_reservation_address = - 1, dev = d\<rparr>"

definition hart_reset :: "ctx \<Rightarrow> config \<Rightarrow> 'd \<Rightarrow> 'd hart" where
  "hart_reset c g d =
    (let s = hart_blank c g d;
         s = s\<lparr>sstatus_write_mask := compute_sstatus_write_mask c (any_vector_extensions g) s\<rparr>
     in s\<lparr>vsstatus_val := mstatus_val s AND sstatus_read_mask c s\<rparr>)"

section \<open>Concrete machines\<close>

text \<open>Two configurations on which the witnesses of the development run: every extension
  enabled, and the widths 32 and 64.\<close>

definition cfg_full :: config where
  "cfg_full = \<lparr>cfg_impl = (\<lambda>_. True), max_isa = 0x3FFFFFF, big_endian = False,
     any_vector_extensions = True, trigger_count = 4, pmpregions = 16, lg_pmpgranularity = 2\<rparr>"

definition ctx_full :: "nat \<Rightarrow> insn_t \<Rightarrow> u64 \<Rightarrow> ctx" where
  "ctx_full w b p = \<lparr>xlen = w, max_xlen = w, insn_bits = b, insn_pc = p, any_custom_extensions = False,
     isa_table = (\<lambda>e. e \<notin> {EXT_ZICFILP, EXT_ZICFISS, EXT_ZFINX, EXT_ZDINX, EXT_ZHINX, EXT_ZHINXMIN})\<rparr>"

definition hart_full :: "nat \<Rightarrow> unit hart" where
  "hart_full w = hart_reset (ctx_full w 0 0) cfg_full ()"

lemma hart_reset_simps [simp]:
  "XPR (hart_reset c g d) = (\<lambda>_. 0)"
  "pc (hart_reset c g d) = 0x1000" "npc (hart_reset c g d) = 0"
  "prv (hart_reset c g d) = PRV_M" "virt (hart_reset c g d) = False"
  "extension_enable_table (hart_reset c g d) = isa_table c"
  "misa_val (hart_reset c g d) = max_isa g"
  "elp (hart_reset c g d) = NO_LP_EXPECTED"
  by (simp_all add: hart_reset_def hart_blank_def Let_def regfile_reset_def)

end
