(* ===== verification/InsnFacts.thy ===== *)
theory InsnFacts
  imports InsnC Reset DecodeFacts
begin

text \<open>
  Facts about the integer instructions: the register file of a 32-bit machine holds only
  sign-extended values and every instruction keeps it so; the instructions compute the 32-bit
  operations on it; division, carry-less multiplication and the bit permutations compute their
  mathematical counterparts; and control transfers are precise.
\<close>

section \<open>Sign-extended values\<close>

definition canonical32 :: "u64 \<Rightarrow> bool" where
  "canonical32 x \<longleftrightarrow> sext x 32 = x"

lemma sext32_sext: "sext32 x = sext x 32"
  by (rule bit_word_eqI) (auto simp: sext32_def bit_sext bit_simps min_def)

text \<open>A value is canonical when bits 32 to 63 repeat bit 31.\<close>

lemma canonical32_bits: "canonical32 x \<longleftrightarrow> (\<forall>n. 32 \<le> n \<longrightarrow> n < 64 \<longrightarrow> bit x n = bit x 31)"
proof
  assume "canonical32 x"
  then have e: "bit x n \<longleftrightarrow> n < 64 \<and> bit x (min n 31)" for n
    using bit_sext [of 32 x n] by (simp add: canonical32_def)
  show "\<forall>n. 32 \<le> n \<longrightarrow> n < 64 \<longrightarrow> bit x n = bit x 31"
  proof (intro allI impI)
    fix n :: nat
    assume "32 \<le> n" "n < 64"
    then show "bit x n = bit x 31" using e [of n] by (simp add: min_def)
  qed
next
  assume "\<forall>n. 32 \<le> n \<longrightarrow> n < 64 \<longrightarrow> bit x n = bit x 31"
  then show "canonical32 x" unfolding canonical32_def
    by (intro bit_word_eqI) (auto simp: bit_sext min_def)
qed

named_theorems canon

lemma canonical_sext [canon, simp]: "canonical32 (sext x 32)" "canonical32 (sext32 x)"
  by (auto simp: canonical32_bits bit_sext sext32_sext min_def)

lemma canonical_logic [canon]:
  "canonical32 x \<Longrightarrow> canonical32 y \<Longrightarrow> canonical32 (x AND y)"
  "canonical32 x \<Longrightarrow> canonical32 y \<Longrightarrow> canonical32 (x OR y)"
  "canonical32 x \<Longrightarrow> canonical32 y \<Longrightarrow> canonical32 (x XOR y)"
  "canonical32 x \<Longrightarrow> canonical32 (NOT x)"
  by (auto simp: canonical32_bits bit_simps)

lemma canonical_const [canon, simp]: "canonical32 0" "canonical32 1" "canonical32 (- 1)" "canonical32 (of_bool b)"
  by (auto simp: canonical32_bits bit_simps bit_1_iff)

lemma canonical_below: "(\<And>n. 31 \<le> n \<Longrightarrow> \<not> bit x n) \<Longrightarrow> canonical32 x"
  by (auto simp: canonical32_bits)

lemma canonical_5 [simp]: "canonical32 5"
  by (simp add: canonical32_def sext_def)

lemma canonical_imm [canon, simp]: "canonical32 (i_imm b)" "canonical32 (u_imm b)" "canonical32 (rvc_imm b)" 
  by (auto simp: canonical32_bits bit_i_imm bit_u_imm min_def rvc_imm_def field_bits simp del: push_bit_Suc)

lemma canonical_small [canon, simp]: "canonical32 (scast (w :: u8))" "canonical32 (scast (h :: u16))"
  "canonical32 (ucast (w :: u8))" "canonical32 (ucast (h :: u16))"
  using bit_imp_le_length [of w] bit_imp_le_length [of h]
  by (fastforce simp: canonical32_bits bit_simps)+

section \<open>The register file of a 32-bit machine\<close>

text \<open>Register 0 reads zero and every register holds the sign extension of its low 32 bits.
  The collection \<open>canon\<close> says which values have that form.\<close>

definition inv32 :: "'d hart \<Rightarrow> bool" where
  "inv32 s \<longleftrightarrow> (\<forall>i. canonical32 (XPR s i)) \<and> XPR s 0 = 0 \<and> canonical32 (npc s)"

lemma inv32_XPR: "inv32 s \<Longrightarrow> canonical32 (XPR s i)" "inv32 s \<Longrightarrow> canonical32 (npc s)"
  by (auto simp: inv32_def)

lemma inv32_WRITE_REG: "inv32 s \<Longrightarrow> canonical32 v \<Longrightarrow> inv32 (snd (WRITE_REG r v s))"
  by (auto simp: inv32_def WRITE_REG_def regfile_write_def)

lemma inv32_require: "(b \<Longrightarrow> inv32 (snd (k s))) \<Longrightarrow> inv32 s \<Longrightarrow> inv32 (snd (require c b k s))"
  by (auto simp: require_def)

lemma inv32_thenM: "inv32 (snd (m s)) \<Longrightarrow> (\<And>s'. inv32 s' \<Longrightarrow> inv32 (snd (k s'))) \<Longrightarrow> inv32 (snd (thenM m k s))"
  by (auto simp: thenM_def bindM_def split: prod.splits sum.splits)

lemma inv32_bindM: "inv32 (snd (m s)) \<Longrightarrow> (\<And>x s'. inv32 s' \<Longrightarrow> inv32 (snd (k x s'))) \<Longrightarrow> inv32 (snd (bindM m k s))"
  by (auto simp: bindM_def split: prod.splits sum.splits)

lemma inv32_set_pc: "xlen c = 32 \<Longrightarrow> inv32 s \<Longrightarrow> inv32 (snd (set_pc c x s))"
  by (auto simp: inv32_def set_pc_def thenM_def bindM_def modifyM_def check_pc_alignment_def sext_xlen_def)

lemma inv32_lpe: "inv32 s \<Longrightarrow> inv32 (snd (ZICFILP_xLPE v p s))"
  by (auto simp: ZICFILP_xLPE_def Let_def)

lemma inv32_serialize: "inv32 s \<Longrightarrow> inv32 (serialize (s\<lparr>elp := e\<rparr>))"
  by (auto simp: inv32_def serialize_def set_pc_and_serialize_def PC_SERIALIZE_AFTER_def)

lemmas inv32_unfold = insns WRITE_RD_def sext_xlen_def RS1_def RS2_def READ_REG_def require_rv64_def require_rv32_def
  require_extension_def require_either_extension_def WRITE_RVC_RS1S_def WRITE_RVC_RS2S_def RVC_RS1_def RVC_RS2_def
  RVC_RS1S_def RVC_RS2S_def RVC_SP_def returnM_def throwM_def Let_def


lemma canonical_if [canon]: "(b \<Longrightarrow> canonical32 x) \<Longrightarrow> (\<not> b \<Longrightarrow> canonical32 y) \<Longrightarrow> canonical32 (if b then x else y)"
  by simp_all

lemma inv32_if: "inv32 (snd m) \<Longrightarrow> inv32 (snd n) \<Longrightarrow> inv32 (snd (if b then m else n))"
  "inv32 (snd (f s)) \<Longrightarrow> inv32 (snd (g s)) \<Longrightarrow> inv32 (snd ((if b then f else g) s))"
  by simp_all

lemma inv32_option: "inv32 (snd m) \<Longrightarrow> (\<And>x. inv32 (snd (f x))) \<Longrightarrow> inv32 (snd (case y of None \<Rightarrow> m | Some x \<Rightarrow> f x))"
  by (cases y) auto

lemma inv32_elp: "inv32 s \<Longrightarrow> inv32 (s\<lparr>elp := e\<rparr>)"
  by (simp add: inv32_def)

lemmas inv32_rules = inv32_if inv32_option inv32_elp inv32_WRITE_REG canon inv32_XPR inv32_require inv32_thenM inv32_bindM inv32_set_pc inv32_lpe
  inv32_serialize

text \<open>The bodies of InsnInt and InsnC, group by group.\<close>

definition alu_bodies :: "(ctx \<Rightarrow> ('d hart, unit) M) list" where
  "alu_bodies = [
    insn_add, insn_addi, insn_addiw, insn_addw, insn_sub, insn_subw, insn_and, insn_andi,
    insn_or, insn_ori, insn_xor, insn_xori, insn_lui, insn_auipc, insn_sll, insn_slli,
    insn_slliw, insn_sllw, insn_srl, insn_srli, insn_srliw, insn_srlw, insn_sra, insn_srai,
    insn_sraiw, insn_sraw, insn_slt, insn_slti, insn_sltu, insn_sltiu]"

definition ctl_bodies :: "(ctx \<Rightarrow> ('d hart, unit) M) list" where
  "ctl_bodies = [
    insn_beq, insn_bne, insn_blt, insn_bltu, insn_bge, insn_bgeu, insn_jal, insn_jalr,
    insn_ebreak, insn_ecall, insn_lpad]"

definition mul_bodies :: "(ctx \<Rightarrow> ('d hart, unit) M) list" where
  "mul_bodies = [
    insn_mul, insn_mulh, insn_mulhsu, insn_mulhu, insn_mulw, insn_div, insn_divu, insn_divw,
    insn_divuw, insn_rem, insn_remu, insn_remw, insn_remuw]"

definition bit_bodies :: "(ctx \<Rightarrow> ('d hart, unit) M) list" where
  "bit_bodies = [
    insn_add_uw, insn_slli_uw, insn_sh1add, insn_sh1add_uw, insn_sh2add, insn_sh2add_uw,
    insn_sh3add, insn_sh3add_uw, insn_andn, insn_orn, insn_xnor, insn_max, insn_maxu, insn_min,
    insn_minu, insn_sext_b, insn_sext_h, insn_bclr, insn_bclri, insn_bset, insn_bseti, insn_binv,
    insn_binvi, insn_bext, insn_bexti, insn_clz, insn_clzw, insn_ctz, insn_ctzw, insn_cpop,
    insn_cpopw, insn_clmul, insn_clmulh, insn_clmulr, insn_rol, insn_rolw, insn_ror, insn_rori,
    insn_rorw, insn_roriw, insn_pack, insn_packh, insn_packw, insn_czero_eqz, insn_czero_nez,
    insn_mop_r_N, insn_mop_rr_N, insn_gorci, insn_grevi, insn_shfli, insn_unshfli, insn_xperm4,
    insn_xperm8]"

definition rvc_bodies :: "(ctx \<Rightarrow> ('d hart, unit) M) list" where
  "rvc_bodies = [
    insn_c_add, insn_c_addi, insn_c_addi4spn, insn_c_addw, insn_c_and, insn_c_andi, insn_c_or,
    insn_c_xor, insn_c_beqz, insn_c_bnez, insn_c_ebreak, insn_c_j, insn_c_jal, insn_c_jalr,
    insn_c_jr, insn_c_li, insn_c_mop_N, insn_c_mul, insn_c_mv, insn_c_not, insn_c_sext_b,
    insn_c_sext_h, insn_c_slli, insn_c_srai, insn_c_srli, insn_c_sub, insn_c_subw, insn_c_zext_b,
    insn_c_zext_h, insn_c_zext_w, insn_cm_mva01s, insn_cm_mvsa01]"

lemma alu_inv32: "xlen c = 32 \<Longrightarrow> inv32 s \<Longrightarrow> \<forall>body \<in> set alu_bodies. inv32 (snd (body c s))"
  by (simp add: alu_bodies_def inv32_unfold inv32_rules modifyM_def software_check_def split del: if_split)

lemma ctl_inv32: "xlen c = 32 \<Longrightarrow> inv32 s \<Longrightarrow> \<forall>body \<in> set ctl_bodies. inv32 (snd (body c s))"
  by (simp add: ctl_bodies_def inv32_unfold inv32_rules modifyM_def software_check_def split del: if_split)

lemma mul_inv32: "xlen c = 32 \<Longrightarrow> inv32 s \<Longrightarrow> \<forall>body \<in> set mul_bodies. inv32 (snd (body c s))"
  by (simp add: mul_bodies_def inv32_unfold inv32_rules modifyM_def software_check_def split del: if_split)

lemma bit_inv32: "xlen c = 32 \<Longrightarrow> inv32 s \<Longrightarrow> \<forall>body \<in> set bit_bodies. inv32 (snd (body c s))"
  by (simp add: bit_bodies_def inv32_unfold inv32_rules modifyM_def software_check_def split del: if_split)

lemma rvc_inv32: "xlen c = 32 \<Longrightarrow> inv32 s \<Longrightarrow> \<forall>body \<in> set rvc_bodies. inv32 (snd (body c s))"
  by (simp add: rvc_bodies_def inv32_unfold inv32_rules modifyM_def software_check_def split del: if_split)

definition regs32 :: "'d hart \<Rightarrow> bool" where
  "regs32 s \<longleftrightarrow> (\<forall>i. canonical32 (XPR s i)) \<and> XPR s 0 = 0"

lemma inv32_regs32: "inv32 s \<longleftrightarrow> regs32 s \<and> canonical32 (npc s)"
  by (auto simp: inv32_def regs32_def)

definition int_bodies :: "(ctx \<Rightarrow> ('d hart, unit) M) list" where
  "int_bodies = alu_bodies @ ctl_bodies @ mul_bodies @ bit_bodies @ rvc_bodies"

lemma int_bodies_inv32:
  assumes "xlen c = 32" "inv32 s" "body \<in> set int_bodies"
  shows "inv32 (snd (body c s))"
  using assms(3) alu_inv32 [OF assms(1,2)] ctl_inv32 [OF assms(1,2)] mul_inv32 [OF assms(1,2)]
    bit_inv32 [OF assms(1,2)] rvc_inv32 [OF assms(1,2)]
  unfolding int_bodies_def set_append by blast

text \<open>C23: On a 32-bit machine an integer instruction keeps every register equal to the sign extension of its low 32 bits and register 0 equal to zero, whatever its outcome, and the address of the next instruction it returns has the same form.\<close>

theorem rv32_registers:
  assumes "xlen c = 32" "regs32 s" "body \<in> set int_bodies"
  shows "regs32 (snd (fast_insn opcode body c s)) \<and>
    (\<forall>p. fst (fast_insn opcode body c s) = Inr p \<longrightarrow> canonical32 p)"
proof -
  let ?s = "s\<lparr>npc := sext_xlen c (insn_pc c + of_nat (insn_length opcode))\<rparr>"
  have "inv32 ?s" using assms(1,2) by (simp add: inv32_regs32 regs32_def sext_xlen_def)
  then have i: "inv32 (snd (body c ?s))" by (rule int_bodies_inv32 [OF assms(1) _ assms(3)])
  then show ?thesis
    by (auto simp: fast_insn_def bindM_def inv32_regs32 split: prod.splits sum.splits)
qed

theorem rv32_registers_witness:
  "regs32 (snd (fast_insn 0x33 insn_add (ctx_full 32 0x00C58533 0x80000000) (hart_full 32)))"
  using rv32_registers [where c = "ctx_full 32 0x00C58533 0x80000000" and s = "hart_full 32" and body = insn_add and opcode = "0x33"]
  by (simp add: ctx_full_def hart_full_def regs32_def int_bodies_def alu_bodies_def)

section \<open>32-bit operations\<close>

text \<open>The low half of a 64-bit operation is the 32-bit operation on the low halves.\<close>

lemma sext_scast: "sext x 32 = scast (ucast x :: u32)"
  by (rule bit_word_eqI) (auto simp: bit_sext bit_simps min_def)

lemma zext_ucast: "zext x 32 = ucast (ucast x :: u32)"
  by (rule bit_word_eqI) (auto simp: bit_zext bit_simps)

lemma ucast_of_int: "(ucast (word_of_int k :: u64) :: u32) = word_of_int k"
  by (rule bit_word_eqI) (simp add: bit_simps)

lemma low_add: "(ucast (a + b :: u64) :: u32) = ucast a + ucast b"
  using ucast_of_int [of "uint a + uint b"] by simp

lemma low_sub: "(ucast (a - b :: u64) :: u32) = ucast a - ucast b"
  using ucast_of_int [of "uint a - uint b"] by simp

lemma low_mult: "(ucast (a * b :: u64) :: u32) = ucast a * ucast b"
  using ucast_of_int [of "uint a * uint b"] by simp

lemma low_push: "(ucast (push_bit n (a::u64)) :: u32) = push_bit n (ucast a)"
  by (rule bit_word_eqI) (auto simp: bit_simps)

lemma low_drop: "(ucast (drop_bit n (zext a 32)) :: u32) = drop_bit n (ucast a)"
  by (rule bit_word_eqI) (auto simp: bit_simps bit_zext)

lemma low_sdrop: "(ucast (signed_drop_bit n (sext a 32)) :: u32) = signed_drop_bit n (ucast a)"
  by (rule bit_word_eqI) (auto simp: bit_simps bit_signed_drop_bit_iff bit_sext)

lemma sint_sext: "sint (sext a 32) = sint (ucast a :: u32)"
  by (simp add: sext_scast sint_up_scast is_up)

lemma uint_zext: "uint (zext a 32) = uint (ucast a :: u32)"
  by (simp add: zext_ucast uint_up_ucast is_up)

lemma canonical_iff: "canonical32 x \<longleftrightarrow> scast (ucast x :: u32) = x"
  by (simp add: canonical32_def sext_scast)

lemma canonical_logic32:
  assumes "canonical32 a" "canonical32 b"
  shows "a AND b = scast ((ucast a :: u32) AND ucast b)"
    "a OR b = scast ((ucast a :: u32) OR ucast b)"
    "a XOR b = scast ((ucast a :: u32) XOR ucast b)"
  using assms by (simp_all add: canonical_iff signed_and_eq signed_or_eq signed_xor_eq)

lemma mod32: "x AND (of_nat 32 - 1) = x AND (31 :: u64)"
  by simp

lemma uint_from_sint: "uint (w :: 'a::len word) = (if sint w < 0 then sint w + 2 ^ LENGTH('a) else sint w)"
proof -
  have e: "uint w = sint w mod 2 ^ LENGTH('a)" by (simp add: uint_sint take_bit_eq_mod)
  have p: "(2::int) ^ (LENGTH('a) - 1) \<le> 2 ^ LENGTH('a)" by simp
  have "- (2 ^ (LENGTH('a) - 1)) \<le> sint w" "sint w < 2 ^ (LENGTH('a) - 1)" by (rule sint_ge, rule sint_lt)
  then have b: "- (2 ^ LENGTH('a)) \<le> sint w" "sint w < 2 ^ LENGTH('a)" using p by linarith+
  show ?thesis
  proof (cases "sint w < 0")
    case True
    have "sint w mod 2 ^ LENGTH('a) = (sint w + 2 ^ LENGTH('a)) mod 2 ^ LENGTH('a)" by simp
    also have "\<dots> = sint w + 2 ^ LENGTH('a)" using b True by (intro mod_pos_pos_trivial) linarith+
    finally show ?thesis using e True by simp
  next
    case False
    then show ?thesis using e b by simp
  qed
qed

lemma sint32_range: "- (2 ^ 31) \<le> sint (w :: u32)" "sint (w :: u32) < 2 ^ 31"
  using sint_ge [of w] sint_lt [of w] by simp_all

lemma canonical_less:
  assumes "canonical32 a" "canonical32 b"
  shows "a <s b \<longleftrightarrow> (ucast a :: u32) <s ucast b" "a < b \<longleftrightarrow> (ucast a :: u32) < ucast b"
proof -
  have e: "sint a = sint (ucast a :: u32)" "sint b = sint (ucast b :: u32)"
    using assms sint_sext by (simp_all add: canonical32_def) metis+
  then show "a <s b \<longleftrightarrow> (ucast a :: u32) <s ucast b"
    by (simp add: word_sless_alt)
  from sint32_range [of "ucast a"] sint32_range [of "ucast b"] show "a < b \<longleftrightarrow> (ucast a :: u32) < ucast b"
    unfolding word_less_def uint_from_sint[of a] uint_from_sint[of b] uint_from_sint[of "ucast a :: u32"] uint_from_sint[of "ucast b :: u32"] e
    by simp linarith?
qed

lemma low_sdiv: "sext (c_sdiv (sext a 32) (sext b 32)) 32 = scast (word_of_int (sint (ucast a :: u32) sdiv sint (ucast b :: u32)) :: u32)"
 by (simp add: c_sdiv_def sext_scast[of "word_of_int _"] ucast_of_int sint_sext)
lemma low_smod: "sext (c_smod (sext a 32) (sext b 32)) 32 = scast (word_of_int (sint (ucast a :: u32) smod sint (ucast b :: u32)) :: u32)"
 by (simp add: c_smod_def sext_scast[of "word_of_int _"] ucast_of_int sint_sext)

lemma sext_eq:
  "sext a 32 = 0 \<longleftrightarrow> (ucast a :: u32) = 0" "zext a 32 = 0 \<longleftrightarrow> (ucast a :: u32) = 0" "sext a 32 \<noteq> 0x8000000000000000"
proof -
  show "sext a 32 = 0 \<longleftrightarrow> (ucast a :: u32) = 0" using sint_sext[of a] signed_eq_0_iff by metis
  show "zext a 32 = 0 \<longleftrightarrow> (ucast a :: u32) = 0" using uint_zext[of a] unsigned_eq_0_iff by metis
  have "sint (sext a 32) \<noteq> sint (0x8000000000000000 :: u64)"
    using sint32_range [of "ucast a"] by (simp add: sint_sext)
  then show "sext a 32 \<noteq> 0x8000000000000000" by metis
qed

lemma low_div: "ucast (zext a 32 div zext b 32) = (ucast a :: u32) div ucast b"
  and low_mod: "ucast (zext a 32 mod zext b 32) = (ucast a :: u32) mod ucast b"
  by (simp_all add: word_div_def word_mod_def uint_zext ucast_of_int)

lemma high_smul: "sext32 (signed_drop_bit 32 (sext32 a * sext32 b)) =
  scast (word_of_int (sint (ucast a :: u32) * sint (ucast b :: u32) div 2 ^ 32) :: u32)"
proof -
  let ?a = "sint (ucast a :: u32)" and ?b = "sint (ucast b :: u32)"
  have "\<bar>?a * ?b\<bar> \<le> 2 ^ 31 * 2 ^ 31" unfolding abs_mult
    by (rule mult_mono) (use sint32_range [of "ucast a"] sint32_range [of "ucast b"] in auto)
  then have "- (2 ^ 63) \<le> ?a * ?b" "?a * ?b < 2 ^ 63" by (simp_all add: abs_le_iff)
  then have "sint (sext32 a * sext32 b) = ?a * ?b"
    by (simp add: sext32_sext sint_word_ariths sint_sext signed_take_bit_int_eq_self_iff)
  then have "sint (signed_drop_bit 32 (sext32 a * sext32 b)) = ?a * ?b div 2 ^ 32"
    by (simp add: sint_signed_drop_bit_eq drop_bit_eq_div)
  moreover have "signed_drop_bit 32 (sext32 a * sext32 b) = word_of_int (sint (signed_drop_bit 32 (sext32 a * sext32 b)))"
    by simp
  ultimately have "signed_drop_bit 32 (sext32 a * sext32 b) = word_of_int (?a * ?b div 2 ^ 32)"
    by metis
  then show ?thesis by (simp add: sext32_sext sext_scast[of "word_of_int _"] ucast_of_int)
qed

lemma high_umul: "sext32 (drop_bit 32 (zext32 a * zext32 b)) =
  scast (word_of_int (uint (ucast a :: u32) * uint (ucast b :: u32) div 2 ^ 32) :: u32)"
proof -
  let ?a = "uint (ucast a :: u32)" and ?b = "uint (ucast b :: u32)"
  have "?a * ?b \<le> (2 ^ 32 - 1) * (2 ^ 32 - 1)"
    by (rule mult_mono) (use uint_bounded[of "ucast a :: u32"] uint_bounded[of "ucast b :: u32"] in auto)
  then have "uint (zext a 32 * zext b 32) = ?a * ?b"
    by (simp add: uint_word_ariths uint_zext)
  then have "uint (drop_bit 32 (zext a 32 * zext b 32)) = ?a * ?b div 2 ^ 32"
    by (simp add: unsigned_drop_bit_eq drop_bit_eq_div uint_div)
  moreover have "zext32 x = zext x 32" for x by (rule bit_word_eqI) (auto simp: zext32_def bit_zext bit_simps)
  ultimately have "drop_bit 32 (zext32 a * zext32 b) = word_of_int (?a * ?b div 2 ^ 32)"
    by (metis word_of_int_uint)
  then show ?thesis by (simp add: sext32_sext sext_scast[of "word_of_int _"] ucast_of_int)
qed

lemma high_sumul: "sext32 (drop_bit 32 (sext32 a * zext32 b)) =
  scast (word_of_int (sint (ucast a :: u32) * uint (ucast b :: u32) div 2 ^ 32) :: u32)"
proof -
  let ?a = "sint (ucast a :: u32)" and ?b = "uint (ucast b :: u32)"
  have "\<bar>?a * ?b\<bar> \<le> 2 ^ 31 * (2 ^ 32 - 1)" unfolding abs_mult
    by (rule mult_mono) (use sint32_range [of "ucast a"] uint_bounded [of "ucast b :: u32"] in auto)
  then have "- (2 ^ 63) \<le> ?a * ?b" "?a * ?b < 2 ^ 63" by (simp_all add: abs_le_iff)
  moreover have "zext32 b = zext b 32" by (rule bit_word_eqI) (auto simp: zext32_def bit_zext bit_simps)
  moreover have "sint (zext b 32) = ?b"
  proof -
    have "?b < 2 ^ 63" using uint_bounded [of "ucast b :: u32"] by simp
    moreover have "- (2 ^ 63) \<le> ?b" by (rule order_trans [of _ 0]) simp_all
    moreover have "sint (zext b 32) = signed_take_bit 63 ?b" by (simp add: sint_uint uint_zext)
    ultimately show ?thesis by (simp add: signed_take_bit_int_eq_self_iff)
  qed
  ultimately have "sint (sext32 a * zext32 b) = ?a * ?b"
    by (simp add: sext32_sext sint_word_ariths sint_sext signed_take_bit_int_eq_self_iff)
  then have s: "sint (signed_drop_bit 32 (sext32 a * zext32 b)) = ?a * ?b div 2 ^ 32"
    by (simp add: sint_signed_drop_bit_eq drop_bit_eq_div)
  have "signed_drop_bit 32 (sext32 a * zext32 b) = word_of_int (sint (signed_drop_bit 32 (sext32 a * zext32 b)))"
    by simp
  then have "signed_drop_bit 32 (sext32 a * zext32 b) = word_of_int (?a * ?b div 2 ^ 32)"
    using s by metis
  moreover have "sext32 (drop_bit 32 x) = sext32 (signed_drop_bit 32 x)" for x :: u64
    by (rule bit_word_eqI) (auto simp: sext32_sext bit_sext bit_simps min_def)
  ultimately show ?thesis by (simp add: sext32_sext sext_scast[of "word_of_int _"] ucast_of_int)
qed

text \<open>A register-register instruction that computes \<open>f\<close> on 32-bit operands.\<close>

definition alu32 :: "(u32 \<Rightarrow> u32 \<Rightarrow> u32) \<Rightarrow> ctx \<Rightarrow> ('d hart, unit) M" where
  "alu32 f c s = WRITE_RD c (scast (f (ucast (RS1 c s)) (ucast (RS2 c s)))) s"

definition sdiv32 :: "u32 \<Rightarrow> u32 \<Rightarrow> u32" where
  "sdiv32 a b = (if b = 0 then - 1 else word_of_int (sint a sdiv sint b))"
definition srem32 :: "u32 \<Rightarrow> u32 \<Rightarrow> u32" where
  "srem32 a b = (if b = 0 then a else word_of_int (sint a smod sint b))"

lemma shift_amount: "unat (x AND 31 :: u64) = unat (ucast x AND 31 :: u32)"
proof -
  have "x AND 31 = take_bit 5 x" "(ucast x AND 31 :: u32) = take_bit 5 (ucast x)"
    by (simp_all add: take_bit_eq_mask mask_eq_exp_minus_1)
  moreover have "unat (take_bit 5 x) = unat (take_bit 5 (ucast x :: u32))"
    by (simp add: unsigned_take_bit_eq unsigned_ucast_eq)
  ultimately show ?thesis by metis
qed

lemmas rv32_facts = alu32_def low_add low_sub low_mult low_push low_drop low_sdrop sext_scast

lemma rv32_base:
  assumes "xlen c = 32" "inv32 s"
  shows "insn_add c s = alu32 (\<lambda>a b. a + b) c s"
    and "insn_sub c s = alu32 (\<lambda>a b. a - b) c s"
    and "insn_and c s = alu32 (\<lambda>a b. a AND b) c s"
    and "insn_or c s = alu32 (\<lambda>a b. a OR b) c s"
    and "insn_xor c s = alu32 (\<lambda>a b. a XOR b) c s"
    and "insn_slt c s = alu32 (\<lambda>a b. of_bool (a <s b)) c s"
    and "insn_sltu c s = alu32 (\<lambda>a b. of_bool (a < b)) c s"
    and "insn_sll c s = alu32 (\<lambda>a b. push_bit (unat (b AND 31)) a) c s"
    and "insn_srl c s = alu32 (\<lambda>a b. drop_bit (unat (b AND 31)) a) c s"
    and "insn_sra c s = alu32 (\<lambda>a b. signed_drop_bit (unat (b AND 31)) a) c s"
proof -
  have k: "canonical32 (RS1 c s)" "canonical32 (RS2 c s)"
    using assms(2) by (simp_all add: RS1_def RS2_def READ_REG_def inv32_XPR)
  note x = assms(1)
  show "insn_add c s = alu32 (\<lambda>a b. a + b) c s" "insn_sub c s = alu32 (\<lambda>a b. a - b) c s"
    by (simp_all add: insns x sext_xlen_def rv32_facts)
  show "insn_and c s = alu32 (\<lambda>a b. a AND b) c s" "insn_or c s = alu32 (\<lambda>a b. a OR b) c s"
     "insn_xor c s = alu32 (\<lambda>a b. a XOR b) c s"
    by (simp_all add: insns alu32_def flip: canonical_logic32 [OF k])
  show "insn_slt c s = alu32 (\<lambda>a b. of_bool (a <s b)) c s" "insn_sltu c s = alu32 (\<lambda>a b. of_bool (a < b)) c s"
    by (auto simp add: insns alu32_def canonical_less [OF k])
  show "insn_sll c s = alu32 (\<lambda>a b. push_bit (unat (b AND 31)) a) c s"
    "insn_srl c s = alu32 (\<lambda>a b. drop_bit (unat (b AND 31)) a) c s"
    "insn_sra c s = alu32 (\<lambda>a b. signed_drop_bit (unat (b AND 31)) a) c s"
    by (simp_all add: insns x sext_xlen_def zext_xlen_def sext_scast[of "push_bit _ _"] sext_scast[of "drop_bit _ _"] sext_scast[of "signed_drop_bit _ _"]
       alu32_def low_push low_drop low_sdrop shift_amount del: push_bit_eq_mult drop_bit_eq_div)
qed

lemma rv32_mul:
  assumes "xlen c = 32"
  shows "insn_mul c s = require_either_extension c (Ext CHR ''M'') EXT_ZMMUL (alu32 (\<lambda>a b. a * b) c) s"
    and "insn_mulh c s = require_either_extension c (Ext CHR ''M'') EXT_ZMMUL
       (alu32 (\<lambda>a b. word_of_int (sint a * sint b div 2 ^ 32)) c) s"
    and "insn_mulhu c s = require_either_extension c (Ext CHR ''M'') EXT_ZMMUL
       (alu32 (\<lambda>a b. word_of_int (uint a * uint b div 2 ^ 32)) c) s"
    and "insn_mulhsu c s = require_either_extension c (Ext CHR ''M'') EXT_ZMMUL
       (alu32 (\<lambda>a b. word_of_int (sint a * uint b div 2 ^ 32)) c) s"
  using assms high_smul[of "RS1 c s" "RS2 c s"] high_umul[of "RS1 c s" "RS2 c s"] high_sumul[of "RS1 c s" "RS2 c s"]
  by (simp_all add: insns sext_xlen_def alu32_def require_either_extension_def require_def sext_scast[of "_ * _"] low_mult)

lemma rv32_div:
  assumes "xlen c = 32"
  shows "insn_div c s = require_extension c (Ext CHR ''M'') (alu32 sdiv32 c) s"
    and "insn_rem c s = require_extension c (Ext CHR ''M'') (alu32 srem32 c) s"
    and "insn_divu c s = require_extension c (Ext CHR ''M'') (alu32 (\<lambda>a b. if b = 0 then - 1 else a div b) c) s"
    and "insn_remu c s = require_extension c (Ext CHR ''M'') (alu32 (\<lambda>a b. if b = 0 then a else a mod b) c) s"
  using assms
  by (auto simp add: insns sext_xlen_def zext_xlen_def alu32_def require_extension_def require_def sext_eq Let_def sdiv32_def srem32_def
     low_sdiv low_smod sext_scast[of "_ div _"] sext_scast[of "_ mod _"] low_div low_mod) (simp_all add: sext_scast)

text \<open>C27: On a 32-bit machine whose registers are sign-extended, each base and M register-register instruction writes the sign extension of the 32-bit operation on the low halves of its operands: sums, logic, signed and unsigned comparison, shifts by the low five bits, products and their high halves (signed, unsigned and mixed), and division with the architectural results for a zero divisor and for overflow.\<close>

theorem rv32_operations:
  assumes "xlen c = 32" "inv32 s"
  shows "insn_add c s = alu32 (\<lambda>a b. a + b) c s
    \<and> insn_sub c s = alu32 (\<lambda>a b. a - b) c s
    \<and> insn_and c s = alu32 (\<lambda>a b. a AND b) c s
    \<and> insn_or c s = alu32 (\<lambda>a b. a OR b) c s
    \<and> insn_xor c s = alu32 (\<lambda>a b. a XOR b) c s
    \<and> insn_slt c s = alu32 (\<lambda>a b. of_bool (a <s b)) c s
    \<and> insn_sltu c s = alu32 (\<lambda>a b. of_bool (a < b)) c s
    \<and> insn_sll c s = alu32 (\<lambda>a b. push_bit (unat (b AND 31)) a) c s
    \<and> insn_srl c s = alu32 (\<lambda>a b. drop_bit (unat (b AND 31)) a) c s
    \<and> insn_sra c s = alu32 (\<lambda>a b. signed_drop_bit (unat (b AND 31)) a) c s
    \<and> insn_mul c s = require_either_extension c (Ext CHR ''M'') EXT_ZMMUL (alu32 (\<lambda>a b. a * b) c) s
    \<and> insn_mulh c s = require_either_extension c (Ext CHR ''M'') EXT_ZMMUL
         (alu32 (\<lambda>a b. word_of_int (sint a * sint b div 2 ^ 32)) c) s
    \<and> insn_mulhu c s = require_either_extension c (Ext CHR ''M'') EXT_ZMMUL
         (alu32 (\<lambda>a b. word_of_int (uint a * uint b div 2 ^ 32)) c) s
    \<and> insn_mulhsu c s = require_either_extension c (Ext CHR ''M'') EXT_ZMMUL
         (alu32 (\<lambda>a b. word_of_int (sint a * uint b div 2 ^ 32)) c) s
    \<and> insn_div c s = require_extension c (Ext CHR ''M'') (alu32 sdiv32 c) s
    \<and> insn_rem c s = require_extension c (Ext CHR ''M'') (alu32 srem32 c) s
    \<and> insn_divu c s = require_extension c (Ext CHR ''M'') (alu32 (\<lambda>a b. if b = 0 then - 1 else a div b) c) s
    \<and> insn_remu c s = require_extension c (Ext CHR ''M'') (alu32 (\<lambda>a b. if b = 0 then a else a mod b) c) s"
  by (intro conjI rv32_base [OF assms] rv32_mul [OF assms(1)] rv32_div [OF assms(1)])

theorem rv32_operations_witness:
  "insn_sra (ctx_full 32 0x40C5D533 0) (hart_full 32) =
    alu32 (\<lambda>a b. signed_drop_bit (unat (b AND 31)) a) (ctx_full 32 0x40C5D533 0) (hart_full 32)"
  using rv32_operations [of "ctx_full 32 0x40C5D533 0" "hart_full 32"]
  by (simp add: ctx_full_def hart_full_def inv32_def)

section \<open>Division, permutations and carry-less products\<close>

lemma all_less64: "(\<forall>n<64. P n) \<longleftrightarrow> (\<forall>n\<in>set [0..<64::nat]. P n)"
  by auto

lemma upt64: "[0..<64::nat] = [0,1,2,3,4,5,6,7,8,9,10,11,12,13,14,15,16,17,18,19,20,21,22,23,24,25,26,27,28,29,30,31,32,33,34,35,36,37,38,39,40,41,42,43,44,45,46,47,48,49,50,51,52,53,54,55,56,57,58,59,60,61,62,63]"
  by code_simp

lemma c_sdiv_smod: "c_sdiv a b * b + c_smod a b = a"
proof -
  have "c_sdiv a b * b + c_smod a b = word_of_int (sint a sdiv sint b * sint b + sint a smod sint b)"
    by (simp add: c_sdiv_def c_smod_def)
  also have "\<dots> = a" by (simp add: sdiv_mult_smod_eq)
  finally show ?thesis .
qed

lemma c_smod_bounds:
  assumes "b \<noteq> 0"
  shows "\<bar>sint (c_smod a b)\<bar> < \<bar>sint b\<bar>"
    and "0 \<le> sint a \<Longrightarrow> 0 \<le> sint (c_smod a b)"
    and "sint a \<le> 0 \<Longrightarrow> sint (c_smod a b) \<le> 0"
proof -
  have nz: "sint b \<noteq> 0" using assms by (simp add: signed_eq_0_iff)
  have r: "\<bar>sint a smod sint b\<bar> < \<bar>sint b\<bar>" using smod_int_range [OF nz, of "sint a"] by auto
  have "\<bar>sint b\<bar> \<le> 2 ^ 63" using sint_ge [of b] sint_lt [of b] by auto
  then have s: "sint (c_smod a b) = sint a smod sint b"
    using r by (simp add: c_smod_def signed_take_bit_int_eq_self abs_less_iff signed_of_int)
  show "\<bar>sint (c_smod a b)\<bar> < \<bar>sint b\<bar>" using r s by simp
  show "0 \<le> sint a \<Longrightarrow> 0 \<le> sint (c_smod a b)" "sint a \<le> 0 \<Longrightarrow> sint (c_smod a b) \<le> 0"
    using smod_int_compares [of "sint a" "sint b"] nz s by (cases "0 < sint b"; simp)+
qed

lemma RD_write: "insn_rd (insn_bits c) \<noteq> 0 \<Longrightarrow> RD c (snd (WRITE_RD c v s)) = v"
  by (simp add: RD_def WRITE_RD_def WRITE_REG_def READ_REG_def regfile_write_def unat_eq_0)

lemma grev_bits:
  "\<forall>n<64. bit (grev_step 32 0x00000000FFFFFFFF 0xFFFFFFFF00000000 sh x) n = bit x (if sh AND 32 \<noteq> 0 then n XOR 32 else n)"
  "\<forall>n<64. bit (grev_step 16 0x0000FFFF0000FFFF 0xFFFF0000FFFF0000 sh x) n = bit x (if sh AND 16 \<noteq> 0 then n XOR 16 else n)"
  "\<forall>n<64. bit (grev_step 8 0x00FF00FF00FF00FF 0xFF00FF00FF00FF00 sh x) n = bit x (if sh AND 8 \<noteq> 0 then n XOR 8 else n)"
  "\<forall>n<64. bit (grev_step 4 0x0F0F0F0F0F0F0F0F 0xF0F0F0F0F0F0F0F0 sh x) n = bit x (if sh AND 4 \<noteq> 0 then n XOR 4 else n)"
  "\<forall>n<64. bit (grev_step 2 0x3333333333333333 0xCCCCCCCCCCCCCCCC sh x) n = bit x (if sh AND 2 \<noteq> 0 then n XOR 2 else n)"
  "\<forall>n<64. bit (grev_step 1 0x5555555555555555 0xAAAAAAAAAAAAAAAA sh x) n = bit x (if sh AND 1 \<noteq> 0 then n XOR 1 else n)"
  unfolding all_less64 by (simp_all add: grev_step_def upt64 bit_simps numeral_3_eq_3 [symmetric] del: push_bit_Suc)

lemma xor_below64: "n < 64 \<Longrightarrow> k < 64 \<Longrightarrow> n XOR k < (64::nat)"
  using take_bit_nat_less_exp [of 6 "n XOR k"] by (simp add: take_bit_nat_eq_self)

lemma grev_bit:
  assumes "n < 64"
  shows "bit (grev 56 x) n = bit x (n XOR 56)" "bit (grev 24 x) n = bit x (n XOR 24)" "bit (grev 7 x) n = bit x (n XOR 7)"
  unfolding grev_def
  by (simp_all add: grev_bits [rule_format] xor_below64 assms xor.assoc del: One_nat_def)

definition pick :: "nat \<Rightarrow> u64 \<Rightarrow> u8" where "pick i w = ucast (drop_bit (8 * i) w)"

lemma pick_eqI: "(\<forall>j\<in>set [0,1,2,3,4,5,6,7::nat]. bit v (8 * i + j) = bit w (8 * k + j)) \<Longrightarrow> pick i v = pick k w"
proof (rule bit_word_eqI)
  fix n assume h: "\<forall>j\<in>set [0,1,2,3,4,5,6,7::nat]. bit v (8 * i + j) = bit w (8 * k + j)" and n: "n < LENGTH(8)"
  from n have "n \<in> set [0,1,2,3,4,5,6,7::nat]" by auto
  then have "bit v (8 * i + n) = bit w (8 * k + n)" by (rule h [rule_format])
  then show "bit (pick i v) n = bit (pick k w) n" by (simp add: pick_def bit_simps)
qed

lemma rev8_pick:
  "i < 8 \<Longrightarrow> pick i (grev 56 x) = pick (7 - i) x"
  "i < 4 \<Longrightarrow> pick i (sext (grev 24 x) 32) = pick (3 - i) x"
proof -
  have 1: "\<forall>i\<in>set [0,1,2,3,4,5,6,7::nat]. pick i (grev 56 x) = pick (7 - i) x"
    by (intro ballI pick_eqI) (auto simp: grev_bit numeral_2_eq_2 [symmetric] numeral_3_eq_3 [symmetric])
  show "i < 8 \<Longrightarrow> pick i (grev 56 x) = pick (7 - i) x" by (rule 1[rule_format]) auto
  have 2: "\<forall>i\<in>set [0,1,2,3::nat]. pick i (sext (grev 24 x) 32) = pick (3 - i) x"
    by (intro ballI pick_eqI) (auto simp: grev_bit bit_sext numeral_2_eq_2 [symmetric] numeral_3_eq_3 [symmetric])
  show "i < 4 \<Longrightarrow> pick i (sext (grev 24 x) 32) = pick (3 - i) x" by (rule 2[rule_format]) auto
qed

lemma all_less16: "(\<forall>i<16. P i) \<longleftrightarrow> (\<forall>i\<in>set [0,1,2,3,4,5,6,7,8,9,10,11,12,13,14,15::nat]. P i)"
proof -
  have "set [0,1,2,3,4,5,6,7,8,9,10,11,12,13,14,15::nat] = set [0..<16]" by code_simp
  then show ?thesis by (simp only: set_upt) auto
qed

lemmas bits16 = all_less16 bit_simps numeral_2_eq_2 [symmetric] numeral_3_eq_3 [symmetric] bit_sext

lemma zip_bits:
  assumes "xlen c = 32" "insn_rd (insn_bits c) \<noteq> 0" "insn_rs2 (insn_bits c) = 15" "SHAMT c = 15"
    "extension_enabled s EXT_ZBKB"
  shows "\<forall>i<16. bit (RD c (snd (insn_shfli c s))) (2 * i) = bit (RS1 c s) i \<and>
      bit (RD c (snd (insn_shfli c s))) (2 * i + 1) = bit (RS1 c s) (16 + i)"
  using assms
  by (simp add: insn_shfli_def require_rv32_def require_def Let_def sext_xlen_def RD_write bits16 del: push_bit_Suc)

lemma unzip_bits:
  assumes "xlen c = 32" "insn_rd (insn_bits c) \<noteq> 0" "insn_rs2 (insn_bits c) = 15" "SHAMT c = 15"
    "extension_enabled s EXT_ZBKB"
  shows "\<forall>i<16. bit (RD c (snd (insn_unshfli c s))) i = bit (RS1 c s) (2 * i) \<and>
      bit (RD c (snd (insn_unshfli c s))) (16 + i) = bit (RS1 c s) (2 * i + 1)"
  using assms
  by (simp add: insn_unshfli_def require_rv32_def require_def Let_def sext_xlen_def RD_write bits16 del: push_bit_Suc)

text \<open>Bit \<open>n\<close> of the carry-less product.\<close>

definition clprod :: "u64 \<Rightarrow> u64 \<Rightarrow> nat \<Rightarrow> bool" where
  "clprod a b n \<longleftrightarrow> odd (length (filter (\<lambda>i. i \<le> n \<and> bit b i \<and> bit a (n - i)) [0..<64]))"

lemma xor_fold_bit:
  "bit (fold (\<lambda>i x. if P i then x XOR f i else x) is x) n =
    (bit x n \<noteq> odd (length (filter (\<lambda>i. P i \<and> bit (f i) n) is)))" for x :: "'a::len word"
  by (induction "is" arbitrary: x) (auto simp: bit_simps)

lemma drop_bit_and_1: "(drop_bit i b AND 1 \<noteq> 0) = bit b i" for b :: "'a::len word"
  by (simp add: bit_iff_and_drop_bit_eq_1 and_one_eq)

lemma filter_upt_cong:
  assumes "j \<le> k" "\<And>i. i < j \<Longrightarrow> P i = Q i" "\<And>i. j \<le> i \<Longrightarrow> i < k \<Longrightarrow> \<not> Q i"
  shows "filter P [0..<j] = filter Q [0..<k]"
proof -
  have "[0..<k] = [0..<j] @ [j..<k]" using assms(1) by (metis le0 upt_add_eq_append le_add_diff_inverse)
  moreover have "filter Q [j..<k] = []" using assms(3) by (auto simp: filter_empty_conv)
  moreover have "filter P [0..<j] = filter Q [0..<j]" using assms(2) by (auto intro: filter_cong)
  ultimately show ?thesis by simp
qed

lemma clmul_bit:
  assumes "w = 32 \<or> w = 64" "n < w" "a = zext x w" "b = zext y w"
  shows "bit (fold (\<lambda>i x. if drop_bit i b AND 1 \<noteq> 0 then x XOR push_bit i a else x) [0..<w] 0) n = clprod a b n"
proof -
  have nb: "\<not> bit a i" "\<not> bit b i" if "w \<le> i" for i using assms that by (auto simp: bit_zext)
  have "filter (\<lambda>i. bit b i \<and> bit (push_bit i a) n) [0..<w] = filter (\<lambda>i. i \<le> n \<and> bit b i \<and> bit a (n - i)) [0..<64]"
    by (rule filter_upt_cong) (use assms(1,2) nb in \<open>auto simp: bit_simps\<close>)
  then show ?thesis by (simp add: xor_fold_bit drop_bit_and_1 clprod_def)
qed

lemma clmulr_bit:
  assumes "w = 32 \<or> w = 64" "n < w" "a = zext x w" "b = zext y w"
  shows "bit (fold (\<lambda>i x. if drop_bit i b AND 1 \<noteq> 0 then x XOR drop_bit (w - i - 1) a else x) [0..<w] 0) n = clprod a b (w - 1 + n)"
proof -
  have nb: "\<not> bit a i" "\<not> bit b i" if "w \<le> i" for i using assms that by (auto simp: bit_zext)
  have "filter (\<lambda>i. bit b i \<and> bit (drop_bit (w - i - 1) a) n) [0..<w] =
      filter (\<lambda>i. i \<le> w - 1 + n \<and> bit b i \<and> bit a (w - 1 + n - i)) [0..<64]"
    by (rule filter_upt_cong) (use assms(1,2) nb in \<open>auto simp: bit_simps\<close>)
  then show ?thesis by (simp add: xor_fold_bit drop_bit_and_1 clprod_def)
qed

lemma clmulh_bit:
  assumes "w = 32 \<or> w = 64" "n < w" "a = zext x w" "b = zext y w"
  shows "bit (fold (\<lambda>i x. if drop_bit i b AND 1 \<noteq> 0 then x XOR drop_bit (w - i) a else x) [1..<w] 0) n = clprod a b (w + n)"
proof -
  have nb: "\<not> bit a i" "\<not> bit b i" if "w \<le> i" for i using assms that by (auto simp: bit_zext)
  have "filter (\<lambda>i. 0 < i \<and> bit b i \<and> bit (drop_bit (w - i) a) n) [0..<w] =
      filter (\<lambda>i. i \<le> w + n \<and> bit b i \<and> bit a (w + n - i)) [0..<64]"
    by (rule filter_upt_cong) (use assms(1,2) nb in \<open>auto simp: bit_simps nb intro: Nat.gr0I\<close>)
  moreover have "filter (\<lambda>i. 0 < i \<and> Q i) [0..<w] = filter Q [1..<w]" for Q
  proof -
    have u: "[0..<w] = 0 # [1..<w]" using assms(1) upt_conv_Cons [of 0 w] by auto
    have "filter (\<lambda>i. 0 < i \<and> Q i) [1..<w] = filter Q [1..<w]" by (rule filter_cong) auto
    then show ?thesis unfolding u by simp
  qed
  ultimately have "filter (\<lambda>i. bit b i \<and> bit (drop_bit (w - i) a) n) [1..<w] =
      filter (\<lambda>i. i \<le> w + n \<and> bit b i \<and> bit a (w + n - i)) [0..<64]"
    by (simp only:)
  then show ?thesis by (simp add: xor_fold_bit drop_bit_and_1 clprod_def)
qed

text \<open>The value that the destination register holds after an instruction.\<close>

definition result :: "(ctx \<Rightarrow> ('d hart, unit) M) \<Rightarrow> ctx \<Rightarrow> 'd hart \<Rightarrow> u64" where
  "result body c s = RD c (snd (body c s))"

lemma sext_64 [simp]: "sext x 64 = x"
  by (simp add: sext_def)

lemma zext_64 [simp]: "zext x 64 = x"
  by (simp add: zext_def)

lemma division_values:
  assumes "xlen c = 64" "insn_rd (insn_bits c) \<noteq> 0" "extension_enabled s (Ext CHR ''M'')"
  shows "result insn_div c s = (if RS2 c s = 0 then - 1 else if RS1 c s = push_bit 63 1 \<and> RS2 c s = - 1
       then RS1 c s else c_sdiv (RS1 c s) (RS2 c s))"
    "result insn_rem c s = (if RS2 c s = 0 then RS1 c s else if RS1 c s = push_bit 63 1 \<and> RS2 c s = - 1
       then 0 else c_smod (RS1 c s) (RS2 c s))"
    "result insn_divu c s = (if RS2 c s = 0 then - 1 else RS1 c s div RS2 c s)"
    "result insn_remu c s = (if RS2 c s = 0 then RS1 c s else RS1 c s mod RS2 c s)"
  using assms
  by (auto simp: result_def insn_div_def insn_rem_def insn_divu_def insn_remu_def require_extension_def require_def
      Let_def sext_xlen_def zext_xlen_def RD_write simp del: push_bit_numeral)

text \<open>C28: On a 64-bit machine quotient and remainder of any two operands satisfy quotient * divisor + remainder = dividend, for signed and for unsigned division and including a zero divisor and the overflow case; for a nonzero divisor the remainder is smaller than the divisor and has the sign of the dividend.\<close>

theorem division_identity:
  assumes "xlen c = 64" "insn_rd (insn_bits c) \<noteq> 0" "extension_enabled s (Ext CHR ''M'')"
  shows "result insn_div c s * RS2 c s + result insn_rem c s = RS1 c s
    \<and> result insn_divu c s * RS2 c s + result insn_remu c s = RS1 c s
    \<and> (RS2 c s \<noteq> 0 \<longrightarrow> result insn_remu c s < RS2 c s
        \<and> \<bar>sint (result insn_rem c s)\<bar> < \<bar>sint (RS2 c s)\<bar>
        \<and> (0 \<le> sint (RS1 c s) \<longrightarrow> 0 \<le> sint (result insn_rem c s))
        \<and> (sint (RS1 c s) \<le> 0 \<longrightarrow> sint (result insn_rem c s) \<le> 0))"
proof -
  note v = division_values [OF assms]
  have u: "RS1 c s div RS2 c s * RS2 c s + RS1 c s mod RS2 c s = RS1 c s"
    by (metis add.commute word_mod_div_equality)
  have m: "RS2 c s \<noteq> 0 \<Longrightarrow> RS1 c s mod RS2 c s < RS2 c s"
    by (simp add: word_mod_less_divisor word_gt_0)
  show ?thesis
    using c_sdiv_smod [of "RS1 c s" "RS2 c s"] c_smod_bounds [of "RS2 c s" "RS1 c s"] u m
    by (auto simp: v)
qed

theorem division_identity_witness:
  "result insn_div (ctx_full 64 0x02C5C533 0) (hart_full 64) * 0 +
     result insn_rem (ctx_full 64 0x02C5C533 0) (hart_full 64) = 0"
  using division_identity [of "ctx_full 64 0x02C5C533 0" "hart_full 64"]
  by (simp add: ctx_full_def hart_full_def extension_enabled_def misa_extension_enabled_def cfg_full_def
      insn_rd_def insn_x_def RS1_def RS2_def READ_REG_def)

text \<open>C37: The carry-less multiplications of Zbc compute the product of polynomials over the two-element field: clmul its low XLEN bits, clmulh the next XLEN bits and clmulr the bits from XLEN - 1 on, for both widths.\<close>

theorem carryless_product:
  assumes "w = 32 \<or> w = 64" "xlen c = w" "insn_rd (insn_bits c) \<noteq> 0" "extension_enabled s EXT_ZBC" "n < w"
    "a = zext (RS1 c s) w" "b = zext (RS2 c s) w"
  shows "bit (result insn_clmul c s) n = clprod a b n
    \<and> bit (result insn_clmulh c s) n = clprod a b (w + n)
    \<and> bit (result insn_clmulr c s) n = clprod a b (w - 1 + n)"
proof -
  have s: "bit (sext v w) n = bit v n" for v using assms(1,5) by (auto simp: bit_sext)
  note clm = clmul_bit [OF assms(1,5) assms(6,7)] clmulh_bit [OF assms(1,5) assms(6,7)] clmulr_bit [OF assms(1,5) assms(6,7)]
  note unfold = result_def require_either_extension_def require_extension_def require_def Let_def sext_xlen_def zext_xlen_def
    RD_write assms(2,3,4) assms(6,7) [symmetric] s
  show ?thesis unfolding insn_clmul_def insn_clmulh_def insn_clmulr_def by (simp only: unfold clm disjI1 if_True simp_thms)
qed

theorem carryless_product_witness:
  "bit (result insn_clmulh (ctx_full 64 0x0AC5B533 0) (hart_full 64)) 5 = clprod 0 0 69"
  using carryless_product [of 64 "ctx_full 64 0x0AC5B533 0" "hart_full 64" 5 0 0]
  by (simp add: ctx_full_def hart_full_def extension_enabled_def insn_rd_def insn_x_def RS1_def RS2_def READ_REG_def)

lemma grevi_value:
  assumes "insn_rd (insn_bits c) \<noteq> 0" "extension_enabled s EXT_ZBKB" "SHAMT c < of_nat (xlen c)"
    "SHAMT c = of_nat (xlen c) - 8 \<or> SHAMT c = 7"
  shows "result insn_grevi c s = sext_xlen c (grev (SHAMT c) (RS1 c s))"
  using assms by (auto simp: result_def insn_grevi_def require_def Let_def RD_write)

lemma bit_sext_low: "n < 32 \<Longrightarrow> bit (sext v 32) n = bit v n"
  by (simp add: bit_sext min_def)

text \<open>C38: rev8 reverses the bytes of its operand on both widths, brev8 reverses the bits of every byte on both widths, and on RV32 zip interleaves the two halves of its operand while unzip separates them again.\<close>

theorem bit_permutations:
  assumes "insn_rd (insn_bits c) \<noteq> 0" "extension_enabled s EXT_ZBKB"
  shows "(xlen c = 64 \<and> SHAMT c = 56 \<longrightarrow> (\<forall>i<8. pick i (result insn_grevi c s) = pick (7 - i) (RS1 c s)))
    \<and> (xlen c = 32 \<and> SHAMT c = 24 \<longrightarrow> (\<forall>i<4. pick i (result insn_grevi c s) = pick (3 - i) (RS1 c s)))
    \<and> (xlen c = 64 \<and> SHAMT c = 7 \<longrightarrow> (\<forall>n<64. bit (result insn_grevi c s) n = bit (RS1 c s) (n XOR 7)))
    \<and> (xlen c = 32 \<and> SHAMT c = 7 \<longrightarrow> (\<forall>n<32. bit (result insn_grevi c s) n = bit (RS1 c s) (n XOR 7)))
    \<and> (xlen c = 32 \<and> SHAMT c = 15 \<and> insn_rs2 (insn_bits c) = 15 \<longrightarrow>
        (\<forall>i<16. bit (result insn_shfli c s) (2 * i) = bit (RS1 c s) i \<and>
                bit (result insn_shfli c s) (2 * i + 1) = bit (RS1 c s) (16 + i)) \<and>
        (\<forall>i<16. bit (result insn_unshfli c s) i = bit (RS1 c s) (2 * i) \<and>
                bit (result insn_unshfli c s) (16 + i) = bit (RS1 c s) (2 * i + 1)))"
  using zip_bits [of c s] unzip_bits [of c s] assms bit_sext_low [of _ "grev 7 (RS1 c s)"]
  by (auto simp: grevi_value [OF assms] sext_xlen_def rev8_pick grev_bit result_def [of insn_shfli] result_def [of insn_unshfli])

theorem bit_permutations_witness:
  "pick 2 (result insn_grevi (ctx_full 64 0x6B85D513 0) (hart_full 64)) =
     pick 5 (RS1 (ctx_full 64 0x6B85D513 0) (hart_full 64))"
proof -
  let ?c = "ctx_full 64 0x6B85D513 0"
  have "insn_rd (insn_bits ?c) \<noteq> 0" "extension_enabled (hart_full 64) EXT_ZBKB" "xlen ?c = 64" "SHAMT ?c = 56"
    by (simp_all add: ctx_full_def hart_full_def extension_enabled_def insn_rd_def insn_x_def SHAMT_def i_imm_def insn_xs_def)
  then show ?thesis using bit_permutations [of ?c "hart_full 64"] by simp
qed

section \<open>Control transfer\<close>

definition jumps :: "(ctx \<Rightarrow> ('d hart, unit) M) list" where
  "jumps = [insn_beq, insn_bne, insn_blt, insn_bltu, insn_bge, insn_bgeu, insn_jal, insn_jalr]"

lemma set_pc_cases:
  "set_pc c t s =
    (if \<not> extension_enabled s EXT_ZCA \<and> bit t 1
     then (Inl (Trap (trap_instruction_address_misaligned (virt s) t 0 0)), s)
     else (Inr (), s\<lparr>npc := sext_xlen c t\<rparr>))"
proof -
  have "t AND 2 = 0 \<longleftrightarrow> \<not> bit t 1"
    using bit_iff_and_push_bit_not_eq_0 [of t 1] by (simp add: push_bit_eq_mult)
  then show ?thesis
    by (simp add: set_pc_def thenM_def bindM_def modifyM_def check_pc_alignment_def pc_alignment_mask_def)
qed

lemma even_targets: "\<not> bit (sb_imm b) 0" "\<not> bit (uj_imm b) 0"
  by (simp_all add: bit_sb_imm bit_uj_imm)

lemma bit0_add: "bit (a + b) 0 \<longleftrightarrow> bit a 0 \<noteq> bit b 0" for a b :: u64
  by (simp add: bit_0)

text \<open>The shape of an outcome: a jump with compressed instructions never faults, a fault leaves
  the state alone and names a target with bit 1 set, and the next pc stays even.\<close>

definition jump_ok :: "ctx \<Rightarrow> 'd hart \<Rightarrow> (exn + unit) \<times> 'd hart \<Rightarrow> bool" where
  "jump_ok c s r \<longleftrightarrow>
    (extension_enabled s EXT_ZCA \<longrightarrow> fst r = Inr ())
    \<and> (fst r \<noteq> Inr () \<longrightarrow> snd r = s \<and>
        (\<exists>t. bit t 1 \<and> fst r = Inl (Trap (trap_instruction_address_misaligned (virt s) t 0 0))))
    \<and> (\<not> bit (insn_pc c) 0 \<and> \<not> bit (npc s) 0 \<longrightarrow> \<not> bit (npc (snd r)) 0)"

lemma jump_okI:
  assumes "xlen c = 32 \<or> xlen c = 64" "\<not> bit (insn_pc c) 0 \<longrightarrow> \<not> bit t 0"
    "fst (k (s\<lparr>npc := sext_xlen c t\<rparr>)) = Inr ()" "npc (snd (k (s\<lparr>npc := sext_xlen c t\<rparr>))) = sext_xlen c t"
  shows "jump_ok c s (thenM (set_pc c t) k s)"
proof (cases "\<not> extension_enabled s EXT_ZCA \<and> bit t 1")
  case True
  then show ?thesis by (auto simp: jump_ok_def thenM_def bindM_def set_pc_cases)
next
  case False
  then have e: "thenM (set_pc c t) k s = k (s\<lparr>npc := sext_xlen c t\<rparr>)"
    by (auto simp: thenM_def bindM_def set_pc_cases)
  have "\<not> bit (sext_xlen c t) 0" if "\<not> bit t 0"
    using assms(1) that by (auto simp: sext_xlen_def bit_sext)
  then show ?thesis using assms(2) assms(3,4) by (auto simp: e jump_ok_def)
qed

lemma jump_ok_branch:
  assumes "xlen c = 32 \<or> xlen c = 64"
  shows "jump_ok c s (if b then set_pc c (BRANCH_TARGET c) s else returnM () s)"
proof (cases b)
  case True
  have "set_pc c (BRANCH_TARGET c) s = thenM (set_pc c (BRANCH_TARGET c)) (returnM ()) s"
    by (auto simp: thenM_def bindM_def returnM_def set_pc_cases)
  then show ?thesis using True
    by (simp only: if_True) (auto intro!: jump_okI [OF assms] simp: BRANCH_TARGET_def bit0_add even_targets returnM_def)
qed (simp add: jump_ok_def returnM_def)

text \<open>C36: A branch, jal or jalr outside Zicfilp never faults when compressed instructions are enabled; when it faults it is a misaligned-fetch trap on a target whose bit 1 is set and no register, pc or other state has changed (no link is written); and the pc stays even.\<close>

theorem control_transfer:
  assumes "body \<in> set jumps" "\<not> extension_enabled s EXT_ZICFILP" "xlen c = 32 \<or> xlen c = 64"
  shows "jump_ok c s (body c s)"
proof -
  have z: "fst (ZICFILP_xLPE v p s') = Inr 0 \<and> snd (ZICFILP_xLPE v p s') = s'"
    if "extension_enable_table s' = extension_enable_table s" for v p s'
    using assms(2) that by (simp add: extension_enabled_def ZICFILP_xLPE_def)
  have jalr: "jump_ok c s (insn_jalr c s)" unfolding insn_jalr_def Let_def
    by (rule jump_okI [OF assms(3)])
      (simp_all add: bit_simps z thenM_def bindM_def WRITE_RD_def WRITE_REG_def returnM_def prod_eq_iff split: prod.splits sum.splits)
  have jal: "jump_ok c s (insn_jal c s)" unfolding insn_jal_def Let_def
    by (rule jump_okI [OF assms(3)]) (simp_all add: JUMP_TARGET_def bit0_add even_targets WRITE_RD_def WRITE_REG_def)
  have "\<forall>body\<in>set jumps. jump_ok c s (body c s)"
    by (simp add: jumps_def jal jalr insn_beq_def insn_bne_def insn_blt_def insn_bltu_def insn_bge_def
        insn_bgeu_def jump_ok_branch [OF assms(3)] split del: if_split)
  then show ?thesis using assms(1) by blast
qed

theorem control_transfer_witness:
  "fst (insn_jalr (ctx_full 64 0x000580E7 0x80000000) (hart_full 64)) = Inr ()"
  using control_transfer [of insn_jalr "hart_full 64" "ctx_full 64 0x000580E7 0x80000000"]
  by (simp add: jumps_def hart_full_def ctx_full_def extension_enabled_def jump_ok_def)

end
