(* ===== verification/Privileged.thy ===== *)
theory Privileged
  imports Macros Arith
begin

text \<open>
  Interrupts, traps, debug mode and the privileged instructions:
  \<^verbatim>\<open>processor_t::take_interrupt\<close>, \<^verbatim>\<open>take_trap\<close> and
  \<^verbatim>\<open>enter_debug_mode\<close> of \<^verbatim>\<open>riscv/processor.cc\<close>, and the return, wait
  and fence instructions of \<^verbatim>\<open>riscv/insns\<close>. The triggers and the trace output that
  these functions also drive are not part of the state.
\<close>

section \<open>Interrupts\<close>

text \<open>The interrupts that may be taken now: those for M-mode, else those delegated to HS-mode,
  else those delegated to VS-mode.\<close>

definition enabled_interrupts :: "ctx \<Rightarrow> u64 \<Rightarrow> 'd hart \<Rightarrow> u64" where
  "enabled_interrupts c pending s =
    (let mie = get_field (mstatus_read s) MSTATUS_MIE;
         m_enabled = (prv s < PRV_M \<or> (prv s = PRV_M \<and> mie \<noteq> 0));
         enabled = pending AND NOT (mideleg_read s) AND (if m_enabled then - 1 else 0)
     in if enabled = 0
        then (let deleg_to_hs = mideleg_read s AND NOT (hideleg_read s);
                  sie = get_field (sstatus_read c s) MSTATUS_SIE;
                  hs_enabled = (virt s \<or> prv s < PRV_S \<or> (prv s = PRV_S \<and> sie \<noteq> 0));
                  enabled = pending AND deleg_to_hs AND (if hs_enabled then - 1 else 0)
              in if virt s \<and> enabled = 0
                 then (let deleg_to_vs = hideleg_read s;
                           vs_enabled = (prv s < PRV_S \<or> (prv s = PRV_S \<and> sie \<noteq> 0))
                       in pending AND deleg_to_vs AND (if vs_enabled then - 1 else 0))
                 else enabled)
        else enabled)"

definition IRQ_M_EXT :: nat where "IRQ_M_EXT = 11"

definition select_interrupt :: "u64 \<Rightarrow> u64 option" where
  "select_interrupt e =
    (if drop_bit (IRQ_M_EXT + 1) e \<noteq> 0 then Some (push_bit (IRQ_M_EXT + 1) (drop_bit (IRQ_M_EXT + 1) e))
     else if e AND MIP_MEIP \<noteq> 0 then Some MIP_MEIP
     else if e AND MIP_MSIP \<noteq> 0 then Some MIP_MSIP
     else if e AND MIP_MTIP \<noteq> 0 then Some MIP_MTIP
     else if e AND MIP_SEIP \<noteq> 0 then Some MIP_SEIP
     else if e AND MIP_SSIP \<noteq> 0 then Some MIP_SSIP
     else if e AND MIP_STIP \<noteq> 0 then Some MIP_STIP
     else if e AND MIP_LCOFIP \<noteq> 0 then Some MIP_LCOFIP
     else if e AND MIP_VSEIP \<noteq> 0 then Some MIP_VSEIP
     else if e AND MIP_VSSIP \<noteq> 0 then Some MIP_VSSIP
     else if e AND MIP_VSTIP \<noteq> 0 then Some MIP_VSTIP
     else None)"

definition nmie :: "'d hart \<Rightarrow> bool" where
  "nmie s = (case mnstatus_val s of None \<Rightarrow> True | Some m \<Rightarrow> get_field m MNSTATUS_NMIE \<noteq> 0)"

definition take_interrupt :: "ctx \<Rightarrow> u64 \<Rightarrow> ('d hart, unit) M" where
  "take_interrupt c pending s =
    (if pending = 0 then (Inr (), s)
     else let s = s\<lparr>in_wfi := False\<rparr>; e = enabled_interrupts c pending s
          in if \<not> debug_mode s \<and> nmie s \<and> e \<noteq> 0
             then (case select_interrupt e of
                     Some i \<Rightarrow> (Inl (Trap (plain_trap (push_bit (max_xlen c - 1) 1 OR of_nat (ctz i)))), s)
                   | None \<Rightarrow> (Inl Abort, s))
             else (Inr (), s))"

definition take_pending_interrupt :: "ctx \<Rightarrow> ('d hart, unit) M" where
  "take_pending_interrupt c s = take_interrupt c (mip_read s AND mie_val s) s"

section \<open>Traps\<close>

definition DEBUG_ROM_ENTRY :: u64 where "DEBUG_ROM_ENTRY = 0x800"
definition DEBUG_ROM_TVEC :: u64 where "DEBUG_ROM_TVEC = 0x808"

definition enter_debug_mode :: "u8 \<Rightarrow> u8 \<Rightarrow> 'd hart \<Rightarrow> 'd hart" where
  "enter_debug_mode cause extcause s =
    (let s = s\<lparr>debug_mode := True\<rparr>;
         s = s\<lparr>dcsr := dcsr_update_fields cause extcause (prv s) (virt s) (elp s) (dcsr s)\<rparr>;
         s = s\<lparr>elp := NO_LP_EXPECTED\<rparr>;
         s = set_privilege PRV_M False s;
         s = s\<lparr>dpc_val := epc_write (pc s)\<rparr>
     in s\<lparr>pc := DEBUG_ROM_ENTRY, in_wfi := False\<rparr>)"

definition trap_to_vs :: "ctx \<Rightarrow> trap_t \<Rightarrow> bool \<Rightarrow> u64 \<Rightarrow> u64 \<Rightarrow> 'd hart \<Rightarrow> 'd hart" where
  "trap_to_vs c t interrupt b epc s =
    (let interrupt_bit = push_bit (max_xlen c - 1) 1;
         adjusted_cause = (if interrupt then b - 1 else b);
         vector = (if vstvec_val s AND 1 \<noteq> 0 \<and> interrupt then 4 * adjusted_cause else 0);
         s = s\<lparr>pc := (vstvec_val s AND NOT 1) + vector\<rparr>;
         s = s\<lparr>vscause_val := adjusted_cause OR (if interrupt then interrupt_bit else 0)\<rparr>;
         s = s\<lparr>vsepc_val := epc_write epc\<rparr>;
         s = s\<lparr>vstval_val := get_tval t\<rparr>;
         st = sstatus_read c s;
         st = set_field st MSTATUS_SPIE (get_field st MSTATUS_SIE);
         st = set_field st MSTATUS_SPP (prv s);
         st = set_field st MSTATUS_SIE 0;
         st = set_field st MSTATUS_SPELP (of_elp (elp s));
         st = (if menvcfg_val s AND MENVCFG_DTE \<noteq> 0 \<and> henvcfg_read s AND MENVCFG_DTE \<noteq> 0
               then set_field st MSTATUS_SDT 1 else st);
         s = s\<lparr>elp := NO_LP_EXPECTED\<rparr>;
         s = sstatus_write c st s
     in set_privilege PRV_S True s)"

definition trap_to_hs :: "ctx \<Rightarrow> trap_t \<Rightarrow> bool \<Rightarrow> u64 \<Rightarrow> u64 \<Rightarrow> 'd hart \<Rightarrow> 'd hart" where
  "trap_to_hs c t interrupt b epc s =
    (let curr_virt = virt s;
         vector = (if stvec_val s AND 1 \<noteq> 0 \<and> interrupt then 4 * b else 0);
         s = s\<lparr>pc := (stvec_val s AND NOT 1) + vector\<rparr>;
         s = s\<lparr>scause_val := which t\<rparr>;
         s = s\<lparr>sepc_val := epc_write epc\<rparr>;
         s = s\<lparr>stval_val := get_tval t\<rparr>;
         s = s\<lparr>htval_val := get_tval2 t\<rparr>;
         s = s\<lparr>htinst_val := get_tinst t\<rparr>;
         st = nonvirtual_sstatus_read c s;
         st = set_field st MSTATUS_SPIE (get_field st MSTATUS_SIE);
         st = set_field st MSTATUS_SPP (prv s);
         st = set_field st MSTATUS_SIE 0;
         st = set_field st MSTATUS_SPELP (of_elp (elp s));
         st = (if menvcfg_val s AND MENVCFG_DTE \<noteq> 0 then set_field st MSTATUS_SDT 1 else st);
         s = s\<lparr>elp := NO_LP_EXPECTED\<rparr>;
         s = nonvirtual_sstatus_write c st s;
         s = (if extension_enabled s (Ext CHR ''H'')
              then (let h = hstatus_val s;
                        h = (if curr_virt then set_field h HSTATUS_SPVP (prv s) else h);
                        h = set_field h HSTATUS_SPV (of_bool curr_virt);
                        h = set_field h HSTATUS_GVA (of_bool (has_gva t))
                    in hstatus_write h s)
              else s)
     in set_privilege PRV_S False s)"

definition trap_to_m :: "ctx \<Rightarrow> trap_t \<Rightarrow> bool \<Rightarrow> u64 \<Rightarrow> bool \<Rightarrow> u64 \<Rightarrow> 'd hart \<Rightarrow> 'd hart" where
  "trap_to_m c t interrupt b supv_double_trap epc s =
    (let curr_virt = virt s;
         vector = (if mtvec_val s AND 1 \<noteq> 0 \<and> interrupt then 4 * b else 0);
         trap_handler_address = (mtvec_val s AND NOT 1) + vector;
         rnmi_trap_handler_address = 0;
         nm = nmie s;
         st = mstatus_read s
     in if extension_enabled s EXT_SMDBLTRP \<and> (get_field st MSTATUS_MDT \<noteq> 0 \<or> \<not> nm)
        then s\<lparr>critical_error := True\<rparr>
        else
          let st = (if extension_enabled s EXT_SMDBLTRP then set_field st MSTATUS_MDT 1 else st);
              s = s\<lparr>pc := (if \<not> nm then rnmi_trap_handler_address else trap_handler_address)\<rparr>;
              s = s\<lparr>mepc_val := epc_write epc\<rparr>;
              s = s\<lparr>mcause_val := (if supv_double_trap then CAUSE_DOUBLE_TRAP else which t)\<rparr>;
              s = s\<lparr>mtval_val := get_tval t\<rparr>;
              s = s\<lparr>mtval2_val := (if supv_double_trap then which t else get_tval2 t)\<rparr>;
              s = s\<lparr>mtinst_val := get_tinst t\<rparr>;
              st = set_field st MSTATUS_MPIE (get_field st MSTATUS_MIE);
              st = set_field st MSTATUS_MPP (prv s);
              st = set_field st MSTATUS_MIE 0;
              st = set_field st MSTATUS_MPV (of_bool curr_virt);
              st = set_field st MSTATUS_GVA (of_bool (has_gva t));
              st = set_field st MSTATUS_MPELP (of_elp (elp s));
              s = s\<lparr>elp := NO_LP_EXPECTED\<rparr>;
              s = mstatus_write c st s;
              s = (if max_xlen c = 32 then mstatush_write c (drop_bit 32 st) s else s);
              s = (case tcontrol_val s of None \<Rightarrow> s
                   | Some tc \<Rightarrow> tcontrol_write (if tc AND 0x8 \<noteq> 0 then 0x80 else 0) s)
          in set_privilege PRV_M False s)"

text \<open>The shifts of a delegation register are only made for causes below
  \<^verbatim>\<open>max_xlen\<close>.\<close>

definition delegated :: "ctx \<Rightarrow> u64 \<Rightarrow> u64 \<Rightarrow> 'd hart \<Rightarrow> bool" where
  "delegated c deleg b s \<longleftrightarrow> prv s \<le> PRV_S \<and> b < of_nat (max_xlen c) \<and> drop_bit (unat b) deleg AND 1 \<noteq> 0"

definition take_trap :: "ctx \<Rightarrow> trap_t \<Rightarrow> u64 \<Rightarrow> 'd hart \<Rightarrow> 'd hart" where
  "take_trap c t epc s =
    (if debug_mode s
     then s\<lparr>pc := (if which t = CAUSE_BREAKPOINT then DEBUG_ROM_ENTRY else DEBUG_ROM_TVEC)\<rparr>
     else
       let b = which t;
           curr_virt = virt s;
           interrupt_bit = push_bit (max_xlen c - 1) 1;
           interrupt = (b AND interrupt_bit \<noteq> 0);
           vsdeleg = (if interrupt
                      then (if curr_virt \<and> prv s \<le> PRV_S then hideleg_read s else 0)
                      else (if curr_virt \<and> prv s \<le> PRV_S then medeleg_val s AND hedeleg_val s else 0));
           hsdeleg = (if interrupt
                      then (if prv s \<le> PRV_S then mideleg_read s else 0)
                      else (if prv s \<le> PRV_S then medeleg_val s else 0));
           b = (if interrupt then b AND NOT interrupt_bit else b);
           supv_double_trap = ((delegated c vsdeleg b s \<or> delegated c hsdeleg b s) \<and>
             get_field (sstatus_read c s) MSTATUS_SDT \<noteq> 0);
           vsdeleg = (if supv_double_trap then 0 else vsdeleg);
           hsdeleg = (if supv_double_trap then 0 else hsdeleg)
       in if delegated c vsdeleg b s then trap_to_vs c t interrupt b epc s
          else if delegated c hsdeleg b s then trap_to_hs c t interrupt b epc s
          else trap_to_m c t interrupt b supv_double_trap epc s)"

text \<open>\<^verbatim>\<open>take_trigger_action\<close>, whose default case aborts.\<close>

definition take_trigger_action :: "ctx \<Rightarrow> trigger_action_t \<Rightarrow> u64 \<Rightarrow> u64 \<Rightarrow> bool \<Rightarrow> 'd hart \<Rightarrow> 'd hart option" where
  "take_trigger_action c action tval epc v s =
    (case action of
       ACTION_DEBUG_MODE \<Rightarrow> Some (enter_debug_mode 2 0 s)
     | ACTION_DEBUG_EXCEPTION \<Rightarrow> Some (take_trap c (trap_breakpoint v tval) epc s)
     | _ \<Rightarrow> None)"

section \<open>Returns\<close>

definition insn_mret :: "ctx \<Rightarrow> ('d hart, unit) M" where
  "insn_mret c = require_privilege c PRV_M (\<lambda>s.
    let s = set_pc_and_serialize (epc_read s (mepc_val s)) s;
        st = mstatus_read s;
        prev_prv = get_field st MSTATUS_MPP;
        prev_v = get_field st MSTATUS_MPV;
        st = (if prev_prv \<noteq> PRV_M then set_field st MSTATUS_MPRV 0 else st);
        st = set_field st MSTATUS_MIE (get_field st MSTATUS_MPIE);
        st = set_field st MSTATUS_MPIE 1;
        st = set_field st MSTATUS_MPP (if extension_enabled s (Ext CHR ''U'') then PRV_U else PRV_M);
        st = set_field st MSTATUS_MPV 0
    in bindM (ZICFILP_xLPE (prev_v \<noteq> 0) prev_prv) (\<lambda>lpe s.
       let s = (if lpe \<noteq> 0 then s\<lparr>elp := elp_of (get_field st MSTATUS_MPELP)\<rparr> else s);
           st = set_field st MSTATUS_MPELP (of_elp NO_LP_EXPECTED);
           st = set_field st MSTATUS_MDT 0;
           st = (if prev_prv = PRV_U \<or> prev_v \<noteq> 0 then set_field st MSTATUS_SDT 0 else st);
           s = (if prev_v \<noteq> 0 \<and> prev_prv = PRV_U
                then vsstatus_write c (vsstatus_read c s AND NOT SSTATUS_SDT) s else s);
           s = mstatus_write c st s;
           s = (if max_xlen c = 32 then mstatush_write c (drop_bit 32 st) s else s);
           s = (case tcontrol_val s of None \<Rightarrow> s
                | Some tc \<Rightarrow> tcontrol_write (if tc AND 0x80 \<noteq> 0 then 0x88 else 0) s)
       in (Inr (), set_privilege prev_prv (prev_v \<noteq> 0) s)) s)"

definition sret_allowed :: "ctx \<Rightarrow> ('d hart, 'a) M \<Rightarrow> ('d hart, 'a) M" where
  "sret_allowed c k s =
    (if virt s
     then (if prv s = PRV_U \<or> get_field (hstatus_val s) HSTATUS_VTSR \<noteq> 0 then require_novirt c k s else k s)
     else require_privilege c (if get_field (mstatus_read s) MSTATUS_TSR \<noteq> 0 then PRV_M else PRV_S) k s)"

definition insn_sret :: "ctx \<Rightarrow> ('d hart, unit) M" where
  "insn_sret c = require_extension c (Ext CHR ''S'') (sret_allowed c (\<lambda>s.
    let prev_hstatus = hstatus_val s;
        next_pc = epc_read s (if virt s then vsepc_val s else sepc_val s);
        s = set_pc_and_serialize next_pc s;
        st = sstatus_read c s;
        prev_prv = get_field st MSTATUS_SPP;
        st = set_field st MSTATUS_SIE (get_field st MSTATUS_SPIE);
        st = set_field st MSTATUS_SPIE 1;
        st = set_field st MSTATUS_SPP PRV_U;
        prev_v = (if \<not> virt s \<and> extension_enabled s (Ext CHR ''H'')
                  then get_field prev_hstatus HSTATUS_SPV \<noteq> 0 else virt s);
        s = (if \<not> virt s \<and> extension_enabled s (Ext CHR ''H'')
             then hstatus_write (set_field prev_hstatus HSTATUS_SPV 0) s else s);
        s = (if \<not> virt s then mstatus_write c (set_field (mstatus_read s) MSTATUS_MPRV 0) s else s)
    in bindM (ZICFILP_xLPE prev_v prev_prv) (\<lambda>lpe s.
       let s = (if lpe \<noteq> 0 then s\<lparr>elp := elp_of (get_field st SSTATUS_SPELP)\<rparr> else s);
           s = (if prv s = PRV_M
                then (let s = mstatus_write c (mstatus_read s AND NOT MSTATUS_MDT) s;
                          s = (if prev_prv = PRV_U \<or> prev_v
                               then mstatus_write c (mstatus_read s AND NOT MSTATUS_SDT) s else s)
                      in if prev_v \<and> prev_prv = PRV_U
                         then vsstatus_write c (vsstatus_read c s AND NOT SSTATUS_SDT) s else s)
                else s);
           st = set_field st SSTATUS_SPELP (of_elp NO_LP_EXPECTED);
           st = (if prv s = PRV_S then set_field st SSTATUS_SDT 0 else st);
           s = (if prv s = PRV_S \<and> \<not> virt s \<and> prev_v \<and> prev_prv = PRV_U
                then vsstatus_write c (vsstatus_read c s AND NOT SSTATUS_SDT) s else s);
           s = sstatus_write c st s
       in (Inr (), set_privilege prev_prv prev_v s)) s))"

definition insn_mnret :: "ctx \<Rightarrow> ('d hart, unit) M" where
  "insn_mnret c = require_extension c EXT_SMRNMI (require_privilege c PRV_M (\<lambda>s.
    let s = set_pc_and_serialize (epc_read s (mnepc_val s)) s
    in case mnstatus_val s of None \<Rightarrow> (Inl Abort, s)
       | Some st \<Rightarrow>
           let prev_prv = get_field st MNSTATUS_MNPP;
               prev_v = get_field st MNSTATUS_MNPV;
               s = (if prev_prv \<noteq> PRV_M then mstatus_write c (set_field (mstatus_read s) MSTATUS_MPRV 0) s else s);
               s = mnstatus_write (set_field st MNSTATUS_NMIE 1) s
           in (Inr (), set_privilege prev_prv (prev_v \<noteq> 0) s)))"

definition dret_clear_sdt :: "ctx \<Rightarrow> u64 \<Rightarrow> bool \<Rightarrow> 'd hart \<Rightarrow> 'd hart" where
  "dret_clear_sdt c p v s =
    (let s = (if p = PRV_U \<or> v then mstatus_write c (mstatus_read s AND NOT MSTATUS_SDT) s else s)
     in if v \<and> p = PRV_U then vsstatus_write c (vsstatus_read c s AND NOT SSTATUS_SDT) s else s)"

definition insn_dret :: "ctx \<Rightarrow> ('d hart, unit) M" where
  "insn_dret c s = require c (debug_mode s) (\<lambda>s.
    let s = set_pc_and_serialize (epc_read s (dpc_val s)) s
    in bindM (ZICFILP_xLPE (dcsr_v (dcsr s)) (ucast (dcsr_prv (dcsr s)))) (\<lambda>lpe s.
       let s = (if lpe \<noteq> 0 then s\<lparr>elp := dcsr_pelp (dcsr s)\<rparr> else s);
           d = dcsr s;
           p = ucast (dcsr_prv d);
           s = set_privilege p (dcsr_v d) s;
           s = (if prv s < PRV_M
                then (let s = mstatus_write c (mstatus_read s AND NOT MSTATUS_MPRV) s
                      in mstatus_write c (mstatus_read s AND NOT MSTATUS_MDT) s)
                else s);
           s = dret_clear_sdt c p (dcsr_v d) s;
           s = dret_clear_sdt c p (dcsr_v d) s;
           s = s\<lparr>debug_mode := False\<rparr>
       in (Inr (), if dcsr_step d then s\<lparr>single_step := STEP_STEPPING\<rparr> else s)) s) s"

section \<open>Waiting and fences\<close>

definition insn_wfi :: "ctx \<Rightarrow> ('d hart, unit) M" where
  "insn_wfi c s =
    (if get_field (mstatus_read s) MSTATUS_TW \<noteq> 0 then require_privilege c PRV_M wfi s
     else if virt s
     then (if prv s = PRV_U \<or> get_field (hstatus_val s) HSTATUS_VTW \<noteq> 0 then require_novirt c wfi s else wfi s)
     else if extension_enabled s (Ext CHR ''S'') then require_privilege c PRV_S wfi s
     else wfi s)"

definition tlb_flush :: "('d hart, unit) M" where
  "tlb_flush s = (Inr (), flush_tlb s)"

definition insn_sfence_vma :: "ctx \<Rightarrow> ('d hart, unit) M" where
  "insn_sfence_vma c = require_extension c (Ext CHR ''S'') (require_impl c IMPL_MMU (\<lambda>s.
    if virt s
    then (if prv s = PRV_U \<or> get_field (hstatus_val s) HSTATUS_VTVM \<noteq> 0
          then require_novirt c tlb_flush s else tlb_flush s)
    else require_privilege c (if get_field (mstatus_read s) MSTATUS_TVM \<noteq> 0 then PRV_M else PRV_S) tlb_flush s))"

definition insn_hfence_vvma :: "ctx \<Rightarrow> ('d hart, unit) M" where
  "insn_hfence_vvma c = require_extension c (Ext CHR ''H'') (require_novirt c (require_privilege c PRV_S tlb_flush))"

definition insn_hfence_gvma :: "ctx \<Rightarrow> ('d hart, unit) M" where
  "insn_hfence_gvma c = require_extension c (Ext CHR ''H'') (require_novirt c (\<lambda>s.
    require_privilege c (if get_field (mstatus_read s) MSTATUS_TVM \<noteq> 0 then PRV_M else PRV_S) tlb_flush s))"

definition insn_sinval_vma :: "ctx \<Rightarrow> ('d hart, unit) M" where
  "insn_sinval_vma c = require_extension c EXT_SVINVAL (insn_sfence_vma c)"
definition insn_hinval_vvma :: "ctx \<Rightarrow> ('d hart, unit) M" where
  "insn_hinval_vvma c = require_extension c EXT_SVINVAL (insn_hfence_vvma c)"
definition insn_hinval_gvma :: "ctx \<Rightarrow> ('d hart, unit) M" where
  "insn_hinval_gvma c = require_extension c EXT_SVINVAL (insn_hfence_gvma c)"

definition insn_sfence_inval_ir :: "ctx \<Rightarrow> ('d hart, unit) M" where
  "insn_sfence_inval_ir c = require_extension c (Ext CHR ''S'') (require_extension c EXT_SVINVAL
    (require_impl c IMPL_MMU (\<lambda>s. require_hs_qualified c (PRV_S \<le> prv s) (returnM ()) s)))"
definition insn_sfence_w_inval :: "ctx \<Rightarrow> ('d hart, unit) M" where
  "insn_sfence_w_inval c = insn_sfence_inval_ir c"

definition insn_fence :: "ctx \<Rightarrow> ('d hart, unit) M" where
  "insn_fence c = returnM ()"
definition insn_fence_i :: "ctx \<Rightarrow> ('d hart, unit) M" where
  "insn_fence_i c s = (Inr (), flush_icache s)"

definition insn_wrs_nto :: "ctx \<Rightarrow> ('d hart, unit) M" where
  "insn_wrs_nto c s =
    (if get_field (mstatus_read s) MSTATUS_TW \<noteq> 0 then require_privilege c PRV_M (returnM ()) s
     else if virt s \<and> get_field (hstatus_val s) HSTATUS_VTW \<noteq> 0 then require_novirt c (returnM ()) s
     else returnM () s)"
definition insn_wrs_sto :: "ctx \<Rightarrow> ('d hart, unit) M" where
  "insn_wrs_sto c = returnM ()"

end
