(* ===== verification/PrivFacts.thy ===== *)
theory PrivFacts
  imports Privileged InsnFacts
begin

text \<open>
  Facts about the privileged machine. The bits of the status fields; the frame of every register
  write; and the invariant that the current and the saved privilege modes are modes the hart has,
  kept by every trap, interrupt, return and status write from reset on.
\<close>

section \<open>Status fields as bits\<close>

lemma field_mask_numerals:
  "field_mask 1 1 = 0x2" "field_mask 3 1 = 0x8" "field_mask 5 1 = 0x20" "field_mask 7 1 = 0x80"
  "field_mask 8 1 = 0x100" "field_mask 11 2 = 0x1800" "field_mask 17 1 = 0x20000" "field_mask 23 1 = 0x00800000"
  "field_mask 24 1 = 0x01000000" "field_mask 38 1 = 0x0000004000000000" "field_mask 39 1 = 0x0000008000000000"
  "field_mask 41 1 = 0x0000020000000000" "field_mask 42 1 = 0x0000040000000000"
  "field_mask 6 1 = 0x40" "field_mask 20 1 = 0x100000" "field_mask 21 1 = 0x200000" "field_mask 22 1 = 0x400000"
  by (simp_all add: field_mask_def mask_eq_exp_minus_1)

text \<open>A field of one bit, and the two-bit privilege fields.\<close>

lemma bit_one_word [simp]: "bit (1 :: u64) n \<longleftrightarrow> n = 0"
  by (simp add: bit_1_iff)

lemma bit_field_mask: "bit (field_mask lo len) n \<longleftrightarrow> lo \<le> n \<and> n < lo + len \<and> n < 64"
  by (auto simp: field_mask_def bit_simps)

lemma bit_set_field:
  assumes "0 < len" "lo + len \<le> 64"
  shows "bit (set_field r (field_mask lo len) v) n \<longleftrightarrow> (if lo \<le> n \<and> n < lo + len then bit v (n - lo) else bit r n)"
  unfolding set_field_mask [OF assms]
  using assms bit_imp_le_length [of r n] by (auto simp: bit_or_iff bit_and_iff bit_not_iff bit_field_mask bit_push_bit_iff bit_take_bit_iff)

lemma bit_get_field:
  assumes "0 < len" "lo + len \<le> 64"
  shows "bit (get_field r (field_mask lo len)) n \<longleftrightarrow> n < len \<and> bit r (lo + n)"
  unfolding get_field_mask [OF assms] by (simp add: bit_take_bit_iff bit_drop_bit_eq)

lemma get_bit_field: "k < 64 \<Longrightarrow> get_field r (field_mask k 1) = of_bool (bit r k)"
  by (rule bit_word_eqI) (auto simp: bit_get_field bit_of_bool_iff)

lemma bit_set_bit_field:
  "k < 64 \<Longrightarrow> bit (set_field r (field_mask k 1) v) n \<longleftrightarrow> (if n = k then bit v 0 else bit r n)"
  by (auto simp: bit_set_field)

lemma bit_set_MPP:
  "bit (set_field r (field_mask 11 2) v) n \<longleftrightarrow> (if n = 11 then bit v 0 else if n = 12 then bit v 1 else bit r n)"
proof -
  have "11 \<le> n \<and> n < 13 \<longleftrightarrow> n = 11 \<or> n = 12" by arith
  then show ?thesis by (auto simp: bit_set_field)
qed

lemmas status_bits =
  get_bit_field [of 1, unfolded field_mask_numerals, simplified] get_bit_field [of 3, unfolded field_mask_numerals, simplified]
  get_bit_field [of 5, unfolded field_mask_numerals, simplified] get_bit_field [of 7, unfolded field_mask_numerals, simplified]
  get_bit_field [of 8, unfolded field_mask_numerals, simplified] get_bit_field [of 17, unfolded field_mask_numerals, simplified]
  get_bit_field [of 23, unfolded field_mask_numerals, simplified] get_bit_field [of 24, unfolded field_mask_numerals, simplified]
  get_bit_field [of 38, unfolded field_mask_numerals, simplified] get_bit_field [of 39, unfolded field_mask_numerals, simplified]
  get_bit_field [of 41, unfolded field_mask_numerals, simplified] get_bit_field [of 42, unfolded field_mask_numerals, simplified]
  bit_set_bit_field [of 1, unfolded field_mask_numerals, simplified] bit_set_bit_field [of 3, unfolded field_mask_numerals, simplified]
  bit_set_bit_field [of 5, unfolded field_mask_numerals, simplified] bit_set_bit_field [of 7, unfolded field_mask_numerals, simplified]
  bit_set_bit_field [of 8, unfolded field_mask_numerals, simplified] bit_set_bit_field [of 17, unfolded field_mask_numerals, simplified]
  bit_set_bit_field [of 23, unfolded field_mask_numerals, simplified] bit_set_bit_field [of 24, unfolded field_mask_numerals, simplified]
  bit_set_bit_field [of 38, unfolded field_mask_numerals, simplified] bit_set_bit_field [of 39, unfolded field_mask_numerals, simplified]
  bit_set_bit_field [of 41, unfolded field_mask_numerals, simplified] bit_set_bit_field [of 42, unfolded field_mask_numerals, simplified]
  bit_set_MPP [unfolded field_mask_numerals]


section \<open>What the register writes leave alone\<close>

text \<open>The frame of an operation: the part of the state that decides the privilege of the next
  instruction, apart from mstatus itself.\<close>

definition priv_frame :: "'d hart \<Rightarrow> u64 \<times> bool \<times> u64 \<times> (isa_extension \<Rightarrow> bool) \<times> dcsr_t" where
  "priv_frame s = (prv s, virt s, misa_val s, extension_enable_table s, dcsr s)"

named_theorems frame

lemma frame_update [frame]:
  "priv_frame (s\<lparr>mstatus_val := v_0\<rparr>) = priv_frame s"
  "priv_frame (s\<lparr>vsstatus_val := v_1\<rparr>) = priv_frame s"
  "priv_frame (s\<lparr>hstatus_val := v_2\<rparr>) = priv_frame s"
  "priv_frame (s\<lparr>mnstatus_val := v_3\<rparr>) = priv_frame s"
  "priv_frame (s\<lparr>tcontrol_val := v_4\<rparr>) = priv_frame s"
  "priv_frame (s\<lparr>pc := v_5\<rparr>) = priv_frame s"
  "priv_frame (s\<lparr>npc := v_6\<rparr>) = priv_frame s"
  "priv_frame (s\<lparr>elp := v_7\<rparr>) = priv_frame s"
  "priv_frame (s\<lparr>in_wfi := v_8\<rparr>) = priv_frame s"
  "priv_frame (s\<lparr>debug_mode := v_9\<rparr>) = priv_frame s"
  "priv_frame (s\<lparr>dpc_val := v_10\<rparr>) = priv_frame s"
  "priv_frame (s\<lparr>vscause_val := v_11\<rparr>) = priv_frame s"
  "priv_frame (s\<lparr>vsepc_val := v_12\<rparr>) = priv_frame s"
  "priv_frame (s\<lparr>vstval_val := v_13\<rparr>) = priv_frame s"
  "priv_frame (s\<lparr>scause_val := v_14\<rparr>) = priv_frame s"
  "priv_frame (s\<lparr>sepc_val := v_15\<rparr>) = priv_frame s"
  "priv_frame (s\<lparr>stval_val := v_16\<rparr>) = priv_frame s"
  "priv_frame (s\<lparr>htval_val := v_17\<rparr>) = priv_frame s"
  "priv_frame (s\<lparr>htinst_val := v_18\<rparr>) = priv_frame s"
  "priv_frame (s\<lparr>mepc_val := v_19\<rparr>) = priv_frame s"
  "priv_frame (s\<lparr>mcause_val := v_20\<rparr>) = priv_frame s"
  "priv_frame (s\<lparr>mtval_val := v_21\<rparr>) = priv_frame s"
  "priv_frame (s\<lparr>mtval2_val := v_22\<rparr>) = priv_frame s"
  "priv_frame (s\<lparr>mtinst_val := v_23\<rparr>) = priv_frame s"
  "priv_frame (s\<lparr>critical_error := v_24\<rparr>) = priv_frame s"
  "priv_frame (s\<lparr>single_step := v_25\<rparr>) = priv_frame s"
  "priv_frame (s\<lparr>tlb_insn_tag := v_26\<rparr>) = priv_frame s"
  "priv_frame (s\<lparr>tlb_load_tag := v_27\<rparr>) = priv_frame s"
  "priv_frame (s\<lparr>tlb_store_tag := v_28\<rparr>) = priv_frame s"
  "priv_frame (s\<lparr>icache_tag := v_29\<rparr>) = priv_frame s"
  by (simp_all add: priv_frame_def)

lemma frame_flush [frame]: "priv_frame (flush_tlb s) = priv_frame s" "mstatus_val (flush_tlb s) = mstatus_val s"
  "pc (flush_tlb s) = pc s" "XPR (flush_tlb s) = XPR s"
  by (simp_all add: frame flush_tlb_def flush_icache_def)

lemma frame_maybe [frame]: "priv_frame (maybe_flush_tlb a b s) = priv_frame s"
  "mstatus_val (maybe_flush_tlb a b s) = mstatus_val s" "pc (maybe_flush_tlb a b s) = pc s"
  "XPR (maybe_flush_tlb a b s) = XPR s"
  by (simp_all add: maybe_flush_tlb_def frame)

lemma frame_mstatus [frame]: "priv_frame (mstatus_write c v s) = priv_frame s"
  "priv_frame (mstatush_write c v s) = priv_frame s"
  "pc (mstatus_write c v s) = pc s" "pc (mstatush_write c v s) = pc s"
  "XPR (mstatus_write c v s) = XPR s" "XPR (mstatush_write c v s) = XPR s"
  by (simp_all add: mstatus_write_def mstatush_write_def Let_def frame split del: if_split)

lemma frame_sstatus [frame]: "priv_frame (nonvirtual_sstatus_write c v s) = priv_frame s"
  "pc (nonvirtual_sstatus_write c v s) = pc s" "XPR (nonvirtual_sstatus_write c v s) = XPR s"
  by (simp_all add: nonvirtual_sstatus_write_def Let_def frame split del: if_split)

lemma frame_vsstatus [frame]: "priv_frame (vsstatus_write c v s) = priv_frame s"
  "mstatus_val (vsstatus_write c v s) = mstatus_val s"
  "pc (vsstatus_write c v s) = pc s" "XPR (vsstatus_write c v s) = XPR s"
  by (cases "virt s"; simp add: vsstatus_write_def Let_def frame split del: if_split)+

lemma frame_sstatus_v [frame]: "priv_frame (sstatus_write c v s) = priv_frame s"
  "pc (sstatus_write c v s) = pc s" "XPR (sstatus_write c v s) = XPR s"
  by (simp_all add: sstatus_write_def frame)

lemma frame_cond_flush: "priv_frame (if b then flush_tlb s else s) = priv_frame s"
  "mstatus_val (if b then flush_tlb s else s) = mstatus_val s"
  "pc (if b then flush_tlb s else s) = pc s" "XPR (if b then flush_tlb s else s) = XPR s"
  by (simp_all add: frame)

lemma frame_hstatus [frame]: "priv_frame (hstatus_write v s) = priv_frame s"
  "mstatus_val (hstatus_write v s) = mstatus_val s" "pc (hstatus_write v s) = pc s" "XPR (hstatus_write v s) = XPR s"
  by (simp_all add: hstatus_write_def Let_def frame frame_cond_flush split del: if_split)

lemma frame_mnstatus [frame]: "priv_frame (mnstatus_write v s) = priv_frame s"
  "mstatus_val (mnstatus_write v s) = mstatus_val s" "pc (mnstatus_write v s) = pc s"
  by (simp_all add: mnstatus_write_def Let_def frame split: option.splits split del: if_split)

lemma frame_tcontrol [frame]: "priv_frame (tcontrol_write v s) = priv_frame s"
  "mstatus_val (tcontrol_write v s) = mstatus_val s" "pc (tcontrol_write v s) = pc s" "XPR (tcontrol_write v s) = XPR s"
  by (simp_all add: tcontrol_write_def frame split: option.splits)

lemma frame_serialize [frame]: "priv_frame (set_pc_and_serialize x s) = priv_frame s"
  "mstatus_val (set_pc_and_serialize x s) = mstatus_val s" "XPR (set_pc_and_serialize x s) = XPR s"
  "pc (set_pc_and_serialize x s) = x AND pc_alignment_mask s"
  by (simp_all add: set_pc_and_serialize_def frame)

section \<open>Legal privilege\<close>

text \<open>A privilege mode that the implementation has: the values that legalisation leaves.\<close>

definition legal_prv :: "'d hart \<Rightarrow> u64 \<Rightarrow> bool" where
  "legal_prv s p \<longleftrightarrow> p \<in> {PRV_U, PRV_S, PRV_M} \<and> legalize_privilege s p = p"

definition priv_inv :: "'d hart \<Rightarrow> bool" where
  "priv_inv s \<longleftrightarrow> legal_prv s (prv s) \<and> (virt s \<longrightarrow> prv s \<noteq> PRV_M) \<and>
     legal_prv s (get_field (mstatus_val s) MSTATUS_MPP) \<and> dcsr_prv (dcsr s) \<le> 3"

lemma legal_legalize:
  assumes "p \<in> {0, 1, 2, 3}"
  shows "legal_prv s (legalize_privilege s p)"
  using assms by (auto simp: legal_prv_def legalize_privilege_def prv_defs)

lemma two_bit_field: "get_field r MSTATUS_MPP \<in> {0, 1, 2, 3}" "get_field r MSTATUS_SPP \<in> {0, 1, 2, 3}"
proof -
  have "take_bit 2 (get_field r MSTATUS_MPP) = get_field r MSTATUS_MPP"
    by (subst (1 2) field_mask_numerals(6) [symmetric]) (simp add: get_field_mask)
  then show "get_field r MSTATUS_MPP \<in> {0, 1, 2, 3}" by (rule small_word_cases)
  show "get_field r MSTATUS_SPP \<in> {0, 1, 2, 3}" by (simp add: status_bits)
qed

lemma legal_frame:
  assumes "misa_val s' = misa_val s" "extension_enable_table s' = extension_enable_table s"
  shows "legalize_privilege s' = legalize_privilege s" "legal_prv s' = legal_prv s"
  using assms
  by (auto simp: legal_prv_def legalize_privilege_def extension_enabled_def misa_extension_enabled_def fun_eq_iff)

lemma bit_adjust_sd: "n \<noteq> 31 \<Longrightarrow> n \<noteq> 63 \<Longrightarrow> bit (adjust_sd c v) n = bit v n"
proof -
  have "\<not> bit (0x80000000 :: u64) n" "\<not> bit (0x8000000000000000 :: u64) n" if "n \<noteq> 31" "n \<noteq> 63"
    using bit_push_bit_iff [of 31 "1::u64" n] bit_push_bit_iff [of 63 "1::u64" n] that by (auto simp: push_bit_eq_mult bit_1_iff)
  moreover have "bit (v AND NOT b) n = bit v n" if "\<not> bit b n" for b
    using that bit_imp_le_length [of v n] by (auto simp: bit_and_iff bit_not_iff)
  ultimately show "n \<noteq> 31 \<Longrightarrow> n \<noteq> 63 \<Longrightarrow> bit (adjust_sd c v) n = bit v n"
    unfolding adjust_sd_def Let_def by (auto simp add: bit_or_iff)
qed


lemma mask_bits: "bit (mstatus_mask s) 3" "bit (mstatus_mask s) 7" "bit (mstatus_mask s) 11" "bit (mstatus_mask s) 12"
  by (simp_all add: mstatus_mask_def Let_def bit_or_iff)

lemma clear_bit: "bit (w AND NOT (push_bit k 1)) n \<longleftrightarrow> n \<noteq> k \<and> bit w n" for w :: u64
  using bit_imp_le_length [of w n] by (auto simp: bit_and_iff bit_not_iff bit_exp_iff)

lemma single_bit_not:
  "bit (w AND - 9) n \<longleftrightarrow> n \<noteq> 3 \<and> bit w n" "bit (w AND - 3) n \<longleftrightarrow> n \<noteq> 1 \<and> bit w n" for w :: u64
  using clear_bit [of w 3 n] clear_bit [of w 1 n] by (simp_all add: push_bit_eq_mult)

lemma mstatus_write_bit:
  assumes "n \<notin> {1, 31, 63}"
  shows "bit (mstatus_val (mstatus_write c v s)) n \<longleftrightarrow>
    (if bit (mstatus_mask s) n
     then bit (set_field v MSTATUS_MPP (legalize_privilege s (get_field v MSTATUS_MPP))) n else bit (mstatus_val s) n)
    \<and> \<not> (n = 3 \<and> (if bit (mstatus_mask s) 42 then bit v 42 else bit (mstatus_val s) 42))"
proof -
  let ?a = "set_field v MSTATUS_MPP (legalize_privilege s (get_field v MSTATUS_MPP))"
  let ?m = "mstatus_mask s"
  have b: "bit ((mstatus_val s AND NOT ?m) OR (?a AND ?m)) k \<longleftrightarrow> (if bit ?m k then bit ?a k else bit (mstatus_val s) k)" for k
    using bit_imp_le_length [of "mstatus_val s" k] by (auto simp: bit_or_iff bit_and_iff bit_not_iff)
  have d: "w AND MSTATUS_MDT \<noteq> 0 \<longleftrightarrow> bit w 42" for w :: u64
    using bit_iff_and_push_bit_not_eq_0 [of w 42] by (simp add: push_bit_eq_mult)
  have "bit (mstatus_val (mstatus_write c v s)) n =
     bit (let w = (mstatus_val s AND NOT ?m) OR (?a AND ?m) in if w AND MSTATUS_MDT \<noteq> 0 then w AND NOT MSTATUS_MIE else w) n"
    using assms by (auto simp: mstatus_write_def Let_def mstatus_read_def bit_adjust_sd single_bit_not)
  then show ?thesis by (auto simp: Let_def d b single_bit_not status_bits)
qed

lemma mstatus_write_MPP:
  "get_field (mstatus_val (mstatus_write c v s)) MSTATUS_MPP = legalize_privilege s (get_field v MSTATUS_MPP)"
proof -
  let ?l = "legalize_privilege s (get_field v MSTATUS_MPP)"
  have l: "?l \<in> {0, 1, 2, 3}" using legal_legalize [OF two_bit_field(1), of s v] by (auto simp: legal_prv_def prv_defs)
  have g: "bit (get_field r MSTATUS_MPP) n \<longleftrightarrow> n < 2 \<and> bit r (11 + n)" for r n
    using bit_get_field [of 2 11] by (simp add: field_mask_numerals)
  have l2: "take_bit 2 ?l = ?l" using l by auto
  have lb: "bit ?l n \<longleftrightarrow> n < 2 \<and> bit ?l n" for n by (subst l2 [symmetric]) (auto simp: bit_take_bit_iff)
  have 0: "bit (mstatus_val (mstatus_write c v s)) 11 = bit ?l 0" "bit (mstatus_val (mstatus_write c v s)) 12 = bit ?l 1"
    by (subst mstatus_write_bit; simp add: mask_bits status_bits)+
  show ?thesis
  proof (rule bit_word_eqI)
    fix n :: nat
    consider "n = 0" | "n = 1" | "2 \<le> n" by linarith
    then show "bit (get_field (mstatus_val (mstatus_write c v s)) MSTATUS_MPP) n = bit ?l n"
      using 0 lb [of n] by cases (simp_all add: g)
  qed
qed

section \<open>Preservation\<close>

text \<open>The part of the invariant that does not mention the current mode: every write keeps it,
  and \<^verbatim>\<open>set_privilege\<close> establishes the rest.\<close>

definition mpp_inv :: "'d hart \<Rightarrow> bool" where
  "mpp_inv s \<longleftrightarrow> legal_prv s (get_field (mstatus_val s) MSTATUS_MPP) \<and> dcsr_prv (dcsr s) \<le> 3"

lemma priv_inv_mpp: "priv_inv s \<Longrightarrow> mpp_inv s"
  by (simp add: priv_inv_def mpp_inv_def)

lemma frame_legal:
  assumes "priv_frame s' = priv_frame s"
  shows "legal_prv s' = legal_prv s" "dcsr s' = dcsr s" "prv s' = prv s" "virt s' = virt s"
    "extension_enabled s' = extension_enabled s" "legalize_privilege s' = legalize_privilege s"
proof -
  have e: "misa_val s' = misa_val s" "extension_enable_table s' = extension_enable_table s"
    "dcsr s' = dcsr s" "prv s' = prv s" "virt s' = virt s"
    using assms by (simp_all add: priv_frame_def)
  show "legal_prv s' = legal_prv s" "legalize_privilege s' = legalize_privilege s" by (rule legal_frame [OF e(1,2)])+
  show "dcsr s' = dcsr s" "prv s' = prv s" "virt s' = virt s" by (rule e)+
  show "extension_enabled s' = extension_enabled s" using e
    by (auto simp: fun_eq_iff extension_enabled_def misa_extension_enabled_def split: isa_extension.splits)
qed

lemma mpp_inv_frame:
  assumes "priv_frame s' = priv_frame s" "mstatus_val s' = mstatus_val s"
  shows "mpp_inv s' = mpp_inv s"
  using assms(2) frame_legal [OF assms(1)] by (simp add: mpp_inv_def)

lemma priv_inv_frame:
  assumes "priv_frame s' = priv_frame s" "mstatus_val s' = mstatus_val s"
  shows "priv_inv s' = priv_inv s"
  using assms(2) frame_legal [OF assms(1)] by (simp add: priv_inv_def)

lemma inv_update:
  "priv_inv (s\<lparr>vsstatus_val := w_0\<rparr>) = priv_inv s"
  "priv_inv (s\<lparr>hstatus_val := w_1\<rparr>) = priv_inv s"
  "priv_inv (s\<lparr>mnstatus_val := w_2\<rparr>) = priv_inv s"
  "priv_inv (s\<lparr>tcontrol_val := w_3\<rparr>) = priv_inv s"
  "priv_inv (s\<lparr>pc := w_4\<rparr>) = priv_inv s"
  "priv_inv (s\<lparr>npc := w_5\<rparr>) = priv_inv s"
  "priv_inv (s\<lparr>elp := w_6\<rparr>) = priv_inv s"
  "priv_inv (s\<lparr>in_wfi := w_7\<rparr>) = priv_inv s"
  "priv_inv (s\<lparr>debug_mode := w_8\<rparr>) = priv_inv s"
  "priv_inv (s\<lparr>dpc_val := w_9\<rparr>) = priv_inv s"
  "priv_inv (s\<lparr>vscause_val := w_10\<rparr>) = priv_inv s"
  "priv_inv (s\<lparr>vsepc_val := w_11\<rparr>) = priv_inv s"
  "priv_inv (s\<lparr>vstval_val := w_12\<rparr>) = priv_inv s"
  "priv_inv (s\<lparr>scause_val := w_13\<rparr>) = priv_inv s"
  "priv_inv (s\<lparr>sepc_val := w_14\<rparr>) = priv_inv s"
  "priv_inv (s\<lparr>stval_val := w_15\<rparr>) = priv_inv s"
  "priv_inv (s\<lparr>htval_val := w_16\<rparr>) = priv_inv s"
  "priv_inv (s\<lparr>htinst_val := w_17\<rparr>) = priv_inv s"
  "priv_inv (s\<lparr>mepc_val := w_18\<rparr>) = priv_inv s"
  "priv_inv (s\<lparr>mcause_val := w_19\<rparr>) = priv_inv s"
  "priv_inv (s\<lparr>mtval_val := w_20\<rparr>) = priv_inv s"
  "priv_inv (s\<lparr>mtval2_val := w_21\<rparr>) = priv_inv s"
  "priv_inv (s\<lparr>mtinst_val := w_22\<rparr>) = priv_inv s"
  "priv_inv (s\<lparr>critical_error := w_23\<rparr>) = priv_inv s"
  "priv_inv (s\<lparr>single_step := w_24\<rparr>) = priv_inv s"
  by (rule priv_inv_frame; simp add: frame)+

lemma inv_mstatus: "priv_inv s \<Longrightarrow> priv_inv (mstatus_write c v s)"
  using frame_legal [OF frame_mstatus(1), of c v s] legal_legalize [OF two_bit_field(1), of s v]
  by (simp add: priv_inv_def mstatus_write_MPP)

lemma inv_writes:
  "priv_inv (vsstatus_write c v s) = priv_inv s" "priv_inv (hstatus_write v s) = priv_inv s"
  "priv_inv (mnstatus_write v s) = priv_inv s" "priv_inv (tcontrol_write v s) = priv_inv s"
  "priv_inv (set_pc_and_serialize x s) = priv_inv s" "priv_inv (flush_tlb s) = priv_inv s"
  by (rule priv_inv_frame; simp add: frame)+

lemma inv_flush_icache: "priv_inv (flush_icache s) = priv_inv s"
  by (rule priv_inv_frame) (simp_all add: flush_icache_def frame)

lemma inv_status_writes:
  "priv_inv s \<Longrightarrow> priv_inv (mstatush_write c v s)" "priv_inv s \<Longrightarrow> priv_inv (nonvirtual_sstatus_write c v s)"
  "priv_inv s \<Longrightarrow> priv_inv (sstatus_write c v s)"
  by (simp_all add: mstatush_write_def nonvirtual_sstatus_write_def sstatus_write_def Let_def inv_mstatus inv_writes)

lemma legalize_flush: "legalize_privilege (flush_tlb s) = legalize_privilege s"
  "legalize_privilege (s\<lparr>prev_prv := p, prev_virt := v\<rparr>) = legalize_privilege s"
  by (rule frame_legal, simp add: frame_flush, rule legal_frame) simp_all

lemma set_privilege_frame:
  "misa_val (set_privilege p v s) = misa_val s" "extension_enable_table (set_privilege p v s) = extension_enable_table s"
  "dcsr (set_privilege p v s) = dcsr s" "mstatus_val (set_privilege p v s) = mstatus_val s"
  "XPR (set_privilege p v s) = XPR s" "pc (set_privilege p v s) = pc s"
  by (simp_all add: set_privilege_def Let_def flush_tlb_def flush_icache_def)

lemma set_privilege_mode:
  "prv (set_privilege p v s) = legalize_privilege s p" "virt (set_privilege p v s) \<longleftrightarrow> v \<and> legalize_privilege s p \<noteq> PRV_M"
  by (simp_all add: set_privilege_def Let_def legalize_flush)

lemma set_privilege_inv:
  assumes "mpp_inv s" "p \<in> {0, 1, 2, 3}"
  shows "priv_inv (set_privilege p v s)"
  using assms legal_legalize [OF assms(2), of s]
  by (simp add: priv_inv_def mpp_inv_def set_privilege_frame set_privilege_mode legal_frame [OF set_privilege_frame(1,2)])

text \<open>Walking through a handler: a bound state keeps the invariant, a bound word is arbitrary.\<close>

lemma Let_state: "priv_inv (a :: 'd hart) \<Longrightarrow> (\<And>x. priv_inv x \<Longrightarrow> P (f x)) \<Longrightarrow> P (Let a f)" by simp
lemma Let_word: "(\<And>x. P (f x)) \<Longrightarrow> P (Let a f)" by simp

lemma Let_field: "(\<And>x. x \<in> {0, 1, 2, 3} \<Longrightarrow> P (f x)) \<Longrightarrow> P (Let (get_field r MSTATUS_MPP) f)"
  "(\<And>x. x \<in> {0, 1, 2, 3} \<Longrightarrow> P (f x)) \<Longrightarrow> P (Let (get_field r MSTATUS_SPP) f)"
  by (simp_all only: Let_def two_bit_field)

lemma inv_cond: "priv_inv s \<Longrightarrow> priv_inv t \<Longrightarrow> priv_inv (if b then s else t)" by simp

lemma inv_option: "priv_inv s \<Longrightarrow> (\<And>x. priv_inv (f x)) \<Longrightarrow> priv_inv (case y of None \<Rightarrow> s | Some x \<Rightarrow> f x)"
  by (simp split: option.split)

lemma set_privilege_inv': "priv_inv s \<Longrightarrow> p \<in> {0, 1, 2, 3} \<Longrightarrow> priv_inv (set_privilege p v s)"
  by (rule set_privilege_inv [OF priv_inv_mpp])

lemma small_prv: "PRV_U \<in> {0, 1, 2, 3}" "PRV_S \<in> {0, 1, 2, 3}" "PRV_M \<in> {0, 1, 2, 3}"
  by (simp_all add: prv_defs)

text \<open>Outcomes of the instructions that end in a change of mode.\<close>

definition inv_result :: "('e + 'a) \<times> 'd hart \<Rightarrow> bool" where
  "inv_result r \<longleftrightarrow> priv_inv (snd r)"

lemma inv_result_pair: "priv_inv s \<Longrightarrow> inv_result (e, s)"
  by (simp add: inv_result_def)

lemma inv_result_cond: "inv_result x \<Longrightarrow> inv_result y \<Longrightarrow> inv_result (if b then x else y)" by simp

lemma inv_result_option: "inv_result x \<Longrightarrow> (\<And>z. inv_result (f z)) \<Longrightarrow> inv_result (case y of None \<Rightarrow> x | Some z \<Rightarrow> f z)"
  by (simp split: option.split)

lemma inv_result_require:
  "priv_inv s \<Longrightarrow> (priv_inv s \<Longrightarrow> inv_result (k s)) \<Longrightarrow> inv_result (require c b k s)"
  "priv_inv s \<Longrightarrow> (priv_inv s \<Longrightarrow> inv_result (k s)) \<Longrightarrow> inv_result (require_novirt c k s)"
  "priv_inv s \<Longrightarrow> (priv_inv s \<Longrightarrow> inv_result (k s)) \<Longrightarrow> inv_result (require_hs_qualified c b k s)"
  "priv_inv s \<Longrightarrow> (priv_inv s \<Longrightarrow> inv_result (k s)) \<Longrightarrow> inv_result (require_privilege c p k s)"
  "priv_inv s \<Longrightarrow> (priv_inv s \<Longrightarrow> inv_result (k s)) \<Longrightarrow> inv_result (require_extension c e k s)"
  "priv_inv s \<Longrightarrow> (priv_inv s \<Longrightarrow> inv_result (k s)) \<Longrightarrow> inv_result (require_impl c i k s)"
  by (simp_all add: inv_result_def require_def require_novirt_def require_hs_qualified_def require_privilege_def
      require_extension_def require_impl_def)

lemma inv_result_lpe:
  assumes "priv_inv s" "\<And>x. priv_inv s \<Longrightarrow> inv_result (k x s)"
  shows "inv_result (bindM (ZICFILP_xLPE v p) k s)"
  using assms by (auto simp: inv_result_def bindM_def ZICFILP_xLPE_def Let_def)

lemma inv_result_const: "priv_inv s \<Longrightarrow> inv_result (returnM x s)" "priv_inv s \<Longrightarrow> inv_result (wfi s)"
  "priv_inv s \<Longrightarrow> inv_result (tlb_flush s)" "priv_inv s \<Longrightarrow> inv_result (throwM e s)"
  by (simp_all add: inv_result_def returnM_def wfi_def tlb_flush_def throwM_def inv_writes)

lemmas inv_let = Let_field [where P = priv_inv] Let_field [where P = inv_result] Let_state [where P = priv_inv] Let_word [where P = priv_inv]
  Let_state [where P = inv_result] Let_word [where P = inv_result]

lemmas inv_rules = inv_let inv_result_require inv_result_lpe inv_result_const inv_result_option inv_result_cond inv_result_pair
  set_privilege_inv' small_prv two_bit_field inv_cond inv_option inv_mstatus inv_status_writes
  inv_writes [THEN iffD2] inv_flush_icache [THEN iffD2] inv_update [THEN iffD2]

section \<open>Every operation keeps the invariant\<close>

lemma trap_to_inv:
  assumes "priv_inv s"
  shows "priv_inv (trap_to_vs c t i b epc s)" "priv_inv (trap_to_hs c t i b epc s)"
    "priv_inv (trap_to_m c t i b d epc s)"
  unfolding trap_to_vs_def trap_to_hs_def trap_to_m_def
  by (assumption | rule inv_rules assms)+

lemma take_trap_inv: "priv_inv s \<Longrightarrow> priv_inv (take_trap c t epc s)"
  unfolding take_trap_def by (assumption | rule trap_to_inv inv_rules)+

lemma take_interrupt_inv: "priv_inv s \<Longrightarrow> inv_result (take_interrupt c p s)"
  unfolding take_interrupt_def by (assumption | rule inv_rules)+

lemma enter_debug_inv:
  assumes "priv_inv s"
  shows "priv_inv (enter_debug_mode cause ext s)"
proof -
  let ?s = "s\<lparr>debug_mode := True, dcsr := dcsr_update_fields cause ext (prv s) (virt s) (elp s) (dcsr s), elp := NO_LP_EXPECTED\<rparr>"
  have "ucast (prv s) \<le> (3 :: u8)" using assms by (auto simp: priv_inv_def legal_prv_def prv_defs)
  moreover have "legal_prv ?s = legal_prv s" by (rule legal_frame) simp_all
  ultimately have "mpp_inv ?s" using priv_inv_mpp [OF assms] by (simp add: mpp_inv_def dcsr_update_fields_def)
  from set_privilege_inv [OF this small_prv(3)] have "priv_inv (set_privilege PRV_M False ?s)" .
  then show ?thesis by (simp add: enter_debug_mode_def Let_def inv_update)
qed

lemma mret_inv: "priv_inv s \<Longrightarrow> inv_result (insn_mret c s)"
  unfolding insn_mret_def by (assumption | rule inv_rules)+

lemma sret_inv: "priv_inv s \<Longrightarrow> inv_result (insn_sret c s)"
  unfolding insn_sret_def sret_allowed_def by (assumption | rule inv_rules)+

lemma mnret_inv: "priv_inv s \<Longrightarrow> inv_result (insn_mnret c s)"
  unfolding insn_mnret_def by (assumption | rule inv_rules)+

lemma dcsr_prv_small: "priv_inv s \<Longrightarrow> ucast (dcsr_prv (dcsr s)) \<in> {0, 1, 2, 3 :: u64}"
proof -
  assume "priv_inv s"
  then have "uint (dcsr_prv (dcsr s)) \<le> 3" by (simp add: priv_inv_def word_le_def)
  moreover have "0 \<le> uint (dcsr_prv (dcsr s))" by simp
  ultimately have "uint (dcsr_prv (dcsr s)) = 0 \<or> uint (dcsr_prv (dcsr s)) = 1 \<or> uint (dcsr_prv (dcsr s)) = 2 \<or>
    uint (dcsr_prv (dcsr s)) = 3" by arith
  then have "uint (dcsr_prv (dcsr s)) \<in> {0, 1, 2, 3}" by blast
  then have "uint (ucast (dcsr_prv (dcsr s)) :: u64) \<in> {0, 1, 2, 3}" by (simp add: uint_up_ucast is_up)
  then show ?thesis by (auto simp: word_uint_eq_iff)
qed

lemma Let_dcsr:
  "priv_inv s \<Longrightarrow> (\<And>d. ucast (dcsr_prv d) \<in> {0, 1, 2, 3 :: u64} \<Longrightarrow> P (f d)) \<Longrightarrow> P (Let (dcsr s) f)"
  unfolding Let_def by (drule dcsr_prv_small)

lemma Let_dcsr_prv:
  assumes "ucast (dcsr_prv d) \<in> {0, 1, 2, 3 :: u64}" "\<And>p :: u64. p \<in> {0, 1, 2, 3} \<Longrightarrow> P (g p)"
  shows "P (Let (ucast (dcsr_prv d)) g)"
  unfolding Let_def by (rule assms(2) [OF assms(1)])

lemma clear_sdt_inv: "priv_inv s \<Longrightarrow> priv_inv (dret_clear_sdt c p v s)"
  unfolding dret_clear_sdt_def by (assumption | rule inv_rules)+

lemma dret_inv: "priv_inv s \<Longrightarrow> inv_result (insn_dret c s)"
  unfolding insn_dret_def
  by (assumption | rule Let_dcsr [where P = inv_result] Let_dcsr_prv [where P = inv_result] clear_sdt_inv inv_rules)+

definition priv_bodies :: "(ctx \<Rightarrow> ('d hart, unit) M) list" where
  "priv_bodies = [insn_mret, insn_sret, insn_mnret, insn_dret, insn_wfi, insn_sfence_vma, insn_hfence_vvma,
     insn_hfence_gvma, insn_sinval_vma, insn_hinval_vvma, insn_hinval_gvma, insn_sfence_inval_ir, insn_sfence_w_inval,
     insn_fence, insn_fence_i, insn_wrs_nto, insn_wrs_sto]"

lemma fences_inv:
  assumes "priv_inv s"
  shows "inv_result (insn_wfi c s)" "inv_result (insn_sfence_vma c s)" "inv_result (insn_hfence_vvma c s)"
    "inv_result (insn_hfence_gvma c s)" "inv_result (insn_sinval_vma c s)" "inv_result (insn_hinval_vvma c s)"
    "inv_result (insn_hinval_gvma c s)" "inv_result (insn_sfence_inval_ir c s)" "inv_result (insn_sfence_w_inval c s)"
    "inv_result (insn_fence c s)" "inv_result (insn_fence_i c s)" "inv_result (insn_wrs_nto c s)" "inv_result (insn_wrs_sto c s)"
  unfolding insn_wfi_def insn_sfence_vma_def insn_hfence_vvma_def insn_hfence_gvma_def insn_sinval_vma_def
    insn_hinval_vvma_def insn_hinval_gvma_def insn_sfence_inval_ir_def insn_sfence_w_inval_def insn_fence_def
    insn_fence_i_def insn_wrs_nto_def insn_wrs_sto_def
  by (assumption | rule inv_rules assms)+

section \<open>The privileged machine\<close>

text \<open>One step of the privileged part of a hart: a trap, an interrupt, an entry into debug mode,
  a privileged instruction or a write to a status register. The context of each step is free:
  the instruction and its address change from step to step.\<close>

definition status_writes :: "ctx \<Rightarrow> (u64 \<Rightarrow> 'd hart \<Rightarrow> 'd hart) list" where
  "status_writes c = [mstatus_write c, mstatush_write c, nonvirtual_sstatus_write c, vsstatus_write c,
     sstatus_write c, hstatus_write, mnstatus_write, tcontrol_write]"

inductive priv_step :: "'d hart \<Rightarrow> 'd hart \<Rightarrow> bool" where
  step_trap: "priv_step s (take_trap c t epc s)"
| step_interrupt: "take_pending_interrupt c s = (Inl (Trap t), s') \<Longrightarrow> priv_step s (take_trap c t (pc s') s')"
| step_no_interrupt: "take_pending_interrupt c s = (Inr (), s') \<Longrightarrow> priv_step s s'"
| step_debug: "priv_step s (enter_debug_mode cause ext s)"
| step_insn: "body \<in> set priv_bodies \<Longrightarrow> priv_step s (snd (body c s))"
| step_csr: "w \<in> set (status_writes c) \<Longrightarrow> priv_step s (w v s)"

inductive priv_reach :: "'d hart \<Rightarrow> 'd hart \<Rightarrow> bool" for s0 where
  reach_refl: "priv_reach s0 s0"
| reach_step: "priv_reach s0 s \<Longrightarrow> priv_step s s' \<Longrightarrow> priv_reach s0 s'"

inductive_cases priv_stepE: "priv_step s s'"

lemma status_writes_inv: "priv_inv s \<Longrightarrow> w \<in> set (status_writes c) \<Longrightarrow> priv_inv (w v s)"
  by (auto simp: status_writes_def inv_mstatus inv_status_writes inv_writes)

lemma priv_bodies_inv: "priv_inv s \<Longrightarrow> body \<in> set priv_bodies \<Longrightarrow> inv_result (body c s)"
  using mret_inv [of s c] sret_inv [of s c] mnret_inv [of s c] dret_inv [of s c] fences_inv [of s c]
  by (auto simp: priv_bodies_def)

lemma priv_step_inv: "priv_step s s' \<Longrightarrow> priv_inv s \<Longrightarrow> priv_inv s'"
proof (induction rule: priv_step.induct)
  case (step_interrupt c s t s')
  then have "priv_inv s'" using take_interrupt_inv [of s c "mip_read s AND mie_val s"]
    by (simp add: take_pending_interrupt_def inv_result_def)
  then show ?case by (rule take_trap_inv)
next
  case (step_no_interrupt c s s')
  then show ?case using take_interrupt_inv [of s c "mip_read s AND mie_val s"]
    by (simp add: take_pending_interrupt_def inv_result_def)
next
  case (step_insn body s c)
  then show ?case using priv_bodies_inv [of s body c] by (simp add: inv_result_def)
qed (simp_all add: take_trap_inv enter_debug_inv status_writes_inv)

lemma priv_reach_inv: "priv_reach s0 s \<Longrightarrow> priv_inv s0 \<Longrightarrow> priv_inv s"
  by (induction rule: priv_reach.induct) (auto intro: priv_step_inv)

lemma bit_PRV: "bit PRV_M n \<longleftrightarrow> n < 2" "\<not> bit PRV_U n"
proof -
  have "PRV_M = mask 2" by (simp add: PRV_M_def mask_eq_exp_minus_1)
  show "bit PRV_M n \<longleftrightarrow> n < 2" unfolding \<open>PRV_M = mask 2\<close> by (auto simp: bit_mask_iff)
qed (simp add: PRV_U_def)

lemma reset_MPP: "get_field (compute_mstatus_initial_value c b) MSTATUS_MPP =
  (if isa_table c (Ext CHR ''U'') then PRV_U else PRV_M)"
proof -
  have z: "\<not> bit (set_field 0 0x300000000 x) n" "\<not> bit (set_field 0 0xC00000000 x) n" if "n = 11 \<or> n = 12" for x n
  proof -
    have e: "(0x300000000 :: u64) = field_mask 32 2" "(0xC00000000 :: u64) = field_mask 34 2"
      by (simp_all add: field_mask_def mask_eq_exp_minus_1)
    show "\<not> bit (set_field 0 0x300000000 x) n" "\<not> bit (set_field 0 0xC00000000 x) n"
      unfolding e using that by (auto simp: bit_set_field)
  qed
  have e: "bit (compute_mstatus_initial_value c b) n =
      bit (set_field 0 MSTATUS_MPP (if isa_table c (Ext CHR ''U'') then PRV_U else PRV_M)) n" if "n = 11 \<or> n = 12" for n
    using that z by (auto simp: compute_mstatus_initial_value_def Let_def bit_or_iff)
  show ?thesis
  proof (rule bit_word_eqI)
    fix n :: nat
    consider "n = 0" | "n = 1" | "2 \<le> n" by linarith
    then show "bit (get_field (compute_mstatus_initial_value c b) MSTATUS_MPP) n =
        bit (if isa_table c (Ext CHR ''U'') then PRV_U else PRV_M) n"
      using bit_get_field [of 2 11] e [of 11] e [of 12]
      by cases (auto simp: field_mask_numerals status_bits bit_PRV)
  qed
qed

lemma reset_inv:
  assumes "extension_enabled (hart_reset c g d) (Ext CHR ''U'') = isa_table c (Ext CHR ''U'')"
  shows "priv_inv (hart_reset c g d)"
proof -
  have m: "mstatus_val (hart_reset c g d) = compute_mstatus_initial_value c (big_endian g)"
    "dcsr (hart_reset c g d) = dcsr_init"
    by (simp_all add: hart_reset_def hart_blank_def Let_def)
  have "legal_prv (hart_reset c g d) PRV_M" "isa_table c (Ext CHR ''U'') \<Longrightarrow> legal_prv (hart_reset c g d) PRV_U"
    using assms by (simp_all add: legal_prv_def legalize_privilege_def prv_defs)
  then show ?thesis by (simp add: priv_inv_def m reset_MPP dcsr_init_def)
qed

section \<open>Properties\<close>

text \<open>The modes a hart has: machine mode, user mode with the U extension, and supervisor mode with both U and S.\<close>

definition modes :: "'d hart \<Rightarrow> u64 set" where
  "modes s = {PRV_M} \<union> (if extension_enabled s (Ext CHR ''U'') then {PRV_U} else {})
     \<union> (if extension_enabled s (Ext CHR ''U'') \<and> extension_enabled s (Ext CHR ''S'') then {PRV_S} else {})"

lemma legal_modes: "legal_prv s p \<longleftrightarrow> p \<in> modes s"
  by (auto simp: legal_prv_def legalize_privilege_def modes_def prv_defs)

text \<open>C1: From reset on, whatever traps, interrupts, debug entries, privileged instructions and status register writes happen, the current mode and the mode saved in mstatus.MPP are modes the hart has (user mode only with the U extension, supervisor mode only with both U and S, and otherwise machine mode), and the virtualisation bit is never set in machine mode. The hart is reset with the user mode that its instruction set string names.\<close>

theorem privilege_always_legal:
  assumes "priv_reach (hart_reset c g d) s"
    "extension_enabled (hart_reset c g d) (Ext CHR ''U'') = isa_table c (Ext CHR ''U'')"
  shows "prv s \<in> modes s \<and> get_field (mstatus_val s) MSTATUS_MPP \<in> modes s \<and> (virt s \<longrightarrow> prv s \<noteq> PRV_M)"
  using priv_reach_inv [OF assms(1) reset_inv [OF assms(2)]] by (simp add: priv_inv_def legal_modes)

theorem privilege_always_legal_witness:
  "prv (snd (insn_mret (ctx_full 64 0x30200073 0) (hart_reset (ctx_full 64 0 0) cfg_full ())))
    \<in> modes (snd (insn_mret (ctx_full 64 0x30200073 0) (hart_reset (ctx_full 64 0 0) cfg_full ())))"
proof -
  have "priv_reach (hart_reset (ctx_full 64 0 0) cfg_full ())
     (snd (insn_mret (ctx_full 64 0x30200073 0) (hart_reset (ctx_full 64 0 0) cfg_full ())))"
    by (rule reach_step [OF reach_refl step_insn]) (simp add: priv_bodies_def)
  from privilege_always_legal [OF this] show ?thesis
    by (simp add: extension_enabled_def misa_extension_enabled_def ctx_full_def cfg_full_def hart_reset_def hart_blank_def Let_def)
qed

end
