(* ===== verification/InterruptFacts.thy ===== *)
theory InterruptFacts
  imports PrivFacts
begin

text \<open>
  Which interrupt a hart takes: the enabled set is sound and complete with respect to a gate stated
  from the delegation and enable registers, machine-level interrupts hide the others, and the one
  selected is of the highest priority in the set.
\<close>

section \<open>Interrupts\<close>

text \<open>The priority of an interrupt number, the smaller first.\<close>

definition int_rank :: "nat \<Rightarrow> nat" where
  "int_rank j = (if 12 \<le> j then 0 else length (takeWhile (\<lambda>k. k \<noteq> j) [11, 3, 7, 9, 1, 5, 10, 2, 6]) + 1)"

lemma and_bit: "w AND MIP_MEIP \<noteq> 0 \<longleftrightarrow> bit w 11" "w AND MIP_MSIP \<noteq> 0 \<longleftrightarrow> bit w 3" "w AND MIP_MTIP \<noteq> 0 \<longleftrightarrow> bit w 7"
  "w AND MIP_SEIP \<noteq> 0 \<longleftrightarrow> bit w 9" "w AND MIP_SSIP \<noteq> 0 \<longleftrightarrow> bit w 1" "w AND MIP_STIP \<noteq> 0 \<longleftrightarrow> bit w 5"
  "w AND MIP_LCOFIP \<noteq> 0 \<longleftrightarrow> bit w 13" "w AND MIP_VSEIP \<noteq> 0 \<longleftrightarrow> bit w 10" "w AND MIP_VSSIP \<noteq> 0 \<longleftrightarrow> bit w 2"
  "w AND MIP_VSTIP \<noteq> 0 \<longleftrightarrow> bit w 6" for w :: u64
  using bit_iff_and_push_bit_not_eq_0 [of w] by (simp_all add: push_bit_eq_mult)

lemma ctz_single: "ctz MIP_MEIP = 11" "ctz MIP_MSIP = 3" "ctz MIP_MTIP = 7" "ctz MIP_SEIP = 9" "ctz MIP_SSIP = 1"
  "ctz MIP_STIP = 5" "ctz MIP_VSEIP = 10" "ctz MIP_VSSIP = 2" "ctz MIP_VSTIP = 6"
  by (simp_all add: ctz_def ctz_line_def)

lemma select_high:
  assumes "drop_bit 12 e \<noteq> 0"
  shows "\<exists>w. select_interrupt e = Some w \<and> bit e (ctz w) \<and> 12 \<le> ctz w"
proof -
  let ?w = "push_bit 12 (drop_bit 12 e)"
  obtain k where k: "bit (drop_bit 12 e) k" using assms by (auto simp: bit_eq_iff)
  then have "bit ?w (12 + k)" using bit_imp_le_length [of e "12 + k"] by (auto simp: bit_simps)
  then have "?w \<noteq> 0" by auto
  from ctz_correct [OF this] have "bit ?w (ctz ?w)" by blast
  then have "12 \<le> ctz ?w" "bit e (ctz ?w)" by (auto simp: bit_simps simp del: push_bit_numeral)
  then show ?thesis using assms by (auto simp: select_interrupt_def IRQ_M_EXT_def)
qed

lemma below12: "n < 12 \<Longrightarrow> n \<in> {0, 1, 2, 3, 4, 5, 6, 7, 8, 9, 10, 11}" for n :: nat
  by (simp add: numeral_eq_Suc less_Suc_eq)

lemma select_spec:
  assumes "e \<noteq> 0" "\<not> bit e 0" "\<not> bit e 4" "\<not> bit e 8"
  shows "\<exists>w. select_interrupt e = Some w \<and> bit e (ctz w) \<and> (\<forall>j. bit e j \<longrightarrow> int_rank (ctz w) \<le> int_rank j)"
proof (cases "drop_bit 12 e = 0")
  case False
  from select_high [OF this] obtain w where w: "select_interrupt e = Some w" "bit e (ctz w)" "12 \<le> ctz w" by blast
  moreover have "int_rank (ctz w) = 0" using w(3) by (simp only: int_rank_def if_True)
  ultimately show ?thesis by simp
next
  case True
  have hi: "j < 12" if "bit e j" for j
  proof (rule ccontr)
    assume "\<not> j < 12"
    then have "bit (drop_bit 12 e) (j - 12)" using that by (simp add: bit_drop_bit_eq)
    then show False using True by simp
  qed
  obtain j where j: "bit e j" using assms(1) by (auto simp: bit_eq_iff)
  have some: "bit e 11 \<or> bit e 3 \<or> bit e 7 \<or> bit e 9 \<or> bit e 1 \<or> bit e 5 \<or> bit e 10 \<or> bit e 2 \<or> bit e 6"
    using below12 [OF hi [OF j]] j assms(2-4) by auto
  have mem: "j \<in> set [1, 2, 3, 5, 6, 7, 9, 10, 11]" if "bit e j" for j
    using below12 [OF hi [OF that]] that assms(2-4) by auto
  have dom: "(\<forall>j. bit e j \<longrightarrow> r \<le> int_rank j) \<longleftrightarrow>
     (\<forall>j \<in> set [1, 2, 3, 5, 6, 7, 9, 10, 11]. bit e j \<longrightarrow> r \<le> int_rank j)" for r
    using mem by blast
  have n13: "\<not> bit e 13" using hi [of 13] by auto
  have ranks: "int_rank 11 = 1" "int_rank 3 = 2" "int_rank 7 = 3" "int_rank 9 = 4" "int_rank 1 = 5" "int_rank 5 = 6"
    "int_rank 10 = 7" "int_rank 2 = 8" "int_rank 6 = 9" by (simp_all add: int_rank_def)
  have sel: "select_interrupt e = (if bit e 11 then Some MIP_MEIP else if bit e 3 then Some MIP_MSIP
     else if bit e 7 then Some MIP_MTIP else if bit e 9 then Some MIP_SEIP else if bit e 1 then Some MIP_SSIP
     else if bit e 5 then Some MIP_STIP else if bit e 10 then Some MIP_VSEIP else if bit e 2 then Some MIP_VSSIP
     else if bit e 6 then Some MIP_VSTIP else None)"
    unfolding select_interrupt_def IRQ_M_EXT_def and_bit using True n13 by simp
  have all: "(\<forall>j. bit e j \<longrightarrow> r \<le> int_rank j) \<longleftrightarrow>
     (bit e 1 \<longrightarrow> r \<le> 5) \<and> (bit e 2 \<longrightarrow> r \<le> 8) \<and> (bit e 3 \<longrightarrow> r \<le> 2) \<and> (bit e 5 \<longrightarrow> r \<le> 6) \<and> (bit e 6 \<longrightarrow> r \<le> 9)
     \<and> (bit e 7 \<longrightarrow> r \<le> 3) \<and> (bit e 9 \<longrightarrow> r \<le> 4) \<and> (bit e 10 \<longrightarrow> r \<le> 7) \<and> (bit e 11 \<longrightarrow> r \<le> 1)" for r
    unfolding dom by (simp only: list.set ball_simps insert_iff empty_iff ranks) auto
  consider
     "bit e 11"
    | "\<not> bit e 11" "bit e 3"
    | "\<not> bit e 11" "\<not> bit e 3" "bit e 7"
    | "\<not> bit e 11" "\<not> bit e 3" "\<not> bit e 7" "bit e 9"
    | "\<not> bit e 11" "\<not> bit e 3" "\<not> bit e 7" "\<not> bit e 9" "bit e 1"
    | "\<not> bit e 11" "\<not> bit e 3" "\<not> bit e 7" "\<not> bit e 9" "\<not> bit e 1" "bit e 5"
    | "\<not> bit e 11" "\<not> bit e 3" "\<not> bit e 7" "\<not> bit e 9" "\<not> bit e 1" "\<not> bit e 5" "bit e 10"
    | "\<not> bit e 11" "\<not> bit e 3" "\<not> bit e 7" "\<not> bit e 9" "\<not> bit e 1" "\<not> bit e 5" "\<not> bit e 10" "bit e 2"
    | "\<not> bit e 11" "\<not> bit e 3" "\<not> bit e 7" "\<not> bit e 9" "\<not> bit e 1" "\<not> bit e 5" "\<not> bit e 10" "\<not> bit e 2" "bit e 6"
    using some by blast
  then show ?thesis unfolding sel all
    by cases (simp_all add: ctz_single ranks del: One_nat_def)
qed

text \<open>Whether interrupt \<open>i\<close> may be taken in the current mode.\<close>

definition int_gate :: "ctx \<Rightarrow> 'd hart \<Rightarrow> nat \<Rightarrow> bool" where
  "int_gate c s i \<longleftrightarrow>
    (if \<not> bit (mideleg_read s) i then prv s < PRV_M \<or> (prv s = PRV_M \<and> bit (mstatus_val s) 3)
     else if \<not> bit (hideleg_read s) i then virt s \<or> prv s < PRV_S \<or> (prv s = PRV_S \<and> bit (sstatus_read c s) 1)
     else virt s \<and> (prv s < PRV_S \<or> (prv s = PRV_S \<and> bit (sstatus_read c s) 1)))"

lemma hideleg_sub: "bit (hideleg_read s) i \<Longrightarrow> bit (mideleg_read s) i"
  by (simp add: hideleg_read_def bit_and_iff)

text \<open>The three candidate sets, one for each destination.\<close>

definition m_candidates :: "u64 \<Rightarrow> 'd hart \<Rightarrow> u64" where
  "m_candidates p s = p AND NOT (mideleg_read s) AND
     (if prv s < PRV_M \<or> (prv s = PRV_M \<and> bit (mstatus_val s) 3) then - 1 else 0)"
definition hs_candidates :: "ctx \<Rightarrow> u64 \<Rightarrow> 'd hart \<Rightarrow> u64" where
  "hs_candidates c p s = p AND (mideleg_read s AND NOT (hideleg_read s)) AND
     (if virt s \<or> prv s < PRV_S \<or> (prv s = PRV_S \<and> bit (sstatus_read c s) 1) then - 1 else 0)"
definition vs_candidates :: "ctx \<Rightarrow> u64 \<Rightarrow> 'd hart \<Rightarrow> u64" where
  "vs_candidates c p s = p AND hideleg_read s AND
     (if prv s < PRV_S \<or> (prv s = PRV_S \<and> bit (sstatus_read c s) 1) then - 1 else 0)"

lemma of_bool_nz: "(of_bool b :: u64) \<noteq> 0 \<longleftrightarrow> b" by simp
lemma if_not_nz: "(if x = 0 then a else b) = (if x \<noteq> 0 then b else a)" by simp

lemma enabled_cases:
  "enabled_interrupts c p s = (if m_candidates p s \<noteq> 0 then m_candidates p s
     else if virt s \<and> hs_candidates c p s = 0 then vs_candidates c p s else hs_candidates c p s)"
  unfolding enabled_interrupts_def m_candidates_def hs_candidates_def vs_candidates_def Let_def status_bits mstatus_read_def
    of_bool_nz by (cases "virt s") (simp_all only: HOL.simp_thms if_True if_False not_not if_not_nz One_nat_def)

lemma bit_masked: "bit (w AND (if b then - 1 else 0)) n \<longleftrightarrow> b \<and> bit w n" for w :: u64
  by simp

lemma candidate_bits:
  "bit (m_candidates p s) i \<longleftrightarrow> bit p i \<and> \<not> bit (mideleg_read s) i \<and>
     (prv s < PRV_M \<or> (prv s = PRV_M \<and> bit (mstatus_val s) 3))"
  "bit (hs_candidates c p s) i \<longleftrightarrow> bit p i \<and> bit (mideleg_read s) i \<and> \<not> bit (hideleg_read s) i \<and>
     (virt s \<or> prv s < PRV_S \<or> (prv s = PRV_S \<and> bit (sstatus_read c s) 1))"
  "bit (vs_candidates c p s) i \<longleftrightarrow> bit p i \<and> bit (hideleg_read s) i \<and>
     (prv s < PRV_S \<or> (prv s = PRV_S \<and> bit (sstatus_read c s) 1))"
  using bit_imp_le_length [of p i]
  unfolding m_candidates_def hs_candidates_def vs_candidates_def bit_masked bit_and_iff bit_not_iff by auto

lemma wfi_frame:
  "mideleg_read (s\<lparr>in_wfi := b\<rparr>) = mideleg_read s" "hideleg_read (s\<lparr>in_wfi := b\<rparr>) = hideleg_read s"
  "mstatus_read (s\<lparr>in_wfi := b\<rparr>) = mstatus_read s" "sstatus_read c (s\<lparr>in_wfi := b\<rparr>) = sstatus_read c s"
  by (simp_all add: mstatus_read_def mideleg_read_def hideleg_read_def sstatus_read_def vsstatus_read_def
    nonvirtual_sstatus_read_def henvcfg_read_def sstatus_read_mask_def extension_enabled_def misa_extension_enabled_def)

lemma enabled_frame: "enabled_interrupts c p (s\<lparr>in_wfi := b\<rparr>) = enabled_interrupts c p s"
  unfolding enabled_cases m_candidates_def hs_candidates_def vs_candidates_def wfi_frame by (simp cong: if_cong split del: if_split)

lemma zero_bits: "w = 0 \<longleftrightarrow> (\<forall>n. \<not> bit w n)" for w :: u64
proof
  show "\<forall>n. \<not> bit w n \<Longrightarrow> w = 0" by (rule bit_word_eqI) simp
qed simp

lemma enabled_sound:
  assumes "bit (enabled_interrupts c p s) i"
  shows "bit p i \<and> int_gate c s i"
  using assms hideleg_sub [of s i] unfolding enabled_cases int_gate_def
  by (auto simp: candidate_bits split: if_splits)

lemma enabled_complete:
  assumes "enabled_interrupts c p s = 0" "bit p i"
  shows "\<not> int_gate c s i"
proof -
  have "m_candidates p s = 0" "hs_candidates c p s = 0" "virt s \<Longrightarrow> vs_candidates c p s = 0"
    using assms(1) unfolding enabled_cases by (auto split: if_splits)
  then have "\<not> bit (m_candidates p s) i" "\<not> bit (hs_candidates c p s) i" "virt s \<Longrightarrow> \<not> bit (vs_candidates c p s) i"
    by auto
  then show ?thesis using assms(2) hideleg_sub [of s i] unfolding candidate_bits int_gate_def by auto
qed

lemma enabled_machine_first:
  assumes "bit (enabled_interrupts c p s) i" "bit p j" "\<not> bit (mideleg_read s) j" "int_gate c s j"
  shows "\<not> bit (mideleg_read s) i"
proof -
  have "bit (m_candidates p s) j" using assms(2-4) by (simp add: candidate_bits int_gate_def)
  then have "m_candidates p s \<noteq> 0" by auto
  then show ?thesis using assms(1) unfolding enabled_cases by (simp add: candidate_bits)
qed

section \<open>Properties\<close>

text \<open>C3: When interrupts 0, 4 and 8 do not exist, a pending interrupt is taken exactly when the hart is outside debug mode, non-maskable interrupts are enabled, and the delegation and enable state admit some pending interrupt; the one taken is pending, admitted, of the highest priority among the enabled set, and machine-level if any machine-level one is admitted.\<close>

theorem interrupt_selection:
  fixes s :: "'d hart"
  assumes "p = mip_read s AND mie_val s" "\<not> bit p 0" "\<not> bit p 4" "\<not> bit p 8"
  shows "(fst (take_pending_interrupt c s) = Inr () \<longleftrightarrow>
      debug_mode s \<or> \<not> nmie s \<or> \<not> (\<exists>i. bit p i \<and> int_gate c s i)) \<and>
    (\<forall>e. fst (take_pending_interrupt c s) = Inl e \<longrightarrow>
      (\<exists>i. e = Trap (plain_trap (push_bit (max_xlen c - 1) 1 OR of_nat i)) \<and> bit p i \<and> int_gate c s i \<and>
        (\<forall>j. bit (enabled_interrupts c p s) j \<longrightarrow> int_rank i \<le> int_rank j) \<and>
        (\<forall>j. bit p j \<and> \<not> bit (mideleg_read s) j \<and> int_gate c s j \<longrightarrow> \<not> bit (mideleg_read s) i)))"
proof -
  let ?s = "s\<lparr>in_wfi := False\<rparr>"
  let ?e = "enabled_interrupts c p s"
  have "enabled_interrupts c p ?s = ?e" "nmie ?s = nmie s"
    by (rule enabled_frame, simp add: nmie_def)
  then have t: "fst (take_pending_interrupt c s) = (if p = 0 \<or> debug_mode s \<or> \<not> nmie s \<or> ?e = 0 then Inr ()
      else case select_interrupt ?e of Some i \<Rightarrow> Inl (Trap (plain_trap (push_bit (max_xlen c - 1) 1 OR of_nat (ctz i))))
        | None \<Rightarrow> Inl Abort)"
    by (simp add: take_pending_interrupt_def take_interrupt_def Let_def flip: assms(1) split: option.split)
  have ex: "?e \<noteq> 0 \<longleftrightarrow> (\<exists>i. bit p i \<and> int_gate c s i)"
    using enabled_sound [of c p s] enabled_complete [of c p s] by (auto simp: zero_bits)
  show ?thesis
  proof (cases "p = 0 \<or> debug_mode s \<or> \<not> nmie s \<or> ?e = 0")
    case True
    then show ?thesis using ex by (auto simp: t)
  next
    case False
    then have nz: "?e \<noteq> 0" "\<not> bit ?e 0" "\<not> bit ?e 4" "\<not> bit ?e 8"
      using assms(2-4) enabled_sound [of c p s] by auto
    from select_spec [OF this] obtain w where w: "select_interrupt ?e = Some w" "bit ?e (ctz w)"
      "\<forall>j. bit ?e j \<longrightarrow> int_rank (ctz w) \<le> int_rank j" by blast
    have r: "fst (take_pending_interrupt c s) = Inl (Trap (plain_trap (push_bit (max_xlen c - 1) 1 OR of_nat (ctz w))))"
      using False w(1) by (simp add: t)
    have "bit p (ctz w) \<and> int_gate c s (ctz w)" by (rule enabled_sound [OF w(2)])
    moreover have "\<forall>j. bit p j \<and> \<not> bit (mideleg_read s) j \<and> int_gate c s j \<longrightarrow> \<not> bit (mideleg_read s) (ctz w)"
      using enabled_machine_first [OF w(2)] by blast
    ultimately show ?thesis using r w(3) ex nz(1) False by auto
  qed
qed

theorem interrupt_selection_witness:
  "fst (take_pending_interrupt (ctx_full 64 0 0)
     ((hart_full 64)\<lparr>prv := PRV_U, mip_val := 0x880, mie_val := 0x888, mnstatus_val := None\<rparr>)) \<noteq> Inr ()"
    (is "fst (take_pending_interrupt ?c ?s) \<noteq> Inr ()")
proof -
  have f: "debug_mode ?s = False" "nmie ?s" "mip_read ?s = 0x880" "mideleg_val ?s = 0" "hvip_val ?s = 0" "extension_enabled ?s (Ext CHR ''H'')"
    by (simp_all add: nmie_def mip_read_def hart_full_def hart_reset_def hart_blank_def Let_def
      extension_enabled_def misa_extension_enabled_def ctx_full_def cfg_full_def)
  have bits: "bit (0x880 :: u64) i \<longleftrightarrow> i = 7 \<or> i = 11" for i
  proof -
    have "(0x880 :: u64) = push_bit 7 1 OR push_bit 11 1" by simp
    then show ?thesis by (simp only: bit_or_iff bit_push_bit_iff bit_1_iff) auto
  qed
  have "bit (0x880 :: u64) 7" by (simp only: bits) simp
  moreover have "\<not> bit (mideleg_read ?s) 7"
    by (simp add: mideleg_read_def f bit_or_iff)
  then have "int_gate ?c ?s 7" by (simp add: int_gate_def prv_defs)
  moreover have "mip_read ?s AND mie_val ?s = 0x880" by (simp add: f)
  ultimately show ?thesis
    using interrupt_selection [of "0x880" ?s ?c] f(1,2) by (simp only: bits) auto
qed

end
