(* ===== verification/TrapFacts.thy ===== *)
theory TrapFacts
  imports PrivFacts
begin

text \<open>
  A trap into machine mode and the return from it: what \<^verbatim>\<open>take_trap\<close> saves in mstatus
  and mepc is what \<^verbatim>\<open>mret\<close> restores.
\<close>

section \<open>The masks\<close>

text \<open>What decides which bits of mstatus are writable and which epc bits are kept.\<close>

definition mask_frame :: "'d hart \<Rightarrow> u64 \<times> (isa_extension \<Rightarrow> bool) \<times> u64 \<times> bool" where
  "mask_frame s = (misa_val s, extension_enable_table s, sstatus_write_mask s, has_page s)"

lemma mask_frame_flush: "mask_frame (flush_tlb s) = mask_frame s" "mask_frame (maybe_flush_tlb a b s) = mask_frame s"
  by (simp_all add: mask_frame_def flush_tlb_def flush_icache_def maybe_flush_tlb_def)

lemma mask_frame_writes:
  "mask_frame (mstatus_write c v s) = mask_frame s" "mask_frame (mstatush_write c v s) = mask_frame s"
  "mask_frame (vsstatus_write c v s) = mask_frame s" "mask_frame (tcontrol_write v s) = mask_frame s"
  "mask_frame (set_pc_and_serialize x s) = mask_frame s"
  "mask_frame (s\<lparr>elp := w_0\<rparr>) = mask_frame s" "mask_frame (s\<lparr>pc := w_1\<rparr>) = mask_frame s"
  "mask_frame (s\<lparr>mepc_val := w_2\<rparr>) = mask_frame s" "mask_frame (s\<lparr>mcause_val := w_3\<rparr>) = mask_frame s"
  "mask_frame (s\<lparr>mtval_val := w_4\<rparr>) = mask_frame s" "mask_frame (s\<lparr>mtval2_val := w_5\<rparr>) = mask_frame s"
  "mask_frame (s\<lparr>mtinst_val := w_6\<rparr>) = mask_frame s" "mask_frame (s\<lparr>mstatus_val := w_7\<rparr>) = mask_frame s"
  "mask_frame (s\<lparr>vsstatus_val := w_8\<rparr>) = mask_frame s" "mask_frame (s\<lparr>npc := w_9\<rparr>) = mask_frame s"
proof -
  show u: "mask_frame (s\<lparr>elp := w_0\<rparr>) = mask_frame s" "mask_frame (s\<lparr>pc := w_1\<rparr>) = mask_frame s"
  "mask_frame (s\<lparr>mepc_val := w_2\<rparr>) = mask_frame s" "mask_frame (s\<lparr>mcause_val := w_3\<rparr>) = mask_frame s"
  "mask_frame (s\<lparr>mtval_val := w_4\<rparr>) = mask_frame s" "mask_frame (s\<lparr>mtval2_val := w_5\<rparr>) = mask_frame s"
  "mask_frame (s\<lparr>mtinst_val := w_6\<rparr>) = mask_frame s" 
  "mask_frame (s\<lparr>npc := w_9\<rparr>) = mask_frame s" "mask_frame (set_pc_and_serialize x s) = mask_frame s" 
   by (simp_all add: mask_frame_def set_pc_and_serialize_def)
  show v: "mask_frame (s\<lparr>mstatus_val := w_7\<rparr>) = mask_frame s" "mask_frame (s\<lparr>vsstatus_val := w_8\<rparr>) = mask_frame s" for s :: "'d hart" and w_7 w_8
   by (simp_all add: mask_frame_def)
  show "mask_frame (mstatus_write c v s) = mask_frame s" "mask_frame (mstatush_write c v s) = mask_frame s"
    "mask_frame (vsstatus_write c v s) = mask_frame s"
    by (cases "virt s"; simp add: mstatus_write_def mstatush_write_def vsstatus_write_def Let_def mask_frame_flush v split del: if_split)+
  show "mask_frame (tcontrol_write v s) = mask_frame s"
   by (simp add: tcontrol_write_def mask_frame_def split: option.split)
qed

lemma mask_frame_eq:
  assumes "mask_frame s' = mask_frame s"
  shows "mstatus_mask s' = mstatus_mask s" "pc_alignment_mask s' = pc_alignment_mask s"
    "extension_enabled s' = extension_enabled s" "legalize_privilege s' = legalize_privilege s"
proof -
  have e: "misa_val s' = misa_val s" "extension_enable_table s' = extension_enable_table s"
    "sstatus_write_mask s' = sstatus_write_mask s" "has_page s' = has_page s"
    using assms by (simp_all add: mask_frame_def)
  show x: "extension_enabled s' = extension_enabled s" using e
    by (auto simp: fun_eq_iff extension_enabled_def misa_extension_enabled_def split: isa_extension.splits)
  show "mstatus_mask s' = mstatus_mask s" by (simp only: mstatus_mask_def x e)
  show "pc_alignment_mask s' = pc_alignment_mask s" by (simp only: pc_alignment_mask_def x)
  show "legalize_privilege s' = legalize_privilege s" by (rule legal_frame [OF e(1,2)])
qed

section \<open>Committing mstatus\<close>

text \<open>The two writes with which a trap or a return stores its new mstatus, the second one only on
  RV32.\<close>

definition commit_status :: "ctx \<Rightarrow> u64 \<Rightarrow> 'd hart \<Rightarrow> 'd hart" where
  "commit_status c st s =
    (let s = mstatus_write c st s in if max_xlen c = 32 then mstatush_write c (drop_bit 32 st) s else s)"

lemma mask_frame_commit: "mask_frame (commit_status c st s) = mask_frame s"
  by (simp add: commit_status_def Let_def mask_frame_writes)

lemma frame_commit: "priv_frame (commit_status c st s) = priv_frame s" "pc (commit_status c st s) = pc s"
  by (simp_all add: commit_status_def Let_def frame)

lemma legalize_idem: "legalize_privilege s (legalize_privilege s (get_field v MSTATUS_MPP)) = legalize_privilege s (get_field v MSTATUS_MPP)"
  using legal_legalize [OF two_bit_field(1), of s v] by (simp add: legal_prv_def)

text \<open>The word that a write of the upper half amounts to.\<close>

definition join_halves :: "u64 \<Rightarrow> u64 \<Rightarrow> u64" where
  "join_halves a v = drop_bit 32 (push_bit 32 a) OR push_bit 32 (drop_bit 32 v AND 0xffffffff)"

lemma bit_join: "bit (join_halves a v) n \<longleftrightarrow> (if n < 32 then bit a n else bit v n)"
proof -
  have m: "(0xffffffff :: u64) = mask 32" by (simp add: mask_eq_exp_minus_1)
  show ?thesis unfolding join_halves_def m
    using bit_imp_le_length [of v n] bit_imp_le_length [of a n] by (auto simp: bit_simps)
qed

lemma mstatush_join: "mstatush_write c (drop_bit 32 v) s = mstatus_write c (join_halves (mstatus_val s) v) s"
  by (simp only: mstatush_write_def join_halves_def mstatus_read_def)

lemma commit_MPP:
  "get_field (mstatus_val (commit_status c st s)) MSTATUS_MPP = legalize_privilege s (get_field st MSTATUS_MPP)"
proof -
  let ?s = "mstatus_write c st s"
  let ?v = "join_halves (mstatus_val ?s) st"
  have "get_field ?v MSTATUS_MPP = get_field (mstatus_val ?s) MSTATUS_MPP"
    by (rule bit_word_eqI) (auto simp: field_mask_numerals(6) [symmetric] bit_get_field bit_join)
  then have "get_field (mstatus_val (mstatush_write c (drop_bit 32 st) ?s)) MSTATUS_MPP = legalize_privilege s (get_field st MSTATUS_MPP)"
    by (simp only: mstatush_join mstatus_write_MPP mask_frame_eq(4) [OF mask_frame_writes(1)] legalize_idem)
  then show ?thesis by (simp only: commit_status_def Let_def mstatus_write_MPP if_cancel split: if_split) simp
qed

lemma commit_bit:
  assumes "n \<in> {7, 39, 42}"
  shows "bit (mstatus_val (commit_status c st s)) n \<longleftrightarrow> (if bit (mstatus_mask s) n then bit st n else bit (mstatus_val s) n)"
proof -
  have one: "bit (mstatus_val (mstatus_write c v s)) n \<longleftrightarrow> (if bit (mstatus_mask s) n then bit v n else bit (mstatus_val s) n)" for v and s :: "'a hart"
    using assms mstatus_write_bit [of n c v s] by (auto simp: field_mask_numerals(6) [symmetric] bit_set_MPP)
  show ?thesis
    by (auto simp: commit_status_def Let_def mstatush_join one mask_frame_eq(1) [OF mask_frame_writes(1)] bit_join)
qed

lemma commit_7: "bit (mstatus_val (commit_status c st s)) 7 = (if bit (mstatus_mask s) 7 then bit st 7 else bit (mstatus_val s) 7)"
  and commit_39: "bit (mstatus_val (commit_status c st s)) 39 = (if bit (mstatus_mask s) 39 then bit st 39 else bit (mstatus_val s) 39)"
  and commit_42: "bit (mstatus_val (commit_status c st s)) 42 = (if bit (mstatus_mask s) 42 then bit st 42 else bit (mstatus_val s) 42)"
  by (rule commit_bit, simp)+

lemma commit_MIE:
  assumes "\<not> (if bit (mstatus_mask s) 42 then bit st 42 else bit (mstatus_val s) 42)"
  shows "bit (mstatus_val (commit_status c st s)) 3 = bit st 3"
proof -
  have one: "bit (mstatus_val (mstatus_write c v s)) 3 \<longleftrightarrow> bit v 3"
    if "\<not> (if bit (mstatus_mask s) 42 then bit v 42 else bit (mstatus_val s) 42)" for v and s :: "'a hart"
    using mstatus_write_bit [of 3 c v s] that by (simp add: mask_bits field_mask_numerals(6) [symmetric] bit_set_MPP)
  have two: "bit (mstatus_val (mstatus_write c st s)) 42 \<longleftrightarrow> (if bit (mstatus_mask s) 42 then bit st 42 else bit (mstatus_val s) 42)"
    using mstatus_write_bit [of 42 c st s] by (simp add: field_mask_numerals(6) [symmetric] bit_set_MPP)
  have 1: "bit (mstatus_val (mstatus_write c st s)) 3 = bit st 3" by (rule one [OF assms])
  have "bit (mstatus_val (mstatus_write c (join_halves (mstatus_val (mstatus_write c st s)) st) (mstatus_write c st s))) 3
      = bit (join_halves (mstatus_val (mstatus_write c st s)) st) 3"
    by (rule one) (use assms in \<open>auto simp: two mask_frame_eq(1) [OF mask_frame_writes(1)] bit_join split: if_splits\<close>)
  then show ?thesis using 1 by (simp add: commit_status_def Let_def mstatush_join bit_join)
qed

section \<open>The trap and the return\<close>

definition trap_status :: "trap_t \<Rightarrow> bool \<Rightarrow> 'd hart \<Rightarrow> u64" where
  "trap_status t dbl s =
    (let st = (if dbl then set_field (mstatus_val s) MSTATUS_MDT 1 else mstatus_val s);
         st = set_field st MSTATUS_MPIE (get_field st MSTATUS_MIE);
         st = set_field st MSTATUS_MPP (prv s);
         st = set_field st MSTATUS_MIE 0;
         st = set_field st MSTATUS_MPV (of_bool (virt s));
         st = set_field st MSTATUS_GVA (of_bool (has_gva t))
     in set_field st MSTATUS_MPELP (of_elp (elp s)))"

lemma trap_status_bits:
  "bit (trap_status t dbl s) 7 = bit (mstatus_val s) 3" "bit (trap_status t dbl s) 39 = virt s"
  "get_field (trap_status t dbl s) MSTATUS_MPP = take_bit 2 (prv s)"
proof -
  show "bit (trap_status t dbl s) 7 = bit (mstatus_val s) 3" "bit (trap_status t dbl s) 39 = virt s"
    by (simp_all add: trap_status_def Let_def status_bits)
  have b: "bit (trap_status t dbl s) 11 = bit (prv s) 0" "bit (trap_status t dbl s) 12 = bit (prv s) 1"
    by (simp_all add: trap_status_def Let_def status_bits)
  show "get_field (trap_status t dbl s) MSTATUS_MPP = take_bit 2 (prv s)"
  proof (rule bit_word_eqI)
    fix n :: nat
    consider "n = 0" | "n = 1" | "2 \<le> n" by linarith
    then show "bit (get_field (trap_status t dbl s) MSTATUS_MPP) n = bit (take_bit 2 (prv s)) n"
      using b by cases (simp_all add: field_mask_numerals(6) [symmetric] bit_get_field bit_take_bit_iff)
  qed
qed

text \<open>The state just before mstatus is stored.\<close>

lemma trap_to_m_shape:
  assumes "nmie s" "\<not> bit (mstatus_val s) 42"
  shows "\<exists>u. trap_to_m c t interrupt b dbl epc s = set_privilege PRV_M False
      (case tcontrol_val (commit_status c (trap_status t (extension_enabled s EXT_SMDBLTRP) s) u) of
         None \<Rightarrow> commit_status c (trap_status t (extension_enabled s EXT_SMDBLTRP) s) u
       | Some tc \<Rightarrow> tcontrol_write (if tc AND 0x8 \<noteq> 0 then 0x80 else 0)
           (commit_status c (trap_status t (extension_enabled s EXT_SMDBLTRP) s) u))
    \<and> mask_frame u = mask_frame s \<and> mstatus_val u = mstatus_val s \<and> mepc_val u = epc_write epc"
proof -
  let ?u = "s\<lparr>pc := (mtvec_val s AND NOT 1) + (if mtvec_val s AND 1 \<noteq> 0 \<and> interrupt then 4 * b else 0),
     mepc_val := epc_write epc, mcause_val := (if dbl then CAUSE_DOUBLE_TRAP else which t), mtval_val := get_tval t,
     mtval2_val := (if dbl then which t else get_tval2 t), mtinst_val := get_tinst t, elp := NO_LP_EXPECTED\<rparr>"
  have u: "mask_frame ?u = mask_frame s \<and> mstatus_val ?u = mstatus_val s \<and> mepc_val ?u = epc_write epc"
    by (simp add: mask_frame_writes)
  have d: "\<not> (extension_enabled s EXT_SMDBLTRP \<and> (get_field (mstatus_val s) MSTATUS_MDT \<noteq> 0 \<or> \<not> nmie s))"
    using assms by (simp add: status_bits)
  have "trap_to_m c t interrupt b dbl epc s = set_privilege PRV_M False
      (case tcontrol_val (commit_status c (trap_status t (extension_enabled s EXT_SMDBLTRP) s) ?u) of
         None \<Rightarrow> commit_status c (trap_status t (extension_enabled s EXT_SMDBLTRP) s) ?u
       | Some tc \<Rightarrow> tcontrol_write (if tc AND 0x8 \<noteq> 0 then 0x80 else 0)
           (commit_status c (trap_status t (extension_enabled s EXT_SMDBLTRP) s) ?u))"
    unfolding trap_to_m_def Let_def trap_status_def commit_status_def mstatus_read_def if_not_P [OF d]
    using assms(1) apply (simp only: not_not if_False if_True HOL.simp_thms)
    apply (simp cong: if_cong option.case_cong split del: if_split split_of_bool)
 done
  with u show ?thesis by blast
qed

text \<open>What \<^verbatim>\<open>mret\<close> stores, and the state it stores it in.\<close>

definition mret_fields :: "'d hart \<Rightarrow> u64" where
  "mret_fields s =
    (let st = mstatus_val s;
         st = (if get_field (mstatus_val s) MSTATUS_MPP \<noteq> PRV_M then set_field st MSTATUS_MPRV 0 else st);
         st = set_field st MSTATUS_MIE (get_field st MSTATUS_MPIE);
         st = set_field st MSTATUS_MPIE 1;
         st = set_field st MSTATUS_MPP (if extension_enabled s (Ext CHR ''U'') then PRV_U else PRV_M)
     in set_field st MSTATUS_MPV 0)"

definition mret_status :: "'d hart \<Rightarrow> u64" where
  "mret_status s =
    (let st = set_field (mret_fields s) MSTATUS_MPELP (of_elp NO_LP_EXPECTED);
         st = set_field st MSTATUS_MDT 0
     in if get_field (mstatus_val s) MSTATUS_MPP = PRV_U \<or> get_field (mstatus_val s) MSTATUS_MPV \<noteq> 0
        then set_field st MSTATUS_SDT 0 else st)"

lemma mret_status_bits: "bit (mret_status s) 3 = bit (mstatus_val s) 7" "\<not> bit (mret_status s) 42"
  by (simp_all add: mret_status_def mret_fields_def Let_def status_bits split del: if_split) (simp_all add: status_bits)

lemma lpe_returns:
  assumes "p \<in> {PRV_U, PRV_S, PRV_M}"
  shows "\<exists>l. ZICFILP_xLPE v p s = (Inr l, s)"
  using assms by (auto simp: ZICFILP_xLPE_def Let_def prv_defs)

lemma mret_shape:
  assumes "prv s = PRV_M" "p = get_field (mstatus_val s) MSTATUS_MPP" "v = get_field (mstatus_val s) MSTATUS_MPV"
    "p \<in> {PRV_U, PRV_S, PRV_M}"
  shows "\<exists>u. insn_mret c s = (Inr (), set_privilege p (v \<noteq> 0)
      (case tcontrol_val (commit_status c (mret_status s) u) of
         None \<Rightarrow> commit_status c (mret_status s) u
       | Some tc \<Rightarrow> tcontrol_write (if tc AND 0x80 \<noteq> 0 then 0x88 else 0) (commit_status c (mret_status s) u)))
    \<and> mask_frame u = mask_frame s \<and> mstatus_val u = mstatus_val s
    \<and> pc u = epc_read s (mepc_val s) AND pc_alignment_mask s"
proof -
  let ?s = "set_pc_and_serialize (epc_read s (mepc_val s)) s"
  obtain l where l: "ZICFILP_xLPE (v \<noteq> 0) p ?s = (Inr l, ?s)" using lpe_returns [OF assms(4)] by blast
  let ?e = "if l \<noteq> 0 then ?s\<lparr>elp := elp_of (get_field (mret_fields s) MSTATUS_MPELP)\<rparr> else ?s"
  let ?u = "if v \<noteq> 0 \<and> p = PRV_U then vsstatus_write c (vsstatus_read c ?e AND NOT SSTATUS_SDT) ?e else ?e"
  have u: "mask_frame ?u = mask_frame s" "mstatus_val ?u = mstatus_val s"
    "pc ?u = epc_read s (mepc_val s) AND pc_alignment_mask s"
    by (simp_all add: mask_frame_writes frame)
  have f: "mstatus_val ?s = mstatus_val s" "extension_enabled ?s = extension_enabled s"
    by (simp_all add: frame mask_frame_eq [OF mask_frame_writes(5)])
  have "insn_mret c s = (Inr (), set_privilege p (v \<noteq> 0)
      (case tcontrol_val (commit_status c (mret_status s) ?u) of
         None \<Rightarrow> commit_status c (mret_status s) ?u
       | Some tc \<Rightarrow> tcontrol_write (if tc AND 0x80 \<noteq> 0 then 0x88 else 0) (commit_status c (mret_status s) ?u)))"
    using assms(1)
    by (simp only: insn_mret_def require_privilege_def require_def order_refl if_True Let_def mstatus_read_def f
       bindM_def l assms(2,3) [symmetric] sum.case prod.case
       mret_status_def mret_fields_def commit_status_def)
  with u show ?thesis by blast
qed

text \<open>Both shapes end in the same two steps.\<close>

lemma leave_frame:
  fixes u :: "'d hart" and p :: u64 and v :: bool and f :: "u64 \<Rightarrow> u64"
  defines "s' \<equiv> set_privilege p v (case tcontrol_val u of None \<Rightarrow> u | Some tc \<Rightarrow> tcontrol_write (f tc) u)"
  shows "mask_frame s' = mask_frame u" "mstatus_val s' = mstatus_val u" "pc s' = pc u"
    "prv s' = legalize_privilege u p" "virt s' \<longleftrightarrow> v \<and> legalize_privilege u p \<noteq> PRV_M"
    "mepc_val s' = mepc_val u"
proof -
  let ?t = "case tcontrol_val u of None \<Rightarrow> u | Some tc \<Rightarrow> tcontrol_write (f tc) u"
  have t: "mask_frame ?t = mask_frame u" "mstatus_val ?t = mstatus_val u" "pc ?t = pc u" "mepc_val ?t = mepc_val u"
    by (simp_all add: mask_frame_writes frame tcontrol_write_def split: option.split) (simp add: mask_frame_def)
  have p: "mask_frame (set_privilege p v x) = mask_frame x" "mepc_val (set_privilege p v x) = mepc_val x" for x :: "'d hart"
    by (simp_all add: set_privilege_def Let_def mask_frame_def flush_tlb_def flush_icache_def)
  have l: "legalize_privilege ?t = legalize_privilege u" by (rule mask_frame_eq [OF t(1)])
  show "mask_frame s' = mask_frame u" "mstatus_val s' = mstatus_val u" "pc s' = pc u"
    "prv s' = legalize_privilege u p" "virt s' \<longleftrightarrow> v \<and> legalize_privilege u p \<noteq> PRV_M" "mepc_val s' = mepc_val u"
    unfolding s'_def set_privilege_mode l by (simp_all add: p t set_privilege_frame del: option.case_eq_if)
qed

lemma mepc_flush: "mepc_val (maybe_flush_tlb a b s) = mepc_val s"
  by (simp add: maybe_flush_tlb_def flush_tlb_def flush_icache_def)

lemma mepc_write: "mepc_val (mstatus_write c v s) = mepc_val s" "mepc_val (mstatush_write c v s) = mepc_val s"
  by (simp_all add: mstatus_write_def mstatush_write_def Let_def mepc_flush split del: if_split)

lemma commit_mepc: "mepc_val (commit_status c st u) = mepc_val u"
  by (simp add: commit_status_def Let_def mepc_write)

lemma legalize_M: "legalize_privilege s PRV_M = PRV_M"
  by (simp add: legalize_privilege_def prv_defs)

text \<open>The state after the trap.\<close>

lemma trap_to_m_state:
  fixes s :: "'d hart" and c :: ctx and t :: trap_t and b epc :: u64 and interrupt dbl :: bool
  assumes "nmie s" "\<not> bit (mstatus_val s) 42" "legal_prv s (prv s)"
    "extension_enabled s (Ext CHR ''H'') \<or> (\<not> virt s \<and> \<not> bit (mstatus_val s) 39)"
  defines "s' \<equiv> trap_to_m c t interrupt b dbl epc s"
  shows "prv s' = PRV_M" "mask_frame s' = mask_frame s" "mepc_val s' = epc_write epc"
    "get_field (mstatus_val s') MSTATUS_MPP = prv s" "bit (mstatus_val s') 39 = virt s"
    "bit (mstatus_val s') 7 = bit (mstatus_val s) 3" "\<not> bit (mstatus_mask s) 42 \<Longrightarrow> \<not> bit (mstatus_val s') 42"
proof -
  let ?st = "trap_status t (extension_enabled s EXT_SMDBLTRP) s"
  obtain u where u: "s' = set_privilege PRV_M False (case tcontrol_val (commit_status c ?st u) of
        None \<Rightarrow> commit_status c ?st u
      | Some tc \<Rightarrow> tcontrol_write (if tc AND 0x8 \<noteq> 0 then 0x80 else 0) (commit_status c ?st u))"
    "mask_frame u = mask_frame s" "mstatus_val u = mstatus_val s" "mepc_val u = epc_write epc"
    using trap_to_m_shape [OF assms(1,2)] unfolding s'_def by blast
  note e = mask_frame_eq [OF u(2)]
  have l2: "take_bit 2 (prv s) = prv s" using assms(3) by (auto simp: legal_prv_def prv_defs)
  show "prv s' = PRV_M" by (simp only: u(1) leave_frame legalize_M)
  show "mask_frame s' = mask_frame s" by (simp only: u(1,2) leave_frame mask_frame_commit)
  show "mepc_val s' = epc_write epc" by (simp only: u(1,4) leave_frame commit_mepc)
  show "get_field (mstatus_val s') MSTATUS_MPP = prv s" using assms(3)
    by (simp only: u(1) leave_frame commit_MPP trap_status_bits l2 e legal_prv_def)
  have "bit (mstatus_mask s) 39" if "extension_enabled s (Ext CHR ''H'')"
    using that by (simp add: mstatus_mask_def Let_def bit_or_iff)
  then show "bit (mstatus_val s') 39 = virt s" using assms(4)
    by (auto simp: u(1,3) leave_frame commit_39 trap_status_bits e split: if_splits)
  show "bit (mstatus_val s') 7 = bit (mstatus_val s) 3"
    by (simp add: u(1) leave_frame commit_7 trap_status_bits e mask_bits)
  show "\<not> bit (mstatus_val s') 42" if "\<not> bit (mstatus_mask s) 42"
    using that assms(2) by (simp add: u(1,3) leave_frame commit_42 e)
qed

text \<open>A synchronous trap that is not delegated goes to machine mode.\<close>

lemma undelegated:
  assumes "\<not> debug_mode s" "max_xlen c \<in> {32, 64}" "which t < of_nat (max_xlen c)"
    "prv s = PRV_M \<or> \<not> bit (medeleg_val s) (unat (which t))"
  shows "take_trap c t epc s = trap_to_m c t False (which t) False epc s"
proof -
  have lt: "unat (which t) < max_xlen c"
    using assms(2,3) by (auto simp: word_less_nat_alt)
  have "\<not> bit (which t) (max_xlen c - 1)"
  proof
    assume "bit (which t) (max_xlen c - 1)"
    then have "bit (unat (which t)) (max_xlen c - 1)" by (simp add: bit_unsigned_iff)
    then have "2 ^ (max_xlen c - 1) \<le> unat (which t)" by (metis bit_iff_odd div_less even_zero not_less)
    then show False using lt assms(2) by auto
  qed
  then have i: "which t AND push_bit (max_xlen c - 1) 1 = 0"
    using bit_iff_and_push_bit_not_eq_0 [of "which t" "max_xlen c - 1"] by blast
  have d: "\<not> delegated c m (which t) s" if "prv s \<le> PRV_S \<Longrightarrow> \<not> bit m (unat (which t))" for m
    using that by (auto simp: delegated_def and_one_eq odd_iff_mod_2_eq_one [symmetric] bit_iff_odd_drop_bit)
  have "\<not> PRV_M \<le> PRV_S" by (simp add: prv_defs word_le_nat_alt)
  have h: "\<not> delegated c (if prv s \<le> PRV_S then medeleg_val s else 0) (which t) s"
    "\<not> delegated c (if virt s \<and> prv s \<le> PRV_S then medeleg_val s AND hedeleg_val s else 0) (which t) s"
    using assms(4) \<open>\<not> PRV_M \<le> PRV_S\<close> by (intro d; auto simp: bit_and_iff)+
  show ?thesis using assms(1) h by (simp only: take_trap_def Let_def i if_False not_not HOL.simp_thms if_cancel)
qed

lemma trap_mret:
  assumes "priv_inv s" "\<not> debug_mode s" "nmie s" "\<not> bit (mstatus_val s) 42"
    "extension_enabled s (Ext CHR ''H'') \<or> (\<not> virt s \<and> \<not> bit (mstatus_val s) 39)"
    "max_xlen c \<in> {32, 64}" "which t < of_nat (max_xlen c)"
    "prv s = PRV_M \<or> \<not> bit (medeleg_val s) (unat (which t))"
  shows "prv (take_trap c t epc s) = PRV_M"
    "fst (insn_mret r (take_trap c t epc s)) = Inr ()"
    "prv (snd (insn_mret r (take_trap c t epc s))) = prv s"
    "virt (snd (insn_mret r (take_trap c t epc s))) = virt s"
    "pc (snd (insn_mret r (take_trap c t epc s))) = epc AND NOT 1 AND pc_alignment_mask s"
    "bit (mstatus_val (snd (insn_mret r (take_trap c t epc s)))) 3 = bit (mstatus_val s) 3"
proof -
  let ?m = "take_trap c t epc s"
  have l: "legal_prv s (prv s)" using assms(1) by (simp add: priv_inv_def)
  note m = trap_to_m_state [OF assms(3,4) l assms(5), of c t False "which t" False epc,
    folded undelegated [OF assms(2,6,7,8), of epc]]
  note e = mask_frame_eq [OF m(2)]
  have mpp: "get_field (mstatus_val ?m) MSTATUS_MPP \<in> {PRV_U, PRV_S, PRV_M}" using l m(4) by (simp add: legal_prv_def)
  obtain u where u: "insn_mret r ?m = (Inr (), set_privilege (get_field (mstatus_val ?m) MSTATUS_MPP) (get_field (mstatus_val ?m) MSTATUS_MPV \<noteq> 0)
      (case tcontrol_val (commit_status r (mret_status ?m) u) of
         None \<Rightarrow> commit_status r (mret_status ?m) u
       | Some tc \<Rightarrow> tcontrol_write (if tc AND 0x80 \<noteq> 0 then 0x88 else 0) (commit_status r (mret_status ?m) u)))"
    "mask_frame u = mask_frame ?m" "mstatus_val u = mstatus_val ?m" "pc u = epc_read ?m (mepc_val ?m) AND pc_alignment_mask ?m"
    using mret_shape [OF m(1) refl refl mpp, of r] by blast
  note f = mask_frame_eq [OF u(2)]
  show "prv ?m = PRV_M" by (rule m)
  show "fst (insn_mret r ?m) = Inr ()" by (simp only: u(1) fst_conv)
  have leg: "legalize_privilege s (prv s) = prv s" using l by (simp add: legal_prv_def)
  show "prv (snd (insn_mret r ?m)) = prv s"
    by (simp only: u(1) snd_conv leave_frame mask_frame_eq(4) [OF mask_frame_commit] f e m(4) leg)
  have v: "get_field (mstatus_val ?m) MSTATUS_MPV \<noteq> 0 \<longleftrightarrow> virt s" using m(5) by (simp add: status_bits)
  show "virt (snd (insn_mret r ?m)) = virt s" using assms(1)
    by (simp only: u(1) snd_conv leave_frame mask_frame_eq(4) [OF mask_frame_commit] f e m(4) leg v) (auto simp: priv_inv_def)
  show "pc (snd (insn_mret r ?m)) = epc AND NOT 1 AND pc_alignment_mask s"
    by (simp only: u(1,4) snd_conv leave_frame frame_commit epc_read_def epc_write_def m(3) e and.assoc and.idem)
  have s42: "\<not> (if bit (mstatus_mask u) 42 then bit (mret_status ?m) 42 else bit (mstatus_val u) 42)"
    using m(7) by (auto simp: u(3) f e mret_status_bits)
  show "bit (mstatus_val (snd (insn_mret r ?m))) 3 = bit (mstatus_val s) 3"
    by (simp only: u(1) snd_conv leave_frame commit_MIE [OF s42] mret_status_bits m(6))
qed

text \<open>C2: A synchronous trap that is taken outside debug mode, while non-maskable interrupts are enabled and the machine-mode disable-trap bit (mstatus.MDT) is clear, and that is not delegated, enters machine mode; and an mret from there (with no register written in between) succeeds and restores the privilege mode, the virtualisation bit, the trapped pc up to alignment, and the machine interrupt enable. The hart is in a state that its privilege rules allow, it has the hypervisor extension or is not virtualised (with mstatus.MPV clear), and the cause number is below its maximal width, 32 or 64. With the double-trap extension, a trap while MDT is set, as it is after reset, is a critical error or a non-maskable interrupt instead and is not covered.\<close>

theorem trap_mret_roundtrip:
  assumes "priv_inv s" "\<not> debug_mode s" "nmie s" "\<not> bit (mstatus_val s) 42"
    "extension_enabled s (Ext CHR ''H'') \<or> (\<not> virt s \<and> \<not> bit (mstatus_val s) 39)"
    "max_xlen c \<in> {32, 64}" "which t < of_nat (max_xlen c)"
    "prv s = PRV_M \<or> \<not> bit (medeleg_val s) (unat (which t))"
  shows "prv (take_trap c t epc s) = PRV_M \<and>
    fst (insn_mret r (take_trap c t epc s)) = Inr () \<and>
    prv (snd (insn_mret r (take_trap c t epc s))) = prv s \<and>
    virt (snd (insn_mret r (take_trap c t epc s))) = virt s \<and>
    pc (snd (insn_mret r (take_trap c t epc s))) = epc AND NOT 1 AND pc_alignment_mask s \<and>
    bit (mstatus_val (snd (insn_mret r (take_trap c t epc s)))) 3 = bit (mstatus_val s) 3"
  using trap_mret [OF assms] by blast

theorem trap_mret_roundtrip_witness:
  "prv (snd (insn_mret (ctx_full 64 0x30200073 0) (take_trap (ctx_full 64 0x73 0x1234) trap_user_ecall 0x1234
     ((hart_full 64)\<lparr>prv := PRV_U, mnstatus_val := None, mstatus_val := 8\<rparr>)))) = PRV_U"
    (is "prv (snd (insn_mret ?r (take_trap ?c _ _ ?s))) = _")
proof -
  have e: "extension_enabled ?s (Ext CHR ''H'')" "extension_enabled ?s (Ext CHR ''U'')"
    by (simp_all add: hart_full_def extension_enabled_def misa_extension_enabled_def ctx_full_def cfg_full_def)
  have "legal_prv ?s 0" using e by (simp add: legal_prv_def legalize_privilege_def prv_defs)
  moreover have "get_field (8::u64) MSTATUS_MPP = 0" by (simp add: get_field_def)
  ultimately have "priv_inv ?s"
    by (simp add: priv_inv_def prv_defs hart_full_def hart_reset_def hart_blank_def Let_def dcsr_init_def)
  then show ?thesis
    using trap_mret_roundtrip [where s = ?s and c = ?c and t = trap_user_ecall and epc = "0x1234" and r = ?r]
    by (simp add: e nmie_def hart_full_def hart_reset_def hart_blank_def Let_def ctx_full_def trap_user_ecall_def plain_trap_def)
qed

end
