(* ===== verification/InsnK.thy ===== *)
theory InsnK
  imports Macros
begin

text \<open>
  The scalar cryptography instructions: AES (\<^verbatim>\<open>aes_common.h\<close> and the bodies that
  include it), SHA-2, SM3 and SM4. The macros of \<^verbatim>\<open>aes_common.h\<close> compute on values
  promoted to 32 bits. A rotation by zero, whose second shift is by the whole width, leaves the
  word as it is.
\<close>

section \<open>AES\<close>

definition AES_ENC_SBOX :: "u8 list" where
  "AES_ENC_SBOX = [
     0x63, 0x7C, 0x77, 0x7B, 0xF2, 0x6B, 0x6F, 0xC5, 0x30, 0x01, 0x67, 0x2B, 0xFE, 0xD7, 0xAB, 0x76,
     0xCA, 0x82, 0xC9, 0x7D, 0xFA, 0x59, 0x47, 0xF0, 0xAD, 0xD4, 0xA2, 0xAF, 0x9C, 0xA4, 0x72, 0xC0,
     0xB7, 0xFD, 0x93, 0x26, 0x36, 0x3F, 0xF7, 0xCC, 0x34, 0xA5, 0xE5, 0xF1, 0x71, 0xD8, 0x31, 0x15,
     0x04, 0xC7, 0x23, 0xC3, 0x18, 0x96, 0x05, 0x9A, 0x07, 0x12, 0x80, 0xE2, 0xEB, 0x27, 0xB2, 0x75,
     0x09, 0x83, 0x2C, 0x1A, 0x1B, 0x6E, 0x5A, 0xA0, 0x52, 0x3B, 0xD6, 0xB3, 0x29, 0xE3, 0x2F, 0x84,
     0x53, 0xD1, 0x00, 0xED, 0x20, 0xFC, 0xB1, 0x5B, 0x6A, 0xCB, 0xBE, 0x39, 0x4A, 0x4C, 0x58, 0xCF,
     0xD0, 0xEF, 0xAA, 0xFB, 0x43, 0x4D, 0x33, 0x85, 0x45, 0xF9, 0x02, 0x7F, 0x50, 0x3C, 0x9F, 0xA8,
     0x51, 0xA3, 0x40, 0x8F, 0x92, 0x9D, 0x38, 0xF5, 0xBC, 0xB6, 0xDA, 0x21, 0x10, 0xFF, 0xF3, 0xD2,
     0xCD, 0x0C, 0x13, 0xEC, 0x5F, 0x97, 0x44, 0x17, 0xC4, 0xA7, 0x7E, 0x3D, 0x64, 0x5D, 0x19, 0x73,
     0x60, 0x81, 0x4F, 0xDC, 0x22, 0x2A, 0x90, 0x88, 0x46, 0xEE, 0xB8, 0x14, 0xDE, 0x5E, 0x0B, 0xDB,
     0xE0, 0x32, 0x3A, 0x0A, 0x49, 0x06, 0x24, 0x5C, 0xC2, 0xD3, 0xAC, 0x62, 0x91, 0x95, 0xE4, 0x79,
     0xE7, 0xC8, 0x37, 0x6D, 0x8D, 0xD5, 0x4E, 0xA9, 0x6C, 0x56, 0xF4, 0xEA, 0x65, 0x7A, 0xAE, 0x08,
     0xBA, 0x78, 0x25, 0x2E, 0x1C, 0xA6, 0xB4, 0xC6, 0xE8, 0xDD, 0x74, 0x1F, 0x4B, 0xBD, 0x8B, 0x8A,
     0x70, 0x3E, 0xB5, 0x66, 0x48, 0x03, 0xF6, 0x0E, 0x61, 0x35, 0x57, 0xB9, 0x86, 0xC1, 0x1D, 0x9E,
     0xE1, 0xF8, 0x98, 0x11, 0x69, 0xD9, 0x8E, 0x94, 0x9B, 0x1E, 0x87, 0xE9, 0xCE, 0x55, 0x28, 0xDF,
     0x8C, 0xA1, 0x89, 0x0D, 0xBF, 0xE6, 0x42, 0x68, 0x41, 0x99, 0x2D, 0x0F, 0xB0, 0x54, 0xBB, 0x16]"

definition AES_DEC_SBOX :: "u8 list" where
  "AES_DEC_SBOX = [
     0x52, 0x09, 0x6A, 0xD5, 0x30, 0x36, 0xA5, 0x38, 0xBF, 0x40, 0xA3, 0x9E, 0x81, 0xF3, 0xD7, 0xFB,
     0x7C, 0xE3, 0x39, 0x82, 0x9B, 0x2F, 0xFF, 0x87, 0x34, 0x8E, 0x43, 0x44, 0xC4, 0xDE, 0xE9, 0xCB,
     0x54, 0x7B, 0x94, 0x32, 0xA6, 0xC2, 0x23, 0x3D, 0xEE, 0x4C, 0x95, 0x0B, 0x42, 0xFA, 0xC3, 0x4E,
     0x08, 0x2E, 0xA1, 0x66, 0x28, 0xD9, 0x24, 0xB2, 0x76, 0x5B, 0xA2, 0x49, 0x6D, 0x8B, 0xD1, 0x25,
     0x72, 0xF8, 0xF6, 0x64, 0x86, 0x68, 0x98, 0x16, 0xD4, 0xA4, 0x5C, 0xCC, 0x5D, 0x65, 0xB6, 0x92,
     0x6C, 0x70, 0x48, 0x50, 0xFD, 0xED, 0xB9, 0xDA, 0x5E, 0x15, 0x46, 0x57, 0xA7, 0x8D, 0x9D, 0x84,
     0x90, 0xD8, 0xAB, 0x00, 0x8C, 0xBC, 0xD3, 0x0A, 0xF7, 0xE4, 0x58, 0x05, 0xB8, 0xB3, 0x45, 0x06,
     0xD0, 0x2C, 0x1E, 0x8F, 0xCA, 0x3F, 0x0F, 0x02, 0xC1, 0xAF, 0xBD, 0x03, 0x01, 0x13, 0x8A, 0x6B,
     0x3A, 0x91, 0x11, 0x41, 0x4F, 0x67, 0xDC, 0xEA, 0x97, 0xF2, 0xCF, 0xCE, 0xF0, 0xB4, 0xE6, 0x73,
     0x96, 0xAC, 0x74, 0x22, 0xE7, 0xAD, 0x35, 0x85, 0xE2, 0xF9, 0x37, 0xE8, 0x1C, 0x75, 0xDF, 0x6E,
     0x47, 0xF1, 0x1A, 0x71, 0x1D, 0x29, 0xC5, 0x89, 0x6F, 0xB7, 0x62, 0x0E, 0xAA, 0x18, 0xBE, 0x1B,
     0xFC, 0x56, 0x3E, 0x4B, 0xC6, 0xD2, 0x79, 0x20, 0x9A, 0xDB, 0xC0, 0xFE, 0x78, 0xCD, 0x5A, 0xF4,
     0x1F, 0xDD, 0xA8, 0x33, 0x88, 0x07, 0xC7, 0x31, 0xB1, 0x12, 0x10, 0x59, 0x27, 0x80, 0xEC, 0x5F,
     0x60, 0x51, 0x7F, 0xA9, 0x19, 0xB5, 0x4A, 0x0D, 0x2D, 0xE5, 0x7A, 0x9F, 0x93, 0xC9, 0x9C, 0xEF,
     0xA0, 0xE0, 0x3B, 0x4D, 0xAE, 0x2A, 0xF5, 0xB0, 0xC8, 0xEB, 0xBB, 0x3C, 0x83, 0x53, 0x99, 0x61,
     0x17, 0x2B, 0x04, 0x7E, 0xBA, 0x77, 0xD6, 0x26, 0xE1, 0x69, 0x14, 0x63, 0x55, 0x21, 0x0C, 0x7D]"

definition enc_sbox :: "u8 \<Rightarrow> u8" where "enc_sbox b = AES_ENC_SBOX ! unat b"
definition dec_sbox :: "u8 \<Rightarrow> u8" where "dec_sbox b = AES_DEC_SBOX ! unat b"

definition AES_XTIME :: "u32 \<Rightarrow> u32" where
  "AES_XTIME a = push_bit 1 a XOR (if a AND 0x80 \<noteq> 0 then 0x1b else 0)"

definition AES_GFMUL :: "u32 \<Rightarrow> u32 \<Rightarrow> u32" where
  "AES_GFMUL a b =
    ((if b AND 1 \<noteq> 0 then a else 0) XOR
     (if b AND 2 \<noteq> 0 then AES_XTIME a else 0) XOR
     (if b AND 4 \<noteq> 0 then AES_XTIME (AES_XTIME a) else 0) XOR
     (if b AND 8 \<noteq> 0 then AES_XTIME (AES_XTIME (AES_XTIME a)) else 0)) AND 0xFF"

definition BY :: "u32 \<Rightarrow> nat \<Rightarrow> u32" where
  "BY x i = drop_bit (8 * i) x AND 0xFF"

definition AES_SHIFROWS_LO :: "u64 \<Rightarrow> u64 \<Rightarrow> u64" where
  "AES_SHIFROWS_LO r1 r2 =
    push_bit 56 (drop_bit 24 r1 AND 0xFF) OR
    push_bit 48 (drop_bit 48 r2 AND 0xFF) OR
    push_bit 40 (drop_bit 8 r2 AND 0xFF) OR
    push_bit 32 (drop_bit 32 r1 AND 0xFF) OR
    push_bit 24 (drop_bit 56 r2 AND 0xFF) OR
    push_bit 16 (drop_bit 16 r2 AND 0xFF) OR
    push_bit 8 (drop_bit 40 r1 AND 0xFF) OR
    push_bit 0 (drop_bit 0 r1 AND 0xFF)"

definition AES_INVSHIFROWS_LO :: "u64 \<Rightarrow> u64 \<Rightarrow> u64" where
  "AES_INVSHIFROWS_LO r1 r2 =
    push_bit 56 (drop_bit 24 r2 AND 0xFF) OR
    push_bit 48 (drop_bit 48 r2 AND 0xFF) OR
    push_bit 40 (drop_bit 8 r1 AND 0xFF) OR
    push_bit 32 (drop_bit 32 r1 AND 0xFF) OR
    push_bit 24 (drop_bit 56 r1 AND 0xFF) OR
    push_bit 16 (drop_bit 16 r2 AND 0xFF) OR
    push_bit 8 (drop_bit 40 r2 AND 0xFF) OR
    push_bit 0 (drop_bit 0 r1 AND 0xFF)"

definition AES_MIXBYTE :: "u32 \<Rightarrow> nat \<Rightarrow> nat \<Rightarrow> nat \<Rightarrow> nat \<Rightarrow> u32" where
  "AES_MIXBYTE col b0 b1 b2 b3 =
    BY col b3 XOR BY col b2 XOR AES_GFMUL (BY col b1) 3 XOR AES_GFMUL (BY col b0) 2"

definition AES_MIXCOLUMN :: "u32 \<Rightarrow> u32" where
  "AES_MIXCOLUMN col =
    push_bit 24 (AES_MIXBYTE col 3 0 1 2) OR push_bit 16 (AES_MIXBYTE col 2 3 0 1) OR
    push_bit 8 (AES_MIXBYTE col 1 2 3 0) OR push_bit 0 (AES_MIXBYTE col 0 1 2 3)"

definition AES_INVMIXBYTE :: "u32 \<Rightarrow> nat \<Rightarrow> nat \<Rightarrow> nat \<Rightarrow> nat \<Rightarrow> u32" where
  "AES_INVMIXBYTE col b0 b1 b2 b3 =
    AES_GFMUL (BY col b3) 0x9 XOR AES_GFMUL (BY col b2) 0xd XOR
    AES_GFMUL (BY col b1) 0xb XOR AES_GFMUL (BY col b0) 0xe"

definition AES_INVMIXCOLUMN :: "u32 \<Rightarrow> u32" where
  "AES_INVMIXCOLUMN col =
    push_bit 24 (AES_INVMIXBYTE col 3 0 1 2) OR push_bit 16 (AES_INVMIXBYTE col 2 3 0 1) OR
    push_bit 8 (AES_INVMIXBYTE col 1 2 3 0) OR push_bit 0 (AES_INVMIXBYTE col 0 1 2 3)"

text \<open>The two blocks the 64-bit bodies repeat: substitution of the eight bytes, and the mixing of
  both columns.\<close>

definition sub_bytes :: "(u8 \<Rightarrow> u8) \<Rightarrow> u64 \<Rightarrow> u64" where
  "sub_bytes sbox t =
    push_bit 0 (ucast (sbox (ucast (drop_bit 0 t AND 0xFF)))) OR
    push_bit 8 (ucast (sbox (ucast (drop_bit 8 t AND 0xFF)))) OR
    push_bit 16 (ucast (sbox (ucast (drop_bit 16 t AND 0xFF)))) OR
    push_bit 24 (ucast (sbox (ucast (drop_bit 24 t AND 0xFF)))) OR
    push_bit 32 (ucast (sbox (ucast (drop_bit 32 t AND 0xFF)))) OR
    push_bit 40 (ucast (sbox (ucast (drop_bit 40 t AND 0xFF)))) OR
    push_bit 48 (ucast (sbox (ucast (drop_bit 48 t AND 0xFF)))) OR
    push_bit 56 (ucast (sbox (ucast (drop_bit 56 t AND 0xFF))))"

definition mix_columns :: "(u32 \<Rightarrow> u32) \<Rightarrow> u64 \<Rightarrow> u64" where
  "mix_columns mix t =
    (let col_0 = ucast (t AND 0xFFFFFFFF); col_1 = ucast (drop_bit 32 t);
         col_0 = mix col_0; col_1 = mix col_1
     in push_bit 32 (ucast col_1) OR ucast col_0)"

text \<open>The rotation by a multiple of eight that ends the 32-bit bodies.\<close>

definition rot_bytes :: "u32 \<Rightarrow> nat \<Rightarrow> u32" where
  "rot_bytes u bs = push_bit (8 * bs) u OR drop_bit (32 - 8 * bs) u"

definition insn_aes32dsi :: "ctx \<Rightarrow> ('d hart, unit) M" where
  [insns]: "insn_aes32dsi c s =
    (require_rv32 c (require_extension c EXT_ZKND (\<lambda>s.
      let bs = unat (insn_bs (insn_bits c));
          t0 = ucast (drop_bit (8 * bs) (RS2 c s));
          x = dec_sbox t0;
          u = ucast x;
          u = rot_bytes u bs
      in WRITE_RD c (sext_xlen c (ucast u XOR RS1 c s)) s)) s)"

definition insn_aes32dsmi :: "ctx \<Rightarrow> ('d hart, unit) M" where
  [insns]: "insn_aes32dsmi c s =
    (require_rv32 c (require_extension c EXT_ZKND (\<lambda>s.
      let bs = unat (insn_bs (insn_bits c));
          t0 = ucast (drop_bit (8 * bs) (RS2 c s));
          x = dec_sbox t0;
          u = push_bit 24 (AES_GFMUL (ucast x) 0xb) OR push_bit 16 (AES_GFMUL (ucast x) 0xd) OR
              push_bit 8 (AES_GFMUL (ucast x) 0x9) OR push_bit 0 (AES_GFMUL (ucast x) 0xe);
          u = rot_bytes u bs
      in WRITE_RD c (sext_xlen c (ucast u XOR RS1 c s)) s)) s)"

definition insn_aes32esi :: "ctx \<Rightarrow> ('d hart, unit) M" where
  [insns]: "insn_aes32esi c s =
    (require_rv32 c (require_extension c EXT_ZKNE (\<lambda>s.
      let bs = unat (insn_bs (insn_bits c));
          t0 = ucast (drop_bit (8 * bs) (RS2 c s));
          x = enc_sbox t0;
          u = ucast x;
          u = rot_bytes u bs
      in WRITE_RD c (sext_xlen c (ucast u XOR RS1 c s)) s)) s)"

definition insn_aes32esmi :: "ctx \<Rightarrow> ('d hart, unit) M" where
  [insns]: "insn_aes32esmi c s =
    (require_rv32 c (require_extension c EXT_ZKNE (\<lambda>s.
      let bs = unat (insn_bs (insn_bits c));
          t0 = ucast (drop_bit (8 * bs) (RS2 c s));
          x = enc_sbox t0;
          u = push_bit 24 (AES_GFMUL (ucast x) 3) OR push_bit 16 (ucast x) OR
              push_bit 8 (ucast x) OR push_bit 0 (AES_GFMUL (ucast x) 2);
          u = rot_bytes u bs
      in WRITE_RD c (sext_xlen c (ucast u XOR RS1 c s)) s)) s)"

definition insn_aes64ds :: "ctx \<Rightarrow> ('d hart, unit) M" where
  [insns]: "insn_aes64ds c s =
    (require_rv64 c (require_extension c EXT_ZKND (\<lambda>s.
      let temp = AES_INVSHIFROWS_LO (RS1 c s) (RS2 c s); temp = sub_bytes dec_sbox temp
      in WRITE_RD c temp s)) s)"

definition insn_aes64dsm :: "ctx \<Rightarrow> ('d hart, unit) M" where
  [insns]: "insn_aes64dsm c s =
    (require_rv64 c (require_extension c EXT_ZKND (\<lambda>s.
      let temp = AES_INVSHIFROWS_LO (RS1 c s) (RS2 c s); temp = sub_bytes dec_sbox temp
      in WRITE_RD c (mix_columns AES_INVMIXCOLUMN temp) s)) s)"

definition insn_aes64es :: "ctx \<Rightarrow> ('d hart, unit) M" where
  [insns]: "insn_aes64es c s =
    (require_rv64 c (require_extension c EXT_ZKNE (\<lambda>s.
      let temp = AES_SHIFROWS_LO (RS1 c s) (RS2 c s); temp = sub_bytes enc_sbox temp
      in WRITE_RD c temp s)) s)"

definition insn_aes64esm :: "ctx \<Rightarrow> ('d hart, unit) M" where
  [insns]: "insn_aes64esm c s =
    (require_rv64 c (require_extension c EXT_ZKNE (\<lambda>s.
      let temp = AES_SHIFROWS_LO (RS1 c s) (RS2 c s); temp = sub_bytes enc_sbox temp
      in WRITE_RD c (mix_columns AES_MIXCOLUMN temp) s)) s)"

definition insn_aes64im :: "ctx \<Rightarrow> ('d hart, unit) M" where
  [insns]: "insn_aes64im c s =
    (require_rv64 c (require_extension c EXT_ZKND (\<lambda>s. WRITE_RD c (mix_columns AES_INVMIXCOLUMN (RS1 c s)) s)) s)"

definition round_consts :: "u8 list" where
  "round_consts = [0x01, 0x02, 0x04, 0x08, 0x10, 0x20, 0x40, 0x80, 0x1b, 0x36]"

definition sub_word :: "u32 \<Rightarrow> u32" where
  "sub_word t =
    push_bit 24 (ucast (enc_sbox (ucast (drop_bit 24 t AND 0xFF)))) OR
    push_bit 16 (ucast (enc_sbox (ucast (drop_bit 16 t AND 0xFF)))) OR
    push_bit 8 (ucast (enc_sbox (ucast (drop_bit 8 t AND 0xFF)))) OR
    push_bit 0 (ucast (enc_sbox (ucast (drop_bit 0 t AND 0xFF))))"

definition insn_aes64ks1i :: "ctx \<Rightarrow> ('d hart, unit) M" where
  [insns]: "insn_aes64ks1i c s =
    (require_rv64 c (require_either_extension c EXT_ZKND EXT_ZKNE (\<lambda>s.
      let enc_rcon = ucast (insn_rcon (insn_bits c)) :: u8
      in require c (enc_rcon \<le> 0xA) (\<lambda>s.
         let temp = ucast (drop_bit 32 (RS1 c s) AND 0xFFFFFFFF) :: u32;
             rcon = (if enc_rcon \<noteq> 0xA then round_consts ! unat enc_rcon else 0);
             temp = (if enc_rcon \<noteq> 0xA then drop_bit 8 temp OR push_bit 24 temp else temp);
             temp = sub_word temp;
             temp = temp XOR ucast rcon
         in WRITE_RD c (push_bit 32 (ucast temp) OR ucast temp) s) s)) s)"

definition insn_aes64ks2 :: "ctx \<Rightarrow> ('d hart, unit) M" where
  [insns]: "insn_aes64ks2 c s =
    (require_rv64 c (require_either_extension c EXT_ZKND EXT_ZKNE (\<lambda>s.
      let rs1_hi = ucast (drop_bit 32 (RS1 c s)) :: u32;
          rs2_lo = ucast (RS2 c s);
          rs2_hi = ucast (drop_bit 32 (RS2 c s));
          r_lo = rs1_hi XOR rs2_lo;
          r_hi = rs1_hi XOR rs2_lo XOR rs2_hi
      in WRITE_RD c (push_bit 32 (ucast r_hi) OR ucast r_lo) s)) s)"

section \<open>SHA-2\<close>

text \<open>The rotation macros, whose amounts are literals below the width.\<close>

definition ROR32 :: "u32 \<Rightarrow> nat \<Rightarrow> u32" where
  "ROR32 a amt = push_bit ((32 - amt) mod 32) a OR drop_bit (amt mod 32) a"
definition ROR64 :: "u64 \<Rightarrow> nat \<Rightarrow> u64" where
  "ROR64 a amt = push_bit ((64 - amt) mod 64) a OR drop_bit (amt mod 64) a"
definition ROL32 :: "u32 \<Rightarrow> nat \<Rightarrow> u32" where
  "ROL32 a amt = drop_bit ((32 - amt) mod 32) a OR push_bit (amt mod 32) a"

definition insn_sha256sig0 :: "ctx \<Rightarrow> ('d hart, unit) M" where
  [insns]: "insn_sha256sig0 c s =
    (require_extension c EXT_ZKNH (\<lambda>s. let a = ucast (RS1 c s)
      in WRITE_RD c (sext32 (ucast (ROR32 a 7 XOR ROR32 a 18 XOR drop_bit 3 a))) s) s)"

definition insn_sha256sig1 :: "ctx \<Rightarrow> ('d hart, unit) M" where
  [insns]: "insn_sha256sig1 c s =
    (require_extension c EXT_ZKNH (\<lambda>s. let a = ucast (RS1 c s)
      in WRITE_RD c (sext32 (ucast (ROR32 a 17 XOR ROR32 a 19 XOR drop_bit 10 a))) s) s)"

definition insn_sha256sum0 :: "ctx \<Rightarrow> ('d hart, unit) M" where
  [insns]: "insn_sha256sum0 c s =
    (require_extension c EXT_ZKNH (\<lambda>s. let a = ucast (RS1 c s)
      in WRITE_RD c (sext32 (ucast (ROR32 a 2 XOR ROR32 a 13 XOR ROR32 a 22))) s) s)"

definition insn_sha256sum1 :: "ctx \<Rightarrow> ('d hart, unit) M" where
  [insns]: "insn_sha256sum1 c s =
    (require_extension c EXT_ZKNH (\<lambda>s. let a = ucast (RS1 c s)
      in WRITE_RD c (sext32 (ucast (ROR32 a 6 XOR ROR32 a 11 XOR ROR32 a 25))) s) s)"

definition insn_sha512sig0 :: "ctx \<Rightarrow> ('d hart, unit) M" where
  [insns]: "insn_sha512sig0 c s =
    (require_rv64 c (require_extension c EXT_ZKNH (\<lambda>s. let a = RS1 c s
      in WRITE_RD c (ROR64 a 1 XOR ROR64 a 8 XOR drop_bit 7 a) s)) s)"

definition insn_sha512sig0h :: "ctx \<Rightarrow> ('d hart, unit) M" where
  [insns]: "insn_sha512sig0h c s =
    (require_rv32 c (require_extension c EXT_ZKNH (\<lambda>s.
      let result =
        drop_bit 1 (zext32 (RS1 c s)) XOR
        drop_bit 7 (zext32 (RS1 c s)) XOR
        drop_bit 8 (zext32 (RS1 c s)) XOR
        push_bit 31 (zext32 (RS2 c s)) XOR
        push_bit 24 (zext32 (RS2 c s))
      in WRITE_RD c (sext_xlen c result) s)) s)"

definition insn_sha512sig0l :: "ctx \<Rightarrow> ('d hart, unit) M" where
  [insns]: "insn_sha512sig0l c s =
    (require_rv32 c (require_extension c EXT_ZKNH (\<lambda>s.
      let result =
        drop_bit 1 (zext32 (RS1 c s)) XOR
        drop_bit 7 (zext32 (RS1 c s)) XOR
        drop_bit 8 (zext32 (RS1 c s)) XOR
        push_bit 31 (zext32 (RS2 c s)) XOR
        push_bit 25 (zext32 (RS2 c s)) XOR
        push_bit 24 (zext32 (RS2 c s))
      in WRITE_RD c (sext_xlen c result) s)) s)"

definition insn_sha512sig1 :: "ctx \<Rightarrow> ('d hart, unit) M" where
  [insns]: "insn_sha512sig1 c s =
    (require_rv64 c (require_extension c EXT_ZKNH (\<lambda>s. let a = RS1 c s
      in WRITE_RD c (ROR64 a 19 XOR ROR64 a 61 XOR drop_bit 6 a) s)) s)"

definition insn_sha512sig1h :: "ctx \<Rightarrow> ('d hart, unit) M" where
  [insns]: "insn_sha512sig1h c s =
    (require_rv32 c (require_extension c EXT_ZKNH (\<lambda>s.
      let result =
        push_bit 3 (zext32 (RS1 c s)) XOR
        drop_bit 6 (zext32 (RS1 c s)) XOR
        drop_bit 19 (zext32 (RS1 c s)) XOR
        drop_bit 29 (zext32 (RS2 c s)) XOR
        push_bit 13 (zext32 (RS2 c s))
      in WRITE_RD c (sext_xlen c result) s)) s)"

definition insn_sha512sig1l :: "ctx \<Rightarrow> ('d hart, unit) M" where
  [insns]: "insn_sha512sig1l c s =
    (require_rv32 c (require_extension c EXT_ZKNH (\<lambda>s.
      let result =
        push_bit 3 (zext32 (RS1 c s)) XOR
        drop_bit 6 (zext32 (RS1 c s)) XOR
        drop_bit 19 (zext32 (RS1 c s)) XOR
        drop_bit 29 (zext32 (RS2 c s)) XOR
        push_bit 26 (zext32 (RS2 c s)) XOR
        push_bit 13 (zext32 (RS2 c s))
      in WRITE_RD c (sext_xlen c result) s)) s)"

definition insn_sha512sum0 :: "ctx \<Rightarrow> ('d hart, unit) M" where
  [insns]: "insn_sha512sum0 c s =
    (require_rv64 c (require_extension c EXT_ZKNH (\<lambda>s. let a = RS1 c s
      in WRITE_RD c (ROR64 a 28 XOR ROR64 a 34 XOR ROR64 a 39) s)) s)"

definition insn_sha512sum0r :: "ctx \<Rightarrow> ('d hart, unit) M" where
  [insns]: "insn_sha512sum0r c s =
    (require_rv32 c (require_extension c EXT_ZKNH (\<lambda>s.
      let result =
        push_bit 25 (zext32 (RS1 c s)) XOR
        push_bit 30 (zext32 (RS1 c s)) XOR
        drop_bit 28 (zext32 (RS1 c s)) XOR
        drop_bit 7 (zext32 (RS2 c s)) XOR
        drop_bit 2 (zext32 (RS2 c s)) XOR
        push_bit 4 (zext32 (RS2 c s))
      in WRITE_RD c (sext_xlen c result) s)) s)"

definition insn_sha512sum1 :: "ctx \<Rightarrow> ('d hart, unit) M" where
  [insns]: "insn_sha512sum1 c s =
    (require_rv64 c (require_extension c EXT_ZKNH (\<lambda>s. let a = RS1 c s
      in WRITE_RD c (ROR64 a 14 XOR ROR64 a 18 XOR ROR64 a 41) s)) s)"

definition insn_sha512sum1r :: "ctx \<Rightarrow> ('d hart, unit) M" where
  [insns]: "insn_sha512sum1r c s =
    (require_rv32 c (require_extension c EXT_ZKNH (\<lambda>s.
      let result =
        push_bit 23 (zext32 (RS1 c s)) XOR
        drop_bit 14 (zext32 (RS1 c s)) XOR
        drop_bit 18 (zext32 (RS1 c s)) XOR
        drop_bit 9 (zext32 (RS2 c s)) XOR
        push_bit 18 (zext32 (RS2 c s)) XOR
        push_bit 14 (zext32 (RS2 c s))
      in WRITE_RD c (sext_xlen c result) s)) s)"

section \<open>SM3 and SM4\<close>

definition insn_sm3p0 :: "ctx \<Rightarrow> ('d hart, unit) M" where
  [insns]: "insn_sm3p0 c s =
    (require_extension c EXT_ZKSH (\<lambda>s. let src = ucast (RS1 c s); result = src XOR ROL32 src 9 XOR ROL32 src 17
      in WRITE_RD c (sext32 (ucast result)) s) s)"

definition insn_sm3p1 :: "ctx \<Rightarrow> ('d hart, unit) M" where
  [insns]: "insn_sm3p1 c s =
    (require_extension c EXT_ZKSH (\<lambda>s. let src = ucast (RS1 c s); result = src XOR ROL32 src 15 XOR ROL32 src 23
      in WRITE_RD c (sext32 (ucast result)) s) s)"

definition sm4_sbox :: "u8 list" where
  "sm4_sbox = [
     0xD6, 0x90, 0xE9, 0xFE, 0xCC, 0xE1, 0x3D, 0xB7, 0x16, 0xB6, 0x14, 0xC2, 0x28, 0xFB, 0x2C, 0x05,
     0x2B, 0x67, 0x9A, 0x76, 0x2A, 0xBE, 0x04, 0xC3, 0xAA, 0x44, 0x13, 0x26, 0x49, 0x86, 0x06, 0x99,
     0x9C, 0x42, 0x50, 0xF4, 0x91, 0xEF, 0x98, 0x7A, 0x33, 0x54, 0x0B, 0x43, 0xED, 0xCF, 0xAC, 0x62,
     0xE4, 0xB3, 0x1C, 0xA9, 0xC9, 0x08, 0xE8, 0x95, 0x80, 0xDF, 0x94, 0xFA, 0x75, 0x8F, 0x3F, 0xA6,
     0x47, 0x07, 0xA7, 0xFC, 0xF3, 0x73, 0x17, 0xBA, 0x83, 0x59, 0x3C, 0x19, 0xE6, 0x85, 0x4F, 0xA8,
     0x68, 0x6B, 0x81, 0xB2, 0x71, 0x64, 0xDA, 0x8B, 0xF8, 0xEB, 0x0F, 0x4B, 0x70, 0x56, 0x9D, 0x35,
     0x1E, 0x24, 0x0E, 0x5E, 0x63, 0x58, 0xD1, 0xA2, 0x25, 0x22, 0x7C, 0x3B, 0x01, 0x21, 0x78, 0x87,
     0xD4, 0x00, 0x46, 0x57, 0x9F, 0xD3, 0x27, 0x52, 0x4C, 0x36, 0x02, 0xE7, 0xA0, 0xC4, 0xC8, 0x9E,
     0xEA, 0xBF, 0x8A, 0xD2, 0x40, 0xC7, 0x38, 0xB5, 0xA3, 0xF7, 0xF2, 0xCE, 0xF9, 0x61, 0x15, 0xA1,
     0xE0, 0xAE, 0x5D, 0xA4, 0x9B, 0x34, 0x1A, 0x55, 0xAD, 0x93, 0x32, 0x30, 0xF5, 0x8C, 0xB1, 0xE3,
     0x1D, 0xF6, 0xE2, 0x2E, 0x82, 0x66, 0xCA, 0x60, 0xC0, 0x29, 0x23, 0xAB, 0x0D, 0x53, 0x4E, 0x6F,
     0xD5, 0xDB, 0x37, 0x45, 0xDE, 0xFD, 0x8E, 0x2F, 0x03, 0xFF, 0x6A, 0x72, 0x6D, 0x6C, 0x5B, 0x51,
     0x8D, 0x1B, 0xAF, 0x92, 0xBB, 0xDD, 0xBC, 0x7F, 0x11, 0xD9, 0x5C, 0x41, 0x1F, 0x10, 0x5A, 0xD8,
     0x0A, 0xC1, 0x31, 0x88, 0xA5, 0xCD, 0x7B, 0xBD, 0x2D, 0x74, 0xD0, 0x12, 0xB8, 0xE5, 0xB4, 0xB0,
     0x89, 0x69, 0x97, 0x4A, 0x0C, 0x96, 0x77, 0x7E, 0x65, 0xB9, 0xF1, 0x09, 0xC5, 0x6E, 0xC6, 0x84,
     0x18, 0xF0, 0x7D, 0xEC, 0x3A, 0xDC, 0x4D, 0x20, 0x79, 0xEE, 0x5F, 0x3E, 0xD7, 0xCB, 0x39, 0x48]"

text \<open>The diffusion of one substituted byte in the rounds and in the key schedule.\<close>

definition sm4_linear :: "u32 \<Rightarrow> u32" where
  "sm4_linear b = b XOR push_bit 8 b XOR push_bit 2 b XOR push_bit 18 b XOR
     push_bit 26 (b AND 0x3f) XOR push_bit 10 (b AND 0xC0)"

definition sm4_key_linear :: "u32 \<Rightarrow> u32" where
  "sm4_key_linear b = b XOR push_bit 29 (b AND 0x07) XOR push_bit 7 (b AND 0xFE) XOR
     push_bit 23 (b AND 0x01) XOR push_bit 13 (b AND 0xF8)"

definition insn_sm4ed :: "ctx \<Rightarrow> ('d hart, unit) M" where
  [insns]: "insn_sm4ed c s =
    (require_extension c EXT_ZKSED (\<lambda>s.
      let bs = unat (insn_bs (insn_bits c));
          sb_in = drop_bit (8 * bs) (RS2 c s) AND 0xFF;
          sb_out = ucast (sm4_sbox ! unat sb_in);
          rotl = rot_bytes (sm4_linear sb_out) bs;
          result = ucast rotl XOR RS1 c s
      in WRITE_RD c (sext32 result) s) s)"

definition insn_sm4ks :: "ctx \<Rightarrow> ('d hart, unit) M" where
  [insns]: "insn_sm4ks c s =
    (require_extension c EXT_ZKSED (\<lambda>s.
      let bs = unat (insn_bs (insn_bits c));
          sb_in = drop_bit (8 * bs) (RS2 c s) AND 0xFF;
          sb_out = ucast (sm4_sbox ! unat sb_in);
          rotl = rot_bytes (sm4_key_linear sb_out) bs;
          result = ucast rotl XOR RS1 c s
      in WRITE_RD c (sext32 result) s) s)"

end
