(* ===== verification/KFacts.thy ===== *)
theory KFacts
  imports InsnK InsnFacts
begin

text \<open>
  Facts about the cryptography instructions. The substitution tables are inverse to each other and
  so are the column maps, so that the decryption instructions undo the encryption ones; and the
  RV32 instructions of SHA-512 compute the halves of the RV64 ones.
\<close>

section \<open>Substitution\<close>

lemma sbox_tables:
  "map (\<lambda>x. AES_DEC_SBOX ! unat x) AES_ENC_SBOX = map of_nat [0..<256]"
  "map (\<lambda>x. AES_ENC_SBOX ! unat x) AES_DEC_SBOX = map of_nat [0..<256]"
  by code_simp+

lemma table_inverse:
  assumes "map (\<lambda>x. ys ! unat x) xs = map of_nat [0..<256]"
  shows "ys ! unat (xs ! unat b) = (b :: u8)"
proof -
  have l: "length xs = 256" using assms [THEN arg_cong, of length] by simp
  have b: "unat b < 256" using unsigned_less [of b] by simp
  have "map (\<lambda>x. ys ! unat x) xs ! unat b = of_nat ([0..<256] ! unat b)" unfolding assms using b by (simp del: upt_rec_numeral)
  then show ?thesis using b l by (simp del: upt_rec_numeral)
qed

lemma sbox_inverse [simp]: "dec_sbox (enc_sbox b) = b" "enc_sbox (dec_sbox b) = b"
  unfolding enc_sbox_def dec_sbox_def by (rule table_inverse, rule sbox_tables)+

section \<open>Columns\<close>

lemma bit_and_test: "w AND push_bit k 1 = 0 \<longleftrightarrow> \<not> bit w k" for w :: "'a::len word"
  using bit_iff_and_push_bit_not_eq_0 [of w k] by auto

lemma xtime_linear: "AES_XTIME (a XOR b) = AES_XTIME a XOR AES_XTIME b"
proof -
  have t: "w AND 0x80 = 0 \<longleftrightarrow> \<not> bit w 7" for w :: u32 using bit_and_test [of w 7] by (simp add: push_bit_eq_mult)
  show ?thesis unfolding AES_XTIME_def t
    by (auto simp: push_bit_xor bit_xor_iff intro!: bit_word_eqI)
qed

lemma gfmul_linear: "AES_GFMUL (a XOR b) k = AES_GFMUL a k XOR AES_GFMUL b k"
  by (simp only: AES_GFMUL_def xtime_linear) (auto simp: bit_xor_iff bit_and_iff intro!: bit_word_eqI)

lemma BY_linear: "BY (a XOR b) k = BY a k XOR BY b k"
  by (auto simp: BY_def bit_xor_iff bit_and_iff bit_drop_bit_eq intro!: bit_word_eqI)

text \<open>Multiplication by x in the field, on bytes.\<close>

definition xt :: "u32 \<Rightarrow> u32" where "xt a = AES_XTIME a AND 0xFF"

lemma byte_mask: "(0xFF :: u32) = mask 8" by (simp add: mask_eq_exp_minus_1)

lemma bit_xtime: "bit (AES_XTIME a) n \<longleftrightarrow> (0 < n \<and> n < 32 \<and> bit a (n - 1)) \<noteq> (bit a 7 \<and> bit (0x1b :: u32) n)"
proof -
  have t: "w AND 0x80 = 0 \<longleftrightarrow> \<not> bit w 7" for w :: u32 using bit_and_test [of w 7] by (simp add: push_bit_eq_mult)
  show ?thesis unfolding AES_XTIME_def t
    by (cases "bit a 7") (auto simp: bit_xor_iff bit_push_bit_iff simp del: push_bit_Suc One_nat_def)
qed

lemma xt_mask: "AES_XTIME a AND 0xFF = xt (a AND 0xFF)"
  unfolding xt_def byte_mask
  by (rule bit_word_eqI) (auto simp: bit_and_iff bit_mask_iff bit_xtime)

lemma xt_xor: "xt (a XOR b) = xt a XOR xt b"
  by (simp add: xt_def xtime_linear bit.conj_xor_distrib2)

lemma xt_byte: "xt a AND 0xFF = xt a" "a AND 0xFF = a \<Longrightarrow> xt (a AND 0xFF) = xt a"
  by (simp_all add: xt_def and.assoc)

lemma gfmul_byte:
  assumes "a AND 0xFF = a"
  shows "AES_GFMUL a 2 = xt a" "AES_GFMUL a 3 = a XOR xt a" "AES_GFMUL a 0x9 = a XOR xt (xt (xt a))"
    "AES_GFMUL a 0xb = a XOR xt a XOR xt (xt (xt a))" "AES_GFMUL a 0xd = a XOR xt (xt a) XOR xt (xt (xt a))"
    "AES_GFMUL a 0xe = xt a XOR xt (xt a) XOR xt (xt (xt a))"
  by (simp_all add: AES_GFMUL_def bit.conj_xor_distrib2 xt_mask assms)

text \<open>A column as its four bytes.\<close>

definition pack4 :: "u32 \<Rightarrow> u32 \<Rightarrow> u32 \<Rightarrow> u32 \<Rightarrow> u32" where
  "pack4 a b c d = push_bit 24 a OR push_bit 16 b OR push_bit 8 c OR push_bit 0 d"

lemma byte_high: "a AND 0xFF = a \<Longrightarrow> bit a n \<Longrightarrow> n < 8" for a :: u32
  unfolding byte_mask by (metis bit_and_iff bit_mask_iff not_less)

lemma BY_pack:
  assumes "a AND 0xFF = a" "b AND 0xFF = b" "c AND 0xFF = c" "d AND 0xFF = d"
  shows "BY (pack4 a b c d) 3 = a" "BY (pack4 a b c d) 2 = b" "BY (pack4 a b c d) 1 = c" "BY (pack4 a b c d) 0 = d"
proof -
  note h = byte_high [OF assms(1)] byte_high [OF assms(2)] byte_high [OF assms(3)] byte_high [OF assms(4)]
  note s = BY_def pack4_def byte_mask
  show "BY (pack4 a b c d) 3 = a" unfolding s by (rule bit_word_eqI) (auto simp: bit_simps dest: h)
  show "BY (pack4 a b c d) 2 = b" unfolding s by (rule bit_word_eqI) (auto simp: bit_simps dest: h)
  show "BY (pack4 a b c d) 1 = c" unfolding s by (rule bit_word_eqI) (auto simp: bit_simps dest: h)
  show "BY (pack4 a b c d) 0 = d" unfolding s by (rule bit_word_eqI) (auto simp: bit_simps dest: h)
qed

lemma pack_BY: "pack4 (BY w 3) (BY w 2) (BY w 1) (BY w 0) = w"
proof (rule bit_word_eqI)
  fix n assume "n < LENGTH(32)"
  then consider "n < 8" | "8 \<le> n" "n < 16" | "16 \<le> n" "n < 24" | "24 \<le> n" "n < 32" by fastforce
  then show "bit (pack4 (BY w 3) (BY w 2) (BY w 1) (BY w 0)) n = bit w n"
    unfolding pack4_def BY_def byte_mask by cases (auto simp: bit_simps)
qed

lemma BY_byte: "BY w i AND 0xFF = BY w i"
  by (simp add: BY_def and.assoc)

lemma xor_byte: "a AND 0xFF = a \<Longrightarrow> b AND 0xFF = b \<Longrightarrow> (a XOR b) AND 0xFF = a XOR b" for a b :: u32
  by (simp add: bit.conj_xor_distrib2)

lemmas byte_rules = xor_byte xt_byte(1) BY_byte gfmul_byte

lemma mix_pack:
  "AES_MIXCOLUMN w = pack4 (AES_MIXBYTE w 3 0 1 2) (AES_MIXBYTE w 2 3 0 1) (AES_MIXBYTE w 1 2 3 0) (AES_MIXBYTE w 0 1 2 3)"
  "AES_INVMIXCOLUMN w = pack4 (AES_INVMIXBYTE w 3 0 1 2) (AES_INVMIXBYTE w 2 3 0 1) (AES_INVMIXBYTE w 1 2 3 0) (AES_INVMIXBYTE w 0 1 2 3)"
  by (simp_all only: AES_MIXCOLUMN_def AES_INVMIXCOLUMN_def pack4_def)

lemma mixbyte_byte:
  "AES_MIXBYTE w i j k l = BY w l XOR BY w k XOR (BY w j XOR xt (BY w j)) XOR xt (BY w i)"
  "AES_INVMIXBYTE w i j k l = (BY w l XOR xt (xt (xt (BY w l)))) XOR (BY w k XOR xt (xt (BY w k)) XOR xt (xt (xt (BY w k))))
     XOR (BY w j XOR xt (BY w j) XOR xt (xt (xt (BY w j)))) XOR (xt (BY w i) XOR xt (xt (BY w i)) XOR xt (xt (xt (BY w i))))"
  by (simp_all only: AES_MIXBYTE_def AES_INVMIXBYTE_def gfmul_byte [OF BY_byte])

lemma mixbyte_mask: "AES_MIXBYTE w i j k l AND 0xFF = AES_MIXBYTE w i j k l"
  "AES_INVMIXBYTE w i j k l AND 0xFF = AES_INVMIXBYTE w i j k l"
  by (simp_all only: mixbyte_byte byte_rules)


lemma mix_inverse:
  "AES_INVMIXCOLUMN (AES_MIXCOLUMN w) = w" "AES_MIXCOLUMN (AES_INVMIXCOLUMN w) = w"
proof -
  note b = BY_pack [OF mixbyte_mask(1) mixbyte_mask(1) mixbyte_mask(1) mixbyte_mask(1)]
   BY_pack [OF mixbyte_mask(2) mixbyte_mask(2) mixbyte_mask(2) mixbyte_mask(2)]
  have "AES_INVMIXBYTE (AES_MIXCOLUMN w) 3 0 1 2 = BY w 3" "AES_INVMIXBYTE (AES_MIXCOLUMN w) 2 3 0 1 = BY w 2"
    "AES_INVMIXBYTE (AES_MIXCOLUMN w) 1 2 3 0 = BY w 1" "AES_INVMIXBYTE (AES_MIXCOLUMN w) 0 1 2 3 = BY w 0"
    unfolding mixbyte_byte(2) mix_pack(1) b unfolding mixbyte_byte xt_xor by (simp_all add: ac_simps)
  then show "AES_INVMIXCOLUMN (AES_MIXCOLUMN w) = w" by (simp only: mix_pack(2) pack_BY)
  have "AES_MIXBYTE (AES_INVMIXCOLUMN w) 3 0 1 2 = BY w 3" "AES_MIXBYTE (AES_INVMIXCOLUMN w) 2 3 0 1 = BY w 2"
    "AES_MIXBYTE (AES_INVMIXCOLUMN w) 1 2 3 0 = BY w 1" "AES_MIXBYTE (AES_INVMIXCOLUMN w) 0 1 2 3 = BY w 0"
    unfolding mixbyte_byte(1) mix_pack(2) b unfolding mixbyte_byte xt_xor by (simp_all add: ac_simps)
  then show "AES_MIXCOLUMN (AES_INVMIXCOLUMN w) = w" by (simp only: mix_pack(1) pack_BY)
qed

section \<open>The 64-bit state\<close>

text \<open>Half of an AES state is a word of eight bytes.\<close>

definition byte8 :: "u64 \<Rightarrow> nat \<Rightarrow> u8" where "byte8 w k = ucast (drop_bit (8 * k) w)"

definition pack8 :: "(nat \<Rightarrow> u8) \<Rightarrow> u64" where
  "pack8 b = push_bit 0 (ucast (b 0)) OR push_bit 8 (ucast (b 1)) OR push_bit 16 (ucast (b 2)) OR push_bit 24 (ucast (b 3)) OR
     push_bit 32 (ucast (b 4)) OR push_bit 40 (ucast (b 5)) OR push_bit 48 (ucast (b 6)) OR push_bit 56 (ucast (b 7))"

lemma bit_byte8: "bit (byte8 w k) n \<longleftrightarrow> n < 8 \<and> bit w (8 * k + n)"
  by (auto simp: byte8_def bit_simps)

lemma bytes_eqI:
  assumes "\<And>k. k < 8 \<Longrightarrow> byte8 v k = byte8 w k"
  shows "v = w"
proof (rule bit_word_eqI)
  fix n assume "n < LENGTH(64)"
  then have "bit (byte8 v (n div 8)) (n mod 8) = bit (byte8 w (n div 8)) (n mod 8)" by (simp add: assms)
  then show "bit v n = bit w n" by (simp add: bit_byte8)
qed

lemma eight: "k < 8 \<Longrightarrow> k \<in> {0, 1, 2, 3, 4, 5, 6, 7}" for k :: nat
  by (simp add: numeral_eq_Suc less_Suc_eq)

lemma byte8_high: "bit (b :: u8) n \<Longrightarrow> n < 8"
  using bit_imp_le_length [of b n] by simp

lemma byte_at:
  assumes "n < 8" "k < 8"
  shows "bit (push_bit (8 * j) (ucast (b :: u8)) :: u64) (8 * k + n) \<longleftrightarrow> j = k \<and> bit b n"
proof -
  have "8 * j \<le> 8 * k + n \<and> 8 * k + n < 64 \<and> 8 * k + n - 8 * j < 8 \<longleftrightarrow> j = k" using assms by auto
  then show ?thesis using assms byte8_high [of b "8 * k + n - 8 * j"] by (auto simp: bit_simps)
qed

lemma pack8_alt: "pack8 b = push_bit (8 * 0) (ucast (b 0)) OR push_bit (8 * 1) (ucast (b 1)) OR push_bit (8 * 2) (ucast (b 2)) OR
     push_bit (8 * 3) (ucast (b 3)) OR push_bit (8 * 4) (ucast (b 4)) OR push_bit (8 * 5) (ucast (b 5)) OR
     push_bit (8 * 6) (ucast (b 6)) OR push_bit (8 * 7) (ucast (b 7))"
  by (simp add: pack8_def)

lemma byte8_pack: "k < 8 \<Longrightarrow> byte8 (pack8 b) k = b k"
proof (rule bit_word_eqI)
  fix n assume k: "k < 8" and n: "n < LENGTH(8)"
  have n8: "n < 8" using n by simp
  show "bit (byte8 (pack8 b) k) n = bit (b k) n"
    unfolding bit_byte8 pack8_alt bit_or_iff byte_at [OF n8 k] using eight [OF k] n8 by auto
qed

lemma ucast_byte: "ucast (ucast (b :: u8) :: u64) = b"
  by (rule bit_word_eqI) (auto simp: bit_simps)

lemma byte_part: "drop_bit (8 * k) w AND 0xFF = ucast (byte8 w k)" "ucast (drop_bit (8 * k) w AND 0xFF) = byte8 w k" for w :: u64
proof -
  have m: "(0xFF :: u64) = mask 8" by (simp add: mask_eq_exp_minus_1)
  show "drop_bit (8 * k) w AND 0xFF = ucast (byte8 w k)" "ucast (drop_bit (8 * k) w AND 0xFF) = byte8 w k"
    unfolding m byte8_def by (auto intro!: bit_word_eqI simp: bit_simps)
qed

lemma byte_parts:
  "drop_bit 0 w AND 0xFF = ucast (byte8 w 0)" "ucast (drop_bit 0 w AND 0xFF) = byte8 w 0"
  "drop_bit 8 w AND 0xFF = ucast (byte8 w 1)" "ucast (drop_bit 8 w AND 0xFF) = byte8 w 1"
  "drop_bit 16 w AND 0xFF = ucast (byte8 w 2)" "ucast (drop_bit 16 w AND 0xFF) = byte8 w 2"
  "drop_bit 24 w AND 0xFF = ucast (byte8 w 3)" "ucast (drop_bit 24 w AND 0xFF) = byte8 w 3"
  "drop_bit 32 w AND 0xFF = ucast (byte8 w 4)" "ucast (drop_bit 32 w AND 0xFF) = byte8 w 4"
  "drop_bit 40 w AND 0xFF = ucast (byte8 w 5)" "ucast (drop_bit 40 w AND 0xFF) = byte8 w 5"
  "drop_bit 48 w AND 0xFF = ucast (byte8 w 6)" "ucast (drop_bit 48 w AND 0xFF) = byte8 w 6"
  "drop_bit 56 w AND 0xFF = ucast (byte8 w 7)" "ucast (drop_bit 56 w AND 0xFF) = byte8 w 7"
  for w :: u64
  using byte_part [of 0 w] byte_part [of 1 w] byte_part [of 2 w] byte_part [of 3 w] byte_part [of 4 w] byte_part [of 5 w] byte_part [of 6 w] byte_part [of 7 w]
  by (simp_all only: mult_0_right mult_numeral_1_right numeral_times_numeral mult_1_right) simp_all

lemma sub_pack: "sub_bytes f t = pack8 (\<lambda>k. f (byte8 t k))"
  by (simp only: sub_bytes_def pack8_def byte_parts ucast_byte)

definition rows :: "u64 \<Rightarrow> u64 \<Rightarrow> nat \<Rightarrow> u8" where
  "rows a b k = [byte8 a 0, byte8 a 5, byte8 b 2, byte8 b 7, byte8 a 4, byte8 b 1, byte8 b 6, byte8 a 3] ! k"
definition inv_rows :: "u64 \<Rightarrow> u64 \<Rightarrow> nat \<Rightarrow> u8" where
  "inv_rows a b k = [byte8 a 0, byte8 b 5, byte8 b 2, byte8 a 7, byte8 a 4, byte8 a 1, byte8 b 6, byte8 b 3] ! k"

lemma shift_pack: "AES_SHIFROWS_LO a b = pack8 (rows a b)" "AES_INVSHIFROWS_LO a b = pack8 (inv_rows a b)"
  unfolding AES_SHIFROWS_LO_def AES_INVSHIFROWS_LO_def pack8_def byte_parts
  by (simp_all add: rows_def inv_rows_def ac_simps)

lemma inv_rows_rows: "k < 8 \<Longrightarrow> inv_rows (pack8 (\<lambda>k. f (rows a b k))) (pack8 (\<lambda>k. f (rows b a k))) k = f (byte8 a k)"
  using eight [of k] by (auto simp: inv_rows_def rows_def byte8_pack)

lemma aes_half: "sub_bytes dec_sbox (AES_INVSHIFROWS_LO (sub_bytes enc_sbox (AES_SHIFROWS_LO a b)) (sub_bytes enc_sbox (AES_SHIFROWS_LO b a))) = a"
proof -
  have p: "pack8 (\<lambda>k. f (byte8 (pack8 g) k)) = pack8 (\<lambda>k. f (g k))" for f g by (simp add: pack8_def [of "\<lambda>k. f (byte8 _ k)"] pack8_def [of "\<lambda>k. f (g k)"] byte8_pack)
  show ?thesis by (rule bytes_eqI) (simp add: shift_pack sub_pack p byte8_pack inv_rows_rows)
qed

lemma mix_columns_inverse: "mix_columns AES_INVMIXCOLUMN (mix_columns AES_MIXCOLUMN t) = t"
proof -
  have c: "ucast ((push_bit 32 (ucast h) OR ucast l) AND 0xFFFFFFFF :: u64) = l" "ucast (drop_bit 32 (push_bit 32 (ucast h) OR ucast l :: u64)) = h" for h l :: u32
  proof -
    have m: "(0xFFFFFFFF :: u64) = mask 32" by (simp add: mask_eq_exp_minus_1)
    show "ucast ((push_bit 32 (ucast h) OR ucast l) AND 0xFFFFFFFF :: u64) = l"
      unfolding m by (rule bit_word_eqI) (auto simp: bit_simps)
    show "ucast (drop_bit 32 (push_bit 32 (ucast h) OR ucast l :: u64)) = h"
      using bit_imp_le_length [of l] by (intro bit_word_eqI) (auto simp: bit_simps)
  qed
  have d: "push_bit 32 (ucast (ucast (drop_bit 32 t) :: u32)) OR ucast (ucast (t AND 0xFFFFFFFF) :: u32) = t"
  proof -
    have m: "(0xFFFFFFFF :: u64) = mask 32" by (simp add: mask_eq_exp_minus_1)
    show ?thesis unfolding m by (rule bit_word_eqI) (auto simp: bit_simps)
  qed
  show ?thesis by (simp only: mix_columns_def Let_def c mix_inverse d)
qed

section \<open>The instructions on given operands\<close>

definition on2 :: "(ctx \<Rightarrow> ('d hart, unit) M) \<Rightarrow> ctx \<Rightarrow> 'd hart \<Rightarrow> u64 \<Rightarrow> u64 \<Rightarrow> u64" where
  "on2 body c s a b = result body c
     (s\<lparr>XPR := (XPR s)(unat (insn_rs2 (insn_bits c)) := b, unat (insn_rs1 (insn_bits c)) := a)\<rparr>)"

lemma on2_operands:
  assumes "insn_rs1 (insn_bits c) \<noteq> insn_rs2 (insn_bits c)"
  shows "RS1 c (s\<lparr>XPR := (XPR s)(unat (insn_rs2 (insn_bits c)) := b, unat (insn_rs1 (insn_bits c)) := a)\<rparr>) = a"
    "RS2 c (s\<lparr>XPR := (XPR s)(unat (insn_rs2 (insn_bits c)) := b, unat (insn_rs1 (insn_bits c)) := a)\<rparr>) = b"
  using assms by (auto simp: RS1_def RS2_def READ_REG_def dest: word_unat_eq_iff [THEN iffD2])

lemma ext_operands: "extension_enabled (s\<lparr>XPR := x\<rparr>) e = extension_enabled s e"
  by (simp add: extension_enabled_def misa_extension_enabled_def split: isa_extension.split)

lemmas on2_simps = on2_def result_def require_rv64_def require_rv32_def require_extension_def require_def Let_def
  RD_write ext_operands

lemma aes_values:
  assumes "xlen c = 64" "insn_rd (insn_bits c) \<noteq> 0" "insn_rs1 (insn_bits c) \<noteq> insn_rs2 (insn_bits c)"
    "extension_enabled s EXT_ZKNE" "extension_enabled s EXT_ZKND"
  shows "on2 insn_aes64es c s a b = sub_bytes enc_sbox (AES_SHIFROWS_LO a b)"
    "on2 insn_aes64esm c s a b = mix_columns AES_MIXCOLUMN (sub_bytes enc_sbox (AES_SHIFROWS_LO a b))"
    "on2 insn_aes64ds c s a b = sub_bytes dec_sbox (AES_INVSHIFROWS_LO a b)"
    "on2 insn_aes64im c s a b = mix_columns AES_INVMIXCOLUMN a"
  using assms
  by (simp_all add: on2_simps insn_aes64es_def insn_aes64esm_def insn_aes64ds_def insn_aes64im_def on2_operands)

text \<open>C25: On RV64 the AES decryption instructions undo the encryption instructions: aes64ds applied to the two outputs of aes64es gives back the encrypted half, and for a middle round aes64im followed by aes64ds gives back what aes64esm encrypted.\<close>

theorem aes_round_inverse:
  assumes "xlen c = 64" "insn_rd (insn_bits c) \<noteq> 0" "insn_rs1 (insn_bits c) \<noteq> insn_rs2 (insn_bits c)"
    "extension_enabled s EXT_ZKNE" "extension_enabled s EXT_ZKND"
  shows "on2 insn_aes64ds c s (on2 insn_aes64es c s a b) (on2 insn_aes64es c s b a) = a \<and>
    on2 insn_aes64ds c s (on2 insn_aes64im c s (on2 insn_aes64esm c s a b) 0) (on2 insn_aes64im c s (on2 insn_aes64esm c s b a) 0) = a"
  by (simp only: aes_values [OF assms] aes_half mix_columns_inverse simp_thms)

theorem aes_round_inverse_witness:
  "on2 insn_aes64ds (ctx_full 64 0x3AC58533 0) (hart_full 64)
     (on2 insn_aes64es (ctx_full 64 0x3AC58533 0) (hart_full 64) 0x0123456789ABCDEF 0x55)
     (on2 insn_aes64es (ctx_full 64 0x3AC58533 0) (hart_full 64) 0x55 0x0123456789ABCDEF) = 0x0123456789ABCDEF"
  using aes_round_inverse [of "ctx_full 64 0x3AC58533 0" "hart_full 64" "0x0123456789ABCDEF" "0x55"]
  by (simp add: ctx_full_def hart_full_def extension_enabled_def insn_rd_def insn_rs1_def insn_rs2_def insn_x_def)

section \<open>SHA-512 on the two widths\<close>

lemma bit_halves:
  assumes "ucast l = (ucast x :: u32)" "ucast h = (ucast (drop_bit 32 x) :: u32)"
  shows "m < 32 \<Longrightarrow> bit x m = bit l m" "32 \<le> m \<Longrightarrow> m < 64 \<Longrightarrow> bit x m = bit (h :: u64) (m - 32)"
proof -
  have e: "bit (ucast l :: u32) k = bit (ucast x :: u32) k" "bit (ucast h :: u32) k = bit (ucast (drop_bit 32 x) :: u32) k" for k
    by (simp_all only: assms)
  show "m < 32 \<Longrightarrow> bit x m = bit l m" using e(1) [of m] by (simp add: bit_simps)
  show "32 \<le> m \<Longrightarrow> m < 64 \<Longrightarrow> bit x m = bit h (m - 32)" using e(2) [of "m - 32"] by (auto simp: bit_simps)
qed

lemma bit_zext32: "bit (zext32 a) n \<longleftrightarrow> n < 32 \<and> bit a n"
  by (auto simp: zext32_def bit_simps)

lemma bit_ROR64: "0 < k \<Longrightarrow> k < 64 \<Longrightarrow> n < 64 \<Longrightarrow> bit (ROR64 a k) n = bit a (if k + n < 64 then k + n else k + n - 64)"
  using bit_imp_le_length [of a "k + n"] by (auto simp: ROR64_def bit_simps add.commute)

text \<open>The four functions on 64-bit words.\<close>

definition sig0_64 :: "u64 \<Rightarrow> u64" where "sig0_64 a = ROR64 a 1 XOR ROR64 a 8 XOR drop_bit 7 a"
definition sig1_64 :: "u64 \<Rightarrow> u64" where "sig1_64 a = ROR64 a 19 XOR ROR64 a 61 XOR drop_bit 6 a"
definition sum0_64 :: "u64 \<Rightarrow> u64" where "sum0_64 a = ROR64 a 28 XOR ROR64 a 34 XOR ROR64 a 39"
definition sum1_64 :: "u64 \<Rightarrow> u64" where "sum1_64 a = ROR64 a 14 XOR ROR64 a 18 XOR ROR64 a 41"

text \<open>Each rotation or shift of the double word, half by half.\<close>

lemma xor_split:
  fixes w a b :: u64 and k m :: nat
  assumes "\<And>n. n < 32 \<Longrightarrow> k + n < m \<Longrightarrow> bit w n \<longleftrightarrow> bit a n \<noteq> bit b n"
    "\<And>n. n < 32 \<Longrightarrow> m \<le> k + n \<Longrightarrow> bit w n \<longleftrightarrow> bit a n \<noteq> bit b n"
  shows "(ucast w :: u32) = ucast a XOR ucast b"
proof (rule bit_word_eqI)
  fix n assume "n < LENGTH(32)"
  then show "bit (ucast w :: u32) n = bit (ucast a XOR ucast b :: u32) n"
    using assms [of n] by (cases "k + n < m") (auto simp: bit_xor_iff bit_simps)
qed

lemma ror_near:
  assumes "ucast l = (ucast x :: u32)" "ucast h = (ucast (drop_bit 32 x) :: u32)" "0 < k" "k < 32"
  shows "(ucast (ROR64 x k) :: u32) = ucast (drop_bit k (zext32 l)) XOR ucast (push_bit (32 - k) (zext32 h))"
    "(ucast (drop_bit 32 (ROR64 x k)) :: u32) = ucast (drop_bit k (zext32 h)) XOR ucast (push_bit (32 - k) (zext32 l))"
proof -
  show "(ucast (ROR64 x k) :: u32) = ucast (drop_bit k (zext32 l)) XOR ucast (push_bit (32 - k) (zext32 h))"
    by (rule xor_split [of k 32]) (use assms(3,4) in \<open>auto simp: bit_push_bit_iff bit_drop_bit_eq bit_zext32 bit_ROR64 bit_halves [OF assms(1,2)] add.commute [of _ k]\<close>)
  show "(ucast (drop_bit 32 (ROR64 x k)) :: u32) = ucast (drop_bit k (zext32 h)) XOR ucast (push_bit (32 - k) (zext32 l))"
    by (rule xor_split [of k 32]) (use assms(3,4) in \<open>auto simp: bit_push_bit_iff bit_drop_bit_eq bit_zext32 bit_ROR64 bit_halves [OF assms(1,2)] add.commute [of _ k]\<close>)
qed

lemma ror_far:
  assumes "ucast l = (ucast x :: u32)" "ucast h = (ucast (drop_bit 32 x) :: u32)" "32 < k" "k < 64"
  shows "(ucast (ROR64 x k) :: u32) = ucast (drop_bit (k - 32) (zext32 h)) XOR ucast (push_bit (64 - k) (zext32 l))"
    "(ucast (drop_bit 32 (ROR64 x k)) :: u32) = ucast (drop_bit (k - 32) (zext32 l)) XOR ucast (push_bit (64 - k) (zext32 h))"
proof -
  show "(ucast (ROR64 x k) :: u32) = ucast (drop_bit (k - 32) (zext32 h)) XOR ucast (push_bit (64 - k) (zext32 l))"
    by (rule xor_split [of k 64]) (use assms(3,4) in \<open>auto simp: bit_push_bit_iff bit_drop_bit_eq bit_zext32 bit_ROR64 bit_halves [OF assms(1,2)] add.commute [of _ k]\<close>)
  show "(ucast (drop_bit 32 (ROR64 x k)) :: u32) = ucast (drop_bit (k - 32) (zext32 l)) XOR ucast (push_bit (64 - k) (zext32 h))"
    by (rule xor_split [of k 64]) (use assms(3,4) in \<open>auto simp: bit_push_bit_iff bit_drop_bit_eq bit_zext32 bit_ROR64 bit_halves [OF assms(1,2)] add.commute [of _ k]\<close>)
qed

lemma shift_halves:
  fixes l h x :: u64
  assumes "ucast l = (ucast x :: u32)" "ucast h = (ucast (drop_bit 32 x) :: u32)" "0 < k" "k < 32"
  shows "(ucast (drop_bit k x) :: u32) = ucast (drop_bit k (zext32 l)) XOR ucast (push_bit (32 - k) (zext32 h))"
    "(ucast (drop_bit 32 (drop_bit k x)) :: u32) = ucast (drop_bit k (zext32 h))"
proof -
  show "(ucast (drop_bit k x) :: u32) = ucast (drop_bit k (zext32 l)) XOR ucast (push_bit (32 - k) (zext32 h))"
    by (rule xor_split [of k 32]) (use assms(3,4) in \<open>auto simp: bit_push_bit_iff bit_drop_bit_eq bit_zext32 bit_ROR64 bit_halves [OF assms(1,2)] add.commute [of _ k]\<close>)
  show "(ucast (drop_bit 32 (drop_bit k x)) :: u32) = ucast (drop_bit k (zext32 h))"
  proof (rule bit_word_eqI)
    fix n assume "n < LENGTH(32)"
    then show "bit (ucast (drop_bit 32 (drop_bit k x)) :: u32) n = bit (ucast (drop_bit k (zext32 h)) :: u32) n"
      using assms(4) bit_imp_le_length [of x "32 + k + n"] bit_halves(2) [OF assms(1,2), of "32 + k + n"]
      by (cases "k + n < 32") (auto simp: bit_simps bit_zext32)
  qed
qed

lemma low_xor: "(ucast (a XOR b) :: u32) = ucast a XOR ucast b" "drop_bit n (a XOR b) = drop_bit n a XOR drop_bit n b" for a b :: u64
  by (auto intro!: bit_word_eqI simp: bit_simps bit_xor_iff)

lemma sig0_halves:
  fixes l h x :: u64
  assumes "ucast l = (ucast x :: u32)" "ucast h = (ucast (drop_bit 32 x) :: u32)"
  shows "sext32 (drop_bit 1 (zext32 l) XOR drop_bit 7 (zext32 l) XOR drop_bit 8 (zext32 l) XOR push_bit 31 (zext32 h) XOR push_bit 25 (zext32 h) XOR push_bit 24 (zext32 h)) = sext32 (sig0_64 x)"
    "sext32 (drop_bit 1 (zext32 h) XOR drop_bit 7 (zext32 h) XOR drop_bit 8 (zext32 h) XOR push_bit 31 (zext32 l) XOR push_bit 24 (zext32 l)) = sext32 (drop_bit 32 (sig0_64 x))"
  unfolding sext32_def sig0_64_def low_xor using ror_near [OF assms] ror_far [OF assms] shift_halves [OF assms]
  by (simp_all add: ac_simps del: drop_bit_drop_bit)

lemma sig1_halves:
  fixes l h x :: u64
  assumes "ucast l = (ucast x :: u32)" "ucast h = (ucast (drop_bit 32 x) :: u32)"
  shows "sext32 (push_bit 3 (zext32 l) XOR drop_bit 6 (zext32 l) XOR drop_bit 19 (zext32 l) XOR drop_bit 29 (zext32 h) XOR push_bit 26 (zext32 h) XOR push_bit 13 (zext32 h)) = sext32 (sig1_64 x)"
    "sext32 (push_bit 3 (zext32 h) XOR drop_bit 6 (zext32 h) XOR drop_bit 19 (zext32 h) XOR drop_bit 29 (zext32 l) XOR push_bit 13 (zext32 l)) = sext32 (drop_bit 32 (sig1_64 x))"
  unfolding sext32_def sig1_64_def low_xor using ror_near [OF assms] ror_far [OF assms] shift_halves [OF assms]
  by (simp_all add: ac_simps del: drop_bit_drop_bit)

lemma sum0_halves:
  fixes l h x :: u64
  assumes "ucast l = (ucast x :: u32)" "ucast h = (ucast (drop_bit 32 x) :: u32)"
  shows "sext32 (push_bit 25 (zext32 l) XOR push_bit 30 (zext32 l) XOR drop_bit 28 (zext32 l) XOR drop_bit 7 (zext32 h) XOR drop_bit 2 (zext32 h) XOR push_bit 4 (zext32 h)) = sext32 (sum0_64 x)"
    "sext32 (push_bit 25 (zext32 h) XOR push_bit 30 (zext32 h) XOR drop_bit 28 (zext32 h) XOR drop_bit 7 (zext32 l) XOR drop_bit 2 (zext32 l) XOR push_bit 4 (zext32 l)) = sext32 (drop_bit 32 (sum0_64 x))"
  unfolding sext32_def sum0_64_def low_xor using ror_near [OF assms] ror_far [OF assms] shift_halves [OF assms]
  by (simp_all add: ac_simps del: drop_bit_drop_bit)

lemma sum1_halves:
  fixes l h x :: u64
  assumes "ucast l = (ucast x :: u32)" "ucast h = (ucast (drop_bit 32 x) :: u32)"
  shows "sext32 (push_bit 23 (zext32 l) XOR drop_bit 14 (zext32 l) XOR drop_bit 18 (zext32 l) XOR drop_bit 9 (zext32 h) XOR push_bit 18 (zext32 h) XOR push_bit 14 (zext32 h)) = sext32 (sum1_64 x)"
    "sext32 (push_bit 23 (zext32 h) XOR drop_bit 14 (zext32 h) XOR drop_bit 18 (zext32 h) XOR drop_bit 9 (zext32 l) XOR push_bit 18 (zext32 l) XOR push_bit 14 (zext32 l)) = sext32 (drop_bit 32 (sum1_64 x))"
  unfolding sext32_def sum1_64_def low_xor using ror_near [OF assms] ror_far [OF assms] shift_halves [OF assms]
  by (simp_all add: ac_simps del: drop_bit_drop_bit)

text \<open>C26: The RV32 instructions of the SHA-512 functions compute, from the two halves of an operand, the two halves of what the RV64 instruction computes from the whole operand, for all four functions.\<close>

theorem sha512_halves:
  fixes x l h :: u64
  assumes "xlen c = 64" "xlen c' = 32" "insn_rd (insn_bits c) \<noteq> 0" "insn_rd (insn_bits c') \<noteq> 0"
    "insn_rs1 (insn_bits c) \<noteq> insn_rs2 (insn_bits c)" "insn_rs1 (insn_bits c') \<noteq> insn_rs2 (insn_bits c')"
    "extension_enabled s EXT_ZKNH" "extension_enabled s' EXT_ZKNH"
    "ucast l = (ucast x :: u32)" "ucast h = (ucast (drop_bit 32 x) :: u32)"
  shows "on2 insn_sha512sig0l c' s' l h = sext32 (on2 insn_sha512sig0 c s x y) \<and>
    on2 insn_sha512sig0h c' s' h l = sext32 (drop_bit 32 (on2 insn_sha512sig0 c s x y)) \<and>
    on2 insn_sha512sig1l c' s' l h = sext32 (on2 insn_sha512sig1 c s x y) \<and>
    on2 insn_sha512sig1h c' s' h l = sext32 (drop_bit 32 (on2 insn_sha512sig1 c s x y)) \<and>
    on2 insn_sha512sum0r c' s' l h = sext32 (on2 insn_sha512sum0 c s x y) \<and>
    on2 insn_sha512sum0r c' s' h l = sext32 (drop_bit 32 (on2 insn_sha512sum0 c s x y)) \<and>
    on2 insn_sha512sum1r c' s' l h = sext32 (on2 insn_sha512sum1 c s x y) \<and>
    on2 insn_sha512sum1r c' s' h l = sext32 (drop_bit 32 (on2 insn_sha512sum1 c s x y))"
proof -
  note w = on2_operands [OF assms(5)] on2_operands [OF assms(6)]
  have wide: "on2 insn_sha512sig0 c s x y = sig0_64 x" "on2 insn_sha512sig1 c s x y = sig1_64 x"
    "on2 insn_sha512sum0 c s x y = sum0_64 x" "on2 insn_sha512sum1 c s x y = sum1_64 x"
    using assms(1,3,7) by (simp_all add: on2_simps w insn_sha512sig0_def insn_sha512sig1_def insn_sha512sum0_def insn_sha512sum1_def
      sig0_64_def sig1_64_def sum0_64_def sum1_64_def)
  note n = insn_sha512sig0l_def insn_sha512sig0h_def insn_sha512sig1l_def insn_sha512sig1h_def insn_sha512sum0r_def insn_sha512sum1r_def
  show ?thesis
    unfolding wide n
    by (simp only: on2_simps w sext_xlen_def assms(2,4,8) sext32_sext [symmetric] if_True simp_thms
      sig0_halves [OF assms(9,10)] sig1_halves [OF assms(9,10)] sum0_halves [OF assms(9,10)] sum1_halves [OF assms(9,10)])
qed

theorem sha512_halves_witness:
  "on2 insn_sha512sum0r (ctx_full 32 0x00C58533 0) (hart_full 32) 0x89ABCDEF 0x01234567 =
     sext32 (on2 insn_sha512sum0 (ctx_full 64 0x00C58533 0) (hart_full 64) 0x0123456789ABCDEF 0)"
  using sha512_halves [of "ctx_full 64 0x00C58533 0" "ctx_full 32 0x00C58533 0" "hart_full 64" "hart_full 32"
      "0x89ABCDEF" "0x0123456789ABCDEF" "0x01234567" 0]
  by (simp add: ctx_full_def hart_full_def extension_enabled_def insn_rd_def insn_rs1_def insn_rs2_def insn_x_def)

end
