(* ===== verification/Pmp.thy ===== *)
theory Pmp
  imports CsrFile Arith
begin

text \<open>
  Physical memory protection: the classes \<^verbatim>\<open>pmpaddr_csr_t\<close>,
  \<^verbatim>\<open>pmpcfg_csr_t\<close> and \<^verbatim>\<open>mseccfg_csr_t\<close> of \<^verbatim>\<open>riscv/csrs.cc\<close>,
  the configuration of their number and granularity in \<^verbatim>\<open>riscv/processor.cc\<close>, and the
  two checks of \<^verbatim>\<open>riscv/mmu.cc\<close>. The object of entry \<open>i\<close> is the pair of
  \<^verbatim>\<open>pmpaddr_val s i\<close> and \<^verbatim>\<open>pmpaddr_cfg s i\<close>.
\<close>

section \<open>Entries\<close>

datatype access_type = LOAD | STORE | FETCH

definition max_pmp :: nat where "max_pmp = 64"

abbreviation (input) PMP_R :: u8 where "PMP_R \<equiv> 0x01"
abbreviation (input) PMP_W :: u8 where "PMP_W \<equiv> 0x02"
abbreviation (input) PMP_X :: u8 where "PMP_X \<equiv> 0x04"
abbreviation (input) PMP_A :: u8 where "PMP_A \<equiv> 0x18"
abbreviation (input) PMP_L :: u8 where "PMP_L \<equiv> 0x80"
abbreviation (input) PMP_TOR :: u8 where "PMP_TOR \<equiv> 0x08"
abbreviation (input) PMP_NA4 :: u8 where "PMP_NA4 \<equiv> 0x10"
abbreviation (input) PMP_NAPOT :: u8 where "PMP_NAPOT \<equiv> 0x18"

definition PMP_SHIFT :: nat where "PMP_SHIFT = 2"
definition MAX_PADDR_BITS :: nat where "MAX_PADDR_BITS = 64"

definition pmp_tor_mask :: "'d hart \<Rightarrow> u64" where
  "pmp_tor_mask s = - push_bit (lg_pmp_granularity s - PMP_SHIFT) 1"

definition get_mml :: "'d hart \<Rightarrow> bool" where "get_mml s \<longleftrightarrow> mseccfg_val s AND MSECCFG_MML \<noteq> 0"
definition get_mmwp :: "'d hart \<Rightarrow> bool" where "get_mmwp s \<longleftrightarrow> mseccfg_val s AND MSECCFG_MMWP \<noteq> 0"
definition get_rlb :: "'d hart \<Rightarrow> bool" where "get_rlb s \<longleftrightarrow> mseccfg_val s AND MSECCFG_RLB \<noteq> 0"

definition is_locked :: "nat \<Rightarrow> 'd hart \<Rightarrow> bool" where
  "is_locked i s \<longleftrightarrow> pmpaddr_cfg s i AND PMP_L \<noteq> 0"

definition pmpaddr_read :: "nat \<Rightarrow> 'd hart \<Rightarrow> u64" where
  "pmpaddr_read i s =
    (if pmpaddr_cfg s i AND PMP_A \<ge> PMP_NAPOT then pmpaddr_val s i OR drop_bit 1 (NOT (pmp_tor_mask s))
     else pmpaddr_val s i AND pmp_tor_mask s)"

definition next_locked_and_tor :: "nat \<Rightarrow> 'd hart \<Rightarrow> bool" where
  "next_locked_and_tor i s \<longleftrightarrow>
    (if i + 1 \<ge> max_pmp then False
     else let lock_bypass = get_rlb s;
              next_locked = (\<not> lock_bypass \<and> is_locked (i + 1) s);
              next_tor = (pmpaddr_cfg s (i + 1) AND PMP_A = PMP_TOR)
          in next_locked \<and> next_tor)"

definition pmpaddr_write :: "nat \<Rightarrow> u64 \<Rightarrow> 'd hart \<Rightarrow> 'd hart" where
  "pmpaddr_write i v s =
    (if n_pmp s = 0 then s
     else let lock_bypass = get_rlb s;
              locked = (\<not> lock_bypass \<and> is_locked i s)
          in if i < n_pmp s \<and> \<not> locked \<and> \<not> next_locked_and_tor i s
             then flush_tlb (s\<lparr>pmpaddr_val := (pmpaddr_val s)
               (i := v AND (push_bit (MAX_PADDR_BITS - PMP_SHIFT) 1 - 1))\<rparr>)
             else s)"

definition tor_paddr :: "nat \<Rightarrow> 'd hart \<Rightarrow> u64" where
  "tor_paddr i s = push_bit PMP_SHIFT (pmpaddr_val s i AND pmp_tor_mask s)"

definition tor_base_paddr :: "nat \<Rightarrow> 'd hart \<Rightarrow> u64" where
  "tor_base_paddr i s = (if i = 0 then 0 else tor_paddr (i - 1) s)"

definition napot_mask :: "nat \<Rightarrow> 'd hart \<Rightarrow> u64" where
  "napot_mask i s =
    (let is_na4 = (pmpaddr_cfg s i AND PMP_A = PMP_NA4);
         m = push_bit 1 (pmpaddr_val s i) OR of_bool (\<not> is_na4) OR NOT (pmp_tor_mask s)
     in push_bit PMP_SHIFT (NOT (m AND NOT (m + 1))))"

definition match4 :: "nat \<Rightarrow> u64 \<Rightarrow> 'd hart \<Rightarrow> bool" where
  "match4 i addr s \<longleftrightarrow>
    (if pmpaddr_cfg s i AND PMP_A = 0 then False
     else if pmpaddr_cfg s i AND PMP_A = PMP_TOR then tor_base_paddr i s \<le> addr \<and> addr < tor_paddr i s
     else (addr XOR tor_paddr i s) AND napot_mask i s = 0)"

text \<open>\<^verbatim>\<open>subset_match\<close> aborts on a range that is not naturally aligned.\<close>

definition subset_match :: "nat \<Rightarrow> u64 \<Rightarrow> u64 \<Rightarrow> 'd hart \<Rightarrow> bool option" where
  "subset_match i addr len s =
    (if (addr OR len) AND (len - 1) \<noteq> 0 then None
     else let base = tor_base_paddr i s; tor = tor_paddr i s
          in if pmpaddr_cfg s i AND PMP_A = 0 then Some False
             else let is_tor = (pmpaddr_cfg s i AND PMP_A = PMP_TOR);
                      begins_after_lower = (base \<le> addr);
                      begins_after_upper = (tor \<le> addr);
                      ends_before_lower = (addr AND (- len) < base AND (- len));
                      ends_before_upper = (addr AND (- len) < tor AND (- len));
                      tor_homogeneous = (ends_before_lower \<or> begins_after_upper \<or>
                        (begins_after_lower \<and> ends_before_upper));
                      mask_homogeneous = (NOT (push_bit 1 (napot_mask i s)) AND len \<noteq> 0);
                      napot_homogeneous = (mask_homogeneous \<or> (addr XOR tor) div len \<noteq> 0)
                  in Some (\<not> (if is_tor then tor_homogeneous else napot_homogeneous)))"

definition access_ok :: "nat \<Rightarrow> access_type \<Rightarrow> u64 \<Rightarrow> bool \<Rightarrow> 'd hart \<Rightarrow> bool" where
  "access_ok i type mode hlvx s =
    (let cfg = pmpaddr_cfg s i;
         cfgx = (cfg AND PMP_X \<noteq> 0); cfgw = (cfg AND PMP_W \<noteq> 0);
         cfgr = (cfg AND PMP_R \<noteq> 0); cfgl = (cfg AND PMP_L \<noteq> 0);
         prvm = (mode = PRV_M);
         typer = (type = LOAD); typex = (type = FETCH); typew = (type = STORE);
         normal_rwx = ((typer \<and> cfgr \<and> (\<not> hlvx \<or> cfgx)) \<or> (typew \<and> cfgw) \<or> (typex \<and> cfgx))
     in if get_mml s
        then (if cfgx \<and> cfgw \<and> cfgr \<and> cfgl then typer \<and> \<not> hlvx
              else let mml_shared_region = (\<not> cfgr \<and> cfgw);
                       mml_chk_normal = (prvm = cfgl \<and> normal_rwx);
                       mml_chk_shared =
                         ((\<not> cfgl \<and> cfgx \<and> ((typer \<and> \<not> hlvx) \<or> typew)) \<or>
                          (\<not> cfgl \<and> \<not> cfgx \<and> ((typer \<and> \<not> hlvx) \<or> (typew \<and> prvm))) \<or>
                          (cfgl \<and> typex) \<or>
                          (cfgl \<and> typer \<and> cfgx \<and> prvm))
                   in if mml_shared_region then mml_chk_shared else mml_chk_normal)
        else (let m_bypass = (prvm \<and> \<not> cfgl) in m_bypass \<or> normal_rwx))"

section \<open>Configuration registers\<close>

text \<open>The indices that a configuration register at \<^verbatim>\<open>CSR_PMPCFG0 + k\<close> holds.\<close>

definition pmpcfg_range :: "ctx \<Rightarrow> nat \<Rightarrow> nat list" where
  "pmpcfg_range c k = [k * 4 ..< k * 4 + xlen c div 8]"

definition pmpcfg_read :: "ctx \<Rightarrow> nat \<Rightarrow> 'd hart \<Rightarrow> u64" where
  "pmpcfg_read c k s =
    fold (\<lambda>i r. r OR push_bit (8 * (i - k * 4)) (ucast (pmpaddr_cfg s i)))
      (filter (\<lambda>i. i < max_pmp) (pmpcfg_range c k)) 0"

text \<open>The value a write gives to one entry, unless the entry keeps its own.\<close>

definition pmpcfg_legal :: "u8 \<Rightarrow> 'd hart \<Rightarrow> u8" where
  "pmpcfg_legal cfg s =
    (let cfg = cfg AND (PMP_R OR PMP_W OR PMP_X OR PMP_A OR PMP_L);
         cfg = (if \<not> get_mml s then cfg AND (NOT PMP_W OR (if cfg AND PMP_R \<noteq> 0 then PMP_W else 0)) else cfg)
     in if lg_pmp_granularity s \<noteq> PMP_SHIFT \<and> cfg AND PMP_A = PMP_NA4 then cfg OR PMP_NAPOT else cfg)"

definition pmpcfg_write_entry :: "nat \<Rightarrow> u8 \<Rightarrow> 'd hart \<Rightarrow> 'd hart" where
  "pmpcfg_write_entry i v s =
    (if \<not> (i < n_pmp s) then s
     else if get_rlb s \<or> \<not> is_locked i s
     then (let cfg = pmpcfg_legal v s;
               cfgx = (cfg AND PMP_X \<noteq> 0); cfgw = (cfg AND PMP_W \<noteq> 0); cfgr = (cfg AND PMP_R \<noteq> 0)
           in if get_rlb s \<or> \<not> (get_mml s \<and> cfg AND PMP_L \<noteq> 0 \<and> \<not> (cfgx \<and> cfgw \<and> cfgr) \<and> (cfgx \<or> (cfgw \<and> \<not> cfgr)))
              then s\<lparr>pmpaddr_cfg := (pmpaddr_cfg s)(i := cfg)\<rparr> else s)
     else s)"

definition pmpcfg_write :: "ctx \<Rightarrow> nat \<Rightarrow> u64 \<Rightarrow> 'd hart \<Rightarrow> 'd hart" where
  "pmpcfg_write c k v s =
    (if n_pmp s = 0 then s
     else flush_tlb (fold (\<lambda>i. pmpcfg_write_entry i (ucast (drop_bit (8 * (i - k * 4)) v))) (pmpcfg_range c k) s))"

definition mseccfg_write :: "u64 \<Rightarrow> 'd hart \<Rightarrow> 'd hart" where
  "mseccfg_write v s =
    (if n_pmp s = 0 then s
     else let pmplock_recorded = list_ex (\<lambda>i. is_locked i s) [0..<n_pmp s];
              w = mseccfg_val s;
              w = (if \<not> (pmplock_recorded \<and> mseccfg_val s AND MSECCFG_RLB = 0)
                   then (w AND NOT MSECCFG_RLB) OR (v AND MSECCFG_RLB) else w);
              w = w OR (v AND MSECCFG_MMWP);
              w = w OR (v AND MSECCFG_MML);
              w = (if extension_enabled s EXT_ZKR
                   then (w AND NOT (MSECCFG_USEED OR MSECCFG_SSEED)) OR (v AND (MSECCFG_USEED OR MSECCFG_SSEED)) else w);
              s = flush_tlb s;
              w = (if extension_enabled s EXT_ZICFILP
                   then (w AND NOT MSECCFG_MLPE) OR (v AND MSECCFG_MLPE) else w);
              w = (if extension_enabled s EXT_SMMPM
                   then (let pmm = get_field v MSECCFG_PMM in set_field w MSECCFG_PMM (if pmm \<noteq> 1 then pmm else 0)) else w)
          in s\<lparr>mseccfg_val := w\<rparr>)"

section \<open>Permissions\<close>

definition pmp_verify_permissions :: "ctx \<Rightarrow> u64 \<Rightarrow> bool \<Rightarrow> ('d hart, unit) M" where
  "pmp_verify_permissions c addr w = thenM (csr_verify_permissions c addr w) (\<lambda>s.
     if n_pmp s = 0 then throwM (Trap (trap_illegal_instruction (insn_bits c))) s else returnM () s)"

definition mseccfg_verify_permissions :: "ctx \<Rightarrow> u64 \<Rightarrow> bool \<Rightarrow> ('d hart, unit) M" where
  "mseccfg_verify_permissions c addr w = thenM (csr_verify_permissions c addr w) (\<lambda>s.
     if \<not> extension_enabled s EXT_SMEPMP \<and> \<not> extension_enabled s EXT_SMMPM \<and>
        \<not> extension_enabled s EXT_ZICFILP \<and> \<not> extension_enabled s EXT_ZKR
     then throwM (Trap (trap_illegal_instruction (insn_bits c))) s else returnM () s)"

section \<open>Configuration of the hart\<close>

definition set_pmp_num :: "nat \<Rightarrow> 'd hart \<Rightarrow> 'd hart option" where
  "set_pmp_num n s = (if n > max_pmp then None else Some (s\<lparr>n_pmp := n\<rparr>))"

definition set_pmp_granularity :: "u64 \<Rightarrow> 'd hart \<Rightarrow> 'd hart option" where
  "set_pmp_granularity gran s =
    (if gran < push_bit PMP_SHIFT 1 \<or> gran AND (gran - 1) \<noteq> 0 then None
     else Some (s\<lparr>lg_pmp_granularity := ctz gran\<rparr>))"

text \<open>What \<^verbatim>\<open>processor_t::reset\<close> does to the entries: the first one opens all of
  memory.\<close>

definition pmp_reset :: "ctx \<Rightarrow> 'd hart \<Rightarrow> 'd hart" where
  "pmp_reset c s =
    (if n_pmp s > 0
     then pmpcfg_write c 0 (ucast (PMP_R OR PMP_W OR PMP_X OR PMP_NAPOT)) (pmpaddr_write 0 (- 1) s) else s)"

section \<open>The checks of the MMU\<close>

text \<open>The addresses at which an access of \<open>len\<close> bytes is checked.\<close>

definition pmp_sectors :: "u64 \<Rightarrow> nat \<Rightarrow> u64 list" where
  "pmp_sectors addr len = map (\<lambda>k. addr + of_nat (4 * k)) [0..<(len + 3) div 4]"

fun pmp_scan :: "nat list \<Rightarrow> u64 list \<Rightarrow> access_type \<Rightarrow> u64 \<Rightarrow> bool \<Rightarrow> 'd hart \<Rightarrow> bool option" where
  "pmp_scan [] sectors type mode hlvx s = None"
| "pmp_scan (i # is) sectors type mode hlvx s =
    (let any_match = list_ex (\<lambda>a. match4 i a s) sectors;
         all_match = list_all (\<lambda>a. match4 i a s) sectors
     in if any_match then (if \<not> all_match then Some False else Some (access_ok i type mode hlvx s))
        else pmp_scan is sectors type mode hlvx s)"

definition pmp_ok :: "u64 \<Rightarrow> nat \<Rightarrow> access_type \<Rightarrow> u64 \<Rightarrow> bool \<Rightarrow> 'd hart \<Rightarrow> bool" where
  "pmp_ok addr len type mode hlvx s =
    (if n_pmp s = 0 then True
     else case pmp_scan [0..<n_pmp s] (pmp_sectors addr len) type mode hlvx s of
       Some r \<Rightarrow> r
     | None \<Rightarrow> mode = PRV_M \<and> \<not> get_mmwp s \<and> (\<not> get_mml s \<or> type = LOAD \<or> type = STORE))"

definition pmp_homogeneous :: "u64 \<Rightarrow> u64 \<Rightarrow> 'd hart \<Rightarrow> bool option" where
  "pmp_homogeneous addr len s =
    (if (addr OR len) AND (len - 1) \<noteq> 0 then None
     else Some (list_all (\<lambda>i. subset_match i addr len s \<noteq> Some True) [0..<n_pmp s]))"

end
