(* ===== verification/PmpFacts.thy ===== *)
theory PmpFacts
  imports Pmp PrivFacts
begin

text \<open>
  Facts about physical memory protection: the set of addresses an entry matches as an interval or
  an aligned block; the checks of the MMU on an access and on a page; the writes of the three kinds
  of registers as a step relation, with the lock and the well-formedness of an entry as invariants.
\<close>

section \<open>Blocks of addresses\<close>

lemma block_le: "2 ^ k dvd unat b \<Longrightarrow> b \<le> a \<longleftrightarrow> unat b div 2 ^ k \<le> unat a div 2 ^ k" for a b :: u64
  by (metis div_le_mono dvd_div_mult_self mult_le_mono1 order_trans word_le_nat_alt div_times_less_eq_dividend)

lemma block_less: "2 ^ k dvd unat b \<Longrightarrow> a < b \<longleftrightarrow> unat a div 2 ^ k < unat b div 2 ^ k" for a b :: u64
  using block_le [of k b a] by (auto simp: not_le [symmetric])

lemma pushed_dvd: "2 ^ k dvd unat (push_bit k w)" for w :: u64
proof -
  have "take_bit k (unat (push_bit k w)) = 0"
    by (rule bit_eqI) (auto simp: bit_take_bit_iff bit_unsigned_iff bit_push_bit_iff)
  then show ?thesis by (simp add: take_bit_eq_mod dvd_eq_mod_eq_0)
qed

lemma same_block_bit: "drop_bit k a = drop_bit k b \<Longrightarrow> k \<le> n \<Longrightarrow> bit a n = bit b n" for a b :: u64
proof -
  assume "drop_bit k a = drop_bit k b" "k \<le> n"
  then have "bit (drop_bit k a) (n - k) = bit (drop_bit k b) (n - k)" by simp
  then show ?thesis using \<open>k \<le> n\<close> by (simp add: bit_drop_bit_eq)
qed

text \<open>The mask of the trailing ones of a word.\<close>

lemma trailing_ones:
  fixes x :: u64
  shows "\<exists>t \<le> 64. x AND NOT (x + 1) = mask t \<and> (\<forall>n < t. bit x n) \<and> (t < 64 \<longrightarrow> \<not> bit x t)"
proof (cases "x = - 1")
  case True
  then show ?thesis by (intro exI [of _ 64]) (simp add: mask_eq_exp_minus_1)
next
  case False
  have "\<exists>n < 64. \<not> bit x n"
  proof (rule ccontr)
    assume "\<not> ?thesis"
    then have "x = - 1" by (intro bit_word_eqI) auto
    then show False using False by simp
  qed
  then obtain t where t: "t < 64" "\<not> bit x t" "\<And>n. n < t \<Longrightarrow> bit x n"
    using exists_least_iff [of "\<lambda>n. n < 64 \<and> \<not> bit x n"] by (metis less_trans)
  have x: "x = push_bit (t + 1) (drop_bit (t + 1) x) OR mask t"
    using t by (auto intro!: bit_word_eqI simp: bit_or_iff bit_push_bit_iff bit_mask_iff bit_drop_bit_eq not_less_eq less_Suc_eq simp del: push_bit_Suc drop_bit_Suc)
  have "x + 1 = push_bit (t + 1) (drop_bit (t + 1) x) OR push_bit t 1"
  proof -
    let ?h = "push_bit (t + 1) (drop_bit (t + 1) x)"
    have "?h AND mask t = 0" "?h AND push_bit t 1 = 0"
      by (auto intro!: bit_word_eqI simp: bit_simps simp del: push_bit_Suc)
    then have "?h OR mask t = ?h + mask t" "?h OR push_bit t 1 = ?h + push_bit t 1"
      by (simp_all add: disjunctive_add bit_eq_iff bit_simps)
    moreover have "mask t + 1 = (push_bit t 1 :: u64)" by (simp add: mask_eq_exp_minus_1)
    ultimately show ?thesis using x by (metis add.assoc)
  qed
  then have "bit (x + 1) n \<longleftrightarrow> n < 64 \<and> (if n < t then False else n = t \<or> bit x n)" for n
    using t bit_imp_le_length [of x n] by (auto simp: bit_or_iff bit_push_bit_iff bit_drop_bit_eq bit_exp_iff simp del: push_bit_Suc drop_bit_Suc)
  then have "x AND NOT (x + 1) = mask t"
    using t by (auto intro!: bit_word_eqI simp: bit_and_iff bit_not_iff bit_mask_iff split: if_splits)
  then show ?thesis using t by (intro exI [of _ t]) auto
qed

section \<open>Matching\<close>

lemma tor_dvd: "2 ^ 2 dvd unat (tor_paddr i s)" "2 ^ 2 dvd unat (tor_base_paddr i s)"
  using pushed_dvd [of 2 "pmpaddr_val s i AND pmp_tor_mask s"] pushed_dvd [of 2 "pmpaddr_val s (i - 1) AND pmp_tor_mask s"]
  by (simp_all add: tor_paddr_def tor_base_paddr_def PMP_SHIFT_def)

lemma napot_mask_shape:
  obtains t where "napot_mask i s = NOT (mask (t + 2))" "\<And>n. n < t \<Longrightarrow> bit (push_bit 1 (pmpaddr_val s i) OR
      of_bool (\<not> pmpaddr_cfg s i AND PMP_A = PMP_NA4) OR NOT (pmp_tor_mask s)) n"
    "t < 64 \<Longrightarrow> \<not> bit (push_bit 1 (pmpaddr_val s i) OR
      of_bool (\<not> pmpaddr_cfg s i AND PMP_A = PMP_NA4) OR NOT (pmp_tor_mask s)) t"
proof -
  let ?x = "push_bit 1 (pmpaddr_val s i) OR of_bool (\<not> pmpaddr_cfg s i AND PMP_A = PMP_NA4) OR NOT (pmp_tor_mask s)"
  obtain t where t: "?x AND NOT (?x + 1) = mask t" "\<forall>n<t. bit ?x n" "t < 64 \<longrightarrow> \<not> bit ?x t"
    using trailing_ones [of ?x] by blast
  have "napot_mask i s = push_bit 2 (NOT (mask t))"
    unfolding napot_mask_def Let_def PMP_SHIFT_def t(1) ..
  moreover have "push_bit 2 (NOT (mask t)) = (NOT (mask (t + 2)) :: u64)"
    by (rule bit_word_eqI) (auto simp: bit_push_bit_iff bit_not_iff bit_mask_iff)
  ultimately show thesis using that [of t] t by auto
qed

lemma masked_eq: "(a XOR b) AND NOT (mask k) = 0 \<longleftrightarrow> drop_bit k a = drop_bit k b" for a b :: u64
proof -
  have "(a XOR b) AND NOT (mask k) = 0 \<longleftrightarrow> (\<forall>n<64. k \<le> n \<longrightarrow> bit a n = bit b n)"
    by (auto simp: bit_eq_iff bit_and_iff bit_xor_iff bit_not_iff bit_mask_iff)
  also have "\<dots> \<longleftrightarrow> drop_bit k a = drop_bit k b"
  proof
    assume h: "\<forall>n<64. k \<le> n \<longrightarrow> bit a n = bit b n"
    show "drop_bit k a = drop_bit k b"
    proof (rule bit_word_eqI)
      fix n
      show "bit (drop_bit k a) n = bit (drop_bit k b) n"
        using h [rule_format, of "k + n"] bit_imp_le_length [of a "k + n"] bit_imp_le_length [of b "k + n"]
        by (auto simp: bit_drop_bit_eq)
    qed
  qed (use same_block_bit in blast)
  finally show ?thesis .
qed

text \<open>The set of addresses of an entry, as intervals and aligned blocks.\<close>

lemma match4_off: "pmpaddr_cfg s i AND PMP_A = 0 \<Longrightarrow> \<not> match4 i a s"
  by (simp add: match4_def)

lemma match4_napot:
  assumes "pmpaddr_cfg s i AND PMP_A \<noteq> 0" "pmpaddr_cfg s i AND PMP_A \<noteq> PMP_TOR" "napot_mask i s = NOT (mask k)"
  shows "match4 i a s \<longleftrightarrow> drop_bit k a = drop_bit k (tor_paddr i s)"
  using assms by (simp add: match4_def masked_eq)

lemma sector_uniform:
  assumes "drop_bit 2 a = drop_bit 2 b"
  shows "match4 i a s = match4 i b s"
proof (cases "pmpaddr_cfg s i AND PMP_A = 0 \<or> pmpaddr_cfg s i AND PMP_A = PMP_TOR")
  case True
  have "unat a div 2 ^ 2 = unat b div 2 ^ 2" using assms unat_drop [of 2 a] unat_drop [of 2 b] by simp
  then have "tor_base_paddr i s \<le> a \<longleftrightarrow> tor_base_paddr i s \<le> b" "a < tor_paddr i s \<longleftrightarrow> b < tor_paddr i s"
    by (simp_all only: block_le [OF tor_dvd(2)] block_less [OF tor_dvd(1)])
  then show ?thesis using True by (auto simp: match4_def)
next
  case False
  obtain t where t: "napot_mask i s = NOT (mask (t + 2))" by (rule napot_mask_shape)
  have "drop_bit (t + 2) a = drop_bit t (drop_bit 2 a)" "drop_bit (t + 2) b = drop_bit t (drop_bit 2 b)" by simp_all
  moreover have "pmpaddr_cfg s i AND PMP_A \<noteq> 0" "pmpaddr_cfg s i AND PMP_A \<noteq> PMP_TOR" using False by blast+
  ultimately show ?thesis using assms by (simp only: match4_napot [OF _ _ t] not_False_eq_True)
qed

section \<open>Pages\<close>

lemma page_mask: "(0x1000 :: u64) - 1 = mask 12" "- 0x1000 = NOT (mask 12 :: u64)" "0x1000 = (push_bit 12 1 :: u64)"
  by (simp_all add: mask_eq_exp_minus_1 not_eq_complement)

lemma above_block: "a AND NOT (mask k) < b AND NOT (mask k) \<longleftrightarrow> unat a div 2 ^ k < unat b div 2 ^ k" for a b :: u64
proof -
  have e: "w AND NOT (mask k) = push_bit k (drop_bit k w)" for w :: u64
    by (rule bit_word_eqI) (auto simp: bit_simps)
  have u: "unat (push_bit k (drop_bit k w)) = unat w div 2 ^ k * 2 ^ k" for w :: u64
  proof -
    have "unat (push_bit k (drop_bit k w)) = push_bit k (drop_bit k (unat w))"
      by (rule bit_eqI) (auto simp: bit_simps bit_unsigned_iff dest: bit_imp_le_length)
    then show ?thesis by (simp add: push_bit_eq_mult drop_bit_eq_div)
  qed
  show ?thesis by (simp add: e word_less_nat_alt u)
qed

lemma page_low:
  assumes "(page OR 0x1000) AND (0x1000 - 1) = (0 :: u64)"
  shows "page = push_bit 12 (drop_bit 12 page)"
proof (rule bit_word_eqI)
  fix n
  have "\<not> bit ((page OR 0x1000) AND (0x1000 - 1)) n" unfolding assms by simp
  then have "n < 12 \<Longrightarrow> \<not> bit page n" unfolding page_mask(1) by (auto simp: bit_simps)
  then show "bit page n = bit (push_bit 12 (drop_bit 12 page)) n"
    using bit_imp_le_length [of page n] by (cases "n < 12") (auto simp: bit_push_bit_iff bit_drop_bit_eq)
qed

lemma page_tor:
  fixes page a :: u64
  assumes "(page OR 0x1000) AND (0x1000 - 1) = 0" "drop_bit 12 a = drop_bit 12 page"
    "page AND (- 0x1000) < base AND (- 0x1000) \<or> tor \<le> page \<or> (base \<le> page \<and> page AND (- 0x1000) < tor AND (- 0x1000))"
  shows "base \<le> a \<and> a < tor \<longleftrightarrow> base \<le> page \<and> page < tor"
proof -
  have same: "unat a div 2 ^ 12 = unat page div 2 ^ 12" using assms(2) by (simp only: unat_drop [symmetric])
  have "2 ^ 12 dvd unat page" using pushed_dvd [of 12 "drop_bit 12 page"] page_low [OF assms(1)] by simp
  from block_le [OF this, of a] have ge: "page \<le> a" by (simp only: same)
  have lt: "x < c" if "unat x div 2 ^ 12 < unat c div 2 ^ 12" for x c :: u64
    using that by (meson div_le_mono not_le word_less_nat_alt)
  from assms(3) show ?thesis unfolding page_mask(2) above_block
  proof (elim disjE conjE)
    assume "unat page div 2 ^ 12 < unat base div 2 ^ 12"
    then have "a < base" "page < base" by (auto intro!: lt simp only: same)
    then show ?thesis by auto
  next
    assume "tor \<le> page"
    then show ?thesis using ge by auto
  next
    assume "base \<le> page" and p: "unat page div 2 ^ 12 < unat tor div 2 ^ 12"
    have "a < tor" "page < tor" by (rule lt, simp only: same p)+
    then show ?thesis using \<open>base \<le> page\<close> ge by auto
  qed
qed

lemma big_block: "NOT (push_bit 1 (NOT (mask k))) AND 0x1000 \<noteq> (0 :: u64) \<longleftrightarrow> 12 \<le> k"
proof -
  have "NOT (push_bit 1 (NOT (mask k))) AND 0x1000 \<noteq> (0 :: u64) \<longleftrightarrow> bit (NOT (push_bit 1 (NOT (mask k))) :: u64) 12"
    using bit_iff_and_push_bit_not_eq_0 [of "NOT (push_bit 1 (NOT (mask k))) :: u64" 12] by (simp only: page_mask(3))
  also have "\<dots> \<longleftrightarrow> 12 \<le> k" by (auto simp: bit_not_iff bit_push_bit_iff bit_mask_iff simp del: push_bit_Suc One_nat_def)
  finally show ?thesis .
qed

lemma page_napot:
  fixes page a b tor :: u64
  assumes "drop_bit 12 a = drop_bit 12 page" "drop_bit 12 b = drop_bit 12 page" "12 \<le> k \<or> (page XOR tor) div 0x1000 \<noteq> 0"
  shows "drop_bit k a = drop_bit k tor \<longleftrightarrow> drop_bit k b = drop_bit k tor"
proof (cases "12 \<le> k")
  case True
  then obtain m where m: "k = m + 12" by (metis add.commute le_Suc_ex)
  have "drop_bit (m + 12) w = drop_bit m (drop_bit 12 w)" for w :: u64 by simp
  then show ?thesis using assms(1,2) by (simp only: m)
next
  case False
  then have "drop_bit 12 (page XOR tor) \<noteq> 0" using assms(3) by (simp add: drop_bit_eq_div)
  then have ne: "drop_bit 12 page \<noteq> drop_bit 12 tor" by (auto simp: drop_bit_xor)
  have "drop_bit 12 w = drop_bit 12 tor" if "drop_bit k w = drop_bit k tor" for w
  proof -
    have "drop_bit (12 - k) (drop_bit k w) = drop_bit (12 - k) (drop_bit k tor)" using that by simp
    then show ?thesis using False by simp
  qed
  then show ?thesis using ne assms(1,2) by metis
qed

lemma page_uniform:
  assumes "subset_match i page 0x1000 s = Some False" "drop_bit 12 a = drop_bit 12 page"
  shows "match4 i a s = match4 i page s"
proof -
  have al: "(page OR 0x1000) AND (0x1000 - 1) = 0"
    using assms(1) unfolding subset_match_def by (simp split: if_splits)
  consider "pmpaddr_cfg s i AND PMP_A = 0" | "pmpaddr_cfg s i AND PMP_A = PMP_TOR"
    | "pmpaddr_cfg s i AND PMP_A \<noteq> 0" "pmpaddr_cfg s i AND PMP_A \<noteq> PMP_TOR" by blast
  then show ?thesis
  proof cases
    case 1 then show ?thesis by (simp add: match4_def)
  next
    case 2
    have "tor_base_paddr i s \<le> a \<and> a < tor_paddr i s \<longleftrightarrow> tor_base_paddr i s \<le> page \<and> page < tor_paddr i s"
      by (rule page_tor [OF al assms(2)]) (use assms(1) al 2 in \<open>simp add: subset_match_def Let_def split: if_splits\<close>)
    then show ?thesis using 2 by (simp add: match4_def)
  next
    case 3
    obtain t where t: "napot_mask i s = NOT (mask (t + 2))" by (rule napot_mask_shape)
    have "12 \<le> t + 2 \<or> (page XOR tor_paddr i s) div 0x1000 \<noteq> 0"
      using assms(1) al 3 unfolding subset_match_def Let_def t big_block by (simp split: if_splits)
    from page_napot [OF assms(2) refl this] show ?thesis by (simp only: match4_napot [OF 3 t])
  qed
qed

section \<open>Decisions\<close>

text \<open>The decision on an access only depends on which entries match its sectors.\<close>

lemma pmp_scan_cong:
  assumes "\<And>i. i \<in> set is \<Longrightarrow> list_ex (\<lambda>a. match4 i a s) xs = list_ex (\<lambda>a. match4 i a s) ys"
    "\<And>i. i \<in> set is \<Longrightarrow> list_all (\<lambda>a. match4 i a s) xs = list_all (\<lambda>a. match4 i a s) ys"
  shows "pmp_scan is xs type mode hlvx s = pmp_scan is ys type mode hlvx s"
  using assms by (induction "is") (simp_all add: Let_def)

definition in_page :: "u64 \<Rightarrow> u64 \<Rightarrow> nat \<Rightarrow> bool" where
  "in_page page a len \<longleftrightarrow> 0 < len \<and> drop_bit 12 a = drop_bit 12 page \<and> unat a mod 2 ^ 12 + len \<le> 2 ^ 12"

lemma in_page_sector:
  assumes "in_page page a len" "x \<in> set (pmp_sectors a len)"
  shows "drop_bit 12 x = drop_bit 12 page"
proof -
  obtain k where k: "x = a + of_nat (4 * k)" "k < (len + 3) div 4" using assms(2) by (auto simp: pmp_sectors_def)
  then have "4 * k < len" by linarith
  then have "unat a mod 2 ^ 12 + 4 * k < 2 ^ 12" using assms(1) by (simp only: in_page_def) linarith
  from in_block [OF this] show ?thesis using assms(1) k(1) by (simp add: in_page_def)
qed

lemma sectors_nonempty: "0 < len \<Longrightarrow> pmp_sectors a len \<noteq> []"
  by (simp add: pmp_sectors_def)

text \<open>C9: When a page is homogeneous, physical memory protection gives the same answer for every access within it, whatever its address and size; this is what makes it sound to cache the answer for the page in the TLB.\<close>

theorem pmp_page_cacheable:
  assumes "pmp_homogeneous page 0x1000 s = Some True" "in_page page a len" "in_page page b len'"
  shows "pmp_ok a len type mode hlvx s = pmp_ok b len' type mode hlvx s"
proof -
  have "subset_match i page 0x1000 s = Some False" if "i < n_pmp s" for i
  proof -
    have "subset_match i page 0x1000 s \<noteq> Some True" "subset_match i page 0x1000 s \<noteq> None"
      using assms(1) that by (auto simp: pmp_homogeneous_def subset_match_def Let_def list_all_iff split: if_splits)
    then show ?thesis by (cases "subset_match i page 0x1000 s") auto
  qed
  then have u: "match4 i x s = match4 i page s" if "i < n_pmp s" "x \<in> set (pmp_sectors a len) \<union> set (pmp_sectors b len')" for i x
    using page_uniform [of i page s x] in_page_sector [OF assms(2)] in_page_sector [OF assms(3)] that by auto
  have l: "list_ex (\<lambda>x. match4 i x s) (pmp_sectors a len) = match4 i page s" "list_all (\<lambda>x. match4 i x s) (pmp_sectors a len) = match4 i page s"
    "list_ex (\<lambda>x. match4 i x s) (pmp_sectors b len') = match4 i page s" "list_all (\<lambda>x. match4 i x s) (pmp_sectors b len') = match4 i page s"
    if "i < n_pmp s" for i
    using u [OF that] assms(2,3) sectors_nonempty [of len a] sectors_nonempty [of len' b]
    by (auto simp: list_ex_iff list_all_iff in_page_def neq_Nil_conv)
  have "pmp_scan [0..<n_pmp s] (pmp_sectors a len) type mode hlvx s = pmp_scan [0..<n_pmp s] (pmp_sectors b len') type mode hlvx s"
    by (rule pmp_scan_cong) (simp_all add: l)
  then show ?thesis by (simp add: pmp_ok_def)
qed

section \<open>Bytes of an access\<close>

lemma pmp_scan_byte:
  assumes "\<And>i. i \<in> set es \<Longrightarrow> match4 i y s = match4 i x s" "x \<in> set xs"
  shows "(pmp_scan es xs type mode hlvx s = Some True \<longrightarrow> pmp_scan es [y] type mode hlvx s = Some True) \<and>
    (pmp_scan es xs type mode hlvx s = None \<longrightarrow> pmp_scan es [y] type mode hlvx s = None)"
  using assms(1)
proof (induction es)
  case (Cons i es)
  have "match4 i y s = match4 i x s" using Cons.prems by simp
  then show ?case using Cons.IH Cons.prems assms(2)
    by (auto simp: Let_def list_ex_iff list_all_iff)
qed simp

lemma byte_sector:
  fixes a :: u64
  assumes "unat a mod 2 ^ 2 + len \<le> 2 ^ 2 \<or> unat a mod 2 ^ 2 = 0" "k < len"
  shows "\<exists>x \<in> set (pmp_sectors a len). drop_bit 2 (a + of_nat k) = drop_bit 2 x"
proof (cases "unat a mod 2 ^ 2 = 0")
  case True
  let ?x = "a + of_nat (4 * (k div 4))"
  have x: "?x \<in> set (pmp_sectors a len)" using assms(2) by (auto simp: pmp_sectors_def)
  have "unat ?x mod 2 ^ 2 = 0"
  proof -
    have "(2 ^ 64 :: nat) = 4 * 2 ^ 62" by simp
    then have "unat ?x mod 4 = (unat a + 4 * (k div 4)) mod 4"
      by (simp only: unat_word_ariths unat_of_nat take_bit_eq_mod word_size mod_mult_self2_is_0 len_of_numeral_defs)
        (simp add: mod_mod_cancel mod_simps)
    then show ?thesis using True by simp
  qed
  then have "unat ?x mod 2 ^ 2 + k mod 4 < 2 ^ 2" by simp
  from in_block [OF this] have "drop_bit 2 (?x + of_nat (k mod 4)) = drop_bit 2 ?x" by simp
  moreover have "?x + of_nat (k mod 4) = a + of_nat (4 * (k div 4) + k mod 4)" by (simp only: of_nat_add add.assoc)
  moreover have "4 * (k div 4) + k mod 4 = k" by simp
  ultimately show ?thesis using x by (metis (no_types))
next
  case False
  then have "unat a mod 2 ^ 2 + k < 2 ^ 2" using assms by auto
  from in_block [OF this] have "drop_bit 2 (a + of_nat k) = drop_bit 2 a" by simp
  moreover have "a \<in> set (pmp_sectors a len)"
    using assms(2) by (auto simp: pmp_sectors_def image_iff intro!: bexI [of _ 0])
  ultimately show ?thesis by blast
qed

text \<open>C33: If physical memory protection allows an access that is word-aligned or lies within one aligned word, it allows the same kind of access to every single byte of it.\<close>

theorem pmp_every_byte:
  assumes "unat a mod 2 ^ 2 + len \<le> 2 ^ 2 \<or> unat a mod 2 ^ 2 = 0" "k < len" "pmp_ok a len type mode hlvx s"
  shows "pmp_ok (a + of_nat k) 1 type mode hlvx s"
proof -
  obtain x where x: "x \<in> set (pmp_sectors a len)" "drop_bit 2 (a + of_nat k) = drop_bit 2 x"
    using byte_sector [OF assms(1,2)] by blast
  have "pmp_sectors (a + of_nat k) 1 = [a + of_nat k]" by (simp add: pmp_sectors_def)
  then show ?thesis
    using pmp_scan_byte [OF sector_uniform [OF x(2)] x(1), where es = "[0..<n_pmp s]" and s = s and type = type and mode = mode and hlvx = hlvx] assms(3)
    by (auto simp: pmp_ok_def split: option.splits if_splits)
qed

text \<open>Without that condition the conclusion fails: an access that starts in the middle of a word is
  checked at its first word only.\<close>

definition pmp_gap_hart :: "unit hart" where
  "pmp_gap_hart = (hart_full 64)\<lparr>n_pmp := 1, pmpaddr_val := (\<lambda>_. 1), pmpaddr_cfg := (\<lambda>_. 0x0F)\<rparr>"

lemma pmp_misaligned_gap:
  "pmp_ok 2 4 LOAD PRV_U False pmp_gap_hart" "\<not> pmp_ok 4 1 LOAD PRV_U False pmp_gap_hart"
proof -
  have g: "n_pmp pmp_gap_hart = 1" "pmpaddr_cfg pmp_gap_hart = (\<lambda>_. 0x0F)" "pmpaddr_val pmp_gap_hart = (\<lambda>_. 1)"
    "lg_pmp_granularity pmp_gap_hart = 2" "mseccfg_val pmp_gap_hart = 0"
    by (simp_all add: pmp_gap_hart_def hart_full_def hart_reset_def hart_blank_def Let_def cfg_full_def)
  have t: "tor_paddr 0 pmp_gap_hart = 4" "tor_base_paddr 0 pmp_gap_hart = 0"
    by (simp_all add: tor_paddr_def tor_base_paddr_def pmp_tor_mask_def PMP_SHIFT_def g)
  have m: "match4 0 a pmp_gap_hart \<longleftrightarrow> a < 4" for a by (simp add: match4_def g t)
  show "pmp_ok 2 4 LOAD PRV_U False pmp_gap_hart" "\<not> pmp_ok 4 1 LOAD PRV_U False pmp_gap_hart"
    by (simp_all add: pmp_ok_def g pmp_sectors_def m access_ok_def get_mml_def prv_defs)
qed

theorem pmp_every_byte_witness:
  "pmp_ok (0 + of_nat 3) 1 LOAD PRV_U False pmp_gap_hart"
proof (rule pmp_every_byte [of 0 4 3])
  have g: "n_pmp pmp_gap_hart = 1" "pmpaddr_cfg pmp_gap_hart = (\<lambda>_. 0x0F)" "pmpaddr_val pmp_gap_hart = (\<lambda>_. 1)"
    "lg_pmp_granularity pmp_gap_hart = 2" "mseccfg_val pmp_gap_hart = 0"
    by (simp_all add: pmp_gap_hart_def hart_full_def hart_reset_def hart_blank_def Let_def cfg_full_def)
  show "pmp_ok 0 4 LOAD PRV_U False pmp_gap_hart"
    by (simp add: pmp_ok_def g pmp_sectors_def match4_def tor_paddr_def tor_base_paddr_def pmp_tor_mask_def PMP_SHIFT_def
        access_ok_def get_mml_def prv_defs)
qed simp_all

section \<open>NAPOT regions\<close>

lemma tor_mask_one: "lg_pmp_granularity s = 2 \<Longrightarrow> pmp_tor_mask s = - 1"
  by (simp add: pmp_tor_mask_def PMP_SHIFT_def)

lemma block_interval:
  fixes a base :: u64
  assumes "base = push_bit k (drop_bit k base)" "k < 64"
  shows "drop_bit k a = drop_bit k base \<longleftrightarrow> base \<le> a \<and> a - base < 2 ^ k"
proof -
  have "2 ^ k dvd unat base" using pushed_dvd [of k "drop_bit k base"] assms(1) by simp
  then obtain q where q: "unat base = 2 ^ k * q" by (elim dvdE)
  have "(2 :: nat) ^ k < 2 ^ 64" using assms(2) by (intro power_strict_increasing) simp_all
  then have "unat (of_nat (2 ^ k) :: u64) = 2 ^ k" by (simp only: unat_of_nat len_of_numeral_defs) (simp add: take_bit_nat_eq_self)
  then have "unat (2 ^ k :: u64) = 2 ^ k" by simp
  then have "a - base < 2 ^ k \<longleftrightarrow> unat a - unat base < 2 ^ k" if "base \<le> a"
    using that by (simp add: word_less_nat_alt unat_sub)
  moreover have "unat a div 2 ^ k = q \<longleftrightarrow> 2 ^ k * q \<le> unat a \<and> unat a - 2 ^ k * q < 2 ^ k"
  proof
    assume "unat a div 2 ^ k = q"
    then show "2 ^ k * q \<le> unat a \<and> unat a - 2 ^ k * q < 2 ^ k"
      by (auto simp: minus_mult_div_eq_mod)
  next
    assume "2 ^ k * q \<le> unat a \<and> unat a - 2 ^ k * q < 2 ^ k"
    then show "unat a div 2 ^ k = q" by (intro div_nat_eqI) auto
  qed
  ultimately have "unat a div 2 ^ k = unat base div 2 ^ k \<longleftrightarrow> base \<le> a \<and> a - base < 2 ^ k" by (auto simp: q word_le_nat_alt)
  then show ?thesis by (simp only: word_unat_eq_iff unat_drop)
qed

text \<open>C39: A NAPOT entry written for a naturally aligned region of 2^k bytes (8 bytes to half of the address space) matches exactly the addresses of the region, at the finest granularity.\<close>

theorem napot_region:
  assumes "3 \<le> k" "k < 64" "lg_pmp_granularity s = 2" "pmpaddr_cfg s i AND PMP_A = PMP_NAPOT"
    "base AND mask k = 0" "pmpaddr_val s i = drop_bit 2 base OR mask (k - 3)"
  shows "match4 i a s \<longleftrightarrow> base \<le> a \<and> a - base < 2 ^ k"
proof -
  let ?x = "push_bit 1 (pmpaddr_val s i) OR of_bool (\<not> pmpaddr_cfg s i AND PMP_A = PMP_NA4) OR NOT (pmp_tor_mask s)"
  obtain t where t: "napot_mask i s = NOT (mask (t + 2))" "\<And>n. n < t \<Longrightarrow> bit ?x n" "t < 64 \<Longrightarrow> \<not> bit ?x t"
    by (rule napot_mask_shape [of i s]) blast
  have b0: "\<not> bit base n" if "n < k" for n
  proof -
    have "\<not> bit (base AND mask k) n" by (simp add: assms(5))
    then show ?thesis using that assms(2) by (simp add: bit_and_iff bit_mask_iff)
  qed
  have x: "bit ?x n \<longleftrightarrow> n < 64 \<and> (n < k - 2 \<or> bit base (n + 1))" for n
    using assms(1,2) bit_imp_le_length [of base "n + 1"]
    by (cases n) (auto simp: assms(4,6) tor_mask_one [OF assms(3)] bit_simps simp del: push_bit_Suc drop_bit_Suc)
  have "k - 2 + 1 = k - 1" using assms(1) by simp
  then have "\<not> bit ?x (k - 2)" using assms(1) b0 [of "k - 1"] unfolding x by simp
  then have "t \<le> k - 2" using t(2) [of "k - 2"] by (auto simp: not_le [symmetric])
  moreover have "\<not> t < k - 2"
  proof
    assume "t < k - 2"
    moreover have "t < 64" using assms(2) \<open>t < k - 2\<close> by simp
    from t(3) [OF this] show False using \<open>t < k - 2\<close> \<open>t < 64\<close> unfolding x by simp
  qed
  ultimately have "t = k - 2" by simp
  then have "t + 2 = k" using assms(1) by simp
  then have m: "napot_mask i s = NOT (mask k)" using t(1) by (simp only:)
  obtain l where l: "k = l + 3" using assms(1) by (metis add.commute le_Suc_ex)
  have bl: "bit base m \<Longrightarrow> m < 64" for m using bit_imp_le_length [of base m] by simp
  have l3: "l + 3 + n = Suc (Suc (Suc (l + n)))" for n by simp
  have "drop_bit k (tor_paddr i s) = drop_bit k base"
    using assms(2) unfolding l
    by (intro bit_word_eqI) (auto dest: bl simp: tor_paddr_def PMP_SHIFT_def assms(6) l l3 tor_mask_one [OF assms(3)] bit_simps)
  then have "match4 i a s \<longleftrightarrow> drop_bit k a = drop_bit k base"
    by (subst match4_napot [OF _ _ m]) (simp_all add: assms(4))
  also have "\<dots> \<longleftrightarrow> base \<le> a \<and> a - base < 2 ^ k"
  proof (rule block_interval)
    show "base = push_bit k (drop_bit k base)"
    proof (rule bit_word_eqI)
      fix n show "bit base n = bit (push_bit k (drop_bit k base)) n"
        using b0 [of n] bl [of n] by (cases "n < k") (auto simp: bit_push_bit_iff bit_drop_bit_eq)
    qed
  qed (rule assms(2))
  finally show ?thesis .
qed

text \<open>A hart whose first entry is the page at 0x80000000.\<close>

definition pmp_page_hart :: "unit hart" where
  "pmp_page_hart = (hart_full 64)\<lparr>n_pmp := 1, pmpaddr_val := (\<lambda>_. 0x200001FF), pmpaddr_cfg := (\<lambda>_. 0x1F)\<rparr>"

lemma pmp_page_hart_simps:
  "n_pmp pmp_page_hart = 1" "pmpaddr_cfg pmp_page_hart = (\<lambda>_. 0x1F)" "pmpaddr_val pmp_page_hart = (\<lambda>_. 0x200001FF)"
  "lg_pmp_granularity pmp_page_hart = 2"
  by (simp_all add: pmp_page_hart_def hart_full_def hart_reset_def hart_blank_def Let_def cfg_full_def)

theorem napot_region_witness: "match4 0 0x80000FFF pmp_page_hart"
proof -
  have "match4 0 0x80000FFF pmp_page_hart \<longleftrightarrow> (0x80000000 :: u64) \<le> 0x80000FFF \<and> (0x80000FFF :: u64) - 0x80000000 < 2 ^ 12"
    by (rule napot_region) (simp_all add: pmp_page_hart_simps mask_eq_exp_minus_1)
  then show ?thesis by simp
qed

theorem pmp_page_cacheable_witness:
  "pmp_ok 0x80000004 4 LOAD PRV_U False pmp_page_hart = pmp_ok 0x80000FF8 8 LOAD PRV_U False pmp_page_hart"
proof (rule pmp_page_cacheable [of "0x80000000"])
  show "pmp_homogeneous 0x80000000 0x1000 pmp_page_hart = Some True"
    by (simp add: pmp_homogeneous_def pmp_page_hart_simps subset_match_def Let_def napot_mask_def pmp_tor_mask_def PMP_SHIFT_def)
qed (simp_all add: in_page_def drop_bit_eq_div)

section \<open>Locks\<close>

text \<open>A write to one of the three kinds of registers.\<close>

inductive pmp_step :: "'d hart \<Rightarrow> 'd hart \<Rightarrow> bool" where
  step_addr: "pmp_step s (pmpaddr_write i v s)"
| step_cfg: "pmp_step s (pmpcfg_write c k v s)"
| step_seccfg: "pmp_step s (mseccfg_write v s)"

inductive pmp_steps :: "'d hart \<Rightarrow> 'd hart \<Rightarrow> bool" for s0 where
  steps_refl: "pmp_steps s0 s0"
| steps_step: "pmp_steps s0 s \<Longrightarrow> pmp_step s s' \<Longrightarrow> pmp_steps s0 s'"

inductive_simps pmp_step_simps: "pmp_step s s'"

lemma flush_pmp [simp]:
  "pmpaddr_val (flush_tlb s) = pmpaddr_val s" "pmpaddr_cfg (flush_tlb s) = pmpaddr_cfg s" "n_pmp (flush_tlb s) = n_pmp s"
  "lg_pmp_granularity (flush_tlb s) = lg_pmp_granularity s" "mseccfg_val (flush_tlb s) = mseccfg_val s"
  "extension_enabled (flush_tlb s) = extension_enabled s"
  by (auto simp: flush_tlb_def flush_icache_def extension_enabled_def misa_extension_enabled_def fun_eq_iff split: isa_extension.split)

text \<open>What a write to one entry of a configuration register changes.\<close>

lemma entry_frame:
  "pmpaddr_val (pmpcfg_write_entry i v s) = pmpaddr_val s" "n_pmp (pmpcfg_write_entry i v s) = n_pmp s"
  "mseccfg_val (pmpcfg_write_entry i v s) = mseccfg_val s" "lg_pmp_granularity (pmpcfg_write_entry i v s) = lg_pmp_granularity s"
  "j \<noteq> i \<Longrightarrow> pmpaddr_cfg (pmpcfg_write_entry i v s) j = pmpaddr_cfg s j"
  "\<not> get_rlb s \<Longrightarrow> is_locked i s \<Longrightarrow> pmpcfg_write_entry i v s = s"
  by (simp_all add: pmpcfg_write_entry_def Let_def)

text \<open>The invariant of a locked entry.\<close>

definition same_lock :: "nat \<Rightarrow> 'd hart \<Rightarrow> 'd hart \<Rightarrow> bool" where
  "same_lock i s s' \<longleftrightarrow> n_pmp s' = n_pmp s \<and> lg_pmp_granularity s' = lg_pmp_granularity s \<and> \<not> get_rlb s' \<and>
     pmpaddr_cfg s' i = pmpaddr_cfg s i \<and> pmpaddr_val s' i = pmpaddr_val s i \<and>
     (pmpaddr_cfg s i AND PMP_A = PMP_TOR \<and> 0 < i \<longrightarrow> pmpaddr_val s' (i - 1) = pmpaddr_val s (i - 1)) \<and>
     (get_mml s \<longrightarrow> get_mml s') \<and> (get_mmwp s \<longrightarrow> get_mmwp s')"

lemma entries_lock:
  assumes "\<not> get_rlb s" "is_locked i s"
  shows "same_lock i s (fold (\<lambda>j. pmpcfg_write_entry j (f j)) js s) \<and> is_locked i (fold (\<lambda>j. pmpcfg_write_entry j (f j)) js s)"
  using assms
proof (induction js arbitrary: s)
  case (Cons j js)
  let ?s = "pmpcfg_write_entry j (f j) s"
  have c: "pmpaddr_cfg ?s i = pmpaddr_cfg s i" using Cons.prems by (cases "j = i") (simp_all add: entry_frame)
  have "\<not> get_rlb ?s" "is_locked i ?s" using Cons.prems c by (simp_all add: get_rlb_def is_locked_def entry_frame)
  from Cons.IH [OF this] show ?case using c Cons.prems
    by (auto simp: same_lock_def entry_frame get_rlb_def get_mml_def get_mmwp_def is_locked_def)
qed (simp add: same_lock_def)

lemma low_literals: "bit (w AND NOT 4) n \<longleftrightarrow> n \<noteq> 2 \<and> bit w n" "bit (v AND 4) n \<longleftrightarrow> n = 2 \<and> bit v n"
  "bit (v AND 2) n \<longleftrightarrow> n = 1 \<and> bit v n" "bit (v AND 1) n \<longleftrightarrow> n = 0 \<and> bit v n"
  "w AND 4 = 0 \<longleftrightarrow> \<not> bit w 2" "w AND 2 = 0 \<longleftrightarrow> \<not> bit w 1" "w AND 1 = 0 \<longleftrightarrow> \<not> bit w 0" for w v :: u64
proof -
  have e: "4 = (push_bit 2 1 :: u64)" "2 = (push_bit 1 1 :: u64)" by simp_all
  have one: "bit (push_bit k 1 :: u64) n \<longleftrightarrow> n = k \<and> k < 64" for k n by (auto simp: bit_exp_iff)
  show "bit (w AND NOT 4) n \<longleftrightarrow> n \<noteq> 2 \<and> bit w n" using bit_imp_le_length [of w n] unfolding e bit_and_iff bit_not_iff one by auto
  show "bit (v AND 4) n \<longleftrightarrow> n = 2 \<and> bit v n" "bit (v AND 2) n \<longleftrightarrow> n = 1 \<and> bit v n" unfolding e bit_and_iff one by auto
  show "bit (v AND 1) n \<longleftrightarrow> n = 0 \<and> bit v n" by (auto simp: bit_and_iff bit_1_iff)
  show "w AND 4 = 0 \<longleftrightarrow> \<not> bit w 2" "w AND 2 = 0 \<longleftrightarrow> \<not> bit w 1" "w AND 1 = 0 \<longleftrightarrow> \<not> bit w 0"
    using bit_iff_and_push_bit_not_eq_0 [of w 2] bit_iff_and_push_bit_not_eq_0 [of w 1] bit_iff_and_push_bit_not_eq_0 [of w 0]
    unfolding e by auto
qed

text \<open>The last three updates of \<^verbatim>\<open>mseccfg\<close> leave the low bits alone.\<close>

lemma high_literals:
  assumes "n < 8"
  shows "bit ((w AND NOT (MSECCFG_USEED OR MSECCFG_SSEED)) OR (v AND (MSECCFG_USEED OR MSECCFG_SSEED))) n = bit w n"
    "bit ((w AND NOT MSECCFG_MLPE) OR (v AND MSECCFG_MLPE)) n = bit w n"
    "bit (set_field w MSECCFG_PMM x) n = bit w n"
proof -
  have e: "(MSECCFG_USEED OR MSECCFG_SSEED) = push_bit 8 3" "MSECCFG_MLPE = push_bit 10 1" by simp_all
  have f: "MSECCFG_PMM = field_mask 32 2" by (simp add: field_mask_def mask_eq_exp_minus_1)
  show "bit ((w AND NOT (MSECCFG_USEED OR MSECCFG_SSEED)) OR (v AND (MSECCFG_USEED OR MSECCFG_SSEED))) n = bit w n"
    "bit ((w AND NOT MSECCFG_MLPE) OR (v AND MSECCFG_MLPE)) n = bit w n"
    unfolding e bit_or_iff bit_and_iff bit_not_iff bit_push_bit_iff using assms by auto
  show "bit (set_field w MSECCFG_PMM x) n = bit w n" unfolding f using assms by (simp add: bit_set_field)
qed

lemma mseccfg_bits:
  assumes "n_pmp s \<noteq> 0"
  shows "bit (mseccfg_val (mseccfg_write v s)) 0 \<longleftrightarrow> bit (mseccfg_val s) 0 \<or> bit v 0"
    "bit (mseccfg_val (mseccfg_write v s)) 1 \<longleftrightarrow> bit (mseccfg_val s) 1 \<or> bit v 1"
    "bit (mseccfg_val (mseccfg_write v s)) 2 \<longleftrightarrow>
      (if list_ex (\<lambda>i. is_locked i s) [0..<n_pmp s] \<and> \<not> bit (mseccfg_val s) 2 then bit (mseccfg_val s) 2 else bit v 2)"
proof -
  let ?w = "(if \<not> (list_ex (\<lambda>i. is_locked i s) [0..<n_pmp s] \<and> mseccfg_val s AND MSECCFG_RLB = 0)
     then (mseccfg_val s AND NOT MSECCFG_RLB) OR (v AND MSECCFG_RLB) else mseccfg_val s)"
  have "bit (mseccfg_val (mseccfg_write v s)) n = bit ((?w OR (v AND MSECCFG_MMWP)) OR (v AND MSECCFG_MML)) n" if "n < 8" for n
    using assms high_literals [OF that] by (simp only: mseccfg_write_def Let_def if_False flush_pmp if_split) simp
  note b = this
  have w: "bit ?w n \<longleftrightarrow> (if list_ex (\<lambda>i. is_locked i s) [0..<n_pmp s] \<and> \<not> bit (mseccfg_val s) 2 then bit (mseccfg_val s) n
      else if n = 2 then bit v 2 else bit (mseccfg_val s) n)" for n
    unfolding low_literals(5) by (auto simp only: bit_or_iff low_literals(1,2) if_True if_False split: if_split)
  have c: "bit (mseccfg_val (mseccfg_write v s)) n \<longleftrightarrow> bit ?w n \<or> (n = 1 \<and> bit v n) \<or> (n = 0 \<and> bit v n)" if "n < 8" for n
    unfolding b [OF that] by (simp only: bit_or_iff low_literals(3,4) disj_assoc)
  show "bit (mseccfg_val (mseccfg_write v s)) 0 \<longleftrightarrow> bit (mseccfg_val s) 0 \<or> bit v 0"
    by (subst c; simp only: w) auto
  show "bit (mseccfg_val (mseccfg_write v s)) 1 \<longleftrightarrow> bit (mseccfg_val s) 1 \<or> bit v 1"
    by (subst c; simp only: w) auto
  show "bit (mseccfg_val (mseccfg_write v s)) 2 \<longleftrightarrow>
      (if list_ex (\<lambda>i. is_locked i s) [0..<n_pmp s] \<and> \<not> bit (mseccfg_val s) 2 then bit (mseccfg_val s) 2 else bit v 2)"
    by (subst c; simp only: w) auto
qed

lemma flags_bits: "get_mml s \<longleftrightarrow> bit (mseccfg_val s) 0" "get_mmwp s \<longleftrightarrow> bit (mseccfg_val s) 1" "get_rlb s \<longleftrightarrow> bit (mseccfg_val s) 2"
  by (simp_all only: get_mml_def get_mmwp_def get_rlb_def low_literals not_not simp_thms)

lemma mseccfg_frame: "pmpaddr_val (mseccfg_write v s) = pmpaddr_val s" "pmpaddr_cfg (mseccfg_write v s) = pmpaddr_cfg s"
  "n_pmp (mseccfg_write v s) = n_pmp s" "lg_pmp_granularity (mseccfg_write v s) = lg_pmp_granularity s"
  by (simp_all add: mseccfg_write_def Let_def)

lemma step_lock:
  assumes "pmp_step s s'" "\<not> get_rlb s" "is_locked i s" "i < n_pmp s" "n_pmp s \<le> max_pmp"
  shows "same_lock i s s'"
proof -
  consider (addr) j v where "s' = pmpaddr_write j v s" | (cfg) c k v where "s' = pmpcfg_write c k v s"
    | (seccfg) v where "s' = mseccfg_write v s"
    using assms(1) by (auto simp: pmp_step_simps)
  then show ?thesis
  proof cases
    case addr
  have "j \<noteq> i" "pmpaddr_cfg s i AND PMP_A = PMP_TOR \<Longrightarrow> j + 1 \<noteq> i"
    if "j < n_pmp s" "\<not> (\<not> get_rlb s \<and> is_locked j s)" "\<not> next_locked_and_tor j s"
    using that assms(2-5) by (auto simp: next_locked_and_tor_def)
  then show ?thesis using assms(2,4)
    by (auto simp: addr pmpaddr_write_def Let_def same_lock_def get_rlb_def get_mml_def get_mmwp_def)
next
  case cfg
  then show ?thesis using entries_lock [OF assms(2,3), of "\<lambda>i. ucast (drop_bit (8 * (i - k * 4)) v)" "pmpcfg_range c k"] assms(2)
    by (auto simp: pmpcfg_write_def same_lock_def get_rlb_def get_mml_def get_mmwp_def)
next
  case seccfg
  have "list_ex (\<lambda>i. is_locked i s) [0..<n_pmp s]" using assms(3,4) by (auto simp: list_ex_iff)
  then show ?thesis using assms(2,4) mseccfg_bits [of s v]
    by (simp add: seccfg same_lock_def mseccfg_frame flags_bits)
  qed
qed

text \<open>C4: Once an entry of physical memory protection is locked while rule-locking bypass is off, no sequence of writes to the pmpaddr, pmpcfg and mseccfg registers changes the configuration of the entry or the addresses that it matches, turns the bypass back on, or clears the machine-mode lockdown and whitelist policies. What the entry grants stays the same too as long as the lockdown policy is not switched on in between, which the lock does not prevent and which changes the meaning of every configuration.\<close>

theorem pmp_lock_permanent:
  assumes "pmp_steps s s'" "\<not> get_rlb s" "is_locked i s" "i < n_pmp s" "n_pmp s \<le> max_pmp"
  shows "\<not> get_rlb s' \<and> pmpaddr_cfg s' i = pmpaddr_cfg s i \<and> match4 i a s' = match4 i a s \<and>
    (get_mml s \<longrightarrow> get_mml s') \<and> (get_mmwp s \<longrightarrow> get_mmwp s') \<and>
    (get_mml s' = get_mml s \<longrightarrow> access_ok i type mode hlvx s' = access_ok i type mode hlvx s)"
proof -
  have "same_lock i s s'"
    using assms(1)
  proof (induction rule: pmp_steps.induct)
    case steps_refl
    then show ?case using assms(2) by (simp add: same_lock_def)
  next
    case (steps_step t t')
    have "same_lock i t t'" using step_lock [OF steps_step(2), of i] steps_step(3) assms(3-5)
      by (simp add: same_lock_def is_locked_def)
    then show ?case using steps_step(3) by (auto simp: same_lock_def)
  qed
  then have l: "n_pmp s' = n_pmp s" "lg_pmp_granularity s' = lg_pmp_granularity s" "\<not> get_rlb s'" "pmpaddr_cfg s' i = pmpaddr_cfg s i"
    "pmpaddr_val s' i = pmpaddr_val s i" "pmpaddr_cfg s i AND PMP_A = PMP_TOR \<and> 0 < i \<longrightarrow> pmpaddr_val s' (i - 1) = pmpaddr_val s (i - 1)"
    "get_mml s \<longrightarrow> get_mml s'" "get_mmwp s \<longrightarrow> get_mmwp s'" by (simp_all add: same_lock_def)
  have "match4 i a s' = match4 i a s"
    using l(6) by (auto simp: match4_def tor_base_paddr_def tor_paddr_def napot_mask_def pmp_tor_mask_def l(2,4,5))
  moreover have "get_mml s' = get_mml s \<longrightarrow> access_ok i type mode hlvx s' = access_ok i type mode hlvx s"
    by (simp add: access_ok_def l(4))
  ultimately show ?thesis using l by blast
qed

theorem pmp_lock_permanent_witness:
  "match4 0 0x80000FFF (pmpcfg_write (ctx_full 64 0 0) 0 0 (pmp_page_hart\<lparr>pmpaddr_cfg := (\<lambda>_. 0x9F)\<rparr>)) =
     match4 0 0x80000FFF (pmp_page_hart\<lparr>pmpaddr_cfg := (\<lambda>_. 0x9F)\<rparr>)"
  using pmp_lock_permanent [OF steps_step [OF steps_refl step_cfg], of "pmp_page_hart\<lparr>pmpaddr_cfg := (\<lambda>_. 0x9F)\<rparr>" 0]
  by (simp add: pmp_page_hart_simps is_locked_def get_rlb_def max_pmp_def)
    (simp add: pmp_page_hart_def hart_full_def hart_reset_def hart_blank_def Let_def)

section \<open>Well-formed entries\<close>

definition pmp_wf :: "'d hart \<Rightarrow> bool" where
  "pmp_wf s \<longleftrightarrow> (\<forall>i. pmpaddr_val s i AND NOT (mask 62) = 0 \<and> pmpaddr_cfg s i AND 0x60 = 0 \<and>
     (get_mml s \<or> pmpaddr_cfg s i AND PMP_W = 0 \<or> pmpaddr_cfg s i AND PMP_R \<noteq> 0) \<and>
     (lg_pmp_granularity s = PMP_SHIFT \<or> pmpaddr_cfg s i AND PMP_A \<noteq> PMP_NA4))"

lemma byte_eq: "w = v \<longleftrightarrow> (\<forall>n<8. bit w n = bit v n)" for w v :: u8
  by (auto simp: bit_eq_iff dest: bit_imp_le_length)

lemma below_eight: "(\<forall>n<8. P n) \<longleftrightarrow> P 0 \<and> P 1 \<and> P 2 \<and> P 3 \<and> P 4 \<and> P 5 \<and> P 6 \<and> P (7::nat)"
proof -
  have "n = 0 \<or> n = 1 \<or> n = 2 \<or> n = 3 \<or> n = 4 \<or> n = 5 \<or> n = 6 \<or> n = 7" if "n < 8" for n :: nat using that by arith
  then show ?thesis by auto
qed

lemma cfg_bits: "w AND 0x60 = 0 \<longleftrightarrow> \<not> bit w 5 \<and> \<not> bit w 6" "w AND PMP_W = 0 \<longleftrightarrow> \<not> bit w 1" "w AND PMP_R = 0 \<longleftrightarrow> \<not> bit w 0"
  "w AND PMP_A = PMP_NA4 \<longleftrightarrow> bit w 4 \<and> \<not> bit w 3" for w :: u8
  by (simp_all add: byte_eq below_eight bit_and_iff bit_numeral_rec) auto

lemma legal_cfg:
  "pmpcfg_legal v s AND 0x60 = 0" "get_mml s \<or> pmpcfg_legal v s AND PMP_W = 0 \<or> pmpcfg_legal v s AND PMP_R \<noteq> 0"
  "lg_pmp_granularity s = PMP_SHIFT \<or> pmpcfg_legal v s AND PMP_A \<noteq> PMP_NA4"
  unfolding cfg_bits
  by (auto simp: pmpcfg_legal_def Let_def bit_or_iff bit_and_iff bit_not_iff bit_numeral_rec cfg_bits)

lemma entries_wf: "pmp_wf s \<Longrightarrow> pmp_wf (fold (\<lambda>j. pmpcfg_write_entry j (f j)) js s)"
proof (induction js arbitrary: s)
  case (Cons j js)
  have "pmp_wf (pmpcfg_write_entry j (f j) s)"
    using Cons.prems legal_cfg [where s = s and v = "f j"] by (auto simp: pmp_wf_def pmpcfg_write_entry_def Let_def get_mml_def)
  from Cons.IH [OF this] show ?case by simp
qed simp

lemma step_wf:
  assumes "pmp_step s s'" "pmp_wf s"
  shows "pmp_wf s'"
proof -
  consider (addr) j v where "s' = pmpaddr_write j v s" | (cfg) c k v where "s' = pmpcfg_write c k v s"
    | (seccfg) v where "s' = mseccfg_write v s"
    using assms(1) by (auto simp: pmp_step_simps)
  then show ?thesis
  proof cases
    case addr
    have "(v AND (push_bit (MAX_PADDR_BITS - PMP_SHIFT) 1 - 1)) AND NOT (mask 62) = 0"
      by (simp add: MAX_PADDR_BITS_def PMP_SHIFT_def mask_eq_exp_minus_1 and.assoc)
    then show ?thesis using assms(2) by (simp add: addr pmpaddr_write_def Let_def pmp_wf_def get_mml_def)
  next
    case cfg
    then show ?thesis using entries_wf [OF assms(2), of "\<lambda>i. ucast (drop_bit (8 * (i - k * 4)) v)" "pmpcfg_range c k"] assms(2)
      by (simp add: pmpcfg_write_def pmp_wf_def get_mml_def)
  next
    case seccfg
    have "get_mml s \<Longrightarrow> get_mml s'"
      using mseccfg_bits(1) [of s v] by (cases "n_pmp s = 0") (auto simp: seccfg flags_bits mseccfg_write_def)
    then show ?thesis using assms(2) by (auto simp: seccfg pmp_wf_def mseccfg_frame)
  qed
qed

text \<open>C34: In every hart that starts from reset and has its pmpaddr, pmpcfg and mseccfg registers written in any order with any values, each stored address has at most 62 bits, the reserved bits 5 and 6 of each configuration byte are clear, no entry grants writes without reads unless machine-mode lockdown is on, and no entry is a four-byte region when the granularity is coarser.\<close>

theorem pmp_entries_wellformed:
  assumes "pmp_steps (hart_reset c g d) s"
  shows "pmpaddr_val s i AND NOT (mask 62) = 0 \<and> pmpaddr_cfg s i AND 0x60 = 0 \<and>
    (get_mml s \<or> pmpaddr_cfg s i AND PMP_W = 0 \<or> pmpaddr_cfg s i AND PMP_R \<noteq> 0) \<and>
    (lg_pmp_granularity s = PMP_SHIFT \<or> pmpaddr_cfg s i AND PMP_A \<noteq> PMP_NA4)"
proof -
  have "pmp_wf (hart_reset c g d)" by (simp add: pmp_wf_def hart_reset_def hart_blank_def Let_def)
  with assms have "pmp_wf s" by (induction rule: pmp_steps.induct) (auto intro: step_wf)
  then show ?thesis by (simp add: pmp_wf_def)
qed

theorem pmp_entries_wellformed_witness:
  "pmpaddr_cfg (pmpcfg_write (ctx_full 64 0 0) 0 0xFF (hart_reset (ctx_full 64 0 0) cfg_full ())) 0 AND 0x60 = 0"
proof -
  have "pmp_steps (hart_reset (ctx_full 64 0 0) cfg_full ())
      (pmpcfg_write (ctx_full 64 0 0) 0 0xFF (hart_reset (ctx_full 64 0 0) cfg_full ()))"
    by (rule steps_step [OF steps_refl step_cfg])
  from pmp_entries_wellformed [OF this] show ?thesis by blast
qed

end
