(* ===== verification/Devices.thy ===== *)
theory Devices
  imports Prelude
begin

text \<open>
  The devices behind the bus (\<^verbatim>\<open>riscv/devices.h\<close>, \<^verbatim>\<open>riscv/devices.cc\<close>,
  \<^verbatim>\<open>riscv/rom.cc\<close>): sparse memory, the boot ROM, the bus, and the byte access to
  little-endian registers that the interrupt controllers share. A transfer of \<open>len\<close> bytes
  gives the list of the bytes; a transfer whose code returns \<^verbatim>\<open>false\<close> is
  \<open>Refused\<close>, one that fails an \<^verbatim>\<open>assert\<close> is \<open>Aborted\<close>. A load returns the device too: it
  allocates pages of memory, and changes the state of interrupt controllers and of the UART.
\<close>

datatype 'a outcome = Done 'a | Refused | Aborted

definition DEV_PGSHIFT :: nat where "DEV_PGSHIFT = 12"
definition DEV_PGSIZE :: nat where "DEV_PGSIZE = 2 ^ DEV_PGSHIFT"

section \<open>Memory\<close>

text \<open>A page is the buffer of \<^verbatim>\<open>calloc(PGSIZE, 1)\<close>.\<close>

type_synonym page = "nat \<Rightarrow> u8"

record mem_t =
  sparse_memory_map :: "u64 \<rightharpoonup> page"
  mem_sz :: u64

definition mem_new :: "u64 \<Rightarrow> mem_t option" where
  "mem_new sz =
    (if sz = 0 \<or> sz mod of_nat DEV_PGSIZE \<noteq> 0 then None else Some \<lparr>sparse_memory_map = (\<lambda>_. None), mem_sz = sz\<rparr>)"

text \<open>\<^verbatim>\<open>contents\<close> finds the page of an address, or allocates it.\<close>

definition mem_page :: "u64 \<Rightarrow> mem_t \<Rightarrow> page \<times> mem_t" where
  "mem_page ppn m =
    (case sparse_memory_map m ppn of
       None \<Rightarrow> (\<lambda>_. 0, m\<lparr>sparse_memory_map := (sparse_memory_map m)(ppn \<mapsto> (\<lambda>_. 0))\<rparr>)
     | Some p \<Rightarrow> (p, m))"

definition page_ppn :: "u64 \<Rightarrow> u64" where "page_ppn addr = drop_bit DEV_PGSHIFT addr"
definition page_off :: "u64 \<Rightarrow> nat" where "page_off addr = unat addr mod DEV_PGSIZE"

definition chunk_len :: "u64 \<Rightarrow> nat \<Rightarrow> nat" where
  "chunk_len addr len = min (DEV_PGSIZE - page_off addr) len"

lemma chunk_pos: "0 < len \<Longrightarrow> 0 < chunk_len addr len"
  by (simp add: chunk_len_def page_off_def DEV_PGSIZE_def)

text \<open>The loop of \<^verbatim>\<open>load_store\<close>, page by page, for each direction.\<close>

function mem_read_loop :: "u64 \<Rightarrow> nat \<Rightarrow> mem_t \<Rightarrow> u8 list \<times> mem_t" where
  "mem_read_loop addr len m =
    (if len = 0 then ([], m)
     else let n = chunk_len addr len;
              (p, m1) = mem_page (page_ppn addr) m;
              (rest, m2) = mem_read_loop (addr + of_nat n) (len - n) m1
          in (map (\<lambda>k. p (page_off addr + k)) [0..<n] @ rest, m2))"
  by pat_completeness auto
termination
  by (relation "measure (\<lambda>(addr, len, m). len)") (simp_all add: chunk_pos)

definition page_write :: "nat \<Rightarrow> u8 list \<Rightarrow> page \<Rightarrow> page" where
  "page_write off bytes p = (\<lambda>i. if off \<le> i \<and> i < off + length bytes then bytes ! (i - off) else p i)"

function mem_write_loop :: "u64 \<Rightarrow> u8 list \<Rightarrow> mem_t \<Rightarrow> mem_t" where
  "mem_write_loop addr bytes m =
    (if bytes = [] then m
     else let n = chunk_len addr (length bytes);
              (p, m1) = mem_page (page_ppn addr) m;
              m2 = m1\<lparr>sparse_memory_map := (sparse_memory_map m1)(page_ppn addr \<mapsto> page_write (page_off addr) (take n bytes) p)\<rparr>
          in mem_write_loop (addr + of_nat n) (drop n bytes) m2)"
  by pat_completeness auto
termination
  by (relation "measure (\<lambda>(addr, bytes, m). length bytes)") (simp_all add: chunk_pos)

declare mem_read_loop.simps [simp del] mem_write_loop.simps [simp del]

definition mem_ok :: "u64 \<Rightarrow> nat \<Rightarrow> mem_t \<Rightarrow> bool" where
  "mem_ok addr len m \<longleftrightarrow> \<not> (addr + of_nat len < addr \<or> addr + of_nat len > mem_sz m)"

definition mem_load :: "u64 \<Rightarrow> nat \<Rightarrow> mem_t \<Rightarrow> u8 list outcome \<times> mem_t" where
  "mem_load addr len m =
    (if \<not> mem_ok addr len m then (Refused, m)
     else let (bytes, m') = mem_read_loop addr len m in (Done bytes, m'))"

definition mem_store :: "u64 \<Rightarrow> u8 list \<Rightarrow> mem_t \<Rightarrow> unit outcome \<times> mem_t" where
  "mem_store addr bytes m =
    (if \<not> mem_ok addr (length bytes) m then (Refused, m) else (Done (), mem_write_loop addr bytes m))"

text \<open>\<^verbatim>\<open>dump\<close> writes the pages in order, absent pages as zeros.\<close>

definition mem_dump :: "mem_t \<Rightarrow> u8 list" where
  "mem_dump m = concat (map (\<lambda>k. case sparse_memory_map m (of_nat k) of
      None \<Rightarrow> replicate DEV_PGSIZE 0
    | Some p \<Rightarrow> map p [0..<DEV_PGSIZE]) [0..<unat (mem_sz m) div DEV_PGSIZE])"

section \<open>Boot ROM\<close>

definition rom_load :: "u64 \<Rightarrow> nat \<Rightarrow> u8 list \<Rightarrow> u8 list outcome" where
  "rom_load addr len data =
    (if addr + of_nat len > of_nat (length data) then Refused
     else Done (map (\<lambda>k. data ! (unat addr + k)) [0..<len]))"

definition rom_store :: "u64 \<Rightarrow> u8 list \<Rightarrow> u8 list \<Rightarrow> unit outcome" where
  "rom_store addr bytes data = Refused"

section \<open>Bus\<close>

text \<open>The map from base addresses to devices, as the sorted sequence of its entries.\<close>

type_synonym 'v bus = "(u64 \<times> 'v) list"

fun add_device :: "u64 \<Rightarrow> 'v \<Rightarrow> 'v bus \<Rightarrow> 'v bus" where
  "add_device addr d [] = [(addr, d)]"
| "add_device addr d ((k, e) # b) =
    (if addr < k then (addr, d) # (k, e) # b
     else if addr = k then (addr, d) # b
     else (k, e) # add_device addr d b)"

text \<open>The entry before \<^verbatim>\<open>upper_bound(addr)\<close>.\<close>

fun upper_bound_pred :: "u64 \<Rightarrow> 'v bus \<Rightarrow> (u64 \<times> 'v) option" where
  "upper_bound_pred addr [] = None"
| "upper_bound_pred addr ((k, e) # b) =
    (if addr < k then None
     else case upper_bound_pred addr b of None \<Rightarrow> Some (k, e) | Some x \<Rightarrow> Some x)"

definition find_device :: "u64 \<Rightarrow> 'v bus \<Rightarrow> (u64 \<times> 'v) option" where
  "find_device addr b = upper_bound_pred addr b"

text \<open>A transfer goes to the device with the offset from its base; the devices are reached
  through their virtual functions \<open>load\<close> and \<open>store\<close>.\<close>

definition bus_load :: "('v \<Rightarrow> u64 \<Rightarrow> nat \<Rightarrow> 'w \<Rightarrow> u8 list outcome \<times> 'w) \<Rightarrow> 'v bus \<Rightarrow> u64 \<Rightarrow> nat \<Rightarrow> 'w \<Rightarrow> u8 list outcome \<times> 'w" where
  "bus_load load b addr len w =
    (case upper_bound_pred addr b of None \<Rightarrow> (Refused, w) | Some (base, d) \<Rightarrow> load d (addr - base) len w)"

definition bus_store :: "('v \<Rightarrow> u64 \<Rightarrow> u8 list \<Rightarrow> 'w \<Rightarrow> unit outcome \<times> 'w) \<Rightarrow> 'v bus \<Rightarrow> u64 \<Rightarrow> u8 list \<Rightarrow> 'w \<Rightarrow> unit outcome \<times> 'w" where
  "bus_store store b addr bytes w =
    (case upper_bound_pred addr b of None \<Rightarrow> (Refused, w) | Some (base, d) \<Rightarrow> store d (addr - base) bytes w)"

section \<open>Ports of the harts\<close>

text \<open>What the devices reach of a hart: its \<^verbatim>\<open>mip\<close> and \<^verbatim>\<open>time\<close>
  registers, and the registers that \<^verbatim>\<open>time_counter_csr_t::sync\<close> compares with.\<close>

record hart_port =
  port_mip :: u64
  port_time :: u64
  port_sstc :: bool
  port_stimecmp :: u64
  port_vstimecmp :: u64
  port_htimedelta :: u64
  port_menvcfg :: u64
  port_henvcfg :: u64

type_synonym ports = "nat \<Rightarrow> hart_port"

abbreviation (input) PORT_MSIP :: u64 where "PORT_MSIP \<equiv> 0x8"
abbreviation (input) PORT_STIP :: u64 where "PORT_STIP \<equiv> 0x20"
abbreviation (input) PORT_VSTIP :: u64 where "PORT_VSTIP \<equiv> 0x40"
abbreviation (input) PORT_MTIP :: u64 where "PORT_MTIP \<equiv> 0x80"
abbreviation (input) PORT_SEIP :: u64 where "PORT_SEIP \<equiv> 0x200"
abbreviation (input) PORT_MEIP :: u64 where "PORT_MEIP \<equiv> 0x800"
abbreviation (input) PORT_STCE :: u64 where "PORT_STCE \<equiv> 0x8000000000000000"

definition port_backdoor_write :: "u64 \<Rightarrow> u64 \<Rightarrow> hart_port \<Rightarrow> hart_port" where
  "port_backdoor_write m v h = h\<lparr>port_mip := (port_mip h AND NOT m) OR (v AND m)\<rparr>"

definition time_sync :: "u64 \<Rightarrow> hart_port \<Rightarrow> hart_port" where
  "time_sync v h =
    (let h = h\<lparr>port_time := v\<rparr>
     in if port_sstc h
        then let mip_val = (if v \<ge> port_stimecmp h then PORT_STIP else 0) OR
                   (if v + port_htimedelta h \<ge> port_vstimecmp h then PORT_VSTIP else 0);
                 m = (if port_menvcfg h AND PORT_STCE \<noteq> 0 then PORT_STIP else 0) OR
                   (if port_henvcfg h AND PORT_STCE \<noteq> 0 then PORT_VSTIP else 0)
             in port_backdoor_write m mip_val h
        else h)"

section \<open>Bytes of registers\<close>

text \<open>The templates at \<^verbatim>\<open>uint32_t\<close> and \<^verbatim>\<open>uint64_t\<close>, over the size of the word.\<close>

definition le_shift :: "'a::len word \<Rightarrow> u64 \<Rightarrow> nat \<Rightarrow> nat" where
  "le_shift w addr i = 8 * (unat (addr + of_nat i) mod (LENGTH('a) div 8))"

definition write_le_step :: "u64 \<Rightarrow> u8 list \<Rightarrow> nat \<Rightarrow> 'a::len word \<Rightarrow> 'a word" where
  "write_le_step addr bytes i w =
    (let shift = le_shift w addr i
     in (w AND NOT (push_bit shift 0xFF)) OR push_bit shift (ucast (bytes ! i)))"

definition write_little_endian_reg :: "'a::len word \<Rightarrow> u64 \<Rightarrow> u8 list \<Rightarrow> 'a word outcome" where
  "write_little_endian_reg w addr bytes =
    (if length bytes > LENGTH('a) div 8 then Aborted
     else Done (fold (write_le_step addr bytes) [0..<length bytes] w))"

definition read_little_endian_reg :: "'a::len word \<Rightarrow> u64 \<Rightarrow> nat \<Rightarrow> u8 list outcome" where
  "read_little_endian_reg w addr len =
    (if len > LENGTH('a) div 8 then Aborted
     else Done (map (\<lambda>i. ucast (drop_bit (le_shift w addr i) w)) [0..<len]))"

end
