(* ===== verification/Mmu.thy ===== *)
theory Mmu
  imports Pmp Devices Privileged
begin

text \<open>
  The port of a hart into the virtual memory system (\<^verbatim>\<open>riscv/mmu.h\<close>,
  \<^verbatim>\<open>riscv/mmu.cc\<close>). The simulator behind it, the class \<^verbatim>\<open>simif_t\<close>, is the
  record \<open>mmu_env\<close>: its virtual functions, with the triggers, the memory tracers and the
  configuration that the MMU reads. A host pointer to a byte of memory is represented by the
  physical address of the byte, so that \<^verbatim>\<open>host_offset\<close> and
  \<^verbatim>\<open>target_offset\<close> of a TLB entry are one number. The MMU is that of a hart; the one of
  the debugger, which has no \<^verbatim>\<open>proc\<close>, is not modelled, nor is the log of
  accesses that \<^verbatim>\<open>--log-commits\<close> prints.
\<close>

section \<open>The interface to the simulator\<close>

record 'd mmu_env =
  addr_to_mem :: "u64 \<Rightarrow> 'd \<Rightarrow> bool"
  host_read :: "u64 \<Rightarrow> nat \<Rightarrow> 'd \<Rightarrow> u8 list"
  host_write :: "u64 \<Rightarrow> u8 list \<Rightarrow> 'd \<Rightarrow> 'd"
  reservable :: "u64 \<Rightarrow> 'd \<Rightarrow> bool"
  sim_mmio_fetch :: "u64 \<Rightarrow> nat \<Rightarrow> 'd hart \<Rightarrow> u8 list outcome \<times> 'd hart"
  sim_mmio_load :: "u64 \<Rightarrow> nat \<Rightarrow> 'd hart \<Rightarrow> u8 list outcome \<times> 'd hart"
  sim_mmio_store :: "u64 \<Rightarrow> u8 list \<Rightarrow> 'd hart \<Rightarrow> unit outcome \<times> 'd hart"
  detect_match :: "trigger_operation_t \<Rightarrow> u64 \<Rightarrow> u64 option \<Rightarrow> 'd hart \<Rightarrow> (trigger_timing_t \<times> trigger_action_t) option \<times> 'd hart"
  interested_in_range :: "u64 \<Rightarrow> u64 \<Rightarrow> access_type \<Rightarrow> 'd \<Rightarrow> bool"
  trace_access :: "u64 \<Rightarrow> nat \<Rightarrow> access_type \<Rightarrow> 'd \<Rightarrow> 'd"
  trace_clean_invalidate :: "u64 \<Rightarrow> nat \<Rightarrow> bool \<Rightarrow> bool \<Rightarrow> 'd \<Rightarrow> 'd"
  is_misaligned_enabled :: bool
  target_big_endian :: bool
  blocksz :: nat

definition PGSHIFT :: nat where "PGSHIFT = 12"
definition PGSIZE :: u64 where "PGSIZE = 0x1000"
definition TLB_ENTRIES :: u64 where "TLB_ENTRIES = 256"
definition TLB_CHECK_TRIGGERS :: u64 where "TLB_CHECK_TRIGGERS = 0x8000000000000000"
definition DEBUG_START :: u64 where "DEBUG_START = 0"
definition DEBUG_END :: u64 where "DEBUG_END = 0xfff"

abbreviation (input) PTE_V :: u64 where "PTE_V \<equiv> 0x001"
abbreviation (input) PTE_R :: u64 where "PTE_R \<equiv> 0x002"
abbreviation (input) PTE_W :: u64 where "PTE_W \<equiv> 0x004"
abbreviation (input) PTE_X :: u64 where "PTE_X \<equiv> 0x008"
abbreviation (input) PTE_U :: u64 where "PTE_U \<equiv> 0x010"
abbreviation (input) PTE_A :: u64 where "PTE_A \<equiv> 0x040"
abbreviation (input) PTE_D :: u64 where "PTE_D \<equiv> 0x080"
abbreviation (input) PTE_RSVD :: u64 where "PTE_RSVD \<equiv> 0x1FC0000000000000"
abbreviation (input) PTE_PBMT :: u64 where "PTE_PBMT \<equiv> 0x6000000000000000"
abbreviation (input) PTE_N :: u64 where "PTE_N \<equiv> 0x8000000000000000"
abbreviation (input) PTE_ATTR :: u64 where "PTE_ATTR \<equiv> 0xFFC0000000000000"
definition PTE_PPN_SHIFT :: nat where "PTE_PPN_SHIFT = 10"

definition PTE_TABLE :: "u64 \<Rightarrow> bool" where
  "PTE_TABLE pte = (pte AND (PTE_V OR PTE_R OR PTE_W OR PTE_X) = PTE_V)"

section \<open>Bytes\<close>

fun bytes_value :: "u8 list \<Rightarrow> u64" where
  "bytes_value [] = 0"
| "bytes_value (b # bs) = ucast b OR push_bit 8 (bytes_value bs)"

fun value_bytes :: "nat \<Rightarrow> u64 \<Rightarrow> u8 list" where
  "value_bytes 0 v = []"
| "value_bytes (Suc n) v = ucast v # value_bytes n (drop_bit 8 v)"

definition from_target :: "'d mmu_env \<Rightarrow> u8 list \<Rightarrow> u64" where
  "from_target e bytes = bytes_value (if target_big_endian e then rev bytes else bytes)"

definition to_target :: "'d mmu_env \<Rightarrow> nat \<Rightarrow> u64 \<Rightarrow> u8 list" where
  "to_target e len v = (let bytes = value_bytes len v in if target_big_endian e then rev bytes else bytes)"

text \<open>\<^verbatim>\<open>reg_from_bytes\<close> aborts on a length that is not that of an integer type.\<close>

definition reg_from_bytes :: "u8 list \<Rightarrow> u64 option" where
  "reg_from_bytes bytes = (if length bytes \<in> {1, 2, 4, 8} then Some (bytes_value bytes) else None)"

section \<open>Exceptions\<close>

definition throw_access_exception :: "bool \<Rightarrow> u64 \<Rightarrow> access_type \<Rightarrow> ('d hart, 'a) M" where
  "throw_access_exception v addr type = throwM (Trap (case type of
      FETCH \<Rightarrow> trap_instruction_access_fault v addr 0 0
    | LOAD \<Rightarrow> trap_load_access_fault v addr 0 0
    | STORE \<Rightarrow> trap_store_access_fault v addr 0 0))"

definition throw_page_fault :: "bool \<Rightarrow> u64 \<Rightarrow> access_type \<Rightarrow> ('d hart, 'a) M" where
  "throw_page_fault v addr type = throwM (Trap (case type of
      FETCH \<Rightarrow> trap_instruction_page_fault v addr 0 0
    | LOAD \<Rightarrow> trap_load_page_fault v addr 0 0
    | STORE \<Rightarrow> trap_store_page_fault v addr 0 0))"

definition throw_guest_page_fault :: "u64 \<Rightarrow> u64 \<Rightarrow> u64 \<Rightarrow> access_type \<Rightarrow> ('d hart, 'a) M" where
  "throw_guest_page_fault gva gpa tinst type = throwM (Trap (case type of
      FETCH \<Rightarrow> trap_instruction_guest_page_fault gva (drop_bit 2 gpa) tinst
    | LOAD \<Rightarrow> trap_load_guest_page_fault gva (drop_bit 2 gpa) tinst
    | STORE \<Rightarrow> trap_store_guest_page_fault gva (drop_bit 2 gpa) tinst))"

section \<open>Access description\<close>

record xlate_flags_t =
  forced_virt :: bool
  hlvx :: bool
  lr :: bool
  ss_access :: bool
  clean_inval :: bool

definition no_flags :: xlate_flags_t where
  "no_flags = \<lparr>forced_virt = False, hlvx = False, lr = False, ss_access = False, clean_inval = False\<rparr>"

definition is_special_access :: "xlate_flags_t \<Rightarrow> bool" where
  "is_special_access f \<longleftrightarrow> forced_virt f \<or> hlvx f \<or> lr f \<or> ss_access f \<or> clean_inval f"

record mem_access_info_t =
  vaddr :: u64
  transformed_vaddr :: u64
  effective_priv :: u64
  effective_virt :: bool
  acc_flags :: xlate_flags_t
  acc_type :: access_type

definition split_misaligned_access :: "u64 \<Rightarrow> mem_access_info_t \<Rightarrow> mem_access_info_t" where
  "split_misaligned_access offset a =
    a\<lparr>vaddr := vaddr a + offset, transformed_vaddr := transformed_vaddr a + offset\<rparr>"

definition sstatus_readvirt :: "ctx \<Rightarrow> bool \<Rightarrow> 'd hart \<Rightarrow> u64" where
  "sstatus_readvirt c v s = (if v then vsstatus_read c s else nonvirtual_sstatus_read c s)"

definition satp_readvirt :: "bool \<Rightarrow> 'd hart \<Rightarrow> u64" where
  "satp_readvirt v s = (if v then vsatp_val s else satp_val s)"

definition in_mprv :: "'d hart \<Rightarrow> bool" where
  "in_mprv s \<longleftrightarrow>
    \<not> (case mnstatus_val s of None \<Rightarrow> False | Some v \<Rightarrow> get_field v MNSTATUS_NMIE = 0) \<and>
    \<not> debug_mode s \<and> get_field (mstatus_read s) MSTATUS_MPRV \<noteq> 0"

text \<open>The field that selects pointer masking; \<open>None\<close> is the failed assertion.\<close>

definition pmm_field :: "bool \<Rightarrow> u64 \<Rightarrow> xlate_flags_t \<Rightarrow> 'd hart \<Rightarrow> u64 option" where
  "pmm_field v mode flags s =
    (if mode = PRV_M then Some (get_field (mseccfg_val s) MSECCFG_PMM)
     else if \<not> v \<and> (mode = PRV_S \<or> (\<not> extension_enabled s (Ext CHR ''S'') \<and> mode = PRV_U))
     then Some (get_field (menvcfg_val s) MENVCFG_PMM)
     else if v \<and> mode = PRV_S then Some (get_field (henvcfg_read s) MENVCFG_PMM)
     else if prv s = PRV_U \<and> forced_virt flags then Some (get_field (hstatus_val s) HSTATUS_HUPMM)
     else if mode = PRV_U then Some (get_field (senvcfg_read s) MENVCFG_PMM)
     else None)"

definition get_pmlen :: "ctx \<Rightarrow> bool \<Rightarrow> u64 \<Rightarrow> xlate_flags_t \<Rightarrow> 'd hart \<Rightarrow> nat option" where
  "get_pmlen c v mode flags s =
    (if xlen c \<noteq> 64 \<or> (sstatus_readvirt c False s OR sstatus_readvirt c v s) AND MSTATUS_MXR \<noteq> 0 \<or> hlvx flags
     then Some 0
     else case pmm_field v mode flags s of
       None \<Rightarrow> None
     | Some pmm \<Rightarrow> Some (if pmm = 2 then 7 else if pmm = 3 then 16 else 0))"

abbreviation (input) SATP64_MODE :: u64 where "SATP64_MODE \<equiv> 0xF000000000000000"

text \<open>The mode and the virtualization that an access is checked with.\<close>

definition effective_mode :: "access_type \<Rightarrow> xlate_flags_t \<Rightarrow> 'd hart \<Rightarrow> u64 \<times> bool" where
  "effective_mode type flags s =
    (if type = FETCH then (prv s, virt s)
     else let mode = (if in_mprv s then get_field (mstatus_read s) MSTATUS_MPP else prv s);
              v = (virt s \<or> (in_mprv s \<and> get_field (mstatus_read s) MSTATUS_MPV \<noteq> 0 \<and> mode \<noteq> PRV_M))
          in if forced_virt flags then (get_field (hstatus_val s) HSTATUS_SPVP, True) else (mode, v))"

definition generate_access_info :: "ctx \<Rightarrow> u64 \<Rightarrow> access_type \<Rightarrow> xlate_flags_t \<Rightarrow> ('d hart, mem_access_info_t) M" where
  "generate_access_info c addr type flags s =
    (let (mode, v) = effective_mode type flags s
     in if type = FETCH
        then returnM \<lparr>vaddr = addr, transformed_vaddr = addr, effective_priv = mode, effective_virt = v,
          acc_flags = flags, acc_type = type\<rparr> s
        else case get_pmlen c v mode flags s of
          None \<Rightarrow> throwM Abort s
        | Some pmlen \<Rightarrow>
            let satp = satp_readvirt v s;
                is_physical_addr = (mode = PRV_M \<or> get_field satp SATP64_MODE = 0);
                transformed_addr = (if is_physical_addr then zext addr (xlen c - pmlen) else sext addr (xlen c - pmlen))
            in returnM \<lparr>vaddr = addr, transformed_vaddr = transformed_addr, effective_priv = mode,
                 effective_virt = v, acc_flags = flags, acc_type = type\<rparr> s)"

section \<open>Transfers to devices\<close>

definition mmio_ok :: "u64 \<Rightarrow> access_type \<Rightarrow> 'd hart \<Rightarrow> bool" where
  "mmio_ok paddr type s = (\<not> (paddr \<ge> DEBUG_START \<and> paddr \<le> DEBUG_END \<and> \<not> debug_mode s))"

definition naturally_aligned :: "u64 \<Rightarrow> nat \<Rightarrow> bool" where
  "naturally_aligned paddr len \<longleftrightarrow>
    (of_nat len :: u64) AND (of_nat len - 1) = 0 \<and> paddr AND (of_nat len - 1) = 0"

definition mmio_fetch :: "'d mmu_env \<Rightarrow> u64 \<Rightarrow> nat \<Rightarrow> 'd hart \<Rightarrow> u8 list outcome \<times> 'd hart" where
  "mmio_fetch e paddr len s = (if \<not> mmio_ok paddr FETCH s then (Refused, s) else sim_mmio_fetch e paddr len s)"

definition mmio_load1 :: "'d mmu_env \<Rightarrow> u64 \<Rightarrow> nat \<Rightarrow> 'd hart \<Rightarrow> u8 list outcome \<times> 'd hart" where
  "mmio_load1 e paddr len s = (if \<not> mmio_ok paddr LOAD s then (Refused, s) else sim_mmio_load e paddr len s)"

definition mmio_store1 :: "'d mmu_env \<Rightarrow> u64 \<Rightarrow> u8 list \<Rightarrow> 'd hart \<Rightarrow> unit outcome \<times> 'd hart" where
  "mmio_store1 e paddr bytes s = (if \<not> mmio_ok paddr STORE s then (Refused, s) else sim_mmio_store e paddr bytes s)"

text \<open>A transfer that is not naturally aligned is made byte by byte, and stops at the first
  byte that is refused.\<close>

fun mmio_load_bytes :: "'d mmu_env \<Rightarrow> u64 \<Rightarrow> nat \<Rightarrow> 'd hart \<Rightarrow> u8 list outcome \<times> 'd hart" where
  "mmio_load_bytes e paddr 0 s = (Done [], s)"
| "mmio_load_bytes e paddr (Suc n) s =
    (case mmio_load1 e paddr 1 s of
       (Done b, s) \<Rightarrow> (case mmio_load_bytes e (paddr + 1) n s of
           (Done bs, s) \<Rightarrow> (Done (b @ bs), s)
         | (r, s) \<Rightarrow> (r, s))
     | (r, s) \<Rightarrow> (r, s))"

fun mmio_store_bytes :: "'d mmu_env \<Rightarrow> u64 \<Rightarrow> u8 list \<Rightarrow> 'd hart \<Rightarrow> unit outcome \<times> 'd hart" where
  "mmio_store_bytes e paddr [] s = (Done (), s)"
| "mmio_store_bytes e paddr (b # bs) s =
    (case mmio_store1 e paddr [b] s of
       (Done _, s) \<Rightarrow> mmio_store_bytes e (paddr + 1) bs s
     | (r, s) \<Rightarrow> (r, s))"

definition mmio_load :: "'d mmu_env \<Rightarrow> u64 \<Rightarrow> nat \<Rightarrow> 'd hart \<Rightarrow> u8 list outcome \<times> 'd hart" where
  "mmio_load e paddr len s =
    (if naturally_aligned paddr len then mmio_load1 e paddr len s else mmio_load_bytes e paddr len s)"

definition mmio_store :: "'d mmu_env \<Rightarrow> u64 \<Rightarrow> u8 list \<Rightarrow> 'd hart \<Rightarrow> unit outcome \<times> 'd hart" where
  "mmio_store e paddr bytes s =
    (if naturally_aligned paddr (length bytes) then mmio_store1 e paddr bytes s else mmio_store_bytes e paddr bytes s)"

text \<open>A refused transfer raises the exception of the caller, an abort of the device ends the
  program.\<close>

definition or_throw :: "('d hart \<Rightarrow> 'a outcome \<times> 'd hart) \<Rightarrow> ('d hart, 'a) M \<Rightarrow> ('d hart, 'a) M" where
  "or_throw transfer fault s =
    (case transfer s of
       (Done x, s) \<Rightarrow> returnM x s
     | (Refused, s) \<Rightarrow> fault s
     | (Aborted, s) \<Rightarrow> throwM Abort s)"

definition host_load :: "'d mmu_env \<Rightarrow> u64 \<Rightarrow> nat \<Rightarrow> ('d hart, u8 list) M" where
  "host_load e paddr len s = returnM (host_read e paddr len (dev s)) s"

definition host_store :: "'d mmu_env \<Rightarrow> u64 \<Rightarrow> u8 list \<Rightarrow> ('d hart, unit) M" where
  "host_store e paddr bytes = modifyM (\<lambda>s. s\<lparr>dev := host_write e paddr bytes (dev s)\<rparr>)"

section \<open>Page table entries\<close>

definition pte_load :: "'d mmu_env \<Rightarrow> u64 \<Rightarrow> u64 \<Rightarrow> bool \<Rightarrow> access_type \<Rightarrow> nat \<Rightarrow> ('d hart, u64) M" where
  "pte_load e pte_paddr addr v trap_type ptesize s =
    (if \<not> pmp_ok pte_paddr ptesize LOAD PRV_S False s then throw_access_exception v addr trap_type s
     else bindM (if addr_to_mem e pte_paddr (dev s) then host_load e pte_paddr ptesize
                 else or_throw (mmio_load e pte_paddr ptesize) (throw_access_exception v addr trap_type))
            (\<lambda>bytes. returnM (from_target e bytes)) s)"

definition pte_store :: "'d mmu_env \<Rightarrow> u64 \<Rightarrow> u64 \<Rightarrow> u64 \<Rightarrow> bool \<Rightarrow> access_type \<Rightarrow> nat \<Rightarrow> ('d hart, unit) M" where
  "pte_store e pte_paddr new_pte addr v trap_type ptesize s =
    (if \<not> pmp_ok pte_paddr ptesize STORE PRV_S False s then throw_access_exception v addr trap_type s
     else let target_pte = to_target e ptesize new_pte
          in if addr_to_mem e pte_paddr (dev s) then host_store e pte_paddr target_pte s
             else or_throw (mmio_store e pte_paddr target_pte) (throw_access_exception v addr trap_type) s)"

record vm_info =
  vm_levels :: nat
  vm_idxbits :: nat
  vm_widenbits :: nat
  vm_ptesize :: nat
  vm_ptbase :: u64

definition vm_bare :: vm_info where
  "vm_bare = \<lparr>vm_levels = 0, vm_idxbits = 0, vm_widenbits = 0, vm_ptesize = 0, vm_ptbase = 0\<rparr>"

abbreviation (input) SATP32_MODE :: u64 where "SATP32_MODE \<equiv> 0x80000000"
abbreviation (input) SATP32_PPN :: u64 where "SATP32_PPN \<equiv> 0x003FFFFF"
abbreviation (input) SATP64_PPN :: u64 where "SATP64_PPN \<equiv> 0x00000FFFFFFFFFFF"

text \<open>\<open>None\<close> is \<^verbatim>\<open>abort()\<close>. The masks of \<^verbatim>\<open>hgatp\<close> are those of
  \<^verbatim>\<open>satp\<close>.\<close>

definition decode_vm_info :: "nat \<Rightarrow> bool \<Rightarrow> u64 \<Rightarrow> u64 \<Rightarrow> vm_info option" where
  "decode_vm_info xl stage2 p satp =
    (let sv32 = \<lparr>vm_levels = 2, vm_idxbits = 10, vm_widenbits = 0, vm_ptesize = 4,
           vm_ptbase = push_bit PGSHIFT (satp AND SATP32_PPN)\<rparr>;
         sv = (\<lambda>n. \<lparr>vm_levels = n, vm_idxbits = 9, vm_widenbits = 0, vm_ptesize = 8,
           vm_ptbase = push_bit PGSHIFT (satp AND SATP64_PPN)\<rparr>);
         mode32 = get_field satp SATP32_MODE; mode64 = get_field satp SATP64_MODE
     in if p = PRV_M then Some vm_bare
        else if \<not> stage2 \<and> p \<le> PRV_S \<and> xl = 32
        then (if mode32 = 0 then Some vm_bare else if mode32 = 1 then Some sv32 else None)
        else if \<not> stage2 \<and> p \<le> PRV_S \<and> xl = 64
        then (if mode64 = 0 then Some vm_bare else if mode64 = 8 then Some (sv 3)
              else if mode64 = 9 then Some (sv 4) else if mode64 = 10 then Some (sv 5)
              else if mode64 = 11 then Some (sv 6) else None)
        else if stage2 \<and> xl = 32
        then (if mode32 = 0 then Some vm_bare else if mode32 = 1 then Some (sv32\<lparr>vm_widenbits := 2\<rparr>) else None)
        else if stage2 \<and> xl = 64
        then (if mode64 = 0 then Some vm_bare else if mode64 = 8 then Some ((sv 3)\<lparr>vm_widenbits := 2\<rparr>)
              else if mode64 = 9 then Some ((sv 4)\<lparr>vm_widenbits := 2\<rparr>)
              else if mode64 = 10 then Some ((sv 5)\<lparr>vm_widenbits := 2\<rparr>) else None)
        else None)"

definition low_mask :: "nat \<Rightarrow> u64" where "low_mask n = push_bit n 1 - 1"

definition pte_ppn :: "u64 \<Rightarrow> u64" where
  "pte_ppn pte = drop_bit PTE_PPN_SHIFT (pte AND NOT PTE_ATTR)"

definition ad_bits :: "access_type \<Rightarrow> u64" where
  "ad_bits type = PTE_A OR (if type = STORE then PTE_D else 0)"

text \<open>The physical address of a leaf, unless its Svnapot encoding is reserved.\<close>

definition leaf_phys :: "u64 \<Rightarrow> nat \<Rightarrow> nat \<Rightarrow> u64 \<Rightarrow> u64 option" where
  "leaf_phys addr i ptshift pte =
    (let ppn = pte_ppn pte; vpn = drop_bit PGSHIFT addr;
         napot_bits = (if pte AND PTE_N \<noteq> 0 then ctz ppn + 1 else 0)
     in if (pte AND PTE_N \<noteq> 0 \<and> (ppn = 0 \<or> i \<noteq> 0)) \<or> (napot_bits \<noteq> 0 \<and> napot_bits \<noteq> 4) then None
        else let page_base = push_bit PGSHIFT ((ppn AND NOT (low_mask napot_bits))
               OR (vpn AND low_mask napot_bits) OR (vpn AND low_mask ptshift))
             in Some (page_base OR (addr AND low_mask PGSHIFT)))"

text \<open>What a walk decides about an entry before it looks at the accessed and dirty bits.\<close>

datatype pte_verdict = Page_fault | Store_access_fault | Fetch_access_fault | Next_level | Leaf

text \<open>The checks that both walks make first.\<close>

definition pte_reserved :: "bool \<Rightarrow> bool \<Rightarrow> u64 \<Rightarrow> bool" where
  "pte_reserved svnapot pbmte pte \<longleftrightarrow>
    pte AND PTE_RSVD \<noteq> 0 \<or> (\<not> svnapot \<and> pte AND PTE_N \<noteq> 0) \<or>
    (\<not> pbmte \<and> pte AND PTE_PBMT \<noteq> 0) \<or> pte AND PTE_PBMT = PTE_PBMT"

definition table_verdict :: "u64 \<Rightarrow> pte_verdict" where
  "table_verdict pte =
    (if pte AND (PTE_D OR PTE_A OR PTE_U OR PTE_N OR PTE_PBMT) \<noteq> 0 then Page_fault else Next_level)"

definition s2_verdict :: "bool \<Rightarrow> bool \<Rightarrow> bool \<Rightarrow> bool \<Rightarrow> access_type \<Rightarrow> nat \<Rightarrow> u64 \<Rightarrow> pte_verdict" where
  "s2_verdict svnapot pbmte mxr hx type ptshift pte =
    (if pte_reserved svnapot pbmte pte then Page_fault
     else if PTE_TABLE pte then table_verdict pte
     else if pte AND PTE_V = 0 \<or> (pte AND PTE_R = 0 \<and> pte AND PTE_W \<noteq> 0) then Page_fault
     else if pte AND PTE_U = 0 then Page_fault
     else if (if type = FETCH \<or> hx then pte AND PTE_X = 0
              else if type = LOAD then pte AND PTE_R = 0 \<and> \<not> (mxr \<and> pte AND PTE_X \<noteq> 0)
              else \<not> (pte AND PTE_R \<noteq> 0 \<and> pte AND PTE_W \<noteq> 0)) then Page_fault
     else if pte_ppn pte AND low_mask ptshift \<noteq> 0 then Page_fault
     else Leaf)"

text \<open>The environment of a first-stage walk: what the status and configuration registers
  say, and the access.\<close>

record walk_ctx =
  w_svnapot :: bool
  w_pbmte :: bool
  w_sse :: bool
  w_s_mode :: bool
  w_sum :: bool
  w_mxr :: bool

definition s1_verdict :: "walk_ctx \<Rightarrow> xlate_flags_t \<Rightarrow> access_type \<Rightarrow> nat \<Rightarrow> u64 \<Rightarrow> pte_verdict" where
  "s1_verdict w flags type ptshift pte =
    (let r = (pte AND PTE_R \<noteq> 0); wr = (pte AND PTE_W \<noteq> 0); x = (pte AND PTE_X \<noteq> 0);
         ss_page = (\<not> r \<and> wr \<and> \<not> x)
     in if pte_reserved (w_svnapot w) (w_pbmte w) pte then Page_fault
        else if PTE_TABLE pte then table_verdict pte
        else if (if pte AND PTE_U \<noteq> 0 then w_s_mode w \<and> (type = FETCH \<or> \<not> w_sum w) else \<not> w_s_mode w) then Page_fault
        else if pte AND PTE_V = 0 \<or> (\<not> r \<and> wr \<and> ((\<not> w_sse w \<and> \<not> x) \<or> x)) then Page_fault
        else if ss_page \<and> ((type = STORE \<and> \<not> ss_access flags) \<or> clean_inval flags) then Store_access_fault
        else if ss_page \<and> type = FETCH then Fetch_access_fault
        else if ((r \<and> wr) \<or> x) \<and> ss_access flags then Store_access_fault
        else if (if type = FETCH \<or> hlvx flags then \<not> x
                 else if type = LOAD then \<not> (w_sse w \<and> ss_page) \<and> \<not> r \<and> \<not> (w_mxr w \<and> x)
                 else \<not> wr) then Page_fault
        else if pte_ppn pte AND low_mask ptshift \<noteq> 0 then Page_fault
        else Leaf)"

section \<open>Second stage\<close>

record s2_access =
  s2_gva :: u64
  s2_type :: access_type
  s2_trap_type :: access_type
  s2_virt :: bool
  s2_hlvx :: bool
  s2_pt :: bool

definition s2_tinst :: "ctx \<Rightarrow> s2_access \<Rightarrow> u64" where
  "s2_tinst c q =
    (if s2_pt q then 0x2000 else 0) OR (if xlen c = 64 \<and> s2_pt q then 0x1000 else 0)
    OR (if s2_type q = STORE \<and> s2_pt q then 0x0020 else 0)"

fun s2_loop :: "'d mmu_env \<Rightarrow> ctx \<Rightarrow> s2_access \<Rightarrow> vm_info \<Rightarrow> bool \<Rightarrow> u64 \<Rightarrow> nat \<Rightarrow> u64 \<Rightarrow> ('d hart, u64) M" where
  "s2_loop e c q vm mxr gpa 0 base = throw_guest_page_fault (s2_gva q) gpa (s2_tinst c q) (s2_trap_type q)"
| "s2_loop e c q vm mxr gpa (Suc i) base =
    (let ptshift = i * vm_idxbits vm;
         idxbits = (if Suc i = vm_levels vm then vm_idxbits vm + vm_widenbits vm else vm_idxbits vm);
         idx = drop_bit (PGSHIFT + ptshift) gpa AND low_mask idxbits;
         pte_paddr = base + idx * of_nat (vm_ptesize vm);
         fault = throw_guest_page_fault (s2_gva q) gpa (s2_tinst c q) (s2_trap_type q)
     in bindM (pte_load e pte_paddr (s2_gva q) (s2_virt q) (s2_trap_type q) (vm_ptesize vm)) (\<lambda>pte s.
          case s2_verdict (extension_enabled s EXT_SVNAPOT) (menvcfg_val s AND MENVCFG_PBMTE \<noteq> 0) mxr
              (s2_hlvx q) (s2_type q) ptshift pte of
            Next_level \<Rightarrow> s2_loop e c q vm mxr gpa i (push_bit PGSHIFT (pte_ppn pte)) s
          | Leaf \<Rightarrow>
              let ad = ad_bits (s2_type q);
                  finish = (case leaf_phys gpa i ptshift pte of Some p \<Rightarrow> returnM p | None \<Rightarrow> fault)
              in if pte AND ad = ad then finish s
                 else if menvcfg_val s AND MENVCFG_ADUE \<noteq> 0
                 then thenM (pte_store e pte_paddr (pte OR ad) (s2_gva q) (s2_virt q) (s2_type q) (vm_ptesize vm)) finish s
                 else fault s
          | _ \<Rightarrow> fault s))"

definition s2xlate :: "'d mmu_env \<Rightarrow> ctx \<Rightarrow> s2_access \<Rightarrow> u64 \<Rightarrow> ('d hart, u64) M" where
  "s2xlate e c q gpa s =
    (if \<not> s2_virt q then returnM gpa s
     else case decode_vm_info (xlen c) True 0 (hgatp_val s) of
       None \<Rightarrow> throwM Abort s
     | Some vm \<Rightarrow>
         if vm_levels vm = 0 then returnM gpa s
         else let maxgpabits = vm_levels vm * vm_idxbits vm + vm_widenbits vm + PGSHIFT;
                  maxgpa = low_mask maxgpabits;
                  mxr = (\<not> s2_pt q \<and> sstatus_readvirt c False s AND MSTATUS_MXR \<noteq> 0)
              in if gpa AND NOT maxgpa = 0
                 then s2_loop e c q vm mxr gpa (vm_levels vm) (vm_ptbase vm) s
                 else throw_guest_page_fault (s2_gva q) gpa (s2_tinst c q) (s2_trap_type q) s)"

section \<open>The walk\<close>

definition walk_env :: "ctx \<Rightarrow> mem_access_info_t \<Rightarrow> 'd hart \<Rightarrow> walk_ctx" where
  "walk_env c a s =
    (let v = effective_virt a; cfg = (if v then henvcfg_read s else menvcfg_val s)
     in \<lparr>w_svnapot = extension_enabled s EXT_SVNAPOT,
         w_pbmte = (cfg AND MENVCFG_PBMTE \<noteq> 0), w_sse = (cfg AND MENVCFG_SSE \<noteq> 0),
         w_s_mode = (effective_priv a = PRV_S),
         w_sum = (sstatus_readvirt c v s AND MSTATUS_SUM \<noteq> 0),
         w_mxr = ((sstatus_readvirt c False s OR sstatus_readvirt c v s) AND MSTATUS_MXR \<noteq> 0)\<rparr>)"

definition walk_hade :: "mem_access_info_t \<Rightarrow> 'd hart \<Rightarrow> bool" where
  "walk_hade a s \<longleftrightarrow> (if effective_virt a then henvcfg_read s else menvcfg_val s) AND MENVCFG_ADUE \<noteq> 0"

definition pt_access :: "mem_access_info_t \<Rightarrow> access_type \<Rightarrow> access_type \<Rightarrow> s2_access" where
  "pt_access a type trap_type = \<lparr>s2_gva = transformed_vaddr a, s2_type = type, s2_trap_type = trap_type,
    s2_virt = effective_virt a, s2_hlvx = False, s2_pt = True\<rparr>"

definition data_access :: "mem_access_info_t \<Rightarrow> access_type \<Rightarrow> s2_access" where
  "data_access a type = \<lparr>s2_gva = transformed_vaddr a, s2_type = type, s2_trap_type = type,
    s2_virt = effective_virt a, s2_hlvx = hlvx (acc_flags a), s2_pt = False\<rparr>"

definition page_of :: "u64 \<Rightarrow> u64" where "page_of p = p AND NOT (low_mask PGSHIFT)"

text \<open>The loop over the levels; \<open>i\<close> levels are left. The address is masked before it is
  returned, as the callers of the second stage do.\<close>

fun walk_loop :: "'d mmu_env \<Rightarrow> ctx \<Rightarrow> mem_access_info_t \<Rightarrow> access_type \<Rightarrow> vm_info \<Rightarrow> nat \<Rightarrow> u64 \<Rightarrow> ('d hart, u64) M" where
  "walk_loop e c a type vm 0 base = throw_page_fault (effective_virt a) (transformed_vaddr a) type"
| "walk_loop e c a type vm (Suc i) base =
    (let addr = transformed_vaddr a; v = effective_virt a;
         ptshift = i * vm_idxbits vm;
         idx = drop_bit (PGSHIFT + ptshift) addr AND low_mask (vm_idxbits vm);
         gpte = base + idx * of_nat (vm_ptesize vm);
         fault = throw_page_fault v addr type
     in bindM (s2xlate e c (pt_access a LOAD type) gpte) (\<lambda>pte_paddr.
        bindM (pte_load e pte_paddr addr v type (vm_ptesize vm)) (\<lambda>pte s.
          case s1_verdict (walk_env c a s) (acc_flags a) type ptshift pte of
            Next_level \<Rightarrow> walk_loop e c a type vm i (push_bit PGSHIFT (pte_ppn pte)) s
          | Page_fault \<Rightarrow> fault s
          | Store_access_fault \<Rightarrow> throw_access_exception v addr STORE s
          | Fetch_access_fault \<Rightarrow> throw_access_exception v addr FETCH s
          | Leaf \<Rightarrow>
              let ad = ad_bits type;
                  finish = (case leaf_phys addr i ptshift pte of
                      Some phys \<Rightarrow> bindM (s2xlate e c (data_access a type) phys) (\<lambda>p. returnM (page_of p))
                    | None \<Rightarrow> fault)
              in if pte AND ad = ad then finish s
                 else if walk_hade a s
                 then thenM (s2xlate e c (pt_access a STORE type) gpte)
                   (thenM (pte_store e pte_paddr (pte OR ad) addr v type (vm_ptesize vm)) finish) s
                 else fault s)))"

text \<open>Whether the bits of the address above the ones that are translated are all equal.\<close>

definition canonical :: "ctx \<Rightarrow> vm_info \<Rightarrow> u64 \<Rightarrow> bool" where
  "canonical c vm addr =
    (let va_bits = PGSHIFT + vm_levels vm * vm_idxbits vm;
         m = low_mask (xlen c - (va_bits - 1));
         masked_msbs = drop_bit (va_bits - 1) addr AND m
     in masked_msbs = 0 \<or> masked_msbs = m)"

definition walk :: "'d mmu_env \<Rightarrow> ctx \<Rightarrow> mem_access_info_t \<Rightarrow> ('d hart, u64) M" where
  "walk e c a s =
    (let addr = transformed_vaddr a; v = effective_virt a; ss = ss_access (acc_flags a);
         type = (if ss then STORE else acc_type a)
     in case decode_vm_info (xlen c) False (effective_priv a) (satp_readvirt v s) of
          None \<Rightarrow> throwM Abort s
        | Some vm \<Rightarrow>
            if vm_levels vm = 0
            then (if ss then throw_access_exception v addr STORE s
                  else bindM (s2xlate e c (data_access a type) (addr AND (push_bit (xlen c - 1) 2 - 1)))
                    (\<lambda>p. returnM (page_of p)) s)
            else walk_loop e c a type vm (if canonical c vm addr then vm_levels vm else 0) (vm_ptbase vm) s)"

definition translate :: "'d mmu_env \<Rightarrow> ctx \<Rightarrow> mem_access_info_t \<Rightarrow> nat \<Rightarrow> ('d hart, u64) M" where
  "translate e c a len =
    bindM (walk e c a) (\<lambda>page s.
      let paddr = page OR (transformed_vaddr a AND (PGSIZE - 1))
      in if \<not> pmp_ok paddr len (if ss_access (acc_flags a) then STORE else acc_type a) (effective_priv a)
              (hlvx (acc_flags a)) s
         then throw_access_exception (effective_virt a) (transformed_vaddr a) (acc_type a) s
         else returnM paddr s)"

end
