(* ===== verification/MemAccess.thy ===== *)
theory MemAccess
  imports Mmu
begin

text \<open>
  Loads, stores, atomic operations and instruction fetch of \<^verbatim>\<open>mmu_t\<close>
  (\<^verbatim>\<open>riscv/mmu.h\<close>, \<^verbatim>\<open>riscv/mmu.cc\<close>), over the translation lookaside
  buffer: 256 slots, each with one offset and a tag for fetches, for loads and for stores. The
  templates are modelled over the size of their type, the value of a type of \<open>len\<close> bytes
  as the zero-extended \<open>len\<close>-byte number.
\<close>

section \<open>Triggers\<close>

definition check_triggers :: "'d mmu_env \<Rightarrow> trigger_operation_t \<Rightarrow> u64 \<Rightarrow> bool \<Rightarrow> u64 \<Rightarrow> u64 option \<Rightarrow> ('d hart, unit) M" where
  "check_triggers e op address v tval data s =
    (if matched_trigger s \<noteq> None then returnM () s
     else case detect_match e op address data s of
       (None, s) \<Rightarrow> returnM () s
     | (Some (timing, action), s) \<Rightarrow>
         let t = \<lparr>trig_operation = op, trig_address = tval, trig_action = action, trig_gva = v\<rparr>
         in case timing of
              TIMING_BEFORE \<Rightarrow> throwM (TriggerMatched t) s
            | TIMING_AFTER \<Rightarrow> returnM () ((flush_icache s)\<lparr>matched_trigger := Some t\<rparr>))"

text \<open>The data of an access, eight bytes at a time.\<close>

function check_data_triggers :: "'d mmu_env \<Rightarrow> trigger_operation_t \<Rightarrow> u64 \<Rightarrow> bool \<Rightarrow> u8 list \<Rightarrow> ('d hart, unit) M" where
  "check_data_triggers e op address v bytes =
    (if length bytes > 8
     then thenM (check_triggers e op address v address (Some (bytes_value (take 8 bytes))))
            (check_data_triggers e op address v (drop 8 bytes))
     else case reg_from_bytes bytes of
       None \<Rightarrow> throwM Abort
     | Some d \<Rightarrow> check_triggers e op address v address (Some d))"
  by pat_completeness auto
termination
  by (relation "measure (\<lambda>(e, op, address, v, bytes). length bytes)") simp_all

declare check_data_triggers.simps [simp del]

section \<open>Translation lookaside buffer\<close>

definition vpn_of :: "u64 \<Rightarrow> u64" where "vpn_of a = drop_bit PGSHIFT a"
definition tlb_idx :: "u64 \<Rightarrow> nat" where "tlb_idx vpn = unat (vpn mod TLB_ENTRIES)"
definition tag_vpn :: "u64 \<Rightarrow> u64" where "tag_vpn tag = tag AND NOT TLB_CHECK_TRIGGERS"

definition clear_other_tags :: "nat \<Rightarrow> u64 \<Rightarrow> 'd hart \<Rightarrow> 'd hart" where
  "clear_other_tags i t s =
    s\<lparr>tlb_load_tag := (if tag_vpn (tlb_load_tag s i) \<noteq> t then (tlb_load_tag s)(i := - 1) else tlb_load_tag s),
      tlb_store_tag := (if tag_vpn (tlb_store_tag s i) \<noteq> t then (tlb_store_tag s)(i := - 1) else tlb_store_tag s),
      tlb_insn_tag := (if tag_vpn (tlb_insn_tag s i) \<noteq> t then (tlb_insn_tag s)(i := - 1) else tlb_insn_tag s)\<rparr>"

definition set_tag :: "access_type \<Rightarrow> nat \<Rightarrow> u64 \<Rightarrow> 'd hart \<Rightarrow> 'd hart" where
  "set_tag type i t s =
    (case type of
       FETCH \<Rightarrow> s\<lparr>tlb_insn_tag := (tlb_insn_tag s)(i := t)\<rparr>
     | STORE \<Rightarrow> s\<lparr>tlb_store_tag := (tlb_store_tag s)(i := t)\<rparr>
     | LOAD \<Rightarrow> s\<lparr>tlb_load_tag := (tlb_load_tag s)(i := t)\<rparr>)"

definition triggers_checked :: "access_type \<Rightarrow> 'd hart \<Rightarrow> bool" where
  "triggers_checked type s \<longleftrightarrow>
    (check_triggers_fetch s \<and> type = FETCH) \<or> (check_triggers_load s \<and> type = LOAD) \<or>
    (check_triggers_store s \<and> type = STORE)"

definition refill_tlb :: "u64 \<Rightarrow> u64 \<Rightarrow> access_type \<Rightarrow> ('d hart, u64) M" where
  "refill_tlb va paddr type s =
    (let i = tlb_idx (vpn_of va); expected_tag = vpn_of va; entry = paddr - va
     in if in_mprv s then returnM entry s
        else let s = clear_other_tags i expected_tag s;
                 t = (if triggers_checked type s then expected_tag OR TLB_CHECK_TRIGGERS else expected_tag)
             in case pmp_homogeneous (paddr AND NOT (PGSIZE - 1)) PGSIZE s of
                  None \<Rightarrow> throwM Abort s
                | Some h \<Rightarrow> let s = (if h then set_tag type i t s else s)
                    in returnM entry (s\<lparr>tlb_data := (tlb_data s)(i := entry)\<rparr>))"

section \<open>Loads\<close>

definition yield_load_reservation :: "'d hart \<Rightarrow> 'd hart" where
  "yield_load_reservation s = s\<lparr>load_reservation_address := - 1\<rparr>"

definition load_slow_path_intrapage :: "'d mmu_env \<Rightarrow> ctx \<Rightarrow> nat \<Rightarrow> mem_access_info_t \<Rightarrow> ('d hart, u8 list) M" where
  "load_slow_path_intrapage e c len a s =
    (let addr = vaddr a; transformed_addr = transformed_vaddr a; vpn = vpn_of transformed_addr;
         special = is_special_access (acc_flags a);
         fault = throw_access_exception (effective_virt a) transformed_addr LOAD
     in if \<not> special \<and> vpn = tag_vpn (tlb_load_tag s (tlb_idx vpn))
        then host_load e (tlb_data s (tlb_idx vpn) + transformed_addr) len s
        else bindM (translate e c a len) (\<lambda>paddr s.
          if lr (acc_flags a) \<and> \<not> reservable e paddr (dev s) then fault s
          else bindM
            (if addr_to_mem e paddr (dev s)
             then bindM (host_load e paddr len) (\<lambda>bytes s.
               if interested_in_range e paddr (paddr + PGSIZE) LOAD (dev s)
               then returnM bytes (s\<lparr>dev := trace_access e paddr len LOAD (dev s)\<rparr>)
               else if \<not> special then bindM (refill_tlb addr paddr LOAD) (\<lambda>_. returnM bytes) s
               else returnM bytes s)
             else or_throw (mmio_load e paddr len) fault)
            (\<lambda>bytes s. returnM bytes (if lr (acc_flags a) then s\<lparr>load_reservation_address := paddr\<rparr> else s)) s) s)"

definition misaligned :: "u64 \<Rightarrow> nat \<Rightarrow> bool" where
  "misaligned addr len \<longleftrightarrow> addr AND (of_nat len - 1) \<noteq> 0"

definition len_page0 :: "u64 \<Rightarrow> nat \<Rightarrow> nat" where
  "len_page0 addr len = min len (unat (PGSIZE - addr mod PGSIZE))"

definition load_misaligned :: "'d mmu_env \<Rightarrow> ctx \<Rightarrow> nat \<Rightarrow> mem_access_info_t \<Rightarrow> ('d hart, u8 list) M" where
  "load_misaligned e c len a =
    (let addr = transformed_vaddr a; gva = effective_virt a; n = len_page0 addr len
     in if \<not> is_misaligned_enabled e then throwM (Trap (trap_load_address_misaligned gva addr 0 0))
        else if lr (acc_flags a) then throw_access_exception gva addr LOAD
        else bindM (load_slow_path_intrapage e c n a) (\<lambda>bytes0.
          if n = len then returnM bytes0
          else bindM (load_slow_path_intrapage e c (len - n) (split_misaligned_access (of_nat n) a)) (\<lambda>bytes1.
            returnM (bytes0 @ bytes1))))"

definition load_slow_path :: "'d mmu_env \<Rightarrow> ctx \<Rightarrow> u64 \<Rightarrow> nat \<Rightarrow> xlate_flags_t \<Rightarrow> ('d hart, u8 list) M" where
  "load_slow_path e c original_addr len flags =
    bindM (generate_access_info c original_addr LOAD flags) (\<lambda>a.
      let addr = transformed_vaddr a; v = effective_virt a
      in thenM (check_triggers e OPERATION_LOAD addr v addr None)
        (bindM (if misaligned addr len then load_misaligned e c len a else load_slow_path_intrapage e c len a) (\<lambda>bytes.
          thenM (check_data_triggers e OPERATION_LOAD addr v bytes) (returnM bytes))))"

definition mmu_load :: "'d mmu_env \<Rightarrow> ctx \<Rightarrow> nat \<Rightarrow> u64 \<Rightarrow> xlate_flags_t \<Rightarrow> ('d hart, u64) M" where
  "mmu_load e c len addr flags s =
    (let vpn = vpn_of addr; tlb_hit = (tlb_load_tag s (tlb_idx vpn) = vpn)
     in bindM (if \<not> is_special_access flags \<and> \<not> misaligned addr len \<and> tlb_hit
               then host_load e (tlb_data s (tlb_idx vpn) + addr) len
               else load_slow_path e c addr len flags)
          (\<lambda>bytes. returnM (from_target e bytes)) s)"

definition load_reserved :: "'d mmu_env \<Rightarrow> ctx \<Rightarrow> nat \<Rightarrow> u64 \<Rightarrow> ('d hart, u64) M" where
  "load_reserved e c len addr = mmu_load e c len addr (no_flags\<lparr>lr := True\<rparr>)"

definition guest_load :: "'d mmu_env \<Rightarrow> ctx \<Rightarrow> nat \<Rightarrow> u64 \<Rightarrow> ('d hart, u64) M" where
  "guest_load e c len addr = mmu_load e c len addr (no_flags\<lparr>forced_virt := True\<rparr>)"

definition guest_load_x :: "'d mmu_env \<Rightarrow> ctx \<Rightarrow> nat \<Rightarrow> u64 \<Rightarrow> ('d hart, u64) M" where
  "guest_load_x e c len addr = mmu_load e c len addr (no_flags\<lparr>forced_virt := True, hlvx := True\<rparr>)"

definition ss_load :: "'d mmu_env \<Rightarrow> ctx \<Rightarrow> nat \<Rightarrow> u64 \<Rightarrow> ('d hart, u64) M" where
  "ss_load e c len addr s =
    (if misaligned addr len then throw_access_exception (virt s) addr STORE s
     else mmu_load e c len addr (no_flags\<lparr>ss_access := True\<rparr>) s)"

section \<open>Stores\<close>

definition store_slow_path_intrapage :: "'d mmu_env \<Rightarrow> ctx \<Rightarrow> nat \<Rightarrow> u8 list \<Rightarrow> mem_access_info_t \<Rightarrow> bool \<Rightarrow> ('d hart, unit) M" where
  "store_slow_path_intrapage e c len bytes a actually_store s =
    (let addr = vaddr a; transformed_addr = transformed_vaddr a; vpn = vpn_of transformed_addr;
         special = is_special_access (acc_flags a)
     in if \<not> special \<and> vpn = tag_vpn (tlb_store_tag s (tlb_idx vpn))
        then (if actually_store then host_store e (tlb_data s (tlb_idx vpn) + transformed_addr) bytes s
              else returnM () s)
        else bindM (translate e c a len) (\<lambda>paddr s.
          if \<not> actually_store then returnM () s
          else if addr_to_mem e paddr (dev s)
          then thenM (host_store e paddr bytes) (\<lambda>s.
            if interested_in_range e paddr (paddr + PGSIZE) STORE (dev s)
            then returnM () (s\<lparr>dev := trace_access e paddr len STORE (dev s)\<rparr>)
            else if \<not> special then bindM (refill_tlb addr paddr STORE) (\<lambda>_. returnM ()) s
            else returnM () s) s
          else or_throw (mmio_store e paddr bytes)
            (throw_access_exception (effective_virt a) transformed_addr STORE) s) s)"

definition store_misaligned :: "'d mmu_env \<Rightarrow> ctx \<Rightarrow> nat \<Rightarrow> u8 list \<Rightarrow> mem_access_info_t \<Rightarrow> bool \<Rightarrow> bool \<Rightarrow> ('d hart, unit) M" where
  "store_misaligned e c len bytes a actually_store require_alignment =
    (let addr = transformed_vaddr a; gva = effective_virt a; n = len_page0 addr len
     in if \<not> is_misaligned_enabled e then throwM (Trap (trap_store_address_misaligned gva addr 0 0))
        else if require_alignment then throw_access_exception gva addr STORE
        else thenM (store_slow_path_intrapage e c n (take n bytes) a actually_store)
          (if n = len then returnM ()
           else store_slow_path_intrapage e c (len - n) (drop n bytes)
             (split_misaligned_access (of_nat n) a) actually_store))"

definition store_slow_path :: "'d mmu_env \<Rightarrow> ctx \<Rightarrow> u64 \<Rightarrow> nat \<Rightarrow> u8 list \<Rightarrow> xlate_flags_t \<Rightarrow> bool \<Rightarrow> bool \<Rightarrow> ('d hart, unit) M" where
  "store_slow_path e c original_addr len bytes flags actually_store require_alignment =
    bindM (generate_access_info c original_addr STORE flags) (\<lambda>a.
      let addr = transformed_vaddr a
      in thenM (if actually_store then check_data_triggers e OPERATION_STORE addr (effective_virt a) bytes
                else returnM ())
        (if misaligned addr len then store_misaligned e c len bytes a actually_store require_alignment
         else store_slow_path_intrapage e c len bytes a actually_store))"

definition mmu_store :: "'d mmu_env \<Rightarrow> ctx \<Rightarrow> nat \<Rightarrow> u64 \<Rightarrow> u64 \<Rightarrow> xlate_flags_t \<Rightarrow> ('d hart, unit) M" where
  "mmu_store e c len addr v flags s =
    (let vpn = vpn_of addr; tlb_hit = (tlb_store_tag s (tlb_idx vpn) = vpn); bytes = to_target e len v
     in if \<not> is_special_access flags \<and> \<not> misaligned addr len \<and> tlb_hit
        then host_store e (tlb_data s (tlb_idx vpn) + addr) bytes s
        else store_slow_path e c addr len bytes flags True False s)"

definition guest_store :: "'d mmu_env \<Rightarrow> ctx \<Rightarrow> nat \<Rightarrow> u64 \<Rightarrow> u64 \<Rightarrow> ('d hart, unit) M" where
  "guest_store e c len addr v = mmu_store e c len addr v (no_flags\<lparr>forced_virt := True\<rparr>)"

definition ss_store :: "'d mmu_env \<Rightarrow> ctx \<Rightarrow> nat \<Rightarrow> u64 \<Rightarrow> u64 \<Rightarrow> ('d hart, unit) M" where
  "ss_store e c len addr v s =
    (if misaligned addr len then throw_access_exception (virt s) addr STORE s
     else mmu_store e c len addr v (no_flags\<lparr>ss_access := True\<rparr>) s)"

section \<open>Quadruple precision\<close>

definition store_float128 :: "'d mmu_env \<Rightarrow> ctx \<Rightarrow> u64 \<Rightarrow> freg_t \<Rightarrow> ('d hart, unit) M" where
  "store_float128 e c addr f s =
    (if misaligned addr 16 \<and> \<not> is_misaligned_enabled e
     then throwM (Trap (trap_store_address_misaligned (virt s) addr 0 0)) s
     else thenM (mmu_store e c 8 addr (v0 f) no_flags) (mmu_store e c 8 (addr + 8) (v1 f) no_flags) s)"

definition load_float128 :: "'d mmu_env \<Rightarrow> ctx \<Rightarrow> u64 \<Rightarrow> ('d hart, freg_t) M" where
  "load_float128 e c addr s =
    (if misaligned addr 16 \<and> \<not> is_misaligned_enabled e
     then throwM (Trap (trap_load_address_misaligned (virt s) addr 0 0)) s
     else bindM (mmu_load e c 8 addr no_flags) (\<lambda>a.
       bindM (mmu_load e c 8 (addr + 8) no_flags) (\<lambda>b. returnM \<lparr>v0 = a, v1 = b\<rparr>)) s)"

section \<open>Atomic operations and cache blocks\<close>

definition store_trap_of :: "trap_t \<Rightarrow> trap_t" where
  "store_trap_of t =
    (let g = has_gva t; a = get_tval t; b = get_tval2 t; i = get_tinst t
     in if which t = CAUSE_MISALIGNED_LOAD then trap_store_address_misaligned g a b i
        else if which t = CAUSE_LOAD_PAGE_FAULT then trap_store_page_fault g a b i
        else if which t = CAUSE_LOAD_ACCESS then trap_store_access_fault g a b i
        else if which t = CAUSE_LOAD_GUEST_PAGE_FAULT then trap_store_guest_page_fault a b i
        else t)"

definition convert_load_traps_to_store_traps :: "('d hart, 'a) M \<Rightarrow> ('d hart, 'a) M" where
  "convert_load_traps_to_store_traps body s =
    (case body s of (Inl (Trap t), s) \<Rightarrow> (Inl (Trap (store_trap_of t)), s) | r \<Rightarrow> r)"

definition amo :: "'d mmu_env \<Rightarrow> ctx \<Rightarrow> nat \<Rightarrow> u64 \<Rightarrow> (u64 \<Rightarrow> u64) \<Rightarrow> ('d hart, u64) M" where
  "amo e c len addr f = convert_load_traps_to_store_traps
    (thenM (store_slow_path e c addr len [] no_flags False True)
      (bindM (mmu_load e c len addr no_flags) (\<lambda>lhs.
        thenM (mmu_store e c len addr (f lhs) no_flags) (returnM lhs))))"

definition ssamoswap :: "'d mmu_env \<Rightarrow> ctx \<Rightarrow> nat \<Rightarrow> u64 \<Rightarrow> u64 \<Rightarrow> ('d hart, u64) M" where
  "ssamoswap e c len addr v =
    (let flags = no_flags\<lparr>ss_access := True\<rparr>
     in thenM (store_slow_path e c addr len [] flags False True)
       (bindM (mmu_load e c len addr flags) (\<lambda>data.
         thenM (mmu_store e c len addr v flags) (returnM data))))"

definition amo_compare_and_swap :: "'d mmu_env \<Rightarrow> ctx \<Rightarrow> nat \<Rightarrow> u64 \<Rightarrow> u64 \<Rightarrow> u64 \<Rightarrow> ('d hart, u64) M" where
  "amo_compare_and_swap e c len addr old new = convert_load_traps_to_store_traps
    (thenM (store_slow_path e c addr len [] no_flags False True)
      (bindM (mmu_load e c len addr no_flags) (\<lambda>lhs.
        thenM (if lhs = old then mmu_store e c len addr new no_flags else returnM ()) (returnM lhs))))"

definition block_base :: "'d mmu_env \<Rightarrow> u64 \<Rightarrow> u64" where
  "block_base e addr = addr AND NOT (of_nat (blocksz e) - 1)"

fun cbo_zero_loop :: "'d mmu_env \<Rightarrow> ctx \<Rightarrow> u64 \<Rightarrow> nat list \<Rightarrow> u64 \<Rightarrow> ('d hart, unit) M" where
  "cbo_zero_loop e c base [] tval = returnM ()"
| "cbo_zero_loop e c base (k # ks) tval =
    thenM (check_triggers e OPERATION_STORE (base + of_nat k) False tval None)
      (thenM (mmu_store e c 1 (base + of_nat k) 0 no_flags) (cbo_zero_loop e c base ks tval))"

definition cbo_zero :: "'d mmu_env \<Rightarrow> ctx \<Rightarrow> u64 \<Rightarrow> ('d hart, unit) M" where
  "cbo_zero e c addr = bindM (generate_access_info c addr STORE no_flags) (\<lambda>a.
    cbo_zero_loop e c (block_base e (transformed_vaddr a)) [0..<blocksz e] (transformed_vaddr a))"

fun block_triggers :: "'d mmu_env \<Rightarrow> u64 \<Rightarrow> nat list \<Rightarrow> u64 \<Rightarrow> ('d hart, unit) M" where
  "block_triggers e base [] tval = returnM ()"
| "block_triggers e base (k # ks) tval =
    thenM (check_triggers e OPERATION_STORE (base + of_nat k) False tval None) (block_triggers e base ks tval)"

definition mmu_clean_inval :: "'d mmu_env \<Rightarrow> ctx \<Rightarrow> u64 \<Rightarrow> bool \<Rightarrow> bool \<Rightarrow> ('d hart, unit) M" where
  "mmu_clean_inval e c addr clean inval =
    bindM (generate_access_info c addr LOAD (no_flags\<lparr>clean_inval := True\<rparr>)) (\<lambda>a.
      let ta = transformed_vaddr a
      in thenM (block_triggers e (block_base e ta) [0..<blocksz e] ta)
        (convert_load_traps_to_store_traps (bindM (translate e c a 1) (\<lambda>paddr s.
          if reservable e paddr (dev s)
          then returnM () (if interested_in_range e paddr (paddr + PGSIZE) LOAD (dev s)
            then s\<lparr>dev := trace_clean_invalidate e paddr (blocksz e) clean inval (dev s)\<rparr> else s)
          else throw_access_exception (virt s) ta STORE s))))"

section \<open>Load-reserved and store-conditional\<close>

definition check_load_reservation :: "'d mmu_env \<Rightarrow> ctx \<Rightarrow> u64 \<Rightarrow> nat \<Rightarrow> ('d hart, bool) M" where
  "check_load_reservation e c va sz =
    thenM (if misaligned va sz then store_slow_path e c va sz [] no_flags False True else returnM ())
      (bindM (generate_access_info c va STORE no_flags) (\<lambda>a.
       bindM (translate e c a 1) (\<lambda>paddr s.
         if reservable e paddr (dev s) then returnM (load_reservation_address s = paddr) s
         else throw_access_exception (virt s) va STORE s)))"

definition store_conditional :: "'d mmu_env \<Rightarrow> ctx \<Rightarrow> nat \<Rightarrow> u64 \<Rightarrow> u64 \<Rightarrow> ('d hart, bool) M" where
  "store_conditional e c len addr v =
    bindM (check_load_reservation e c addr len) (\<lambda>have_reservation.
      thenM (if have_reservation then mmu_store e c len addr v no_flags else returnM ())
        (thenM (modifyM yield_load_reservation) (returnM have_reservation)))"

section \<open>Instruction fetch\<close>

text \<open>Where \<^verbatim>\<open>host_offset\<close> points: into memory, or at \<^verbatim>\<open>fetch_temp\<close>,
  which holds the two bytes of a fetch from a device.\<close>

datatype fetch_entry = Fetch_mem u64 | Fetch_temp "u8 list" u64

fun target_offset :: "fetch_entry \<Rightarrow> u64" where
  "target_offset (Fetch_mem off) = off"
| "target_offset (Fetch_temp bytes off) = off"

fun fetch_half :: "'d mmu_env \<Rightarrow> fetch_entry \<Rightarrow> u64 \<Rightarrow> 'd hart \<Rightarrow> u64" where
  "fetch_half e (Fetch_mem off) addr s = bytes_value (host_read e (off + addr) 2 (dev s))"
| "fetch_half e (Fetch_temp bytes off) addr s = bytes_value bytes"

definition fetch_slow_path :: "'d mmu_env \<Rightarrow> ctx \<Rightarrow> u64 \<Rightarrow> ('d hart, fetch_entry) M" where
  "fetch_slow_path e c va =
    bindM (generate_access_info c va FETCH no_flags) (\<lambda>a.
    thenM (check_triggers e OPERATION_EXECUTE va (effective_virt a) va None)
      (bindM (\<lambda>s. let vpn = vpn_of va; i = tlb_idx vpn
          in if tlb_insn_tag s i \<noteq> vpn OR TLB_CHECK_TRIGGERS
             then bindM (translate e c a 2) (\<lambda>paddr s.
               if addr_to_mem e paddr (dev s)
               then bindM (refill_tlb va paddr FETCH) (\<lambda>off. returnM (Fetch_mem off)) s
               else bindM (or_throw (mmio_fetch e paddr 2) (\<lambda>s. throw_access_exception (virt s) va FETCH s))
                      (\<lambda>bytes. returnM (Fetch_temp bytes (paddr - va))) s) s
             else returnM (Fetch_mem (tlb_data s i)) s)
        (\<lambda>entry s. thenM (check_triggers e OPERATION_EXECUTE va (effective_virt a) va (Some (fetch_half e entry va s)))
          (returnM entry) s)))"

definition translate_insn_addr :: "'d mmu_env \<Rightarrow> ctx \<Rightarrow> u64 \<Rightarrow> ('d hart, fetch_entry) M" where
  "translate_insn_addr e c addr s =
    (let vpn = vpn_of addr
     in if tlb_insn_tag s (tlb_idx vpn) = vpn then returnM (Fetch_mem (tlb_data s (tlb_idx vpn))) s
        else fetch_slow_path e c addr s)"

text \<open>The parcels of an instruction after the first.\<close>

fun fetch_parcels :: "'d mmu_env \<Rightarrow> ctx \<Rightarrow> u64 \<Rightarrow> nat list \<Rightarrow> u64 \<Rightarrow> ('d hart, u64) M" where
  "fetch_parcels e c addr [] insn = returnM insn"
| "fetch_parcels e c addr (k # ks) insn =
    bindM (translate_insn_addr e c (addr + of_nat k)) (\<lambda>entry s.
      fetch_parcels e c addr ks (insn OR push_bit (8 * k) (fetch_half e entry (addr + of_nat k) s)) s)"

definition PC_ALIGN :: u64 where "PC_ALIGN = 2"
definition ICACHE_ENTRIES :: u64 where "ICACHE_ENTRIES = 1024"
definition icache_index :: "u64 \<Rightarrow> nat" where "icache_index addr = unat ((addr div PC_ALIGN) mod ICACHE_ENTRIES)"

text \<open>What a refill reads: the instruction, and whether a tracer looked at the fetch, which
  leaves the entry without a tag.\<close>

definition fetch_insn :: "'d mmu_env \<Rightarrow> ctx \<Rightarrow> u64 \<Rightarrow> ('d hart, u64 \<times> bool) M" where
  "fetch_insn e c addr s =
    (case matched_trigger s of
       Some t \<Rightarrow> throwM (TriggerMatched t) s
     | None \<Rightarrow>
        bindM (translate_insn_addr e c addr) (\<lambda>entry s.
          let insn = fetch_half e entry addr s; len = insn_length insn
          in bindM (fetch_parcels e c addr
                (if len = 4 then [2] else if len = 2 then [] else if len = 6 then [2, 4] else [2, 4, 6]) insn) (\<lambda>insn s.
               let paddr = target_offset entry + addr
               in if interested_in_range e paddr (paddr + 1) FETCH (dev s)
                  then returnM (insn, True) (s\<lparr>dev := trace_access e paddr len FETCH (dev s)\<rparr>)
                  else returnM (insn, False) s) s) s)"

definition refill_icache :: "'d mmu_env \<Rightarrow> ctx \<Rightarrow> u64 \<Rightarrow> ('d hart, u64) M" where
  "refill_icache e c addr = bindM (fetch_insn e c addr) (\<lambda>(insn, traced) s.
    let i = icache_index addr
    in returnM insn (s\<lparr>icache_tag := (icache_tag s)(i := if traced then - 1 else addr),
         icache_insn := (icache_insn s)(i := insn)\<rparr>))"

definition access_icache :: "'d mmu_env \<Rightarrow> ctx \<Rightarrow> u64 \<Rightarrow> ('d hart, u64) M" where
  "access_icache e c addr s =
    (if icache_tag s (icache_index addr) = addr then returnM (icache_insn s (icache_index addr)) s
     else refill_icache e c addr s)"

definition load_insn :: "'d mmu_env \<Rightarrow> ctx \<Rightarrow> u64 \<Rightarrow> ('d hart, u64) M" where
  "load_insn e c addr = bindM (fetch_insn e c addr) (\<lambda>(insn, traced). returnM insn)"

text \<open>A table in device memory would be read past the two bytes of \<^verbatim>\<open>fetch_temp\<close>:
  that outcome is \<open>None\<close>.\<close>

definition fetch_jump_table :: "'d mmu_env \<Rightarrow> ctx \<Rightarrow> nat \<Rightarrow> u64 \<Rightarrow> ('d hart, u64 option) M" where
  "fetch_jump_table e c len addr = bindM (translate_insn_addr e c addr) (\<lambda>entry s.
    returnM (case entry of
        Fetch_mem off \<Rightarrow> Some (from_target e (host_read e (off + addr) len (dev s)))
      | Fetch_temp bytes off \<Rightarrow> None) s)"

end
