(* ===== verification/Plic.thy ===== *)
theory Plic
  imports Devices
begin

text \<open>
  The platform-level interrupt controller (\<^verbatim>\<open>riscv/plic.cc\<close>, class \<^verbatim>\<open>plic_t\<close> of
  \<^verbatim>\<open>riscv/devices.h\<close>). The ports of the harts, whose pending registers the
  controller drives, are passed along with its state. The arrays of 32-bit words have 32 entries and those of bytes 1024,
  so the number of interrupt identifiers is at most 1024.
\<close>

definition PLIC_MAX_DEVICES :: nat where "PLIC_MAX_DEVICES = 1024"
definition PLIC_PRIO_BITS :: nat where "PLIC_PRIO_BITS = 4"

record plic_context_t =
  hartid :: nat
  mmode :: bool
  priority_threshold :: u8
  enable :: "nat \<Rightarrow> u32"
  pending :: "nat \<Rightarrow> u32"
  pending_priority :: "nat \<Rightarrow> u8"
  claimed :: "nat \<Rightarrow> u32"

record plic_t =
  contexts :: "plic_context_t list"
  num_ids :: nat
  num_ids_word :: nat
  max_prio :: u32
  priority :: "nat \<Rightarrow> u8"
  level :: "nat \<Rightarrow> u32"

definition context_new :: "nat \<Rightarrow> bool \<Rightarrow> plic_context_t" where
  "context_new h m = \<lparr>hartid = h, mmode = m, priority_threshold = 0, enable = (\<lambda>_. 0), pending = (\<lambda>_. 0),
     pending_priority = (\<lambda>_. 0), claimed = (\<lambda>_. 0)\<rparr>"

text \<open>The harts in order, each with whether it has supervisor mode.\<close>

definition plic_new :: "(nat \<times> bool) list \<Rightarrow> nat \<Rightarrow> plic_t" where
  "plic_new harts ndev =
    \<lparr>contexts = concat (map (\<lambda>(h, s). context_new h True # (if s then [context_new h False] else [])) harts),
     num_ids = ndev + 1, num_ids_word = (ndev + 1 + (32 - 1)) div 32,
     max_prio = push_bit PLIC_PRIO_BITS 1 - 1, priority = (\<lambda>_. 0), level = (\<lambda>_. 0)\<rparr>"

definition id_bit :: "nat \<Rightarrow> u32" where
  "id_bit j = push_bit j 1"

section \<open>Selection\<close>

definition best_step :: "plic_t \<Rightarrow> plic_context_t \<Rightarrow> nat \<Rightarrow> nat \<Rightarrow> nat \<times> u8 \<Rightarrow> nat \<times> u8" where
  "best_step p c i j best =
    (let irq = i * 32 + j
     in if num_ids p \<le> irq \<or> pending c i AND id_bit j = 0 \<or> claimed c i AND id_bit j \<noteq> 0 then best
        else if fst best = 0 \<or> snd best < pending_priority c irq then (irq, pending_priority c irq)
        else best)"

definition best_word :: "plic_t \<Rightarrow> plic_context_t \<Rightarrow> nat \<Rightarrow> nat \<times> u8 \<Rightarrow> nat \<times> u8" where
  "best_word p c i best = (if pending c i = 0 then best else fold (best_step p c i) [0..<32] best)"

definition context_best_pending :: "plic_t \<Rightarrow> plic_context_t \<Rightarrow> nat" where
  "context_best_pending p c =
    (let (best_id, best_id_prio) = fold (best_word p c) [0..<num_ids_word p] (0, 0)
     in if best_id_prio \<le> priority_threshold c then 0 else best_id)"

definition context_update :: "plic_t \<Rightarrow> nat \<Rightarrow> ports \<Rightarrow> ports" where
  "context_update p k hs =
    (let c = contexts p ! k; best_id = context_best_pending p c;
         mask = (if mmode c then PORT_MEIP else PORT_SEIP);
         val = (if best_id \<noteq> 0 then mask else 0)
     in hs(hartid c := port_backdoor_write mask val (hs (hartid c))))"

definition set_context :: "nat \<Rightarrow> plic_context_t \<Rightarrow> plic_t \<Rightarrow> plic_t" where
  "set_context k c p = p\<lparr>contexts := (contexts p)[k := c]\<rparr>"

definition context_claim :: "nat \<Rightarrow> plic_t \<times> ports \<Rightarrow> nat \<times> plic_t \<times> ports" where
  "context_claim k pm =
    (let (p, hs) = pm; c = contexts p ! k; best_id = context_best_pending p c;
         p = (if best_id \<noteq> 0
              then set_context k (c\<lparr>claimed := (claimed c)(best_id div 32 := claimed c (best_id div 32) OR id_bit (best_id mod 32))\<rparr>) p
              else p)
     in (best_id, p, context_update p k hs))"

section \<open>Registers\<close>

definition priority_read :: "u64 \<Rightarrow> plic_t \<Rightarrow> u32" where
  "priority_read offset p =
    (let irq = unat (drop_bit 2 offset) in if 0 < irq \<and> irq < num_ids p then ucast (priority p irq) else 0)"

definition priority_write :: "u64 \<Rightarrow> u32 \<Rightarrow> plic_t \<Rightarrow> plic_t" where
  "priority_write offset val p =
    (let irq = unat (drop_bit 2 offset)
     in if 0 < irq \<and> irq < num_ids p
        then p\<lparr>priority := (priority p)(irq := ucast (val AND (push_bit PLIC_PRIO_BITS 1 - 1)))\<rparr> else p)"

definition pending_read :: "u64 \<Rightarrow> plic_t \<Rightarrow> u32" where
  "pending_read offset p =
    (let id_word = unat (drop_bit 2 offset)
     in if id_word < num_ids_word p then fold (\<lambda>c val. val OR pending c id_word) (contexts p) 0 else 0)"

definition context_enable_read :: "plic_context_t \<Rightarrow> u64 \<Rightarrow> plic_t \<Rightarrow> u32" where
  "context_enable_read c offset p =
    (let id_word = unat (drop_bit 2 offset) in if id_word < num_ids_word p then enable c id_word else 0)"

definition enable_step :: "plic_t \<Rightarrow> nat \<Rightarrow> u32 \<Rightarrow> u32 \<Rightarrow> nat \<Rightarrow> plic_context_t \<Rightarrow> plic_context_t" where
  "enable_step p id_word new_val xor_val i c =
    (let irq = id_word * 32 + i; id_mask = id_bit i; id_prio = priority p irq
     in if xor_val AND id_mask = 0 then c
        else if new_val AND id_mask \<noteq> 0 \<and> level p id_word AND id_mask \<noteq> 0
        then c\<lparr>pending := (pending c)(id_word := pending c id_word OR id_mask),
               pending_priority := (pending_priority c)(irq := id_prio)\<rparr>
        else if new_val AND id_mask = 0
        then c\<lparr>pending := (pending c)(id_word := pending c id_word AND NOT id_mask),
               pending_priority := (pending_priority c)(irq := 0),
               claimed := (claimed c)(id_word := claimed c id_word AND NOT id_mask)\<rparr>
        else c)"

definition context_enable_write :: "nat \<Rightarrow> u64 \<Rightarrow> u32 \<Rightarrow> plic_t \<times> ports \<Rightarrow> plic_t \<times> ports" where
  "context_enable_write k offset val pm =
    (let (p, hs) = pm; c = contexts p ! k; id_word = unat (drop_bit 2 offset)
     in if id_word \<ge> num_ids_word p then (p, hs)
        else let old_val = enable c id_word;
                 new_val = (if id_word = 0 then val AND NOT 1 else val);
                 xor_val = old_val XOR new_val;
                 c = c\<lparr>enable := (enable c)(id_word := new_val)\<rparr>;
                 c = fold (enable_step p id_word new_val xor_val) [0..<32] c;
                 p = set_context k c p
             in (p, context_update p k hs))"

abbreviation (input) CONTEXT_THRESHOLD :: u64 where "CONTEXT_THRESHOLD \<equiv> 0"
abbreviation (input) CONTEXT_CLAIM :: u64 where "CONTEXT_CLAIM \<equiv> 4"

text \<open>The value is zero where the code leaves \<^verbatim>\<open>*val\<close> alone.\<close>

definition context_read :: "nat \<Rightarrow> u64 \<Rightarrow> plic_t \<times> ports \<Rightarrow> u32 \<times> plic_t \<times> ports" where
  "context_read k offset pm =
    (if offset = CONTEXT_THRESHOLD then (ucast (priority_threshold (contexts (fst pm) ! k)), pm)
     else if offset = CONTEXT_CLAIM then (let (irq, pm) = context_claim k pm in (of_nat irq, pm))
     else (0, pm))"

definition context_write :: "nat \<Rightarrow> u64 \<Rightarrow> u32 \<Rightarrow> plic_t \<times> ports \<Rightarrow> unit outcome \<times> plic_t \<times> ports" where
  "context_write k offset val pm =
    (let (p, hs) = pm; c = contexts p ! k
     in if offset = CONTEXT_THRESHOLD
        then (let val = val AND (push_bit PLIC_PRIO_BITS 1 - 1)
              in if val \<le> max_prio p
                 then let p = set_context k (c\<lparr>priority_threshold := ucast val\<rparr>) p in (Done (), p, context_update p k hs)
                 else (Refused, p, hs))
        else if offset = CONTEXT_CLAIM
        then (let id_word = unat val div 32; id_mask = id_bit (unat val mod 32)
              in if unat val < num_ids p \<and> enable c id_word AND id_mask \<noteq> 0
                 then let p = set_context k (c\<lparr>claimed := (claimed c)(id_word := claimed c id_word AND NOT id_mask)\<rparr>) p
                      in (Done (), p, context_update p k hs)
                 else (Done (), p, hs))
        else (Refused, p, hs))"

section \<open>Interrupt lines\<close>

text \<open>The loop over the contexts ends at the first one that has the source enabled.\<close>

fun first_enabled :: "nat \<Rightarrow> u32 \<Rightarrow> plic_context_t list \<Rightarrow> nat \<Rightarrow> nat option" where
  "first_enabled id_word id_mask [] i = None"
| "first_enabled id_word id_mask (c # cs) i =
    (if enable c id_word AND id_mask \<noteq> 0 then Some i else first_enabled id_word id_mask cs (i + 1))"

definition set_level_context :: "nat \<Rightarrow> bool \<Rightarrow> u8 \<Rightarrow> plic_context_t \<Rightarrow> plic_context_t" where
  "set_level_context irq lvl id_prio c =
    (let id_word = irq div 32; id_mask = id_bit (irq mod 32)
     in if lvl
        then c\<lparr>pending := (pending c)(id_word := pending c id_word OR id_mask),
               pending_priority := (pending_priority c)(irq := id_prio)\<rparr>
        else c\<lparr>pending := (pending c)(id_word := pending c id_word AND NOT id_mask),
               pending_priority := (pending_priority c)(irq := 0),
               claimed := (claimed c)(id_word := claimed c id_word AND NOT id_mask)\<rparr>)"

definition set_interrupt_level :: "nat \<Rightarrow> bool \<Rightarrow> plic_t \<times> ports \<Rightarrow> plic_t \<times> ports" where
  "set_interrupt_level irq lvl pm =
    (let (p, hs) = pm
     in if irq = 0 \<or> num_ids p \<le> irq then (p, hs)
        else let id_prio = priority p irq; id_word = irq div 32; id_mask = id_bit (irq mod 32);
                 p = p\<lparr>level := (level p)(id_word := (if lvl then level p id_word OR id_mask else level p id_word AND NOT id_mask))\<rparr>
             in case first_enabled id_word id_mask (contexts p) 0 of
                  None \<Rightarrow> (p, hs)
                | Some k \<Rightarrow> let p = set_context k (set_level_context irq lvl id_prio (contexts p ! k)) p
                           in (p, context_update p k hs))"

section \<open>Bus transfers\<close>

abbreviation (input) PRIORITY_BASE :: u64 where "PRIORITY_BASE \<equiv> 0"
abbreviation (input) PENDING_BASE :: u64 where "PENDING_BASE \<equiv> 0x1000"
abbreviation (input) ENABLE_BASE :: u64 where "ENABLE_BASE \<equiv> 0x2000"
abbreviation (input) ENABLE_PER_HART :: u64 where "ENABLE_PER_HART \<equiv> 0x80"
abbreviation (input) CONTEXT_BASE :: u64 where "CONTEXT_BASE \<equiv> 0x200000"
abbreviation (input) CONTEXT_PER_HART :: u64 where "CONTEXT_PER_HART \<equiv> 0x1000"
abbreviation (input) REG_SIZE :: u64 where "REG_SIZE \<equiv> 0x1000000"

text \<open>A word transfer: the outcome, the value, and the offset at which the value is read out.\<close>

definition plic_load_word :: "u64 \<Rightarrow> plic_t \<times> ports \<Rightarrow> (bool \<times> u32 \<times> u64) \<times> plic_t \<times> ports" where
  "plic_load_word addr pm =
    (let p = fst pm
     in if addr < PENDING_BASE then ((True, priority_read addr p, addr), pm)
        else if addr < ENABLE_BASE then ((True, pending_read (addr - PENDING_BASE) p, addr), pm)
        else if addr < CONTEXT_BASE
        then (let cntx = unat ((addr - ENABLE_BASE) div ENABLE_PER_HART);
                  addr = addr - (of_nat cntx * ENABLE_PER_HART + ENABLE_BASE)
              in if cntx < length (contexts p) then ((True, context_enable_read (contexts p ! cntx) addr p, addr), pm)
                 else ((False, 0, addr), pm))
        else if addr < REG_SIZE
        then (let cntx = unat ((addr - CONTEXT_BASE) div CONTEXT_PER_HART);
                  addr = addr - (of_nat cntx * CONTEXT_PER_HART + CONTEXT_BASE)
              in if cntx < length (contexts p) then (let (val, pm) = context_read cntx addr pm in ((True, val, addr), pm))
                 else ((False, 0, addr), pm))
        else ((False, 0, addr), pm))"

definition plic_load4 :: "u64 \<Rightarrow> plic_t \<times> ports \<Rightarrow> u8 list outcome \<times> plic_t \<times> ports" where
  "plic_load4 addr pm =
    (let ((ret, val, addr), pm) = plic_load_word addr pm
     in (if ret then read_little_endian_reg val addr 4 else Refused, pm))"

definition plic_load :: "u64 \<Rightarrow> nat \<Rightarrow> plic_t \<times> ports \<Rightarrow> u8 list outcome \<times> plic_t \<times> ports" where
  "plic_load addr len pm =
    (if len = 4 then plic_load4 addr pm
     else if len = 8
     then (case plic_load4 addr pm of
             (Done lo, pm) \<Rightarrow> (case plic_load4 (addr + 4) pm of
                 (Done hi, pm) \<Rightarrow> (Done (lo @ hi), pm)
               | (_, pm) \<Rightarrow> (Refused, pm))
           | (_, pm) \<Rightarrow> (Refused, pm))
     else (Refused, pm))"

definition plic_store_word :: "u64 \<Rightarrow> u32 \<Rightarrow> plic_t \<times> ports \<Rightarrow> unit outcome \<times> plic_t \<times> ports" where
  "plic_store_word addr val pm =
    (let p = fst pm
     in if addr < ENABLE_BASE then (Done (), priority_write addr val p, snd pm)
        else if addr < CONTEXT_BASE
        then (let cntx = unat ((addr - ENABLE_BASE) div ENABLE_PER_HART);
                  addr = addr - (of_nat cntx * ENABLE_PER_HART + ENABLE_BASE)
              in if cntx < length (contexts p) then (Done (), context_enable_write cntx addr val pm) else (Refused, pm))
        else if addr < REG_SIZE
        then (let cntx = unat ((addr - CONTEXT_BASE) div CONTEXT_PER_HART);
                  addr = addr - (of_nat cntx * CONTEXT_PER_HART + CONTEXT_BASE)
              in if cntx < length (contexts p) then context_write cntx addr val pm else (Refused, pm))
        else (Refused, pm))"

definition plic_store4 :: "u64 \<Rightarrow> u8 list \<Rightarrow> plic_t \<times> ports \<Rightarrow> unit outcome \<times> plic_t \<times> ports" where
  "plic_store4 addr bytes pm =
    (case write_little_endian_reg (0 :: u32) addr bytes of
       Done val \<Rightarrow> plic_store_word addr val pm
     | _ \<Rightarrow> (Aborted, pm))"

definition plic_store :: "u64 \<Rightarrow> u8 list \<Rightarrow> plic_t \<times> ports \<Rightarrow> unit outcome \<times> plic_t \<times> ports" where
  "plic_store addr bytes pm =
    (if length bytes = 4 then plic_store4 addr bytes pm
     else if length bytes = 8
     then (case plic_store4 addr (take 4 bytes) pm of
             (Done _, pm) \<Rightarrow> plic_store4 (addr + 4) (drop 4 bytes) pm
           | r \<Rightarrow> r)
     else (Refused, pm))"

end
