(* ===== verification/Clint.thy ===== *)
theory Clint
  imports Devices
begin

text \<open>
  The core-local interruptor (\<^verbatim>\<open>riscv/clint.cc\<close>, class \<^verbatim>\<open>clint_t\<close> of
  \<^verbatim>\<open>riscv/devices.h\<close>). The harts are the keys of \<^verbatim>\<open>get_harts()\<close> in order;
  \<^verbatim>\<open>mtimecmp\<close> is zero where the map has no entry. The time of day, which the
  code asks the host for, is an argument: seconds and microseconds.
\<close>

definition CLINT_SIZE :: u64 where "CLINT_SIZE = 0x000c0000"

abbreviation (input) MSIP_BASE :: u64 where "MSIP_BASE \<equiv> 0"
abbreviation (input) MTIMECMP_BASE :: u64 where "MTIMECMP_BASE \<equiv> 0x4000"
abbreviation (input) MTIME_BASE :: u64 where "MTIME_BASE \<equiv> 0xbff8"

record clint_t =
  clint_harts :: "nat list"
  freq_hz :: u64
  real_time :: bool
  real_time_ref_secs :: u64
  real_time_ref_usecs :: u64
  mtime :: u64
  mtimecmp :: "nat \<Rightarrow> u64"

type_synonym timeval = "u64 \<times> u64"

definition clint_tick :: "timeval \<Rightarrow> u64 \<Rightarrow> clint_t \<times> ports \<Rightarrow> clint_t \<times> ports" where
  "clint_tick now rtc_ticks cp =
    (let (c, hs) = cp;
         diff_usecs = (fst now - real_time_ref_secs c) * 1000000 + (snd now - real_time_ref_usecs c);
         c = c\<lparr>mtime := (if real_time c then diff_usecs * freq_hz c div 1000000 else mtime c + rtc_ticks)\<rparr>
     in (c, fold (\<lambda>h hs. hs(h := port_backdoor_write PORT_MTIP (if mtime c \<ge> mtimecmp c h then PORT_MTIP else 0)
                                   (time_sync (mtime c) (hs h)))) (clint_harts c) hs))"

definition clint_new :: "nat list \<Rightarrow> u64 \<Rightarrow> bool \<Rightarrow> timeval \<Rightarrow> timeval \<Rightarrow> ports \<Rightarrow> clint_t \<times> ports" where
  "clint_new harts freq rt base now hs =
    clint_tick now 0 (\<lparr>clint_harts = harts, freq_hz = freq, real_time = rt, real_time_ref_secs = fst base,
      real_time_ref_usecs = snd base, mtime = 0, mtimecmp = (\<lambda>_. 0)\<rparr>, hs)"

text \<open>The value of \<^verbatim>\<open>msip\<close> of a hart, and a transfer of at most four bytes of it.\<close>

definition msip_load :: "u64 \<Rightarrow> nat \<Rightarrow> clint_t \<times> ports \<Rightarrow> u8 list outcome" where
  "msip_load addr len cp =
    (let hart_id = unat ((addr - MSIP_BASE) div 4);
         res = of_bool (hart_id \<in> set (clint_harts (fst cp)) \<and> port_mip (snd cp hart_id) AND PORT_MSIP \<noteq> 0)
     in read_little_endian_reg (res :: u32) addr len)"

text \<open>A transfer of other than eight bytes.\<close>

definition clint_load1 :: "timeval \<Rightarrow> u64 \<Rightarrow> nat \<Rightarrow> clint_t \<times> ports \<Rightarrow> u8 list outcome \<times> clint_t \<times> ports" where
  "clint_load1 now addr len cp =
    (let cp = clint_tick now 0 cp; c = fst cp
     in if addr < MTIMECMP_BASE then (msip_load addr len cp, cp)
        else if addr < MTIME_BASE
        then (let hart_id = unat ((addr - MTIMECMP_BASE) div 8);
                  res = (if hart_id \<in> set (clint_harts c) then mtimecmp c hart_id else 0)
              in (read_little_endian_reg res addr len, cp))
        else if addr < MTIME_BASE + 8 then (read_little_endian_reg (mtime c) addr len, cp)
        else if addr + of_nat len \<le> CLINT_SIZE then (Done (replicate len 0), cp)
        else (Refused, cp))"

definition clint_load :: "timeval \<Rightarrow> u64 \<Rightarrow> nat \<Rightarrow> clint_t \<times> ports \<Rightarrow> u8 list outcome \<times> clint_t \<times> ports" where
  "clint_load now addr len cp =
    (if len > 8 then (Refused, cp)
     else if len = 8 \<and> addr < MTIMECMP_BASE
     then (case clint_load1 now addr 4 (clint_tick now 0 cp) of
             (Done lo, cp) \<Rightarrow> (case clint_load1 now (addr + 4) 4 cp of
                 (Done hi, cp) \<Rightarrow> (Done (lo @ hi), cp)
               | r \<Rightarrow> r)
           | r \<Rightarrow> r)
     else clint_load1 now addr len cp)"

definition msip_store :: "u64 \<Rightarrow> u8 list \<Rightarrow> clint_t \<times> ports \<Rightarrow> unit outcome \<times> clint_t \<times> ports" where
  "msip_store addr bytes cp =
    (if addr mod 4 = 0
     then (case write_little_endian_reg (0 :: u32) addr bytes of
             Done msip \<Rightarrow>
               (let hart_id = unat ((addr - MSIP_BASE) div 4); (c, hs) = cp
                in (Done (), c, if hart_id \<in> set (clint_harts c)
                      then hs(hart_id := port_backdoor_write PORT_MSIP (if msip AND 1 \<noteq> 0 then PORT_MSIP else 0) (hs hart_id))
                      else hs))
           | _ \<Rightarrow> (Aborted, cp))
     else (Done (), cp))"

text \<open>A store to one of the two kinds of 64-bit registers.\<close>

definition timer_store :: "u64 \<Rightarrow> u8 list \<Rightarrow> clint_t \<Rightarrow> clint_t outcome" where
  "timer_store addr bytes c =
    (if addr < MTIME_BASE
     then (let hart_id = unat ((addr - MTIMECMP_BASE) div 8)
           in if hart_id \<in> set (clint_harts c)
              then (case write_little_endian_reg (mtimecmp c hart_id) addr bytes of
                      Done v \<Rightarrow> Done (c\<lparr>mtimecmp := (mtimecmp c)(hart_id := v)\<rparr>) | _ \<Rightarrow> Aborted)
              else Done c)
     else if addr < MTIME_BASE + 8
     then (case write_little_endian_reg (mtime c) addr bytes of Done v \<Rightarrow> Done (c\<lparr>mtime := v\<rparr>) | _ \<Rightarrow> Aborted)
     else if addr + of_nat (length bytes) \<le> CLINT_SIZE then Done c
     else Refused)"

definition clint_store1 :: "timeval \<Rightarrow> u64 \<Rightarrow> u8 list \<Rightarrow> clint_t \<times> ports \<Rightarrow> unit outcome \<times> clint_t \<times> ports" where
  "clint_store1 now addr bytes cp =
    (if addr < MTIMECMP_BASE
     then (case msip_store addr bytes cp of (Done _, cp) \<Rightarrow> (Done (), clint_tick now 0 cp) | r \<Rightarrow> r)
     else (case timer_store addr bytes (fst cp) of
             Done c \<Rightarrow> (Done (), clint_tick now 0 (c, snd cp))
           | Refused \<Rightarrow> (Refused, cp)
           | Aborted \<Rightarrow> (Aborted, cp)))"

definition clint_store :: "timeval \<Rightarrow> u64 \<Rightarrow> u8 list \<Rightarrow> clint_t \<times> ports \<Rightarrow> unit outcome \<times> clint_t \<times> ports" where
  "clint_store now addr bytes cp =
    (if length bytes > 8 then (Refused, cp)
     else if length bytes = 8 \<and> addr < MTIMECMP_BASE
     then (case clint_store1 now addr (take 4 bytes) cp of
             (Done _, cp) \<Rightarrow> clint_store1 now (addr + 4) (drop 4 bytes) cp
           | r \<Rightarrow> r)
     else clint_store1 now addr bytes cp)"

end
