(* ===== verification/Uart.thy ===== *)
theory Uart
  imports Devices
begin

text \<open>
  The serial port (\<^verbatim>\<open>riscv/ns16550.cc\<close>, class \<^verbatim>\<open>ns16550_t\<close> of
  \<^verbatim>\<open>riscv/devices.h\<close>). What it sends to the terminal and the levels it
  sets on its interrupt line are outputs: the bytes written and the sequence of levels. The byte
  that \<^verbatim>\<open>canonical_terminal_t::read\<close> returns, or \<open>None\<close> for a negative result, is an
  argument of the tick.
\<close>

definition UART_QUEUE_SIZE :: nat where "UART_QUEUE_SIZE = 64"
definition MAX_BACKOFF :: nat where "MAX_BACKOFF = 16"

abbreviation (input) UART_IER_THRI :: u8 where "UART_IER_THRI \<equiv> 0x02"
abbreviation (input) UART_IER_RDI :: u8 where "UART_IER_RDI \<equiv> 0x01"
abbreviation (input) UART_IIR_NO_INT :: u8 where "UART_IIR_NO_INT \<equiv> 0x01"
abbreviation (input) UART_IIR_THRI :: u8 where "UART_IIR_THRI \<equiv> 0x02"
abbreviation (input) UART_IIR_RDI :: u8 where "UART_IIR_RDI \<equiv> 0x04"
abbreviation (input) UART_IIR_TYPE_BITS :: u8 where "UART_IIR_TYPE_BITS \<equiv> 0xc0"
abbreviation (input) UART_FCR_ENABLE_FIFO :: u8 where "UART_FCR_ENABLE_FIFO \<equiv> 0x01"
abbreviation (input) UART_FCR_CLEAR_RCVR :: u8 where "UART_FCR_CLEAR_RCVR \<equiv> 0x02"
abbreviation (input) UART_FCR_CLEAR_XMIT :: u8 where "UART_FCR_CLEAR_XMIT \<equiv> 0x04"
abbreviation (input) UART_LCR_DLAB :: u8 where "UART_LCR_DLAB \<equiv> 0x80"
abbreviation (input) UART_MCR_LOOP :: u8 where "UART_MCR_LOOP \<equiv> 0x10"
abbreviation (input) UART_MCR_OUT2 :: u8 where "UART_MCR_OUT2 \<equiv> 0x08"
abbreviation (input) UART_LSR_TEMT :: u8 where "UART_LSR_TEMT \<equiv> 0x40"
abbreviation (input) UART_LSR_THRE :: u8 where "UART_LSR_THRE \<equiv> 0x20"
abbreviation (input) UART_LSR_BI :: u8 where "UART_LSR_BI \<equiv> 0x10"
abbreviation (input) UART_LSR_DR :: u8 where "UART_LSR_DR \<equiv> 0x01"
abbreviation (input) UART_MSR_DCD :: u8 where "UART_MSR_DCD \<equiv> 0x80"
abbreviation (input) UART_MSR_DSR :: u8 where "UART_MSR_DSR \<equiv> 0x20"
abbreviation (input) UART_MSR_CTS :: u8 where "UART_MSR_CTS \<equiv> 0x10"

record ns16550_t =
  interrupt_id :: nat
  reg_shift :: nat
  reg_io_width :: nat
  rx_queue :: "u8 list"
  dll :: u8
  dlm :: u8
  iir :: u8
  ier :: u8
  fcr :: u8
  lcr :: u8
  mcr :: u8
  lsr :: u8
  msr :: u8
  scr :: u8
  backoff_counter :: nat
  tx_bytes :: "u8 list"
  irq_levels :: "bool list"

text \<open>The constructor leaves \<^verbatim>\<open>dlm\<close> uninitialised; its value is an argument.\<close>

definition ns16550_new :: "nat \<Rightarrow> nat \<Rightarrow> nat \<Rightarrow> u8 \<Rightarrow> ns16550_t" where
  "ns16550_new irq shift width dlm0 =
    \<lparr>interrupt_id = irq, reg_shift = shift, reg_io_width = width, rx_queue = [], dll = 0x0C, dlm = dlm0,
     iir = UART_IIR_NO_INT, ier = 0, fcr = 0, lcr = 0, mcr = UART_MCR_OUT2, lsr = UART_LSR_TEMT OR UART_LSR_THRE,
     msr = UART_MSR_DCD OR UART_MSR_DSR OR UART_MSR_CTS, scr = 0, backoff_counter = 0, tx_bytes = [], irq_levels = []\<rparr>"

definition set_line :: "bool \<Rightarrow> ns16550_t \<Rightarrow> ns16550_t" where
  "set_line lvl u = u\<lparr>irq_levels := irq_levels u @ [lvl]\<rparr>"

definition clear_rx :: "ns16550_t \<Rightarrow> ns16550_t" where
  "clear_rx u =
    (if lcr u AND UART_FCR_CLEAR_RCVR \<noteq> 0
     then u\<lparr>lcr := lcr u AND NOT UART_FCR_CLEAR_RCVR, rx_queue := [], lsr := lsr u AND NOT UART_LSR_DR\<rparr> else u)"

definition clear_tx :: "ns16550_t \<Rightarrow> ns16550_t" where
  "clear_tx u =
    (if lcr u AND UART_FCR_CLEAR_XMIT \<noteq> 0
     then u\<lparr>lcr := lcr u AND NOT UART_FCR_CLEAR_XMIT, lsr := lsr u OR (UART_LSR_TEMT OR UART_LSR_THRE)\<rparr> else u)"

definition interrupt_causes :: "ns16550_t \<Rightarrow> u8" where
  "interrupt_causes u =
    (if ier u AND UART_IER_RDI \<noteq> 0 \<and> lsr u AND UART_LSR_DR \<noteq> 0 then UART_IIR_RDI else 0) OR
    (if ier u AND UART_IER_THRI \<noteq> 0 \<and> lsr u AND UART_LSR_TEMT \<noteq> 0 then UART_IIR_THRI else 0)"

definition update_interrupt :: "ns16550_t \<Rightarrow> ns16550_t" where
  "update_interrupt u =
    (let u = clear_tx (clear_rx u); interrupts = interrupt_causes u;
         u = (if interrupts = 0 then set_line False (u\<lparr>iir := UART_IIR_NO_INT\<rparr>) else set_line True (u\<lparr>iir := interrupts\<rparr>))
     in if ier u AND UART_IER_THRI = 0 then u\<lparr>lsr := lsr u OR (UART_LSR_TEMT OR UART_LSR_THRE)\<rparr> else u)"

definition rx_byte :: "ns16550_t \<Rightarrow> u8 \<times> ns16550_t" where
  "rx_byte u =
    (case rx_queue u of
       [] \<Rightarrow> (0, u\<lparr>lsr := lsr u AND NOT UART_LSR_DR\<rparr>)
     | b # bs \<Rightarrow>
         if lsr u AND UART_LSR_BI \<noteq> 0 then (0, u\<lparr>lsr := lsr u AND NOT UART_LSR_BI\<rparr>)
         else (b, u\<lparr>rx_queue := bs, lsr := (if bs = [] then lsr u AND NOT UART_LSR_DR else lsr u)\<rparr>))"

definition tx_byte :: "u8 \<Rightarrow> ns16550_t \<Rightarrow> ns16550_t" where
  "tx_byte v u = u\<lparr>lsr := lsr u OR (UART_LSR_TEMT OR UART_LSR_THRE), tx_bytes := tx_bytes u @ [v]\<rparr>"

text \<open>The register that an address selects, or \<open>None\<close> for a transfer that is refused at once.\<close>

definition uart_reg :: "u64 \<Rightarrow> nat \<Rightarrow> ns16550_t \<Rightarrow> nat option" where
  "uart_reg addr len u =
    (if reg_io_width u \<noteq> len then None
     else if addr + of_nat len > of_nat DEV_PGSIZE then None
     else Some (unat (drop_bit (reg_shift u) addr AND 7)))"

definition uart_load :: "u64 \<Rightarrow> nat \<Rightarrow> ns16550_t \<Rightarrow> u8 outcome \<times> ns16550_t" where
  "uart_load addr len u =
    (let dlab = (lcr u AND UART_LCR_DLAB \<noteq> 0)
     in case uart_reg addr len u of
          None \<Rightarrow> (Refused, u)
        | Some r \<Rightarrow>
            if r = 0 then (let (v, u) = (if dlab then (dll u, u) else rx_byte u) in (Done v, update_interrupt u))
            else if r = 1 then (Done (if dlab then dlm u else ier u), u)
            else if r = 2 then (Done (iir u OR UART_IIR_TYPE_BITS), u)
            else if r = 3 then (Done (lcr u), u)
            else if r = 4 then (Done (mcr u), u)
            else if r = 5 then (Done (lsr u), u)
            else if r = 6 then (Done (msr u), u)
            else if r = 7 then (Done (scr u), u)
            else (Refused, u))"

definition uart_transmit :: "u8 \<Rightarrow> ns16550_t \<Rightarrow> ns16550_t" where
  "uart_transmit v u =
    (if lcr u AND UART_LCR_DLAB \<noteq> 0 then u\<lparr>dll := v\<rparr>
     else if mcr u AND UART_MCR_LOOP \<noteq> 0
     then (if length (rx_queue u) < UART_QUEUE_SIZE then u\<lparr>rx_queue := rx_queue u @ [v], lsr := lsr u OR UART_LSR_DR\<rparr> else u)
     else tx_byte v u)"

definition uart_store :: "u64 \<Rightarrow> u8 list \<Rightarrow> ns16550_t \<Rightarrow> unit outcome \<times> ns16550_t" where
  "uart_store addr bytes u =
    (let v = bytes ! 0
     in case uart_reg addr (length bytes) u of
          None \<Rightarrow> (Refused, u)
        | Some r \<Rightarrow>
            if r = 0 then (Done (), update_interrupt (uart_transmit v u))
            else if r = 1
            then (Done (), update_interrupt (if lcr u AND UART_LCR_DLAB = 0 then u\<lparr>ier := v AND 0x0f\<rparr> else u\<lparr>dlm := v\<rparr>))
            else if r = 2 then (Done (), update_interrupt (u\<lparr>fcr := v\<rparr>))
            else if r = 3 then (Done (), update_interrupt (u\<lparr>lcr := v\<rparr>))
            else if r = 4 then (Done (), update_interrupt (u\<lparr>mcr := v\<rparr>))
            else if r = 5 then (Done (), u)
            else if r = 6 then (Done (), u)
            else if r = 7 then (Done (), u\<lparr>scr := v\<rparr>)
            else (Refused, u))"

definition uart_tick :: "u8 option \<Rightarrow> ns16550_t \<Rightarrow> ns16550_t" where
  "uart_tick rc u =
    (if fcr u AND UART_FCR_ENABLE_FIFO = 0 \<or> mcr u AND UART_MCR_LOOP \<noteq> 0 \<or> UART_QUEUE_SIZE \<le> length (rx_queue u) then u
     else if backoff_counter u > 0 \<and> backoff_counter u < MAX_BACKOFF then u\<lparr>backoff_counter := backoff_counter u + 1\<rparr>
     else case rc of
            None \<Rightarrow> u\<lparr>backoff_counter := 1\<rparr>
          | Some b \<Rightarrow> update_interrupt (u\<lparr>backoff_counter := 0, rx_queue := rx_queue u @ [b], lsr := lsr u OR UART_LSR_DR\<rparr>))"

end
