(* ===== verification/Sim.thy ===== *)
theory Sim
  imports MemAccess Plic Clint Uart
begin

text \<open>
  The simulator behind the harts, \<^verbatim>\<open>sim_t\<close> (\<^verbatim>\<open>riscv/sim.cc\<close>): the bus with
  its devices, the port of a hart into it, the boot ROM, and the loop that advances the harts. The
  devices are the state \<open>dev\<close> of a hart. The debug module, devices of plugins, triggers and
  memory tracers are not modelled; \<open>other_io\<close> holds the functions that stand for them.
\<close>

section \<open>The devices\<close>

datatype device_id = On_mem nat | On_clint | On_plic | On_uart | On_rom | On_other nat

record 'x board =
  bus_map :: "device_id bus"
  mems :: "nat \<Rightarrow> mem_t"
  clint_dev :: clint_t
  plic_dev :: plic_t
  uart_dev :: ns16550_t
  rom_data :: "u8 list"
  hart_ports :: ports
  time_of_day :: timeval
  other_state :: 'x

record 'x other_io =
  other_load :: "nat \<Rightarrow> u64 \<Rightarrow> nat \<Rightarrow> 'x \<Rightarrow> u8 list outcome \<times> 'x"
  other_store :: "nat \<Rightarrow> u64 \<Rightarrow> u8 list \<Rightarrow> 'x \<Rightarrow> unit outcome \<times> 'x"
  other_tick :: "nat \<Rightarrow> u64 \<Rightarrow> 'x \<Rightarrow> 'x"
  other_detect :: "trigger_operation_t \<Rightarrow> u64 \<Rightarrow> u64 option \<Rightarrow> 'x board hart \<Rightarrow> (trigger_timing_t \<times> trigger_action_t) option \<times> 'x"
  other_interested :: "u64 \<Rightarrow> u64 \<Rightarrow> access_type \<Rightarrow> 'x \<Rightarrow> bool"
  other_trace :: "u64 \<Rightarrow> nat \<Rightarrow> access_type \<Rightarrow> 'x \<Rightarrow> 'x"
  other_clean :: "u64 \<Rightarrow> nat \<Rightarrow> bool \<Rightarrow> bool \<Rightarrow> 'x \<Rightarrow> 'x"

text \<open>The calls of \<^verbatim>\<open>set_interrupt_level\<close> that the UART made are passed on to the
  interrupt controller.\<close>

definition deliver_irq :: "'x board \<Rightarrow> 'x board" where
  "deliver_irq b =
    (let u = uart_dev b;
         (p, hs) = fold (\<lambda>lvl. set_interrupt_level (interrupt_id u) lvl) (irq_levels u) (plic_dev b, hart_ports b)
     in b\<lparr>uart_dev := u\<lparr>irq_levels := []\<rparr>, plic_dev := p, hart_ports := hs\<rparr>)"

definition on_mem :: "nat \<Rightarrow> (mem_t \<Rightarrow> 'a \<times> mem_t) \<Rightarrow> 'x board \<Rightarrow> 'a \<times> 'x board" where
  "on_mem k f b = (let (r, m) = f (mems b k) in (r, b\<lparr>mems := (mems b)(k := m)\<rparr>))"

definition on_clint :: "(clint_t \<times> ports \<Rightarrow> 'a \<times> clint_t \<times> ports) \<Rightarrow> 'x board \<Rightarrow> 'a \<times> 'x board" where
  "on_clint f b = (let (r, d, hs) = f (clint_dev b, hart_ports b) in (r, b\<lparr>clint_dev := d, hart_ports := hs\<rparr>))"

definition on_plic :: "(plic_t \<times> ports \<Rightarrow> 'a \<times> plic_t \<times> ports) \<Rightarrow> 'x board \<Rightarrow> 'a \<times> 'x board" where
  "on_plic f b = (let (r, d, hs) = f (plic_dev b, hart_ports b) in (r, b\<lparr>plic_dev := d, hart_ports := hs\<rparr>))"

definition on_uart :: "(ns16550_t \<Rightarrow> 'a \<times> ns16550_t) \<Rightarrow> 'x board \<Rightarrow> 'a \<times> 'x board" where
  "on_uart f b = (let (r, u) = f (uart_dev b) in (r, deliver_irq (b\<lparr>uart_dev := u\<rparr>)))"

definition on_other :: "('x \<Rightarrow> 'a \<times> 'x) \<Rightarrow> 'x board \<Rightarrow> 'a \<times> 'x board" where
  "on_other f b = (let (r, x) = f (other_state b) in (r, b\<lparr>other_state := x\<rparr>))"

fun map_outcome :: "('a \<Rightarrow> 'b) \<Rightarrow> 'a outcome \<Rightarrow> 'b outcome" where
  "map_outcome f (Done x) = Done (f x)"
| "map_outcome f Refused = Refused"
| "map_outcome f Aborted = Aborted"

text \<open>The virtual functions of the devices.\<close>

fun device_load :: "'x other_io \<Rightarrow> device_id \<Rightarrow> u64 \<Rightarrow> nat \<Rightarrow> 'x board \<Rightarrow> u8 list outcome \<times> 'x board" where
  "device_load io (On_mem k) addr len b = on_mem k (mem_load addr len) b"
| "device_load io On_clint addr len b = on_clint (clint_load (time_of_day b) addr len) b"
| "device_load io On_plic addr len b = on_plic (plic_load addr len) b"
| "device_load io On_uart addr len b =
    on_uart (\<lambda>u. let (r, u) = uart_load addr len u in (map_outcome (\<lambda>v. [v]) r, u)) b"
| "device_load io On_rom addr len b = (rom_load addr len (rom_data b), b)"
| "device_load io (On_other k) addr len b = on_other (other_load io k addr len) b"

fun device_store :: "'x other_io \<Rightarrow> device_id \<Rightarrow> u64 \<Rightarrow> u8 list \<Rightarrow> 'x board \<Rightarrow> unit outcome \<times> 'x board" where
  "device_store io (On_mem k) addr bytes b = on_mem k (mem_store addr bytes) b"
| "device_store io On_clint addr bytes b = on_clint (clint_store (time_of_day b) addr bytes) b"
| "device_store io On_plic addr bytes b = on_plic (plic_store addr bytes) b"
| "device_store io On_uart addr bytes b = on_uart (uart_store addr bytes) b"
| "device_store io On_rom addr bytes b = (rom_store addr bytes (rom_data b), b)"
| "device_store io (On_other k) addr bytes b = on_other (other_store io k addr bytes) b"

section \<open>Transfers\<close>

definition sim_load :: "'x other_io \<Rightarrow> u64 \<Rightarrow> nat \<Rightarrow> 'x board \<Rightarrow> u8 list outcome \<times> 'x board" where
  "sim_load io paddr len b =
    (if paddr + of_nat len < paddr then (Refused, b) else bus_load (device_load io) (bus_map b) paddr len b)"

definition sim_store :: "'x other_io \<Rightarrow> u64 \<Rightarrow> u8 list \<Rightarrow> 'x board \<Rightarrow> unit outcome \<times> 'x board" where
  "sim_store io paddr bytes b =
    (if paddr + of_nat (length bytes) < paddr then (Refused, b)
     else bus_store (device_store io) (bus_map b) paddr bytes b)"

text \<open>The memory that holds an address and the offset in it; a host pointer exists if there is
  one.\<close>

definition mem_at :: "u64 \<Rightarrow> 'x board \<Rightarrow> (nat \<times> u64) option" where
  "mem_at paddr b =
    (case find_device paddr (bus_map b) of
       Some (base, On_mem k) \<Rightarrow> if paddr - base < mem_sz (mems b k) then Some (k, paddr - base) else None
     | _ \<Rightarrow> None)"

definition sim_addr_to_mem :: "u64 \<Rightarrow> 'x board \<Rightarrow> bool" where
  "sim_addr_to_mem paddr b \<longleftrightarrow> mem_at paddr b \<noteq> None"

text \<open>What is read and written through the pointer, which is one into the page of the address.\<close>

definition sim_host_read :: "u64 \<Rightarrow> nat \<Rightarrow> 'x board \<Rightarrow> u8 list" where
  "sim_host_read paddr len b =
    (case mem_at paddr b of
       None \<Rightarrow> replicate len 0
     | Some (k, a) \<Rightarrow> let p = fst (mem_page (page_ppn a) (mems b k)) in map (\<lambda>j. p (page_off a + j)) [0..<len])"

definition sim_host_write :: "u64 \<Rightarrow> u8 list \<Rightarrow> 'x board \<Rightarrow> 'x board" where
  "sim_host_write paddr bytes b =
    (case mem_at paddr b of
       None \<Rightarrow> b
     | Some (k, a) \<Rightarrow>
         let (p, m) = mem_page (page_ppn a) (mems b k);
             p = page_write (page_off a) bytes p
         in b\<lparr>mems := (mems b)(k := m\<lparr>sparse_memory_map := (sparse_memory_map m)(page_ppn a \<mapsto> p)\<rparr>)\<rparr>)"

section \<open>The port of a hart\<close>

text \<open>The devices see the registers of the hart, and set its pending interrupts.\<close>

definition to_board :: "nat \<Rightarrow> 'x board hart \<Rightarrow> 'x board" where
  "to_board h s =
    (let b = dev s; q = hart_ports b h
     in b\<lparr>hart_ports := (hart_ports b)(h := q\<lparr>port_mip := mip_val s, port_menvcfg := menvcfg_val s,
           port_henvcfg := henvcfg_read s\<rparr>)\<rparr>)"

definition from_board :: "nat \<Rightarrow> 'x board \<Rightarrow> 'x board hart \<Rightarrow> 'x board hart" where
  "from_board h b s = s\<lparr>dev := b, mip_val := port_mip (hart_ports b h)\<rparr>"

definition hart_mmio_load :: "'x other_io \<Rightarrow> nat \<Rightarrow> u64 \<Rightarrow> nat \<Rightarrow> 'x board hart \<Rightarrow> u8 list outcome \<times> 'x board hart" where
  "hart_mmio_load io h paddr len s = (let (r, b) = sim_load io paddr len (to_board h s) in (r, from_board h b s))"

definition hart_mmio_store :: "'x other_io \<Rightarrow> nat \<Rightarrow> u64 \<Rightarrow> u8 list \<Rightarrow> 'x board hart \<Rightarrow> unit outcome \<times> 'x board hart" where
  "hart_mmio_store io h paddr bytes s = (let (r, b) = sim_store io paddr bytes (to_board h s) in (r, from_board h b s))"

text \<open>The configuration of a hart that its MMU reads.\<close>

record mmu_cfg =
  cfg_misaligned :: bool
  cfg_big_endian :: bool
  cfg_blocksz :: nat

definition sim_env :: "'x other_io \<Rightarrow> mmu_cfg \<Rightarrow> nat \<Rightarrow> 'x board mmu_env" where
  "sim_env io cfg h =
    \<lparr>addr_to_mem = sim_addr_to_mem, host_read = sim_host_read, host_write = sim_host_write,
     reservable = sim_addr_to_mem, sim_mmio_fetch = hart_mmio_load io h,
     sim_mmio_load = hart_mmio_load io h, sim_mmio_store = hart_mmio_store io h,
     detect_match = (\<lambda>op a d s. let (r, x) = other_detect io op a d s
       in (r, s\<lparr>dev := (dev s)\<lparr>other_state := x\<rparr>\<rparr>)),
     interested_in_range = (\<lambda>p q type b. other_interested io p q type (other_state b)),
     trace_access = (\<lambda>p n type b. b\<lparr>other_state := other_trace io p n type (other_state b)\<rparr>),
     trace_clean_invalidate = (\<lambda>p n cl inv b. b\<lparr>other_state := other_clean io p n cl inv (other_state b)\<rparr>),
     is_misaligned_enabled = cfg_misaligned cfg, target_big_endian = cfg_big_endian cfg,
     blocksz = cfg_blocksz cfg\<rparr>"

section \<open>Boot ROM\<close>

definition DEFAULT_RSTVEC :: u64 where "DEFAULT_RSTVEC = 0x1000"
definition reset_vec_size :: nat where "reset_vec_size = 8"

definition reset_vec :: "nat \<Rightarrow> u64 \<Rightarrow> u32 list" where
  "reset_vec xl start_pc =
    [0x297, 0x28593 + push_bit 20 (of_nat (reset_vec_size * 4)), 0xf1402573,
     (if xl = 32 then 0x0182a283 else 0x0182b283), 0x28067, 0,
     ucast (start_pc AND 0xffffffff), ucast (drop_bit 32 start_pc)]"

text \<open>The words of the vector in the byte order of the target: instructions are always little
  endian, and a big-endian machine of 64 bits has the halves of the address exchanged.\<close>

fun swap_last :: "'a list \<Rightarrow> 'a list" where
  "swap_last [x, y] = [y, x]"
| "swap_last (x # xs) = x # swap_last xs"
| "swap_last [] = []"

definition word_le :: "u32 \<Rightarrow> u8 list" where "word_le w = value_bytes 4 (ucast w)"

definition reset_bytes :: "bool \<Rightarrow> nat \<Rightarrow> u64 \<Rightarrow> u8 list" where
  "reset_bytes big xl start_pc =
    (let v = reset_vec xl start_pc
     in if big
        then (let code = takeWhile (\<lambda>w. w \<noteq> 0) v; data = dropWhile (\<lambda>w. w \<noteq> 0) v;
                  bytes = map word_le code @ map (\<lambda>w. rev (word_le w)) data
              in concat (if xl \<noteq> 32 then swap_last bytes else bytes))
        else concat (map word_le v))"

definition rom_image :: "bool \<Rightarrow> nat \<Rightarrow> u64 \<Rightarrow> u8 list \<Rightarrow> u8 list" where
  "rom_image big xl start_pc dtb =
    (let rom = reset_bytes big xl start_pc @ dtb; al = 0x1000;
         sz = (length rom + al - 1) div al * al
     in rom @ replicate (sz - length rom) 0)"

definition set_rom :: "bool \<Rightarrow> nat \<Rightarrow> u64 \<Rightarrow> u8 list \<Rightarrow> 'x board \<Rightarrow> 'x board" where
  "set_rom big xl start_pc dtb b =
    b\<lparr>rom_data := rom_image big xl start_pc dtb, bus_map := add_device DEFAULT_RSTVEC On_rom (bus_map b)\<rparr>"

section \<open>Time\<close>

text \<open>The ticks of the devices, in the order in which they were registered; a character that the
  terminal delivers is an argument.\<close>

fun device_tick :: "'x other_io \<Rightarrow> u8 option \<Rightarrow> u64 \<Rightarrow> device_id \<Rightarrow> 'x board \<Rightarrow> 'x board" where
  "device_tick io ch ticks (On_mem k) b = b"
| "device_tick io ch ticks On_clint b = snd (on_clint (\<lambda>p. ((), clint_tick (time_of_day b) ticks p)) b)"
| "device_tick io ch ticks On_plic b = b"
| "device_tick io ch ticks On_uart b = snd (on_uart (\<lambda>u. ((), uart_tick ch u)) b)"
| "device_tick io ch ticks On_rom b = b"
| "device_tick io ch ticks (On_other k) b = snd (on_other (\<lambda>x. ((), other_tick io k ticks x)) b)"

definition INTERLEAVE :: nat where "INTERLEAVE = 5000"
definition INSNS_PER_RTC_TICK :: nat where "INSNS_PER_RTC_TICK = 100"

definition rtc_ticks :: "nat \<Rightarrow> nat" where
  "rtc_ticks n = max INTERLEAVE n div INSNS_PER_RTC_TICK"

section \<open>The loop over the harts\<close>

text \<open>How one step of a hart ends: normally, or with one of the two exceptions of the NPU
  instructions. Each has the state of the simulator after it.\<close>

datatype 's step_end = Stepped 's | Npu_exit 's | Npu_barrier 's

record 's sim_ops =
  op_step :: "nat \<Rightarrow> 's \<Rightarrow> 's step_end"
  op_suspended :: "nat \<Rightarrow> 's \<Rightarrow> bool"
  op_suspend :: "nat \<Rightarrow> 's \<Rightarrow> 's"
  op_yield :: "nat \<Rightarrow> 's \<Rightarrow> 's"
  op_skip :: "nat \<Rightarrow> 's \<Rightarrow> 's"
  op_tick :: "nat \<Rightarrow> 's \<Rightarrow> 's"

definition advance_hart :: "'s sim_ops \<Rightarrow> nat \<Rightarrow> 's \<Rightarrow> 's" where
  "advance_hart o' j s =
    (if op_suspended o' j s then s
     else case op_step o' j s of
       Stepped s \<Rightarrow> op_yield o' j s
     | Npu_exit s \<Rightarrow> op_skip o' j (op_suspend o' j s)
     | Npu_barrier s \<Rightarrow> op_suspend o' j s)"

text \<open>The two loops of \<^verbatim>\<open>sim_t::step\<close>, with the counters as the code has them. They take fuel, one
  unit for each round of either loop. A run that has used it up is \<open>Running\<close>, with the state that it has reached; one
  that has left the loop is \<open>Ended\<close>, with what follows it (for the inner loop, the fuel that is left too).\<close>

datatype ('r, 's) loop_run = Ended 'r | Running 's

fun hart_loop :: "'s sim_ops \<Rightarrow> nat \<Rightarrow> nat \<Rightarrow> u64 \<Rightarrow> nat \<Rightarrow> 's \<Rightarrow> (nat \<times> u64 \<times> 's, 's) loop_run" where
  "hart_loop o' nprocs fuel i j s =
    (if j < nprocs
     then (case fuel of 0 \<Rightarrow> Running s | Suc fuel \<Rightarrow> hart_loop o' nprocs fuel (i + 1) j (advance_hart o' j s))
     else Ended (fuel, i, s))"

declare hart_loop.simps [simp del]

fun insn_loop :: "'s sim_ops \<Rightarrow> nat \<Rightarrow> nat \<Rightarrow> u64 \<Rightarrow> u64 \<Rightarrow> 's \<Rightarrow> ('s, 's) loop_run" where
  "insn_loop o' nprocs 0 n i s = (if i < n then Running s else Ended s)"
| "insn_loop o' nprocs (Suc fuel) n i s =
    (if i < n
     then (case hart_loop o' nprocs fuel i 0 s of
             Running s \<Rightarrow> Running s
           | Ended (left, i, s) \<Rightarrow> insn_loop o' nprocs (min fuel left) n (i + 1) s)
     else Ended s)"

definition sim_step :: "'s sim_ops \<Rightarrow> nat \<Rightarrow> nat \<Rightarrow> u64 \<Rightarrow> 's \<Rightarrow> ('s, 's) loop_run" where
  "sim_step o' nprocs fuel n s =
    (case insn_loop o' nprocs fuel n 0 s of
       Running s \<Rightarrow> Running s
     | Ended s \<Rightarrow> Ended (op_tick o' (rtc_ticks (unat n)) s))"

end
