(* ===== verification/MmuFacts.thy ===== *)
theory MmuFacts
  imports MemAccess
begin

text \<open>
  Properties of the MMU. The first section is a small program logic for the outcomes of
  \<open>Hart\<close>: \<open>post P E r\<close> says that the state of the outcome \<open>r\<close> satisfies \<open>P\<close>,
  whether it ended normally or with an exception, and that an exception satisfies \<open>E\<close>.
\<close>

section \<open>A program logic for outcomes\<close>

definition post :: "('s \<Rightarrow> bool) \<Rightarrow> (exn \<Rightarrow> bool) \<Rightarrow> (exn + 'a) \<times> 's \<Rightarrow> bool" where
  "post P E r \<longleftrightarrow> P (snd r) \<and> (\<forall>x. fst r = Inl x \<longrightarrow> E x)"

named_theorems posts
  \<comment> \<open>the rules of the program logic, applied backwards\<close>

lemma post_return [posts]: "P s \<Longrightarrow> post P E (returnM x s)"
  by (simp add: post_def returnM_def)

lemma post_throw [posts]: "P s \<Longrightarrow> E x \<Longrightarrow> post P E (throwM x s)"
  by (simp add: post_def throwM_def)

lemma post_modify [posts]: "P (f s) \<Longrightarrow> post P E (modifyM f s)"
  by (simp add: post_def modifyM_def)

lemma post_bind [posts]:
  assumes "post P E (m s)" "\<And>x s'. m s = (Inr x, s') \<Longrightarrow> P s' \<Longrightarrow> post P E (f x s')"
  shows "post P E (bindM m f s)"
  using assms by (cases "m s") (auto simp: post_def bindM_def split: sum.splits)

lemma post_then [posts]:
  assumes "post P E (m s)" "\<And>s'. P s' \<Longrightarrow> post P E (n s')"
  shows "post P E (thenM m n s)"
  unfolding thenM_def by (rule post_bind) (use assms in auto)

lemma post_if [posts]:
  "(b \<Longrightarrow> post P E x) \<Longrightarrow> (\<not> b \<Longrightarrow> post P E y) \<Longrightarrow> post P E (if b then x else y)"
  by simp

lemma post_if_at [posts]:
  "(b \<Longrightarrow> post P E (m s)) \<Longrightarrow> (\<not> b \<Longrightarrow> post P E (n s)) \<Longrightarrow> post P E ((if b then m else n) s)"
  by simp

lemma post_option [posts]:
  "(o' = None \<Longrightarrow> post P E x) \<Longrightarrow> (\<And>y. o' = Some y \<Longrightarrow> post P E (f y)) \<Longrightarrow>
    post P E (case o' of None \<Rightarrow> x | Some y \<Rightarrow> f y)"
  by (cases o') simp_all

lemma post_option_at [posts]:
  "(o' = None \<Longrightarrow> post P E (m s)) \<Longrightarrow> (\<And>y. o' = Some y \<Longrightarrow> post P E (f y s)) \<Longrightarrow>
    post P E ((case o' of None \<Rightarrow> m | Some y \<Rightarrow> f y) s)"
  by (cases o') simp_all

lemma post_weaken: "post P E r \<Longrightarrow> (\<And>x. E x \<Longrightarrow> E' x) \<Longrightarrow> post P E' r"
  by (simp add: post_def)

lemma post_pure: "post P E (r, s) \<Longrightarrow> P s"
  by (simp add: post_def)

text \<open>What a normal result satisfies.\<close>

definition gives :: "('a \<Rightarrow> bool) \<Rightarrow> (exn + 'a) \<times> 's \<Rightarrow> bool" where
  "gives Q r \<longleftrightarrow> (\<forall>x. fst r = Inr x \<longrightarrow> Q x)"

named_theorems gave
  \<comment> \<open>the rules for normal results, applied backwards\<close>

lemma gives_return [gave]: "Q x \<Longrightarrow> gives Q (returnM x s)"
  by (simp add: gives_def returnM_def)

lemma gives_throw [gave]: "gives Q (throwM x s)"
  by (simp add: gives_def throwM_def)

lemma gives_bind [gave]: "(\<And>x s'. gives Q (f x s')) \<Longrightarrow> gives Q (bindM m f s)"
  by (cases "m s") (auto simp: gives_def bindM_def split: sum.splits)

lemma gives_then [gave]: "(\<And>s'. gives Q (n s')) \<Longrightarrow> gives Q (thenM m n s)"
  unfolding thenM_def by (rule gives_bind)

lemma gives_if [gave]: "gives Q (m s) \<Longrightarrow> gives Q (n s) \<Longrightarrow> gives Q ((if b then m else n) s)"
  by simp

lemma gives_if_at [gave]: "gives Q x \<Longrightarrow> gives Q y \<Longrightarrow> gives Q (if b then x else y)"
  by simp

lemma gives_option [gave]:
  "gives Q (m s) \<Longrightarrow> (\<And>y. gives Q (f y s)) \<Longrightarrow> gives Q ((case o' of None \<Rightarrow> m | Some y \<Rightarrow> f y) s)"
  by (cases o') simp_all

lemma gives_option_at [gave]:
  "gives Q x \<Longrightarrow> (\<And>y. gives Q (f y)) \<Longrightarrow> gives Q (case o' of None \<Rightarrow> x | Some y \<Rightarrow> f y)"
  by (cases o') simp_all

lemma gives_throws [gave]:
  "gives Q (throw_access_exception v a t s)"
  "gives Q (throw_page_fault v a t s)"
  "gives Q (throw_guest_page_fault a a' i t s)"
  by (simp_all add: throw_access_exception_def throw_page_fault_def throw_guest_page_fault_def gives_throw)

lemma givesD: "m s = (Inr x, s') \<Longrightarrow> gives Q (m s) \<Longrightarrow> Q x"
  by (simp add: gives_def)

section \<open>Page offsets\<close>

definition page_offset :: "u64 \<Rightarrow> u64" where "page_offset a = take_bit PGSHIFT a"

lemma page_offset_page_of: "page_offset (page_of p) = 0"
proof -
  have "bit (page_offset (page_of p)) n = bit (0::u64) n" for n
    by (auto simp: page_offset_def page_of_def low_mask_def PGSHIFT_def bit_simps mask_eq_exp_minus_1 [symmetric]
        push_bit_eq_mult simp del: mask_eq_exp_minus_1)
  then show ?thesis by (simp add: bit_eq_iff)
qed

lemma walk_loop_page: "gives (\<lambda>p. page_offset p = 0) (walk_loop e c a t vm i b s)"
proof (induction i arbitrary: b s)
  case (Suc i)
  show ?case unfolding walk_loop.simps Let_def
    apply (rule gives_bind, rule gives_bind)
    apply (split pte_verdict.split)
    by (intro conjI impI gave Suc.IH | rule page_offset_page_of)+
qed (simp add: gave)

lemma walk_page: "gives (\<lambda>p. page_offset p = 0) (walk e c a s)"
  unfolding walk_def Let_def by (intro gave walk_loop_page page_offset_page_of)

lemma page_offset_or: "page_offset (a OR b) = page_offset a OR page_offset b"
  by (simp add: page_offset_def)

lemma page_offset_and_size: "page_offset (a AND (PGSIZE - 1)) = page_offset a"
proof -
  have "PGSIZE - 1 = mask 12" by (simp add: PGSIZE_def mask_eq_exp_minus_1)
  then show ?thesis by (simp add: page_offset_def PGSHIFT_def take_bit_eq_mask and.assoc)
qed

lemma unat_page_offset_add: "unat (page_offset (a + k)) = (unat (page_offset a) + unat k) mod 4096"
  by (simp add: page_offset_def PGSHIFT_def unsigned_take_bit_eq unat_word_ariths take_bit_eq_mod mod_mod_cancel mod_simps)

lemma page_offset_add: "page_offset a = page_offset b \<Longrightarrow> page_offset (a + k) = page_offset (b + k)"
  unfolding word_unat_eq_iff unat_page_offset_add by simp

lemma page_offset_minus: "page_offset a = page_offset b \<Longrightarrow> page_offset (a - b) = 0"
  using page_offset_add [of a b "- b"] by (simp add: page_offset_def)

lemma translate_offset: "gives (\<lambda>p. page_offset p = page_offset (transformed_vaddr a)) (translate e c a n s)"
proof -
  obtain r s1 where 1: "walk e c a s = (r, s1)" by (rule prod.exhaust)
  have "r = Inr page \<Longrightarrow> page_offset page = 0" for page
    using walk_page [of e c a s] 1 by (simp add: gives_def)
  then show ?thesis
    by (auto simp: translate_def bindM_def 1 Let_def gives_def returnM_def throwM_def throw_access_exception_def
        page_offset_or page_offset_and_size split: sum.splits)
qed

lemma page_offset_extend:
  assumes "12 \<le> k" "k \<le> 64"
  shows "page_offset (zext a k) = page_offset a" "page_offset (sext a k) = page_offset a"
  by (rule bit_eqI; use assms in \<open>auto simp: page_offset_def PGSHIFT_def zext_def sext_def bit_simps min_def\<close>)+

lemma get_pmlen_bound: "get_pmlen c v m f s = Some k \<Longrightarrow> k \<le> 16 \<and> (xlen c \<noteq> 64 \<longrightarrow> k = 0)"
  by (auto simp: get_pmlen_def split: if_splits option.splits)

lemma info_offset:
  assumes "xlen c \<in> {32, 64}"
  shows "gives (\<lambda>i. page_offset (vaddr i) = page_offset (transformed_vaddr i)) (generate_access_info c a t f s)"
proof -
  obtain m v where mv: "effective_mode t f s = (m, v)" by (rule prod.exhaust)
  have "page_offset (zext a (xlen c - k)) = page_offset a \<and> page_offset (sext a (xlen c - k)) = page_offset a"
    if "get_pmlen c v m f s = Some k" for k
    using get_pmlen_bound [OF that] assms by (intro conjI page_offset_extend) auto
  then show ?thesis
    by (auto simp: generate_access_info_def mv gives_def returnM_def throwM_def Let_def split: option.splits)
qed

section \<open>Kinds of faults\<close>

text \<open>The exceptions that report an access of a type: misaligned address, access fault, page fault
  and guest page fault.\<close>

fun fault_codes :: "access_type \<Rightarrow> u64 set" where
  "fault_codes FETCH = {1, 12, 20}"
| "fault_codes LOAD = {4, 5, 13, 21}"
| "fault_codes STORE = {6, 7, 15, 23}"

text \<open>What an access of the given types may raise, besides a matched trigger, which is only possible when the flag
  says that triggers may match.\<close>

fun faults_by :: "bool \<Rightarrow> access_type set \<Rightarrow> exn \<Rightarrow> bool" where
  "faults_by trig T (Trap t) \<longleftrightarrow> (\<exists>type \<in> T. which t \<in> fault_codes type)"
| "faults_by trig T (TriggerMatched m) \<longleftrightarrow> trig"
| "faults_by trig T Abort \<longleftrightarrow> True"
| "faults_by trig T _ \<longleftrightarrow> False"

abbreviation faults :: "access_type set \<Rightarrow> exn \<Rightarrow> bool" where
  "faults \<equiv> faults_by True"

lemmas fault_trap_defs = trap_instruction_access_fault_def trap_load_access_fault_def trap_store_access_fault_def
  trap_instruction_page_fault_def trap_load_page_fault_def trap_store_page_fault_def
  trap_instruction_guest_page_fault_def trap_load_guest_page_fault_def trap_store_guest_page_fault_def
  trap_load_address_misaligned_def trap_store_address_misaligned_def mem_trap_def

lemma post_throws [posts]:
  "P s \<Longrightarrow> type \<in> T \<Longrightarrow> post P (faults_by trig T) (throw_access_exception v a type s)"
  "P s \<Longrightarrow> type \<in> T \<Longrightarrow> post P (faults_by trig T) (throw_page_fault v a type s)"
  "P s \<Longrightarrow> type \<in> T \<Longrightarrow> post P (faults_by trig T) (throw_guest_page_fault a a' i type s)"
  by (cases type; force simp: throw_access_exception_def throw_page_fault_def throw_guest_page_fault_def
      post_def throwM_def fault_trap_defs)+

lemma faults_misaligned [posts]:
  "LOAD \<in> T \<Longrightarrow> faults_by trig T (Trap (trap_load_address_misaligned v a b i))"
  "STORE \<in> T \<Longrightarrow> faults_by trig T (Trap (trap_store_address_misaligned v a b i))"
  unfolding faults_by.simps by (rule bexI; simp add: fault_trap_defs)+

text \<open>The types that the walk of an access may report. In a virtual machine the accesses to the page
  tables count as well.\<close>

definition access_types :: "mem_access_info_t \<Rightarrow> access_type set" where
  "access_types a =
    {acc_type a} \<union> (if ss_access (acc_flags a) \<or> clean_inval (acc_flags a) then {STORE} else {})
    \<union> (if effective_virt a then {LOAD, STORE} else {})"

text \<open>An access whose address is transformed within its page.\<close>

definition same_offset :: "mem_access_info_t \<Rightarrow> bool" where
  "same_offset a \<longleftrightarrow> page_offset (vaddr a) = page_offset (transformed_vaddr a)"

text \<open>The operations on data report loads and stores.\<close>

definition data_types :: "access_type set \<Rightarrow> bool" where "data_types T \<longleftrightarrow> LOAD \<in> T \<and> STORE \<in> T"

lemma data_typesD: "data_types T \<Longrightarrow> LOAD \<in> T" "data_types T \<Longrightarrow> STORE \<in> T"
  by (simp_all add: data_types_def)

section \<open>The contract of the simulator\<close>

text \<open>What the MMU relies on: a transfer, or the detection of a trigger, changes the devices and the
  pending interrupts of the hart, and nothing else of it.\<close>

definition device_frame :: "'d hart \<Rightarrow> 'd hart \<Rightarrow> bool" where
  "device_frame s s' \<longleftrightarrow> s' = s\<lparr>dev := dev s', mip_val := mip_val s'\<rparr>"

locale simif =
  fixes e :: "'d mmu_env"
  assumes fetch_frame: "device_frame s (snd (sim_mmio_fetch e p n s))"
    and load_frame: "device_frame s (snd (sim_mmio_load e p n s))"
    and store_frame: "device_frame s (snd (sim_mmio_store e p bytes s))"
    and detect_frame: "device_frame s (snd (detect_match e op a d s))"

text \<open>A property of the hart that the devices cannot break is kept by a translation.\<close>

locale translation_invariant = simif e for e :: "'d mmu_env" +
  fixes c :: ctx and P :: "'d hart \<Rightarrow> bool"
  assumes P_dev: "P s \<Longrightarrow> P (s\<lparr>dev := d, mip_val := m\<rparr>)"
begin

lemma P_frame: "device_frame s s' \<Longrightarrow> P s \<Longrightarrow> P s'"
  unfolding device_frame_def using P_dev [where s = s and d = "dev s'" and m = "mip_val s'"] by simp

lemma P_dev1: "P s \<Longrightarrow> P (s\<lparr>dev := d\<rparr>)"
  using P_dev [where s = s and d = d and m = "mip_val s"] by simp

lemma P_mmio_load1: "P s \<Longrightarrow> P (snd (mmio_load1 e p n s))"
  unfolding mmio_load1_def using P_frame [OF load_frame] by simp

lemma P_mmio_store1: "P s \<Longrightarrow> P (snd (mmio_store1 e p bytes s))"
  unfolding mmio_store1_def using P_frame [OF store_frame] by simp

lemma P_mmio_fetch: "P s \<Longrightarrow> P (snd (mmio_fetch e p n s))"
  unfolding mmio_fetch_def using P_frame [OF fetch_frame] by simp

lemma P_mmio_load_bytes: "P s \<Longrightarrow> P (snd (mmio_load_bytes e p n s))"
proof (induction n arbitrary: p s)
  case (Suc n)
  obtain r s1 where 1: "mmio_load1 e p 1 s = (r, s1)" by (rule prod.exhaust)
  obtain r2 s2 where 2: "mmio_load_bytes e (p + 1) n s1 = (r2, s2)" by (rule prod.exhaust)
  have "P s1" using P_mmio_load1 [OF Suc.prems, of p 1] 1 by simp
  then have "P s2" using Suc.IH [of s1 "p + 1"] 2 by simp
  with \<open>P s1\<close> show ?case using 1 2 by (simp split: outcome.splits)
qed simp

lemma P_mmio_store_bytes: "P s \<Longrightarrow> P (snd (mmio_store_bytes e p bytes s))"
proof (induction bytes arbitrary: p s)
  case (Cons b bs)
  obtain r s1 where 1: "mmio_store1 e p [b] s = (r, s1)" by (rule prod.exhaust)
  have "P s1" using P_mmio_store1 [OF Cons.prems, of p "[b]"] 1 by simp
  then show ?case using Cons.IH [of s1 "p + 1"] 1 by (simp split: outcome.splits)
qed simp

lemma P_mmio_load: "P s \<Longrightarrow> P (snd (mmio_load e p n s))"
  unfolding mmio_load_def using P_mmio_load1 P_mmio_load_bytes by simp

lemma P_mmio_store: "P s \<Longrightarrow> P (snd (mmio_store e p bytes s))"
  unfolding mmio_store_def using P_mmio_store1 P_mmio_store_bytes by simp

lemma post_or_throw [posts]:
  "P (snd (f s)) \<Longrightarrow> (\<And>s'. P s' \<Longrightarrow> post P (faults_by trig T) (g s')) \<Longrightarrow> post P (faults_by trig T) (or_throw f g s)"
  by (cases "f s") (auto simp: or_throw_def post_def returnM_def throwM_def split: outcome.splits)

lemma post_host [posts]:
  "P s \<Longrightarrow> post P E (host_load e a n s)"
  "P s \<Longrightarrow> post P E (host_store e a bytes s)"
  by (auto simp: host_load_def host_store_def modifyM_def post_def returnM_def P_dev1)

lemmas P_transfers = P_mmio_load P_mmio_store P_mmio_fetch

lemma post_pte_load [posts]: "P s \<Longrightarrow> t \<in> T \<Longrightarrow> post P (faults_by trig T) (pte_load e p a v t n s)"
  unfolding pte_load_def by (assumption | intro posts P_transfers)+

lemma post_pte_store [posts]: "P s \<Longrightarrow> t \<in> T \<Longrightarrow> post P (faults_by trig T) (pte_store e p x a v t n s)"
  unfolding pte_store_def Let_def by (assumption | intro posts P_transfers)+

lemma post_s2_loop:
  "P s \<Longrightarrow> s2_type q \<in> T \<Longrightarrow> s2_trap_type q \<in> T \<Longrightarrow> post P (faults_by trig T) (s2_loop e c q vm mxr gpa i b s)"
proof (induction i arbitrary: b s)
  case (Suc i)
  show ?case unfolding s2_loop.simps Let_def
    by (rule post_bind, rule post_pte_load, rule Suc.prems, rule Suc.prems, split pte_verdict.split)
      (assumption | rule Suc.prems(2,3) | intro conjI impI posts Suc.IH)+
qed (simp add: posts)

lemma post_s2xlate [posts]:
  "P s \<Longrightarrow> s2_trap_type q \<in> T \<Longrightarrow> (s2_virt q \<Longrightarrow> s2_type q \<in> T) \<Longrightarrow> post P (faults_by trig T) (s2xlate e c q gpa s)"
  unfolding s2xlate_def Let_def by (assumption | intro posts post_s2_loop | simp)+

lemma post_walk_loop:
  assumes "P s" "insert t (access_types a) \<subseteq> T"
  shows "post P (faults_by trig T) (walk_loop e c a t vm i b s)"
  using assms(1)
proof (induction i arbitrary: b s)
  case (Suc i)
  have t: "t \<in> T" and v: "effective_virt a \<Longrightarrow> LOAD \<in> T" "effective_virt a \<Longrightarrow> STORE \<in> T"
    using assms(2) by (auto simp: access_types_def)
  have s: "s1_verdict w (acc_flags a) t n pte = Store_access_fault \<Longrightarrow> STORE \<in> T" for w n pte
    using assms(2) by (auto simp: access_types_def s1_verdict_def table_verdict_def Let_def split: if_splits)
  have f: "s1_verdict w (acc_flags a) t n pte = Fetch_access_fault \<Longrightarrow> FETCH \<in> T" for w n pte
    using t by (auto simp: s1_verdict_def table_verdict_def Let_def split: if_splits)
  show ?case unfolding walk_loop.simps Let_def
    apply (rule post_bind, rule post_s2xlate, rule Suc.prems)
      apply (simp_all add: pt_access_def t v)
    apply (rule post_bind, rule post_pte_load, assumption, rule t)
    apply (split pte_verdict.split)
    by (assumption | rule t | erule s f | intro conjI impI posts Suc.IH | simp add: pt_access_def data_access_def t v)+
qed (use assms in \<open>simp add: posts\<close>)

lemma post_walk [posts]:
  assumes "P s" "access_types a \<subseteq> T"
  shows "post P (faults_by trig T) (walk e c a s)"
proof -
  have t: "(if ss_access (acc_flags a) then STORE else acc_type a) \<in> T" "ss_access (acc_flags a) \<Longrightarrow> STORE \<in> T"
    "effective_virt a \<Longrightarrow> (if ss_access (acc_flags a) then STORE else acc_type a) \<in> T"
    using assms(2) by (auto simp: access_types_def)
  show ?thesis unfolding walk_def Let_def
    by (assumption | rule assms(1) t(1) | erule t(2) | intro posts post_walk_loop | use assms(2) t in \<open>simp add: data_access_def\<close>)+
qed

lemma post_translate [posts]: "P s \<Longrightarrow> access_types a \<subseteq> T \<Longrightarrow> post P (faults_by trig T) (translate e c a n s)"
  unfolding translate_def Let_def by (assumption | intro posts | simp add: access_types_def)+

lemma post_info [posts]: "P s \<Longrightarrow> post P (faults_by trig T) (generate_access_info c a t f s)"
  unfolding generate_access_info_def Let_def by (cases "effective_mode t f s") (simp, intro posts conjI impI | simp)+

end

text \<open>One that a refill of the lookaside buffer and the other records of an access keep too, is kept
  by every access.\<close>

locale access_invariant = translation_invariant e c P for e :: "'d mmu_env" and c P +
  fixes trig :: bool
  assumes xlen: "P s \<Longrightarrow> xlen c \<in> {32, 64}"
    and P_refill: "P s \<Longrightarrow> page_offset va = page_offset pa \<Longrightarrow> P (snd (refill_tlb va pa type s))"
    and P_trigger: "P s \<Longrightarrow> trig \<Longrightarrow> P ((flush_icache s)\<lparr>matched_trigger := Some t\<rparr>)"
    and trig_detect: "P s \<Longrightarrow> fst (detect_match e op a d s) \<noteq> None \<Longrightarrow> trig"
    and trig_pending: "P s \<Longrightarrow> matched_trigger s \<noteq> None \<Longrightarrow> trig"
    and P_reserve: "P s \<Longrightarrow> P (s\<lparr>load_reservation_address := a\<rparr>)"
    and P_icache: "P s \<Longrightarrow> P (s\<lparr>icache_tag := tags, icache_insn := insns\<rparr>)"
begin

lemma info_type: "generate_access_info c a t f s = (Inr i, s') \<Longrightarrow> acc_type i = t \<and> acc_flags i = f"
  by (auto simp: generate_access_info_def returnM_def throwM_def Let_def split: prod.splits option.splits if_splits)

lemma info_types: "generate_access_info c a t f s = (Inr i, s') \<Longrightarrow> {t, LOAD, STORE} \<subseteq> T \<Longrightarrow> access_types i \<subseteq> T"
  using info_type [of a t f s i s'] by (auto simp: access_types_def)

lemma access_types_split [simp]: "access_types (split_misaligned_access k a) = access_types a"
  by (simp add: access_types_def split_misaligned_access_def)

lemma post_check_triggers [posts]: "P s \<Longrightarrow> post P (faults_by trig T) (check_triggers e op a v tv d s)"
proof -
  assume "P s"
  obtain r s1 where 1: "detect_match e op a d s = (r, s1)" by (rule prod.exhaust)
  then have "P s1" using P_frame [OF detect_frame [of s op a d] \<open>P s\<close>] by simp
  then show ?thesis using \<open>P s\<close> 1 P_trigger [OF \<open>P s1\<close>] trig_detect [OF \<open>P s\<close>, of op a d]
    by (auto simp: check_triggers_def post_def returnM_def throwM_def Let_def split: option.splits trigger_timing_t.splits)
qed

lemma post_check_data [posts]: "P s \<Longrightarrow> post P (faults_by trig T) (check_data_triggers e op a v bytes s)"
proof (induction bytes arbitrary: s rule: length_induct)
  case (1 bytes)
  show ?case
    by (subst check_data_triggers.simps) (use 1 in \<open>intro posts | simp\<close>)+
qed

lemma post_refill_tlb [posts]:
  "P s \<Longrightarrow> page_offset va = page_offset pa \<Longrightarrow> post P (faults_by trig T) (refill_tlb va pa t s)"
  using P_refill [of s va pa t]
  by (auto simp: post_def refill_tlb_def returnM_def throwM_def Let_def split: option.splits)

lemma same_offset_info: "generate_access_info c a t f s = (Inr i, s') \<Longrightarrow> P s \<Longrightarrow> same_offset i"
  using info_offset [OF xlen, of s a t f s] unfolding gives_def same_offset_def by force

lemma same_offset_split: "same_offset a \<Longrightarrow> same_offset (split_misaligned_access k a)"
  unfolding same_offset_def split_misaligned_access_def by (simp, erule page_offset_add)

lemma same_offset_translate:
  "translate e c a n s = (Inr p, s') \<Longrightarrow> same_offset a \<Longrightarrow> page_offset (vaddr a) = page_offset p"
  using translate_offset [where e = e and c = c and a = a and n = n and s = s] unfolding gives_def same_offset_def by force

lemma post_load_intrapage [posts]:
  "P s \<Longrightarrow> same_offset a \<Longrightarrow> access_types a \<subseteq> T \<Longrightarrow> LOAD \<in> T \<Longrightarrow> post P (faults_by trig T) (load_slow_path_intrapage e c n a s)"
  unfolding load_slow_path_intrapage_def Let_def
  by (assumption | intro posts P_transfers | erule (1) same_offset_translate | simp add: P_dev1 P_reserve)+

lemma post_load_misaligned [posts]:
  "P s \<Longrightarrow> same_offset a \<Longrightarrow> access_types a \<subseteq> T \<Longrightarrow> LOAD \<in> T \<Longrightarrow> post P (faults_by trig T) (load_misaligned e c n a s)"
  unfolding load_misaligned_def Let_def by (assumption | intro posts | erule same_offset_split | simp)+

lemma info_data_types:
  "generate_access_info c a LOAD f s = (Inr i, s') \<Longrightarrow> data_types T \<Longrightarrow> access_types i \<subseteq> T"
  "generate_access_info c a STORE f s = (Inr i, s') \<Longrightarrow> data_types T \<Longrightarrow> access_types i \<subseteq> T"
  by (erule info_types, simp add: data_types_def)+

lemma post_load_slow_path [posts]: "P s \<Longrightarrow> data_types T \<Longrightarrow> post P (faults_by trig T) (load_slow_path e c a n f s)"
  unfolding load_slow_path_def Let_def
  by (assumption | intro posts | erule (1) same_offset_info info_data_types | erule data_typesD)+

lemma post_mmu_load [posts]: "P s \<Longrightarrow> data_types T \<Longrightarrow> post P (faults_by trig T) (mmu_load e c n a f s)"
  unfolding mmu_load_def Let_def by (assumption | intro posts)+

lemma post_store_intrapage [posts]:
  "P s \<Longrightarrow> same_offset a \<Longrightarrow> access_types a \<subseteq> T \<Longrightarrow> STORE \<in> T \<Longrightarrow> post P (faults_by trig T) (store_slow_path_intrapage e c n b a t s)"
  unfolding store_slow_path_intrapage_def Let_def
  by (assumption | intro posts P_transfers | erule (1) same_offset_translate | simp add: P_dev1)+

lemma post_store_misaligned [posts]:
  "P s \<Longrightarrow> same_offset a \<Longrightarrow> access_types a \<subseteq> T \<Longrightarrow> STORE \<in> T \<Longrightarrow> post P (faults_by trig T) (store_misaligned e c n b a t r s)"
  unfolding store_misaligned_def Let_def by (assumption | intro posts | erule same_offset_split | simp)+

lemma post_store_slow_path [posts]: "P s \<Longrightarrow> data_types T \<Longrightarrow> post P (faults_by trig T) (store_slow_path e c a n b f t r s)"
  unfolding store_slow_path_def Let_def
  by (assumption | intro posts | erule (1) same_offset_info info_data_types | erule data_typesD)+

lemma post_mmu_store [posts]: "P s \<Longrightarrow> data_types T \<Longrightarrow> post P (faults_by trig T) (mmu_store e c n a v f s)"
  unfolding mmu_store_def Let_def by (assumption | intro posts)+

text \<open>Whatever the body may raise, the conversion leaves no fault of a load.\<close>

lemma post_convert [posts]:
  assumes "post P (faults_by trig {LOAD, STORE}) (m s)" "STORE \<in> T"
  shows "post P (faults_by trig T) (convert_load_traps_to_store_traps m s)"
proof -
  have "\<exists>type \<in> T. which (store_trap_of t) \<in> fault_codes type" if "faults_by trig {LOAD, STORE} (Trap t)" for t
    using that by (intro bexI [OF _ assms(2)]) (auto simp: store_trap_of_def Let_def fault_trap_defs)
  with assms(1) show ?thesis
    by (auto simp: convert_load_traps_to_store_traps_def post_def split: prod.splits sum.splits exn.splits)
qed

lemma data_types_all: "data_types {LOAD, STORE}"
  by (simp add: data_types_def)

lemmas data_type_rules = data_types_all data_typesD

lemma post_amo [posts]: "P s \<Longrightarrow> STORE \<in> T \<Longrightarrow> post P (faults_by trig T) (amo e c n a f s)"
  unfolding amo_def by (assumption | intro posts data_types_all)+

lemma post_ssamoswap [posts]: "P s \<Longrightarrow> data_types T \<Longrightarrow> post P (faults_by trig T) (ssamoswap e c n a v s)"
  unfolding ssamoswap_def Let_def by (assumption | intro posts)+

lemma post_compare_and_swap [posts]: "P s \<Longrightarrow> STORE \<in> T \<Longrightarrow> post P (faults_by trig T) (amo_compare_and_swap e c n a v w s)"
  unfolding amo_compare_and_swap_def by (assumption | intro posts data_types_all)+

lemma post_cbo_zero_loop: "P s \<Longrightarrow> data_types T \<Longrightarrow> post P (faults_by trig T) (cbo_zero_loop e c base ks t s)"
  by (induction ks arbitrary: s) (simp_all, (assumption | intro posts | simp)+)

lemma post_cbo_zero [posts]: "P s \<Longrightarrow> data_types T \<Longrightarrow> post P (faults_by trig T) (cbo_zero e c a s)"
  unfolding cbo_zero_def by (assumption | intro posts post_cbo_zero_loop)+

lemma post_block_triggers: "P s \<Longrightarrow> post P (faults_by trig T) (block_triggers e base ks t s)"
  by (induction ks arbitrary: s) (simp_all, (assumption | intro posts | simp)+)

lemma post_clean_inval [posts]: "P s \<Longrightarrow> STORE \<in> T \<Longrightarrow> post P (faults_by trig T) (mmu_clean_inval e c a f i s)"
  unfolding mmu_clean_inval_def Let_def
  by (assumption | intro posts post_block_triggers | erule info_data_types, rule data_types_all | simp add: P_dev1)+

lemma post_check_load_reservation [posts]:
  "P s \<Longrightarrow> data_types T \<Longrightarrow> post P (faults_by trig T) (check_load_reservation e c a n s)"
  unfolding check_load_reservation_def
  by (assumption | intro posts | erule (1) info_data_types | erule data_typesD)+

lemma post_store_conditional [posts]: "P s \<Longrightarrow> data_types T \<Longrightarrow> post P (faults_by trig T) (store_conditional e c n a v s)"
  unfolding store_conditional_def by (assumption | intro posts | simp add: yield_load_reservation_def P_reserve)+

lemma fetch_offset:
  assumes "generate_access_info c va FETCH f s = (Inr i, s1)" "translate e c i n s2 = (Inr p, s3)" "P s"
  shows "page_offset va = page_offset p"
proof -
  have "vaddr i = va" using assms(1) by (auto simp: generate_access_info_def returnM_def Let_def split: prod.splits)
  then show ?thesis using same_offset_translate [OF assms(2) same_offset_info [OF assms(1,3)]] by simp
qed

lemma post_fetch_slow_path [posts]: "P s \<Longrightarrow> post P (faults_by trig UNIV) (fetch_slow_path e c a s)"
  unfolding fetch_slow_path_def Let_def
  by (assumption | intro posts P_transfers | erule (2) fetch_offset | simp)+

lemma post_translate_insn_addr [posts]: "P s \<Longrightarrow> post P (faults_by trig UNIV) (translate_insn_addr e c a s)"
  unfolding translate_insn_addr_def Let_def by (assumption | intro posts)+

lemma post_fetch_parcels [posts]: "P s \<Longrightarrow> post P (faults_by trig UNIV) (fetch_parcels e c a ks i s)"
  by (induction ks arbitrary: s i) (simp_all, (assumption | intro posts | simp)+)

lemma post_fetch_insn [posts]: "P s \<Longrightarrow> post P (faults_by trig UNIV) (fetch_insn e c a s)"
  unfolding fetch_insn_def Let_def
  by (assumption | intro posts | simp add: P_dev1 | erule trig_pending, simp)+

lemma post_access_icache [posts]: "P s \<Longrightarrow> post P (faults_by trig UNIV) (access_icache e c a s)"
  unfolding access_icache_def refill_icache_def Let_def
  by (assumption | intro posts | simp add: P_icache post_return split: prod.splits)+

end

end
