(* ===== verification/WalkFacts.thy ===== *)
theory WalkFacts
  imports MmuFacts
begin

text \<open>
  Facts about the page table walk: which addresses are canonical, which entries an ordinary access may
  use, what physical address a leaf gives, and how a failed update of the second stage is reported.
\<close>

section \<open>Canonical addresses\<close>

lemma low_mask_mask: "low_mask n = mask n"
  by (simp add: low_mask_def mask_eq_exp_minus_1)

lemma bit_sext_min:
  assumes "1 \<le> k" "k \<le> 64" "n < 64"
  shows "bit (sext a k) n \<longleftrightarrow> bit a (min n (k - 1))"
proof (cases "n < k")
  case True
  then have "n \<le> k - 1" using assms by simp
  moreover have "64 - k \<le> 64 + n - k" "64 + n - k < 64" using True assms by auto
  ultimately show ?thesis using assms True by (simp add: sext_def bit_simps min.absorb1)
next
  case False
  then have "min n (k - 1) = k - 1" by simp
  moreover have "64 - k \<le> 63" using assms by simp
  ultimately show ?thesis using assms False by (simp add: sext_def bit_simps)
qed

definition top_equal :: "u64 \<Rightarrow> nat \<Rightarrow> bool" where
  "top_equal a k \<longleftrightarrow> (\<forall>n. k \<le> n \<and> n < 64 \<longrightarrow> bit a n = bit a k)"

lemma sext_id_iff:
  assumes "1 \<le> k" "k \<le> 64"
  shows "sext a k = a \<longleftrightarrow> top_equal a (k - 1)"
proof -
  have lo: "bit (sext a k) n = bit a n" if "n < 64" "n \<le> k - 1" for n
    unfolding bit_sext_min [OF assms that(1)] by (simp only: min.absorb1 [OF that(2)])
  have hi: "bit (sext a k) n = bit a (k - 1)" if "n < 64" "k - 1 \<le> n" for n
    unfolding bit_sext_min [OF assms that(1)] by (simp only: min.absorb2 [OF that(2)])
  have "top_equal a (k - 1)" if "sext a k = a"
    unfolding top_equal_def using hi unfolding that by blast
  moreover have "sext a k = a" if *: "top_equal a (k - 1)"
  proof (rule bit_word_eqI)
    fix n assume n: "n < LENGTH(64)"
    then have n64: "n < 64" by simp
    show "bit (sext a k) n = bit a n"
    proof (cases "n \<le> k - 1")
      case False
      then have "k - 1 \<le> n" by linarith
      then show ?thesis using hi [OF n64] * n64 unfolding top_equal_def by blast
    qed (rule lo [OF n64])
  qed
  ultimately show ?thesis by blast
qed

lemma shifted_eqI:
  "(\<forall>m. k + m < 64 \<longrightarrow> bit a (k + m) = b) \<longleftrightarrow> (\<forall>n. k \<le> n \<and> n < 64 \<longrightarrow> bit a n = b)" for a :: u64
  by (metis le_add1 le_iff_add)

lemma high_bits_equal:
  fixes a :: u64
  assumes "1 \<le> k" "k \<le> 64"
  shows "(drop_bit (k - 1) a AND low_mask (64 - (k - 1)) = 0 \<or>
      drop_bit (k - 1) a AND low_mask (64 - (k - 1)) = low_mask (64 - (k - 1))) \<longleftrightarrow> sext a k = a"
proof -
  define d where "d = drop_bit (k - 1) a AND low_mask (64 - (k - 1))"
  have d: "bit d m \<longleftrightarrow> k - 1 + m < 64 \<and> bit a (k - 1 + m)" for m
    using bit_imp_le_length [of a "k - 1 + m"] by (auto simp: d_def low_mask_mask bit_simps)
  have m: "bit (low_mask (64 - (k - 1))) m \<longleftrightarrow> k - 1 + m < 64" for m
    using assms by (auto simp: low_mask_mask bit_simps)
  have 0: "d = 0 \<longleftrightarrow> (\<forall>n. k - 1 \<le> n \<and> n < 64 \<longrightarrow> bit a n = False)"
    unfolding shifted_eqI [symmetric] bit_eq_iff d by auto
  have 1: "d = low_mask (64 - (k - 1)) \<longleftrightarrow> (\<forall>n. k - 1 \<le> n \<and> n < 64 \<longrightarrow> bit a n = True)"
  proof -
    have "d = low_mask (64 - (k - 1)) \<longleftrightarrow> (\<forall>m. k - 1 + m < 64 \<longrightarrow> bit a (k - 1 + m))"
    proof
      assume "d = low_mask (64 - (k - 1))"
      then show "\<forall>m. k - 1 + m < 64 \<longrightarrow> bit a (k - 1 + m)" using d m by blast
    next
      assume *: "\<forall>m. k - 1 + m < 64 \<longrightarrow> bit a (k - 1 + m)"
      show "d = low_mask (64 - (k - 1))" by (rule bit_word_eqI) (use * d m in blast)
    qed
    then show ?thesis unfolding shifted_eqI [symmetric] by simp
  qed
  have "k - 1 < 64" using assms by simp
  then show ?thesis unfolding d_def [symmetric] 0 1 sext_id_iff [OF assms] top_equal_def
    by (cases "bit a (k - 1)") auto
qed

lemma PTE_TABLE_iff:
  "PTE_TABLE pte \<longleftrightarrow> pte AND PTE_V \<noteq> 0 \<and> pte AND PTE_R = 0 \<and> pte AND PTE_W = 0 \<and> pte AND PTE_X = 0"
proof -
  have b: "pte AND 1 \<noteq> 0 \<longleftrightarrow> bit pte 0" "pte AND 2 \<noteq> 0 \<longleftrightarrow> bit pte 1" "pte AND 4 \<noteq> 0 \<longleftrightarrow> bit pte 2"
    "pte AND 8 \<noteq> 0 \<longleftrightarrow> bit pte 3"
    using bit_iff_and_push_bit_not_eq_0 [of pte 0] bit_iff_and_push_bit_not_eq_0 [of pte 1]
      bit_iff_and_push_bit_not_eq_0 [of pte 2] bit_iff_and_push_bit_not_eq_0 [of pte 3] by simp_all
  have m: "PTE_TABLE pte \<longleftrightarrow> take_bit 4 pte = 1"
    by (simp add: PTE_TABLE_def take_bit_eq_mask mask_eq_exp_minus_1)
  have "take_bit 4 pte = 1 \<longleftrightarrow> (\<forall>n < 4. bit pte n = (n = 0))"
  proof
    assume "take_bit 4 pte = 1"
    then have "bit (take_bit 4 pte) n = bit (1 :: u64) n" for n by simp
    then show "\<forall>n < 4. bit pte n = (n = 0)" by (auto simp: bit_take_bit_iff bit_1_iff)
  next
    assume "\<forall>n < 4. bit pte n = (n = 0)"
    then show "take_bit 4 pte = 1" by (intro bit_word_eqI) (auto simp: bit_take_bit_iff bit_1_iff)
  qed
  also have "\<dots> \<longleftrightarrow> bit pte 0 \<and> \<not> bit pte 1 \<and> \<not> bit pte 2 \<and> \<not> bit pte 3"
    by (auto simp: numeral_eq_Suc All_less_Suc)
  finally show ?thesis using b m by blast
qed

text \<open>C7: an entry is taken as the leaf of an ordinary access exactly if it is valid, not reserved, and maps
  something, its permissions allow the access (execution, reading, or reading of executable pages under
  MXR, or writing; shadow stack pages can be read), it belongs to the mode that makes the access, or SUM
  lets the supervisor read and write it, and a superpage is aligned to its size.\<close>

theorem page_permissions:
  "s1_verdict w no_flags type ptshift pte = Leaf \<longleftrightarrow>
    \<not> pte_reserved (w_svnapot w) (w_pbmte w) pte \<and> pte AND PTE_V \<noteq> 0 \<and>
    (pte AND PTE_R \<noteq> 0 \<or> pte AND PTE_X \<noteq> 0 \<or> pte AND PTE_W \<noteq> 0) \<and>
    (if pte AND PTE_W \<noteq> 0 \<and> pte AND PTE_R = 0 then w_sse w \<and> pte AND PTE_X = 0 \<and> type = LOAD else True) \<and>
    (if pte AND PTE_U = 0 then w_s_mode w else if w_s_mode w then w_sum w \<and> type \<noteq> FETCH else True) \<and>
    (case type of
       FETCH \<Rightarrow> pte AND PTE_X \<noteq> 0
     | LOAD \<Rightarrow> pte AND PTE_R \<noteq> 0 \<or> (w_mxr w \<and> pte AND PTE_X \<noteq> 0) \<or> pte AND PTE_W \<noteq> 0
     | STORE \<Rightarrow> pte AND PTE_W \<noteq> 0) \<and>
    pte_ppn pte AND low_mask ptshift = 0"
proof -
  have f: "ss_access no_flags = False" "clean_inval no_flags = False" "hlvx no_flags = False"
    by (simp_all add: no_flags_def)
  obtain res al tab where r: "res = pte_reserved (w_svnapot w) (w_pbmte w) pte" "al = (pte_ppn pte AND low_mask ptshift = 0)"
    by blast
  obtain vv rr ww xx uu where b: "vv = (pte AND PTE_V = 0)" "rr = (pte AND PTE_R = 0)" "ww = (pte AND PTE_W = 0)"
    "xx = (pte AND PTE_X = 0)" "uu = (pte AND PTE_U = 0)" by blast
  show ?thesis
    unfolding s1_verdict_def table_verdict_def PTE_TABLE_iff Let_def f b [symmetric] r [symmetric]
    by (cases type; cases vv; cases rr; cases ww; cases xx; cases uu; simp)
qed

theorem page_permissions_witness:
  "s1_verdict \<lparr>w_svnapot = False, w_pbmte = False, w_sse = False, w_s_mode = True, w_sum = False, w_mxr = False\<rparr>
    no_flags LOAD 9 0x200000CF = Leaf"
  by (subst page_permissions)
    (simp add: pte_reserved_def pte_ppn_def low_mask_def
PTE_PPN_SHIFT_def)

text \<open>The physical address of a leaf has the offset of the virtual address in the page, the superpage or the
  64-kilobyte Svnapot region, and above it the page number of the entry.\<close>

lemma leaf_keeps_offset:
  assumes "leaf_phys addr i ptshift pte = Some p" "pte_ppn pte AND low_mask ptshift = 0"
    and "i = 0 \<Longrightarrow> ptshift = 0" "n < 64"
  shows "bit p n \<longleftrightarrow> (if n < (if pte AND PTE_N \<noteq> 0 then 16 else 12 + ptshift) then bit addr n else bit (pte_ppn pte) (n - 12))"
proof -
  have lm: "bit (low_mask k) m \<longleftrightarrow> m < k \<and> m < 64" for k m
    by (auto simp: low_mask_mask bit_simps)
  have al: "m < ptshift \<Longrightarrow> \<not> bit (pte_ppn pte) m" for m
    using assms(2) lm [of ptshift m] bit_imp_le_length [of "pte_ppn pte" m] unfolding bit_eq_iff by (auto simp: bit_and_iff)
  show ?thesis
  proof (cases "pte AND PTE_N = 0")
    case True
    then have p: "p = push_bit 12 ((pte_ppn pte AND NOT (low_mask 0)) OR (drop_bit 12 addr AND low_mask 0)
        OR (drop_bit 12 addr AND low_mask ptshift)) OR (addr AND low_mask 12)"
      using assms(1) by (simp add: leaf_phys_def PGSHIFT_def Let_def)
    have "\<not> bit (pte_ppn pte) (n - 12)" if "12 \<le> n" "n < 12 + ptshift" using al that by simp
    then show ?thesis using True assms(4) unfolding p
      by (auto simp: bit_simps lm)
  next
    case False
    then have c: "i = 0" "ctz (pte_ppn pte) + 1 = 4"
      and p: "p = push_bit 12 ((pte_ppn pte AND NOT (low_mask 4)) OR (drop_bit 12 addr AND low_mask 4)
        OR (drop_bit 12 addr AND low_mask ptshift)) OR (addr AND low_mask 12)"
      using assms(1) by (auto simp: leaf_phys_def PGSHIFT_def Let_def split: if_splits)
    have z: "ptshift = 0" using c assms(3) by simp
    show ?thesis using False assms(4) unfolding p z
      by (auto simp: bit_simps lm)
  qed
qed


section \<open>Properties of the walk\<close>

text \<open>C22: on a 64-bit machine with Sv39, Sv48 or Sv57, an address that is not the sign extension of its
  39, 48 or 57 low bits raises the page fault of the access at once, with the address in \<^verbatim>\<open>tval\<close>:
  no page table is read, and nothing changes.\<close>

theorem noncanonical_address_faults:
  assumes "xlen c = 64" "effective_priv a \<le> PRV_S" "\<not> ss_access (acc_flags a)"
    and "get_field (satp_readvirt (effective_virt a) s) 0xF000000000000000 = of_nat (5 + levels)" "levels \<in> {3, 4, 5}"
    and "sext (transformed_vaddr a) (12 + 9 * levels) \<noteq> transformed_vaddr a"
  shows "\<exists>t. walk e c a s = (Inl (Trap t), s) \<and> get_tval t = transformed_vaddr a \<and> has_gva t = effective_virt a \<and>
    which t = (case acc_type a of FETCH \<Rightarrow> CAUSE_FETCH_PAGE_FAULT | LOAD \<Rightarrow> CAUSE_LOAD_PAGE_FAULT
      | STORE \<Rightarrow> CAUSE_STORE_PAGE_FAULT)"
proof -
  have m: "effective_priv a \<noteq> PRV_M" using assms(2) by (auto simp: prv_defs word_le_nat_alt)
  obtain vm where vm: "decode_vm_info 64 False (effective_priv a) (satp_readvirt (effective_virt a) s) = Some vm"
    "vm_levels vm = levels" "vm_idxbits vm = 9"
    using assms(2,4,5) m by (auto simp: decode_vm_info_def Let_def)
  have "\<not> canonical c vm (transformed_vaddr a)"
    using high_bits_equal [of "12 + 9 * levels" "transformed_vaddr a"] assms(1,5,6) vm(2,3)
    by (auto simp: canonical_def PGSHIFT_def Let_def algebra_simps)
  moreover have "vm_levels vm \<noteq> 0" using vm(2) assms(5) by auto
  ultimately have "walk e c a s = throw_page_fault (effective_virt a) (transformed_vaddr a) (acc_type a) s"
    using vm assms(1,3) by (simp add: walk_def Let_def)
  then show ?thesis
    by (cases "acc_type a") (simp_all add: throw_page_fault_def throwM_def fault_trap_defs)
qed

section \<open>Updates of the second stage\<close>

text \<open>When the update of the accessed and dirty bits of a second-stage entry is refused, the fault that
  is raised has the type of the access of the walk, not that of the access of the program.\<close>

lemma s2_update_fault:
  assumes "pte_load e (base + (drop_bit (PGSHIFT + i * vm_idxbits vm) gpa AND
        low_mask (if Suc i = vm_levels vm then vm_idxbits vm + vm_widenbits vm else vm_idxbits vm)) * of_nat (vm_ptesize vm))
      (s2_gva q) (s2_virt q) (s2_trap_type q) (vm_ptesize vm) s = (Inr pte, s')"
    and "s2_verdict (extension_enabled s' EXT_SVNAPOT) (menvcfg_val s' AND MENVCFG_PBMTE \<noteq> 0) mxr (s2_hlvx q) (s2_type q)
      (i * vm_idxbits vm) pte = Leaf"
    and "pte AND ad_bits (s2_type q) \<noteq> ad_bits (s2_type q)" "menvcfg_val s' AND MENVCFG_ADUE \<noteq> 0"
    and "\<And>a. \<not> pmp_ok a (vm_ptesize vm) STORE PRV_S False s'"
  shows "s2_loop e c q vm mxr gpa (Suc i) base s = throw_access_exception (s2_virt q) (s2_gva q) (s2_type q) s'"
  using assms
  by (simp add: Let_def bindM_def thenM_def pte_store_def throw_access_exception_def throwM_def)

end
