(* ===== verification/SimFacts.thy ===== *)
theory SimFacts
  imports Sim WalkFacts
begin

text \<open>
  The MMU on the model of the simulator: the contract holds of the bus and its devices, the lookaside
  buffer stays consistent under every sequence of accesses, atomic operations report their faults
  as store faults, and the loop over the harts.
\<close>

section \<open>The contract\<close>

interpretation sim: simif "sim_env io cfg h" for io :: "'x other_io" and cfg h
  by unfold_locales
    (auto simp: sim_env_def device_frame_def hart_mmio_load_def hart_mmio_store_def from_board_def split: prod.splits)

section \<open>The lookaside buffer\<close>

text \<open>The tags of a slot that are in use.\<close>

definition slot_tags :: "'d hart \<Rightarrow> nat \<Rightarrow> u64 set" where
  "slot_tags s i = {tlb_load_tag s i, tlb_store_tag s i, tlb_insn_tag s i} - {- 1}"

text \<open>The tags of a slot name one page, whose number selects the slot, and the offset of the slot
  moves whole pages.\<close>

definition tlb_wf :: "'d hart \<Rightarrow> bool" where
  "tlb_wf s \<longleftrightarrow>
    (\<forall>i. \<forall>t \<in> slot_tags s i. tag_vpn t < 2 ^ 52 \<and> tlb_idx (tag_vpn t) = i \<and> page_offset (tlb_data s i) = 0 \<and>
      (\<forall>t' \<in> slot_tags s i. tag_vpn t' = tag_vpn t))"

lemma vpn_bound: "vpn_of a < 2 ^ 52"
proof -
  have "unat a < 2 ^ 64" using unsigned_less [of a] by simp
  then have "unat (vpn_of a) < 2 ^ 52" unfolding vpn_of_def PGSHIFT_def unat_drop by simp
  then show ?thesis by (simp add: word_less_nat_alt)
qed

lemma tag_vpn_vpn: "tag_vpn (vpn_of a) = vpn_of a" "tag_vpn (vpn_of a OR TLB_CHECK_TRIGGERS) = vpn_of a"
proof -
  have c: "TLB_CHECK_TRIGGERS = push_bit 63 1" by (simp add: TLB_CHECK_TRIGGERS_def)
  show "tag_vpn (vpn_of a) = vpn_of a" "tag_vpn (vpn_of a OR TLB_CHECK_TRIGGERS) = vpn_of a"
    unfolding tag_vpn_def vpn_of_def PGSHIFT_def c
    by (rule bit_eqI; auto simp del: push_bit_of_1 simp: bit_simps dest: bit_imp_le_length)+
qed

lemma tlb_wf_mono:
  assumes "\<And>i. slot_tags s' i \<subseteq> slot_tags s i" "tlb_data s' = tlb_data s" "tlb_wf s"
  shows "tlb_wf s'"
  using assms(1,3) unfolding tlb_wf_def assms(2) by blast

lemma tlb_wf_refill:
  assumes wf: "tlb_wf s" and off: "page_offset va = page_offset pa"
  shows "tlb_wf (snd (refill_tlb va pa type s))"
proof -
  let ?t = "vpn_of va" and ?i = "tlb_idx (vpn_of va)"
  let ?s = "clear_other_tags ?i ?t s"
  define tg where "tg = (if triggers_checked type ?s then ?t OR TLB_CHECK_TRIGGERS else ?t)"
  have tg: "tag_vpn tg = ?t" by (simp add: tg_def tag_vpn_vpn)
  have cleared: "slot_tags ?s i = (if i = ?i then {x \<in> slot_tags s i. tag_vpn x = ?t} else slot_tags s i)" for i
    by (auto simp: slot_tags_def clear_other_tags_def)
  have data: "tlb_data ?s = tlb_data s" by (simp add: clear_other_tags_def)
  have set: "slot_tags (set_tag type ?i tg x) i \<subseteq> (if i = ?i then insert tg (slot_tags x i) else slot_tags x i)"
    "tlb_data (set_tag type ?i tg x) = tlb_data x" for x :: "'a hart" and i
    by (auto simp: slot_tags_def set_tag_def split: access_type.splits)
  have keep: "slot_tags (x\<lparr>tlb_data := d\<rparr>) i = slot_tags x i" for x :: "'a hart" and d i
    by (simp add: slot_tags_def)
  have entry: "page_offset (pa - va) = 0" using off by (intro page_offset_minus) simp
  have *: "tlb_wf (x\<lparr>tlb_data := (tlb_data s)(?i := pa - va)\<rparr>)"
    if x: "\<And>i. slot_tags x i \<subseteq> (if i = ?i then insert tg {y \<in> slot_tags s i. tag_vpn y = ?t} else slot_tags s i)"
    for x :: "'a hart"
    unfolding tlb_wf_def keep
  proof (intro allI ballI)
    fix i t assume t: "t \<in> slot_tags x i"
    show "tag_vpn t < 2 ^ 52 \<and> tlb_idx (tag_vpn t) = i \<and>
      page_offset (tlb_data (x\<lparr>tlb_data := (tlb_data s)(?i := pa - va)\<rparr>) i) = 0 \<and>
      (\<forall>t' \<in> slot_tags x i. tag_vpn t' = tag_vpn t)"
    proof (cases "i = ?i")
      case True
      then have "\<forall>y \<in> slot_tags x i. tag_vpn y = ?t" using x [of i] tg by auto
      then show ?thesis using t True vpn_bound entry by simp
    next
      case False
      then have "slot_tags x i \<subseteq> slot_tags s i" using x [of i] by simp
      moreover have "tlb_data (x\<lparr>tlb_data := (tlb_data s)(?i := pa - va)\<rparr>) i = tlb_data s i" using False by simp
      moreover have "tag_vpn t < 2 ^ 52 \<and> tlb_idx (tag_vpn t) = i \<and> page_offset (tlb_data s i) = 0 \<and>
        (\<forall>t' \<in> slot_tags s i. tag_vpn t' = tag_vpn t)"
        using wf t \<open>slot_tags x i \<subseteq> slot_tags s i\<close> unfolding tlb_wf_def by blast
      ultimately show ?thesis by auto
    qed
  qed
  have 1: "tlb_wf ?s" by (rule tlb_wf_mono [OF _ data wf]) (auto simp: cleared)
  have 2: "tlb_wf (?s\<lparr>tlb_data := (tlb_data s)(?i := pa - va)\<rparr>)" by (rule *) (auto simp: cleared)
  have 3: "tlb_wf ((set_tag type ?i tg ?s)\<lparr>tlb_data := (tlb_data s)(?i := pa - va)\<rparr>)"
  proof (rule *)
    fix i
    show "slot_tags (set_tag type ?i tg ?s) i \<subseteq> (if i = ?i then insert tg {y \<in> slot_tags s i. tag_vpn y = ?t} else slot_tags s i)"
      using set(1) [of ?s i] unfolding cleared [of i] by (cases "i = ?i") simp_all
  qed
  show ?thesis
  proof (cases "in_mprv s")
    case True
    then show ?thesis using wf by (simp add: refill_tlb_def returnM_def Let_def)
  next
    case False
    then show ?thesis using 1 2 3 unfolding refill_tlb_def Let_def tg_def [symmetric]
      by (cases "pmp_homogeneous (pa AND NOT (PGSIZE - 1)) PGSIZE ?s") (simp_all add: returnM_def throwM_def data set(2))
  qed
qed

text \<open>The invariant, for a machine of 32 or 64 bits.\<close>

definition tlb_inv :: "ctx \<Rightarrow> 'd hart \<Rightarrow> bool" where
  "tlb_inv c s \<longleftrightarrow> xlen c \<in> {32, 64} \<and> tlb_wf s"

lemma tlb_wf_cong:
  assumes "tlb_load_tag s' = tlb_load_tag s" "tlb_store_tag s' = tlb_store_tag s" "tlb_insn_tag s' = tlb_insn_tag s"
    "tlb_data s' = tlb_data s"
  shows "tlb_wf s \<Longrightarrow> tlb_wf s'"
  unfolding tlb_wf_def slot_tags_def assms .

interpretation tlb: access_invariant "sim_env io cfg h" c "tlb_inv c" True for io :: "'x other_io" and cfg h c
proof
  fix s :: "'x board hart" and d m t a tags insns va pa type
  assume inv: "tlb_inv c s"
  then have wf: "tlb_wf s" and x: "xlen c \<in> {32, 64}" by (simp_all add: tlb_inv_def)
  show "xlen c \<in> {32, 64}" by (fact x)
  show "tlb_inv c (s\<lparr>dev := d, mip_val := m\<rparr>)"
    unfolding tlb_inv_def using x by (rule conjI) (rule tlb_wf_cong [OF _ _ _ _ wf]; simp)
  show "tlb_inv c (snd (refill_tlb va pa type s))" if "page_offset va = page_offset pa"
    unfolding tlb_inv_def using x tlb_wf_refill [OF wf that] by (rule conjI)
  show "tlb_inv c ((flush_icache s)\<lparr>matched_trigger := Some t\<rparr>)"
    unfolding tlb_inv_def using x by (rule conjI) (rule tlb_wf_cong [OF _ _ _ _ wf]; simp add: flush_icache_def)
  show "tlb_inv c (s\<lparr>load_reservation_address := a\<rparr>)"
    unfolding tlb_inv_def using x by (rule conjI) (rule tlb_wf_cong [OF _ _ _ _ wf]; simp)
  show "tlb_inv c (s\<lparr>icache_tag := tags, icache_insn := insns\<rparr>)"
    unfolding tlb_inv_def using x by (rule conjI) (rule tlb_wf_cong [OF _ _ _ _ wf]; simp)
qed simp_all

text \<open>What one access leaves behind, for every operation of the MMU.\<close>

datatype mmu_request =
    Req_load nat u64 xlate_flags_t | Req_store nat u64 u64 xlate_flags_t | Req_amo nat u64 "u64 \<Rightarrow> u64"
  | Req_compare_and_swap nat u64 u64 u64 | Req_ssamoswap nat u64 u64 | Req_store_conditional nat u64 u64
  | Req_cbo_zero u64 | Req_clean_inval u64 bool bool | Req_fetch u64 | Req_flush

fun serve :: "'d mmu_env \<Rightarrow> ctx \<Rightarrow> mmu_request \<Rightarrow> 'd hart \<Rightarrow> 'd hart" where
  "serve e c (Req_load len a f) s = snd (mmu_load e c len a f s)"
| "serve e c (Req_store len a v f) s = snd (mmu_store e c len a v f s)"
| "serve e c (Req_amo len a f) s = snd (amo e c len a f s)"
| "serve e c (Req_compare_and_swap len a v w) s = snd (amo_compare_and_swap e c len a v w s)"
| "serve e c (Req_ssamoswap len a v) s = snd (ssamoswap e c len a v s)"
| "serve e c (Req_store_conditional len a v) s = snd (store_conditional e c len a v s)"
| "serve e c (Req_cbo_zero a) s = snd (cbo_zero e c a s)"
| "serve e c (Req_clean_inval a cl nv) s = snd (mmu_clean_inval e c a cl nv s)"
| "serve e c (Req_fetch a) s = snd (access_icache e c a s)"
| "serve e c Req_flush s = flush_tlb s"

lemma post_state: "post P E r \<Longrightarrow> P (snd r)"
  by (simp add: post_def)

lemma tlb_wf_flush: "tlb_wf (flush_tlb s)"
  by (simp add: tlb_wf_def slot_tags_def flush_tlb_def flush_icache_def)

lemma data_types_UNIV: "data_types UNIV"
  by (simp add: data_types_def)

lemmas tlb_posts = tlb.post_mmu_load [OF _ data_types_UNIV] tlb.post_mmu_store [OF _ data_types_UNIV]
  tlb.post_amo [OF _ UNIV_I] tlb.post_compare_and_swap [OF _ UNIV_I] tlb.post_ssamoswap [OF _ data_types_UNIV]
  tlb.post_store_conditional [OF _ data_types_UNIV] tlb.post_cbo_zero [OF _ data_types_UNIV]
  tlb.post_clean_inval [OF _ UNIV_I] tlb.post_access_icache

lemma tlb_inv_serve: "tlb_inv c s \<Longrightarrow> tlb_inv c (serve (sim_env io cfg h) c r s)"
  by (cases r) (simp_all only: serve.simps, (rule post_state, erule tlb_posts)+, simp add: tlb_inv_def tlb_wf_flush)

lemma tlb_inv_serve_all: "tlb_inv c s \<Longrightarrow> tlb_inv c (fold (serve (sim_env io cfg h) c) rs s)"
  by (induction rs arbitrary: s) (simp_all add: tlb_inv_serve)

text \<open>C8: after a flush and any sequence of loads, stores, atomic operations, fetches, cache-block
  operations and further flushes, the tags in use of a slot of the lookaside buffer name the same
  page, that page selects the slot, and the offset of the slot moves whole pages; so whatever the
  fast path or the slow path reads through a slot is the byte of the page with the same offset.\<close>

theorem tlb_slots_agree:
  assumes "xlen c \<in> {32, 64}" "s' = fold (serve (sim_env io cfg h) c) rs (flush_tlb s)" "t \<in> slot_tags s' i"
  shows "tag_vpn t < 2 ^ 52 \<and> tlb_idx (tag_vpn t) = i \<and> (\<forall>t' \<in> slot_tags s' i. tag_vpn t' = tag_vpn t) \<and>
    (\<forall>a. page_offset (tlb_data s' i + a) = page_offset a)"
proof -
  have "tlb_inv c (flush_tlb s)" using assms(1) by (simp add: tlb_inv_def tlb_wf_flush)
  then have "tlb_wf s'" using tlb_inv_serve_all assms(2) by (metis tlb_inv_def)
  then have *: "tag_vpn t < 2 ^ 52 \<and> tlb_idx (tag_vpn t) = i \<and> page_offset (tlb_data s' i) = 0 \<and>
      (\<forall>t' \<in> slot_tags s' i. tag_vpn t' = tag_vpn t)"
    using assms(3) unfolding tlb_wf_def by blast
  then have "page_offset (tlb_data s' i + a) = page_offset a" for a
    using page_offset_add [of "tlb_data s' i" 0 a] by (simp add: page_offset_def)
  with * show ?thesis by blast
qed

section \<open>Kinds of faults\<close>

interpretation plain: access_invariant "sim_env io cfg h" c "\<lambda>_. xlen c \<in> {32, 64}" True for io :: "'x other_io" and cfg h c
  by unfold_locales auto

lemma fault_which: "post P (faults {type}) r \<Longrightarrow> fst r = Inl (Trap t) \<Longrightarrow> which t \<in> fault_codes type"
  by (simp add: post_def)

text \<open>C17: whatever goes wrong in a read-modify-write operation (amo), a compare-and-swap, or a cache-block
  management operation (clean, flush, inval), in either stage of translation, the trap that is taken reports a
  store. (Zeroing a cache block is a sequence of plain stores without this conversion and is not covered.)\<close>

theorem atomic_faults:
  assumes "xlen c \<in> {32, 64}"
  shows "(fst (amo (sim_env io cfg h) c len addr f s) = Inl (Trap t) \<longrightarrow> which t \<in> {6, 7, 15, 23}) \<and>
    (fst (amo_compare_and_swap (sim_env io cfg h) c len addr v w s) = Inl (Trap t) \<longrightarrow> which t \<in> {6, 7, 15, 23}) \<and>
    (fst (mmu_clean_inval (sim_env io cfg h) c addr cl nv s) = Inl (Trap t) \<longrightarrow> which t \<in> {6, 7, 15, 23})"
proof -
  have st: "which t \<in> {6, 7, 15, 23}" if "post P (faults {STORE}) r" "fst r = Inl (Trap t)" for P r
    using fault_which [OF that] by simp
  show ?thesis
    by (intro conjI impI) (erule st [OF plain.post_amo [OF assms singletonI]]
      st [OF plain.post_compare_and_swap [OF assms singletonI]] st [OF plain.post_clean_inval [OF assms singletonI]])+
qed

text \<open>C21: outside a virtual machine a translation that is not one of the special accesses reports the
  type of the access.\<close>

theorem translation_faults:
  assumes "xlen c \<in> {32, 64}" "\<not> effective_virt a" "\<not> ss_access (acc_flags a)" "\<not> clean_inval (acc_flags a)"
    and "fst (translate (sim_env io cfg h) c a len s) = Inl (Trap t)"
  shows "which t \<in> fault_codes (acc_type a)"
proof -
  have "access_types a \<subseteq> {acc_type a}" using assms(2-4) by (simp add: access_types_def)
  from fault_which [OF plain.post_translate [OF assms(1) this] assms(5)] show ?thesis .
qed

section \<open>Reservations\<close>

lemma device_frameI: "device_frame s (s\<lparr>dev := d, mip_val := m\<rparr>)"
  by (simp add: device_frame_def)

lemma device_frameE:
  assumes "device_frame s s'"
  obtains d m where "s' = s\<lparr>dev := d, mip_val := m\<rparr>"
  using assms unfolding device_frame_def by blast

interpretation frame: translation_invariant "sim_env io cfg h" c "device_frame s0" for io :: "'x other_io" and cfg h c s0
proof
  fix s :: "'x board hart" and d m
  assume "device_frame s0 s"
  then obtain d' m' where "s = s0\<lparr>dev := d', mip_val := m'\<rparr>" by (rule device_frameE)
  then have "s\<lparr>dev := d, mip_val := m\<rparr> = s0\<lparr>dev := d, mip_val := m\<rparr>" by simp
  then show "device_frame s0 (s\<lparr>dev := d, mip_val := m\<rparr>)" using device_frameI by metis
qed

lemma device_frame_refl: "device_frame s s"
  by (simp add: device_frame_def)

lemma translate_frame: "device_frame s (snd (translate (sim_env io cfg h) c a len s))"
  using frame.post_translate [OF device_frame_refl subset_UNIV] by (rule post_state)

lemma info_state: "snd (generate_access_info c a t f s) = s"
  by (simp add: generate_access_info_def returnM_def throwM_def Let_def split: prod.split option.split)

text \<open>What a reservation check that returns has done.\<close>

lemma check_load_reservation_returns:
  assumes "check_load_reservation (sim_env io cfg h) c a n s = (Inr b, s')" "\<not> misaligned a n"
  obtains i p where "generate_access_info c a STORE no_flags s = (Inr i, s)"
    "translate (sim_env io cfg h) c i 1 s = (Inr p, s')" "reservable (sim_env io cfg h) p (dev s')"
    "b \<longleftrightarrow> load_reservation_address s = p" "device_frame s s'"
proof -
  obtain r0 s0 where i0: "generate_access_info c a STORE no_flags s = (r0, s0)" by (rule prod.exhaust)
  have s0: "s0 = s" using info_state [of c a STORE no_flags s] i0 by simp
  obtain i where i: "r0 = Inr i"
    using assms i0 by (cases r0) (simp_all add: check_load_reservation_def thenM_def bindM_def returnM_def)
  obtain r1 s1 where t1: "translate (sim_env io cfg h) c i 1 s = (r1, s1)" by (rule prod.exhaust)
  obtain p where p: "r1 = Inr p"
    using assms i0 i s0 t1 by (cases r1) (simp_all add: check_load_reservation_def thenM_def bindM_def returnM_def)
  have f: "device_frame s s1" using translate_frame [of s io cfg h c i 1] t1 by simp
  have "load_reservation_address s1 = load_reservation_address s"
    using f by (rule device_frameE) simp
  then show ?thesis using that i0 i s0 t1 p f assms
    by (auto simp: check_load_reservation_def thenM_def bindM_def returnM_def throw_access_exception_def throwM_def split: if_splits)
qed

text \<open>C18: a naturally aligned store-conditional that returns has translated its address, and nothing but the
  devices that the page walk reads and updates and the pending interrupts has changed until then. It reports success exactly when the physical address it found is
  the reserved one. On success the value has been stored by an ordinary store of the same size at the same address;
  on failure nothing has been done after the translation, so nothing is stored. In both cases the reservation is given
  up and nothing else happens; so a second one, with no load-reserved between them, succeeds only where the
  address translates to the value that stands for no reservation.\<close>

theorem store_conditional_once:
  assumes "\<not> misaligned addr len"
    and "store_conditional (sim_env io cfg h) c len addr v s = (Inr b, s')"
  shows "\<exists>i p s1. generate_access_info c addr STORE no_flags s = (Inr i, s) \<and>
      translate (sim_env io cfg h) c i 1 s = (Inr p, s1) \<and> device_frame s s1 \<and>
      (b \<longleftrightarrow> p = load_reservation_address s) \<and> load_reservation_address s' = - 1 \<and>
      (if b then \<exists>s2. mmu_store (sim_env io cfg h) c len addr v no_flags s1 = (Inr (), s2) \<and> s' = s2\<lparr>load_reservation_address := - 1\<rparr>
       else s' = s1\<lparr>load_reservation_address := - 1\<rparr>)"
proof -
  obtain q where q: "check_load_reservation (sim_env io cfg h) c addr len s = (Inr b, q)"
    using assms(2)
    by (auto simp: store_conditional_def thenM_def bindM_def returnM_def modifyM_def split: prod.splits sum.splits)
  have after: "if b then \<exists>s2. mmu_store (sim_env io cfg h) c len addr v no_flags q = (Inr (), s2) \<and> s' = s2\<lparr>load_reservation_address := - 1\<rparr>
      else s' = q\<lparr>load_reservation_address := - 1\<rparr>"
    using assms(2) q
    by (auto simp: store_conditional_def thenM_def bindM_def returnM_def modifyM_def yield_load_reservation_def
        split: prod.splits sum.splits)
  then have r: "load_reservation_address s' = - 1" by (auto split: if_splits)
  obtain i p where "generate_access_info c addr STORE no_flags s = (Inr i, s)"
    "translate (sim_env io cfg h) c i 1 s = (Inr p, q)" "b \<longleftrightarrow> load_reservation_address s = p" "device_frame s q"
    using check_load_reservation_returns [OF q assms(1)] by metis
  with after r show ?thesis by (intro exI [of _ i] exI [of _ p] exI [of _ q]) auto
qed

section \<open>The loop over the harts\<close>

text \<open>The inner loop advances the counter of the outer one, so it never leaves the hart it is at.\<close>

lemma hart_loop_stays: "j < nprocs \<Longrightarrow> hart_loop o' nprocs k i j s = Running ((advance_hart o' j ^^ k) s)"
  by (induction k arbitrary: i s) (subst hart_loop.simps, simp add: funpow_swap1)+

text \<open>Without harts the loop counts up to its bound.\<close>

lemma insn_loop_empty: "i \<le> n \<Longrightarrow> unat (n - i) \<le> k \<Longrightarrow> insn_loop o' 0 k n i s = Ended s"
proof (induction k arbitrary: i)
  case 0
  then show ?case by (simp add: unat_eq_zero)
next
  case (Suc k)
  show ?case
  proof (cases "i < n")
    case True
    have "unat n < 2 ^ 64" using unsigned_less [of n] by simp
    then have "unat (n - i) = unat n - unat i" "unat (i + 1) = unat i + 1"
      using True by (simp_all add: unat_sub_if' unat_word_ariths word_less_nat_alt word_le_nat_alt)
    then have "unat (n - (i + 1)) \<le> k" "i + 1 \<le> n"
      using True Suc(3) by (simp_all add: unat_sub_if' word_less_nat_alt word_le_nat_alt)
    then show ?thesis using True Suc(1) [of "i + 1"] by (simp add: hart_loop.simps)
  qed (simp add: Suc)
qed

text \<open>C20: a simulation step of a machine with at least one hart and at least one instruction to execute
  does not return: however far it is followed, it is still running, hart 0 has been advanced once in every round of
  the inner loop, no other hart has been advanced, and no device has been ticked. Without harts, or with nothing to
  execute, it returns after at most n rounds, with the state it started from and one tick of the devices.\<close>

theorem sim_step_returns:
  "sim_step o' nprocs (Suc (unat n + k)) n s =
    (if 0 < nprocs \<and> 0 < n then Running ((advance_hart o' 0 ^^ (unat n + k)) s)
     else Ended (op_tick o' (rtc_ticks (unat n)) s)) \<and>
   (0 < nprocs \<and> 0 < n \<longrightarrow> sim_step o' nprocs (Suc k) n s = Running ((advance_hart o' 0 ^^ k) s))"
proof -
  have "sim_step o' nprocs (Suc k) n s = Running ((advance_hart o' 0 ^^ k) s)" if "0 < nprocs" "0 < n" for k
    using that by (simp add: sim_step_def hart_loop_stays)
  moreover have "insn_loop o' nprocs (Suc (unat n + k)) n 0 s = Ended s" if "\<not> (0 < nprocs \<and> 0 < n)"
    using that insn_loop_empty [of 0 n "Suc (unat n + k)" o' s] by (cases "nprocs = 0") auto
  ultimately show ?thesis by (auto simp: sim_step_def)
qed

theorem sim_step_returns_witness:
  "sim_step \<lparr>op_step = (\<lambda>j s. Stepped (s(j := s j + 1))), op_suspended = (\<lambda>j s. False), op_suspend = (\<lambda>j s. s),
      op_yield = (\<lambda>j s. s), op_skip = (\<lambda>j s. s), op_tick = (\<lambda>k s. s)\<rparr> 2 3 1 (\<lambda>_. 0 :: nat) = Running ((\<lambda>_. 0)(0 := 2))"
  using sim_step_returns [of "\<lparr>op_step = (\<lambda>j s. Stepped (s(j := s j + 1))), op_suspended = (\<lambda>j s. False), op_suspend = (\<lambda>j s. s),
      op_yield = (\<lambda>j s. s), op_skip = (\<lambda>j s. s), op_tick = (\<lambda>k s. s)\<rparr>" 2 1 2 "\<lambda>_. 0 :: nat"]
  by (simp add: advance_hart_def numeral_2_eq_2 numeral_3_eq_3)

end
