(* ===== verification/MemoryFacts.thy ===== *)
theory MemoryFacts
  imports SimFacts
begin

text \<open>
  What a program sees of memory: a hart in machine mode reads back what it stored, through every path of
  the MMU, and the boot ROM hands over the start address and the device tree.
\<close>

section \<open>Memory seen by a hart in machine mode\<close>

lemma bytes_value_value_bytes: "bytes_value (value_bytes n v) = take_bit (8 * n) v"
proof (induction n arbitrary: v)
  case (Suc n)
  have "ucast (ucast v :: u8) = take_bit 8 v" for v :: u64
    by (rule bit_word_eqI) (auto simp: bit_simps)
  moreover have "take_bit 8 v OR push_bit 8 (take_bit (8 * n) (drop_bit 8 v)) = take_bit (8 * Suc n) v"
    by (rule bit_word_eqI) (auto simp: bit_simps)
  ultimately show ?case using Suc by simp
qed simp

lemma length_value_bytes [simp]: "length (value_bytes n v) = n"
  by (induction n arbitrary: v) simp_all

lemma from_to_target: "from_target e (to_target e n v) = take_bit (8 * n) v"
  by (simp add: from_target_def to_target_def Let_def bytes_value_value_bytes)

lemma length_to_target [simp]: "length (to_target e n v) = n"
  by (simp add: to_target_def Let_def)

text \<open>What is written through a host pointer is read back through it.\<close>

lemma mem_at_write: "mem_at q (sim_host_write p bytes b) = mem_at q b"
proof -
  have sz: "mem_sz (snd (mem_page ppn m)) = mem_sz m" for ppn m
    by (simp add: mem_page_def split: option.split)
  show ?thesis
    by (auto simp: mem_at_def sim_host_write_def Let_def sz split: option.splits prod.splits device_id.splits)
      (metis sz snd_conv)+
qed

lemma mem_at_other: "mem_at q (b\<lparr>other_state := y\<rparr>) = mem_at q b"
  by (simp add: mem_at_def cong: option.case_cong prod.case_cong device_id.case_cong)

lemma host_read_write:
  assumes "sim_addr_to_mem p b"
  shows "sim_host_read p (length bytes) ((sim_host_write p bytes b)\<lparr>other_state := y\<rparr>) = bytes"
proof -
  obtain k a where k: "mem_at p b = Some (k, a)" using assms by (auto simp: sim_addr_to_mem_def)
  have at: "mem_at p ((sim_host_write p bytes b)\<lparr>other_state := y\<rparr>) = Some (k, a)"
    using k by (simp add: mem_at_other mem_at_write)
  obtain pg m where pm: "mem_page (page_ppn a) (mems b k) = (pg, m)" by (rule prod.exhaust)
  have pg: "fst (mem_page n (m\<lparr>sparse_memory_map := (sparse_memory_map m)(n \<mapsto> q)\<rparr>)) = q" for n q m
    by (simp add: mem_page_def)
  have w: "map (\<lambda>j. page_write off bytes q (off + j)) [0..<length bytes] = bytes" for off q
    by (rule nth_equalityI) (simp_all add: page_write_def)
  show ?thesis
    unfolding sim_host_read_def at by (simp add: sim_host_write_def k pm Let_def pg w)
qed

text \<open>An access that is not translated: the hart is in machine mode, without pointer masking, and its
  lookaside buffer maps every page to itself.\<close>

definition tlb_identity :: "'d hart \<Rightarrow> bool" where
  "tlb_identity s \<longleftrightarrow>
    (\<forall>a. vpn_of a \<in> {tag_vpn (tlb_load_tag s (tlb_idx (vpn_of a))), tag_vpn (tlb_store_tag s (tlb_idx (vpn_of a)))} \<longrightarrow>
      tlb_data s (tlb_idx (vpn_of a)) = 0)"

definition machine_view :: "u64 \<Rightarrow> nat \<Rightarrow> 'd hart \<Rightarrow> bool" where
  "machine_view addr len s \<longleftrightarrow> prv s = PRV_M \<and> \<not> virt s \<and> \<not> in_mprv s \<and>
    get_field (mseccfg_val s) MSECCFG_PMM = 0 \<and> pmp_ok addr len LOAD PRV_M False s \<and>
    pmp_ok addr len STORE PRV_M False s \<and> tlb_identity s"

lemma pmp_ok_cong:
  assumes "pmpaddr_val s' = pmpaddr_val s" "pmpaddr_cfg s' = pmpaddr_cfg s" "n_pmp s' = n_pmp s"
    "lg_pmp_granularity s' = lg_pmp_granularity s" "mseccfg_val s' = mseccfg_val s"
  shows "pmp_ok a n t m h s' = pmp_ok a n t m h s"
proof -
  have g: "get_mml s' = get_mml s" "get_mmwp s' = get_mmwp s" using assms(5) by (simp_all add: get_mml_def get_mmwp_def)
  have tor: "tor_paddr i s' = tor_paddr i s" "tor_base_paddr i s' = tor_base_paddr i s" "napot_mask i s' = napot_mask i s" for i
    using assms by (simp_all add: tor_paddr_def tor_base_paddr_def napot_mask_def pmp_tor_mask_def)
  have m4: "match4 i a s' = match4 i a s" for i a using assms by (simp add: match4_def tor)
  have ok: "access_ok i t m h s' = access_ok i t m h s" for i using assms by (simp add: access_ok_def g Let_def)
  have "pmp_scan is sec t m h s' = pmp_scan is sec t m h s" for "is" sec
    by (induction "is") (simp_all add: m4 ok Let_def)
  then show ?thesis using assms by (simp add: pmp_ok_def g cong: option.case_cong)
qed

lemma machine_view_dev: "machine_view a n (s\<lparr>dev := d\<rparr>) = machine_view a n s"
proof -
  have "pmp_ok a n t m h (s\<lparr>dev := d\<rparr>) = pmp_ok a n t m h s" for t m h by (rule pmp_ok_cong) simp_all
  then show ?thesis by (simp add: machine_view_def in_mprv_def tlb_identity_def mstatus_read_def)
qed

lemma machine_view_trigger: "machine_view a n ((flush_icache s)\<lparr>matched_trigger := t\<rparr>) = machine_view a n s"
proof -
  have "pmp_ok a n t' m h ((flush_icache s)\<lparr>matched_trigger := t\<rparr>) = pmp_ok a n t' m h s" for t' m h
    by (rule pmp_ok_cong) (simp_all add: flush_icache_def)
  then show ?thesis by (simp add: machine_view_def in_mprv_def tlb_identity_def mstatus_read_def flush_icache_def)
qed

lemma tag_vpn_none: "vpn_of a \<noteq> tag_vpn (- 1)"
proof -
  have "bit (tag_vpn (- 1)) 62" by (simp add: tag_vpn_def TLB_CHECK_TRIGGERS_def)
  moreover have "\<not> bit (vpn_of a) 62" using bit_imp_le_length [of a 74] by (auto simp: vpn_of_def PGSHIFT_def bit_simps)
  ultimately show ?thesis by metis
qed

lemma machine_view_refill:
  assumes "machine_view a n s"
  obtains s' where "refill_tlb va va type s = (Inr 0, s')" "machine_view a n s'" "dev s' = dev s" "matched_trigger s' = matched_trigger s"
proof -
  let ?i = "tlb_idx (vpn_of va)" and ?t = "vpn_of va"
  let ?s = "clear_other_tags ?i ?t s"
  define tg where "tg = (if triggers_checked type ?s then ?t OR TLB_CHECK_TRIGGERS else ?t)"
  have pg: "PGSIZE - 1 = mask 12" "PGSIZE = push_bit 12 1" by (simp_all add: PGSIZE_def mask_eq_exp_minus_1)
  have al: "((va AND NOT (PGSIZE - 1)) OR PGSIZE) AND (PGSIZE - 1) = 0"
    unfolding pg(1) unfolding pg(2) by (rule bit_word_eqI) (auto simp del: push_bit_of_1 simp: bit_simps)
  then obtain h where h: "pmp_homogeneous (va AND NOT (PGSIZE - 1)) PGSIZE ?s = Some h"
    by (simp add: pmp_homogeneous_def)
  define s' where "s' = (if h then set_tag type ?i tg ?s else ?s)\<lparr>tlb_data := (tlb_data ?s)(?i := 0)\<rparr>"
  have r: "refill_tlb va va type s = (Inr 0, s')"
    using assms h by (auto simp: refill_tlb_def machine_view_def Let_def tg_def [symmetric] returnM_def s'_def set_tag_def split: access_type.splits)
  have "pmp_ok a n t' m hh s' = pmp_ok a n t' m hh s" for t' m hh
    by (rule pmp_ok_cong) (auto simp: s'_def set_tag_def clear_other_tags_def split: access_type.splits)
  moreover have "in_mprv s' = in_mprv s" "prv s' = prv s" "virt s' = virt s" "mseccfg_val s' = mseccfg_val s"
    by (auto simp: s'_def set_tag_def clear_other_tags_def in_mprv_def mstatus_read_def split: access_type.splits)
  moreover have "tlb_identity s'"
    unfolding tlb_identity_def
  proof (intro allI impI)
    fix b
    assume *: "vpn_of b \<in> {tag_vpn (tlb_load_tag s' (tlb_idx (vpn_of b))), tag_vpn (tlb_store_tag s' (tlb_idx (vpn_of b)))}"
    show "tlb_data s' (tlb_idx (vpn_of b)) = 0"
    proof (cases "tlb_idx (vpn_of b) = ?i")
      case True
      then show ?thesis by (simp add: s'_def)
    next
      case False
      then have "tlb_load_tag s' (tlb_idx (vpn_of b)) = tlb_load_tag s (tlb_idx (vpn_of b))"
        "tlb_store_tag s' (tlb_idx (vpn_of b)) = tlb_store_tag s (tlb_idx (vpn_of b))"
        "tlb_data s' (tlb_idx (vpn_of b)) = tlb_data s (tlb_idx (vpn_of b))"
        by (auto simp: s'_def set_tag_def clear_other_tags_def split: access_type.splits)
      then show ?thesis using assms * unfolding machine_view_def tlb_identity_def by auto
    qed
  qed
  ultimately have "machine_view a n s'" using assms by (simp add: machine_view_def)
  moreover have "dev s' = dev s" "matched_trigger s' = matched_trigger s"
    by (auto simp: s'_def set_tag_def clear_other_tags_def split: access_type.splits)
  ultimately show ?thesis using that r by blast
qed

definition machine_access :: "u64 \<Rightarrow> access_type \<Rightarrow> mem_access_info_t" where
  "machine_access addr t = \<lparr>vaddr = addr, transformed_vaddr = addr, effective_priv = PRV_M, effective_virt = False,
    acc_flags = no_flags, acc_type = t\<rparr>"

lemma machine_info:
  assumes "machine_view addr n s" "xlen c = 64" "t \<noteq> FETCH"
  shows "generate_access_info c addr t no_flags s = (Inr (machine_access addr t), s)"
proof -
  have "effective_mode t no_flags s = (PRV_M, False)"
    using assms by (simp add: effective_mode_def machine_view_def no_flags_def Let_def)
  moreover have "get_pmlen c False PRV_M no_flags s = Some 0"
    using assms by (simp add: get_pmlen_def pmm_field_def machine_view_def)
  ultimately show ?thesis
    using assms by (simp add: generate_access_info_def machine_access_def returnM_def zext_def)
qed

lemma machine_translate:
  assumes "machine_view addr n s" "xlen c = 64" "t \<noteq> FETCH"
  shows "translate e c (machine_access addr t) n s = (Inr addr, s)"
proof -
  have m: "addr AND 18446744073709551615 = addr"
  proof -
    have "(18446744073709551615 :: u64) = mask 64" by (simp add: mask_eq_exp_minus_1)
    then have "addr AND 18446744073709551615 = take_bit 64 addr" by (simp only: take_bit_eq_mask)
    then show ?thesis by (simp add: take_bit_word_eq_self)
  qed
  have w: "walk e c (machine_access addr t) s = (Inr (page_of addr), s)"
    using assms(2) m
    by (simp add: walk_def machine_access_def decode_vm_info_def vm_bare_def no_flags_def s2xlate_def data_access_def
        bindM_def returnM_def Let_def)
  have "page_of addr OR (addr AND (PGSIZE - 1)) = addr"
  proof -
    have "PGSIZE - 1 = mask 12" by (simp add: PGSIZE_def mask_eq_exp_minus_1)
    then show ?thesis
      unfolding page_of_def low_mask_mask PGSHIFT_def by (intro bit_word_eqI) (auto simp: bit_simps)
  qed
  then show ?thesis
    using assms(1,3) w by (cases t) (simp_all add: translate_def bindM_def machine_access_def machine_view_def no_flags_def returnM_def Let_def)
qed

lemma no_triggers:
  assumes "\<forall>op a d s. fst (other_detect io op a d s) = None"
  shows "\<exists>y. check_triggers (sim_env io cfg h) op a v tv d s = (Inr (), s\<lparr>dev := (dev s)\<lparr>other_state := y\<rparr>\<rparr>)"
proof (cases "matched_trigger s")
  case None
  obtain r x where o': "other_detect io op a d s = (r, x)" by (rule prod.exhaust)
  have "fst (other_detect io op a d s) = None" using assms by blast
  then have "r = None" unfolding o' by simp
  then have "check_triggers (sim_env io cfg h) op a v tv d s = (Inr (), s\<lparr>dev := (dev s)\<lparr>other_state := x\<rparr>\<rparr>)"
    using None o' by (simp add: check_triggers_def sim_env_def returnM_def)
  then show ?thesis by blast
next
  case (Some m)
  have "s = s\<lparr>dev := (dev s)\<lparr>other_state := other_state (dev s)\<rparr>\<rparr>" by simp
  moreover have "check_triggers (sim_env io cfg h) op a v tv d s = (Inr (), s)"
    using Some by (simp add: check_triggers_def returnM_def)
  ultimately show ?thesis by metis
qed

lemma no_data_triggers:
  assumes "\<forall>op a d s. fst (other_detect io op a d s) = None" "length bytes \<in> {1, 2, 4, 8}"
  shows "\<exists>y. check_data_triggers (sim_env io cfg h) op a v bytes s = (Inr (), s\<lparr>dev := (dev s)\<lparr>other_state := y\<rparr>\<rparr>)"
  using assms(2) no_triggers [OF assms(1)]
  by (subst check_data_triggers.simps) (auto simp: reg_from_bytes_def)

lemma sim_env_fields:
  "addr_to_mem (sim_env io cfg h) = sim_addr_to_mem" "host_read (sim_env io cfg h) = sim_host_read"
  "host_write (sim_env io cfg h) = sim_host_write" "reservable (sim_env io cfg h) = sim_addr_to_mem"
  by (simp_all add: sim_env_def)

lemma sim_addr_other: "sim_addr_to_mem p (b\<lparr>other_state := y\<rparr>) = sim_addr_to_mem p b"
  by (simp add: sim_addr_to_mem_def mem_at_other)

lemma length_host_read: "length (sim_host_read p n b) = n"
  by (simp add: sim_host_read_def Let_def split: option.split)

lemma host_read_other: "sim_host_read p n (b\<lparr>other_state := y\<rparr>) = sim_host_read p n b"
  by (simp add: sim_host_read_def mem_at_other Let_def cong: option.case_cong)

lemma host_write_other:
  "sim_host_write p bytes (b\<lparr>other_state := y\<rparr>) = (sim_host_write p bytes b)\<lparr>other_state := y\<rparr>"
  unfolding sim_host_write_def mem_at_other
  by (cases "mem_at p b") (simp_all add: Let_def split: prod.split)

lemma machine_store_page:
  assumes v: "machine_view addr len s" and c: "xlen c = 64" and m: "sim_addr_to_mem addr (dev s)"
  shows "\<exists>s1 y. store_slow_path_intrapage (sim_env io cfg h) c len bytes (machine_access addr STORE) True s = (Inr (), s1) \<and>
    machine_view addr len s1 \<and> dev s1 = (sim_host_write addr bytes (dev s))\<lparr>other_state := y\<rparr>"
proof -
  let ?a = "machine_access addr STORE" and ?e = "sim_env io cfg h" and ?i = "tlb_idx (vpn_of addr)"
  let ?s1 = "s\<lparr>dev := sim_host_write addr bytes (dev s)\<rparr>"
  have a: "vaddr ?a = addr" "transformed_vaddr ?a = addr" "acc_flags ?a = no_flags" by (simp_all add: machine_access_def)
  have sp: "\<not> is_special_access no_flags" by (simp add: is_special_access_def no_flags_def)
  have o': "\<exists>y. b = b\<lparr>other_state := y\<rparr>" for b :: "'a board" by (rule exI [of _ "other_state b"]) simp
  have v1: "machine_view addr len ?s1" using v by (simp add: machine_view_dev)
  show ?thesis
  proof (cases "vpn_of addr = tag_vpn (tlb_store_tag s ?i)")
    case True
    then have "tlb_data s ?i = 0" using v unfolding machine_view_def tlb_identity_def by blast
    then have "store_slow_path_intrapage ?e c len bytes ?a True s = (Inr (), ?s1)"
      using True by (simp add: store_slow_path_intrapage_def a sp host_store_def modifyM_def sim_env_fields Let_def)
    then show ?thesis using v1 o' [of "sim_host_write addr bytes (dev s)"] by auto
  next
    case False
    have tr: "translate ?e c ?a len s = (Inr addr, s)" using machine_translate [OF v c] by simp
    show ?thesis
    proof (cases "interested_in_range ?e addr (addr + PGSIZE) STORE (dev ?s1)")
      case True
      then have "store_slow_path_intrapage ?e c len bytes ?a True s =
          (Inr (), ?s1\<lparr>dev := trace_access ?e addr len STORE (dev ?s1)\<rparr>)"
        using False m by (simp add: store_slow_path_intrapage_def a sp tr bindM_def thenM_def host_store_def modifyM_def
          sim_env_fields returnM_def Let_def)
      moreover have "trace_access ?e addr len STORE b = b\<lparr>other_state := other_trace io addr len STORE (other_state b)\<rparr>" for b
        by (simp add: sim_env_def)
      ultimately show ?thesis using v by (auto simp: machine_view_dev)
    next
      case not: False
      obtain s2 where r: "refill_tlb addr addr STORE ?s1 = (Inr 0, s2)" "machine_view addr len s2" "dev s2 = dev ?s1"
        using machine_view_refill [OF v1] by metis
      have "store_slow_path_intrapage ?e c len bytes ?a True s = (Inr (), s2)"
        using False m not r(1) by (simp add: store_slow_path_intrapage_def a sp tr bindM_def thenM_def host_store_def modifyM_def
          sim_env_fields returnM_def Let_def)
      then show ?thesis using r o' [of "dev s2"] by auto
    qed
  qed
qed

lemma machine_load_page:
  assumes v: "machine_view addr len s" and c: "xlen c = 64" and m: "sim_addr_to_mem addr (dev s)"
  shows "\<exists>s1 y. load_slow_path_intrapage (sim_env io cfg h) c len (machine_access addr LOAD) s =
    (Inr (sim_host_read addr len (dev s)), s1) \<and> machine_view addr len s1 \<and> dev s1 = (dev s)\<lparr>other_state := y\<rparr>"
proof -
  let ?a = "machine_access addr LOAD" and ?e = "sim_env io cfg h" and ?i = "tlb_idx (vpn_of addr)"
  have a: "vaddr ?a = addr" "transformed_vaddr ?a = addr" "acc_flags ?a = no_flags" by (simp_all add: machine_access_def)
  have sp: "\<not> is_special_access no_flags" "\<not> lr no_flags" by (simp_all add: is_special_access_def no_flags_def)
  have o': "\<exists>y. b = b\<lparr>other_state := y\<rparr>" for b :: "'a board" by (rule exI [of _ "other_state b"]) simp
  show ?thesis
  proof (cases "vpn_of addr = tag_vpn (tlb_load_tag s ?i)")
    case True
    then have "tlb_data s ?i = 0" using v unfolding machine_view_def tlb_identity_def by blast
    then show ?thesis
      using True v o' by (simp add: load_slow_path_intrapage_def a sp host_load_def returnM_def sim_env_fields Let_def)
  next
    case False
    have tr: "translate ?e c ?a len s = (Inr addr, s)" using machine_translate [OF v c] by simp
    have trace: "trace_access ?e addr len LOAD b = b\<lparr>other_state := other_trace io addr len LOAD (other_state b)\<rparr>" for b
      by (simp add: sim_env_def)
    show ?thesis
    proof (cases "interested_in_range ?e addr (addr + PGSIZE) LOAD (dev s)")
      case True
      then show ?thesis
        using False m v by (auto simp: load_slow_path_intrapage_def a sp tr bindM_def host_load_def
          sim_env_fields returnM_def Let_def machine_view_dev trace)
    next
      case not: False
      obtain s2 where r: "refill_tlb addr addr LOAD s = (Inr 0, s2)" "machine_view addr len s2" "dev s2 = dev s"
        using machine_view_refill [OF v] by metis
      then show ?thesis
        using False m not o' by (simp add: load_slow_path_intrapage_def a sp tr bindM_def host_load_def
          sim_env_fields returnM_def Let_def)
    qed
  qed
qed

text \<open>A store and a load in machine mode, with what they do to the devices.\<close>

lemma machine_store:
  assumes view: "machine_view addr len s" and x: "xlen c = 64" and len: "len \<in> {1, 2, 4, 8}" "\<not> misaligned addr len"
    and mem: "sim_addr_to_mem addr (dev s)" and quiet: "\<forall>op a d s. fst (other_detect io op a d s) = None"
  shows "\<exists>s1 y. mmu_store (sim_env io cfg h) c len addr v no_flags s = (Inr (), s1) \<and> machine_view addr len s1 \<and>
      dev s1 = (sim_host_write addr (to_target (sim_env io cfg h) len v) (dev s))\<lparr>other_state := y\<rparr>"
proof -
  let ?e = "sim_env io cfg h" and ?b = "to_target (sim_env io cfg h) len v" and ?i = "tlb_idx (vpn_of addr)"
  have lb: "length ?b \<in> {1, 2, 4, 8}" using len by simp
  have sp: "\<not> is_special_access no_flags" by (simp add: is_special_access_def no_flags_def)
  have vpn: "tag_vpn (vpn_of addr) = vpn_of addr" by (rule tag_vpn_vpn)
  show ?thesis
  proof (cases "tlb_store_tag s ?i = vpn_of addr")
    case True
    then have "tlb_data s ?i = 0" using view vpn unfolding machine_view_def tlb_identity_def by simp
    then have "mmu_store ?e c len addr v no_flags s = (Inr (), s\<lparr>dev := sim_host_write addr ?b (dev s)\<rparr>)"
      using True len sp by (simp add: mmu_store_def host_store_def modifyM_def sim_env_fields Let_def)
    then show ?thesis using view
      by (intro exI [of _ "s\<lparr>dev := sim_host_write addr ?b (dev s)\<rparr>"] exI [of _ "other_state (sim_host_write addr ?b (dev s))"])
        (simp add: machine_view_dev)
  next
    case False
    obtain y where y: "check_data_triggers ?e OPERATION_STORE addr False ?b s = (Inr (), s\<lparr>dev := (dev s)\<lparr>other_state := y\<rparr>\<rparr>)"
      using no_data_triggers [OF quiet lb] by blast
    let ?s = "s\<lparr>dev := (dev s)\<lparr>other_state := y\<rparr>\<rparr>"
    obtain s1 z where s1: "store_slow_path_intrapage ?e c len ?b (machine_access addr STORE) True ?s = (Inr (), s1)"
      "machine_view addr len s1" "dev s1 = (sim_host_write addr ?b (dev ?s))\<lparr>other_state := z\<rparr>"
      using machine_store_page [of addr len ?s c io cfg h ?b] view x mem by (auto simp: machine_view_dev sim_addr_other)
    have "mmu_store ?e c len addr v no_flags s = (Inr (), s1)"
      using False len y s1(1) machine_info [OF view x, of STORE]
      by (simp add: mmu_store_def store_slow_path_def bindM_def thenM_def machine_access_def Let_def)
    then show ?thesis using s1 by (auto simp: host_write_other)
  qed
qed

lemma machine_load:
  assumes view: "machine_view addr len s" and x: "xlen c = 64" and len: "len \<in> {1, 2, 4, 8}" "\<not> misaligned addr len"
    and mem: "sim_addr_to_mem addr (dev s)" and quiet: "\<forall>op a d s. fst (other_detect io op a d s) = None"
  shows "\<exists>s2 y. mmu_load (sim_env io cfg h) c len addr no_flags s =
      (Inr (from_target (sim_env io cfg h) (sim_host_read addr len (dev s))), s2) \<and> machine_view addr len s2 \<and>
      dev s2 = (dev s)\<lparr>other_state := y\<rparr>"
proof -
  let ?e = "sim_env io cfg h" and ?i = "tlb_idx (vpn_of addr)"
  define b where "b = sim_host_read addr len (dev s)"
  have lb: "length b \<in> {1, 2, 4, 8}" using len by (simp add: b_def length_host_read)
  have sp: "\<not> is_special_access no_flags" by (simp add: is_special_access_def no_flags_def)
  have vpn: "tag_vpn (vpn_of addr) = vpn_of addr" by (rule tag_vpn_vpn)
  have rd: "sim_host_read addr len ((dev s)\<lparr>other_state := z\<rparr>) = b" for z by (simp add: b_def host_read_other)
  show ?thesis unfolding b_def [symmetric]
  proof (cases "tlb_load_tag s ?i = vpn_of addr")
    case True
    then have "tlb_data s ?i = 0" using view vpn unfolding machine_view_def tlb_identity_def by simp
    then show "\<exists>s2 y. mmu_load ?e c len addr no_flags s = (Inr (from_target ?e b), s2) \<and> machine_view addr len s2 \<and>
        dev s2 = (dev s)\<lparr>other_state := y\<rparr>"
      using True len sp view
      by (intro exI [of _ s] exI [of _ "other_state (dev s)"])
        (simp add: mmu_load_def bindM_def host_load_def returnM_def sim_env_fields b_def Let_def)
  next
    case False
    obtain y1 where y1: "check_triggers ?e OPERATION_LOAD addr False addr None s = (Inr (), s\<lparr>dev := (dev s)\<lparr>other_state := y1\<rparr>\<rparr>)"
      using no_triggers [OF quiet] by blast
    let ?s = "s\<lparr>dev := (dev s)\<lparr>other_state := y1\<rparr>\<rparr>"
    obtain s2 z where s2: "load_slow_path_intrapage ?e c len (machine_access addr LOAD) ?s = (Inr b, s2)" "machine_view addr len s2"
      "dev s2 = (dev ?s)\<lparr>other_state := z\<rparr>"
      using machine_load_page [of addr len ?s c io cfg h] view x mem rd by (auto simp: machine_view_dev sim_addr_other)
    obtain y2 where y2: "check_data_triggers ?e OPERATION_LOAD addr False b s2 = (Inr (), s2\<lparr>dev := (dev s2)\<lparr>other_state := y2\<rparr>\<rparr>)"
      using no_data_triggers [OF quiet lb] by blast
    have "mmu_load ?e c len addr no_flags s = (Inr (from_target ?e b), s2\<lparr>dev := (dev s2)\<lparr>other_state := y2\<rparr>\<rparr>)"
      using False len y1 s2(1) y2 machine_info [OF view x, of LOAD]
      by (simp add: mmu_load_def load_slow_path_def bindM_def thenM_def machine_access_def returnM_def Let_def)
    then show "\<exists>s2 y. mmu_load ?e c len addr no_flags s = (Inr (from_target ?e b), s2) \<and> machine_view addr len s2 \<and>
        dev s2 = (dev s)\<lparr>other_state := y\<rparr>"
      using s2(2,3) by (auto simp: machine_view_dev)
  qed
qed

text \<open>C6: on a 64-bit hart in machine mode, with mstatus.MPRV clear (so that data accesses are not made with the
  privilege of MPP) and pointer masking off in mseccfg, with memory at an aligned address that the memory
  protection opens, and no trigger that fires, a store of 1, 2, 4 or 8 bytes succeeds, and a load of the same
  address and size that follows it gives the stored bytes back, whatever is in the lookaside buffer, the
  tracers or the byte order, as long as the buffer maps pages to themselves; that is still so afterwards.\<close>

theorem machine_store_load:
  assumes view: "machine_view addr len s" and x: "xlen c = 64" and len: "len \<in> {1, 2, 4, 8}" "\<not> misaligned addr len"
    and mem: "sim_addr_to_mem addr (dev s)" and quiet: "\<forall>op a d s. fst (other_detect io op a d s) = None"
  shows "\<exists>s1 s2. mmu_store (sim_env io cfg h) c len addr v no_flags s = (Inr (), s1) \<and>
    mmu_load (sim_env io cfg h) c len addr no_flags s1 = (Inr (take_bit (8 * len) v), s2) \<and> machine_view addr len s2"
proof -
  let ?e = "sim_env io cfg h" and ?b = "to_target (sim_env io cfg h) len v"
  obtain s1 y where st: "mmu_store ?e c len addr v no_flags s = (Inr (), s1)" "machine_view addr len s1"
    "dev s1 = (sim_host_write addr ?b (dev s))\<lparr>other_state := y\<rparr>"
    using machine_store [OF view x len mem quiet] by blast
  have rd: "sim_host_read addr len (dev s1) = ?b"
    using host_read_write [OF mem, of ?b y] by (simp add: st(3))
  have "sim_addr_to_mem addr (dev s1)" using mem by (simp add: st(3) sim_addr_to_mem_def mem_at_other mem_at_write)
  from machine_load [OF st(2) x len this quiet, of cfg h] rd
  obtain s2 where "mmu_load ?e c len addr no_flags s1 = (Inr (from_target ?e ?b), s2)" "machine_view addr len s2" by auto
  then show ?thesis using st(1) by (auto simp: from_to_target)
qed

section \<open>Store-conditional\<close>

lemma machine_view_reservation: "machine_view a n (s\<lparr>load_reservation_address := r\<rparr>) = machine_view a n s"
proof -
  have "pmp_ok a n t m h (s\<lparr>load_reservation_address := r\<rparr>) = pmp_ok a n t m h s" for t m h by (rule pmp_ok_cong) simp_all
  then show ?thesis by (simp add: machine_view_def in_mprv_def tlb_identity_def mstatus_read_def)
qed

text \<open>An access that the memory protection grants is granted for its first byte.\<close>

lemma pmp_scan_first:
  "pmp_scan is [a, b] type m h s = r \<Longrightarrow> r \<noteq> Some False \<Longrightarrow> pmp_scan is [a] type m h s = r"
  by (induction "is") (auto simp: Let_def split: if_splits)

lemma pmp_ok_first:
  assumes "pmp_ok addr len type m h s" "len \<in> {4, 8}"
  shows "pmp_ok addr 1 type m h s"
proof -
  have l: "pmp_sectors addr 1 = [addr]" "pmp_sectors addr 4 = [addr]" "pmp_sectors addr 8 = [addr, addr + 4]"
    by (simp_all add: pmp_sectors_def upt_rec)
  show ?thesis
  proof (cases "len = 8")
    case True
    have "pmp_scan is [addr, addr + 4] type m h s \<noteq> Some False \<Longrightarrow>
        pmp_scan is [addr] type m h s = pmp_scan is [addr, addr + 4] type m h s" for "is"
      using pmp_scan_first by blast
    then show ?thesis using assms(1) True by (auto simp: pmp_ok_def l [simplified] split: option.splits if_splits)
  qed (use assms in \<open>auto simp: pmp_ok_def l [simplified]\<close>)
qed

lemma machine_view_first: "machine_view addr len s \<Longrightarrow> len \<in> {4, 8} \<Longrightarrow> machine_view addr 1 s"
  using pmp_ok_first unfolding machine_view_def by blast

lemma machine_conditional:
  assumes view: "machine_view addr len s" and x: "xlen c = 64" and len: "len \<in> {4, 8}" "\<not> misaligned addr len"
    and mem: "sim_addr_to_mem addr (dev s)"
  shows "store_conditional (sim_env io cfg h) c len addr v s =
    (if load_reservation_address s = addr
     then (case mmu_store (sim_env io cfg h) c len addr v no_flags s of
        (Inl e, s1) \<Rightarrow> (Inl e, s1) | (Inr _, s1) \<Rightarrow> (Inr True, s1\<lparr>load_reservation_address := - 1\<rparr>))
     else (Inr False, s\<lparr>load_reservation_address := - 1\<rparr>))"
proof -
  have i: "generate_access_info c addr STORE no_flags s = (Inr (machine_access addr STORE), s)"
    by (rule machine_info [OF view x]) simp
  have t: "translate (sim_env io cfg h) c (machine_access addr STORE) 1 s = (Inr addr, s)"
    by (rule machine_translate [OF machine_view_first [OF view len(1)] x]) simp
  show ?thesis using len(2) mem
    by (simp add: store_conditional_def check_load_reservation_def i t [simplified] thenM_def bindM_def returnM_def modifyM_def
        yield_load_reservation_def sim_env_fields split: prod.split sum.split)
qed


section \<open>The boot ROM\<close>

lemma value_bytes_add: "value_bytes (m + n) v = value_bytes m v @ value_bytes n (drop_bit (8 * m) v)"
  by (induction m arbitrary: v) (simp_all add: ac_simps)

lemma value_bytes_take: "8 * n \<le> k \<Longrightarrow> value_bytes n (take_bit k v) = value_bytes n v"
proof (induction n arbitrary: k v)
  case (Suc n)
  have "ucast (take_bit k v) = (ucast v :: u8)" using Suc.prems by (intro bit_word_eqI) (auto simp: bit_simps)
  moreover have "drop_bit 8 (take_bit k v) = take_bit (k - 8) (drop_bit 8 v)" using Suc.prems by (intro bit_word_eqI) (auto simp: bit_simps)
  ultimately show ?case using Suc.IH [of "k - 8" "drop_bit 8 v"] Suc.prems by simp
qed simp

lemma word_le_ucast: "word_le (ucast v) = value_bytes 4 v"
proof -
  have "ucast (ucast v :: u32) = take_bit 32 v" by (rule bit_word_eqI) (auto simp: bit_simps)
  then show ?thesis unfolding word_le_def by (simp only: value_bytes_take [of 4 32 v])
qed

lemma pc_words:
  "word_le (ucast (start AND 0xffffffff)) = value_bytes 4 start" "word_le (ucast (drop_bit 32 start)) = value_bytes 4 (drop_bit 32 start)"
proof -
  have "start AND 0xffffffff = take_bit 32 start" by (simp add: take_bit_eq_mask mask_eq_exp_minus_1)
  then show "word_le (ucast (start AND 0xffffffff)) = value_bytes 4 start"
    unfolding word_le_ucast by (simp only: value_bytes_take [of 4 32 start])
qed (rule word_le_ucast)

lemma length_word_le [simp]: "length (word_le w) = 4"
  by (simp add: word_le_def)

text \<open>The bytes of the vector: five instructions, a gap, and the start address.\<close>

definition start_bytes :: "bool \<Rightarrow> nat \<Rightarrow> u64 \<Rightarrow> u8 list" where
  "start_bytes big xl start =
    (let lo = value_bytes 4 start; hi = value_bytes 4 (drop_bit 32 start)
     in if \<not> big then lo @ hi else if xl = 32 then rev lo @ rev hi else rev hi @ rev lo)"

lemma reset_bytes_eq:
  "reset_bytes big xl start =
    concat (map word_le [0x297, 0x02028593, 0xf1402573, if xl = 32 then 0x0182a283 else 0x0182b283, 0x28067])
      @ replicate 4 0 @ start_bytes big xl start"
proof -
  have z: "word_le 0 = replicate 4 0" by (simp add: word_le_def numeral_eq_Suc)
  have s: "(0x28593 + push_bit 20 (of_nat (reset_vec_size * 4)) :: u32) = 0x02028593" by (simp add: reset_vec_size_def)
  show ?thesis
    unfolding reset_bytes_def reset_vec_def Let_def s start_bytes_def
    by (cases big; cases "xl = 32") (simp_all add: pc_words z)
qed

lemma length_start_bytes [simp]: "length (start_bytes big xl start) = 8"
  by (simp add: start_bytes_def Let_def)

lemma length_reset_bytes: "length (reset_bytes big xl start) = 32"
  by (simp add: reset_bytes_eq)

lemma rom_slice:
  assumes "n + k \<le> length rom" "length rom < 2 ^ 63"
  shows "rom_load (of_nat n) k rom = Done (take k (drop n rom))"
proof -
  have u: "unat (of_nat n :: u64) = n" using assms by (simp add: unat_of_nat take_bit_eq_mod)
  have "(of_nat n + of_nat k :: u64) = of_nat (n + k)" by (simp only: of_nat_add)
  moreover have "(of_nat (n + k) :: u64) \<le> of_nat (length rom)"
    using assms by (simp add: word_le_nat_alt unat_of_nat take_bit_eq_mod del: of_nat_add)
  ultimately have "\<not> of_nat n + of_nat k > (of_nat (length rom) :: u64)" by simp
  then show ?thesis unfolding rom_load_def u using assms by (simp add: list_eq_iff_nth_eq)
qed

text \<open>The boot ROM is a whole number of pages; its first twenty bytes are the five instructions of
  the reset vector in little-endian order on a machine of either byte order, the word or doubleword at
  offset 24, which they load, is the start address in the byte order of the machine, and the device
  tree starts at offset 32, where they leave the pointer to it.\<close>

lemma boot_rom_layout:
  assumes "length dtb < 2 ^ 62"
  shows "length (rom_image big xl start dtb) mod 0x1000 = 0 \<and>
    rom_load 0 20 (rom_image big xl start dtb) = Done (concat (map word_le
      [0x297, 0x02028593, 0xf1402573, if xl = 32 then 0x0182a283 else 0x0182b283, 0x28067])) \<and>
    rom_load 24 4 (rom_image big 32 start dtb) = Done ((if big then rev else id) (value_bytes 4 start)) \<and>
    rom_load 24 8 (rom_image big 64 start dtb) = Done ((if big then rev else id) (value_bytes 8 start)) \<and>
    rom_load 32 (length dtb) (rom_image big xl start dtb) = Done dtb"
proof -
  have sz: "length (rom_image big xl start dtb) = (length dtb + 4127) div 4096 * 4096" for xl
  proof -
    have "length dtb + 32 \<le> (length dtb + 4127) div 4096 * 4096" by simp
    then show ?thesis unfolding rom_image_def Let_def by (simp add: length_reset_bytes add.commute)
  qed
  have big: "length (rom_image big xl start dtb) < 2 ^ 63" "length dtb + 32 \<le> length (rom_image big xl start dtb)" for xl
    using assms unfolding sz by simp_all
  define pad where "pad xl = replicate ((length (reset_bytes big xl start @ dtb) + 0x1000 - 1) div 0x1000 * 0x1000 - length (reset_bytes big xl start @ dtb)) (0::u8)" for xl
  have rom: "rom_image big xl start dtb = reset_bytes big xl start @ dtb @ pad xl" for xl
    unfolding rom_image_def Let_def pad_def by (simp only: append_assoc)
  have ld: "n + k \<le> 32 + length dtb \<Longrightarrow> rom_load (of_nat n) k (rom_image big xl start dtb) =
      Done (take k (drop n (reset_bytes big xl start @ dtb @ pad xl)))" for n k xl
    using rom_slice [of n k "rom_image big xl start dtb"] big [of xl] unfolding rom [symmetric] by simp
  have v8: "value_bytes 8 start = value_bytes 4 start @ value_bytes 4 (drop_bit 32 start)"
    using value_bytes_add [of 4 4 start] by simp
  have "rom_load 0 20 (rom_image big xl start dtb) = Done (concat (map word_le
      [0x297, 0x02028593, 0xf1402573, if xl = 32 then 0x0182a283 else 0x0182b283, 0x28067]))"
    using ld [of 0 20 xl] by (simp add: reset_bytes_eq)
  moreover have "rom_load 24 4 (rom_image big 32 start dtb) = Done ((if big then rev else id) (value_bytes 4 start))"
    using ld [of 24 4 32] by (simp add: reset_bytes_eq start_bytes_def Let_def)
  moreover have "rom_load 24 8 (rom_image big 64 start dtb) = Done ((if big then rev else id) (value_bytes 8 start))"
    using ld [of 24 8 64] by (simp add: reset_bytes_eq start_bytes_def v8 Let_def)
  moreover have "rom_load 32 (length dtb) (rom_image big xl start dtb) = Done dtb"
    using ld [of 32 "length dtb" xl] by (simp add: length_reset_bytes)
  ultimately show ?thesis using sz by simp
qed

end
