(* ===== verification/MemoryWitnesses.thy ===== *)
theory MemoryWitnesses
  imports MemoryFacts Reset
begin

text \<open>
  A small machine on which the properties of the MMU and of memory are seen to apply: one hart in machine
  mode, one page of memory, and devices that do nothing.
\<close>

definition quiet_io :: "unit other_io" where
  "quiet_io = \<lparr>other_load = (\<lambda>k a n x. (Refused, x)), other_store = (\<lambda>k a b x. (Refused, x)), other_tick = (\<lambda>k t x. x),
    other_detect = (\<lambda>op a d s. (None, ())), other_interested = (\<lambda>p q t x. False), other_trace = (\<lambda>p n t x. x),
    other_clean = (\<lambda>p n c i x. x)\<rparr>"

definition small_board :: "unit board" where
  "small_board = \<lparr>bus_map = [(0x80000000, On_mem 0)], mems = (\<lambda>_. \<lparr>sparse_memory_map = (\<lambda>_. None), mem_sz = 0x1000\<rparr>),
    clint_dev = \<lparr>clint_harts = [], freq_hz = 0, real_time = False, real_time_ref_secs = 0, real_time_ref_usecs = 0, mtime = 0,
      mtimecmp = (\<lambda>_. 0)\<rparr>,
    plic_dev = plic_new [] 1, uart_dev = ns16550_new 1 0 1 0, rom_data = [],
    hart_ports = (\<lambda>_. \<lparr>port_mip = 0, port_time = 0, port_sstc = False, port_stimecmp = 0, port_vstimecmp = 0,
      port_htimedelta = 0, port_menvcfg = 0, port_henvcfg = 0\<rparr>), time_of_day = (0, 0), other_state = ()\<rparr>"

definition small_cfg :: mmu_cfg where
  "small_cfg = \<lparr>cfg_misaligned = False, cfg_big_endian = False, cfg_blocksz = 64\<rparr>"

definition small_hart :: "unit board hart" where
  "small_hart = flush_tlb (hart_reset (ctx_full 64 0 0) (cfg_full\<lparr>pmpregions := 0\<rparr>) small_board)"

lemma small_hart_regs:
  "prv small_hart = PRV_M" "\<not> virt small_hart" "\<not> in_mprv small_hart" "mseccfg_val small_hart = 0" "n_pmp small_hart = 0"
  "tlb_load_tag small_hart = (\<lambda>_. - 1)" "tlb_store_tag small_hart = (\<lambda>_. - 1)" "tlb_insn_tag small_hart = (\<lambda>_. - 1)"
  "dev small_hart = small_board" "matched_trigger small_hart = None" "load_reservation_address small_hart = - 1"
  "satp_val small_hart = 0"
  by (simp_all add: small_hart_def flush_tlb_def flush_icache_def hart_reset_def hart_blank_def Let_def in_mprv_def
      ctx_full_def get_field_def mstatus_read_def cfg_full_def)

lemma small_board_mem: "mem_at 0x80000000 small_board = Some (0, 0)"
  by (simp add: mem_at_def find_device_def small_board_def)

lemma small_hart_view: "machine_view a n small_hart"
  using tag_vpn_none by (simp add: machine_view_def small_hart_regs get_field_def pmp_ok_def tlb_identity_def)

text \<open>A load of the small machine fills a slot of its lookaside buffer.\<close>

lemma small_load:
  "tlb_load_tag (serve (sim_env quiet_io small_cfg 0) (ctx_full 64 0 0) (Req_load 4 0x80000000 no_flags) small_hart) 0 = 0x80000"
proof -
  let ?e = "sim_env quiet_io small_cfg 0" and ?c = "ctx_full 64 0 0"
  have x: "xlen ?c = 64" by (simp add: ctx_full_def)
  have i: "generate_access_info ?c 0x80000000 LOAD no_flags small_hart = (Inr (machine_access 0x80000000 LOAD), small_hart)"
    by (rule machine_info [OF small_hart_view x]) simp
  have tr: "translate ?e ?c (machine_access 0x80000000 LOAD) 4 small_hart = (Inr 0x80000000, small_hart)"
    by (rule machine_translate [OF small_hart_view x]) simp
  have m: "\<not> misaligned 0x80000000 4" by (simp add: misaligned_def)
  have v: "vpn_of 0x80000000 = 0x80000" "tlb_idx 0x80000 = 0" by (simp_all add: vpn_of_def PGSHIFT_def tlb_idx_def TLB_ENTRIES_def)
  have d: "check_triggers ?e op a w tv dt s = (Inr (), s)" for op a w tv dt and s :: "unit board hart"
    by (simp add: check_triggers_def sim_env_def quiet_io_def returnM_def)
  have dd: "check_data_triggers ?e op a w bytes s = (Inr (), s)" if "length bytes = 4" for op a w bytes and s :: "unit board hart"
    by (subst check_data_triggers.simps) (simp add: reg_from_bytes_def that d)
  have host: "length (sim_host_read p 4 b) = 4" for p and b :: "unit board"
    by (simp add: sim_host_read_def Let_def split: option.split)
  have sp: "\<not> is_special_access no_flags" "\<not> lr no_flags" by (simp_all add: is_special_access_def no_flags_def)
  have io: "interested_in_range ?e p q t b = False" for p q t b by (simp add: sim_env_def quiet_io_def)
  have ma: "transformed_vaddr (machine_access a t) = a" "vaddr (machine_access a t) = a" "effective_virt (machine_access a t) = False"
    "acc_flags (machine_access a t) = no_flags" for a t by (simp_all add: machine_access_def)
  have no: "vpn_of 0x80000000 \<noteq> tag_vpn (- 1)" by (rule tag_vpn_none)
  define s1 where "s1 = (set_tag LOAD 0 0x80000 (clear_other_tags 0 0x80000 small_hart))\<lparr>tlb_data := (tlb_data small_hart)(0 := 0)\<rparr>"
  have tags: "\<not> triggers_checked LOAD (clear_other_tags 0 0x80000 small_hart)"
    by (simp add: triggers_checked_def clear_other_tags_def small_hart_def flush_tlb_def flush_icache_def hart_reset_def hart_blank_def Let_def)
  have n: "n_pmp (clear_other_tags 0 0x80000 small_hart) = 0" "tlb_data (clear_other_tags 0 0x80000 small_hart) = tlb_data small_hart"
    by (simp_all add: clear_other_tags_def small_hart_regs)
  have rf: "refill_tlb 0x80000000 0x80000000 LOAD small_hart = (Inr 0, s1)"
    using tags n by (simp add: refill_tlb_def small_hart_regs v pmp_homogeneous_def PGSIZE_def returnM_def s1_def set_tag_def Let_def)
  have ip: "load_slow_path_intrapage ?e ?c 4 (machine_access 0x80000000 LOAD) small_hart =
      (Inr (sim_host_read 0x80000000 4 small_board), s1)"
    using no by (simp add: load_slow_path_intrapage_def ma sp io small_hart_regs tr rf bindM_def host_load_def returnM_def sim_env_fields
        sim_addr_to_mem_def small_board_mem Let_def)
  have "mmu_load ?e ?c 4 0x80000000 no_flags small_hart = (Inr (from_target ?e (sim_host_read 0x80000000 4 small_board)), s1)"
    using m v no i by (simp add: mmu_load_def load_slow_path_def bindM_def thenM_def returnM_def small_hart_regs ma ip d dd host Let_def)
  then show ?thesis by (simp add: s1_def set_tag_def)
qed

theorem tlb_slots_agree_witness:
  "tag_vpn 0x80000 < (2 :: u64) ^ 52 \<and> tlb_idx (tag_vpn 0x80000) = 0"
proof -
  let ?s = "serve (sim_env quiet_io small_cfg 0) (ctx_full 64 0 0) (Req_load 4 0x80000000 no_flags) (flush_tlb small_hart)"
  have f: "flush_tlb small_hart = small_hart" by (simp add: small_hart_def flush_tlb_def flush_icache_def)
  have "0x80000 \<in> slot_tags ?s 0" unfolding f using small_load by (simp add: slot_tags_def)
  moreover have "?s = fold (serve (sim_env quiet_io small_cfg 0) (ctx_full 64 0 0)) [Req_load 4 0x80000000 no_flags] (flush_tlb small_hart)"
    by simp
  moreover have "xlen (ctx_full 64 0 0) \<in> {32, 64}" by (simp add: ctx_full_def)
  ultimately show ?thesis using tlb_slots_agree by blast
qed

theorem machine_store_load_witness:
  "\<exists>s1 s2. mmu_store (sim_env quiet_io small_cfg 0) (ctx_full 64 0 0) 4 0x80000010 0x1122334455 no_flags small_hart = (Inr (), s1) \<and>
    mmu_load (sim_env quiet_io small_cfg 0) (ctx_full 64 0 0) 4 0x80000010 no_flags s1 = (Inr (take_bit (8 * 4) 0x1122334455), s2) \<and>
    machine_view 0x80000010 4 s2"
proof -
  have "sim_addr_to_mem 0x80000010 (dev small_hart)"
    by (simp add: sim_addr_to_mem_def mem_at_def find_device_def small_hart_regs) (simp add: small_board_def)
  then show ?thesis
    by (rule machine_store_load [OF small_hart_view, rotated 3]) (simp_all add: ctx_full_def misaligned_def quiet_io_def)
qed

theorem atomic_faults_witness: "which (trap_store_address_misaligned False 0x80000001 0 0) \<in> {6, 7, 15, 23}"
proof -
  have x: "xlen (ctx_full 64 0 0) = 64" by (simp add: ctx_full_def)
  have i: "generate_access_info (ctx_full 64 0 0) 0x80000001 STORE no_flags small_hart = (Inr (machine_access 0x80000001 STORE), small_hart)"
    by (rule machine_info [OF small_hart_view x]) simp
  have "amo (sim_env quiet_io small_cfg 0) (ctx_full 64 0 0) 4 0x80000001 id small_hart =
      (Inl (Trap (trap_store_address_misaligned False 0x80000001 0 0)), small_hart)"
    by (simp add: amo_def convert_load_traps_to_store_traps_def store_slow_path_def i thenM_def bindM_def machine_access_def
        misaligned_def store_misaligned_def sim_env_def small_cfg_def throwM_def returnM_def store_trap_of_def
        trap_store_address_misaligned_def mem_trap_def Let_def)
  then have "fst (amo (sim_env quiet_io small_cfg 0) (ctx_full 64 0 0) 4 0x80000001 id small_hart) =
      Inl (Trap (trap_store_address_misaligned False 0x80000001 0 0))" by simp
  then show ?thesis using atomic_faults [where c = "ctx_full 64 0 0" and io = quiet_io and cfg = small_cfg and h = 0 and len = 4 and addr = "0x80000001" and f = id and s = small_hart] x by simp
qed

theorem translation_faults_witness: "which (trap_load_access_fault False 0x80000000 0 0) \<in> fault_codes LOAD"
proof -
  let ?a = "\<lparr>vaddr = 0x80000000, transformed_vaddr = 0x80000000, effective_priv = PRV_S, effective_virt = False,
    acc_flags = no_flags, acc_type = LOAD\<rparr>"
  let ?s = "small_hart\<lparr>n_pmp := 1, pmpaddr_cfg := (\<lambda>_. 0)\<rparr>"
  have p: "\<not> pmp_ok a n LOAD PRV_S False ?s" for a n
    by (simp add: pmp_ok_def match4_def list_ex_iff prv_defs)
  have "translate (sim_env quiet_io small_cfg 0) (ctx_full 64 0 0) ?a 4 ?s =
      (Inl (Trap (trap_load_access_fault False 0x80000000 0 0)), ?s)"
    using p by (simp add: translate_def walk_def decode_vm_info_def prv_defs ctx_full_def satp_readvirt_def small_hart_regs
        get_field_def vm_bare_def no_flags_def s2xlate_def data_access_def bindM_def returnM_def throw_access_exception_def throwM_def Let_def)
  then have "fst (translate (sim_env quiet_io small_cfg 0) (ctx_full 64 0 0) ?a 4 ?s) =
      Inl (Trap (trap_load_access_fault False 0x80000000 0 0))" by simp
  from translation_faults [OF _ _ _ _ this] show ?thesis by (simp add: ctx_full_def no_flags_def)
qed

theorem noncanonical_address_faults_witness:
  "\<exists>t. walk (sim_env quiet_io small_cfg 0) (ctx_full 64 0 0) \<lparr>vaddr = 0x4000000000, transformed_vaddr = 0x4000000000,
      effective_priv = PRV_S, effective_virt = False, acc_flags = no_flags, acc_type = FETCH\<rparr>
      (small_hart\<lparr>satp_val := 0x8000000000080000\<rparr>) = (Inl (Trap t), small_hart\<lparr>satp_val := 0x8000000000080000\<rparr>) \<and>
    which t = CAUSE_FETCH_PAGE_FAULT"
proof -
  have s: "sext 0x4000000000 39 \<noteq> 0x4000000000" by (simp add: sext_def)
  show ?thesis
    using noncanonical_address_faults [of "ctx_full 64 0 0" "\<lparr>vaddr = 0x4000000000, transformed_vaddr = 0x4000000000,
      effective_priv = PRV_S, effective_virt = False, acc_flags = no_flags, acc_type = FETCH\<rparr>"
      "small_hart\<lparr>satp_val := 0x8000000000080000\<rparr>" 3 "sim_env quiet_io small_cfg 0"] s
    by (simp add: ctx_full_def satp_readvirt_def get_field_def no_flags_def) blast
qed

text \<open>The small machine with its memory reserved.\<close>

definition reserved_hart :: "unit board hart" where
  "reserved_hart = small_hart\<lparr>load_reservation_address := 0x80000000\<rparr>"

lemma reserved_hart_view: "machine_view a n reserved_hart"
  unfolding reserved_hart_def machine_view_reservation by (rule small_hart_view)

lemma reserved_hart_mem: "sim_addr_to_mem 0x80000000 (dev reserved_hart)"
  by (simp add: reserved_hart_def sim_addr_to_mem_def small_hart_regs small_board_mem)

lemma small_io: "\<forall>op a d s. fst (other_detect quiet_io op a d s) = None"
  by (simp add: quiet_io_def)

theorem store_conditional_once_witness:
  "\<exists>s1 s2. store_conditional (sim_env quiet_io small_cfg 0) (ctx_full 64 0 0) 4 0x80000000 7 reserved_hart =
      (Inr True, s2\<lparr>load_reservation_address := - 1\<rparr>) \<and>
    mmu_store (sim_env quiet_io small_cfg 0) (ctx_full 64 0 0) 4 0x80000000 7 no_flags s1 = (Inr (), s2)"
proof -
  let ?e = "sim_env quiet_io small_cfg 0" and ?c = "ctx_full 64 0 0"
  have x: "xlen ?c = 64" by (simp add: ctx_full_def)
  have m: "\<not> misaligned 0x80000000 4" by (simp add: misaligned_def)
  have r: "load_reservation_address reserved_hart = 0x80000000" by (simp add: reserved_hart_def)
  obtain t where t: "mmu_store ?e ?c 4 0x80000000 7 no_flags reserved_hart = (Inr (), t)"
    using machine_store [OF reserved_hart_view x _ m reserved_hart_mem small_io, of small_cfg 0 7] by auto
  have sc: "store_conditional ?e ?c 4 0x80000000 7 reserved_hart = (Inr True, t\<lparr>load_reservation_address := - 1\<rparr>)"
    using machine_conditional [OF reserved_hart_view x _ m reserved_hart_mem, of quiet_io small_cfg 0 7] r t by simp
  from store_conditional_once [OF m sc] sc show ?thesis by auto
qed


lemma boot_rom_layout_witness:
  "rom_load 24 8 (rom_image False 64 0x80000000 [1, 2, 3]) = Done (value_bytes 8 0x80000000) \<and>
   rom_load 32 3 (rom_image False 64 0x80000000 [1, 2, 3]) = Done [1, 2, 3]"
  using boot_rom_layout [where dtb = "[1, 2, 3]" and big = False and xl = 64 and start = "0x80000000"] by (simp add: numeral_3_eq_3)

lemma leaf_keeps_offset_witness:
  "bit (0x80001234 :: u64) 31 \<longleftrightarrow> bit (pte_ppn 0x200000CF) 19"
  using leaf_keeps_offset [where addr = "0x40001234" and i = 1 and ptshift = 9 and pte = "0x200000CF" and p = "0x80001234" and n = 31]
  by (simp add: leaf_phys_def pte_ppn_def PTE_PPN_SHIFT_def PGSHIFT_def low_mask_def Let_def)

end
