(* ===== verification/InsnMem.thy ===== *)
theory InsnMem
  imports InsnC MemAccess
begin

text \<open>
  The instructions of \<^verbatim>\<open>riscv/insns\<close> that access memory: loads and stores of
  the integer and the floating-point registers, atomic operations, accesses to the memory of a
  guest, their compressed forms, push and pop, table jumps, shadow stacks and cache blocks.
\<close>

section \<open>Conversions and registers\<close>

definition int8_t :: "u64 \<Rightarrow> u64" where [macros]: "int8_t v = scast (ucast v :: u8)"
definition int16_t :: "u64 \<Rightarrow> u64" where [macros]: "int16_t v = scast (ucast v :: u16)"

definition FRS2 :: "ctx \<Rightarrow> 'd hart \<Rightarrow> freg_t" where "FRS2 c s = READ_FREG (insn_rs2 (insn_bits c)) s"
definition RVC_FRS2 :: "ctx \<Rightarrow> 'd hart \<Rightarrow> freg_t" where "RVC_FRS2 c s = READ_FREG (rvc_rs2 (insn_bits c)) s"
definition RVC_FRS2S :: "ctx \<Rightarrow> 'd hart \<Rightarrow> freg_t" where "RVC_FRS2S c s = READ_FREG (rvc_rs2s (insn_bits c)) s"
definition WRITE_RVC_FRS2S :: "ctx \<Rightarrow> freg_t \<Rightarrow> ('d hart, unit) M" where
  "WRITE_RVC_FRS2S c v = DO_WRITE_FREG c (rvc_rs2s (insn_bits c)) v"

definition RS2_PAIR :: "ctx \<Rightarrow> ('d hart, u64) M" where
  [macros]: "RS2_PAIR c = READ_REG_PAIR c (insn_rs2 (insn_bits c))"
definition RVC_RS2_PAIR :: "ctx \<Rightarrow> ('d hart, u64) M" where
  [macros]: "RVC_RS2_PAIR c = READ_REG_PAIR c (rvc_rs2 (insn_bits c))"
definition RVC_RS2S_PAIR :: "ctx \<Rightarrow> ('d hart, u64) M" where
  [macros]: "RVC_RS2S_PAIR c = READ_REG_PAIR c (rvc_rs2s (insn_bits c))"
definition WRITE_RVC_RS2S_PAIR :: "ctx \<Rightarrow> ('d hart, u64) M \<Rightarrow> ('d hart, unit) M" where
  [macros]: "WRITE_RVC_RS2S_PAIR c v = WRITE_REG_PAIR c (rvc_rs2s (insn_bits c)) v"

text \<open>\<^verbatim>\<open>DECLARE_XENVCFG_VARS\<close> and \<^verbatim>\<open>require_envcfg\<close> for the field with
  the given mask.\<close>

definition require_envcfg_field :: "ctx \<Rightarrow> u64 \<Rightarrow> ('d hart, 'a) M \<Rightarrow> ('d hart, 'a) M" where
  [macros]: "require_envcfg_field c field k s =
    require_envcfg c (get_field (menvcfg_val s) field) (get_field (senvcfg_read s) field) (get_field (henvcfg_read s) field) k s"

text \<open>\<^verbatim>\<open>std::min\<close> and \<^verbatim>\<open>std::max\<close> with the order of the operands' type: signed
  or unsigned, of the given width.\<close>

definition std_min :: "(u64 \<Rightarrow> u64 \<Rightarrow> bool) \<Rightarrow> u64 \<Rightarrow> u64 \<Rightarrow> u64" where
  "std_min lt a b = (if lt b a then b else a)"
definition std_max :: "(u64 \<Rightarrow> u64 \<Rightarrow> bool) \<Rightarrow> u64 \<Rightarrow> u64 \<Rightarrow> u64" where
  "std_max lt a b = (if lt a b then b else a)"
definition sless_of :: "nat \<Rightarrow> u64 \<Rightarrow> u64 \<Rightarrow> bool" where
  "sless_of w a b \<longleftrightarrow> word_sless (sext a w) (sext b w)"
definition less_of :: "nat \<Rightarrow> u64 \<Rightarrow> u64 \<Rightarrow> bool" where
  "less_of w a b \<longleftrightarrow> zext a w < zext b w"

text \<open>The operands of \<^verbatim>\<open>amocas.d\<close> on a 32-bit hart, in the byte order of the target.\<close>

definition pair_value :: "'d mmu_env \<Rightarrow> u64 \<Rightarrow> 'd hart \<Rightarrow> u64" where
  "pair_value e r s =
    (if r = 0 then 0
     else if target_big_endian e then zext32 (READ_REG (r + 1) s) OR push_bit 32 (READ_REG r s)
     else zext32 (READ_REG r s) OR push_bit 32 (READ_REG (r + 1) s))"

definition write_pair :: "'d mmu_env \<Rightarrow> u64 \<Rightarrow> u64 \<Rightarrow> ('d hart, unit) M" where
  "write_pair e r res =
    (if r = 0 then returnM ()
     else if target_big_endian e
     then thenM (WRITE_REG (r + 1) (sext32 res)) (WRITE_REG r (sext32 (drop_bit 32 res)))
     else thenM (WRITE_REG r (sext32 res)) (WRITE_REG (r + 1) (sext32 (drop_bit 32 res))))"

section \<open>Loads and stores\<close>

definition insn_lb :: "'d mmu_env \<Rightarrow> ctx \<Rightarrow> ('d hart, unit) M" where
  [insns]: "insn_lb e c s =
    (bindM (mmu_load e c 1 (RS1 c s + i_imm (insn_bits c)) no_flags) (\<lambda>v. WRITE_RD c (int8_t v)) s)"

definition insn_lbu :: "'d mmu_env \<Rightarrow> ctx \<Rightarrow> ('d hart, unit) M" where
  [insns]: "insn_lbu e c s =
    (bindM (mmu_load e c 1 (RS1 c s + i_imm (insn_bits c)) no_flags) (\<lambda>v. WRITE_RD c v) s)"

definition insn_lh :: "'d mmu_env \<Rightarrow> ctx \<Rightarrow> ('d hart, unit) M" where
  [insns]: "insn_lh e c s =
    (bindM (mmu_load e c 2 (RS1 c s + i_imm (insn_bits c)) no_flags) (\<lambda>v. WRITE_RD c (int16_t v)) s)"

definition insn_lhu :: "'d mmu_env \<Rightarrow> ctx \<Rightarrow> ('d hart, unit) M" where
  [insns]: "insn_lhu e c s =
    (bindM (mmu_load e c 2 (RS1 c s + i_imm (insn_bits c)) no_flags) (\<lambda>v. WRITE_RD c v) s)"

definition insn_lw :: "'d mmu_env \<Rightarrow> ctx \<Rightarrow> ('d hart, unit) M" where
  [insns]: "insn_lw e c s =
    (bindM (mmu_load e c 4 (RS1 c s + i_imm (insn_bits c)) no_flags) (\<lambda>v. WRITE_RD c (sext32 v)) s)"

definition insn_lwu :: "'d mmu_env \<Rightarrow> ctx \<Rightarrow> ('d hart, unit) M" where
  [insns]: "insn_lwu e c s =
    (require_rv64 c (\<lambda>s. bindM (mmu_load e c 4 (RS1 c s + i_imm (insn_bits c)) no_flags) (\<lambda>v. WRITE_RD c v) s) s)"

definition insn_ld :: "'d mmu_env \<Rightarrow> ctx \<Rightarrow> ('d hart, unit) M" where
  [insns]: "insn_ld e c s =
    (require c (xlen c = 64 \<or> extension_enabled s EXT_ZILSD) (\<lambda>s. if xlen c = 32
       then WRITE_RD_PAIR c (mmu_load e c 8 (RS1 c s + i_imm (insn_bits c)) no_flags) s
       else bindM (mmu_load e c 8 (RS1 c s + i_imm (insn_bits c)) no_flags) (WRITE_RD c) s) s)"

definition insn_sb :: "'d mmu_env \<Rightarrow> ctx \<Rightarrow> ('d hart, unit) M" where
  [insns]: "insn_sb e c s =
    (mmu_store e c 1 (RS1 c s + s_imm (insn_bits c)) (RS2 c s) no_flags s)"

definition insn_sh :: "'d mmu_env \<Rightarrow> ctx \<Rightarrow> ('d hart, unit) M" where
  [insns]: "insn_sh e c s =
    (mmu_store e c 2 (RS1 c s + s_imm (insn_bits c)) (RS2 c s) no_flags s)"

definition insn_sw :: "'d mmu_env \<Rightarrow> ctx \<Rightarrow> ('d hart, unit) M" where
  [insns]: "insn_sw e c s =
    (mmu_store e c 4 (RS1 c s + s_imm (insn_bits c)) (RS2 c s) no_flags s)"

definition insn_sd :: "'d mmu_env \<Rightarrow> ctx \<Rightarrow> ('d hart, unit) M" where
  [insns]: "insn_sd e c s =
    (require c (xlen c = 64 \<or> extension_enabled s EXT_ZILSD) (\<lambda>s. if xlen c = 32 then bindM (RS2_PAIR c) (\<lambda>v s. mmu_store e c 8 (RS1 c s + s_imm (insn_bits c)) v no_flags s) s
     else mmu_store e c 8 (RS1 c s + s_imm (insn_bits c)) (RS2 c s) no_flags s) s)"

definition insn_lb_aq :: "'d mmu_env \<Rightarrow> ctx \<Rightarrow> ('d hart, unit) M" where
  [insns]: "insn_lb_aq e c s =
    (require_extension c EXT_ZALASR (\<lambda>s. bindM (mmu_load e c 1 (RS1 c s) no_flags) (\<lambda>v. WRITE_RD c (int8_t v)) s) s)"

definition insn_lh_aq :: "'d mmu_env \<Rightarrow> ctx \<Rightarrow> ('d hart, unit) M" where
  [insns]: "insn_lh_aq e c s =
    (require_extension c EXT_ZALASR (\<lambda>s. bindM (mmu_load e c 2 (RS1 c s) no_flags) (\<lambda>v. WRITE_RD c (int16_t v)) s) s)"

definition insn_lw_aq :: "'d mmu_env \<Rightarrow> ctx \<Rightarrow> ('d hart, unit) M" where
  [insns]: "insn_lw_aq e c s =
    (require_extension c EXT_ZALASR (\<lambda>s. bindM (mmu_load e c 4 (RS1 c s) no_flags) (\<lambda>v. WRITE_RD c (sext32 v)) s) s)"

definition insn_ld_aq :: "'d mmu_env \<Rightarrow> ctx \<Rightarrow> ('d hart, unit) M" where
  [insns]: "insn_ld_aq e c s =
    (require_rv64 c (\<lambda>s. require_extension c EXT_ZALASR (\<lambda>s. bindM (mmu_load e c 8 (RS1 c s) no_flags) (\<lambda>v. WRITE_RD c v) s) s) s)"

definition insn_sb_rl :: "'d mmu_env \<Rightarrow> ctx \<Rightarrow> ('d hart, unit) M" where
  [insns]: "insn_sb_rl e c s =
    (require_extension c EXT_ZALASR (\<lambda>s. mmu_store e c 1 (RS1 c s) (RS2 c s) no_flags s) s)"

definition insn_sh_rl :: "'d mmu_env \<Rightarrow> ctx \<Rightarrow> ('d hart, unit) M" where
  [insns]: "insn_sh_rl e c s =
    (require_extension c EXT_ZALASR (\<lambda>s. mmu_store e c 2 (RS1 c s) (RS2 c s) no_flags s) s)"

definition insn_sw_rl :: "'d mmu_env \<Rightarrow> ctx \<Rightarrow> ('d hart, unit) M" where
  [insns]: "insn_sw_rl e c s =
    (require_extension c EXT_ZALASR (\<lambda>s. mmu_store e c 4 (RS1 c s) (RS2 c s) no_flags s) s)"

definition insn_sd_rl :: "'d mmu_env \<Rightarrow> ctx \<Rightarrow> ('d hart, unit) M" where
  [insns]: "insn_sd_rl e c s =
    (require_rv64 c (\<lambda>s. require_extension c EXT_ZALASR (\<lambda>s. mmu_store e c 8 (RS1 c s) (RS2 c s) no_flags s) s) s)"

section \<open>Floating-point loads and stores\<close>

definition insn_fld :: "'d mmu_env \<Rightarrow> ctx \<Rightarrow> ('d hart, unit) M" where
  [insns]: "insn_fld e c s =
    (require_extension c (Ext CHR ''D'') (\<lambda>s. require_fp c (\<lambda>s. bindM (mmu_load e c 8 (RS1 c s + i_imm (insn_bits c)) no_flags) (\<lambda>v. WRITE_FRD c (freg64 v)) s) s) s)"

definition insn_flw :: "'d mmu_env \<Rightarrow> ctx \<Rightarrow> ('d hart, unit) M" where
  [insns]: "insn_flw e c s =
    (require_extension c (Ext CHR ''F'') (\<lambda>s. require_fp c (\<lambda>s. bindM (mmu_load e c 4 (RS1 c s + i_imm (insn_bits c)) no_flags) (\<lambda>v. WRITE_FRD c (freg32 (ucast v))) s) s) s)"

definition insn_flh :: "'d mmu_env \<Rightarrow> ctx \<Rightarrow> ('d hart, unit) M" where
  [insns]: "insn_flh e c s =
    (require_extension c EXT_INTERNAL_ZFH_MOVE (\<lambda>s. require_fp c (\<lambda>s. bindM (mmu_load e c 2 (RS1 c s + i_imm (insn_bits c)) no_flags) (\<lambda>v. WRITE_FRD c (freg16 (ucast v))) s) s) s)"

definition insn_flq :: "'d mmu_env \<Rightarrow> ctx \<Rightarrow> ('d hart, unit) M" where
  [insns]: "insn_flq e c s =
    (require_extension c (Ext CHR ''Q'') (\<lambda>s. require_fp c (\<lambda>s. bindM (load_float128 e c (RS1 c s + i_imm (insn_bits c))) (WRITE_FRD c) s) s) s)"

definition insn_fsd :: "'d mmu_env \<Rightarrow> ctx \<Rightarrow> ('d hart, unit) M" where
  [insns]: "insn_fsd e c s =
    (require_extension c (Ext CHR ''D'') (\<lambda>s. require_fp c (\<lambda>s. mmu_store e c 8 (RS1 c s + s_imm (insn_bits c)) (v0 (FRS2 c s)) no_flags s) s) s)"

definition insn_fsw :: "'d mmu_env \<Rightarrow> ctx \<Rightarrow> ('d hart, unit) M" where
  [insns]: "insn_fsw e c s =
    (require_extension c (Ext CHR ''F'') (\<lambda>s. require_fp c (\<lambda>s. mmu_store e c 4 (RS1 c s + s_imm (insn_bits c)) (v0 (FRS2 c s)) no_flags s) s) s)"

definition insn_fsh :: "'d mmu_env \<Rightarrow> ctx \<Rightarrow> ('d hart, unit) M" where
  [insns]: "insn_fsh e c s =
    (require_extension c EXT_INTERNAL_ZFH_MOVE (\<lambda>s. require_fp c (\<lambda>s. mmu_store e c 2 (RS1 c s + s_imm (insn_bits c)) (v0 (FRS2 c s)) no_flags s) s) s)"

definition insn_fsq :: "'d mmu_env \<Rightarrow> ctx \<Rightarrow> ('d hart, unit) M" where
  [insns]: "insn_fsq e c s =
    (require_extension c (Ext CHR ''Q'') (\<lambda>s. require_fp c (\<lambda>s. store_float128 e c (RS1 c s + s_imm (insn_bits c)) (FRS2 c s) s) s) s)"

section \<open>Atomic memory operations\<close>

definition insn_amoadd_b :: "'d mmu_env \<Rightarrow> ctx \<Rightarrow> ('d hart, unit) M" where
  [insns]: "insn_amoadd_b e c s =
    (require_extension c EXT_ZABHA (\<lambda>s. bindM (amo e c 1 (RS1 c s) (\<lambda>lhs. lhs + RS2 c s)) (\<lambda>v. WRITE_RD c (int8_t v)) s) s)"

definition insn_amoadd_h :: "'d mmu_env \<Rightarrow> ctx \<Rightarrow> ('d hart, unit) M" where
  [insns]: "insn_amoadd_h e c s =
    (require_extension c EXT_ZABHA (\<lambda>s. bindM (amo e c 2 (RS1 c s) (\<lambda>lhs. lhs + RS2 c s)) (\<lambda>v. WRITE_RD c (int16_t v)) s) s)"

definition insn_amoadd_w :: "'d mmu_env \<Rightarrow> ctx \<Rightarrow> ('d hart, unit) M" where
  [insns]: "insn_amoadd_w e c s =
    (require_extension c (Ext CHR ''A'') (\<lambda>s. bindM (amo e c 4 (RS1 c s) (\<lambda>lhs. lhs + RS2 c s)) (\<lambda>v. WRITE_RD c (sext32 v)) s) s)"

definition insn_amoadd_d :: "'d mmu_env \<Rightarrow> ctx \<Rightarrow> ('d hart, unit) M" where
  [insns]: "insn_amoadd_d e c s =
    (require_extension c (Ext CHR ''A'') (\<lambda>s. require_rv64 c (\<lambda>s. bindM (amo e c 8 (RS1 c s) (\<lambda>lhs. lhs + RS2 c s)) (\<lambda>v. WRITE_RD c v) s) s) s)"

definition insn_amoand_b :: "'d mmu_env \<Rightarrow> ctx \<Rightarrow> ('d hart, unit) M" where
  [insns]: "insn_amoand_b e c s =
    (require_extension c EXT_ZABHA (\<lambda>s. bindM (amo e c 1 (RS1 c s) (\<lambda>lhs. lhs AND RS2 c s)) (\<lambda>v. WRITE_RD c (int8_t v)) s) s)"

definition insn_amoand_h :: "'d mmu_env \<Rightarrow> ctx \<Rightarrow> ('d hart, unit) M" where
  [insns]: "insn_amoand_h e c s =
    (require_extension c EXT_ZABHA (\<lambda>s. bindM (amo e c 2 (RS1 c s) (\<lambda>lhs. lhs AND RS2 c s)) (\<lambda>v. WRITE_RD c (int16_t v)) s) s)"

definition insn_amoand_w :: "'d mmu_env \<Rightarrow> ctx \<Rightarrow> ('d hart, unit) M" where
  [insns]: "insn_amoand_w e c s =
    (require_extension c (Ext CHR ''A'') (\<lambda>s. bindM (amo e c 4 (RS1 c s) (\<lambda>lhs. lhs AND RS2 c s)) (\<lambda>v. WRITE_RD c (sext32 v)) s) s)"

definition insn_amoand_d :: "'d mmu_env \<Rightarrow> ctx \<Rightarrow> ('d hart, unit) M" where
  [insns]: "insn_amoand_d e c s =
    (require_extension c (Ext CHR ''A'') (\<lambda>s. require_rv64 c (\<lambda>s. bindM (amo e c 8 (RS1 c s) (\<lambda>lhs. lhs AND RS2 c s)) (\<lambda>v. WRITE_RD c v) s) s) s)"

definition insn_amoor_b :: "'d mmu_env \<Rightarrow> ctx \<Rightarrow> ('d hart, unit) M" where
  [insns]: "insn_amoor_b e c s =
    (require_extension c EXT_ZABHA (\<lambda>s. bindM (amo e c 1 (RS1 c s) (\<lambda>lhs. lhs OR RS2 c s)) (\<lambda>v. WRITE_RD c (int8_t v)) s) s)"

definition insn_amoor_h :: "'d mmu_env \<Rightarrow> ctx \<Rightarrow> ('d hart, unit) M" where
  [insns]: "insn_amoor_h e c s =
    (require_extension c EXT_ZABHA (\<lambda>s. bindM (amo e c 2 (RS1 c s) (\<lambda>lhs. lhs OR RS2 c s)) (\<lambda>v. WRITE_RD c (int16_t v)) s) s)"

definition insn_amoor_w :: "'d mmu_env \<Rightarrow> ctx \<Rightarrow> ('d hart, unit) M" where
  [insns]: "insn_amoor_w e c s =
    (require_extension c (Ext CHR ''A'') (\<lambda>s. bindM (amo e c 4 (RS1 c s) (\<lambda>lhs. lhs OR RS2 c s)) (\<lambda>v. WRITE_RD c (sext32 v)) s) s)"

definition insn_amoor_d :: "'d mmu_env \<Rightarrow> ctx \<Rightarrow> ('d hart, unit) M" where
  [insns]: "insn_amoor_d e c s =
    (require_extension c (Ext CHR ''A'') (\<lambda>s. require_rv64 c (\<lambda>s. bindM (amo e c 8 (RS1 c s) (\<lambda>lhs. lhs OR RS2 c s)) (\<lambda>v. WRITE_RD c v) s) s) s)"

definition insn_amoxor_b :: "'d mmu_env \<Rightarrow> ctx \<Rightarrow> ('d hart, unit) M" where
  [insns]: "insn_amoxor_b e c s =
    (require_extension c EXT_ZABHA (\<lambda>s. bindM (amo e c 1 (RS1 c s) (\<lambda>lhs. lhs XOR RS2 c s)) (\<lambda>v. WRITE_RD c (int8_t v)) s) s)"

definition insn_amoxor_h :: "'d mmu_env \<Rightarrow> ctx \<Rightarrow> ('d hart, unit) M" where
  [insns]: "insn_amoxor_h e c s =
    (require_extension c EXT_ZABHA (\<lambda>s. bindM (amo e c 2 (RS1 c s) (\<lambda>lhs. lhs XOR RS2 c s)) (\<lambda>v. WRITE_RD c (int16_t v)) s) s)"

definition insn_amoxor_w :: "'d mmu_env \<Rightarrow> ctx \<Rightarrow> ('d hart, unit) M" where
  [insns]: "insn_amoxor_w e c s =
    (require_extension c (Ext CHR ''A'') (\<lambda>s. bindM (amo e c 4 (RS1 c s) (\<lambda>lhs. lhs XOR RS2 c s)) (\<lambda>v. WRITE_RD c (sext32 v)) s) s)"

definition insn_amoxor_d :: "'d mmu_env \<Rightarrow> ctx \<Rightarrow> ('d hart, unit) M" where
  [insns]: "insn_amoxor_d e c s =
    (require_extension c (Ext CHR ''A'') (\<lambda>s. require_rv64 c (\<lambda>s. bindM (amo e c 8 (RS1 c s) (\<lambda>lhs. lhs XOR RS2 c s)) (\<lambda>v. WRITE_RD c v) s) s) s)"

definition insn_amoswap_b :: "'d mmu_env \<Rightarrow> ctx \<Rightarrow> ('d hart, unit) M" where
  [insns]: "insn_amoswap_b e c s =
    (require_extension c EXT_ZABHA (\<lambda>s. bindM (amo e c 1 (RS1 c s) (\<lambda>lhs. RS2 c s)) (\<lambda>v. WRITE_RD c (int8_t v)) s) s)"

definition insn_amoswap_h :: "'d mmu_env \<Rightarrow> ctx \<Rightarrow> ('d hart, unit) M" where
  [insns]: "insn_amoswap_h e c s =
    (require_extension c EXT_ZABHA (\<lambda>s. bindM (amo e c 2 (RS1 c s) (\<lambda>lhs. RS2 c s)) (\<lambda>v. WRITE_RD c (int16_t v)) s) s)"

definition insn_amoswap_w :: "'d mmu_env \<Rightarrow> ctx \<Rightarrow> ('d hart, unit) M" where
  [insns]: "insn_amoswap_w e c s =
    (require_extension c (Ext CHR ''A'') (\<lambda>s. bindM (amo e c 4 (RS1 c s) (\<lambda>lhs. RS2 c s)) (\<lambda>v. WRITE_RD c (sext32 v)) s) s)"

definition insn_amoswap_d :: "'d mmu_env \<Rightarrow> ctx \<Rightarrow> ('d hart, unit) M" where
  [insns]: "insn_amoswap_d e c s =
    (require_extension c (Ext CHR ''A'') (\<lambda>s. require_rv64 c (\<lambda>s. bindM (amo e c 8 (RS1 c s) (\<lambda>lhs. RS2 c s)) (\<lambda>v. WRITE_RD c v) s) s) s)"

definition insn_amomin_b :: "'d mmu_env \<Rightarrow> ctx \<Rightarrow> ('d hart, unit) M" where
  [insns]: "insn_amomin_b e c s =
    (require_extension c EXT_ZABHA (\<lambda>s. bindM (amo e c 1 (RS1 c s) (\<lambda>lhs. std_min (sless_of 8) lhs (RS2 c s))) (\<lambda>v. WRITE_RD c (int8_t v)) s) s)"

definition insn_amomin_h :: "'d mmu_env \<Rightarrow> ctx \<Rightarrow> ('d hart, unit) M" where
  [insns]: "insn_amomin_h e c s =
    (require_extension c EXT_ZABHA (\<lambda>s. bindM (amo e c 2 (RS1 c s) (\<lambda>lhs. std_min (sless_of 16) lhs (RS2 c s))) (\<lambda>v. WRITE_RD c (int16_t v)) s) s)"

definition insn_amomin_w :: "'d mmu_env \<Rightarrow> ctx \<Rightarrow> ('d hart, unit) M" where
  [insns]: "insn_amomin_w e c s =
    (require_extension c (Ext CHR ''A'') (\<lambda>s. bindM (amo e c 4 (RS1 c s) (\<lambda>lhs. std_min (sless_of 32) lhs (RS2 c s))) (\<lambda>v. WRITE_RD c (sext32 v)) s) s)"

definition insn_amomin_d :: "'d mmu_env \<Rightarrow> ctx \<Rightarrow> ('d hart, unit) M" where
  [insns]: "insn_amomin_d e c s =
    (require_extension c (Ext CHR ''A'') (\<lambda>s. require_rv64 c (\<lambda>s. bindM (amo e c 8 (RS1 c s) (\<lambda>lhs. std_min (sless_of 64) lhs (RS2 c s))) (\<lambda>v. WRITE_RD c v) s) s) s)"

definition insn_amomax_b :: "'d mmu_env \<Rightarrow> ctx \<Rightarrow> ('d hart, unit) M" where
  [insns]: "insn_amomax_b e c s =
    (require_extension c EXT_ZABHA (\<lambda>s. bindM (amo e c 1 (RS1 c s) (\<lambda>lhs. std_max (sless_of 8) lhs (RS2 c s))) (\<lambda>v. WRITE_RD c (int8_t v)) s) s)"

definition insn_amomax_h :: "'d mmu_env \<Rightarrow> ctx \<Rightarrow> ('d hart, unit) M" where
  [insns]: "insn_amomax_h e c s =
    (require_extension c EXT_ZABHA (\<lambda>s. bindM (amo e c 2 (RS1 c s) (\<lambda>lhs. std_max (sless_of 16) lhs (RS2 c s))) (\<lambda>v. WRITE_RD c (int16_t v)) s) s)"

definition insn_amomax_w :: "'d mmu_env \<Rightarrow> ctx \<Rightarrow> ('d hart, unit) M" where
  [insns]: "insn_amomax_w e c s =
    (require_extension c (Ext CHR ''A'') (\<lambda>s. bindM (amo e c 4 (RS1 c s) (\<lambda>lhs. std_max (sless_of 32) lhs (RS2 c s))) (\<lambda>v. WRITE_RD c (sext32 v)) s) s)"

definition insn_amomax_d :: "'d mmu_env \<Rightarrow> ctx \<Rightarrow> ('d hart, unit) M" where
  [insns]: "insn_amomax_d e c s =
    (require_extension c (Ext CHR ''A'') (\<lambda>s. require_rv64 c (\<lambda>s. bindM (amo e c 8 (RS1 c s) (\<lambda>lhs. std_max (sless_of 64) lhs (RS2 c s))) (\<lambda>v. WRITE_RD c v) s) s) s)"

definition insn_amominu_b :: "'d mmu_env \<Rightarrow> ctx \<Rightarrow> ('d hart, unit) M" where
  [insns]: "insn_amominu_b e c s =
    (require_extension c EXT_ZABHA (\<lambda>s. bindM (amo e c 1 (RS1 c s) (\<lambda>lhs. std_min (less_of 8) lhs (RS2 c s))) (\<lambda>v. WRITE_RD c (int8_t v)) s) s)"

definition insn_amominu_h :: "'d mmu_env \<Rightarrow> ctx \<Rightarrow> ('d hart, unit) M" where
  [insns]: "insn_amominu_h e c s =
    (require_extension c EXT_ZABHA (\<lambda>s. bindM (amo e c 2 (RS1 c s) (\<lambda>lhs. std_min (less_of 16) lhs (RS2 c s))) (\<lambda>v. WRITE_RD c (int16_t v)) s) s)"

definition insn_amominu_w :: "'d mmu_env \<Rightarrow> ctx \<Rightarrow> ('d hart, unit) M" where
  [insns]: "insn_amominu_w e c s =
    (require_extension c (Ext CHR ''A'') (\<lambda>s. bindM (amo e c 4 (RS1 c s) (\<lambda>lhs. std_min (less_of 32) lhs (RS2 c s))) (\<lambda>v. WRITE_RD c (sext32 v)) s) s)"

definition insn_amominu_d :: "'d mmu_env \<Rightarrow> ctx \<Rightarrow> ('d hart, unit) M" where
  [insns]: "insn_amominu_d e c s =
    (require_extension c (Ext CHR ''A'') (\<lambda>s. require_rv64 c (\<lambda>s. bindM (amo e c 8 (RS1 c s) (\<lambda>lhs. std_min (less_of 64) lhs (RS2 c s))) (\<lambda>v. WRITE_RD c v) s) s) s)"

definition insn_amomaxu_b :: "'d mmu_env \<Rightarrow> ctx \<Rightarrow> ('d hart, unit) M" where
  [insns]: "insn_amomaxu_b e c s =
    (require_extension c EXT_ZABHA (\<lambda>s. bindM (amo e c 1 (RS1 c s) (\<lambda>lhs. std_max (less_of 8) lhs (RS2 c s))) (\<lambda>v. WRITE_RD c (int8_t v)) s) s)"

definition insn_amomaxu_h :: "'d mmu_env \<Rightarrow> ctx \<Rightarrow> ('d hart, unit) M" where
  [insns]: "insn_amomaxu_h e c s =
    (require_extension c EXT_ZABHA (\<lambda>s. bindM (amo e c 2 (RS1 c s) (\<lambda>lhs. std_max (less_of 16) lhs (RS2 c s))) (\<lambda>v. WRITE_RD c (int16_t v)) s) s)"

definition insn_amomaxu_w :: "'d mmu_env \<Rightarrow> ctx \<Rightarrow> ('d hart, unit) M" where
  [insns]: "insn_amomaxu_w e c s =
    (require_extension c (Ext CHR ''A'') (\<lambda>s. bindM (amo e c 4 (RS1 c s) (\<lambda>lhs. std_max (less_of 32) lhs (RS2 c s))) (\<lambda>v. WRITE_RD c (sext32 v)) s) s)"

definition insn_amomaxu_d :: "'d mmu_env \<Rightarrow> ctx \<Rightarrow> ('d hart, unit) M" where
  [insns]: "insn_amomaxu_d e c s =
    (require_extension c (Ext CHR ''A'') (\<lambda>s. require_rv64 c (\<lambda>s. bindM (amo e c 8 (RS1 c s) (\<lambda>lhs. std_max (less_of 64) lhs (RS2 c s))) (\<lambda>v. WRITE_RD c v) s) s) s)"

definition insn_amocas_b :: "'d mmu_env \<Rightarrow> ctx \<Rightarrow> ('d hart, unit) M" where
  [insns]: "insn_amocas_b e c s =
    (require_extension c EXT_ZACAS (\<lambda>s. require_extension c EXT_ZABHA (\<lambda>s. bindM (amo_compare_and_swap e c 1 (RS1 c s) (zext (RD c s) 8) (RS2 c s)) (\<lambda>v. WRITE_RD c (int8_t v)) s) s) s)"

definition insn_amocas_h :: "'d mmu_env \<Rightarrow> ctx \<Rightarrow> ('d hart, unit) M" where
  [insns]: "insn_amocas_h e c s =
    (require_extension c EXT_ZACAS (\<lambda>s. require_extension c EXT_ZABHA (\<lambda>s. bindM (amo_compare_and_swap e c 2 (RS1 c s) (zext (RD c s) 16) (RS2 c s)) (\<lambda>v. WRITE_RD c (int16_t v)) s) s) s)"

definition insn_amocas_w :: "'d mmu_env \<Rightarrow> ctx \<Rightarrow> ('d hart, unit) M" where
  [insns]: "insn_amocas_w e c s =
    (require_extension c EXT_ZACAS (\<lambda>s. bindM (amo_compare_and_swap e c 4 (RS1 c s) (zext32 (RD c s)) (RS2 c s)) (\<lambda>v. WRITE_RD c (sext32 v)) s) s)"

definition insn_amocas_d :: "'d mmu_env \<Rightarrow> ctx \<Rightarrow> ('d hart, unit) M" where
  [insns]: "insn_amocas_d e c s =
    (require_extension c EXT_ZACAS (\<lambda>s. if xlen c = 32
     then require c (is_aligned (ucast (insn_rd (insn_bits c))) 2) (\<lambda>s.
       require c (is_aligned (ucast (insn_rs2 (insn_bits c))) 2) (\<lambda>s.
         bindM (amo_compare_and_swap e c 8 (RS1 c s) (pair_value e (insn_rd (insn_bits c)) s) (pair_value e (insn_rs2 (insn_bits c)) s))
           (write_pair e (insn_rd (insn_bits c))) s) s) s
     else bindM (amo_compare_and_swap e c 8 (RS1 c s) (RD c s) (RS2 c s)) (WRITE_RD c) s) s)"

definition insn_lr_w :: "'d mmu_env \<Rightarrow> ctx \<Rightarrow> ('d hart, unit) M" where
  [insns]: "insn_lr_w e c s =
    (require_extension c (Ext CHR ''A'') (\<lambda>s. bindM (load_reserved e c 4 (RS1 c s)) (\<lambda>v. WRITE_RD c (sext32 v)) s) s)"

definition insn_lr_d :: "'d mmu_env \<Rightarrow> ctx \<Rightarrow> ('d hart, unit) M" where
  [insns]: "insn_lr_d e c s =
    (require_extension c (Ext CHR ''A'') (\<lambda>s. require_rv64 c (\<lambda>s. bindM (load_reserved e c 8 (RS1 c s)) (WRITE_RD c) s) s) s)"

definition insn_sc_w :: "'d mmu_env \<Rightarrow> ctx \<Rightarrow> ('d hart, unit) M" where
  [insns]: "insn_sc_w e c s =
    (require_extension c (Ext CHR ''A'') (\<lambda>s. bindM (store_conditional e c 4 (RS1 c s) (RS2 c s))
      (\<lambda>have_reservation. WRITE_RD c (if have_reservation then 0 else 1)) s) s)"

definition insn_sc_d :: "'d mmu_env \<Rightarrow> ctx \<Rightarrow> ('d hart, unit) M" where
  [insns]: "insn_sc_d e c s =
    (require_extension c (Ext CHR ''A'') (\<lambda>s. require_rv64 c (\<lambda>s. bindM (store_conditional e c 8 (RS1 c s) (RS2 c s))
      (\<lambda>have_reservation. WRITE_RD c (if have_reservation then 0 else 1)) s) s) s)"

definition insn_ssamoswap_w :: "'d mmu_env \<Rightarrow> ctx \<Rightarrow> ('d hart, unit) M" where
  [insns]: "insn_ssamoswap_w e c s =
    (require_extension c EXT_ZICFISS (\<lambda>s. require_extension c (Ext CHR ''A'') (\<lambda>s. require_envcfg_field c MENVCFG_SSE (\<lambda>s. bindM (ssamoswap e c 4 (RS1 c s) (RS2 c s)) (\<lambda>v. WRITE_RD c (sext32 v)) s) s) s) s)"

definition insn_ssamoswap_d :: "'d mmu_env \<Rightarrow> ctx \<Rightarrow> ('d hart, unit) M" where
  [insns]: "insn_ssamoswap_d e c s =
    (require_extension c EXT_ZICFISS (\<lambda>s. require_extension c (Ext CHR ''A'') (\<lambda>s. require_rv64 c (\<lambda>s. require_envcfg_field c MENVCFG_SSE (\<lambda>s. bindM (ssamoswap e c 8 (RS1 c s) (RS2 c s)) (\<lambda>v. WRITE_RD c (v)) s) s) s) s) s)"

section \<open>Accesses to the memory of a guest\<close>

definition insn_hlv_b :: "'d mmu_env \<Rightarrow> ctx \<Rightarrow> ('d hart, unit) M" where
  [insns]: "insn_hlv_b e c s =
    (require_extension c (Ext CHR ''H'') (\<lambda>s. require_novirt c (\<lambda>s. require_privilege c (if hstatus_val s AND HSTATUS_HU \<noteq> 0 then PRV_U else PRV_S) (\<lambda>s. bindM (guest_load e c 1 (RS1 c s)) (\<lambda>v. WRITE_RD c (int8_t v)) s) s) s) s)"

definition insn_hlv_bu :: "'d mmu_env \<Rightarrow> ctx \<Rightarrow> ('d hart, unit) M" where
  [insns]: "insn_hlv_bu e c s =
    (require_extension c (Ext CHR ''H'') (\<lambda>s. require_novirt c (\<lambda>s. require_privilege c (if hstatus_val s AND HSTATUS_HU \<noteq> 0 then PRV_U else PRV_S) (\<lambda>s. bindM (guest_load e c 1 (RS1 c s)) (\<lambda>v. WRITE_RD c v) s) s) s) s)"

definition insn_hlv_h :: "'d mmu_env \<Rightarrow> ctx \<Rightarrow> ('d hart, unit) M" where
  [insns]: "insn_hlv_h e c s =
    (require_extension c (Ext CHR ''H'') (\<lambda>s. require_novirt c (\<lambda>s. require_privilege c (if hstatus_val s AND HSTATUS_HU \<noteq> 0 then PRV_U else PRV_S) (\<lambda>s. bindM (guest_load e c 2 (RS1 c s)) (\<lambda>v. WRITE_RD c (int16_t v)) s) s) s) s)"

definition insn_hlv_hu :: "'d mmu_env \<Rightarrow> ctx \<Rightarrow> ('d hart, unit) M" where
  [insns]: "insn_hlv_hu e c s =
    (require_extension c (Ext CHR ''H'') (\<lambda>s. require_novirt c (\<lambda>s. require_privilege c (if hstatus_val s AND HSTATUS_HU \<noteq> 0 then PRV_U else PRV_S) (\<lambda>s. bindM (guest_load e c 2 (RS1 c s)) (\<lambda>v. WRITE_RD c v) s) s) s) s)"

definition insn_hlv_w :: "'d mmu_env \<Rightarrow> ctx \<Rightarrow> ('d hart, unit) M" where
  [insns]: "insn_hlv_w e c s =
    (require_extension c (Ext CHR ''H'') (\<lambda>s. require_novirt c (\<lambda>s. require_privilege c (if hstatus_val s AND HSTATUS_HU \<noteq> 0 then PRV_U else PRV_S) (\<lambda>s. bindM (guest_load e c 4 (RS1 c s)) (\<lambda>v. WRITE_RD c (sext32 v)) s) s) s) s)"

definition insn_hlv_wu :: "'d mmu_env \<Rightarrow> ctx \<Rightarrow> ('d hart, unit) M" where
  [insns]: "insn_hlv_wu e c s =
    (require_extension c (Ext CHR ''H'') (\<lambda>s. require_rv64 c (\<lambda>s. require_novirt c (\<lambda>s. require_privilege c (if hstatus_val s AND HSTATUS_HU \<noteq> 0 then PRV_U else PRV_S) (\<lambda>s. bindM (guest_load e c 4 (RS1 c s)) (\<lambda>v. WRITE_RD c v) s) s) s) s) s)"

definition insn_hlv_d :: "'d mmu_env \<Rightarrow> ctx \<Rightarrow> ('d hart, unit) M" where
  [insns]: "insn_hlv_d e c s =
    (require_extension c (Ext CHR ''H'') (\<lambda>s. require_rv64 c (\<lambda>s. require_novirt c (\<lambda>s. require_privilege c (if hstatus_val s AND HSTATUS_HU \<noteq> 0 then PRV_U else PRV_S) (\<lambda>s. bindM (guest_load e c 8 (RS1 c s)) (\<lambda>v. WRITE_RD c v) s) s) s) s) s)"

definition insn_hlvx_hu :: "'d mmu_env \<Rightarrow> ctx \<Rightarrow> ('d hart, unit) M" where
  [insns]: "insn_hlvx_hu e c s =
    (require_extension c (Ext CHR ''H'') (\<lambda>s. require_novirt c (\<lambda>s. require_privilege c (if hstatus_val s AND HSTATUS_HU \<noteq> 0 then PRV_U else PRV_S) (\<lambda>s. bindM (guest_load_x e c 2 (RS1 c s)) (\<lambda>v. WRITE_RD c v) s) s) s) s)"

definition insn_hlvx_wu :: "'d mmu_env \<Rightarrow> ctx \<Rightarrow> ('d hart, unit) M" where
  [insns]: "insn_hlvx_wu e c s =
    (require_extension c (Ext CHR ''H'') (\<lambda>s. require_novirt c (\<lambda>s. require_privilege c (if hstatus_val s AND HSTATUS_HU \<noteq> 0 then PRV_U else PRV_S) (\<lambda>s. bindM (guest_load_x e c 4 (RS1 c s)) (\<lambda>v. WRITE_RD c (sext_xlen c v)) s) s) s) s)"

definition insn_hsv_b :: "'d mmu_env \<Rightarrow> ctx \<Rightarrow> ('d hart, unit) M" where
  [insns]: "insn_hsv_b e c s =
    (require_extension c (Ext CHR ''H'') (\<lambda>s. require_novirt c (\<lambda>s. require_privilege c (if hstatus_val s AND HSTATUS_HU \<noteq> 0 then PRV_U else PRV_S) (\<lambda>s. guest_store e c 1 (RS1 c s) (RS2 c s) s) s) s) s)"

definition insn_hsv_h :: "'d mmu_env \<Rightarrow> ctx \<Rightarrow> ('d hart, unit) M" where
  [insns]: "insn_hsv_h e c s =
    (require_extension c (Ext CHR ''H'') (\<lambda>s. require_novirt c (\<lambda>s. require_privilege c (if hstatus_val s AND HSTATUS_HU \<noteq> 0 then PRV_U else PRV_S) (\<lambda>s. guest_store e c 2 (RS1 c s) (RS2 c s) s) s) s) s)"

definition insn_hsv_w :: "'d mmu_env \<Rightarrow> ctx \<Rightarrow> ('d hart, unit) M" where
  [insns]: "insn_hsv_w e c s =
    (require_extension c (Ext CHR ''H'') (\<lambda>s. require_novirt c (\<lambda>s. require_privilege c (if hstatus_val s AND HSTATUS_HU \<noteq> 0 then PRV_U else PRV_S) (\<lambda>s. guest_store e c 4 (RS1 c s) (RS2 c s) s) s) s) s)"

definition insn_hsv_d :: "'d mmu_env \<Rightarrow> ctx \<Rightarrow> ('d hart, unit) M" where
  [insns]: "insn_hsv_d e c s =
    (require_extension c (Ext CHR ''H'') (\<lambda>s. require_rv64 c (\<lambda>s. require_novirt c (\<lambda>s. require_privilege c (if hstatus_val s AND HSTATUS_HU \<noteq> 0 then PRV_U else PRV_S) (\<lambda>s. guest_store e c 8 (RS1 c s) (RS2 c s) s) s) s) s) s)"

section \<open>Compressed loads and stores\<close>

definition insn_c_lw :: "'d mmu_env \<Rightarrow> ctx \<Rightarrow> ('d hart, unit) M" where
  [insns]: "insn_c_lw e c s =
    (require_extension c EXT_ZCA (\<lambda>s. bindM (mmu_load e c 4 (RVC_RS1S c s + rvc_lw_imm (insn_bits c)) no_flags) (\<lambda>v. WRITE_RVC_RS2S c (sext32 v)) s) s)"

definition insn_c_ld :: "'d mmu_env \<Rightarrow> ctx \<Rightarrow> ('d hart, unit) M" where
  [insns]: "insn_c_ld e c s =
    (require_extension c EXT_ZCA (\<lambda>s. require c (xlen c = 64 \<or> extension_enabled s EXT_ZCLSD) (\<lambda>s. if xlen c = 32
       then WRITE_RVC_RS2S_PAIR c (mmu_load e c 8 (RVC_RS1S c s + rvc_ld_imm (insn_bits c)) no_flags) s
       else bindM (mmu_load e c 8 (RVC_RS1S c s + rvc_ld_imm (insn_bits c)) no_flags) (WRITE_RVC_RS2S c) s) s) s)"

definition insn_c_lwsp :: "'d mmu_env \<Rightarrow> ctx \<Rightarrow> ('d hart, unit) M" where
  [insns]: "insn_c_lwsp e c s =
    (require_extension c EXT_ZCA (\<lambda>s. require c (rvc_rd (insn_bits c) \<noteq> 0) (\<lambda>s. bindM (mmu_load e c 4 (RVC_SP s + rvc_lwsp_imm (insn_bits c)) no_flags) (\<lambda>v. WRITE_RD c (sext32 v)) s) s) s)"

definition insn_c_ldsp :: "'d mmu_env \<Rightarrow> ctx \<Rightarrow> ('d hart, unit) M" where
  [insns]: "insn_c_ldsp e c s =
    (require_extension c EXT_ZCA (\<lambda>s. require c (xlen c = 64 \<or> extension_enabled s EXT_ZCLSD) (\<lambda>s. require c (rvc_rd (insn_bits c) \<noteq> 0) (\<lambda>s. if xlen c = 32
       then WRITE_RD_PAIR c (mmu_load e c 8 (RVC_SP s + rvc_ldsp_imm (insn_bits c)) no_flags) s
       else bindM (mmu_load e c 8 (RVC_SP s + rvc_ldsp_imm (insn_bits c)) no_flags) (WRITE_RD c) s) s) s) s)"

definition insn_c_sw :: "'d mmu_env \<Rightarrow> ctx \<Rightarrow> ('d hart, unit) M" where
  [insns]: "insn_c_sw e c s =
    (require_extension c EXT_ZCA (\<lambda>s. mmu_store e c 4 (RVC_RS1S c s + rvc_lw_imm (insn_bits c)) (RVC_RS2S c s) no_flags s) s)"

definition insn_c_sd :: "'d mmu_env \<Rightarrow> ctx \<Rightarrow> ('d hart, unit) M" where
  [insns]: "insn_c_sd e c s =
    (require_extension c EXT_ZCA (\<lambda>s. require c (xlen c = 64 \<or> extension_enabled s EXT_ZCLSD) (\<lambda>s. if xlen c = 32 then bindM (RVC_RS2S_PAIR c) (\<lambda>v s. mmu_store e c 8 (RVC_RS1S c s + rvc_ld_imm (insn_bits c)) v no_flags s) s
     else mmu_store e c 8 (RVC_RS1S c s + rvc_ld_imm (insn_bits c)) (RVC_RS2S c s) no_flags s) s) s)"

definition insn_c_swsp :: "'d mmu_env \<Rightarrow> ctx \<Rightarrow> ('d hart, unit) M" where
  [insns]: "insn_c_swsp e c s =
    (require_extension c EXT_ZCA (\<lambda>s. mmu_store e c 4 (RVC_SP s + rvc_swsp_imm (insn_bits c)) (RVC_RS2 c s) no_flags s) s)"

definition insn_c_sdsp :: "'d mmu_env \<Rightarrow> ctx \<Rightarrow> ('d hart, unit) M" where
  [insns]: "insn_c_sdsp e c s =
    (require_extension c EXT_ZCA (\<lambda>s. require c (xlen c = 64 \<or> extension_enabled s EXT_ZCLSD) (\<lambda>s. if xlen c = 32 then bindM (RVC_RS2_PAIR c) (\<lambda>v s. mmu_store e c 8 (RVC_SP s + rvc_sdsp_imm (insn_bits c)) v no_flags s) s
     else mmu_store e c 8 (RVC_SP s + rvc_sdsp_imm (insn_bits c)) (RVC_RS2 c s) no_flags s) s) s)"

definition insn_c_lbu :: "'d mmu_env \<Rightarrow> ctx \<Rightarrow> ('d hart, unit) M" where
  [insns]: "insn_c_lbu e c s =
    (require_extension c EXT_ZCB (\<lambda>s. bindM (mmu_load e c 1 (RVC_RS1S c s + rvc_lbimm (insn_bits c)) no_flags) (\<lambda>v. WRITE_RVC_RS2S c v) s) s)"

definition insn_c_lh :: "'d mmu_env \<Rightarrow> ctx \<Rightarrow> ('d hart, unit) M" where
  [insns]: "insn_c_lh e c s =
    (require_extension c EXT_ZCB (\<lambda>s. bindM (mmu_load e c 2 (RVC_RS1S c s + rvc_lhimm (insn_bits c)) no_flags) (\<lambda>v. WRITE_RVC_RS2S c (int16_t v)) s) s)"

definition insn_c_lhu :: "'d mmu_env \<Rightarrow> ctx \<Rightarrow> ('d hart, unit) M" where
  [insns]: "insn_c_lhu e c s =
    (require_extension c EXT_ZCB (\<lambda>s. bindM (mmu_load e c 2 (RVC_RS1S c s + rvc_lhimm (insn_bits c)) no_flags) (\<lambda>v. WRITE_RVC_RS2S c v) s) s)"

definition insn_c_sb :: "'d mmu_env \<Rightarrow> ctx \<Rightarrow> ('d hart, unit) M" where
  [insns]: "insn_c_sb e c s =
    (require_extension c EXT_ZCB (\<lambda>s. mmu_store e c 1 (RVC_RS1S c s + rvc_lbimm (insn_bits c)) (RVC_RS2S c s) no_flags s) s)"

definition insn_c_sh :: "'d mmu_env \<Rightarrow> ctx \<Rightarrow> ('d hart, unit) M" where
  [insns]: "insn_c_sh e c s =
    (require_extension c EXT_ZCB (\<lambda>s. mmu_store e c 2 (RVC_RS1S c s + rvc_lhimm (insn_bits c)) (RVC_RS2S c s) no_flags s) s)"

definition insn_c_fld :: "'d mmu_env \<Rightarrow> ctx \<Rightarrow> ('d hart, unit) M" where
  [insns]: "insn_c_fld e c s =
    (require_extension c EXT_ZCD (\<lambda>s. require_fp c (\<lambda>s. bindM (mmu_load e c 8 (RVC_RS1S c s + rvc_ld_imm (insn_bits c)) no_flags) (\<lambda>v. WRITE_RVC_FRS2S c (freg64 v)) s) s) s)"

definition insn_c_flw :: "'d mmu_env \<Rightarrow> ctx \<Rightarrow> ('d hart, unit) M" where
  [insns]: "insn_c_flw e c s =
    (require_extension c EXT_ZCF (\<lambda>s. require_fp c (\<lambda>s. bindM (mmu_load e c 4 (RVC_RS1S c s + rvc_lw_imm (insn_bits c)) no_flags) (\<lambda>v. WRITE_RVC_FRS2S c (freg32 (ucast v))) s) s) s)"

definition insn_c_fldsp :: "'d mmu_env \<Rightarrow> ctx \<Rightarrow> ('d hart, unit) M" where
  [insns]: "insn_c_fldsp e c s =
    (require_extension c EXT_ZCD (\<lambda>s. require_fp c (\<lambda>s. bindM (mmu_load e c 8 (RVC_SP s + rvc_ldsp_imm (insn_bits c)) no_flags) (\<lambda>v. WRITE_FRD c (freg64 v)) s) s) s)"

definition insn_c_flwsp :: "'d mmu_env \<Rightarrow> ctx \<Rightarrow> ('d hart, unit) M" where
  [insns]: "insn_c_flwsp e c s =
    (require_extension c EXT_ZCF (\<lambda>s. require_fp c (\<lambda>s. bindM (mmu_load e c 4 (RVC_SP s + rvc_lwsp_imm (insn_bits c)) no_flags) (\<lambda>v. WRITE_FRD c (freg32 (ucast v))) s) s) s)"

definition insn_c_fsd :: "'d mmu_env \<Rightarrow> ctx \<Rightarrow> ('d hart, unit) M" where
  [insns]: "insn_c_fsd e c s =
    (require_extension c EXT_ZCD (\<lambda>s. require_fp c (\<lambda>s. mmu_store e c 8 (RVC_RS1S c s + rvc_ld_imm (insn_bits c)) (v0 (RVC_FRS2S c s)) no_flags s) s) s)"

definition insn_c_fsw :: "'d mmu_env \<Rightarrow> ctx \<Rightarrow> ('d hart, unit) M" where
  [insns]: "insn_c_fsw e c s =
    (require_extension c EXT_ZCF (\<lambda>s. require_fp c (\<lambda>s. mmu_store e c 4 (RVC_RS1S c s + rvc_lw_imm (insn_bits c)) (v0 (RVC_FRS2S c s)) no_flags s) s) s)"

definition insn_c_fsdsp :: "'d mmu_env \<Rightarrow> ctx \<Rightarrow> ('d hart, unit) M" where
  [insns]: "insn_c_fsdsp e c s =
    (require_extension c EXT_ZCD (\<lambda>s. require_fp c (\<lambda>s. mmu_store e c 8 (RVC_SP s + rvc_sdsp_imm (insn_bits c)) (v0 (RVC_FRS2 c s)) no_flags s) s) s)"

definition insn_c_fswsp :: "'d mmu_env \<Rightarrow> ctx \<Rightarrow> ('d hart, unit) M" where
  [insns]: "insn_c_fswsp e c s =
    (require_extension c EXT_ZCF (\<lambda>s. require_fp c (\<lambda>s. mmu_store e c 4 (RVC_SP s + rvc_swsp_imm (insn_bits c)) (v0 (RVC_FRS2 c s)) no_flags s) s) s)"

section \<open>Push, pop and table jumps\<close>

text \<open>The registers of a list from the last to the first, each in the word below the one before.\<close>

fun push_regs :: "'d mmu_env \<Rightarrow> ctx \<Rightarrow> nat list \<Rightarrow> u64 \<Rightarrow> ('d hart, unit) M" where
  "push_regs e c [] addr s = returnM () s"
| "push_regs e c (i # is) addr s =
    (let addr = addr - of_nat (xlen c div 8)
     in thenM (if xlen c = 32 then mmu_store e c 4 addr (READ_REG (of_nat i) s) no_flags
               else mmu_store e c 8 addr (READ_REG (of_nat i) s) no_flags)
          (push_regs e c is addr) s)"

fun pop_regs :: "'d mmu_env \<Rightarrow> ctx \<Rightarrow> nat list \<Rightarrow> u64 \<Rightarrow> ('d hart, unit) M" where
  "pop_regs e c [] addr s = returnM () s"
| "pop_regs e c (i # is) addr s =
    (let addr = addr - of_nat (xlen c div 8)
     in thenM (if xlen c = 32 then bindM (mmu_load e c 4 addr no_flags) (\<lambda>v. WRITE_REG (of_nat i) (sext32 v))
               else bindM (mmu_load e c 8 addr no_flags) (WRITE_REG (of_nat i)))
          (pop_regs e c is addr) s)"

definition zcmp_reg_order :: "ctx \<Rightarrow> nat list" where
  "zcmp_reg_order c = filter (\<lambda>i. zcmp_regmask (insn_bits c) AND push_bit i 1 \<noteq> 0) (rev [0..<Suc (Sn 11)])"

definition insn_cm_push :: "'d mmu_env \<Rightarrow> ctx \<Rightarrow> ('d hart, unit) M" where
  [insns]: "insn_cm_push e c s =
    (require_zcmp_pushpop c (\<lambda>s. let new_sp = SP s - zcmp_stack_adjustment (insn_bits c) (xlen c)
     in thenM (push_regs e c (zcmp_reg_order c) (SP s)) (WRITE_REG (of_nat X_SP) new_sp) s) s)"

definition insn_cm_pop :: "'d mmu_env \<Rightarrow> ctx \<Rightarrow> ('d hart, unit) M" where
  [insns]: "insn_cm_pop e c s =
    (require_zcmp_pushpop c (\<lambda>s. let new_sp = SP s + zcmp_stack_adjustment (insn_bits c) (xlen c)
     in thenM (pop_regs e c (zcmp_reg_order c) new_sp) (WRITE_REG (of_nat X_SP) new_sp) s) s)"

definition insn_cm_popret :: "'d mmu_env \<Rightarrow> ctx \<Rightarrow> ('d hart, unit) M" where
  [insns]: "insn_cm_popret e c s =
    (thenM (insn_cm_pop e c) (\<lambda>s. set_pc c (RA s) s) s)"

definition insn_cm_popretz :: "'d mmu_env \<Rightarrow> ctx \<Rightarrow> ('d hart, unit) M" where
  [insns]: "insn_cm_popretz e c s =
    (thenM (insn_cm_popret e c) (WRITE_REG (of_nat X_A0) 0) s)"

definition SSTATEEN0_JVT :: u64 where "SSTATEEN0_JVT = 4"
definition JVT_MODE :: u64 where "JVT_MODE = 0x3F"
definition JVT_BASE :: u64 where "JVT_BASE = NOT 0x3F"

definition jvt_verify_permissions :: "ctx \<Rightarrow> ('d hart, unit) M" where
  "jvt_verify_permissions c = thenM (csr_verify_permissions c 0x017 False) (\<lambda>s.
    if \<not> extension_enabled s EXT_ZCMT then throwM (Trap (trap_illegal_instruction (insn_bits c))) s
    else if extension_enabled s EXT_SMSTATEEN
    then (if prv s < PRV_M \<and> mstateen0_val s AND SSTATEEN0_JVT = 0
          then throwM (Trap (trap_illegal_instruction (insn_bits c))) s
          else if virt s \<and> hstateen0_read s AND SSTATEEN0_JVT = 0
          then throwM (Trap (trap_virtual_instruction (insn_bits c))) s
          else if extension_enabled s (Ext CHR ''S'') \<and> prv s < PRV_S \<and> sstateen0_read s AND SSTATEEN0_JVT = 0
          then (if virt s then throwM (Trap (trap_virtual_instruction (insn_bits c))) s
                else throwM (Trap (trap_illegal_instruction (insn_bits c))) s)
          else returnM () s)
    else returnM () s)"

text \<open>A jump table in device memory is read past the buffer it was fetched to; the model stops there
  (\<open>Abort\<close>).\<close>

definition jump_table_entry :: "'d mmu_env \<Rightarrow> ctx \<Rightarrow> u64 \<Rightarrow> u64 \<Rightarrow> ('d hart, u64) M" where
  "jump_table_entry e c base index =
    bindM (if xlen c = 32 then fetch_jump_table e c 4 (base + push_bit 2 index)
           else fetch_jump_table e c 8 (base + push_bit 3 index))
      (\<lambda>t. case t of None \<Rightarrow> throwM Abort | Some v \<Rightarrow> returnM (if xlen c = 32 then sext32 v else v))"

definition insn_cm_jalt :: "'d mmu_env \<Rightarrow> ctx \<Rightarrow> ('d hart, unit) M" where
  [insns]: "insn_cm_jalt e c s =
    (require_extension c EXT_ZCMT (\<lambda>s. thenM (jvt_verify_permissions c) (\<lambda>s.
       let index = rvc_index (insn_bits c)
       in if jvt_val s AND JVT_MODE = 0
          then bindM (jump_table_entry e c (jvt_val s AND JVT_BASE) index) (\<lambda>target s.
            thenM (if 32 \<le> index then WRITE_REG 1 (npc s) else returnM ()) (set_pc c (target AND NOT 1)) s) s
          else require c False (returnM ()) s) s) s)"

section \<open>Shadow stacks and cache blocks\<close>

definition xSSE :: "'d hart \<Rightarrow> bool" where
  "xSSE s \<longleftrightarrow> prv s \<noteq> PRV_M \<and> menvcfg_val s AND MENVCFG_SSE \<noteq> 0 \<and> extension_enabled s (Ext CHR ''S'') \<and>
    ((virt s \<and> henvcfg_read s AND MENVCFG_SSE \<noteq> 0) \<or> \<not> virt s) \<and>
    ((prv s = PRV_U \<and> senvcfg_read s AND MENVCFG_SSE \<noteq> 0) \<or> prv s \<noteq> PRV_U)"

definition ssp_write :: "ctx \<Rightarrow> u64 \<Rightarrow> 'd hart \<Rightarrow> 'd hart" where
  "ssp_write c v s = s\<lparr>ssp_val := masked_write (- of_nat (xlen c div 8)) (ssp_val s) v\<rparr>"

definition PUSH_VALUE_TO_SS :: "'d mmu_env \<Rightarrow> ctx \<Rightarrow> u64 \<Rightarrow> ('d hart, unit) M" where
  "PUSH_VALUE_TO_SS e c v s =
    (let push_ssp_addr = ssp_val s - of_nat (xlen c div 8)
     in thenM (if xlen c = 32 then ss_store e c 4 push_ssp_addr v else ss_store e c 8 push_ssp_addr v)
          (modifyM (ssp_write c push_ssp_addr)) s)"

definition SHADOW_STACK_FAULT :: u64 where "SHADOW_STACK_FAULT = 3"

definition POP_VALUE_FROM_SS_AND_CHECK :: "'d mmu_env \<Rightarrow> ctx \<Rightarrow> ('d hart \<Rightarrow> u64) \<Rightarrow> ('d hart, unit) M" where
  "POP_VALUE_FROM_SS_AND_CHECK e c v s =
    bindM (if xlen c = 32 then ss_load e c 4 (ssp_val s) else ss_load e c 8 (ssp_val s))
      (\<lambda>shadow_return_addr s. thenM (software_check (v s = shadow_return_addr) SHADOW_STACK_FAULT)
        (modifyM (\<lambda>s. ssp_write c (ssp_val s + of_nat (xlen c div 8)) s)) s) s"

definition insn_sspush_x1 :: "'d mmu_env \<Rightarrow> ctx \<Rightarrow> ('d hart, unit) M" where
  [insns]: "insn_sspush_x1 e c s =
    (if xSSE s then PUSH_VALUE_TO_SS e c (RS2 c s) s else insn_mop_rr_N c s)"

definition insn_sspush_x5 :: "'d mmu_env \<Rightarrow> ctx \<Rightarrow> ('d hart, unit) M" where
  [insns]: "insn_sspush_x5 e c s =
    (insn_sspush_x1 e c s)"

definition insn_sspopchk_x1 :: "'d mmu_env \<Rightarrow> ctx \<Rightarrow> ('d hart, unit) M" where
  [insns]: "insn_sspopchk_x1 e c s =
    (if xSSE s then POP_VALUE_FROM_SS_AND_CHECK e c (RS1 c) s else insn_mop_r_N c s)"

definition insn_sspopchk_x5 :: "'d mmu_env \<Rightarrow> ctx \<Rightarrow> ('d hart, unit) M" where
  [insns]: "insn_sspopchk_x5 e c s =
    (insn_sspopchk_x1 e c s)"

definition insn_ssrdp :: "'d mmu_env \<Rightarrow> ctx \<Rightarrow> ('d hart, unit) M" where
  [insns]: "insn_ssrdp e c s =
    (if xSSE s then WRITE_RD c (ssp_val s) s else insn_mop_r_N c s)"

definition insn_c_sspush_x1 :: "'d mmu_env \<Rightarrow> ctx \<Rightarrow> ('d hart, unit) M" where
  [insns]: "insn_c_sspush_x1 e c s =
    (if xSSE s then PUSH_VALUE_TO_SS e c (RA s) s else returnM () s)"

definition insn_c_sspopchk_x5 :: "'d mmu_env \<Rightarrow> ctx \<Rightarrow> ('d hart, unit) M" where
  [insns]: "insn_c_sspopchk_x5 e c s =
    (if xSSE s then POP_VALUE_FROM_SS_AND_CHECK e c (READ_REG (of_nat X_T0)) s else returnM () s)"

definition insn_c_lui :: "'d mmu_env \<Rightarrow> ctx \<Rightarrow> ('d hart, unit) M" where
  [insns]: "insn_c_lui e c s =
    (require_extension c EXT_ZCA (\<lambda>s. if rvc_rd (insn_bits c) = 2
     then require c (rvc_addi16sp_imm (insn_bits c) \<noteq> 0)
       (WRITE_REG (of_nat X_SP) (sext_xlen c (RVC_SP s + rvc_addi16sp_imm (insn_bits c)))) s
     else if rvc_imm (insn_bits c) \<noteq> 0 then WRITE_RD c (push_bit 12 (rvc_imm (insn_bits c))) s
     else if rvc_rd (insn_bits c) AND 0x11 = 1
     then (if rvc_rd (insn_bits c) = 5 \<and> extension_enabled s EXT_ZICFISS then insn_c_sspopchk_x5 e c s
           else if rvc_rd (insn_bits c) = 1 \<and> extension_enabled s EXT_ZICFISS then insn_c_sspush_x1 e c s
           else insn_c_mop_N c s)
     else require c False (returnM ()) s) s)"

definition insn_cbo_clean :: "'d mmu_env \<Rightarrow> ctx \<Rightarrow> ('d hart, unit) M" where
  [insns]: "insn_cbo_clean e c s =
    (require_extension c EXT_ZICBOM (\<lambda>s. require_envcfg_field c MENVCFG_CBCFE (\<lambda>s. mmu_clean_inval e c (RS1 c s) True False s) s) s)"

definition insn_cbo_flush :: "'d mmu_env \<Rightarrow> ctx \<Rightarrow> ('d hart, unit) M" where
  [insns]: "insn_cbo_flush e c s =
    (require_extension c EXT_ZICBOM (\<lambda>s. require_envcfg_field c MENVCFG_CBCFE (\<lambda>s. mmu_clean_inval e c (RS1 c s) True True s) s) s)"

definition insn_cbo_inval :: "'d mmu_env \<Rightarrow> ctx \<Rightarrow> ('d hart, unit) M" where
  [insns]: "insn_cbo_inval e c s =
    (require_extension c EXT_ZICBOM (\<lambda>s. require_envcfg_field c MENVCFG_CBIE (\<lambda>s. if (prv s \<noteq> PRV_M \<and> get_field (menvcfg_val s) MENVCFG_CBIE \<noteq> 0) \<or>
         (\<not> virt s \<and> prv s = PRV_U \<and> get_field (senvcfg_read s) MENVCFG_CBIE \<noteq> 0) \<or>
         (virt s \<and> (get_field (henvcfg_read s) MENVCFG_CBIE \<noteq> 0 \<or>
           (prv s = PRV_U \<and> get_field (senvcfg_read s) MENVCFG_CBIE \<noteq> 0)))
     then mmu_clean_inval e c (RS1 c s) True True s
     else mmu_clean_inval e c (RS1 c s) False True s) s) s)"

definition insn_cbo_zero :: "'d mmu_env \<Rightarrow> ctx \<Rightarrow> ('d hart, unit) M" where
  [insns]: "insn_cbo_zero e c s =
    (require_extension c EXT_ZICBOZ (\<lambda>s. require_envcfg_field c MENVCFG_CBZE (\<lambda>s. cbo_zero e c (RS1 c s) s) s) s)"

end
