(* ===== verification/InsnMemFacts.thy ===== *)
theory InsnMemFacts
  imports MemoryWitnesses InsnMem InsnFacts
begin

text \<open>
  Facts about the memory instructions. The first part is what every access leaves alone: the program
  state, which is everything but devices, pending interrupts, the lookaside buffer and instruction cache,
  the matched trigger and the reservation. It gives precise exceptions for the instructions.
\<close>

section \<open>The frame of an access\<close>

definition program_state :: "'d \<Rightarrow> 'd hart \<Rightarrow> 'd hart" where
  "program_state d s = s\<lparr>dev := d, mip_val := 0, tlb_insn_tag := \<lambda>_. 0, tlb_load_tag := \<lambda>_. 0, tlb_store_tag := \<lambda>_. 0,
     tlb_data := \<lambda>_. 0, icache_tag := \<lambda>_. 0, icache_insn := \<lambda>_. 0, matched_trigger := None, load_reservation_address := 0\<rparr>"

definition mmu_frame :: "'d hart \<Rightarrow> 'd hart \<Rightarrow> bool" where
  "mmu_frame s s' \<longleftrightarrow> (\<forall>d. program_state d s' = program_state d s)"

lemma mmu_frame_refl [simp]: "mmu_frame s s"
  by (simp add: mmu_frame_def)

lemma mmu_frame_trans: "mmu_frame s t \<Longrightarrow> mmu_frame t u \<Longrightarrow> mmu_frame s u"
  by (simp add: mmu_frame_def)

lemma mmu_frame_step:
  "mmu_frame t (t\<lparr>dev := d, mip_val := m\<rparr>)"
  "mmu_frame t ((flush_icache t)\<lparr>matched_trigger := x\<rparr>)"
  "mmu_frame t (t\<lparr>load_reservation_address := a\<rparr>)"
  "mmu_frame t (t\<lparr>icache_tag := tags, icache_insn := insns\<rparr>)"
  by (simp_all add: mmu_frame_def program_state_def flush_icache_def)

lemma mmu_frame_tags:
  "program_state d (set_tag ty i tg t) = program_state d t"
  "program_state d (clear_other_tags i vpn t) = program_state d t"
  "program_state d (t\<lparr>tlb_data := f\<rparr>) = program_state d t"
  by (cases ty; simp add: set_tag_def clear_other_tags_def program_state_def)+

lemma mmu_frame_refill: "mmu_frame t (snd (refill_tlb va pa ty t))"
  by (simp add: mmu_frame_def mmu_frame_tags refill_tlb_def returnM_def throwM_def Let_def split: option.split)

lemma mmu_frame_field: "mmu_frame s s' \<Longrightarrow> (\<And>d t. f (program_state d t) = f t) \<Longrightarrow> f s' = f s"
  unfolding mmu_frame_def by metis

lemma mmu_frame_fields:
  assumes "mmu_frame s s'"
  shows "XPR s' = XPR s" "FPR s' = FPR s" "npc s' = npc s" "ssp_val s' = ssp_val s"
  by (rule mmu_frame_field [OF assms], simp add: program_state_def)+

definition held :: "ctx \<Rightarrow> 'd hart \<Rightarrow> 'd hart \<Rightarrow> bool" where
  "held c s0 s \<longleftrightarrow> xlen c \<in> {32, 64} \<and> mmu_frame s0 s"

interpretation keeps: access_invariant "sim_env io cfg h" c "held c s0" True for io :: "'x other_io" and cfg h c s0
  unfolding held_def by unfold_locales (blast intro: mmu_frame_trans mmu_frame_step mmu_frame_refill)+

lemmas held_posts = keeps.post_mmu_load [OF _ data_types_UNIV] keeps.post_mmu_store [OF _ data_types_UNIV]
  keeps.post_amo [OF _ UNIV_I] keeps.post_compare_and_swap [OF _ UNIV_I] keeps.post_ssamoswap [OF _ data_types_UNIV]
  keeps.post_store_conditional [OF _ data_types_UNIV] keeps.post_cbo_zero [OF _ data_types_UNIV]
  keeps.post_clean_inval [OF _ UNIV_I]

lemma held_wrappers:
  assumes "held c s0 t"
  shows "post (held c s0) (faults UNIV) (load_reserved (sim_env io cfg h) c n a t)"
    "post (held c s0) (faults UNIV) (guest_load (sim_env io cfg h) c n a t)"
    "post (held c s0) (faults UNIV) (guest_load_x (sim_env io cfg h) c n a t)"
    "post (held c s0) (faults UNIV) (guest_store (sim_env io cfg h) c n a v t)"
    "post (held c s0) (faults UNIV) (ss_load (sim_env io cfg h) c n a t)"
    "post (held c s0) (faults UNIV) (ss_store (sim_env io cfg h) c n a v t)"
  unfolding load_reserved_def guest_load_def guest_load_x_def guest_store_def ss_load_def ss_store_def
  using assms by (auto intro!: held_posts post_throws post_if)

lemma held_float128:
  assumes "held c s0 t"
  shows "post (held c s0) (faults UNIV) (load_float128 (sim_env io cfg h) c a t)"
    "post (held c s0) (faults UNIV) (store_float128 (sim_env io cfg h) c a f t)"
  unfolding load_float128_def store_float128_def
  using assms by (auto intro!: held_posts post_return post_throw faults_misaligned post_then post_bind)

section \<open>Precise exceptions\<close>

text \<open>An outcome that leaves the program state as it was when it is an exception. (\<open>Abort\<close> is the end of
  the simulator.)\<close>

definition precise :: "'d hart \<Rightarrow> (exn + 'a) \<times> 'd hart \<Rightarrow> bool" where
  "precise s r \<longleftrightarrow> (\<forall>x. fst r = Inl x \<longrightarrow> x = Abort \<or> mmu_frame s (snd r))"

named_theorems precises
  \<comment> \<open>the rules for precise outcomes, applied backwards\<close>

lemma precise_post: "post (held c s0) E r \<Longrightarrow> precise s0 r"
  by (simp add: precise_def post_def held_def)

lemma heldD: "held c s0 t \<Longrightarrow> mmu_frame s0 t"
  by (simp add: held_def)

lemma precise_require [precises]:
  "held c s0 t \<Longrightarrow> precise s0 (k t) \<Longrightarrow> precise s0 (require c b k t)"
  "held c s0 t \<Longrightarrow> precise s0 (k t) \<Longrightarrow> precise s0 (require_envcfg c x y z k t)"
  "held c s0 t \<Longrightarrow> precise s0 (k t) \<Longrightarrow> precise s0 (require_novirt c k t)"
  by (simp_all add: precise_def require_def require_envcfg_def require_novirt_def heldD)

lemma precise_bind [precises]:
  "post (held c s0) E (m t) \<Longrightarrow> (\<And>v t'. held c s0 t' \<Longrightarrow> precise s0 (f v t')) \<Longrightarrow> precise s0 (bindM m f t)"
  by (cases "m t") (auto simp: precise_def post_def bindM_def held_def split: sum.splits)

lemma precise_then [precises]:
  "post (held c s0) E (m t) \<Longrightarrow> (\<And>t'. held c s0 t' \<Longrightarrow> precise s0 (n t')) \<Longrightarrow> precise s0 (thenM m n t)"
  unfolding thenM_def by (rule precise_bind)

lemma precise_if [precises]:
  "precise s0 m \<Longrightarrow> precise s0 n \<Longrightarrow> precise s0 (if b then m else n)"
  "precise s0 (f t) \<Longrightarrow> precise s0 (g t) \<Longrightarrow> precise s0 ((if b then f else g) t)"
  by simp_all

lemma precise_write [precises]: "precise s0 (WRITE_REG r v t)" "precise s0 (returnM x t)" "precise s0 (modifyM f' t)"
  by (simp_all add: precise_def WRITE_REG_def returnM_def modifyM_def)

lemma precise_pair [precises]:
  "held c' s0 t \<Longrightarrow> post (held c' s0) E (v t) \<Longrightarrow> precise s0 (WRITE_REG_PAIR c r v t)" "precise s0 (write_pair e r w t)"
  by (cases "v t"; auto simp: precise_def post_def WRITE_REG_PAIR_def require_def thenM_def bindM_def WRITE_REG_def returnM_def heldD
        split: sum.splits)
    (simp add: precise_def write_pair_def thenM_def bindM_def WRITE_REG_def returnM_def)

lemma sstatus_dirty_aborts: "fst (sstatus_dirty c f s) = Inl x \<Longrightarrow> x = Abort"
  by (auto simp: sstatus_dirty_def returnM_def throwM_def Let_def split: if_splits prod.splits sum.splits)

lemma precise_FRD [precises]: "precise s0 (WRITE_FRD c v t)" "precise s0 (WRITE_RVC_FRS2S c v t)"
  using sstatus_dirty_aborts
  by (auto simp: precise_def WRITE_FRD_def WRITE_RVC_FRS2S_def DO_WRITE_FREG_def thenM_def bindM_def modifyM_def dirty_fp_state_def
      split: sum.splits prod.splits)

lemma post_require: "P s \<Longrightarrow> post P (\<lambda>_. True) (k s) \<Longrightarrow> post P (\<lambda>_. True) (require c b k s)"
  by (simp add: post_def require_def)

lemma post_csr_permissions: "P s \<Longrightarrow> post P (\<lambda>_. True) (csr_verify_permissions c a w s)"
  by (simp add: csr_verify_permissions_def post_def returnM_def throwM_def Let_def)

lemma post_fflags_permissions: "P s \<Longrightarrow> post P (\<lambda>_. True) (fflags_verify_permissions c s)"
  unfolding fflags_verify_permissions_def require_fs_def
  by (intro post_then [OF post_csr_permissions] post_require post_if_at post_throw post_return | simp)+

lemma precise_fp [precises]:
  "held c s0 t \<Longrightarrow> (\<And>t'. held c s0 t' \<Longrightarrow> precise s0 (k t')) \<Longrightarrow> precise s0 (require_fp c k t)"
  unfolding require_fp_def by (rule precise_then [OF post_fflags_permissions])

lemma post_software_check: "P s \<Longrightarrow> post P (\<lambda>_. True) (software_check b x s)"
  by (simp add: post_def software_check_def)

lemma post_pair: "held c s0 t \<Longrightarrow> post (held c s0) (\<lambda>_. True) (READ_REG_PAIR c r t)"
  by (simp add: post_def READ_REG_PAIR_def require_def returnM_def)

definition load_bodies :: "('d mmu_env \<Rightarrow> ctx \<Rightarrow> ('d hart, unit) M) list" where
  "load_bodies = [
    insn_lb, insn_lbu, insn_lh, insn_lhu, insn_lw, insn_lwu, insn_ld, insn_sb, insn_sh, insn_sw, insn_sd,
    insn_lb_aq, insn_lh_aq, insn_lw_aq, insn_ld_aq, insn_sb_rl, insn_sh_rl, insn_sw_rl, insn_sd_rl, insn_fld,
    insn_flw, insn_flh, insn_flq, insn_fsd, insn_fsw, insn_fsh, insn_fsq]"

definition amo_bodies :: "('d mmu_env \<Rightarrow> ctx \<Rightarrow> ('d hart, unit) M) list" where
  "amo_bodies = [
    insn_amoadd_b, insn_amoadd_h, insn_amoadd_w, insn_amoadd_d, insn_amoand_b, insn_amoand_h, insn_amoand_w,
    insn_amoand_d, insn_amoor_b, insn_amoor_h, insn_amoor_w, insn_amoor_d, insn_amoxor_b, insn_amoxor_h,
    insn_amoxor_w, insn_amoxor_d, insn_amoswap_b, insn_amoswap_h, insn_amoswap_w, insn_amoswap_d,
    insn_amomin_b, insn_amomin_h, insn_amomin_w, insn_amomin_d, insn_amomax_b, insn_amomax_h, insn_amomax_w,
    insn_amomax_d, insn_amominu_b, insn_amominu_h, insn_amominu_w, insn_amominu_d, insn_amomaxu_b,
    insn_amomaxu_h, insn_amomaxu_w, insn_amomaxu_d, insn_amocas_b, insn_amocas_h, insn_amocas_w,
    insn_amocas_d, insn_lr_w, insn_lr_d, insn_sc_w, insn_sc_d]"

definition rvc_mem_bodies :: "('d mmu_env \<Rightarrow> ctx \<Rightarrow> ('d hart, unit) M) list" where
  "rvc_mem_bodies = [
    insn_c_lw, insn_c_ld, insn_c_lwsp, insn_c_ldsp, insn_c_sw, insn_c_sd, insn_c_swsp, insn_c_sdsp,
    insn_c_lbu, insn_c_lh, insn_c_lhu, insn_c_sb, insn_c_sh, insn_c_fld, insn_c_flw, insn_c_fldsp,
    insn_c_flwsp, insn_c_fsd, insn_c_fsw, insn_c_fsdsp, insn_c_fswsp, insn_cm_push]"

definition special_bodies :: "('d mmu_env \<Rightarrow> ctx \<Rightarrow> ('d hart, unit) M) list" where
  "special_bodies = [
    insn_ssamoswap_w, insn_ssamoswap_d, insn_hlv_b, insn_hlv_bu, insn_hlv_h, insn_hlv_hu, insn_hlv_w,
    insn_hlv_wu, insn_hlv_d, insn_hlvx_hu, insn_hlvx_wu, insn_hsv_b, insn_hsv_h, insn_hsv_w, insn_hsv_d,
    insn_sspush_x1, insn_sspush_x5, insn_sspopchk_x1, insn_sspopchk_x5, insn_ssrdp, insn_c_sspush_x1,
    insn_c_sspopchk_x5, insn_c_lui, insn_cbo_clean, insn_cbo_flush, insn_cbo_inval, insn_cbo_zero]"

lemmas body_unfold = insns require_extension_def require_either_extension_def require_rv64_def require_privilege_def
  require_envcfg_field_def require_zcmp_pushpop_def WRITE_RD_def WRITE_RVC_RS2S_def WRITE_RD_PAIR_def WRITE_RVC_RS2S_PAIR_def
  RS2_PAIR_def RVC_RS2_PAIR_def RVC_RS2S_PAIR_def Let_def

lemmas body_posts = held_posts held_wrappers held_float128 post_pair

lemma precise_access [precises]:
  assumes "held c s0 t"
  shows "precise s0 (mmu_store (sim_env io cfg h) c n a v f t)"
    "precise s0 (store_float128 (sim_env io cfg h) c a q t)"
    "precise s0 (guest_store (sim_env io cfg h) c n a v t)"
    "precise s0 (cbo_zero (sim_env io cfg h) c a t)"
    "precise s0 (mmu_clean_inval (sim_env io cfg h) c a cl iv t)"
  using assms by (rule precise_post [OF held_posts(2)] precise_post [OF held_float128(2)] precise_post [OF held_wrappers(4)]
    precise_post [OF held_posts(7)] precise_post [OF held_posts(8)])+

lemma post_push_regs: "held c s0 t \<Longrightarrow> post (held c s0) (faults UNIV) (push_regs (sim_env io cfg h) c is a t)"
proof (induction "is" arbitrary: a t)
  case (Cons i "is")
  show ?case unfolding push_regs.simps Let_def
    by (intro post_then post_if_at held_posts(2) Cons.IH) (assumption | rule Cons.prems)+
qed (simp add: post_return)

lemma load_precise: "held c s s \<Longrightarrow> \<forall>body \<in> set load_bodies. precise s (body (sim_env io cfg h) c s)"
  unfolding load_bodies_def list.set ball_simps body_unfold
  by (intro conjI; (assumption | rule TrueI precises body_posts)+)

lemma amo_precise: "held c s s \<Longrightarrow> \<forall>body \<in> set amo_bodies. precise s (body (sim_env io cfg h) c s)"
  unfolding amo_bodies_def list.set ball_simps body_unfold
  by (intro conjI; (assumption | rule TrueI precises body_posts)+)

lemma rvc_precise: "held c s s \<Longrightarrow> \<forall>body \<in> set rvc_mem_bodies. precise s (body (sim_env io cfg h) c s)"
  unfolding rvc_mem_bodies_def list.set ball_simps body_unfold
  by (intro conjI; (assumption | rule TrueI precises body_posts post_push_regs)+)

lemma special_precise: "held c s s \<Longrightarrow> \<forall>body \<in> set special_bodies. precise s (body (sim_env io cfg h) c s)"
  unfolding special_bodies_def list.set ball_simps body_unfold PUSH_VALUE_TO_SS_def POP_VALUE_FROM_SS_AND_CHECK_def
  by (intro conjI; (assumption | rule TrueI precises body_posts post_software_check post_if_at)+)

definition mem_bodies :: "('d mmu_env \<Rightarrow> ctx \<Rightarrow> ('d hart, unit) M) list" where
  "mem_bodies = load_bodies @ amo_bodies @ rvc_mem_bodies @ special_bodies"

text \<open>C10: a load, store, atomic operation, reservation, guest access, shadow stack or cache-block operation, or a
  push, that ends in a trap or in a matched trigger has not changed the state that the program sees: no
  register of either file, program counter, status or configuration register, shadow stack pointer or privilege
  differs from before, so the instruction can be executed again. (Only devices and memory, pending
  interrupts, the caches of translations and instructions, the matched trigger and the reservation may differ.)\<close>

theorem memory_faults_precise:
  assumes "xlen c \<in> {32, 64}" "body \<in> set mem_bodies"
    and "body (sim_env io cfg h) c s = (Inl x, s')" "x \<noteq> Abort"
  shows "program_state d s' = program_state d s \<and> XPR s' = XPR s \<and> FPR s' = FPR s"
proof -
  have h: "held c s s" using assms(1) by (simp add: held_def)
  have "precise s (body (sim_env io cfg h) c s)"
    using assms(2) load_precise [OF h] amo_precise [OF h] rvc_precise [OF h] special_precise [OF h]
    unfolding mem_bodies_def set_append by blast
  then have "mmu_frame s s'" using assms(3,4) by (simp add: precise_def)
  then show ?thesis using mmu_frame_fields by (auto simp: mmu_frame_def)
qed

theorem memory_faults_precise_witness:
  "\<exists>x s'. insn_lw (sim_env quiet_io small_cfg 0) (ctx_full 64 0x00102283 0) small_hart = (Inl x, s') \<and>
    program_state small_board s' = program_state small_board small_hart \<and> XPR s' = XPR small_hart \<and> FPR s' = FPR small_hart"
proof -
  let ?e = "sim_env quiet_io small_cfg 0" and ?c = "ctx_full 64 0x00102283 0"
  have x: "xlen ?c = 64" by (simp add: ctx_full_def)
  have a: "RS1 ?c small_hart + i_imm (insn_bits ?c) = 1"
    by (simp add: RS1_def READ_REG_def ctx_full_def fields insn_x_def insn_xs_def
        small_hart_def flush_tlb_def flush_icache_def hart_reset_def hart_blank_def regfile_reset_def Let_def)
  have i: "generate_access_info ?c 1 LOAD no_flags small_hart = (Inr (machine_access 1 LOAD), small_hart)"
    by (rule machine_info [OF small_hart_view x]) simp
  have d: "check_triggers ?e op a w tv dt s = (Inr (), s)" for op a w tv dt and s :: "unit board hart"
    by (simp add: check_triggers_def sim_env_def quiet_io_def returnM_def)
  have m: "\<not> is_misaligned_enabled ?e" by (simp add: sim_env_def small_cfg_def)
  have t: "insn_lw ?e ?c small_hart = (Inl (Trap (trap_load_address_misaligned False 1 0 0)), small_hart)"
    unfolding insn_lw_def a
    by (simp add: mmu_load_def misaligned_def load_slow_path_def i d machine_access_def load_misaligned_def m
        bindM_def thenM_def throwM_def returnM_def Let_def)
  have "insn_lw \<in> set mem_bodies" by (simp add: mem_bodies_def load_bodies_def)
  from memory_faults_precise [OF _ this t] x t show ?thesis by (intro exI) auto
qed

end
