(* ===== verification/Encoding.thy ===== *)
theory Encoding
  imports Hart
begin

text \<open>
  The encodings of \<^verbatim>\<open>riscv/encoding.h\<close> and the decoder of
  \<^verbatim>\<open>riscv/processor.cc\<close>: an instruction is found by its name, its match and its
  mask; overlapping encodings come first, then all others, then the catch-all; a small associative cache
  remembers what the search found.
\<close>

section \<open>Match and mask of every instruction\<close>

definition encodings_1 :: "(string \<times> u64 \<times> u64) list" where
  "encodings_1 = [
    (''add'', 0x33, 0xfe00707f), (''add_uw'', 0x800003b, 0xfe00707f), (''addi'', 0x13, 0x707f),
    (''addiw'', 0x1b, 0x707f), (''addw'', 0x3b, 0xfe00707f), (''aes32dsi'', 0x2a000033, 0x3e00707f),
    (''aes32dsmi'', 0x2e000033, 0x3e00707f), (''aes32esi'', 0x22000033, 0x3e00707f),
    (''aes32esmi'', 0x26000033, 0x3e00707f), (''aes64ds'', 0x3a000033, 0xfe00707f),
    (''aes64dsm'', 0x3e000033, 0xfe00707f), (''aes64es'', 0x32000033, 0xfe00707f),
    (''aes64esm'', 0x36000033, 0xfe00707f), (''aes64im'', 0x30001013, 0xfff0707f),
    (''aes64ks1i'', 0x31001013, 0xff00707f), (''aes64ks2'', 0x7e000033, 0xfe00707f),
    (''amoadd_b'', 0x2f, 0xf800707f), (''amoadd_d'', 0x302f, 0xf800707f), (''amoadd_h'', 0x102f, 0xf800707f),
    (''amoadd_w'', 0x202f, 0xf800707f), (''amoand_b'', 0x6000002f, 0xf800707f),
    (''amoand_d'', 0x6000302f, 0xf800707f), (''amoand_h'', 0x6000102f, 0xf800707f),
    (''amoand_w'', 0x6000202f, 0xf800707f), (''amocas_b'', 0x2800002f, 0xf800707f),
    (''amocas_d'', 0x2800302f, 0xf800707f), (''amocas_h'', 0x2800102f, 0xf800707f),
    (''amocas_q'', 0x2800402f, 0xf800707f), (''amocas_w'', 0x2800202f, 0xf800707f),
    (''amomax_b'', 0xa000002f, 0xf800707f), (''amomax_d'', 0xa000302f, 0xf800707f),
    (''amomax_h'', 0xa000102f, 0xf800707f), (''amomax_w'', 0xa000202f, 0xf800707f),
    (''amomaxu_b'', 0xe000002f, 0xf800707f), (''amomaxu_d'', 0xe000302f, 0xf800707f),
    (''amomaxu_h'', 0xe000102f, 0xf800707f), (''amomaxu_w'', 0xe000202f, 0xf800707f),
    (''amomin_b'', 0x8000002f, 0xf800707f), (''amomin_d'', 0x8000302f, 0xf800707f),
    (''amomin_h'', 0x8000102f, 0xf800707f), (''amomin_w'', 0x8000202f, 0xf800707f),
    (''amominu_b'', 0xc000002f, 0xf800707f), (''amominu_d'', 0xc000302f, 0xf800707f),
    (''amominu_h'', 0xc000102f, 0xf800707f), (''amominu_w'', 0xc000202f, 0xf800707f),
    (''amoor_b'', 0x4000002f, 0xf800707f), (''amoor_d'', 0x4000302f, 0xf800707f),
    (''amoor_h'', 0x4000102f, 0xf800707f), (''amoor_w'', 0x4000202f, 0xf800707f),
    (''amoswap_b'', 0x800002f, 0xf800707f), (''amoswap_d'', 0x800302f, 0xf800707f),
    (''amoswap_h'', 0x800102f, 0xf800707f), (''amoswap_w'', 0x800202f, 0xf800707f),
    (''amoxor_b'', 0x2000002f, 0xf800707f), (''amoxor_d'', 0x2000302f, 0xf800707f),
    (''amoxor_h'', 0x2000102f, 0xf800707f), (''amoxor_w'', 0x2000202f, 0xf800707f),
    (''and'', 0x7033, 0xfe00707f), (''andi'', 0x7013, 0x707f), (''andn'', 0x40007033, 0xfe00707f),
    (''auipc'', 0x17, 0x7f), (''bclr'', 0x48001033, 0xfe00707f), (''bclri'', 0x48001013, 0xfc00707f),
    (''beq'', 0x63, 0x707f), (''bext'', 0x48005033, 0xfe00707f), (''bexti'', 0x48005013, 0xfc00707f),
    (''bge'', 0x5063, 0x707f), (''bgeu'', 0x7063, 0x707f), (''binv'', 0x68001033, 0xfe00707f),
    (''binvi'', 0x68001013, 0xfc00707f), (''blt'', 0x4063, 0x707f), (''bltu'', 0x6063, 0x707f),
    (''bne'', 0x1063, 0x707f), (''bset'', 0x28001033, 0xfe00707f), (''bseti'', 0x28001013, 0xfc00707f)]"

definition encodings_2 :: "(string \<times> u64 \<times> u64) list" where
  "encodings_2 = [
    (''c_add'', 0x9002, 0xf003), (''c_addi'', 0x1, 0xe003), (''c_addi16sp'', 0x6101, 0xef83),
    (''c_addi4spn'', 0x0, 0xe003), (''c_addiw'', 0x2001, 0xe003), (''c_addw'', 0x9c21, 0xfc63),
    (''c_and'', 0x8c61, 0xfc63), (''c_andi'', 0x8801, 0xec03), (''c_beqz'', 0xc001, 0xe003),
    (''c_bnez'', 0xe001, 0xe003), (''c_ebreak'', 0x9002, 0xffff), (''c_fld'', 0x2000, 0xe003),
    (''c_fldsp'', 0x2002, 0xe003), (''c_flw'', 0x6000, 0xe003), (''c_flwsp'', 0x6002, 0xe003),
    (''c_fsd'', 0xa000, 0xe003), (''c_fsdsp'', 0xa002, 0xe003), (''c_fsw'', 0xe000, 0xe003),
    (''c_fswsp'', 0xe002, 0xe003), (''c_j'', 0xa001, 0xe003), (''c_jal'', 0x2001, 0xe003),
    (''c_jalr'', 0x9002, 0xf07f), (''c_jr'', 0x8002, 0xf07f), (''c_lbu'', 0x8000, 0xfc03),
    (''c_ld'', 0x6000, 0xe003), (''c_ldsp'', 0x6002, 0xe003), (''c_lh'', 0x8440, 0xfc43),
    (''c_lhu'', 0x8400, 0xfc43), (''c_li'', 0x4001, 0xe003), (''c_lui'', 0x6001, 0xe003),
    (''c_lw'', 0x4000, 0xe003), (''c_lwsp'', 0x4002, 0xe003), (''c_mop_1'', 0x6081, 0xffff),
    (''c_mop_11'', 0x6581, 0xffff), (''c_mop_13'', 0x6681, 0xffff), (''c_mop_15'', 0x6781, 0xffff),
    (''c_mop_3'', 0x6181, 0xffff), (''c_mop_5'', 0x6281, 0xffff), (''c_mop_7'', 0x6381, 0xffff),
    (''c_mop_9'', 0x6481, 0xffff), (''c_mop_N'', 0x6081, 0xf8ff), (''c_mul'', 0x9c41, 0xfc63),
    (''c_mv'', 0x8002, 0xf003), (''c_nop'', 0x1, 0xef83), (''c_not'', 0x9c75, 0xfc7f),
    (''c_or'', 0x8c41, 0xfc63), (''c_sb'', 0x8800, 0xfc03), (''c_sd'', 0xe000, 0xe003),
    (''c_sdsp'', 0xe002, 0xe003), (''c_sext_b'', 0x9c65, 0xfc7f), (''c_sext_h'', 0x9c6d, 0xfc7f),
    (''c_sh'', 0x8c00, 0xfc43), (''c_slli'', 0x2, 0xe003), (''c_srai'', 0x8401, 0xec03),
    (''c_srli'', 0x8001, 0xec03), (''c_sspopchk_x5'', 0x6281, 0xffff), (''c_sspush_x1'', 0x6081, 0xffff),
    (''c_sub'', 0x8c01, 0xfc63), (''c_subw'', 0x9c01, 0xfc63), (''c_sw'', 0xc000, 0xe003),
    (''c_swsp'', 0xc002, 0xe003), (''c_xor'', 0x8c21, 0xfc63), (''c_zext_b'', 0x9c61, 0xfc7f),
    (''c_zext_h'', 0x9c69, 0xfc7f), (''c_zext_w'', 0x9c71, 0xfc7f), (''cbo_clean'', 0x10200f, 0xfff07fff),
    (''cbo_flush'', 0x20200f, 0xfff07fff), (''cbo_inval'', 0x200f, 0xfff07fff),
    (''cbo_zero'', 0x40200f, 0xfff07fff), (''clmul'', 0xa001033, 0xfe00707f),
    (''clmulh'', 0xa003033, 0xfe00707f), (''clmulr'', 0xa002033, 0xfe00707f),
    (''clz'', 0x60001013, 0xfff0707f), (''clzw'', 0x6000101b, 0xfff0707f), (''cm_jalt'', 0xa002, 0xfc03)]"

definition encodings_3 :: "(string \<times> u64 \<times> u64) list" where
  "encodings_3 = [
    (''cm_mva01s'', 0xac62, 0xfc63), (''cm_mvsa01'', 0xac22, 0xfc63), (''cm_pop'', 0xba02, 0xff03),
    (''cm_popret'', 0xbe02, 0xff03), (''cm_popretz'', 0xbc02, 0xff03), (''cm_push'', 0xb802, 0xff03),
    (''cpop'', 0x60201013, 0xfff0707f), (''cpopw'', 0x6020101b, 0xfff0707f), (''csrrc'', 0x3073, 0x707f),
    (''csrrci'', 0x7073, 0x707f), (''csrrs'', 0x2073, 0x707f), (''csrrsi'', 0x6073, 0x707f),
    (''csrrw'', 0x1073, 0x707f), (''csrrwi'', 0x5073, 0x707f), (''ctz'', 0x60101013, 0xfff0707f),
    (''ctzw'', 0x6010101b, 0xfff0707f), (''czero_eqz'', 0xe005033, 0xfe00707f),
    (''czero_nez'', 0xe007033, 0xfe00707f), (''div'', 0x2004033, 0xfe00707f),
    (''divu'', 0x2005033, 0xfe00707f), (''divuw'', 0x200503b, 0xfe00707f), (''divw'', 0x200403b, 0xfe00707f),
    (''dret'', 0x7b200073, 0xffffffff), (''ebreak'', 0x100073, 0xffffffff), (''ecall'', 0x73, 0xffffffff),
    (''fadd_d'', 0x2000053, 0xfe00007f), (''fadd_h'', 0x4000053, 0xfe00007f),
    (''fadd_q'', 0x6000053, 0xfe00007f), (''fadd_s'', 0x53, 0xfe00007f),
    (''fclass_d'', 0xe2001053, 0xfff0707f), (''fclass_h'', 0xe4001053, 0xfff0707f),
    (''fclass_q'', 0xe6001053, 0xfff0707f), (''fclass_s'', 0xe0001053, 0xfff0707f),
    (''fcvt_bf16_s'', 0x44800053, 0xfff0007f), (''fcvt_d_h'', 0x42200053, 0xfff0007f),
    (''fcvt_d_l'', 0xd2200053, 0xfff0007f), (''fcvt_d_lu'', 0xd2300053, 0xfff0007f),
    (''fcvt_d_q'', 0x42300053, 0xfff0007f), (''fcvt_d_s'', 0x42000053, 0xfff0007f),
    (''fcvt_d_w'', 0xd2000053, 0xfff0007f), (''fcvt_d_wu'', 0xd2100053, 0xfff0007f),
    (''fcvt_h_d'', 0x44100053, 0xfff0007f), (''fcvt_h_l'', 0xd4200053, 0xfff0007f),
    (''fcvt_h_lu'', 0xd4300053, 0xfff0007f), (''fcvt_h_q'', 0x44300053, 0xfff0007f),
    (''fcvt_h_s'', 0x44000053, 0xfff0007f), (''fcvt_h_w'', 0xd4000053, 0xfff0007f),
    (''fcvt_h_wu'', 0xd4100053, 0xfff0007f), (''fcvt_l_d'', 0xc2200053, 0xfff0007f),
    (''fcvt_l_h'', 0xc4200053, 0xfff0007f), (''fcvt_l_q'', 0xc6200053, 0xfff0007f),
    (''fcvt_l_s'', 0xc0200053, 0xfff0007f), (''fcvt_lu_d'', 0xc2300053, 0xfff0007f),
    (''fcvt_lu_h'', 0xc4300053, 0xfff0007f), (''fcvt_lu_q'', 0xc6300053, 0xfff0007f),
    (''fcvt_lu_s'', 0xc0300053, 0xfff0007f), (''fcvt_q_d'', 0x46100053, 0xfff0007f),
    (''fcvt_q_h'', 0x46200053, 0xfff0007f), (''fcvt_q_l'', 0xd6200053, 0xfff0007f),
    (''fcvt_q_lu'', 0xd6300053, 0xfff0007f), (''fcvt_q_s'', 0x46000053, 0xfff0007f),
    (''fcvt_q_w'', 0xd6000053, 0xfff0007f), (''fcvt_q_wu'', 0xd6100053, 0xfff0007f),
    (''fcvt_s_bf16'', 0x40600053, 0xfff0007f), (''fcvt_s_d'', 0x40100053, 0xfff0007f),
    (''fcvt_s_h'', 0x40200053, 0xfff0007f), (''fcvt_s_l'', 0xd0200053, 0xfff0007f),
    (''fcvt_s_lu'', 0xd0300053, 0xfff0007f), (''fcvt_s_q'', 0x40300053, 0xfff0007f),
    (''fcvt_s_w'', 0xd0000053, 0xfff0007f), (''fcvt_s_wu'', 0xd0100053, 0xfff0007f),
    (''fcvt_w_d'', 0xc2000053, 0xfff0007f), (''fcvt_w_h'', 0xc4000053, 0xfff0007f),
    (''fcvt_w_q'', 0xc6000053, 0xfff0007f), (''fcvt_w_s'', 0xc0000053, 0xfff0007f)]"

definition encodings_4 :: "(string \<times> u64 \<times> u64) list" where
  "encodings_4 = [
    (''fcvt_wu_d'', 0xc2100053, 0xfff0007f), (''fcvt_wu_h'', 0xc4100053, 0xfff0007f),
    (''fcvt_wu_q'', 0xc6100053, 0xfff0007f), (''fcvt_wu_s'', 0xc0100053, 0xfff0007f),
    (''fcvtmod_w_d'', 0xc2801053, 0xfff0707f), (''fdiv_d'', 0x1a000053, 0xfe00007f),
    (''fdiv_h'', 0x1c000053, 0xfe00007f), (''fdiv_q'', 0x1e000053, 0xfe00007f),
    (''fdiv_s'', 0x18000053, 0xfe00007f), (''fence'', 0xf, 0x707f), (''fence_i'', 0x100f, 0x707f),
    (''feq_d'', 0xa2002053, 0xfe00707f), (''feq_h'', 0xa4002053, 0xfe00707f),
    (''feq_q'', 0xa6002053, 0xfe00707f), (''feq_s'', 0xa0002053, 0xfe00707f), (''fld'', 0x3007, 0x707f),
    (''fle_d'', 0xa2000053, 0xfe00707f), (''fle_h'', 0xa4000053, 0xfe00707f),
    (''fle_q'', 0xa6000053, 0xfe00707f), (''fle_s'', 0xa0000053, 0xfe00707f),
    (''fleq_d'', 0xa2004053, 0xfe00707f), (''fleq_h'', 0xa4004053, 0xfe00707f),
    (''fleq_q'', 0xa6004053, 0xfe00707f), (''fleq_s'', 0xa0004053, 0xfe00707f), (''flh'', 0x1007, 0x707f),
    (''fli_d'', 0xf2100053, 0xfff0707f), (''fli_h'', 0xf4100053, 0xfff0707f),
    (''fli_q'', 0xf6100053, 0xfff0707f), (''fli_s'', 0xf0100053, 0xfff0707f), (''flq'', 0x4007, 0x707f),
    (''flt_d'', 0xa2001053, 0xfe00707f), (''flt_h'', 0xa4001053, 0xfe00707f),
    (''flt_q'', 0xa6001053, 0xfe00707f), (''flt_s'', 0xa0001053, 0xfe00707f),
    (''fltq_d'', 0xa2005053, 0xfe00707f), (''fltq_h'', 0xa4005053, 0xfe00707f),
    (''fltq_q'', 0xa6005053, 0xfe00707f), (''fltq_s'', 0xa0005053, 0xfe00707f), (''flw'', 0x2007, 0x707f),
    (''fmadd_d'', 0x2000043, 0x600007f), (''fmadd_h'', 0x4000043, 0x600007f),
    (''fmadd_q'', 0x6000043, 0x600007f), (''fmadd_s'', 0x43, 0x600007f), (''fmax_d'', 0x2a001053, 0xfe00707f),
    (''fmax_h'', 0x2c001053, 0xfe00707f), (''fmax_q'', 0x2e001053, 0xfe00707f),
    (''fmax_s'', 0x28001053, 0xfe00707f), (''fmaxm_d'', 0x2a003053, 0xfe00707f),
    (''fmaxm_h'', 0x2c003053, 0xfe00707f), (''fmaxm_q'', 0x2e003053, 0xfe00707f),
    (''fmaxm_s'', 0x28003053, 0xfe00707f), (''fmin_d'', 0x2a000053, 0xfe00707f),
    (''fmin_h'', 0x2c000053, 0xfe00707f), (''fmin_q'', 0x2e000053, 0xfe00707f),
    (''fmin_s'', 0x28000053, 0xfe00707f), (''fminm_d'', 0x2a002053, 0xfe00707f),
    (''fminm_h'', 0x2c002053, 0xfe00707f), (''fminm_q'', 0x2e002053, 0xfe00707f),
    (''fminm_s'', 0x28002053, 0xfe00707f), (''fmsub_d'', 0x2000047, 0x600007f),
    (''fmsub_h'', 0x4000047, 0x600007f), (''fmsub_q'', 0x6000047, 0x600007f), (''fmsub_s'', 0x47, 0x600007f),
    (''fmul_d'', 0x12000053, 0xfe00007f), (''fmul_h'', 0x14000053, 0xfe00007f),
    (''fmul_q'', 0x16000053, 0xfe00007f), (''fmul_s'', 0x10000053, 0xfe00007f),
    (''fmv_d_x'', 0xf2000053, 0xfff0707f), (''fmv_h_x'', 0xf4000053, 0xfff0707f),
    (''fmv_w_x'', 0xf0000053, 0xfff0707f), (''fmv_x_d'', 0xe2000053, 0xfff0707f),
    (''fmv_x_h'', 0xe4000053, 0xfff0707f), (''fmv_x_w'', 0xe0000053, 0xfff0707f),
    (''fmvh_x_d'', 0xe2100053, 0xfff0707f), (''fmvh_x_q'', 0xe6100053, 0xfff0707f)]"

definition encodings_5 :: "(string \<times> u64 \<times> u64) list" where
  "encodings_5 = [
    (''fmvp_d_x'', 0xb2000053, 0xfe00707f), (''fmvp_q_x'', 0xb6000053, 0xfe00707f),
    (''fnmadd_d'', 0x200004f, 0x600007f), (''fnmadd_h'', 0x400004f, 0x600007f),
    (''fnmadd_q'', 0x600004f, 0x600007f), (''fnmadd_s'', 0x4f, 0x600007f),
    (''fnmsub_d'', 0x200004b, 0x600007f), (''fnmsub_h'', 0x400004b, 0x600007f),
    (''fnmsub_q'', 0x600004b, 0x600007f), (''fnmsub_s'', 0x4b, 0x600007f),
    (''fround_d'', 0x42400053, 0xfff0007f), (''fround_h'', 0x44400053, 0xfff0007f),
    (''fround_q'', 0x46400053, 0xfff0007f), (''fround_s'', 0x40400053, 0xfff0007f),
    (''froundnx_d'', 0x42500053, 0xfff0007f), (''froundnx_h'', 0x44500053, 0xfff0007f),
    (''froundnx_q'', 0x46500053, 0xfff0007f), (''froundnx_s'', 0x40500053, 0xfff0007f),
    (''fsd'', 0x3027, 0x707f), (''fsgnj_d'', 0x22000053, 0xfe00707f), (''fsgnj_h'', 0x24000053, 0xfe00707f),
    (''fsgnj_q'', 0x26000053, 0xfe00707f), (''fsgnj_s'', 0x20000053, 0xfe00707f),
    (''fsgnjn_d'', 0x22001053, 0xfe00707f), (''fsgnjn_h'', 0x24001053, 0xfe00707f),
    (''fsgnjn_q'', 0x26001053, 0xfe00707f), (''fsgnjn_s'', 0x20001053, 0xfe00707f),
    (''fsgnjx_d'', 0x22002053, 0xfe00707f), (''fsgnjx_h'', 0x24002053, 0xfe00707f),
    (''fsgnjx_q'', 0x26002053, 0xfe00707f), (''fsgnjx_s'', 0x20002053, 0xfe00707f), (''fsh'', 0x1027, 0x707f),
    (''fsq'', 0x4027, 0x707f), (''fsqrt_d'', 0x5a000053, 0xfff0007f), (''fsqrt_h'', 0x5c000053, 0xfff0007f),
    (''fsqrt_q'', 0x5e000053, 0xfff0007f), (''fsqrt_s'', 0x58000053, 0xfff0007f),
    (''fsub_d'', 0xa000053, 0xfe00007f), (''fsub_h'', 0xc000053, 0xfe00007f),
    (''fsub_q'', 0xe000053, 0xfe00007f), (''fsub_s'', 0x8000053, 0xfe00007f), (''fsw'', 0x2027, 0x707f),
    (''gorci'', 0x28005013, 0xfc00707f), (''grevi'', 0x68005013, 0xfc00707f),
    (''hfence_gvma'', 0x62000073, 0xfe007fff), (''hfence_vvma'', 0x22000073, 0xfe007fff),
    (''hinval_gvma'', 0x66000073, 0xfe007fff), (''hinval_vvma'', 0x26000073, 0xfe007fff),
    (''hlv_b'', 0x60004073, 0xfff0707f), (''hlv_bu'', 0x60104073, 0xfff0707f),
    (''hlv_d'', 0x6c004073, 0xfff0707f), (''hlv_h'', 0x64004073, 0xfff0707f),
    (''hlv_hu'', 0x64104073, 0xfff0707f), (''hlv_w'', 0x68004073, 0xfff0707f),
    (''hlv_wu'', 0x68104073, 0xfff0707f), (''hlvx_hu'', 0x64304073, 0xfff0707f),
    (''hlvx_wu'', 0x68304073, 0xfff0707f), (''hsv_b'', 0x62004073, 0xfe007fff),
    (''hsv_d'', 0x6e004073, 0xfe007fff), (''hsv_h'', 0x66004073, 0xfe007fff),
    (''hsv_w'', 0x6a004073, 0xfe007fff), (''jal'', 0x6f, 0x7f), (''jalr'', 0x67, 0x707f),
    (''lb'', 0x3, 0x707f), (''lb_aq'', 0x3400002f, 0xfdf0707f), (''lbu'', 0x4003, 0x707f),
    (''ld'', 0x3003, 0x707f), (''ld_aq'', 0x3400302f, 0xfdf0707f), (''lh'', 0x1003, 0x707f),
    (''lh_aq'', 0x3400102f, 0xfdf0707f), (''lhu'', 0x5003, 0x707f), (''lpad'', 0x17, 0xfff),
    (''lr_d'', 0x1000302f, 0xf9f0707f), (''lr_w'', 0x1000202f, 0xf9f0707f), (''lui'', 0x37, 0x7f)]"

definition encodings_6 :: "(string \<times> u64 \<times> u64) list" where
  "encodings_6 = [
    (''lw'', 0x2003, 0x707f), (''lw_aq'', 0x3400202f, 0xfdf0707f), (''lwu'', 0x6003, 0x707f),
    (''max'', 0xa006033, 0xfe00707f), (''maxu'', 0xa007033, 0xfe00707f), (''min'', 0xa004033, 0xfe00707f),
    (''minu'', 0xa005033, 0xfe00707f), (''mnret'', 0x70200073, 0xffffffff),
    (''mop_r_0'', 0x81c04073, 0xfff0707f), (''mop_r_1'', 0x81d04073, 0xfff0707f),
    (''mop_r_10'', 0x89e04073, 0xfff0707f), (''mop_r_11'', 0x89f04073, 0xfff0707f),
    (''mop_r_12'', 0x8dc04073, 0xfff0707f), (''mop_r_13'', 0x8dd04073, 0xfff0707f),
    (''mop_r_14'', 0x8de04073, 0xfff0707f), (''mop_r_15'', 0x8df04073, 0xfff0707f),
    (''mop_r_16'', 0xc1c04073, 0xfff0707f), (''mop_r_17'', 0xc1d04073, 0xfff0707f),
    (''mop_r_18'', 0xc1e04073, 0xfff0707f), (''mop_r_19'', 0xc1f04073, 0xfff0707f),
    (''mop_r_2'', 0x81e04073, 0xfff0707f), (''mop_r_20'', 0xc5c04073, 0xfff0707f),
    (''mop_r_21'', 0xc5d04073, 0xfff0707f), (''mop_r_22'', 0xc5e04073, 0xfff0707f),
    (''mop_r_23'', 0xc5f04073, 0xfff0707f), (''mop_r_24'', 0xc9c04073, 0xfff0707f),
    (''mop_r_25'', 0xc9d04073, 0xfff0707f), (''mop_r_26'', 0xc9e04073, 0xfff0707f),
    (''mop_r_27'', 0xc9f04073, 0xfff0707f), (''mop_r_28'', 0xcdc04073, 0xfff0707f),
    (''mop_r_29'', 0xcdd04073, 0xfff0707f), (''mop_r_3'', 0x81f04073, 0xfff0707f),
    (''mop_r_30'', 0xcde04073, 0xfff0707f), (''mop_r_31'', 0xcdf04073, 0xfff0707f),
    (''mop_r_4'', 0x85c04073, 0xfff0707f), (''mop_r_5'', 0x85d04073, 0xfff0707f),
    (''mop_r_6'', 0x85e04073, 0xfff0707f), (''mop_r_7'', 0x85f04073, 0xfff0707f),
    (''mop_r_8'', 0x89c04073, 0xfff0707f), (''mop_r_9'', 0x89d04073, 0xfff0707f),
    (''mop_r_N'', 0x81c04073, 0xb3c0707f), (''mop_rr_0'', 0x82004073, 0xfe00707f),
    (''mop_rr_1'', 0x86004073, 0xfe00707f), (''mop_rr_2'', 0x8a004073, 0xfe00707f),
    (''mop_rr_3'', 0x8e004073, 0xfe00707f), (''mop_rr_4'', 0xc2004073, 0xfe00707f),
    (''mop_rr_5'', 0xc6004073, 0xfe00707f), (''mop_rr_6'', 0xca004073, 0xfe00707f),
    (''mop_rr_7'', 0xce004073, 0xfe00707f), (''mop_rr_N'', 0x82004073, 0xb200707f),
    (''mret'', 0x30200073, 0xffffffff), (''mul'', 0x2000033, 0xfe00707f), (''mulh'', 0x2001033, 0xfe00707f),
    (''mulhsu'', 0x2002033, 0xfe00707f), (''mulhu'', 0x2003033, 0xfe00707f), (''mulw'', 0x200003b, 0xfe00707f),
    (''or'', 0x6033, 0xfe00707f), (''ori'', 0x6013, 0x707f), (''orn'', 0x40006033, 0xfe00707f),
    (''pack'', 0x8004033, 0xfe00707f), (''packh'', 0x8007033, 0xfe00707f), (''packw'', 0x800403b, 0xfe00707f),
    (''pause'', 0x100000f, 0xffffffff), (''prefetch_i'', 0x6013, 0x1f07fff),
    (''prefetch_r'', 0x106013, 0x1f07fff), (''prefetch_w'', 0x306013, 0x1f07fff),
    (''rem'', 0x2006033, 0xfe00707f), (''remu'', 0x2007033, 0xfe00707f), (''remuw'', 0x200703b, 0xfe00707f),
    (''remw'', 0x200603b, 0xfe00707f), (''rol'', 0x60001033, 0xfe00707f), (''rolw'', 0x6000103b, 0xfe00707f),
    (''ror'', 0x60005033, 0xfe00707f), (''rori'', 0x60005013, 0xfc00707f), (''roriw'', 0x6000501b, 0xfe00707f)]"

definition encodings_7 :: "(string \<times> u64 \<times> u64) list" where
  "encodings_7 = [
    (''rorw'', 0x6000503b, 0xfe00707f), (''sb'', 0x23, 0x707f), (''sb_rl'', 0x3a00002f, 0xfa007fff),
    (''sc_d'', 0x1800302f, 0xf800707f), (''sc_w'', 0x1800202f, 0xf800707f),
    (''sctrclr'', 0x10400073, 0xffffffff), (''sd'', 0x3023, 0x707f), (''sd_rl'', 0x3a00302f, 0xfa007fff),
    (''sext_b'', 0x60401013, 0xfff0707f), (''sext_h'', 0x60501013, 0xfff0707f),
    (''sfence_inval_ir'', 0x18100073, 0xffffffff), (''sfence_vma'', 0x12000073, 0xfe007fff),
    (''sfence_w_inval'', 0x18000073, 0xffffffff), (''sh'', 0x1023, 0x707f),
    (''sh1add'', 0x20002033, 0xfe00707f), (''sh1add_uw'', 0x2000203b, 0xfe00707f),
    (''sh2add'', 0x20004033, 0xfe00707f), (''sh2add_uw'', 0x2000403b, 0xfe00707f),
    (''sh3add'', 0x20006033, 0xfe00707f), (''sh3add_uw'', 0x2000603b, 0xfe00707f),
    (''sh_rl'', 0x3a00102f, 0xfa007fff), (''sha256sig0'', 0x10201013, 0xfff0707f),
    (''sha256sig1'', 0x10301013, 0xfff0707f), (''sha256sum0'', 0x10001013, 0xfff0707f),
    (''sha256sum1'', 0x10101013, 0xfff0707f), (''sha512sig0'', 0x10601013, 0xfff0707f),
    (''sha512sig0h'', 0x5c000033, 0xfe00707f), (''sha512sig0l'', 0x54000033, 0xfe00707f),
    (''sha512sig1'', 0x10701013, 0xfff0707f), (''sha512sig1h'', 0x5e000033, 0xfe00707f),
    (''sha512sig1l'', 0x56000033, 0xfe00707f), (''sha512sum0'', 0x10401013, 0xfff0707f),
    (''sha512sum0r'', 0x50000033, 0xfe00707f), (''sha512sum1'', 0x10501013, 0xfff0707f),
    (''sha512sum1r'', 0x52000033, 0xfe00707f), (''shfli'', 0x8001013, 0xfe00707f),
    (''sinval_vma'', 0x16000073, 0xfe007fff), (''sll'', 0x1033, 0xfe00707f), (''slli'', 0x1013, 0xfc00707f),
    (''slli_rv32'', 0x1013, 0xfe00707f), (''slli_uw'', 0x800101b, 0xfc00707f), (''slliw'', 0x101b, 0xfe00707f),
    (''sllw'', 0x103b, 0xfe00707f), (''slt'', 0x2033, 0xfe00707f), (''slti'', 0x2013, 0x707f),
    (''sltiu'', 0x3013, 0x707f), (''sltu'', 0x3033, 0xfe00707f), (''sm3p0'', 0x10801013, 0xfff0707f),
    (''sm3p1'', 0x10901013, 0xfff0707f), (''sm4ed'', 0x30000033, 0x3e00707f),
    (''sm4ks'', 0x34000033, 0x3e00707f), (''sra'', 0x40005033, 0xfe00707f), (''srai'', 0x40005013, 0xfc00707f),
    (''srai_rv32'', 0x40005013, 0xfe00707f), (''sraiw'', 0x4000501b, 0xfe00707f),
    (''sraw'', 0x4000503b, 0xfe00707f), (''sret'', 0x10200073, 0xffffffff), (''srl'', 0x5033, 0xfe00707f),
    (''srli'', 0x5013, 0xfc00707f), (''srli_rv32'', 0x5013, 0xfe00707f), (''srliw'', 0x501b, 0xfe00707f),
    (''srlw'', 0x503b, 0xfe00707f), (''ssamoswap_d'', 0x4800302f, 0xf800707f),
    (''ssamoswap_w'', 0x4800202f, 0xf800707f), (''sspopchk_x1'', 0xcdc0c073, 0xffffffff),
    (''sspopchk_x5'', 0xcdc2c073, 0xffffffff), (''sspush_x1'', 0xce104073, 0xffffffff),
    (''sspush_x5'', 0xce504073, 0xffffffff), (''ssrdp'', 0xcdc04073, 0xfffff07f),
    (''sub'', 0x40000033, 0xfe00707f), (''subw'', 0x4000003b, 0xfe00707f), (''sw'', 0x2023, 0x707f),
    (''sw_rl'', 0x3a00202f, 0xfa007fff), (''unshfli'', 0x8005013, 0xfe00707f),
    (''vaadd_vv'', 0x24002057, 0xfc00707f)]"

definition encodings_8 :: "(string \<times> u64 \<times> u64) list" where
  "encodings_8 = [
    (''vaadd_vx'', 0x24006057, 0xfc00707f), (''vaaddu_vv'', 0x20002057, 0xfc00707f),
    (''vaaddu_vx'', 0x20006057, 0xfc00707f), (''vadc_vim'', 0x40003057, 0xfe00707f),
    (''vadc_vvm'', 0x40000057, 0xfe00707f), (''vadc_vxm'', 0x40004057, 0xfe00707f),
    (''vadd_vi'', 0x3057, 0xfc00707f), (''vadd_vv'', 0x57, 0xfc00707f), (''vadd_vx'', 0x4057, 0xfc00707f),
    (''vaesdf_vs'', 0xa600a077, 0xfe0ff07f), (''vaesdf_vv'', 0xa200a077, 0xfe0ff07f),
    (''vaesdm_vs'', 0xa6002077, 0xfe0ff07f), (''vaesdm_vv'', 0xa2002077, 0xfe0ff07f),
    (''vaesef_vs'', 0xa601a077, 0xfe0ff07f), (''vaesef_vv'', 0xa201a077, 0xfe0ff07f),
    (''vaesem_vs'', 0xa6012077, 0xfe0ff07f), (''vaesem_vv'', 0xa2012077, 0xfe0ff07f),
    (''vaeskf1_vi'', 0x8a002077, 0xfe00707f), (''vaeskf2_vi'', 0xaa002077, 0xfe00707f),
    (''vaesz_vs'', 0xa603a077, 0xfe0ff07f), (''vand_vi'', 0x24003057, 0xfc00707f),
    (''vand_vv'', 0x24000057, 0xfc00707f), (''vand_vx'', 0x24004057, 0xfc00707f),
    (''vandn_vv'', 0x4000057, 0xfc00707f), (''vandn_vx'', 0x4004057, 0xfc00707f),
    (''vasub_vv'', 0x2c002057, 0xfc00707f), (''vasub_vx'', 0x2c006057, 0xfc00707f),
    (''vasubu_vv'', 0x28002057, 0xfc00707f), (''vasubu_vx'', 0x28006057, 0xfc00707f),
    (''vbrev8_v'', 0x48042057, 0xfc0ff07f), (''vbrev_v'', 0x48052057, 0xfc0ff07f),
    (''vclmul_vv'', 0x30002057, 0xfc00707f), (''vclmul_vx'', 0x30006057, 0xfc00707f),
    (''vclmulh_vv'', 0x34002057, 0xfc00707f), (''vclmulh_vx'', 0x34006057, 0xfc00707f),
    (''vclz_v'', 0x48062057, 0xfc0ff07f), (''vcompress_vm'', 0x5e002057, 0xfe00707f),
    (''vcpop_m'', 0x40082057, 0xfc0ff07f), (''vcpop_v'', 0x48072057, 0xfc0ff07f),
    (''vctz_v'', 0x4806a057, 0xfc0ff07f), (''vdiv_vv'', 0x84002057, 0xfc00707f),
    (''vdiv_vx'', 0x84006057, 0xfc00707f), (''vdivu_vv'', 0x80002057, 0xfc00707f),
    (''vdivu_vx'', 0x80006057, 0xfc00707f), (''vfadd_vf'', 0x5057, 0xfc00707f),
    (''vfadd_vv'', 0x1057, 0xfc00707f), (''vfclass_v'', 0x4c081057, 0xfc0ff07f),
    (''vfcvt_f_x_v'', 0x48019057, 0xfc0ff07f), (''vfcvt_f_xu_v'', 0x48011057, 0xfc0ff07f),
    (''vfcvt_rtz_x_f_v'', 0x48039057, 0xfc0ff07f), (''vfcvt_rtz_xu_f_v'', 0x48031057, 0xfc0ff07f),
    (''vfcvt_x_f_v'', 0x48009057, 0xfc0ff07f), (''vfcvt_xu_f_v'', 0x48001057, 0xfc0ff07f),
    (''vfdiv_vf'', 0x80005057, 0xfc00707f), (''vfdiv_vv'', 0x80001057, 0xfc00707f),
    (''vfirst_m'', 0x4008a057, 0xfc0ff07f), (''vfmacc_vf'', 0xb0005057, 0xfc00707f),
    (''vfmacc_vv'', 0xb0001057, 0xfc00707f), (''vfmadd_vf'', 0xa0005057, 0xfc00707f),
    (''vfmadd_vv'', 0xa0001057, 0xfc00707f), (''vfmax_vf'', 0x18005057, 0xfc00707f),
    (''vfmax_vv'', 0x18001057, 0xfc00707f), (''vfmerge_vfm'', 0x5c005057, 0xfe00707f),
    (''vfmin_vf'', 0x10005057, 0xfc00707f), (''vfmin_vv'', 0x10001057, 0xfc00707f),
    (''vfmsac_vf'', 0xb8005057, 0xfc00707f), (''vfmsac_vv'', 0xb8001057, 0xfc00707f),
    (''vfmsub_vf'', 0xa8005057, 0xfc00707f), (''vfmsub_vv'', 0xa8001057, 0xfc00707f),
    (''vfmul_vf'', 0x90005057, 0xfc00707f), (''vfmul_vv'', 0x90001057, 0xfc00707f),
    (''vfmv_f_s'', 0x42001057, 0xfe0ff07f), (''vfmv_s_f'', 0x42005057, 0xfff0707f),
    (''vfmv_v_f'', 0x5e005057, 0xfff0707f), (''vfncvt_f_f_w'', 0x480a1057, 0xfc0ff07f)]"

definition encodings_9 :: "(string \<times> u64 \<times> u64) list" where
  "encodings_9 = [
    (''vfncvt_f_x_w'', 0x48099057, 0xfc0ff07f), (''vfncvt_f_xu_w'', 0x48091057, 0xfc0ff07f),
    (''vfncvt_rod_f_f_w'', 0x480a9057, 0xfc0ff07f), (''vfncvt_rtz_x_f_w'', 0x480b9057, 0xfc0ff07f),
    (''vfncvt_rtz_xu_f_w'', 0x480b1057, 0xfc0ff07f), (''vfncvt_x_f_w'', 0x48089057, 0xfc0ff07f),
    (''vfncvt_xu_f_w'', 0x48081057, 0xfc0ff07f), (''vfncvtbf16_f_f_w'', 0x480e9057, 0xfc0ff07f),
    (''vfnmacc_vf'', 0xb4005057, 0xfc00707f), (''vfnmacc_vv'', 0xb4001057, 0xfc00707f),
    (''vfnmadd_vf'', 0xa4005057, 0xfc00707f), (''vfnmadd_vv'', 0xa4001057, 0xfc00707f),
    (''vfnmsac_vf'', 0xbc005057, 0xfc00707f), (''vfnmsac_vv'', 0xbc001057, 0xfc00707f),
    (''vfnmsub_vf'', 0xac005057, 0xfc00707f), (''vfnmsub_vv'', 0xac001057, 0xfc00707f),
    (''vfrdiv_vf'', 0x84005057, 0xfc00707f), (''vfrec7_v'', 0x4c029057, 0xfc0ff07f),
    (''vfredmax_vs'', 0x1c001057, 0xfc00707f), (''vfredmin_vs'', 0x14001057, 0xfc00707f),
    (''vfredosum_vs'', 0xc001057, 0xfc00707f), (''vfredusum_vs'', 0x4001057, 0xfc00707f),
    (''vfrsqrt7_v'', 0x4c021057, 0xfc0ff07f), (''vfrsub_vf'', 0x9c005057, 0xfc00707f),
    (''vfsgnj_vf'', 0x20005057, 0xfc00707f), (''vfsgnj_vv'', 0x20001057, 0xfc00707f),
    (''vfsgnjn_vf'', 0x24005057, 0xfc00707f), (''vfsgnjn_vv'', 0x24001057, 0xfc00707f),
    (''vfsgnjx_vf'', 0x28005057, 0xfc00707f), (''vfsgnjx_vv'', 0x28001057, 0xfc00707f),
    (''vfslide1down_vf'', 0x3c005057, 0xfc00707f), (''vfslide1up_vf'', 0x38005057, 0xfc00707f),
    (''vfsqrt_v'', 0x4c001057, 0xfc0ff07f), (''vfsub_vf'', 0x8005057, 0xfc00707f),
    (''vfsub_vv'', 0x8001057, 0xfc00707f), (''vfwadd_vf'', 0xc0005057, 0xfc00707f),
    (''vfwadd_vv'', 0xc0001057, 0xfc00707f), (''vfwadd_wf'', 0xd0005057, 0xfc00707f),
    (''vfwadd_wv'', 0xd0001057, 0xfc00707f), (''vfwcvt_f_f_v'', 0x48061057, 0xfc0ff07f),
    (''vfwcvt_f_x_v'', 0x48059057, 0xfc0ff07f), (''vfwcvt_f_xu_v'', 0x48051057, 0xfc0ff07f),
    (''vfwcvt_rtz_x_f_v'', 0x48079057, 0xfc0ff07f), (''vfwcvt_rtz_xu_f_v'', 0x48071057, 0xfc0ff07f),
    (''vfwcvt_x_f_v'', 0x48049057, 0xfc0ff07f), (''vfwcvt_xu_f_v'', 0x48041057, 0xfc0ff07f),
    (''vfwcvtbf16_f_f_v'', 0x48069057, 0xfc0ff07f), (''vfwmacc_vf'', 0xf0005057, 0xfc00707f),
    (''vfwmacc_vv'', 0xf0001057, 0xfc00707f), (''vfwmaccbf16_vf'', 0xec005057, 0xfc00707f),
    (''vfwmaccbf16_vv'', 0xec001057, 0xfc00707f), (''vfwmsac_vf'', 0xf8005057, 0xfc00707f),
    (''vfwmsac_vv'', 0xf8001057, 0xfc00707f), (''vfwmul_vf'', 0xe0005057, 0xfc00707f),
    (''vfwmul_vv'', 0xe0001057, 0xfc00707f), (''vfwnmacc_vf'', 0xf4005057, 0xfc00707f),
    (''vfwnmacc_vv'', 0xf4001057, 0xfc00707f), (''vfwnmsac_vf'', 0xfc005057, 0xfc00707f),
    (''vfwnmsac_vv'', 0xfc001057, 0xfc00707f), (''vfwredosum_vs'', 0xcc001057, 0xfc00707f),
    (''vfwredusum_vs'', 0xc4001057, 0xfc00707f), (''vfwsub_vf'', 0xc8005057, 0xfc00707f),
    (''vfwsub_vv'', 0xc8001057, 0xfc00707f), (''vfwsub_wf'', 0xd8005057, 0xfc00707f),
    (''vfwsub_wv'', 0xd8001057, 0xfc00707f), (''vghsh_vv'', 0xb2002077, 0xfe00707f),
    (''vgmul_vv'', 0xa208a077, 0xfe0ff07f), (''vid_v'', 0x5008a057, 0xfdfff07f),
    (''viota_m'', 0x50082057, 0xfc0ff07f), (''vl1re16_v'', 0x2805007, 0xfff0707f),
    (''vl1re32_v'', 0x2806007, 0xfff0707f), (''vl1re64_v'', 0x2807007, 0xfff0707f),
    (''vl1re8_v'', 0x2800007, 0xfff0707f), (''vl2re16_v'', 0x22805007, 0xfff0707f),
    (''vl2re32_v'', 0x22806007, 0xfff0707f)]"

definition encodings_10 :: "(string \<times> u64 \<times> u64) list" where
  "encodings_10 = [
    (''vl2re64_v'', 0x22807007, 0xfff0707f), (''vl2re8_v'', 0x22800007, 0xfff0707f),
    (''vl4re16_v'', 0x62805007, 0xfff0707f), (''vl4re32_v'', 0x62806007, 0xfff0707f),
    (''vl4re64_v'', 0x62807007, 0xfff0707f), (''vl4re8_v'', 0x62800007, 0xfff0707f),
    (''vl8re16_v'', 0xe2805007, 0xfff0707f), (''vl8re32_v'', 0xe2806007, 0xfff0707f),
    (''vl8re64_v'', 0xe2807007, 0xfff0707f), (''vl8re8_v'', 0xe2800007, 0xfff0707f),
    (''vle16_v'', 0x5007, 0x1df0707f), (''vle16ff_v'', 0x1005007, 0x1df0707f),
    (''vle32_v'', 0x6007, 0x1df0707f), (''vle32ff_v'', 0x1006007, 0x1df0707f),
    (''vle64_v'', 0x7007, 0x1df0707f), (''vle64ff_v'', 0x1007007, 0x1df0707f), (''vle8_v'', 0x7, 0x1df0707f),
    (''vle8ff_v'', 0x1000007, 0x1df0707f), (''vlm_v'', 0x2b00007, 0xfff0707f),
    (''vloxei16_v'', 0xc005007, 0x1c00707f), (''vloxei32_v'', 0xc006007, 0x1c00707f),
    (''vloxei64_v'', 0xc007007, 0x1c00707f), (''vloxei8_v'', 0xc000007, 0x1c00707f),
    (''vlse16_v'', 0x8005007, 0x1c00707f), (''vlse32_v'', 0x8006007, 0x1c00707f),
    (''vlse64_v'', 0x8007007, 0x1c00707f), (''vlse8_v'', 0x8000007, 0x1c00707f),
    (''vluxei16_v'', 0x4005007, 0x1c00707f), (''vluxei32_v'', 0x4006007, 0x1c00707f),
    (''vluxei64_v'', 0x4007007, 0x1c00707f), (''vluxei8_v'', 0x4000007, 0x1c00707f),
    (''vmacc_vv'', 0xb4002057, 0xfc00707f), (''vmacc_vx'', 0xb4006057, 0xfc00707f),
    (''vmadc_vi'', 0x46003057, 0xfe00707f), (''vmadc_vim'', 0x44003057, 0xfe00707f),
    (''vmadc_vv'', 0x46000057, 0xfe00707f), (''vmadc_vvm'', 0x44000057, 0xfe00707f),
    (''vmadc_vx'', 0x46004057, 0xfe00707f), (''vmadc_vxm'', 0x44004057, 0xfe00707f),
    (''vmadd_vv'', 0xa4002057, 0xfc00707f), (''vmadd_vx'', 0xa4006057, 0xfc00707f),
    (''vmand_mm'', 0x66002057, 0xfe00707f), (''vmandn_mm'', 0x62002057, 0xfe00707f),
    (''vmax_vv'', 0x1c000057, 0xfc00707f), (''vmax_vx'', 0x1c004057, 0xfc00707f),
    (''vmaxu_vv'', 0x18000057, 0xfc00707f), (''vmaxu_vx'', 0x18004057, 0xfc00707f),
    (''vmerge_vim'', 0x5c003057, 0xfe00707f), (''vmerge_vvm'', 0x5c000057, 0xfe00707f),
    (''vmerge_vxm'', 0x5c004057, 0xfe00707f), (''vmfeq_vf'', 0x60005057, 0xfc00707f),
    (''vmfeq_vv'', 0x60001057, 0xfc00707f), (''vmfge_vf'', 0x7c005057, 0xfc00707f),
    (''vmfgt_vf'', 0x74005057, 0xfc00707f), (''vmfle_vf'', 0x64005057, 0xfc00707f),
    (''vmfle_vv'', 0x64001057, 0xfc00707f), (''vmflt_vf'', 0x6c005057, 0xfc00707f),
    (''vmflt_vv'', 0x6c001057, 0xfc00707f), (''vmfne_vf'', 0x70005057, 0xfc00707f),
    (''vmfne_vv'', 0x70001057, 0xfc00707f), (''vmin_vv'', 0x14000057, 0xfc00707f),
    (''vmin_vx'', 0x14004057, 0xfc00707f), (''vminu_vv'', 0x10000057, 0xfc00707f),
    (''vminu_vx'', 0x10004057, 0xfc00707f), (''vmnand_mm'', 0x76002057, 0xfe00707f),
    (''vmnor_mm'', 0x7a002057, 0xfe00707f), (''vmor_mm'', 0x6a002057, 0xfe00707f),
    (''vmorn_mm'', 0x72002057, 0xfe00707f), (''vmsbc_vv'', 0x4e000057, 0xfe00707f),
    (''vmsbc_vvm'', 0x4c000057, 0xfe00707f), (''vmsbc_vx'', 0x4e004057, 0xfe00707f),
    (''vmsbc_vxm'', 0x4c004057, 0xfe00707f), (''vmsbf_m'', 0x5000a057, 0xfc0ff07f),
    (''vmseq_vi'', 0x60003057, 0xfc00707f), (''vmseq_vv'', 0x60000057, 0xfc00707f)]"

definition encodings_11 :: "(string \<times> u64 \<times> u64) list" where
  "encodings_11 = [
    (''vmseq_vx'', 0x60004057, 0xfc00707f), (''vmsgt_vi'', 0x7c003057, 0xfc00707f),
    (''vmsgt_vx'', 0x7c004057, 0xfc00707f), (''vmsgtu_vi'', 0x78003057, 0xfc00707f),
    (''vmsgtu_vx'', 0x78004057, 0xfc00707f), (''vmsif_m'', 0x5001a057, 0xfc0ff07f),
    (''vmsle_vi'', 0x74003057, 0xfc00707f), (''vmsle_vv'', 0x74000057, 0xfc00707f),
    (''vmsle_vx'', 0x74004057, 0xfc00707f), (''vmsleu_vi'', 0x70003057, 0xfc00707f),
    (''vmsleu_vv'', 0x70000057, 0xfc00707f), (''vmsleu_vx'', 0x70004057, 0xfc00707f),
    (''vmslt_vv'', 0x6c000057, 0xfc00707f), (''vmslt_vx'', 0x6c004057, 0xfc00707f),
    (''vmsltu_vv'', 0x68000057, 0xfc00707f), (''vmsltu_vx'', 0x68004057, 0xfc00707f),
    (''vmsne_vi'', 0x64003057, 0xfc00707f), (''vmsne_vv'', 0x64000057, 0xfc00707f),
    (''vmsne_vx'', 0x64004057, 0xfc00707f), (''vmsof_m'', 0x50012057, 0xfc0ff07f),
    (''vmul_vv'', 0x94002057, 0xfc00707f), (''vmul_vx'', 0x94006057, 0xfc00707f),
    (''vmulh_vv'', 0x9c002057, 0xfc00707f), (''vmulh_vx'', 0x9c006057, 0xfc00707f),
    (''vmulhsu_vv'', 0x98002057, 0xfc00707f), (''vmulhsu_vx'', 0x98006057, 0xfc00707f),
    (''vmulhu_vv'', 0x90002057, 0xfc00707f), (''vmulhu_vx'', 0x90006057, 0xfc00707f),
    (''vmv1r_v'', 0x9e003057, 0xfe0ff07f), (''vmv2r_v'', 0x9e00b057, 0xfe0ff07f),
    (''vmv4r_v'', 0x9e01b057, 0xfe0ff07f), (''vmv8r_v'', 0x9e03b057, 0xfe0ff07f),
    (''vmv_s_x'', 0x42006057, 0xfff0707f), (''vmv_v_i'', 0x5e003057, 0xfff0707f),
    (''vmv_v_v'', 0x5e000057, 0xfff0707f), (''vmv_v_x'', 0x5e004057, 0xfff0707f),
    (''vmv_x_s'', 0x42002057, 0xfe0ff07f), (''vmxnor_mm'', 0x7e002057, 0xfe00707f),
    (''vmxor_mm'', 0x6e002057, 0xfe00707f), (''vnclip_wi'', 0xbc003057, 0xfc00707f),
    (''vnclip_wv'', 0xbc000057, 0xfc00707f), (''vnclip_wx'', 0xbc004057, 0xfc00707f),
    (''vnclipu_wi'', 0xb8003057, 0xfc00707f), (''vnclipu_wv'', 0xb8000057, 0xfc00707f),
    (''vnclipu_wx'', 0xb8004057, 0xfc00707f), (''vnmsac_vv'', 0xbc002057, 0xfc00707f),
    (''vnmsac_vx'', 0xbc006057, 0xfc00707f), (''vnmsub_vv'', 0xac002057, 0xfc00707f),
    (''vnmsub_vx'', 0xac006057, 0xfc00707f), (''vnsra_wi'', 0xb4003057, 0xfc00707f),
    (''vnsra_wv'', 0xb4000057, 0xfc00707f), (''vnsra_wx'', 0xb4004057, 0xfc00707f),
    (''vnsrl_wi'', 0xb0003057, 0xfc00707f), (''vnsrl_wv'', 0xb0000057, 0xfc00707f),
    (''vnsrl_wx'', 0xb0004057, 0xfc00707f), (''vor_vi'', 0x28003057, 0xfc00707f),
    (''vor_vv'', 0x28000057, 0xfc00707f), (''vor_vx'', 0x28004057, 0xfc00707f),
    (''vredand_vs'', 0x4002057, 0xfc00707f), (''vredmax_vs'', 0x1c002057, 0xfc00707f),
    (''vredmaxu_vs'', 0x18002057, 0xfc00707f), (''vredmin_vs'', 0x14002057, 0xfc00707f),
    (''vredminu_vs'', 0x10002057, 0xfc00707f), (''vredor_vs'', 0x8002057, 0xfc00707f),
    (''vredsum_vs'', 0x2057, 0xfc00707f), (''vredxor_vs'', 0xc002057, 0xfc00707f),
    (''vrem_vv'', 0x8c002057, 0xfc00707f), (''vrem_vx'', 0x8c006057, 0xfc00707f),
    (''vremu_vv'', 0x88002057, 0xfc00707f), (''vremu_vx'', 0x88006057, 0xfc00707f),
    (''vrev8_v'', 0x4804a057, 0xfc0ff07f), (''vrgather_vi'', 0x30003057, 0xfc00707f),
    (''vrgather_vv'', 0x30000057, 0xfc00707f), (''vrgather_vx'', 0x30004057, 0xfc00707f),
    (''vrgatherei16_vv'', 0x38000057, 0xfc00707f)]"

definition encodings_12 :: "(string \<times> u64 \<times> u64) list" where
  "encodings_12 = [
    (''vrol_vv'', 0x54000057, 0xfc00707f), (''vrol_vx'', 0x54004057, 0xfc00707f),
    (''vror_vi'', 0x50003057, 0xf800707f), (''vror_vv'', 0x50000057, 0xfc00707f),
    (''vror_vx'', 0x50004057, 0xfc00707f), (''vrsub_vi'', 0xc003057, 0xfc00707f),
    (''vrsub_vx'', 0xc004057, 0xfc00707f), (''vs1r_v'', 0x2800027, 0xfff0707f),
    (''vs2r_v'', 0x22800027, 0xfff0707f), (''vs4r_v'', 0x62800027, 0xfff0707f),
    (''vs8r_v'', 0xe2800027, 0xfff0707f), (''vsadd_vi'', 0x84003057, 0xfc00707f),
    (''vsadd_vv'', 0x84000057, 0xfc00707f), (''vsadd_vx'', 0x84004057, 0xfc00707f),
    (''vsaddu_vi'', 0x80003057, 0xfc00707f), (''vsaddu_vv'', 0x80000057, 0xfc00707f),
    (''vsaddu_vx'', 0x80004057, 0xfc00707f), (''vsbc_vvm'', 0x48000057, 0xfe00707f),
    (''vsbc_vxm'', 0x48004057, 0xfe00707f), (''vse16_v'', 0x5027, 0x1df0707f),
    (''vse32_v'', 0x6027, 0x1df0707f), (''vse64_v'', 0x7027, 0x1df0707f), (''vse8_v'', 0x27, 0x1df0707f),
    (''vsetivli'', 0xc0007057, 0xc000707f), (''vsetvl'', 0x80007057, 0xfe00707f),
    (''vsetvli'', 0x7057, 0x8000707f), (''vsext_vf2'', 0x4803a057, 0xfc0ff07f),
    (''vsext_vf4'', 0x4802a057, 0xfc0ff07f), (''vsext_vf8'', 0x4801a057, 0xfc0ff07f),
    (''vsha2ch_vv'', 0xba002077, 0xfe00707f), (''vsha2cl_vv'', 0xbe002077, 0xfe00707f),
    (''vsha2ms_vv'', 0xb6002077, 0xfe00707f), (''vslide1down_vx'', 0x3c006057, 0xfc00707f),
    (''vslide1up_vx'', 0x38006057, 0xfc00707f), (''vslidedown_vi'', 0x3c003057, 0xfc00707f),
    (''vslidedown_vx'', 0x3c004057, 0xfc00707f), (''vslideup_vi'', 0x38003057, 0xfc00707f),
    (''vslideup_vx'', 0x38004057, 0xfc00707f), (''vsll_vi'', 0x94003057, 0xfc00707f),
    (''vsll_vv'', 0x94000057, 0xfc00707f), (''vsll_vx'', 0x94004057, 0xfc00707f),
    (''vsm3c_vi'', 0xae002077, 0xfe00707f), (''vsm3me_vv'', 0x82002077, 0xfe00707f),
    (''vsm4k_vi'', 0x86002077, 0xfe00707f), (''vsm4r_vs'', 0xa6082077, 0xfe0ff07f),
    (''vsm4r_vv'', 0xa2082077, 0xfe0ff07f), (''vsm_v'', 0x2b00027, 0xfff0707f),
    (''vsmul_vv'', 0x9c000057, 0xfc00707f), (''vsmul_vx'', 0x9c004057, 0xfc00707f),
    (''vsoxei16_v'', 0xc005027, 0x1c00707f), (''vsoxei32_v'', 0xc006027, 0x1c00707f),
    (''vsoxei64_v'', 0xc007027, 0x1c00707f), (''vsoxei8_v'', 0xc000027, 0x1c00707f),
    (''vsra_vi'', 0xa4003057, 0xfc00707f), (''vsra_vv'', 0xa4000057, 0xfc00707f),
    (''vsra_vx'', 0xa4004057, 0xfc00707f), (''vsrl_vi'', 0xa0003057, 0xfc00707f),
    (''vsrl_vv'', 0xa0000057, 0xfc00707f), (''vsrl_vx'', 0xa0004057, 0xfc00707f),
    (''vsse16_v'', 0x8005027, 0x1c00707f), (''vsse32_v'', 0x8006027, 0x1c00707f),
    (''vsse64_v'', 0x8007027, 0x1c00707f), (''vsse8_v'', 0x8000027, 0x1c00707f),
    (''vssra_vi'', 0xac003057, 0xfc00707f), (''vssra_vv'', 0xac000057, 0xfc00707f),
    (''vssra_vx'', 0xac004057, 0xfc00707f), (''vssrl_vi'', 0xa8003057, 0xfc00707f),
    (''vssrl_vv'', 0xa8000057, 0xfc00707f), (''vssrl_vx'', 0xa8004057, 0xfc00707f),
    (''vssub_vv'', 0x8c000057, 0xfc00707f), (''vssub_vx'', 0x8c004057, 0xfc00707f),
    (''vssubu_vv'', 0x88000057, 0xfc00707f), (''vssubu_vx'', 0x88004057, 0xfc00707f),
    (''vsub_vv'', 0x8000057, 0xfc00707f), (''vsub_vx'', 0x8004057, 0xfc00707f)]"

definition encodings_13 :: "(string \<times> u64 \<times> u64) list" where
  "encodings_13 = [
    (''vsuxei16_v'', 0x4005027, 0x1c00707f), (''vsuxei32_v'', 0x4006027, 0x1c00707f),
    (''vsuxei64_v'', 0x4007027, 0x1c00707f), (''vsuxei8_v'', 0x4000027, 0x1c00707f),
    (''vwadd_vv'', 0xc4002057, 0xfc00707f), (''vwadd_vx'', 0xc4006057, 0xfc00707f),
    (''vwadd_wv'', 0xd4002057, 0xfc00707f), (''vwadd_wx'', 0xd4006057, 0xfc00707f),
    (''vwaddu_vv'', 0xc0002057, 0xfc00707f), (''vwaddu_vx'', 0xc0006057, 0xfc00707f),
    (''vwaddu_wv'', 0xd0002057, 0xfc00707f), (''vwaddu_wx'', 0xd0006057, 0xfc00707f),
    (''vwmacc_vv'', 0xf4002057, 0xfc00707f), (''vwmacc_vx'', 0xf4006057, 0xfc00707f),
    (''vwmaccsu_vv'', 0xfc002057, 0xfc00707f), (''vwmaccsu_vx'', 0xfc006057, 0xfc00707f),
    (''vwmaccu_vv'', 0xf0002057, 0xfc00707f), (''vwmaccu_vx'', 0xf0006057, 0xfc00707f),
    (''vwmaccus_vx'', 0xf8006057, 0xfc00707f), (''vwmul_vv'', 0xec002057, 0xfc00707f),
    (''vwmul_vx'', 0xec006057, 0xfc00707f), (''vwmulsu_vv'', 0xe8002057, 0xfc00707f),
    (''vwmulsu_vx'', 0xe8006057, 0xfc00707f), (''vwmulu_vv'', 0xe0002057, 0xfc00707f),
    (''vwmulu_vx'', 0xe0006057, 0xfc00707f), (''vwredsum_vs'', 0xc4000057, 0xfc00707f),
    (''vwredsumu_vs'', 0xc0000057, 0xfc00707f), (''vwsll_vi'', 0xd4003057, 0xfc00707f),
    (''vwsll_vv'', 0xd4000057, 0xfc00707f), (''vwsll_vx'', 0xd4004057, 0xfc00707f),
    (''vwsub_vv'', 0xcc002057, 0xfc00707f), (''vwsub_vx'', 0xcc006057, 0xfc00707f),
    (''vwsub_wv'', 0xdc002057, 0xfc00707f), (''vwsub_wx'', 0xdc006057, 0xfc00707f),
    (''vwsubu_vv'', 0xc8002057, 0xfc00707f), (''vwsubu_vx'', 0xc8006057, 0xfc00707f),
    (''vwsubu_wv'', 0xd8002057, 0xfc00707f), (''vwsubu_wx'', 0xd8006057, 0xfc00707f),
    (''vxor_vi'', 0x2c003057, 0xfc00707f), (''vxor_vv'', 0x2c000057, 0xfc00707f),
    (''vxor_vx'', 0x2c004057, 0xfc00707f), (''vzext_vf2'', 0x48032057, 0xfc0ff07f),
    (''vzext_vf4'', 0x48022057, 0xfc0ff07f), (''vzext_vf8'', 0x48012057, 0xfc0ff07f),
    (''wfi'', 0x10500073, 0xffffffff), (''wrs_nto'', 0xd00073, 0xffffffff),
    (''wrs_sto'', 0x1d00073, 0xffffffff), (''xnor'', 0x40004033, 0xfe00707f), (''xor'', 0x4033, 0xfe00707f),
    (''xori'', 0x4013, 0x707f), (''xperm16'', 0x28006033, 0xfe00707f), (''xperm32'', 0x28000033, 0xfe00707f),
    (''xperm4'', 0x28002033, 0xfe00707f), (''xperm8'', 0x28004033, 0xfe00707f)]"

definition encodings_smart :: "(string \<times> u64 \<times> u64) list" where
  "encodings_smart = [
    (''ism_barrier'', 0x200b, 0xc000707f), (''ism_ddep_gen'', 0xb, 0xc000707f),
    (''ism_ddep_use'', 0x400b, 0xc000707f), (''ism_ddep_rls'', 0x100b, 0xc000707f),
    (''ism_dma_ls'', 0x4000000b, 0xc000707f), (''ism_dma_cp'', 0x4000100b, 0xc000707f),
    (''ism_rope'', 0xc000000b, 0xc000707f), (''ism_layernorm'', 0xc000100b, 0xc000707f),
    (''ism_rmsnorm'', 0xc000200b, 0xc000707f), (''ism_softmax'', 0xc000300b, 0xc000707f),
    (''ism_vec_reduce'', 0xc000400b, 0xc000707f), (''ism_vec_sfu'', 0xc000500b, 0xc000707f),
    (''ism_vec_quantize'', 0xc000600b, 0xc000707f), (''ism_vec_elementwise'', 0xc000700b, 0xc000707f),
    (''ism_tensor'', 0x8000000b, 0xc000707f), (''ism_tconv'', 0x8000100b, 0xc000707f)]"

definition encodings :: "(string \<times> u64 \<times> u64) list" where
  "encodings = encodings_1 @ encodings_2 @ encodings_3 @ encodings_4 @ encodings_5 @ encodings_6 @ encodings_7 @
    encodings_8 @ encodings_9 @ encodings_10 @ encodings_11 @ encodings_12 @ encodings_13 @ encodings_smart"

text \<open>Encodings that are declared for the disassembler and are hints or special cases of other instructions:
  the instruction list of the build does not have them.\<close>

definition disassembler_only :: "string list" where
  "disassembler_only = [
    ''c_addi16sp'', ''c_addiw'', ''c_mop_1'', ''c_mop_11'', ''c_mop_13'', ''c_mop_15'', ''c_mop_3'',
    ''c_mop_5'', ''c_mop_7'', ''c_mop_9'', ''c_nop'', ''mop_r_0'', ''mop_r_1'', ''mop_r_10'', ''mop_r_11'',
    ''mop_r_12'', ''mop_r_13'', ''mop_r_14'', ''mop_r_15'', ''mop_r_16'', ''mop_r_17'', ''mop_r_18'',
    ''mop_r_19'', ''mop_r_2'', ''mop_r_20'', ''mop_r_21'', ''mop_r_22'', ''mop_r_23'', ''mop_r_24'',
    ''mop_r_25'', ''mop_r_26'', ''mop_r_27'', ''mop_r_28'', ''mop_r_29'', ''mop_r_3'', ''mop_r_30'',
    ''mop_r_31'', ''mop_r_4'', ''mop_r_5'', ''mop_r_6'', ''mop_r_7'', ''mop_r_8'', ''mop_r_9'', ''mop_rr_0'',
    ''mop_rr_1'', ''mop_rr_2'', ''mop_rr_3'', ''mop_rr_4'', ''mop_rr_5'', ''mop_rr_6'', ''mop_rr_7'',
    ''pause'', ''prefetch_i'', ''prefetch_r'', ''prefetch_w'', ''sctrclr'', ''slli_rv32'', ''srai_rv32'',
    ''srli_rv32'', ''xperm16'', ''xperm32'']"

definition overlap_list :: "(string \<times> isa_extension) list" where
  "overlap_list = [
    (''c_flw'', EXT_ZCF),
    (''c_flwsp'', EXT_ZCF),
    (''c_fsw'', EXT_ZCF),
    (''c_fswsp'', EXT_ZCF),
    (''cm_push'', EXT_ZCMP),
    (''cm_pop'', EXT_ZCMP),
    (''cm_popret'', EXT_ZCMP),
    (''cm_popretz'', EXT_ZCMP),
    (''cm_mva01s'', EXT_ZCMP),
    (''cm_mvsa01'', EXT_ZCMP),
    (''cm_jalt'', EXT_ZCMT),
    (''c_ebreak'', EXT_ZCA),
    (''c_jalr'', EXT_ZCA),
    (''c_jr'', EXT_ZCA),
    (''lpad'', EXT_ZICFILP),
    (''ssrdp'', EXT_ZICFISS),
    (''sspush_x1'', EXT_ZICFISS),
    (''sspush_x5'', EXT_ZICFISS),
    (''sspopchk_x1'', EXT_ZICFISS),
    (''sspopchk_x5'', EXT_ZICFISS),
    (''c_sspush_x1'', EXT_ZICFISS),
    (''c_sspopchk_x5'', EXT_ZICFISS),
    (''c_mop_N'', EXT_ZCMOP)]"

section \<open>The list of instructions of a hart\<close>

definition overlapping :: "string \<times> u64 \<times> u64 \<Rightarrow> bool" where
  "overlapping d \<longleftrightarrow> fst d \<in> set (map fst overlap_list)"

text \<open>What the build may list: \<^verbatim>\<open>insn_list.h\<close> is generated from the make file.\<close>

definition built_encodings :: "(string \<times> u64 \<times> u64) list" where
  "built_encodings = filter (\<lambda>d. fst d \<notin> set disassembler_only) encodings"

definition illegal_desc :: "string \<times> u64 \<times> u64" where
  "illegal_desc = (''illegal_instruction'', 0, 0)"

definition register_base_instructions ::
    "(isa_extension \<Rightarrow> bool) \<Rightarrow> (string \<times> u64 \<times> u64) list \<Rightarrow> (string \<times> u64 \<times> u64) list" where
  "register_base_instructions enabled insn_list =
    List.map_filter (\<lambda>(name, ext). if enabled ext then find (\<lambda>d. fst d = name) encodings else None) overlap_list
    @ filter (\<lambda>d. \<not> overlapping d) insn_list @ [illegal_desc]"

section \<open>Decoding\<close>

definition matching :: "u64 \<Rightarrow> string \<times> u64 \<times> u64 \<Rightarrow> bool" where
  "matching bits d \<longleftrightarrow> bits AND snd (snd d) = fst (snd d)"

text \<open>\<open>None\<close> is the failure of the assertion that the catch-all is there.\<close>

definition linear_search ::
    "(string \<times> u64 \<times> u64) list \<Rightarrow> (string \<times> u64 \<times> u64) list \<Rightarrow> u64 \<Rightarrow> (string \<times> u64 \<times> u64) option" where
  "linear_search custom insns bits =
    (case find (matching bits) custom of Some d \<Rightarrow> Some d | None \<Rightarrow> find (matching bits) insns)"

text \<open>The cache of decoded instructions: \<open>OPCODE_CACHE_SIZE\<close> sets, each with the newest entry first.\<close>

type_synonym opcode_set = "(u64 \<times> string \<times> u64 \<times> u64) list"

definition OPCODE_CACHE_SIZE :: u64 where "OPCODE_CACHE_SIZE = 4095"
definition associativity :: nat where "associativity = 4"

definition reset_set :: opcode_set where "reset_set = replicate associativity (0, illegal_desc)"

definition replace_opcode :: "u64 \<Rightarrow> string \<times> u64 \<times> u64 \<Rightarrow> opcode_set \<Rightarrow> opcode_set" where
  "replace_opcode opcode desc ways = (opcode, desc) # butlast ways"

definition lookup_opcode :: "u64 \<Rightarrow> opcode_set \<Rightarrow> (string \<times> u64 \<times> u64) option" where
  "lookup_opcode opcode ways = map_of ways opcode"

definition build_opcode_map :: "nat \<Rightarrow> opcode_set" where "build_opcode_map = (\<lambda>_. reset_set)"

definition decode_insn ::
    "(string \<times> u64 \<times> u64) list \<Rightarrow> (string \<times> u64 \<times> u64) list \<Rightarrow> u64 \<Rightarrow> (nat \<Rightarrow> opcode_set) \<Rightarrow>
      (string \<times> u64 \<times> u64) option \<times> (nat \<Rightarrow> opcode_set)" where
  "decode_insn custom insns bits opcode_cache =
    (let idx = unat (bits mod OPCODE_CACHE_SIZE)
     in case lookup_opcode bits (opcode_cache idx) of
          Some desc \<Rightarrow> (Some desc, opcode_cache)
        | None \<Rightarrow>
            (case linear_search custom insns bits of
               None \<Rightarrow> (None, opcode_cache)
             | Some desc \<Rightarrow> (Some desc, opcode_cache(idx := replace_opcode bits desc (opcode_cache idx)))))"

end
