(* ===== verification/CsrMap.thy ===== *)
theory CsrMap
  imports InsnMem Pmp Reset
begin

text \<open>
  The map of control and status registers of \<^verbatim>\<open>riscv/csr_init.cc\<close> and
  \<^verbatim>\<open>riscv/vector_unit.cc\<close>, and the classes of \<^verbatim>\<open>riscv/csrs.cc\<close> behind it.
  A register object is a value of \<open>csr_obj\<close>, one constructor for each class that is ever put in the map;
  the virtual functions \<^verbatim>\<open>read\<close>, \<^verbatim>\<open>written_value\<close>,
  \<^verbatim>\<open>unlogged_write\<close> and \<^verbatim>\<open>verify_permissions\<close> are recursive functions on it, so
  that views (the halves of a wide register, the supervisor registers that are banked by the virtualization mode)
  call the functions of the objects they hold.
\<close>

section \<open>State\<close>

text \<open>The registers that other code does not use are kept in \<open>csr_val\<close>, the member
  \<^verbatim>\<open>val\<close> of the object with that address; \<open>prev_val\<close> is the member of
  \<^verbatim>\<open>smcntrpmf_csr_t\<close> and \<open>shadow_val\<close> that of \<^verbatim>\<open>time_counter_csr_t\<close>.\<close>

record 'd processor =
  pstate :: "'d hart"
  csr_val :: "u64 \<Rightarrow> u64"
  prev_val :: "u64 \<Rightarrow> u64 option"
  shadow_val :: u64

definition on_state :: "('d hart, 'a) M \<Rightarrow> ('d processor, 'a) M" where
  "on_state m p = (case m (pstate p) of (r, s) \<Rightarrow> (r, p\<lparr>pstate := s\<rparr>))"

definition set_state :: "('d hart \<Rightarrow> 'd hart) \<Rightarrow> ('d processor, unit) M" where
  "set_state f p = (Inr (), p\<lparr>pstate := f (pstate p)\<rparr>)"

text \<open>The member \<^verbatim>\<open>val\<close> of the object with an address.\<close>

definition csr_get :: "u64 \<Rightarrow> 'd processor \<Rightarrow> u64" where
  "csr_get a p =
    (let s = pstate p
     in if a = 0x343 then mtval_val s else if a = 0x34b then mtval2_val s else if a = 0x34a then mtinst_val s
        else if a = 0x143 then stval_val s else if a = 0x243 then vstval_val s
        else if a = 0x643 then htval_val s else if a = 0x64a then htinst_val s
        else if a = 0x341 then mepc_val s else if a = 0x141 then sepc_val s else if a = 0x241 then vsepc_val s
        else if a = 0x7b1 then dpc_val s else if a = 0x741 then mnepc_val s
        else if a = 0x305 then mtvec_val s else if a = 0x105 then stvec_val s else if a = 0x205 then vstvec_val s
        else if a = 0x342 then mcause_val s else if a = 0x142 then scause_val s else if a = 0x242 then vscause_val s
        else if a = 0x602 then hedeleg_val s else if a = 0x680 then hgatp_val s
        else if a = 0x017 then jvt_val s else if a = 0x011 then ssp_val s
        else if a = 0x30c then mstateen0_val s else if a = 0x60c then hstateen0_val s
        else if a = 0x10c then sstateen0_val s
        else csr_val p a)"

definition csr_set :: "u64 \<Rightarrow> u64 \<Rightarrow> 'd processor \<Rightarrow> 'd processor" where
  "csr_set a v p =
    (let upd = (\<lambda>f. p\<lparr>pstate := f (pstate p)\<rparr>)
     in if a = 0x343 then upd (\<lambda>s. s\<lparr>mtval_val := v\<rparr>) else if a = 0x34b then upd (\<lambda>s. s\<lparr>mtval2_val := v\<rparr>)
        else if a = 0x34a then upd (\<lambda>s. s\<lparr>mtinst_val := v\<rparr>)
        else if a = 0x143 then upd (\<lambda>s. s\<lparr>stval_val := v\<rparr>) else if a = 0x243 then upd (\<lambda>s. s\<lparr>vstval_val := v\<rparr>)
        else if a = 0x643 then upd (\<lambda>s. s\<lparr>htval_val := v\<rparr>) else if a = 0x64a then upd (\<lambda>s. s\<lparr>htinst_val := v\<rparr>)
        else if a = 0x341 then upd (\<lambda>s. s\<lparr>mepc_val := v\<rparr>) else if a = 0x141 then upd (\<lambda>s. s\<lparr>sepc_val := v\<rparr>)
        else if a = 0x241 then upd (\<lambda>s. s\<lparr>vsepc_val := v\<rparr>)
        else if a = 0x7b1 then upd (\<lambda>s. s\<lparr>dpc_val := v\<rparr>) else if a = 0x741 then upd (\<lambda>s. s\<lparr>mnepc_val := v\<rparr>)
        else if a = 0x305 then upd (\<lambda>s. s\<lparr>mtvec_val := v\<rparr>) else if a = 0x105 then upd (\<lambda>s. s\<lparr>stvec_val := v\<rparr>)
        else if a = 0x205 then upd (\<lambda>s. s\<lparr>vstvec_val := v\<rparr>)
        else if a = 0x342 then upd (\<lambda>s. s\<lparr>mcause_val := v\<rparr>) else if a = 0x142 then upd (\<lambda>s. s\<lparr>scause_val := v\<rparr>)
        else if a = 0x242 then upd (\<lambda>s. s\<lparr>vscause_val := v\<rparr>)
        else if a = 0x602 then upd (\<lambda>s. s\<lparr>hedeleg_val := v\<rparr>) else if a = 0x680 then upd (\<lambda>s. s\<lparr>hgatp_val := v\<rparr>)
        else if a = 0x017 then upd (\<lambda>s. s\<lparr>jvt_val := v\<rparr>) else if a = 0x011 then upd (\<lambda>s. s\<lparr>ssp_val := v\<rparr>)
        else if a = 0x30c then upd (\<lambda>s. s\<lparr>mstateen0_val := v\<rparr>)
        else if a = 0x60c then upd (\<lambda>s. s\<lparr>hstateen0_val := v\<rparr>)
        else if a = 0x10c then upd (\<lambda>s. s\<lparr>sstateen0_val := v\<rparr>)
        else p\<lparr>csr_val := (csr_val p)(a := v)\<rparr>)"

lemma csr_get_set [simp]: "csr_get a (csr_set a v p) = v"
  unfolding csr_set_def csr_get_def Let_def by simp

lemma pstate_on_state [simp]: "pstate (snd (on_state m p)) = snd (m (pstate p))"
  by (simp add: on_state_def split: prod.split)

section \<open>Objects\<close>

datatype (plugins only:) plain_csr =
    Basic_csr u64
  | Masked_csr u64 u64
  | Const_csr u64 u64
  | Epc_csr u64
  | Dpc_csr
  | Tvec_csr u64
  | Cause_csr u64
  | Hypervisor_csr u64
  | Mtval2_csr
  | Debug_mode_csr u64
  | Dcsr_csr
  | Sscsrind_reg_csr u64
  | Tselect_csr nat

datatype (plugins only:) status_csr =
    Misa_csr
  | Mstatus_csr
  | Mnstatus_csr
  | Sstatus_proxy_csr
  | Vsstatus_csr
  | Sstatus_csr
  | Hstatus_csr

datatype (plugins only:) interrupt_csr =
    Mip_csr
  | Mie_csr
  | Mip_proxy_csr u64 int_accessor
  | Mie_proxy_csr u64 int_accessor
  | Hvip_csr
  | Mideleg_csr
  | Medeleg_csr
  | Hideleg_csr

datatype (plugins only:) config_csr =
    Menvcfg_csr
  | Senvcfg_csr
  | Henvcfg_csr
  | Satp_csr
  | Vsatp_csr
  | Hgatp_csr
  | Pmpaddr_csr nat
  | Pmpcfg_csr nat
  | Mseccfg_csr
  | Hstateen_csr nat u64
  | Sstateen_csr nat u64
  | Jvt_csr
  | Ssp_csr
  | Srmcfg_csr u64

datatype (plugins only:) counter_csr =
    Mevent_csr u64
  | Smcntrpmf_csr u64 u64
  | Wide_counter_csr u64 u64
  | Time_counter_csr
  | Scountovf_csr
  | Stimecmp_csr u64 u64

datatype (plugins only:) unit_csr =
    Fflags_csr
  | Frm_csr
  | Vector_csr u64 u64
  | Vxsat_csr

datatype (plugins only: size) csr_obj =
    Plain plain_csr
  | Status status_csr
  | Interrupt interrupt_csr
  | Config config_csr
  | Counter counter_csr
  | Unit unit_csr
  | Proxy_csr u64 csr_obj
  | Counter_proxy_csr u64 csr_obj
  | Rv32_low_csr csr_obj
  | Rv32_high_csr csr_obj
  | Virtualized_csr csr_obj csr_obj
  | Virtualized_satp_csr csr_obj csr_obj
  | Virtualized_stimecmp_csr csr_obj csr_obj
  | Virtualized_indirect_csr csr_obj csr_obj
  | Composite_csr u64 csr_obj csr_obj nat

primrec plain_address :: "plain_csr \<Rightarrow> u64" where
  "plain_address (Basic_csr a) = a"
| "plain_address (Masked_csr a m) = a"
| "plain_address (Const_csr a v) = a"
| "plain_address (Epc_csr a) = a"
| "plain_address Dpc_csr = 0x7b1"
| "plain_address (Tvec_csr a) = a"
| "plain_address (Cause_csr a) = a"
| "plain_address (Hypervisor_csr a) = a"
| "plain_address Mtval2_csr = 0x34b"
| "plain_address (Debug_mode_csr a) = a"
| "plain_address Dcsr_csr = 0x7b0"
| "plain_address (Sscsrind_reg_csr a) = a"
| "plain_address (Tselect_csr count) = 0x7a0"

primrec status_address :: "status_csr \<Rightarrow> u64" where
  "status_address Misa_csr = 0x301"
| "status_address Mstatus_csr = 0x300"
| "status_address Mnstatus_csr = 0x744"
| "status_address Sstatus_proxy_csr = 0x100"
| "status_address Vsstatus_csr = 0x200"
| "status_address Sstatus_csr = 0x100"
| "status_address Hstatus_csr = 0x600"

primrec interrupt_address :: "interrupt_csr \<Rightarrow> u64" where
  "interrupt_address Mip_csr = 0x344"
| "interrupt_address Mie_csr = 0x304"
| "interrupt_address (Mip_proxy_csr a accr) = a"
| "interrupt_address (Mie_proxy_csr a accr) = a"
| "interrupt_address Hvip_csr = 0x645"
| "interrupt_address Mideleg_csr = 0x303"
| "interrupt_address Medeleg_csr = 0x302"
| "interrupt_address Hideleg_csr = 0x603"

primrec config_address :: "config_csr \<Rightarrow> u64" where
  "config_address Menvcfg_csr = 0x30a"
| "config_address Senvcfg_csr = 0x10a"
| "config_address Henvcfg_csr = 0x60a"
| "config_address Satp_csr = 0x180"
| "config_address Vsatp_csr = 0x280"
| "config_address Hgatp_csr = 0x680"
| "config_address (Pmpaddr_csr i) = 0x3b0 + of_nat i"
| "config_address (Pmpcfg_csr k) = 0x3a0 + of_nat k"
| "config_address Mseccfg_csr = 0x747"
| "config_address (Hstateen_csr i m) = 0x60c + of_nat i"
| "config_address (Sstateen_csr i m) = 0x10c + of_nat i"
| "config_address Jvt_csr = 0x017"
| "config_address Ssp_csr = 0x011"
| "config_address (Srmcfg_csr m) = 0x181"

primrec counter_address :: "counter_csr \<Rightarrow> u64" where
  "counter_address (Mevent_csr a) = a"
| "counter_address (Smcntrpmf_csr a m) = a"
| "counter_address (Wide_counter_csr a cfg) = a"
| "counter_address Time_counter_csr = 0xc01"
| "counter_address Scountovf_csr = 0xda0"
| "counter_address (Stimecmp_csr a im) = a"

primrec unit_address :: "unit_csr \<Rightarrow> u64" where
  "unit_address Fflags_csr = 0x001"
| "unit_address Frm_csr = 0x002"
| "unit_address (Vector_csr a m) = a"
| "unit_address Vxsat_csr = 0x009"

primrec csr_address :: "csr_obj \<Rightarrow> u64" where
  "csr_address (Plain x) = plain_address x"
| "csr_address (Status x) = status_address x"
| "csr_address (Interrupt x) = interrupt_address x"
| "csr_address (Config x) = config_address x"
| "csr_address (Counter x) = counter_address x"
| "csr_address (Unit x) = unit_address x"
| "csr_address (Proxy_csr a r) = a"
| "csr_address (Counter_proxy_csr a r) = a"
| "csr_address (Rv32_low_csr r) = csr_address r"
| "csr_address (Rv32_high_csr r) = csr_address r"
| "csr_address (Virtualized_csr r v) = csr_address r"
| "csr_address (Virtualized_satp_csr r v) = csr_address r"
| "csr_address (Virtualized_stimecmp_csr r v) = csr_address r"
| "csr_address (Virtualized_indirect_csr r v) = csr_address r"
| "csr_address (Composite_csr a u l n) = a"

section \<open>Reading\<close>

abbreviation (input) DCSR_CAUSE :: u64 where "DCSR_CAUSE \<equiv> 0x1c0"
abbreviation (input) MHPMEVENT_OF :: u64 where "MHPMEVENT_OF \<equiv> 0x8000000000000000"
abbreviation (input) MHPMEVENT_MINH :: u64 where "MHPMEVENT_MINH \<equiv> 0x4000000000000000"
abbreviation (input) MHPMEVENT_SINH :: u64 where "MHPMEVENT_SINH \<equiv> 0x2000000000000000"
abbreviation (input) MHPMEVENT_UINH :: u64 where "MHPMEVENT_UINH \<equiv> 0x1000000000000000"
abbreviation (input) MHPMEVENT_VSINH :: u64 where "MHPMEVENT_VSINH \<equiv> 0x0800000000000000"
abbreviation (input) MHPMEVENT_VUINH :: u64 where "MHPMEVENT_VUINH \<equiv> 0x0400000000000000"
abbreviation (input) MSTATEEN_HSTATEEN :: u64 where "MSTATEEN_HSTATEEN \<equiv> 0x8000000000000000"
abbreviation (input) MSTATEEN0_HENVCFG :: u64 where "MSTATEEN0_HENVCFG \<equiv> 0x4000000000000000"
abbreviation (input) MSTATEEN0_PRIV114 :: u64 where "MSTATEEN0_PRIV114 \<equiv> 0x0080000000000000"

definition N_HPMCOUNTERS :: nat where "N_HPMCOUNTERS = 29"

definition dcsr_read :: "'d hart \<Rightarrow> u64" where
  "dcsr_read s =
    (let d = dcsr s;
         r = set_field 0 0xf0000000 1;
         r = set_field r 0x8000 (of_bool (dcsr_ebreakm d));
         r = set_field r 0x2000 (of_bool (dcsr_ebreaks d));
         r = set_field r 0x1000 (of_bool (dcsr_ebreaku d));
         r = set_field r 0x20000 (of_bool (dcsr_ebreakvs d));
         r = set_field r 0x10000 (of_bool (dcsr_ebreakvu d));
         r = set_field r 0x400 0;
         r = set_field r 0x200 0;
         r = set_field r DCSR_CAUSE (ucast (dcsr_cause d));
         r = set_field r 0x7000000 (ucast (dcsr_ext_cause d));
         r = (if extension_enabled s EXT_SMDBLTRP then set_field r 0x80000 (of_bool (dcsr_cetrig d)) else r);
         r = set_field r 0x4 (of_bool (dcsr_step d));
         r = set_field r 0x3 (ucast (dcsr_prv d));
         r = set_field r 0x20 (of_bool (dcsr_v d))
     in set_field r 0x40000 (if dcsr_pelp d = LP_EXPECTED then 1 else 0))"

definition time_read :: "'d processor \<Rightarrow> u64" where
  "time_read p = (if virt (pstate p) then shadow_val p + csr_get 0x605 p else shadow_val p)"

definition mevent_address :: "nat \<Rightarrow> u64" where "mevent_address i = 0x323 + of_nat i"

definition scountovf_read :: "'d processor \<Rightarrow> u64" where
  "scountovf_read p =
    (let val = fold (\<lambda>i r. r OR push_bit (i + 3) (of_bool (csr_get (mevent_address i) p AND MHPMEVENT_OF \<noteq> 0)))
                 [0..<N_HPMCOUNTERS] 0;
         val = val AND csr_get 0x306 p
     in if virt (pstate p) then val AND csr_get 0x606 p else val)"

definition mstateen_read :: "nat \<Rightarrow> 'd processor \<Rightarrow> u64" where
  "mstateen_read i p = csr_get (0x30c + of_nat i) p"

definition hstateen_read :: "nat \<Rightarrow> 'd processor \<Rightarrow> u64" where
  "hstateen_read i p = csr_get (0x60c + of_nat i) p AND mstateen_read i p"

definition sstateen_read :: "nat \<Rightarrow> 'd processor \<Rightarrow> u64" where
  "sstateen_read i p =
    (let val = csr_get (0x10c + of_nat i) p AND mstateen_read i p
     in if virt (pstate p) then val AND hstateen_read i p else val)"

primrec plain_read :: "ctx \<Rightarrow> plain_csr \<Rightarrow> 'd processor \<Rightarrow> u64" where
  "plain_read c (Const_csr a v) p = v"
| "plain_read c (Epc_csr a) p = epc_read (pstate p) (csr_get a p)"
| "plain_read c Dpc_csr p = epc_read (pstate p) (csr_get 0x7b1 p)"
| "plain_read c (Cause_csr a) p = cause_read c (csr_get a p)"
| "plain_read c Dcsr_csr p = dcsr_read (pstate p)"
| "plain_read c (Sscsrind_reg_csr a) p = 0"
| "plain_read c (Tselect_csr count) p = csr_get 0x7a0 p"
| "plain_read c (Basic_csr a) p = csr_get a p"
| "plain_read c (Masked_csr a m) p = csr_get a p"
| "plain_read c (Tvec_csr a) p = csr_get a p"
| "plain_read c (Hypervisor_csr a) p = csr_get a p"
| "plain_read c Mtval2_csr p = csr_get 0x34b p"
| "plain_read c (Debug_mode_csr a) p = csr_get a p"

primrec status_read :: "ctx \<Rightarrow> status_csr \<Rightarrow> 'd processor \<Rightarrow> u64" where
  "status_read c Misa_csr p = misa_val (pstate p)"
| "status_read c Mstatus_csr p = mstatus_read (pstate p)"
| "status_read c Mnstatus_csr p = (case mnstatus_val (pstate p) of None \<Rightarrow> 0 | Some v \<Rightarrow> v)"
| "status_read c Sstatus_proxy_csr p = nonvirtual_sstatus_read c (pstate p)"
| "status_read c Vsstatus_csr p = vsstatus_read c (pstate p)"
| "status_read c Sstatus_csr p = sstatus_read c (pstate p)"
| "status_read c Hstatus_csr p = hstatus_val (pstate p)"

primrec interrupt_read :: "ctx \<Rightarrow> interrupt_csr \<Rightarrow> 'd processor \<Rightarrow> u64" where
  "interrupt_read c Mip_csr p = mip_read (pstate p)"
| "interrupt_read c Mie_csr p = mie_val (pstate p)"
| "interrupt_read c (Mip_proxy_csr a accr) p = ip_read accr (pstate p)"
| "interrupt_read c (Mie_proxy_csr a accr) p = ie_read accr (pstate p)"
| "interrupt_read c Hvip_csr p = hvip_read (pstate p)"
| "interrupt_read c Mideleg_csr p = mideleg_read (pstate p)"
| "interrupt_read c Medeleg_csr p = medeleg_val (pstate p)"
| "interrupt_read c Hideleg_csr p = hideleg_read (pstate p)"

primrec config_read :: "ctx \<Rightarrow> config_csr \<Rightarrow> 'd processor \<Rightarrow> u64" where
  "config_read c Menvcfg_csr p = menvcfg_val (pstate p)"
| "config_read c Senvcfg_csr p = senvcfg_read (pstate p)"
| "config_read c Henvcfg_csr p = henvcfg_read (pstate p)"
| "config_read c Satp_csr p = satp_val (pstate p)"
| "config_read c Vsatp_csr p = vsatp_val (pstate p)"
| "config_read c (Pmpaddr_csr i) p = pmpaddr_read i (pstate p)"
| "config_read c (Pmpcfg_csr k) p = pmpcfg_read c k (pstate p)"
| "config_read c Mseccfg_csr p = mseccfg_val (pstate p)"
| "config_read c (Hstateen_csr i m) p = hstateen_read i p"
| "config_read c (Sstateen_csr i m) p = sstateen_read i p"
| "config_read c Hgatp_csr p = csr_get 0x680 p"
| "config_read c Jvt_csr p = csr_get 0x017 p"
| "config_read c Ssp_csr p = csr_get 0x011 p"
| "config_read c (Srmcfg_csr m) p = csr_get 0x181 p"

primrec counter_read :: "ctx \<Rightarrow> counter_csr \<Rightarrow> 'd processor \<Rightarrow> u64" where
  "counter_read c (Wide_counter_csr a cfg) p = csr_get a p"
| "counter_read c Time_counter_csr p = time_read p"
| "counter_read c Scountovf_csr p = scountovf_read p"
| "counter_read c (Mevent_csr a) p = csr_get a p"
| "counter_read c (Smcntrpmf_csr a m) p = csr_get a p"
| "counter_read c (Stimecmp_csr a im) p = csr_get a p"

primrec unit_read :: "ctx \<Rightarrow> unit_csr \<Rightarrow> 'd processor \<Rightarrow> u64" where
  "unit_read c Fflags_csr p = fflags_val (pstate p)"
| "unit_read c Frm_csr p = frm_val (pstate p)"
| "unit_read c (Vector_csr a m) p = csr_get a p"
| "unit_read c Vxsat_csr p = csr_get 0x009 p"

primrec csr_read :: "ctx \<Rightarrow> csr_obj \<Rightarrow> 'd processor \<Rightarrow> u64" where
  "csr_read c (Plain x) p = plain_read c x p"
| "csr_read c (Status x) p = status_read c x p"
| "csr_read c (Interrupt x) p = interrupt_read c x p"
| "csr_read c (Config x) p = config_read c x p"
| "csr_read c (Counter x) p = counter_read c x p"
| "csr_read c (Unit x) p = unit_read c x p"
| "csr_read c (Proxy_csr a r) p = csr_read c r p"
| "csr_read c (Counter_proxy_csr a r) p = csr_read c r p"
| "csr_read c (Rv32_low_csr r) p = csr_read c r p AND 0xffffffff"
| "csr_read c (Rv32_high_csr r) p = drop_bit 32 (csr_read c r p) AND 0xffffffff"
| "csr_read c (Virtualized_csr r v) p = (if virt (pstate p) then csr_read c v p else csr_read c r p)"
| "csr_read c (Virtualized_satp_csr r v) p = (if virt (pstate p) then csr_read c v p else csr_read c r p)"
| "csr_read c (Virtualized_stimecmp_csr r v) p = (if virt (pstate p) then csr_read c v p else csr_read c r p)"
| "csr_read c (Virtualized_indirect_csr r v) p = (if virt (pstate p) then csr_read c v p else csr_read c r p)"
| "csr_read c (Composite_csr a u l n) p = push_bit n (csr_read c u p) OR csr_read c l p"

fun written_value :: "ctx \<Rightarrow> csr_obj \<Rightarrow> 'd processor \<Rightarrow> u64" where
  "written_value c (Rv32_low_csr r) p = written_value c r p AND 0xffffffff"
| "written_value c (Rv32_high_csr r) p = drop_bit 32 (written_value c r p) AND 0xffffffff"
| "written_value c (Counter (Wide_counter_csr a cfg)) p = csr_get a p + 1"
| "written_value c r p = csr_read c r p"

section \<open>Writing\<close>

definition dcsr_write :: "u64 \<Rightarrow> 'd hart \<Rightarrow> 'd hart" where
  "dcsr_write v s =
    (let has = (\<lambda>ch. extension_enabled s (Ext ch)); bit_of = (\<lambda>m. get_field v m \<noteq> 0)
     in s\<lparr>dcsr := (dcsr s)\<lparr>
       dcsr_prv := ucast (get_field v 0x3), dcsr_step := bit_of 0x4, dcsr_ebreakm := bit_of 0x8000,
       dcsr_ebreaks := has CHR ''S'' \<and> bit_of 0x2000, dcsr_ebreaku := has CHR ''U'' \<and> bit_of 0x1000,
       dcsr_ebreakvs := has CHR ''H'' \<and> bit_of 0x20000, dcsr_ebreakvu := has CHR ''H'' \<and> bit_of 0x10000,
       dcsr_v := has CHR ''H'' \<and> bit_of 0x20,
       dcsr_pelp := (if extension_enabled s EXT_ZICFILP then elp_of (get_field v 0x40000) else NO_LP_EXPECTED),
       dcsr_cetrig := extension_enabled s EXT_SMDBLTRP \<and> bit_of 0x80000\<rparr>\<rparr>)"

definition hgatp_write :: "ctx \<Rightarrow> u64 \<Rightarrow> 'd hart \<Rightarrow> 'd hart" where
  "hgatp_write c v s =
    (let s = flush_tlb s;
         m = (if xlen c = 32
              then 0x003FFFFF OR 0x80000000 OR (if supports_impl s IMPL_MMU_VMID then 0x1FC00000 else 0)
              else let m = (0x00000FFFFFFFFFFF AND (push_bit (MAX_PADDR_BITS - 12) 1 - 1)) OR
                             (if supports_impl s IMPL_MMU_VMID then 0x03FFF00000000000 else 0);
                       mode = get_field v 0xF000000000000000
                   in if mode = 0 \<or> (supports_impl s IMPL_MMU_SV39 \<and> mode = 8) \<or>
                         (supports_impl s IMPL_MMU_SV48 \<and> mode = 9) \<or> (supports_impl s IMPL_MMU_SV57 \<and> mode = 10)
                      then m OR 0xF000000000000000 else m);
         m = m AND NOT 3
     in s\<lparr>hgatp_val := (hgatp_val s AND NOT m) OR (v AND m)\<rparr>)"

definition mevent_mask :: "ctx \<Rightarrow> 'd hart \<Rightarrow> u64" where
  "mevent_mask c s =
    (if extension_enabled s EXT_SSCOFPMF
     then MHPMEVENT_OF OR MHPMEVENT_MINH OR (if isa_table c (Ext CHR ''U'') then MHPMEVENT_UINH else 0)
          OR (if isa_table c (Ext CHR ''S'') then MHPMEVENT_SINH else 0)
          OR (if extension_enabled s (Ext CHR ''H'') then MHPMEVENT_VUINH OR MHPMEVENT_VSINH else 0)
     else 0)"

definition mevent_write :: "ctx \<Rightarrow> u64 \<Rightarrow> u64 \<Rightarrow> 'd processor \<Rightarrow> 'd processor" where
  "mevent_write c a v p =
    (let m = mevent_mask c (pstate p) in csr_set a ((csr_get a p AND NOT m) OR (v AND m)) p)"

text \<open>A write of misa that clears the H bit also clears the hypervisor bits of the event selectors, while the
  old value of misa is still in place.\<close>

definition misa_csr_write :: "ctx \<Rightarrow> u64 \<Rightarrow> 'd processor \<Rightarrow> 'd processor" where
  "misa_csr_write c v p =
    (let p' = p\<lparr>pstate := misa_write c v (pstate p)\<rparr>;
         cleared = (misa_val (pstate p) AND misa_bit CHR ''H'' \<noteq> 0 \<and> misa_val (pstate p') AND misa_bit CHR ''H'' = 0);
         m = mevent_mask c (pstate p)
     in if cleared
        then fold (\<lambda>i p. let a = mevent_address i; old = csr_get a p
                         in csr_set a ((old AND NOT m) OR (old AND NOT (MHPMEVENT_VUINH OR MHPMEVENT_VSINH) AND m)) p)
               [0..<N_HPMCOUNTERS] p'
        else p')"

definition read_prev :: "u64 \<Rightarrow> 'd processor \<Rightarrow> u64" where
  "read_prev a p = (case prev_val p a of Some v \<Rightarrow> v | None \<Rightarrow> csr_get a p)"

definition is_counting_enabled :: "u64 \<Rightarrow> 'd processor \<Rightarrow> bool" where
  "is_counting_enabled cfg p =
    (let s = pstate p;
         prv' = (if prv_changed s then prev_prv s else prv s);
         v = (if virt_changed s then prev_virt s else virt s);
         m = (if prv' = PRV_S then if v then MHPMEVENT_VSINH else MHPMEVENT_SINH
              else if prv' = PRV_U then if v then MHPMEVENT_VUINH else MHPMEVENT_UINH
              else MHPMEVENT_MINH)
     in read_prev cfg p AND m = 0)"

definition bump :: "u64 \<Rightarrow> u64 \<Rightarrow> u64 \<Rightarrow> 'd processor \<Rightarrow> 'd processor" where
  "bump a cfg howmuch p =
    (let p = (if is_counting_enabled cfg p then csr_set a (csr_get a p + howmuch) p else p)
     in p\<lparr>prev_val := (prev_val p)(cfg := None)\<rparr>)"

definition stimecmp_mask :: "'d hart \<Rightarrow> u64" where
  "stimecmp_mask s =
    (if menvcfg_val s AND MENVCFG_STCE \<noteq> 0 then MIP_STIP else 0) OR
    (if henvcfg_read s AND MENVCFG_STCE \<noteq> 0 then MIP_VSTIP else 0)"

definition stimecmp_write :: "u64 \<Rightarrow> u64 \<Rightarrow> u64 \<Rightarrow> 'd processor \<Rightarrow> 'd processor" where
  "stimecmp_write a intr_mask v p =
    csr_set a v (p\<lparr>pstate := mip_backdoor_write_with_mask (stimecmp_mask (pstate p))
      (if v \<le> time_read p then intr_mask else 0) (pstate p)\<rparr>)"

definition time_sync :: "u64 \<Rightarrow> 'd processor \<Rightarrow> 'd processor" where
  "time_sync v p =
    (let p = p\<lparr>shadow_val := v\<rparr>
     in if extension_enabled (pstate p) EXT_SSTC
        then let mip_val = (if csr_get 0x14d p \<le> v then MIP_STIP else 0) OR
                           (if csr_get 0x24d p \<le> v + csr_get 0x605 p then MIP_VSTIP else 0)
             in p\<lparr>pstate := mip_backdoor_write_with_mask (stimecmp_mask (pstate p)) mip_val (pstate p)\<rparr>
        else p)"

primrec plain_write :: "ctx \<Rightarrow> plain_csr \<Rightarrow> u64 \<Rightarrow> ('d processor, unit) M" where
  "plain_write c (Basic_csr a) v = modifyM (csr_set a v)"
| "plain_write c (Masked_csr a m) v = modifyM (\<lambda>p. csr_set a (masked_write m (csr_get a p) v) p)"
| "plain_write c (Const_csr a x) v = returnM ()"
| "plain_write c (Epc_csr a) v = modifyM (csr_set a (epc_write v))"
| "plain_write c Dpc_csr v = modifyM (csr_set 0x7b1 (epc_write v))"
| "plain_write c (Tvec_csr a) v = modifyM (csr_set a (tvec_write v))"
| "plain_write c (Cause_csr a) v = modifyM (csr_set a v)"
| "plain_write c (Hypervisor_csr a) v = modifyM (csr_set a v)"
| "plain_write c Mtval2_csr v = modifyM (csr_set 0x34b v)"
| "plain_write c (Debug_mode_csr a) v = modifyM (csr_set a v)"
| "plain_write c Dcsr_csr v = set_state (dcsr_write v)"
| "plain_write c (Sscsrind_reg_csr a) v = returnM ()"
| "plain_write c (Tselect_csr count) v = modifyM (\<lambda>p. csr_set 0x7a0 (if unat v < count then v else csr_get 0x7a0 p) p)"

primrec status_write :: "ctx \<Rightarrow> status_csr \<Rightarrow> u64 \<Rightarrow> ('d processor, unit) M" where
  "status_write c Misa_csr v = modifyM (misa_csr_write c v)"
| "status_write c Mstatus_csr v = set_state (mstatus_write c v)"
| "status_write c Mnstatus_csr v = set_state (mnstatus_write v)"
| "status_write c Sstatus_proxy_csr v = set_state (nonvirtual_sstatus_write c v)"
| "status_write c Vsstatus_csr v = set_state (vsstatus_write c v)"
| "status_write c Sstatus_csr v = set_state (sstatus_write c v)"
| "status_write c Hstatus_csr v = set_state (hstatus_write v)"

primrec interrupt_write :: "ctx \<Rightarrow> interrupt_csr \<Rightarrow> u64 \<Rightarrow> ('d processor, unit) M" where
  "interrupt_write c Mip_csr v = set_state (mip_write v)"
| "interrupt_write c Mie_csr v = set_state (mie_write c v)"
| "interrupt_write c (Mip_proxy_csr a accr) v = set_state (ip_write accr v)"
| "interrupt_write c (Mie_proxy_csr a accr) v = set_state (ie_write accr v)"
| "interrupt_write c Hvip_csr v = set_state (hvip_write v)"
| "interrupt_write c Mideleg_csr v = set_state (mideleg_write c v)"
| "interrupt_write c Medeleg_csr v = set_state (medeleg_write v)"
| "interrupt_write c Hideleg_csr v = set_state (hideleg_write v)"

definition hstateen_write :: "nat \<Rightarrow> u64 \<Rightarrow> u64 \<Rightarrow> u64 \<Rightarrow> 'd processor \<Rightarrow> 'd processor" where
  "hstateen_write i a m v p =
    (let m = m AND mstateen_read i p in csr_set a ((csr_get a p AND NOT m) OR (v AND m)) p)"

primrec config_write :: "ctx \<Rightarrow> config_csr \<Rightarrow> u64 \<Rightarrow> ('d processor, unit) M" where
  "config_write c Menvcfg_csr v = set_state (menvcfg_write v)"
| "config_write c Senvcfg_csr v = set_state (senvcfg_write v)"
| "config_write c Henvcfg_csr v = set_state (henvcfg_write v)"
| "config_write c Satp_csr v = set_state (nonvirtual_satp_write c v)"
| "config_write c Vsatp_csr v = set_state (vsatp_write c v)"
| "config_write c Hgatp_csr v = set_state (hgatp_write c v)"
| "config_write c (Pmpaddr_csr i) v = set_state (pmpaddr_write i v)"
| "config_write c (Pmpcfg_csr k) v = set_state (pmpcfg_write c k v)"
| "config_write c Mseccfg_csr v = set_state (mseccfg_write v)"
| "config_write c (Hstateen_csr i m) v = modifyM (hstateen_write i (0x60c + of_nat i) m v)"
| "config_write c (Sstateen_csr i m) v =
     modifyM (\<lambda>p. hstateen_write i (0x10c + of_nat i) m (if virt (pstate p) then v AND hstateen_read i p else v) p)"
| "config_write c Jvt_csr v = modifyM (csr_set 0x017 v)"
| "config_write c Ssp_csr v = set_state (ssp_write c v)"
| "config_write c (Srmcfg_csr m) v = modifyM (\<lambda>p. csr_set 0x181 (masked_write m (csr_get 0x181 p) v) p)"

primrec counter_write :: "ctx \<Rightarrow> counter_csr \<Rightarrow> u64 \<Rightarrow> ('d processor, unit) M" where
  "counter_write c (Mevent_csr a) v = modifyM (mevent_write c a v)"
| "counter_write c (Smcntrpmf_csr a m) v =
     modifyM (\<lambda>p. csr_set a (masked_write m (csr_get a p) v) (p\<lparr>prev_val := (prev_val p)(a := Some (csr_get a p))\<rparr>))"
| "counter_write c (Wide_counter_csr a cfg) v =
     modifyM (\<lambda>p. csr_set a (if is_counting_enabled cfg p then v - 1 else v) p)"
| "counter_write c Time_counter_csr v = returnM ()"
| "counter_write c Scountovf_csr v = returnM ()"
| "counter_write c (Stimecmp_csr a im) v = modifyM (stimecmp_write a im v)"

primrec unit_write :: "ctx \<Rightarrow> unit_csr \<Rightarrow> u64 \<Rightarrow> ('d processor, unit) M" where
  "unit_write c Fflags_csr v = on_state (fflags_write c v)"
| "unit_write c Frm_csr v = on_state (frm_write c v)"
| "unit_write c (Vector_csr a m) v =
     (if m = 0 then returnM () else thenM (on_state (sstatus_dirty c SSTATUS_VS)) (modifyM (csr_set a (v AND m))))"
| "unit_write c Vxsat_csr v = thenM (on_state (sstatus_dirty c SSTATUS_VS))
     (modifyM (\<lambda>p. csr_set 0x009 (masked_write 1 (csr_get 0x009 p) v) p))"

primrec csr_write :: "ctx \<Rightarrow> csr_obj \<Rightarrow> u64 \<Rightarrow> ('d processor, unit) M" where
  "csr_write c (Plain x) v = plain_write c x v"
| "csr_write c (Status x) v = status_write c x v"
| "csr_write c (Interrupt x) v = interrupt_write c x v"
| "csr_write c (Config x) v = config_write c x v"
| "csr_write c (Counter x) v = counter_write c x v"
| "csr_write c (Unit x) v = unit_write c x v"
| "csr_write c (Proxy_csr a r) v = csr_write c r v"
| "csr_write c (Counter_proxy_csr a r) v = csr_write c r v"
| "csr_write c (Rv32_low_csr r) v =
     (\<lambda>p. csr_write c r (push_bit 32 (drop_bit 32 (written_value c r p)) OR (v AND 0xffffffff)) p)"
| "csr_write c (Rv32_high_csr r) v =
     (\<lambda>p. csr_write c r (drop_bit 32 (push_bit 32 (written_value c r p)) OR push_bit 32 (v AND 0xffffffff)) p)"
| "csr_write c (Virtualized_csr r w) v = (\<lambda>p. if virt (pstate p) then csr_write c w v p else csr_write c r v p)"
| "csr_write c (Virtualized_satp_csr r w) v =
     (\<lambda>p. let newval = (if satp_valid c (pstate p) v then v
                        else if virt (pstate p) then csr_read c w p else csr_read c r p)
          in if virt (pstate p) then csr_write c w newval p else csr_write c r newval p)"
| "csr_write c (Virtualized_stimecmp_csr r w) v =
     (\<lambda>p. if virt (pstate p) then csr_write c w v p else csr_write c r v p)"
| "csr_write c (Virtualized_indirect_csr r w) v =
     (\<lambda>p. if virt (pstate p) then csr_write c w v p else csr_write c r v p)"
| "csr_write c (Composite_csr a u l n) v = thenM (csr_write c u (drop_bit n v)) (csr_write c l v)"

section \<open>Permissions\<close>

definition illegalM :: "ctx \<Rightarrow> ('s, 'a) M" where
  "illegalM c = throwM (Trap (trap_illegal_instruction (insn_bits c)))"

definition virtualM :: "ctx \<Rightarrow> ('s, 'a) M" where
  "virtualM c = throwM (Trap (trap_virtual_instruction (insn_bits c)))"

text \<open>\<^verbatim>\<open>csr_t::verify_permissions\<close>, followed by a check of its own that a class adds.\<close>

definition base_verify :: "ctx \<Rightarrow> u64 \<Rightarrow> bool \<Rightarrow> ('d processor, unit) M" where
  "base_verify c a w = on_state (csr_verify_permissions c a w)"

definition base_verify_then :: "ctx \<Rightarrow> u64 \<Rightarrow> bool \<Rightarrow> ('d hart \<Rightarrow> bool) \<Rightarrow> ('d processor, unit) M" where
  "base_verify_then c a w ok = thenM (base_verify c a w) (\<lambda>p. if ok (pstate p) then returnM () p else illegalM c p)"

definition in_debug_mode :: "'d hart \<Rightarrow> bool" where "in_debug_mode s = debug_mode s"

primrec plain_verify :: "ctx \<Rightarrow> bool \<Rightarrow> plain_csr \<Rightarrow> ('d processor, unit) M" where
  "plain_verify c w (Basic_csr a) = base_verify c a w"
| "plain_verify c w (Masked_csr a m) = base_verify c a w"
| "plain_verify c w (Const_csr a v) = base_verify c a w"
| "plain_verify c w (Epc_csr a) = base_verify c a w"
| "plain_verify c w Dpc_csr = base_verify_then c 0x7b1 w in_debug_mode"
| "plain_verify c w (Tvec_csr a) = base_verify c a w"
| "plain_verify c w (Cause_csr a) = base_verify c a w"
| "plain_verify c w (Hypervisor_csr a) = base_verify_then c a w (\<lambda>s. extension_enabled s (Ext CHR ''H''))"
| "plain_verify c w Mtval2_csr =
     base_verify_then c 0x34b w (\<lambda>s. extension_enabled s (Ext CHR ''H'') \<or> extension_enabled s EXT_SSDBLTRP)"
| "plain_verify c w (Debug_mode_csr a) = base_verify_then c a w in_debug_mode"
| "plain_verify c w Dcsr_csr = base_verify_then c 0x7b0 w in_debug_mode"
| "plain_verify c w (Sscsrind_reg_csr a) =
     thenM (if insn_csr (insn_bits c) = a then base_verify c a w else returnM ())
       (\<lambda>p. if \<not> virt (pstate p) then illegalM c p else virtualM c p)"
| "plain_verify c w (Tselect_csr count) = base_verify c 0x7a0 w"

definition status_verify :: "ctx \<Rightarrow> bool \<Rightarrow> status_csr \<Rightarrow> ('d processor, unit) M" where
  "status_verify c w x = base_verify c (status_address x) w"

definition interrupt_verify :: "ctx \<Rightarrow> bool \<Rightarrow> interrupt_csr \<Rightarrow> ('d processor, unit) M" where
  "interrupt_verify c w x =
    (if x = Mideleg_csr \<or> x = Medeleg_csr
     then base_verify_then c (interrupt_address x) w (\<lambda>s. extension_enabled s (Ext CHR ''S''))
     else base_verify c (interrupt_address x) w)"

definition smstateen_verify :: "ctx \<Rightarrow> bool \<Rightarrow> ('d processor, unit) M" where
  "smstateen_verify c hyp p =
    (let s = pstate p
     in if extension_enabled s EXT_SMSTATEEN
        then (if prv s < PRV_M \<and> mstateen_read 0 p AND MSTATEEN0_HENVCFG = 0 then illegalM c p
              else if hyp \<and> virt s \<and> hstateen_read 0 p AND MSTATEEN0_HENVCFG = 0 then virtualM c p
              else returnM () p)
        else returnM () p)"

definition hstateen_verify :: "ctx \<Rightarrow> nat \<Rightarrow> u64 \<Rightarrow> bool \<Rightarrow> ('d processor, unit) M" where
  "hstateen_verify c i a w p =
    (if prv (pstate p) < PRV_M \<and> mstateen_read i p AND MSTATEEN_HSTATEEN = 0 then illegalM c p
     else base_verify c a w p)"

definition srmcfg_verify :: "ctx \<Rightarrow> ('d processor, unit) M" where
  "srmcfg_verify c p =
    (let s = pstate p
     in if \<not> extension_enabled s EXT_SSQOSID then illegalM c p
        else if extension_enabled s EXT_SMSTATEEN \<and> prv s < PRV_M \<and> mstateen_read 0 p AND MSTATEEN0_PRIV114 = 0
        then illegalM c p
        else if virt s then virtualM c p
        else if prv s < PRV_S then illegalM c p
        else returnM () p)"

primrec config_verify :: "ctx \<Rightarrow> bool \<Rightarrow> config_csr \<Rightarrow> ('d processor, unit) M" where
  "config_verify c w Menvcfg_csr = base_verify c 0x30a w"
| "config_verify c w Senvcfg_csr = thenM (smstateen_verify c True) (base_verify c 0x10a w)"
| "config_verify c w Henvcfg_csr = thenM (smstateen_verify c False) (base_verify c 0x60a w)"
| "config_verify c w Satp_csr =
     base_verify_then c 0x180 w (\<lambda>s. get_field (mstatus_read s) MSTATUS_TVM \<noteq> 0 \<longrightarrow> prv s = PRV_M)"
| "config_verify c w Vsatp_csr = base_verify c 0x280 w"
| "config_verify c w Hgatp_csr =
     base_verify_then c 0x680 w (\<lambda>s. \<not> virt s \<and> get_field (mstatus_read s) MSTATUS_TVM \<noteq> 0 \<longrightarrow> PRV_M \<le> prv s)"
| "config_verify c w (Pmpaddr_csr i) = on_state (pmp_verify_permissions c (0x3b0 + of_nat i) w)"
| "config_verify c w (Pmpcfg_csr k) = on_state (pmp_verify_permissions c (0x3a0 + of_nat k) w)"
| "config_verify c w Mseccfg_csr = on_state (mseccfg_verify_permissions c 0x747 w)"
| "config_verify c w (Hstateen_csr i m) = hstateen_verify c i (0x60c + of_nat i) w"
| "config_verify c w (Sstateen_csr i m) = thenM (hstateen_verify c i (0x10c + of_nat i) w)
     (\<lambda>p. if virt (pstate p) \<and> hstateen_read i p AND MSTATEEN_HSTATEEN = 0 then virtualM c p else returnM () p)"
| "config_verify c w Jvt_csr = thenM (base_verify c 0x017 w) (on_state (jvt_verify_permissions c))"
| "config_verify c w Ssp_csr =
     thenM (base_verify c 0x011 w) (on_state (require_envcfg_field c MENVCFG_SSE (returnM ())))"
| "config_verify c w (Srmcfg_csr m) = srmcfg_verify c"

definition myenable :: "u64 \<Rightarrow> u64 \<Rightarrow> 'd processor \<Rightarrow> bool" where
  "myenable a counteren p = bit (csr_get counteren p) (unat (a AND 31))"

definition counter_proxy_verify :: "ctx \<Rightarrow> u64 \<Rightarrow> bool \<Rightarrow> ('d processor, unit) M" where
  "counter_proxy_verify c a w = thenM (base_verify c a w) (\<lambda>p.
     let s = pstate p;
         mctr_ok = (if prv s < PRV_M then myenable a 0x306 p else True);
         hctr_ok = (if virt s then myenable a 0x606 p else True);
         sctr_ok = (if extension_enabled s (Ext CHR ''S'') \<and> prv s < PRV_S then myenable a 0x106 p else True)
     in if \<not> mctr_ok then illegalM c p
        else if \<not> hctr_ok then virtualM c p
        else if \<not> sctr_ok then (if virt s then virtualM c p else illegalM c p)
        else returnM () p)"

text \<open>The time proxy only exists with Zicntr: without it the call is through a null pointer.\<close>

definition stimecmp_verify :: "ctx \<Rightarrow> u64 \<Rightarrow> bool \<Rightarrow> ('d processor, unit) M" where
  "stimecmp_verify c a w p =
    (if menvcfg_val (pstate p) AND MENVCFG_STCE = 0 \<and> prv (pstate p) < PRV_M then illegalM c p
     else if \<not> isa_table c EXT_ZICNTR then throwM Abort p
     else thenM (counter_proxy_verify c 0xc01 False) (\<lambda>p.
       if virt (pstate p) \<and> henvcfg_read (pstate p) AND MENVCFG_STCE = 0 then virtualM c p
       else base_verify c a w p) p)"

primrec counter_verify :: "ctx \<Rightarrow> bool \<Rightarrow> counter_csr \<Rightarrow> ('d processor, unit) M" where
  "counter_verify c w (Mevent_csr a) = base_verify c a w"
| "counter_verify c w (Smcntrpmf_csr a m) = base_verify c a w"
| "counter_verify c w (Wide_counter_csr a cfg) = base_verify c a w"
| "counter_verify c w Time_counter_csr = base_verify c 0xc01 w"
| "counter_verify c w Scountovf_csr = (\<lambda>p.
     if \<not> extension_enabled (pstate p) EXT_SSCOFPMF then illegalM c p else base_verify c 0xda0 w p)"
| "counter_verify c w (Stimecmp_csr a im) = stimecmp_verify c a w"

text \<open>The floating-point registers share the check of fflags, after their own access check.\<close>

definition float_verify :: "ctx \<Rightarrow> u64 \<Rightarrow> bool \<Rightarrow> ('d processor, unit) M" where
  "float_verify c a w = thenM (base_verify c a w) (on_state (fflags_verify_permissions c))"

definition vector_verify :: "ctx \<Rightarrow> u64 \<Rightarrow> bool \<Rightarrow> ('d processor, unit) M" where
  "vector_verify c a w p =
    (if sstatus_enabled c SSTATUS_VS (pstate p) then base_verify c a w p else illegalM c p)"

primrec unit_verify :: "ctx \<Rightarrow> bool \<Rightarrow> unit_csr \<Rightarrow> ('d processor, unit) M" where
  "unit_verify c w Fflags_csr = float_verify c 0x001 w"
| "unit_verify c w Frm_csr = float_verify c 0x002 w"
| "unit_verify c w (Vector_csr a m) = vector_verify c a w"
| "unit_verify c w Vxsat_csr = vector_verify c 0x009 w"

primrec csr_verify :: "ctx \<Rightarrow> bool \<Rightarrow> csr_obj \<Rightarrow> ('d processor, unit) M" where
  "csr_verify c w (Plain x) = plain_verify c w x"
| "csr_verify c w (Status x) = status_verify c w x"
| "csr_verify c w (Interrupt x) = interrupt_verify c w x"
| "csr_verify c w (Config x) = config_verify c w x"
| "csr_verify c w (Counter x) = counter_verify c w x"
| "csr_verify c w (Unit x) = unit_verify c w x"
| "csr_verify c w (Proxy_csr a r) = base_verify c a w"
| "csr_verify c w (Counter_proxy_csr a r) = counter_proxy_verify c a w"
| "csr_verify c w (Rv32_low_csr r) = csr_verify c w r"
| "csr_verify c w (Rv32_high_csr r) = csr_verify c w r"
| "csr_verify c w (Virtualized_csr r v) = base_verify c (csr_address r) w"
| "csr_verify c w (Virtualized_satp_csr r v) =
     thenM (base_verify c (csr_address r) w) (\<lambda>p.
       if virt (pstate p)
       then (if get_field (hstatus_val (pstate p)) HSTATUS_VTVM \<noteq> 0 then virtualM c p else returnM () p)
       else csr_verify c w r p)"
| "csr_verify c w (Virtualized_stimecmp_csr r v) = csr_verify c w r"
| "csr_verify c w (Virtualized_indirect_csr r v) =
     thenM (base_verify c (csr_address r) w)
       (\<lambda>p. if virt (pstate p) then csr_verify c w v p else csr_verify c w r p)"
| "csr_verify c w (Composite_csr a u l n) = csr_verify c w u"

section \<open>The map\<close>

text \<open>The three macros that add a register under a condition. The letters are those of the configured ISA,
  which misa holds when the map is built.\<close>

definition add_if :: "bool \<Rightarrow> u64 \<Rightarrow> csr_obj \<Rightarrow> (u64 \<times> csr_obj) list" where
  "add_if b a r = (if b then [(a, r)] else [])"

definition add_wide :: "ctx \<Rightarrow> bool \<Rightarrow> u64 \<Rightarrow> u64 \<Rightarrow> csr_obj \<Rightarrow> (u64 \<times> csr_obj) list" where
  "add_wide c b a ah r =
    (if xlen c = 32 then add_if b a (Rv32_low_csr r) @ add_if b ah (Rv32_high_csr r) else add_if b a r)"

definition csrs_machine :: "ctx \<Rightarrow> (u64 \<times> csr_obj) list" where
  "csrs_machine c =
    [(0x301, Status Misa_csr)] @ add_wide c True 0x300 0x310 (Status Mstatus_csr) @
    [(0x341, Plain (Epc_csr 0x341)), (0x343, Plain (Basic_csr 0x343)), (0x340, Plain (Basic_csr 0x340)),
     (0x305, Plain (Tvec_csr 0x305)), (0x342, Plain (Cause_csr 0x342))]"

definition minstret_csr :: csr_obj where "minstret_csr = Counter (Wide_counter_csr 0xb02 0x322)"
definition mcycle_csr :: csr_obj where "mcycle_csr = Counter (Wide_counter_csr 0xb00 0x321)"

definition csrs_counters :: "ctx \<Rightarrow> (u64 \<times> csr_obj) list" where
  "csrs_counters c =
    (let zicntr = isa_table c EXT_ZICNTR
     in add_if zicntr 0xc02 (Counter_proxy_csr 0xc02 minstret_csr) @
        add_if zicntr 0xc00 (Counter_proxy_csr 0xc00 mcycle_csr) @
        add_if zicntr 0xc01 (Counter_proxy_csr 0xc01 (Counter Time_counter_csr)) @
        add_wide c True 0xb02 0xb82 minstret_csr @ add_wide c True 0xb00 0xb80 mcycle_csr @
        (let b = (zicntr \<and> xlen c = 32)
         in add_if b 0xc82 (Counter_proxy_csr 0xc82 (Rv32_high_csr minstret_csr)) @
            add_if b 0xc80 (Counter_proxy_csr 0xc80 (Rv32_high_csr mcycle_csr)) @
            add_if b 0xc81 (Counter_proxy_csr 0xc81 (Rv32_high_csr (Counter Time_counter_csr)))))"

definition csrs_hpm :: "ctx \<Rightarrow> u64 \<Rightarrow> (u64 \<times> csr_obj) list" where
  "csrs_hpm c i =
    (let zihpm = isa_table c EXT_ZIHPM; mevent = Counter (Mevent_csr (0x323 + i));
         mcounter = Plain (Const_csr (0xb03 + i) 0); mcounterh = Plain (Const_csr (0xb83 + i) 0)
     in [(0xb03 + i, mcounter)] @ add_if zihpm (0xc03 + i) (Counter_proxy_csr (0xc03 + i) mcounter) @
        (if xlen c = 32
         then [(0x323 + i, Rv32_low_csr mevent), (0xb83 + i, mcounterh)] @
              add_if zihpm (0xc83 + i) (Counter_proxy_csr (0xc83 + i) mcounterh) @
              add_if (isa_table c EXT_SSCOFPMF) (0x723 + i) (Rv32_high_csr mevent)
         else [(0x323 + i, mevent)]))"

definition counteren_mask :: "ctx \<Rightarrow> u64" where
  "counteren_mask c =
    (if isa_table c EXT_ZICNTR then 0x7 else 0) OR (if isa_table c EXT_ZIHPM then 0xfffffff8 else 0)"

definition csrs_interrupts :: "ctx \<Rightarrow> (u64 \<times> csr_obj) list" where
  "csrs_interrupts c =
    (let s = isa_table c (Ext CHR ''S''); h = isa_table c (Ext CHR ''H''); u = isa_table c (Ext CHR ''U'');
         vsip = Interrupt (Mip_proxy_csr 0x244 vsip_vsie_accr); vsie = Interrupt (Mie_proxy_csr 0x204 vsip_vsie_accr)
     in add_if (isa_table c EXT_SSCOFPMF) 0xda0 (Counter Scountovf_csr) @
        [(0x304, Interrupt Mie_csr), (0x344, Interrupt Mip_csr)] @
        add_if h 0x244 vsip @
        add_if s 0x144 (Virtualized_csr (Interrupt (Mip_proxy_csr 0x144 sip_sie_accr)) vsip) @
        add_if h 0x644 (Interrupt (Mip_proxy_csr 0x644 hip_hie_accr)) @ add_if h 0x645 (Interrupt Hvip_csr) @
        add_if h 0x204 vsie @
        add_if s 0x104 (Virtualized_csr (Interrupt (Mie_proxy_csr 0x104 sip_sie_accr)) vsie) @
        add_if h 0x604 (Interrupt (Mie_proxy_csr 0x604 hip_hie_accr)) @
        add_if s 0x302 (Interrupt Medeleg_csr) @ add_if s 0x303 (Interrupt Mideleg_csr) @
        add_if u 0x306 (Plain (Masked_csr 0x306 (counteren_mask c))) @
        [(0x320, Plain (Masked_csr 0x320 (counteren_mask c AND NOT 2)))] @
        add_if s 0x106 (Plain (Masked_csr 0x106 (counteren_mask c))))"

definition csrs_supervisor :: "ctx \<Rightarrow> (u64 \<times> csr_obj) list" where
  "csrs_supervisor c =
    (let s = isa_table c (Ext CHR ''S''); h = isa_table c (Ext CHR ''H'')
     in add_if h 0x241 (Plain (Epc_csr 0x241)) @
        add_if s 0x141 (Virtualized_csr (Plain (Epc_csr 0x141)) (Plain (Epc_csr 0x241))) @
        add_if h 0x243 (Plain (Basic_csr 0x243)) @
        add_if s 0x143 (Virtualized_csr (Plain (Basic_csr 0x143)) (Plain (Basic_csr 0x243))) @
        add_if s 0x140 (Virtualized_csr (Plain (Basic_csr 0x140)) (Plain (Basic_csr 0x240))) @
        add_if h 0x240 (Plain (Basic_csr 0x240)) @
        add_if h 0x205 (Plain (Tvec_csr 0x205)) @
        add_if s 0x105 (Virtualized_csr (Plain (Tvec_csr 0x105)) (Plain (Tvec_csr 0x205))) @
        add_if h 0x280 (Config Vsatp_csr) @
        add_if s 0x180 (Virtualized_satp_csr (Config Satp_csr) (Config Vsatp_csr)) @
        add_if h 0x242 (Plain (Cause_csr 0x242)) @
        add_if s 0x142 (Virtualized_csr (Plain (Cause_csr 0x142)) (Plain (Cause_csr 0x242))))"

definition csrs_hypervisor :: "ctx \<Rightarrow> (u64 \<times> csr_obj) list" where
  "csrs_hypervisor c =
    (let s = isa_table c (Ext CHR ''S''); h = isa_table c (Ext CHR ''H'')
     in add_if (h \<or> isa_table c EXT_SSDBLTRP) 0x34b (Plain Mtval2_csr) @
        add_if h 0x34a (Plain (Hypervisor_csr 0x34a)) @ add_if h 0x600 (Status Hstatus_csr) @
        add_if h 0x607 (Plain (Const_csr 0x607 0)) @ add_if h 0xe12 (Plain (Const_csr 0xe12 0)) @
        add_if h 0x603 (Interrupt Hideleg_csr) @
        add_if h 0x602 (Plain (Masked_csr 0x602 hedeleg_mask)) @
        add_if h 0x606 (Plain (Masked_csr 0x606 (counteren_mask c))) @
        add_wide c h 0x605 0x615 (Plain (Basic_csr 0x605)) @
        add_if h 0x643 (Plain (Basic_csr 0x643)) @ add_if h 0x64a (Plain (Basic_csr 0x64a)) @
        add_if h 0x680 (Config Hgatp_csr) @ add_if h 0x200 (Status Vsstatus_csr) @
        add_if s 0x100 (Status Sstatus_csr))"

text \<open>A hart without triggers: the registers of the trigger module read as zero.\<close>

definition csrs_debug :: "ctx \<Rightarrow> (u64 \<times> csr_obj) list" where
  "csrs_debug c =
    (let s = isa_table c (Ext CHR ''S''); h = isa_table c (Ext CHR ''H'');
         scontext_length = (if xlen c = 32 then 16 else 32 :: nat);
         hcontext_length = (if xlen c = 32 then 6 else 13) + (if h then 1 else 0 :: nat);
         hcontext = Plain (Masked_csr 0x6a8 (push_bit hcontext_length 1 - 1))
     in [(0x7b1, Plain Dpc_csr), (0x7b2, Plain (Debug_mode_csr 0x7b2)), (0x7b3, Plain (Debug_mode_csr 0x7b3)),
         (0x7b0, Plain Dcsr_csr), (0x7a0, Plain (Tselect_csr 0)), (0x7a1, Plain (Const_csr 0x7a1 0)), (0x7a2, Plain (Const_csr 0x7a2 0)),
         (0x7a3, Plain (Const_csr 0x7a3 0)), (0x7a4, Plain (Const_csr 0x7a4 0))] @
        add_if s 0x5a8 (Plain (Masked_csr 0x5a8 (push_bit scontext_length 1 - 1))) @
        add_if h 0x6a8 hcontext @ [(0x7a8, Proxy_csr 0x7a8 hcontext)])"

definition csrs_pmp :: "ctx \<Rightarrow> (u64 \<times> csr_obj) list" where
  "csrs_pmp c =
    [(0x747, Config Mseccfg_csr)] @
    map (\<lambda>i. (0x3b0 + of_nat i, Config (Pmpaddr_csr i))) [0..<max_pmp] @
    map (\<lambda>k. (0x3a0 + of_nat k, Config (Pmpcfg_csr k)))
      (filter (\<lambda>k. (4 * k) mod (xlen c div 8) = 0) [0..<max_pmp div 4])"

definition csrs_units :: "ctx \<Rightarrow> u64 \<Rightarrow> (u64 \<times> csr_obj) list" where
  "csrs_units c hartid =
    [(0x001, Unit Fflags_csr), (0x002, Unit Frm_csr), (0x003, Composite_csr 0x003 (Unit Frm_csr) (Unit Fflags_csr) 5),
     (0xf12, Plain (Const_csr 0xf12 5)), (0xf13, Plain (Const_csr 0xf13 0)), (0xf11, Plain (Const_csr 0xf11 0)),
     (0xf14, Plain (Const_csr 0xf14 hartid)), (0xf15, Plain (Const_csr 0xf15 0))]"

definition csrs_envcfg :: "ctx \<Rightarrow> (u64 \<times> csr_obj) list" where
  "csrs_envcfg c =
    (let s = isa_table c (Ext CHR ''S''); h = isa_table c (Ext CHR ''H''); u = isa_table c (Ext CHR ''U'')
     in add_wide c u 0x30a 0x31a (Config Menvcfg_csr) @ add_if s 0x10a (Config Senvcfg_csr) @
        add_wide c h 0x60a 0x61a (Config Henvcfg_csr))"

definition sstateen0_mask :: "ctx \<Rightarrow> u64" where
  "sstateen0_mask c = (if isa_table c EXT_ZFINX then 2 else 0) OR (if isa_table c EXT_ZCMT then 4 else 0) OR 1"

definition hstateen0_mask :: "ctx \<Rightarrow> u64" where
  "hstateen0_mask c = sstateen0_mask c OR MSTATEEN0_HENVCFG OR MSTATEEN_HSTATEEN"

definition mstateen0_mask :: "ctx \<Rightarrow> u64" where
  "mstateen0_mask c = hstateen0_mask c OR (if isa_table c EXT_SSQOSID then MSTATEEN0_PRIV114 else 0)"

definition csrs_stateen :: "ctx \<Rightarrow> nat \<Rightarrow> (u64 \<times> csr_obj) list" where
  "csrs_stateen c i =
    (let s = isa_table c (Ext CHR ''S''); h = isa_table c (Ext CHR ''H''); a = of_nat i;
         mstateen_mask = (if i = 0 then mstateen0_mask c else MSTATEEN_HSTATEEN);
         hstateen_mask = (if i = 0 then hstateen0_mask c else MSTATEEN_HSTATEEN);
         sstateen_mask = (if i = 0 then sstateen0_mask c else 0)
     in if isa_table c EXT_SMSTATEEN
        then add_wide c True (0x30c + a) (0x31c + a) (Plain (Masked_csr (0x30c + a) mstateen_mask)) @
             add_wide c h (0x60c + a) (0x61c + a) (Config (Hstateen_csr i hstateen_mask)) @
             add_if s (0x10c + a) (Config (Sstateen_csr i sstateen_mask))
        else [])"

definition csrs_extensions :: "ctx \<Rightarrow> (u64 \<times> csr_obj) list" where
  "csrs_extensions c =
    (let s = isa_table c (Ext CHR ''S''); h = isa_table c (Ext CHR ''H'');
         smrnmi = isa_table c EXT_SMRNMI; sstc = isa_table c EXT_SSTC;
         stimecmp = Counter (Stimecmp_csr 0x14d MIP_STIP); vstimecmp = Counter (Stimecmp_csr 0x24d MIP_VSTIP)
     in add_if smrnmi 0x740 (Plain (Basic_csr 0x740)) @ add_if smrnmi 0x741 (Plain (Epc_csr 0x741)) @
        add_if smrnmi 0x742 (Plain (Const_csr 0x742 (push_bit (xlen c - 1) 1))) @
        add_if smrnmi 0x744 (Status Mnstatus_csr) @
        add_wide c (sstc \<and> s) 0x14d 0x15d (Virtualized_stimecmp_csr stimecmp vstimecmp) @
        add_wide c (sstc \<and> h) 0x24d 0x25d vstimecmp @
        add_if (isa_table c EXT_ZCMT) 0x017 (Config Jvt_csr) @
        add_if (isa_table c EXT_ZICFISS) 0x011 (Config Ssp_csr))"

definition ireg_offsets :: "u64 list" where "ireg_offsets = [1, 2, 3, 5, 6, 7]"

definition csrs_indirect :: "ctx \<Rightarrow> (u64 \<times> csr_obj) list" where
  "csrs_indirect c =
    (let s = isa_table c (Ext CHR ''S''); h = isa_table c (Ext CHR ''H'');
         vsiselect = Plain (Basic_csr 0x250)
     in (if isa_table c EXT_SMCSRIND
         then (0x350, Plain (Basic_csr 0x350)) #
              map (\<lambda>k. (0x350 + k, Plain (Sscsrind_reg_csr (0x350 + k)))) ireg_offsets
         else []) @
        (if isa_table c EXT_SSCSRIND
         then add_if h 0x250 vsiselect @ add_if s 0x150 (Virtualized_csr (Plain (Basic_csr 0x150)) vsiselect) @
              concat (map (\<lambda>k. let vsireg = Plain (Sscsrind_reg_csr (0x250 + k));
                                    sireg = Plain (Sscsrind_reg_csr (0x150 + k))
                                in add_if h (0x250 + k) vsireg @
                                   add_if s (0x150 + k) (Virtualized_indirect_csr sireg vsireg)) ireg_offsets)
         else []))"

definition csrs_last :: "ctx \<Rightarrow> (u64 \<times> csr_obj) list" where
  "csrs_last c =
    (let m = (if isa_table c EXT_SMCNTRPMF
              then MHPMEVENT_MINH OR MHPMEVENT_SINH OR MHPMEVENT_UINH OR MHPMEVENT_VSINH OR MHPMEVENT_VUINH else 0);
         b = isa_table c EXT_SMCNTRPMF
     in add_wide c b 0x321 0x721 (Counter (Smcntrpmf_csr 0x321 m)) @
        add_wide c b 0x322 0x722 (Counter (Smcntrpmf_csr 0x322 m)) @
        add_if (isa_table c EXT_SSQOSID) 0x181 (Config (Srmcfg_csr (0x0FFF0000 OR 0xFFF))))"

text \<open>The registers that \<^verbatim>\<open>vectorUnit_t::reset\<close> adds.\<close>

definition csrs_vector :: "u64 \<Rightarrow> (u64 \<times> csr_obj) list" where
  "csrs_vector vlen =
    (let vxrm = Unit (Vector_csr 0x00a 3); vxsat = Unit Vxsat_csr
     in [(0x009, vxsat), (0x008, Unit (Vector_csr 0x008 (vlen - 1))), (0x00a, vxrm),
         (0xc20, Unit (Vector_csr 0xc20 0)), (0xc21, Unit (Vector_csr 0xc21 0)), (0xc22, Unit (Vector_csr 0xc22 0)),
         (0x00f, Composite_csr 0x00f vxrm vxsat 1)])"

text \<open>The whole map of a hart without triggers and without the entropy source of Zkr; a vector length of zero stands for a
  hart without vectors.\<close>

definition csr_init :: "ctx \<Rightarrow> u64 \<Rightarrow> u64 \<Rightarrow> (u64 \<times> csr_obj) list" where
  "csr_init c hartid vlen =
    csrs_machine c @ csrs_counters c @ concat (map (\<lambda>i. csrs_hpm c (of_nat i)) [0..<N_HPMCOUNTERS]) @
    csrs_interrupts c @ csrs_supervisor c @ csrs_hypervisor c @ csrs_debug c @ csrs_pmp c @
    csrs_units c hartid @ csrs_envcfg c @ concat (map (csrs_stateen c) [0..<4]) @ csrs_extensions c @
    csrs_indirect c @ csrs_last c @ (if vlen = 0 then [] else csrs_vector vlen)"

definition csrmap :: "ctx \<Rightarrow> u64 \<Rightarrow> u64 \<Rightarrow> u64 \<Rightarrow> csr_obj option" where
  "csrmap c hartid vlen a = map_of (rev (csr_init c hartid vlen)) a"

section \<open>Access\<close>

type_synonym csr_map = "u64 \<Rightarrow> csr_obj option"

definition put_csr :: "csr_map \<Rightarrow> ctx \<Rightarrow> u64 \<Rightarrow> u64 \<Rightarrow> ('d processor, unit) M" where
  "put_csr csrs c n v =
    (case csrs n of Some r \<Rightarrow> csr_write c r (zext_xlen c v) | None \<Rightarrow> returnM ())"

definition get_csr :: "csr_map \<Rightarrow> ctx \<Rightarrow> u64 \<Rightarrow> bool \<Rightarrow> bool \<Rightarrow> ('d processor, u64) M" where
  "get_csr csrs c n w peek p =
    (case csrs n of
       Some r \<Rightarrow> if peek then returnM (csr_read c r p) p
                 else thenM (csr_verify c w r) (\<lambda>p. returnM (csr_read c r p) p) p
     | None \<Rightarrow> illegalM c p)"

text \<open>The six instructions differ in the operand and in what they write.\<close>

definition csr_instruction :: "csr_map \<Rightarrow> bool \<Rightarrow> (u64 \<Rightarrow> 'd processor \<Rightarrow> u64) \<Rightarrow> ctx \<Rightarrow> ('d processor, unit) M" where
  "csr_instruction csrs w f c =
    thenM (on_state validate_csr)
     (bindM (get_csr csrs c (insn_csr (insn_bits c)) w False) (\<lambda>old.
       thenM (\<lambda>p. if w then put_csr csrs c (insn_csr (insn_bits c)) (f old p) p else returnM () p)
        (thenM (on_state (WRITE_RD c (sext_xlen c old))) (set_state serialize))))"

definition rs1_value :: "ctx \<Rightarrow> 'd processor \<Rightarrow> u64" where
  "rs1_value c p = RS1 c (pstate p)"

definition insn_csrrw :: "csr_map \<Rightarrow> ctx \<Rightarrow> ('d processor, unit) M" where
  "insn_csrrw csrs c = csr_instruction csrs True (\<lambda>old p. rs1_value c p) c"
definition insn_csrrs :: "csr_map \<Rightarrow> ctx \<Rightarrow> ('d processor, unit) M" where
  "insn_csrrs csrs c = csr_instruction csrs (insn_rs1 (insn_bits c) \<noteq> 0) (\<lambda>old p. old OR rs1_value c p) c"
definition insn_csrrc :: "csr_map \<Rightarrow> ctx \<Rightarrow> ('d processor, unit) M" where
  "insn_csrrc csrs c = csr_instruction csrs (insn_rs1 (insn_bits c) \<noteq> 0) (\<lambda>old p. old AND NOT (rs1_value c p)) c"
definition insn_csrrwi :: "csr_map \<Rightarrow> ctx \<Rightarrow> ('d processor, unit) M" where
  "insn_csrrwi csrs c = csr_instruction csrs True (\<lambda>old p. insn_rs1 (insn_bits c)) c"
definition insn_csrrsi :: "csr_map \<Rightarrow> ctx \<Rightarrow> ('d processor, unit) M" where
  "insn_csrrsi csrs c = csr_instruction csrs (insn_rs1 (insn_bits c) \<noteq> 0) (\<lambda>old p. old OR insn_rs1 (insn_bits c)) c"
definition insn_csrrci :: "csr_map \<Rightarrow> ctx \<Rightarrow> ('d processor, unit) M" where
  "insn_csrrci csrs c =
    csr_instruction csrs (insn_rs1 (insn_bits c) \<noteq> 0) (\<lambda>old p. old AND NOT (insn_rs1 (insn_bits c))) c"

section \<open>Retiring instructions\<close>

text \<open>The end of an iteration of \<^verbatim>\<open>processor_t::step\<close>: the counters advance by the
  instructions that completed, unless mcountinhibit holds them.\<close>

definition count_retired :: "u64 \<Rightarrow> 'd processor \<Rightarrow> 'd processor" where
  "count_retired instret p =
    (let p = (if csr_get 0x320 p AND 4 = 0 then bump 0xb02 0x322 instret p else p)
     in if csr_get 0x320 p AND 1 = 0 then bump 0xb00 0x321 instret p else p)"

end
