(* ===== verification/CsrMapFacts.thy ===== *)
theory CsrMapFacts
  imports CsrMap
begin

text \<open>
  Who may reach a register, what a read leaves alone, and how the counters behave when software writes them.
\<close>

section \<open>Access control\<close>

text \<open>What the number of a register says about who may use it.\<close>

definition csr_allowed :: "u64 \<Rightarrow> bool \<Rightarrow> 'd hart \<Rightarrow> bool" where
  "csr_allowed n w s \<longleftrightarrow>
    csr_priv n \<le> (if prv s = PRV_S \<and> \<not> virt s then PRV_HS else prv s) \<and> \<not> (w \<and> csr_read_only n)"

text \<open>Two numbers that make the same demands.\<close>

definition same_access :: "u64 \<Rightarrow> u64 \<Rightarrow> bool" where
  "same_access a b \<longleftrightarrow> csr_priv a = csr_priv b \<and> csr_read_only a = csr_read_only b"

text \<open>A check that leaves the state alone, and passes only if the number allows the access.\<close>

definition guards :: "u64 \<Rightarrow> bool \<Rightarrow> ('d processor, unit) M \<Rightarrow> bool" where
  "guards n w m \<longleftrightarrow> (\<forall>p u p'. m p = (Inr u, p') \<longrightarrow> p' = p \<and> csr_allowed n w (pstate p))"

text \<open>A check of any kind leaves the state alone, and raises nothing but traps and aborts.\<close>

definition mild :: "exn \<Rightarrow> bool" where
  "mild x \<longleftrightarrow> x = exn.Abort \<or> (\<exists>t. x = Trap t)"


definition checks :: "('d processor, unit) M \<Rightarrow> bool" where
  "checks m \<longleftrightarrow> (\<forall>p. snd (m p) = p \<and> (\<forall>x. fst (m p) = Inl x \<longrightarrow> mild x))"

named_theorems check_rules

lemma mild_rules [simp, check_rules]: "mild exn.Abort" "mild (Trap t)"
  by (simp_all add: mild_def)

lemma csr_verify_permissions_keeps: "snd (csr_verify_permissions c n w s) = s"
  by (simp add: csr_verify_permissions_def throwM_def returnM_def Let_def)

lemma csr_verify_permissions_mild: "fst (csr_verify_permissions c n w s) = Inl x \<Longrightarrow> mild x"
  by (auto simp: csr_verify_permissions_def throwM_def returnM_def Let_def split: if_splits)

lemma csr_verify_permissions_allows: "fst (csr_verify_permissions c n w s) = Inr u \<Longrightarrow> csr_allowed n w s"
  by (auto simp: csr_verify_permissions_def csr_allowed_def throwM_def returnM_def Let_def not_less split: if_splits)

lemma on_state_eq: "snd (m (pstate p)) = pstate p \<Longrightarrow> on_state m p = (fst (m (pstate p)), p)"
  by (cases "m (pstate p)"; cases p) (simp add: on_state_def)

lemma on_state_checks: "(\<And>s. snd (m s) = s \<and> (\<forall>x. fst (m s) = Inl x \<longrightarrow> mild x)) \<Longrightarrow> checks (on_state m)"
  by (simp add: checks_def on_state_eq)

lemma on_state_then: "on_state (thenM m k) = thenM (on_state m) (on_state k)"
  by (rule ext) (simp add: on_state_def thenM_def bindM_def split: prod.split sum.split)

lemma base_verify_eq: "base_verify c n w p = (fst (csr_verify_permissions c n w (pstate p)), p)"
  by (simp add: base_verify_def on_state_eq csr_verify_permissions_keeps)

lemma base_guards [check_rules]: "guards n w (base_verify c n w)"
  by (auto simp: guards_def base_verify_eq csr_verify_permissions_allows)

lemma base_checks [check_rules]: "checks (base_verify c n w)"
  by (auto simp: checks_def base_verify_eq csr_verify_permissions_mild)

lemma guards_same: "same_access b n \<Longrightarrow> guards b w m \<Longrightarrow> guards n w m"
  by (simp add: guards_def csr_allowed_def same_access_def)

lemma guards_then: "guards n w m \<Longrightarrow> checks k \<Longrightarrow> guards n w (thenM m k)"
  unfolding guards_def checks_def thenM_def bindM_def
  by (auto split: prod.splits sum.splits) (metis snd_conv)+

lemma then_guards: "checks m \<Longrightarrow> guards n w k \<Longrightarrow> guards n w (thenM m k)"
  unfolding guards_def checks_def thenM_def bindM_def
  by (auto split: prod.splits sum.splits) (metis snd_conv)+

lemma checks_then:
  assumes "checks m" "checks k"
  shows "checks (thenM m k)"
  unfolding checks_def
proof (intro allI)
  fix p
  obtain r where "m p = (r, p)" using assms(1) by (metis checks_def surjective_pairing)
  then show "snd (thenM m k p) = p \<and> (\<forall>x. fst (thenM m k p) = Inl x \<longrightarrow> mild x)"
    using assms unfolding checks_def thenM_def bindM_def by (cases r) (auto dest: spec [of _ p])
qed

lemma return_checks [check_rules]: "checks (returnM ())" "checks (\<lambda>p. returnM () p)"
  by (simp_all add: checks_def returnM_def)

lemma illegal_guards [check_rules]: "guards n w (illegalM c)" "guards n w (virtualM c)" "guards n w (throwM e)"
  by (simp_all add: guards_def illegalM_def virtualM_def throwM_def)

lemma illegal_checks [check_rules]: "checks (illegalM c)" "checks (virtualM c)" "mild e \<Longrightarrow> checks (throwM e)"
  by (simp_all add: checks_def illegalM_def virtualM_def throwM_def)

lemma if_checks [check_rules]: "checks m \<Longrightarrow> checks k \<Longrightarrow> checks (\<lambda>p. if b p then m p else k p)"
  by (simp add: checks_def)

lemma if_guards [check_rules]: "guards n w m \<Longrightarrow> guards n w k \<Longrightarrow> guards n w (\<lambda>p. if b p then m p else k p)"
  by (simp add: guards_def)

lemma base_then_guards [check_rules]: "guards n w (base_verify_then c n w f)"
  unfolding base_verify_then_def by (intro guards_then check_rules)

lemma state_checks [check_rules]: "checks (on_state (csr_verify_permissions c n w))"
  by (rule on_state_checks) (auto simp: csr_verify_permissions_keeps csr_verify_permissions_mild)

lemma jvt_checks [check_rules]: "checks (on_state (jvt_verify_permissions c))"
  unfolding jvt_verify_permissions_def on_state_then
  by (intro checks_then check_rules on_state_checks) (simp add: monad_defs)

lemma envcfg_checks [check_rules]: "checks (on_state (require_envcfg_field c m (returnM ())))"
  by (rule on_state_checks) (simp add: require_envcfg_field_def require_envcfg_def returnM_def)

lemma fflags_checks [check_rules]: "checks (on_state (fflags_verify_permissions c))"
  unfolding fflags_verify_permissions_def on_state_then
  by (intro checks_then check_rules on_state_checks) (simp add: monad_defs require_fs_def require_def)

lemma smstateen_checks [check_rules]: "checks (smstateen_verify c h)"
  by (simp add: checks_def smstateen_verify_def illegalM_def virtualM_def monad_defs Let_def)

lemma hstateen_guards [check_rules]: "guards n w (hstateen_verify c i n w)"
  unfolding hstateen_verify_def by (intro check_rules)

lemma hstateen_checks [check_rules]: "checks (hstateen_verify c i n w)"
  unfolding hstateen_verify_def by (intro check_rules)

lemma pmp_guards [check_rules]:
  "guards n w (on_state (pmp_verify_permissions c n w))" "guards n w (on_state (mseccfg_verify_permissions c n w))"
  unfolding pmp_verify_permissions_def mseccfg_verify_permissions_def on_state_then base_verify_def [symmetric]
  by (intro guards_then base_guards on_state_checks; simp add: monad_defs)+

lemma counter_proxy_guards [check_rules]: "guards n w (counter_proxy_verify c n w)"
  unfolding counter_proxy_verify_def Let_def by (intro guards_then check_rules)

lemma counter_proxy_checks [check_rules]: "checks (counter_proxy_verify c n w)"
  unfolding counter_proxy_verify_def Let_def by (intro checks_then check_rules)

lemma stimecmp_guards [check_rules]: "guards n w (stimecmp_verify c n w)"
  unfolding stimecmp_verify_def by (intro then_guards check_rules)

lemma float_guards [check_rules]: "guards n w (float_verify c n w)"
  unfolding float_verify_def by (intro guards_then check_rules)

lemma vector_guards [check_rules]: "guards n w (vector_verify c n w)"
  unfolding vector_verify_def by (intro check_rules)

lemma srmcfg_access: "csr_allowed 0x181 w s \<longleftrightarrow> PRV_S \<le> prv s"
  by (simp add: csr_allowed_def csr_priv_def csr_read_only_def get_field_def prv_defs)

lemma srmcfg_guards [check_rules]: "guards 0x181 w (srmcfg_verify c)"
  by (auto simp: guards_def srmcfg_access srmcfg_verify_def illegalM_def virtualM_def throwM_def returnM_def Let_def
      not_less split: if_splits)

lemma plain_guards: "guards (plain_address r) w (plain_verify c w r)"
proof (cases r)
  case (Sscsrind_reg_csr a)
  then show ?thesis by (simp add: guards_def thenM_def bindM_def illegalM_def virtualM_def throwM_def split: sum.splits prod.splits)
qed (simp_all add: check_rules)

lemma config_guards: "guards (config_address r) w (config_verify c w r)"
proof (cases r)
  case Senvcfg_csr
  then show ?thesis by (auto intro!: then_guards check_rules)
next
  case Henvcfg_csr
  then show ?thesis by (auto intro!: then_guards check_rules)
qed (auto intro!: check_rules guards_then)

lemma counter_guards: "guards (counter_address r) w (counter_verify c w r)"
  by (cases r) (auto intro!: check_rules)

lemma unit_guards: "guards (unit_address r) w (unit_verify c w r)"
  by (cases r) (auto intro!: check_rules)

text \<open>An object that is entered under a number checks a number with the same demands.\<close>

fun is_ireg :: "csr_obj \<Rightarrow> bool" where
  "is_ireg (Plain (Sscsrind_reg_csr a)) = True"
| "is_ireg r = False"

primrec entered :: "u64 \<Rightarrow> csr_obj \<Rightarrow> bool" where
  "entered n (Plain r) = same_access (plain_address r) n"
| "entered n (Status r) = same_access (status_address r) n"
| "entered n (Interrupt r) = same_access (interrupt_address r) n"
| "entered n (Config r) = same_access (config_address r) n"
| "entered n (Counter r) = same_access (counter_address r) n"
| "entered n (Unit r) = same_access (unit_address r) n"
| "entered n (Proxy_csr a r) = same_access a n"
| "entered n (Counter_proxy_csr a r) = same_access a n"
| "entered n (Rv32_low_csr r) = entered n r"
| "entered n (Rv32_high_csr r) = entered n r"
| "entered n (Virtualized_csr r v) = same_access (csr_address r) n"
| "entered n (Virtualized_satp_csr r v) = (same_access (csr_address r) n \<and> r = Config Satp_csr)"
| "entered n (Virtualized_stimecmp_csr r v) = entered n r"
| "entered n (Virtualized_indirect_csr r v) = (is_ireg r \<and> is_ireg v)"
| "entered n (Composite_csr a r v k) = entered n r"

lemma indirect_guards:
  "guards n w (csr_verify c w (Virtualized_indirect_csr (Plain (Sscsrind_reg_csr a)) (Plain (Sscsrind_reg_csr b))))"
  by (auto simp: guards_def thenM_def bindM_def illegalM_def virtualM_def throwM_def split: sum.splits prod.splits if_splits)

lemma status_guards: "guards (status_address r) w (status_verify c w r)"
  unfolding status_verify_def by (rule base_guards)

lemma interrupt_guards: "guards (interrupt_address r) w (interrupt_verify c w r)"
  unfolding interrupt_verify_def by (simp add: base_guards base_then_guards)

lemma entered_guards: "entered n r \<Longrightarrow> guards n w (csr_verify c w r)"
proof (induction r)
  case (Plain x) then show ?case using guards_same [OF _ plain_guards] by simp
next
  case (Status x) then show ?case using guards_same [OF _ status_guards] by simp
next
  case (Interrupt x) then show ?case using guards_same [OF _ interrupt_guards] by simp
next
  case (Config x) then show ?case using guards_same [OF _ config_guards] by simp
next
  case (Counter x) then show ?case using guards_same [OF _ counter_guards] by simp
next
  case (Unit x) then show ?case using guards_same [OF _ unit_guards] by simp
next
  case (Proxy_csr a r) then show ?case using guards_same [OF _ base_guards] by simp
next
  case (Counter_proxy_csr a r) then show ?case using guards_same [OF _ counter_proxy_guards] by simp
next
  case (Virtualized_csr r v) then show ?case using guards_same [OF _ base_guards] by simp
next
  case (Virtualized_satp_csr r v)
  have c: "checks (csr_verify c w (Config Satp_csr))"
    unfolding csr_verify.simps config_verify.simps base_verify_then_def by (intro checks_then check_rules)
  have "same_access 0x180 n" using Virtualized_satp_csr.prems by auto
  then have "guards n w (base_verify c 0x180 w)" by (rule guards_same [OF _ base_guards])
  then have "guards n w (csr_verify c w (Virtualized_satp_csr (Config Satp_csr) v))"
    unfolding csr_verify.simps csr_address.simps config_address.simps
    by (rule guards_then) (intro if_checks check_rules c [unfolded csr_verify.simps])
  then show ?case using Virtualized_satp_csr.prems by simp
next
  case (Virtualized_indirect_csr r v)
  then obtain a b where "r = Plain (Sscsrind_reg_csr a)" "v = Plain (Sscsrind_reg_csr b)"
    by (auto elim!: is_ireg.elims)
  then show ?case using indirect_guards by simp
qed simp_all

lemma same_access_refl [simp]: "same_access a a"
  by (simp add: same_access_def)

definition well_entered :: "(u64 \<times> csr_obj) list \<Rightarrow> bool" where
  "well_entered xs \<longleftrightarrow> list_all (\<lambda>(n, r). entered n r) xs"

lemma well_entered_simps [simp]:
  "well_entered []" "well_entered ((n, r) # xs) \<longleftrightarrow> entered n r \<and> well_entered xs"
  "well_entered (xs @ ys) \<longleftrightarrow> well_entered xs \<and> well_entered ys"
  "well_entered (add_if b n r) \<longleftrightarrow> (b \<longrightarrow> entered n r)"
  by (simp_all add: well_entered_def add_if_def)

lemma well_entered_wide [simp]:
  "entered a r \<Longrightarrow> entered h r \<Longrightarrow> well_entered (add_wide c b a h r)"
  by (simp add: add_wide_def)

lemma well_entered_concat: "(\<And>x. x \<in> set xs \<Longrightarrow> well_entered (f x)) \<Longrightarrow> well_entered (concat (map f xs))"
  by (induction xs) simp_all

lemmas access_numbers = same_access_def csr_priv_def csr_read_only_def get_field_def

lemma groups_entered:
  "well_entered (csrs_machine c)" "well_entered (csrs_counters c)" "well_entered (csrs_interrupts c)"
  "well_entered (csrs_supervisor c)" "well_entered (csrs_hypervisor c)" "well_entered (csrs_debug c)"
  "well_entered (csrs_units c h)" "well_entered (csrs_envcfg c)" "well_entered (csrs_extensions c)"
  "well_entered (csrs_last c)" "well_entered (csrs_vector v)"
  unfolding csrs_machine_def csrs_counters_def csrs_interrupts_def csrs_supervisor_def csrs_hypervisor_def csrs_debug_def
    csrs_units_def csrs_envcfg_def csrs_extensions_def csrs_last_def csrs_vector_def Let_def minstret_csr_def mcycle_csr_def
  by (simp_all add: access_numbers)

lemma hpm_entered: "i < 29 \<Longrightarrow> well_entered (csrs_hpm c (of_nat i))"
proof -
  have "list_all (\<lambda>i. \<forall>c. well_entered (csrs_hpm c (of_nat i))) [0..<29]"
    by (simp add: csrs_hpm_def Let_def access_numbers upt_rec)
  then show "i < 29 \<Longrightarrow> ?thesis" by (simp add: list_all_iff)
qed

lemma stateen_entered: "i < 4 \<Longrightarrow> well_entered (csrs_stateen c i)"
proof -
  have "list_all (\<lambda>i. \<forall>c. well_entered (csrs_stateen c i)) [0..<4]"
    by (simp add: csrs_stateen_def Let_def access_numbers upt_rec)
  then show "i < 4 \<Longrightarrow> ?thesis" by (simp add: list_all_iff)
qed

lemma pmp_entered: "well_entered (csrs_pmp c)"
proof -
  have "well_entered (map (\<lambda>i. (0x3b0 + of_nat i, Config (Pmpaddr_csr i))) [0..<64])"
    by (simp add: access_numbers upt_rec)
  moreover have "list_all (\<lambda>k. entered (0x3a0 + of_nat k) (Config (Pmpcfg_csr k))) [0..<16]"
    by (simp add: access_numbers upt_rec)
  then have "well_entered (map (\<lambda>k. (0x3a0 + of_nat k, Config (Pmpcfg_csr k))) (filter P [0..<16]))" for P
    by (simp add: well_entered_def list_all_iff)
  ultimately show ?thesis by (simp add: csrs_pmp_def max_pmp_def access_numbers)
qed

lemma indirect_entered: "well_entered (csrs_indirect c)"
  by (simp add: csrs_indirect_def ireg_offsets_def Let_def access_numbers)

lemma csr_init_entered: "well_entered (csr_init c h v)"
  unfolding csr_init_def
  by (simp add: groups_entered pmp_entered indirect_entered)
    (intro conjI well_entered_concat; simp add: hpm_entered stateen_entered N_HPMCOUNTERS_def)

lemma csrmap_guards:
  assumes "csrmap c h v n = Some r"
  shows "guards n w (csr_verify c w r)"
proof -
  have "(n, r) \<in> set (csr_init c h v)" using map_of_SomeD assms unfolding csrmap_def by fastforce
  then have "entered n r" using csr_init_entered [of c h v] by (auto simp: well_entered_def list_all_iff)
  then show ?thesis by (rule entered_guards)
qed

text \<open>C5: the number of a register protects it, whatever class of object the map holds under it and whatever the
  configuration: an instruction reads the register only if the privilege mode is at least the one in the number (plain
  supervisor mode counts as one more, for the hypervisor registers), writes it only if the number is not that
  of a read-only register, never succeeds on a number that is not in the map, and the permission check changes
  nothing. This covers the halves of the wide registers, the registers banked by the virtualization mode, the
  composite registers and the indirect ones, whose checks are those of other objects.\<close>

theorem csr_access_control:
  assumes "get_csr (csrmap c hartid vlen) c n w False p = (Inr v, p')"
  shows "p' = p \<and> csr_allowed n w (pstate p) \<and> (\<exists>r. csrmap c hartid vlen n = Some r \<and> v = csr_read c r p)"
proof (cases "csrmap c hartid vlen n")
  case None
  then show ?thesis using assms by (simp add: get_csr_def illegalM_def throwM_def)
next
  case (Some r)
  obtain u q where "csr_verify c w r p = (Inr u, q)" "csr_read c r q = v" "q = p'"
    using assms Some by (auto simp: get_csr_def thenM_def bindM_def returnM_def split: prod.splits sum.splits)
  then show ?thesis using csrmap_guards [OF Some, of w] Some unfolding guards_def by blast
qed

section \<open>Reads without a write\<close>

lemma plain_checks: "checks (plain_verify c w r)"
proof (cases r)
  case (Sscsrind_reg_csr a)
  then show ?thesis by simp (intro conjI impI checks_then check_rules)
qed (simp_all add: base_verify_then_def; intro checks_then check_rules)+

lemma base_then_checks [check_rules]: "checks (base_verify_then c n w f)"
  unfolding base_verify_then_def by (intro checks_then check_rules)

lemma pmp_checks [check_rules]:
  "checks (on_state (pmp_verify_permissions c n w))" "checks (on_state (mseccfg_verify_permissions c n w))"
  unfolding pmp_verify_permissions_def mseccfg_verify_permissions_def on_state_then
  by (intro checks_then check_rules on_state_checks; simp add: monad_defs)+

lemma srmcfg_checks [check_rules]: "checks (srmcfg_verify c)"
  by (simp add: checks_def srmcfg_verify_def illegalM_def virtualM_def monad_defs Let_def)

lemma config_checks: "checks (config_verify c w r)"
proof (cases r)
  case Senvcfg_csr then show ?thesis by (auto intro!: checks_then check_rules)
next
  case Henvcfg_csr then show ?thesis by (auto intro!: checks_then check_rules)
next
  case Jvt_csr then show ?thesis by (auto intro!: checks_then check_rules)
next
  case Ssp_csr then show ?thesis by (auto intro!: checks_then check_rules)
next
  case (Sstateen_csr i m) then show ?thesis by (auto intro!: checks_then check_rules)
qed (auto intro!: check_rules)

lemma stimecmp_checks [check_rules]: "checks (stimecmp_verify c n w)"
  unfolding stimecmp_verify_def by (intro if_checks checks_then check_rules)

lemma counter_checks: "checks (counter_verify c w r)"
  by (cases r) (auto intro!: check_rules)

lemma vector_checks [check_rules]: "checks (vector_verify c n w)"
  unfolding vector_verify_def by (intro check_rules)

lemma float_checks [check_rules]: "checks (float_verify c n w)"
  unfolding float_verify_def by (intro checks_then check_rules)

lemma unit_checks: "checks (unit_verify c w r)"
  by (cases r) (simp_all add: check_rules)

lemma csr_verify_checks: "checks (csr_verify c w r)"
proof (induction r)
  case (Virtualized_satp_csr r v)
  show ?case unfolding csr_verify.simps by (intro checks_then if_checks check_rules Virtualized_satp_csr.IH)
next
  case (Virtualized_indirect_csr r v)
  show ?case unfolding csr_verify.simps by (intro checks_then if_checks check_rules Virtualized_indirect_csr.IH)
qed (simp_all add: plain_checks status_verify_def interrupt_verify_def config_checks counter_checks unit_checks check_rules)

lemma csr_verify_keeps: "snd (csr_verify c w r p) = p"
  using csr_verify_checks unfolding checks_def by blast

lemma get_csr_keeps: "snd (get_csr csrs c n w peek p) = p"
proof (cases "csrs n")
  case None
  then show ?thesis by (simp add: get_csr_def illegalM_def throwM_def)
next
  case (Some r)
  have "csr_verify c w r p = (fst (csr_verify c w r p), p)" using csr_verify_keeps by (metis prod.collapse)
  then show ?thesis using Some
    by (cases "fst (csr_verify c w r p)") (simp_all add: get_csr_def thenM_def bindM_def returnM_def)
qed

text \<open>What an instruction does that reads a register: the mark that the processor is serialized is taken, and on
  success the value goes to the destination, and the processor serializes once more before it goes on.\<close>

definition unserialized :: "'d processor \<Rightarrow> 'd processor" where
  "unserialized p = p\<lparr>pstate := (pstate p)\<lparr>serialized := False\<rparr>\<rparr>"

definition has_read :: "ctx \<Rightarrow> u64 \<Rightarrow> 'd processor \<Rightarrow> 'd processor" where
  "has_read c v p =
    (let s = pstate p; d = unat (insn_rd (insn_bits c))
     in p\<lparr>pstate := s\<lparr>XPR := (\<lambda>n. if n = d \<and> n \<noteq> 0 then sext_xlen c v else XPR s n), serialized := False,
          npc := PC_SERIALIZE_AFTER, pc := npc s AND pc_alignment_mask s\<rparr>\<rparr>)"

lemma csr_instruction_reads:
  "csr_instruction csrs False f c p =
    (if \<not> serialized (pstate p) then (Inl SerializeBefore, p)
     else case csrs (insn_csr (insn_bits c)) of
         None \<Rightarrow> (Inl (Trap (trap_illegal_instruction (insn_bits c))), unserialized p)
       | Some r \<Rightarrow> (case csr_verify c False r (unserialized p) of
           (Inl x, _) \<Rightarrow> (Inl x, unserialized p)
         | (Inr _, _) \<Rightarrow> (Inr (), has_read c (csr_read c r (unserialized p)) p)))"
proof -
  let ?q = "unserialized p"
  have v: "on_state validate_csr p = (if serialized (pstate p) then (Inr (), ?q) else (Inl SerializeBefore, p))"
    by (simp add: on_state_def validate_csr_def unserialized_def)
  have k: "csr_verify c w r ?q = (fst (csr_verify c w r ?q), ?q)" for w r
    using csr_verify_keeps by (metis prod.collapse)
  have w: "thenM (on_state (WRITE_RD c (sext_xlen c x))) (set_state serialize) ?q = (Inr (), has_read c x p)" for x
  proof -
    have "regfile_write True (unat (insn_rd (insn_bits c))) (sext_xlen c x) (XPR (pstate p)) =
        (\<lambda>n. if n = unat (insn_rd (insn_bits c)) \<and> n \<noteq> 0 then sext_xlen c x else XPR (pstate p) n)"
      by (auto simp: regfile_write_def)
    then show ?thesis
      by (simp add: thenM_def bindM_def on_state_def WRITE_RD_def WRITE_REG_def set_state_def serialize_def unserialized_def
          set_pc_and_serialize_def pc_alignment_mask_def extension_enabled_def has_read_def Let_def)
  qed
  show ?thesis
  proof (cases "serialized (pstate p)")
    case False
    then show ?thesis by (simp add: csr_instruction_def thenM_def bindM_def v)
  next
    case True
    show ?thesis
    proof (cases "csrs (insn_csr (insn_bits c))")
      case None
      then show ?thesis using True
        by (simp add: csr_instruction_def get_csr_def illegalM_def throwM_def thenM_def bindM_def v)
    next
      case (Some r)
      show ?thesis
      proof (cases "fst (csr_verify c False r ?q)")
        case (Inl x)
        then have "csr_verify c False r ?q = (Inl x, ?q)" using k by metis
        then show ?thesis using True Some by (simp add: csr_instruction_def get_csr_def thenM_def bindM_def v)
      next
        case (Inr x)
        then have "csr_verify c False r ?q = (Inr x, ?q)" using k by metis
        then show ?thesis using True Some w
          by (simp add: csr_instruction_def get_csr_def thenM_def bindM_def returnM_def v)
      qed
    qed
  qed
qed

text \<open>C14: with the zero register, or a zero immediate, the set and clear instructions only read. Without the mark that
  the processor is serialized they change nothing and ask for it; with it, they take the mark and then: a number without
  an object is an illegal instruction, a refused access ends with the exception of the permission check for a
  read, and otherwise the destination register, unless it is register 0, receives the sign-extended value read, and the
  processor serializes after the instruction. Nothing else of the processor changes in any of these cases: no control and
  status register is written.\<close>

theorem csr_zero_operand_only_reads:
  assumes "insn_rs1 (insn_bits c) = 0"
    and "m \<in> {insn_csrrs csrs c, insn_csrrc csrs c, insn_csrrsi csrs c, insn_csrrci csrs c}"
  shows "m p =
    (if \<not> serialized (pstate p) then (Inl SerializeBefore, p)
     else case csrs (insn_csr (insn_bits c)) of
         None \<Rightarrow> (Inl (Trap (trap_illegal_instruction (insn_bits c))), unserialized p)
       | Some r \<Rightarrow> (case csr_verify c False r (unserialized p) of
           (Inl x, _) \<Rightarrow> (Inl x, unserialized p)
         | (Inr _, _) \<Rightarrow> (Inr (), has_read c (csr_read c r (unserialized p)) p)))"
proof -
  obtain f where "m = csr_instruction csrs False f c"
    using assms unfolding insn_csrrs_def insn_csrrc_def insn_csrrsi_def insn_csrrci_def by auto
  then show ?thesis by (simp only: csr_instruction_reads)
qed

section \<open>Counters\<close>

lemma csr_get_other:
  "csr_get 0x322 (csr_set 0xb02 v p) = csr_get 0x322 p" "csr_get 0x320 (csr_set 0xb02 v p) = csr_get 0x320 p"
  "csr_get 0xb02 (csr_set 0xb00 v p) = csr_get 0xb02 p" "csr_get 0x320 (csr_set 0xb00 v p) = csr_get 0x320 p"
  by (simp_all add: csr_get_def csr_set_def)

lemma csr_set_frame: "pstate (csr_set 0xb02 v p) = pstate p" "prev_val (csr_set 0xb02 v p) = prev_val p"
  by (simp_all add: csr_set_def)

lemma csr_get_prev [simp]: "csr_get a (p\<lparr>prev_val := f\<rparr>) = csr_get a p"
  by (simp add: csr_get_def Let_def)

lemma read_prev_set: "read_prev 0x322 (csr_set 0xb02 v p) = read_prev 0x322 p"
  by (simp add: read_prev_def csr_set_frame csr_get_other split: option.split)

lemma counting_set: "is_counting_enabled 0x322 (csr_set 0xb02 v p) = is_counting_enabled 0x322 p"
  by (simp add: is_counting_enabled_def read_prev_set csr_set_frame)

lemma retired_minstret:
  "csr_get 0xb02 (count_retired n p) =
    (if csr_get 0x320 p AND 4 = 0 \<and> is_counting_enabled 0x322 p then csr_get 0xb02 p + n else csr_get 0xb02 p)"
  by (simp add: count_retired_def bump_def Let_def csr_get_other)

text \<open>A write of minstret, and what is read once the writing instruction has retired. The counter holds the
  value written when it counts (the write is taken one too low to make up for the instruction that writes) and when
  Smcntrpmf stops it; when mcountinhibit stops it, it holds one less, because the correction is made but the
  instruction is not counted. A write of the upper half on RV32 keeps the lower half and counts the
  instruction on top of the 64-bit value; with the correction, a counter that mcountinhibit stops then holds that value
  less one.\<close>

lemma minstret_write:
  "csr_read c minstret_csr (count_retired 1 (snd (csr_write c minstret_csr v p))) =
     (if csr_get 0x320 p AND 4 \<noteq> 0 \<and> is_counting_enabled 0x322 p then v - 1 else v) \<and>
   csr_read c minstret_csr (count_retired 1 (snd (csr_write c (Rv32_high_csr minstret_csr) h p))) =
     (let v = drop_bit 32 (push_bit 32 (csr_get 0xb02 p + 1)) OR push_bit 32 (h AND 0xffffffff)
      in if csr_get 0x320 p AND 4 \<noteq> 0 \<and> is_counting_enabled 0x322 p then v - 1 else v)"
  by (intro conjI; simp add: minstret_csr_def retired_minstret modifyM_def csr_get_other counting_set Let_def)

section \<open>Timers\<close>

lemma timer_bits: "bit (32 :: int) n \<longleftrightarrow> n = 5" "bit (64 :: int) n \<longleftrightarrow> n = 6" "bit (96 :: int) n \<longleftrightarrow> n = 5 \<or> n = 6"
proof -
  have b: "bit (push_bit k 1 :: int) n \<longleftrightarrow> n = k" for k
    by (auto simp: bit_simps)
  from b [of 5] b [of 6] show one: "bit (32 :: int) n \<longleftrightarrow> n = 5" "bit (64 :: int) n \<longleftrightarrow> n = 6"
    by simp_all
  have "96 = (32 :: int) OR 64" by simp
  then show "bit (96 :: int) n \<longleftrightarrow> n = 5 \<or> n = 6" by (simp only: bit_or_iff one)
qed

text \<open>The timer interrupts after the time has advanced: with Sstc and the enabling bits of menvcfg and henvcfg,
  the supervisor timer is pending exactly when stimecmp has been reached, and the guest timer exactly when vstimecmp
  has been reached by the time of the guest; no other pending bit changes.\<close>

lemma time_sync_timers:
  assumes "extension_enabled (pstate p) EXT_SSTC"
  shows "let s = pstate p; m = mip_val (pstate (time_sync t p))
    in m AND NOT (stimecmp_mask s) = mip_val s AND NOT (stimecmp_mask s) \<and>
       (m AND MIP_STIP \<noteq> 0) =
         (if menvcfg_val s AND MENVCFG_STCE = 0 then mip_val s AND MIP_STIP \<noteq> 0 else csr_get 0x14d p \<le> t) \<and>
       (m AND MIP_VSTIP \<noteq> 0) =
         (if henvcfg_read s AND MENVCFG_STCE = 0 then mip_val s AND MIP_VSTIP \<noteq> 0
          else csr_get 0x24d p \<le> t + csr_get 0x605 p)"
proof -
  have bits: "(a AND NOT m OR b AND m) AND NOT m = a AND NOT m" for a b m :: u64
    by (rule bit_word_eqI) (auto simp: bit_simps)
  have "w AND push_bit k 1 = (if bit w k then push_bit k 1 else 0)" for w :: u64 and k
    by (rule bit_word_eqI) (auto simp: bit_simps)
  from this [of _ 5] this [of _ 6]
  have s: "(w AND MIP_STIP \<noteq> 0) = bit w 5" "(w AND MIP_VSTIP \<noteq> 0) = bit w 6" for w :: u64
    by simp_all
  show ?thesis
    using assms
    by (simp only: s Let_def time_sync_def csr_get_def mip_backdoor_write_with_mask_def)
      (auto simp: stimecmp_mask_def bits bit_simps csr_get_def timer_bits intro!: bit_word_eqI)
qed

text \<open>A write of stimecmp updates both timer bits, but computes only its own: a pending guest timer is lost.\<close>

lemma stimecmp_write_drops_vstip:
  assumes "henvcfg_read (pstate p) AND MENVCFG_STCE \<noteq> 0"
  shows "mip_val (pstate (stimecmp_write 0x14d MIP_STIP v p)) AND MIP_VSTIP = 0"
proof -
  have "pstate (csr_set 0x14d v q) = pstate q" for q :: "'a processor" by (simp add: csr_set_def)
  then have "mip_val (pstate (stimecmp_write 0x14d MIP_STIP v p)) = mip_val (pstate p) AND NOT (stimecmp_mask (pstate p)) OR
      (if v \<le> time_read p then MIP_STIP else 0) AND stimecmp_mask (pstate p)"
    by (simp add: stimecmp_write_def mip_backdoor_write_with_mask_def)
  moreover have "(a AND NOT (k OR MIP_VSTIP) OR (if b then MIP_STIP else 0) AND (k OR MIP_VSTIP)) AND MIP_VSTIP = 0" for a k b
    by (rule bit_word_eqI) (auto simp: bit_simps timer_bits)
  ultimately show ?thesis using assms by (simp add: stimecmp_mask_def)
qed

section \<open>Witnesses\<close>

definition processor_of :: "'d hart \<Rightarrow> 'd processor" where
  "processor_of s = \<lparr>pstate = s, csr_val = (\<lambda>_. 0), prev_val = (\<lambda>_. None), shadow_val = 0\<rparr>"

definition mscratch_hart :: "u64 \<Rightarrow> unit processor" where
  "mscratch_hart v = (processor_of ((hart_full 64)\<lparr>serialized := True\<rparr>))\<lparr>csr_val := (\<lambda>_. v)\<rparr>"

definition mscratch_read :: ctx where "mscratch_read = ctx_full 64 0x34002573 0"

lemma map_of_rev_other: "list_all (\<lambda>(k, r). k \<noteq> n) xs \<Longrightarrow> map_of (rev xs) n = None"
  by (auto simp: map_of_eq_None_iff list_all_iff)

lemma csrmap_mscratch: "csrmap mscratch_read 0 0 0x340 = Some (Plain (Basic_csr 0x340))"
proof -
  let ?c = mscratch_read
  let ?other = "list_all (\<lambda>(k, r). k \<noteq> (0x340 :: u64))"
  have "?other (csrs_counters ?c)" "?other (csrs_interrupts ?c)" "?other (csrs_supervisor ?c)"
    "?other (csrs_hypervisor ?c)" "?other (csrs_debug ?c)" "?other (csrs_units ?c 0)" "?other (csrs_envcfg ?c)"
    "?other (csrs_extensions ?c)" "?other (csrs_indirect ?c)" "?other (csrs_last ?c)"
    unfolding csrs_counters_def csrs_interrupts_def csrs_supervisor_def csrs_hypervisor_def csrs_debug_def csrs_units_def
      csrs_envcfg_def csrs_extensions_def csrs_indirect_def csrs_last_def Let_def add_wide_def add_if_def ireg_offsets_def
    by simp_all
  moreover have "?other (csrs_pmp ?c)"
    by (simp add: csrs_pmp_def max_pmp_def mscratch_read_def ctx_full_def upt_rec)
  moreover have "?other (concat (map (\<lambda>i. csrs_hpm ?c (of_nat i)) [0..<N_HPMCOUNTERS]))"
    by (simp add: csrs_hpm_def Let_def add_if_def N_HPMCOUNTERS_def upt_rec)
  moreover have "?other (concat (map (csrs_stateen ?c) [0..<4]))"
    by (simp add: csrs_stateen_def Let_def add_wide_def add_if_def upt_rec)
  ultimately show ?thesis
    by (simp add: csrmap_def csr_init_def map_add_def map_of_rev_other csrs_machine_def add_wide_def add_if_def)
qed

theorem csr_zero_operand_only_reads_witness:
  "insn_csrrs (csrmap mscratch_read 0 0) mscratch_read (mscratch_hart 7) =
    (Inr (), has_read mscratch_read 7 (mscratch_hart 7))"
proof -
  let ?m = "insn_csrrs (csrmap mscratch_read 0 0) mscratch_read :: (unit processor, unit) M"
  have n: "insn_rs1 (insn_bits mscratch_read) = 0" "insn_csr (insn_bits mscratch_read) = 0x340"
    by (simp_all add: mscratch_read_def ctx_full_def insn_rs1_def insn_csr_def insn_x_def)
  have v: "csr_verify mscratch_read False (Plain (Basic_csr 0x340)) (unserialized (mscratch_hart 7)) =
      (Inr (), unserialized (mscratch_hart 7))"
    by (simp add: base_verify_eq csr_verify_permissions_def access_numbers prv_defs mscratch_hart_def processor_of_def
        unserialized_def hart_full_def returnM_def Let_def)
  have r: "csr_read mscratch_read (Plain (Basic_csr 0x340)) (unserialized (mscratch_hart 7)) = 7"
    by (simp add: mscratch_hart_def processor_of_def unserialized_def csr_get_def)
  have s: "serialized (pstate (mscratch_hart 7))" by (simp add: mscratch_hart_def processor_of_def)
  have "?m \<in> {?m, insn_csrrc (csrmap mscratch_read 0 0) mscratch_read, insn_csrrsi (csrmap mscratch_read 0 0) mscratch_read,
      insn_csrrci (csrmap mscratch_read 0 0) mscratch_read}" by (rule insertI1)
  from csr_zero_operand_only_reads [OF n(1) this, of "mscratch_hart 7"] show ?thesis
    by (simp only: n(2) csrmap_mscratch v r s option.case sum.case prod.case not_True_eq_False if_False)
qed

theorem csr_access_control_witness:
  "csr_allowed 0x340 True (hart_full 64)"
proof -
  have "get_csr (csrmap mscratch_read 0 0) mscratch_read 0x340 True False (processor_of (hart_full 64)) =
      (Inr 0, processor_of (hart_full 64))"
    by (simp add: get_csr_def csrmap_mscratch base_verify_eq csr_verify_permissions_def thenM_def bindM_def returnM_def
        access_numbers prv_defs processor_of_def csr_get_def hart_full_def Let_def)
  from csr_access_control [OF this] show ?thesis by (simp add: processor_of_def)
qed

lemma time_sync_timers_witness:
  "mip_val (pstate (time_sync 5 (processor_of (hart_full 64)))) AND NOT (stimecmp_mask (hart_full 64)) =
     mip_val (hart_full 64) AND NOT (stimecmp_mask (hart_full 64))"
proof -
  have "extension_enabled (pstate (processor_of (hart_full 64))) EXT_SSTC"
    by (simp add: processor_of_def hart_full_def extension_enabled_def ctx_full_def)
  from time_sync_timers [OF this, of 5] show ?thesis by (simp add: Let_def processor_of_def)
qed

end
