(* ===== verification/Execute.thy ===== *)
theory Execute
  imports CsrMap Encoding InsnK Privileged
begin

text \<open>
  The fetch, decode and execute loop of \<^verbatim>\<open>riscv/execute.cc\<close>. One instruction is fetched at the
  program counter, decoded by the list of the hart and run by the body of its name; the loop retires instructions until
  the quantum is used up, takes interrupts and traps, and steps through debug mode. The hart has no triggers and no
  custom instructions. An instruction that the development does not model (the vector instructions and the arithmetic
  of the floating-point ones), and \<^verbatim>\<open>abort\<close>, end the run: the result is then \<open>Stuck\<close>.
\<close>

section \<open>The bodies by name\<close>

definition integer_bodies :: "(string \<times> (ctx \<Rightarrow> ('d hart, unit) M)) list" where
  "integer_bodies = [
    (''add'', insn_add), (''addi'', insn_addi), (''addiw'', insn_addiw), (''addw'', insn_addw), (''sub'', insn_sub),
    (''subw'', insn_subw), (''and'', insn_and), (''andi'', insn_andi), (''or'', insn_or), (''ori'', insn_ori),
    (''xor'', insn_xor), (''xori'', insn_xori), (''lui'', insn_lui), (''auipc'', insn_auipc), (''sll'', insn_sll),
    (''slli'', insn_slli), (''slliw'', insn_slliw), (''sllw'', insn_sllw), (''srl'', insn_srl),
    (''srli'', insn_srli), (''srliw'', insn_srliw), (''srlw'', insn_srlw), (''sra'', insn_sra),
    (''srai'', insn_srai), (''sraiw'', insn_sraiw), (''sraw'', insn_sraw), (''slt'', insn_slt),
    (''slti'', insn_slti), (''sltu'', insn_sltu), (''sltiu'', insn_sltiu), (''beq'', insn_beq), (''bne'', insn_bne),
    (''blt'', insn_blt), (''bltu'', insn_bltu), (''bge'', insn_bge), (''bgeu'', insn_bgeu), (''jal'', insn_jal),
    (''jalr'', insn_jalr), (''ebreak'', insn_ebreak), (''ecall'', insn_ecall), (''lpad'', insn_lpad),
    (''mul'', insn_mul), (''mulh'', insn_mulh), (''mulhsu'', insn_mulhsu), (''mulhu'', insn_mulhu),
    (''mulw'', insn_mulw), (''div'', insn_div), (''divu'', insn_divu), (''divw'', insn_divw),
    (''divuw'', insn_divuw), (''rem'', insn_rem), (''remu'', insn_remu), (''remw'', insn_remw),
    (''remuw'', insn_remuw), (''add_uw'', insn_add_uw), (''slli_uw'', insn_slli_uw), (''sh1add'', insn_sh1add),
    (''sh1add_uw'', insn_sh1add_uw), (''sh2add'', insn_sh2add), (''sh2add_uw'', insn_sh2add_uw),
    (''sh3add'', insn_sh3add), (''sh3add_uw'', insn_sh3add_uw), (''andn'', insn_andn), (''orn'', insn_orn),
    (''xnor'', insn_xnor), (''max'', insn_max), (''maxu'', insn_maxu), (''min'', insn_min), (''minu'', insn_minu),
    (''sext_b'', insn_sext_b), (''sext_h'', insn_sext_h), (''bclr'', insn_bclr), (''bclri'', insn_bclri),
    (''bset'', insn_bset), (''bseti'', insn_bseti), (''binv'', insn_binv), (''binvi'', insn_binvi),
    (''bext'', insn_bext), (''bexti'', insn_bexti), (''clz'', insn_clz), (''clzw'', insn_clzw), (''ctz'', insn_ctz),
    (''ctzw'', insn_ctzw), (''cpop'', insn_cpop), (''cpopw'', insn_cpopw), (''clmul'', insn_clmul),
    (''clmulh'', insn_clmulh), (''clmulr'', insn_clmulr), (''rol'', insn_rol), (''rolw'', insn_rolw),
    (''ror'', insn_ror), (''rori'', insn_rori), (''rorw'', insn_rorw), (''roriw'', insn_roriw),
    (''pack'', insn_pack), (''packh'', insn_packh), (''packw'', insn_packw), (''czero_eqz'', insn_czero_eqz),
    (''czero_nez'', insn_czero_nez), (''mop_r_N'', insn_mop_r_N), (''mop_rr_N'', insn_mop_rr_N),
    (''gorci'', insn_gorci), (''grevi'', insn_grevi), (''shfli'', insn_shfli), (''unshfli'', insn_unshfli),
    (''xperm4'', insn_xperm4), (''xperm8'', insn_xperm8)]"

definition compressed_bodies :: "(string \<times> (ctx \<Rightarrow> ('d hart, unit) M)) list" where
  "compressed_bodies = [
    (''c_add'', insn_c_add), (''c_addi'', insn_c_addi), (''c_addi4spn'', insn_c_addi4spn), (''c_addw'', insn_c_addw),
    (''c_and'', insn_c_and), (''c_andi'', insn_c_andi), (''c_or'', insn_c_or), (''c_xor'', insn_c_xor),
    (''c_beqz'', insn_c_beqz), (''c_bnez'', insn_c_bnez), (''c_ebreak'', insn_c_ebreak), (''c_j'', insn_c_j),
    (''c_jal'', insn_c_jal), (''c_jalr'', insn_c_jalr), (''c_jr'', insn_c_jr), (''c_li'', insn_c_li),
    (''c_mop_N'', insn_c_mop_N), (''c_mul'', insn_c_mul), (''c_mv'', insn_c_mv), (''c_not'', insn_c_not),
    (''c_sext_b'', insn_c_sext_b), (''c_sext_h'', insn_c_sext_h), (''c_slli'', insn_c_slli),
    (''c_srai'', insn_c_srai), (''c_srli'', insn_c_srli), (''c_sub'', insn_c_sub), (''c_subw'', insn_c_subw),
    (''c_zext_b'', insn_c_zext_b), (''c_zext_h'', insn_c_zext_h), (''c_zext_w'', insn_c_zext_w),
    (''cm_mva01s'', insn_cm_mva01s), (''cm_mvsa01'', insn_cm_mvsa01)]"

definition crypto_bodies :: "(string \<times> (ctx \<Rightarrow> ('d hart, unit) M)) list" where
  "crypto_bodies = [
    (''aes32dsi'', insn_aes32dsi), (''aes32dsmi'', insn_aes32dsmi), (''aes32esi'', insn_aes32esi),
    (''aes32esmi'', insn_aes32esmi), (''aes64ds'', insn_aes64ds), (''aes64dsm'', insn_aes64dsm),
    (''aes64es'', insn_aes64es), (''aes64esm'', insn_aes64esm), (''aes64im'', insn_aes64im),
    (''aes64ks1i'', insn_aes64ks1i), (''aes64ks2'', insn_aes64ks2), (''sha256sig0'', insn_sha256sig0),
    (''sha256sig1'', insn_sha256sig1), (''sha256sum0'', insn_sha256sum0), (''sha256sum1'', insn_sha256sum1),
    (''sha512sig0'', insn_sha512sig0), (''sha512sig0h'', insn_sha512sig0h), (''sha512sig0l'', insn_sha512sig0l),
    (''sha512sig1'', insn_sha512sig1), (''sha512sig1h'', insn_sha512sig1h), (''sha512sig1l'', insn_sha512sig1l),
    (''sha512sum0'', insn_sha512sum0), (''sha512sum0r'', insn_sha512sum0r), (''sha512sum1'', insn_sha512sum1),
    (''sha512sum1r'', insn_sha512sum1r), (''sm3p0'', insn_sm3p0), (''sm3p1'', insn_sm3p1), (''sm4ed'', insn_sm4ed),
    (''sm4ks'', insn_sm4ks)]"

definition privileged_bodies :: "(string \<times> (ctx \<Rightarrow> ('d hart, unit) M)) list" where
  "privileged_bodies = [
    (''mret'', insn_mret), (''sret'', insn_sret), (''mnret'', insn_mnret), (''dret'', insn_dret),
    (''wfi'', insn_wfi), (''sfence_vma'', insn_sfence_vma), (''hfence_vvma'', insn_hfence_vvma),
    (''hfence_gvma'', insn_hfence_gvma), (''sinval_vma'', insn_sinval_vma), (''hinval_vvma'', insn_hinval_vvma),
    (''hinval_gvma'', insn_hinval_gvma), (''sfence_inval_ir'', insn_sfence_inval_ir),
    (''sfence_w_inval'', insn_sfence_w_inval), (''fence'', insn_fence), (''fence_i'', insn_fence_i),
    (''wrs_nto'', insn_wrs_nto), (''wrs_sto'', insn_wrs_sto)]"

definition memory_bodies :: "'d mmu_env \<Rightarrow> (string \<times> (ctx \<Rightarrow> ('d hart, unit) M)) list" where
  "memory_bodies e = [
    (''lb'', insn_lb e), (''lbu'', insn_lbu e), (''lh'', insn_lh e), (''lhu'', insn_lhu e), (''lw'', insn_lw e),
    (''lwu'', insn_lwu e), (''ld'', insn_ld e), (''sb'', insn_sb e), (''sh'', insn_sh e), (''sw'', insn_sw e),
    (''sd'', insn_sd e), (''lb_aq'', insn_lb_aq e), (''lh_aq'', insn_lh_aq e), (''lw_aq'', insn_lw_aq e),
    (''ld_aq'', insn_ld_aq e), (''sb_rl'', insn_sb_rl e), (''sh_rl'', insn_sh_rl e), (''sw_rl'', insn_sw_rl e),
    (''sd_rl'', insn_sd_rl e), (''fld'', insn_fld e), (''flw'', insn_flw e), (''flh'', insn_flh e),
    (''flq'', insn_flq e), (''fsd'', insn_fsd e), (''fsw'', insn_fsw e), (''fsh'', insn_fsh e),
    (''fsq'', insn_fsq e), (''amoadd_b'', insn_amoadd_b e), (''amoadd_h'', insn_amoadd_h e),
    (''amoadd_w'', insn_amoadd_w e), (''amoadd_d'', insn_amoadd_d e), (''amoand_b'', insn_amoand_b e),
    (''amoand_h'', insn_amoand_h e), (''amoand_w'', insn_amoand_w e), (''amoand_d'', insn_amoand_d e),
    (''amoor_b'', insn_amoor_b e), (''amoor_h'', insn_amoor_h e), (''amoor_w'', insn_amoor_w e),
    (''amoor_d'', insn_amoor_d e), (''amoxor_b'', insn_amoxor_b e), (''amoxor_h'', insn_amoxor_h e),
    (''amoxor_w'', insn_amoxor_w e), (''amoxor_d'', insn_amoxor_d e), (''amoswap_b'', insn_amoswap_b e),
    (''amoswap_h'', insn_amoswap_h e), (''amoswap_w'', insn_amoswap_w e), (''amoswap_d'', insn_amoswap_d e),
    (''amomin_b'', insn_amomin_b e), (''amomin_h'', insn_amomin_h e), (''amomin_w'', insn_amomin_w e),
    (''amomin_d'', insn_amomin_d e), (''amomax_b'', insn_amomax_b e), (''amomax_h'', insn_amomax_h e),
    (''amomax_w'', insn_amomax_w e), (''amomax_d'', insn_amomax_d e), (''amominu_b'', insn_amominu_b e),
    (''amominu_h'', insn_amominu_h e), (''amominu_w'', insn_amominu_w e), (''amominu_d'', insn_amominu_d e),
    (''amomaxu_b'', insn_amomaxu_b e), (''amomaxu_h'', insn_amomaxu_h e), (''amomaxu_w'', insn_amomaxu_w e),
    (''amomaxu_d'', insn_amomaxu_d e), (''amocas_b'', insn_amocas_b e), (''amocas_h'', insn_amocas_h e),
    (''amocas_w'', insn_amocas_w e), (''amocas_d'', insn_amocas_d e), (''lr_w'', insn_lr_w e),
    (''lr_d'', insn_lr_d e), (''sc_w'', insn_sc_w e), (''sc_d'', insn_sc_d e), (''ssamoswap_w'', insn_ssamoswap_w e),
    (''ssamoswap_d'', insn_ssamoswap_d e), (''hlv_b'', insn_hlv_b e), (''hlv_bu'', insn_hlv_bu e),
    (''hlv_h'', insn_hlv_h e), (''hlv_hu'', insn_hlv_hu e), (''hlv_w'', insn_hlv_w e), (''hlv_wu'', insn_hlv_wu e),
    (''hlv_d'', insn_hlv_d e), (''hlvx_hu'', insn_hlvx_hu e), (''hlvx_wu'', insn_hlvx_wu e),
    (''hsv_b'', insn_hsv_b e), (''hsv_h'', insn_hsv_h e), (''hsv_w'', insn_hsv_w e), (''hsv_d'', insn_hsv_d e),
    (''c_lw'', insn_c_lw e), (''c_ld'', insn_c_ld e), (''c_lwsp'', insn_c_lwsp e), (''c_ldsp'', insn_c_ldsp e),
    (''c_sw'', insn_c_sw e), (''c_sd'', insn_c_sd e), (''c_swsp'', insn_c_swsp e), (''c_sdsp'', insn_c_sdsp e),
    (''c_lbu'', insn_c_lbu e), (''c_lh'', insn_c_lh e), (''c_lhu'', insn_c_lhu e), (''c_sb'', insn_c_sb e),
    (''c_sh'', insn_c_sh e), (''c_fld'', insn_c_fld e), (''c_flw'', insn_c_flw e), (''c_fldsp'', insn_c_fldsp e),
    (''c_flwsp'', insn_c_flwsp e), (''c_fsd'', insn_c_fsd e), (''c_fsw'', insn_c_fsw e),
    (''c_fsdsp'', insn_c_fsdsp e), (''c_fswsp'', insn_c_fswsp e), (''cm_push'', insn_cm_push e),
    (''cm_pop'', insn_cm_pop e), (''cm_popret'', insn_cm_popret e), (''cm_popretz'', insn_cm_popretz e),
    (''cm_jalt'', insn_cm_jalt e), (''sspush_x1'', insn_sspush_x1 e), (''sspush_x5'', insn_sspush_x5 e),
    (''sspopchk_x1'', insn_sspopchk_x1 e), (''sspopchk_x5'', insn_sspopchk_x5 e), (''ssrdp'', insn_ssrdp e),
    (''c_sspush_x1'', insn_c_sspush_x1 e), (''c_sspopchk_x5'', insn_c_sspopchk_x5 e), (''c_lui'', insn_c_lui e),
    (''cbo_clean'', insn_cbo_clean e), (''cbo_flush'', insn_cbo_flush e), (''cbo_inval'', insn_cbo_inval e),
    (''cbo_zero'', insn_cbo_zero e)]"

definition csr_bodies :: "csr_map \<Rightarrow> (string \<times> (ctx \<Rightarrow> ('d processor, unit) M)) list" where
  "csr_bodies csrs = [
    (''csrrw'', insn_csrrw csrs), (''csrrs'', insn_csrrs csrs), (''csrrc'', insn_csrrc csrs),
    (''csrrwi'', insn_csrrwi csrs), (''csrrsi'', insn_csrrsi csrs), (''csrrci'', insn_csrrci csrs)]"

section \<open>One instruction\<close>

text \<open>What stays the same while a hart runs: its surroundings, its configuration, the map of registers, the list of
  instructions, and whether one of the options is on that need the slow loop (debug output, the commit log, the
  histogram).\<close>

record 'd machine =
  surroundings :: "'d mmu_env"
  configured :: ctx
  csrs_of :: csr_map
  insns_of :: "(string \<times> u64 \<times> u64) list"
  slow_options :: bool

definition illegal_instruction :: "ctx \<Rightarrow> ('d processor, unit) M" where
  "illegal_instruction c = throwM (Trap (trap_illegal_instruction (insn_bits c AND 0xffffffff)))"

text \<open>The variants for the embedded base ISA, which check the register numbers, are not modelled.\<close>

definition body_of :: "'d machine \<Rightarrow> string \<Rightarrow> (ctx \<Rightarrow> ('d processor, unit) M) option" where
  "body_of m name =
    (if name = ''illegal_instruction'' then Some illegal_instruction
     else case map_of (csr_bodies (csrs_of m)) name of Some b \<Rightarrow> Some b
     | None \<Rightarrow> map_option (\<lambda>b c. on_state (b c))
         (map_of (integer_bodies @ compressed_bodies @ crypto_bodies @ privileged_bodies @ memory_bodies (surroundings m)) name))"

text \<open>\<^verbatim>\<open>insn_template.cc\<close>: the body runs with the address of the next instruction in
  \<^verbatim>\<open>npc\<close>, which it may change and which is the result.\<close>

definition run_body :: "u64 \<Rightarrow> (ctx \<Rightarrow> ('d processor, unit) M) \<Rightarrow> ctx \<Rightarrow> ('d processor, u64) M" where
  "run_body opcode body c =
    thenM (set_state (\<lambda>s. s\<lparr>npc := sext_xlen c (insn_pc c + of_nat (insn_length opcode))\<rparr>))
     (bindM (body c) (\<lambda>_ p. (Inr (npc (pstate p)), p)))"

definition execute_insn :: "'d machine \<Rightarrow> u64 \<Rightarrow> u64 \<Rightarrow> ('d processor, u64) M option" where
  "execute_insn m pc' bits =
    (case linear_search [] (insns_of m) bits of None \<Rightarrow> None
     | Some (name, opcode, mask') \<Rightarrow>
        map_option (\<lambda>body. run_body opcode body ((configured m)\<lparr>insn_bits := bits, insn_pc := pc'\<rparr>)) (body_of m name))"

text \<open>Fetch and execute at the program counter. The slow loop always fetches, the fast one goes through the
  instruction cache. The early return of \<^verbatim>\<open>validate_csr\<close> is the value
  \<^verbatim>\<open>PC_SERIALIZE_BEFORE\<close>.\<close>

definition run_one :: "'d machine \<Rightarrow> bool \<Rightarrow> u64 \<Rightarrow> 'd processor \<Rightarrow> ((exn + u64) \<times> 'd processor) option" where
  "run_one m slow pc' p =
    (case on_state (if slow then load_insn (surroundings m) (configured m) pc'
                       else access_icache (surroundings m) (configured m) pc') p of
          (Inl x, p) \<Rightarrow> Some (Inl x, p)
        | (Inr bits, p) \<Rightarrow>
           (case execute_insn m pc' bits of None \<Rightarrow> None
            | Some f \<Rightarrow> (case f p of
                (Inl SerializeBefore, p) \<Rightarrow> Some (Inr PC_SERIALIZE_BEFORE, p)
              | r \<Rightarrow> Some r)))"

section \<open>The loop\<close>

text \<open>How the inner loop ends, with the instructions that it retired: by leaving it, or by an exception raised at the
  given program counter.\<close>

datatype loop_end = Left_loop nat | Raised exn u64 nat

definition slow_path :: "'d machine \<Rightarrow> 'd hart \<Rightarrow> bool" where
  "slow_path m s \<longleftrightarrow> slow_options m \<or> single_step s \<noteq> STEP_NONE \<or> debug_mode s \<or> in_wfi s"

text \<open>\<^verbatim>\<open>advance_pc\<close>: go on with the next instruction, or leave the loop. Any other value below
  the alignment ends in \<^verbatim>\<open>abort\<close>.\<close>

datatype advance = Leave_loop nat | Go_on nat | Aborted

definition advance_pc :: "u64 \<Rightarrow> nat \<Rightarrow> 'd hart \<Rightarrow> advance \<times> 'd hart" where
  "advance_pc npc' instret s =
    (if invalid_pc npc'
     then if npc' = PC_SERIALIZE_BEFORE then (Leave_loop instret, s\<lparr>serialized := True\<rparr>)
          else if npc' = PC_SERIALIZE_AFTER then (Leave_loop (instret + 1), s)
          else (Aborted, s)
     else (Go_on (instret + 1), s\<lparr>pc := npc'\<rparr>))"

definition DCSR_CETRIG :: "'d hart \<Rightarrow> bool" where
  "DCSR_CETRIG s \<longleftrightarrow> dcsr_read s AND 0x80000 \<noteq> 0"

definition enter_critical :: "'d hart \<Rightarrow> 'd hart" where
  "enter_critical s = (if DCSR_CETRIG s then enter_debug_mode 7 0 s else enter_debug_mode 5 0 s)"

text \<open>The preamble of an instruction in the slow loop: the state of single stepping and of waiting.\<close>

datatype preamble = Run | Leave | Wait

definition slow_preamble :: "'d hart \<Rightarrow> preamble \<times> 'd hart" where
  "slow_preamble s =
    (let stepped = (\<not> serialized s \<and> single_step s = STEP_STEPPED);
         s = (if stepped then s\<lparr>single_step := STEP_NONE\<rparr> else s)
     in if stepped \<and> \<not> debug_mode s then (Leave, enter_debug_mode 4 0 s)
        else let s = (if single_step s = STEP_STEPPING then s\<lparr>single_step := STEP_STEPPED\<rparr> else s)
             in if in_wfi s \<and> \<not> debug_mode s then (Wait, s) else (Run, s\<lparr>in_wfi := False\<rparr>))"

text \<open>The two loops, with the number of instructions that may still be retired and the number of those retired as
  arguments. The program counter of the loop is a local variable of the code: entering debug mode at the end of a turn
  of the slow loop moves the one of the state only. In the fast loop the cache entry of the next instruction is followed
  as long as its tag is the new program counter, which is when the lookup would find it.\<close>

fun inner_loop :: "'d machine \<Rightarrow> bool \<Rightarrow> nat \<Rightarrow> nat \<Rightarrow> u64 \<Rightarrow> 'd processor \<Rightarrow> (loop_end \<times> 'd processor) option" where
  "inner_loop m slow 0 instret at p = Some (Left_loop instret, p)"
| "inner_loop m slow (Suc n) instret at p =
    (case (if slow then slow_preamble (pstate p) else (Run, pstate p)) of
       (Leave, s) \<Rightarrow> Some (Left_loop instret, p\<lparr>pstate := s\<rparr>)
     | (Wait, s) \<Rightarrow> Some (Raised WaitForInterrupt at instret, p\<lparr>pstate := s\<rparr>)
     | (Run, s) \<Rightarrow>
        (case run_one m slow at (p\<lparr>pstate := s\<rparr>) of
           None \<Rightarrow> None
         | Some (Inl x, q) \<Rightarrow> Some (Raised x at instret, q)
         | Some (Inr at', q) \<Rightarrow>
            (case advance_pc at' instret (pstate q) of
               (Aborted, s) \<Rightarrow> None
             | (Leave_loop instret', s) \<Rightarrow> Some (Left_loop instret', q\<lparr>pstate := s\<rparr>)
             | (Go_on instret', s) \<Rightarrow>
                inner_loop m slow n instret' at'
                  (q\<lparr>pstate := (if slow \<and> critical_error s \<and> \<not> debug_mode s then enter_critical s else s)\<rparr>))))"

text \<open>The body of the \<^verbatim>\<open>try\<close> block.\<close>

definition landing_pad :: "'d machine \<Rightarrow> ('d hart, unit) M" where
  "landing_pad m s =
    (if elp s = LP_EXPECTED
     then bindM (load_insn (surroundings m) (configured m) (pc s))
            (\<lambda>bits. software_check (bits AND 0xfff = 0x17) 2) s
     else returnM () s)"

definition try_block :: "'d machine \<Rightarrow> nat \<Rightarrow> 'd processor \<Rightarrow> (loop_end \<times> 'd processor) option" where
  "try_block m n p =
    (let pc' = pc (pstate p)
     in case on_state (thenM (\<lambda>s. take_interrupt (configured m) (mip_read s AND mie_val s) s) (landing_pad m)) p of
          (Inl x, p) \<Rightarrow> Some (Raised x pc' 0, p)
        | (Inr _, p) \<Rightarrow> inner_loop m (slow_path m (pstate p)) n 0 pc' p)"

text \<open>The handlers: the new quantum, the number of retired instructions and the state. No trigger matches a trap.\<close>

definition handle :: "'d machine \<Rightarrow> nat \<Rightarrow> loop_end \<Rightarrow> 'd hart \<Rightarrow> (nat \<times> nat \<times> 'd hart) option" where
  "handle m n l s =
    (case l of
       Left_loop instret \<Rightarrow> Some (n, instret, s)
     | Raised (Trap t) epc instret \<Rightarrow>
        (let s = take_trap (configured m) t epc s;
             s = (if critical_error s then enter_critical s else s);
             s = (if single_step s = STEP_STEPPED then enter_debug_mode 4 0 (s\<lparr>single_step := STEP_NONE\<rparr>) else s)
         in Some (instret, instret, s))
     | Raised (TriggerMatched t) epc instret \<Rightarrow>
        map_option (\<lambda>s. (n, instret, s))
          (take_trigger_action (configured m) (trig_action t) (trig_address t) epc (trig_gva t) (s\<lparr>matched_trigger := None\<rparr>))
     | Raised TrapDebugMode epc instret \<Rightarrow> Some (n, instret, enter_debug_mode 1 0 s)
     | Raised WaitForInterrupt epc instret \<Rightarrow> Some (instret + 1, instret + 1, s\<lparr>in_wfi := True\<rparr>)
     | Raised _ epc instret \<Rightarrow> None)"

text \<open>One turn of the outer loop: what is left of the quantum, and the state.\<close>

definition turn :: "'d machine \<Rightarrow> nat \<Rightarrow> 'd processor \<Rightarrow> (nat \<times> 'd processor) option" where
  "turn m n p =
    (case try_block m n (p\<lparr>pstate := (pstate p)\<lparr>prv_changed := False, virt_changed := False\<rparr>\<rparr>) of
       None \<Rightarrow> None
     | Some (l, p) \<Rightarrow>
        (case handle m n l (pstate p) of
           None \<Rightarrow> None
         | Some (n', instret, s) \<Rightarrow> Some (n' - instret, count_retired (of_nat instret) (p\<lparr>pstate := s\<rparr>))))"

datatype 'd step_result = Returned "'d processor" | Stuck | Out_of_fuel

fun step_loop :: "nat \<Rightarrow> 'd machine \<Rightarrow> nat \<Rightarrow> 'd processor \<Rightarrow> 'd step_result" where
  "step_loop fuel m 0 p = Returned p"
| "step_loop 0 m (Suc n) p = Out_of_fuel"
| "step_loop (Suc fuel) m (Suc n) p =
    (case turn m (Suc n) p of None \<Rightarrow> Stuck | Some (n', p') \<Rightarrow> step_loop fuel m n' p')"

datatype halt_request_t = HR_NONE | HR_REGULAR | HR_GROUP

text \<open>\<^verbatim>\<open>processor_t::step\<close>, with the pending requests to halt; the flag for the halt
  after a reset is cleared when it is honoured.\<close>

definition step :: "nat \<Rightarrow> 'd machine \<Rightarrow> nat \<Rightarrow> halt_request_t \<Rightarrow> bool \<Rightarrow> 'd processor \<Rightarrow> 'd step_result \<times> bool" where
  "step fuel m n halt_request halt_on_reset p =
    (let s = pstate p; enter = (\<lambda>cause. p\<lparr>pstate := enter_debug_mode cause 0 s\<rparr>)
     in if \<not> debug_mode s
        then (if halt_request = HR_REGULAR then (step_loop fuel m n (enter 3), halt_on_reset)
              else if halt_request = HR_GROUP then (step_loop fuel m n (enter 6), halt_on_reset)
              else if halt_on_reset then (step_loop fuel m n (enter 5), False)
              else (step_loop fuel m n p, halt_on_reset))
        else (step_loop fuel m n p, halt_on_reset))"

end
