(* ===== verification/DeviceFacts.thy ===== *)
theory DeviceFacts
  imports Devices
begin

text \<open>
  Facts about the devices that hold bytes: sparse memory seen as a flat array, through the interface
  \<open>flat_memory\<close> that any such device meets, and the routing of the bus.
\<close>

section \<open>Memory as a flat array\<close>

definition mem_byte :: "mem_t \<Rightarrow> u64 \<Rightarrow> u8" where
  "mem_byte m a = (case sparse_memory_map m (page_ppn a) of None \<Rightarrow> 0 | Some p \<Rightarrow> p (page_off a))"

definition mem_room :: "mem_t \<Rightarrow> u64 \<Rightarrow> nat \<Rightarrow> bool" where
  "mem_room m a n \<longleftrightarrow> unat a + n \<le> unat (mem_sz m)"

lemma unat_small: "n < 2 ^ 64 \<Longrightarrow> unat (of_nat n :: u64) = n"
  by (simp add: unat_of_nat take_bit_nat_eq_self)

lemma unat_plus_of_nat: "unat a + n < 2 ^ 64 \<Longrightarrow> unat (a + of_nat n) = unat a + n" for a :: u64
  by (simp add: unat_word_ariths unat_small)

lemma mem_ok_room: "n < 2 ^ 64 \<Longrightarrow> mem_ok a n m \<longleftrightarrow> mem_room m a n"
proof -
  assume n: "n < 2 ^ 64"
  have a: "unat a < 2 ^ 64" using unsigned_less [of a] by simp
  have s: "unat (mem_sz m) < 2 ^ 64" using unsigned_less [of "mem_sz m"] by simp
  show ?thesis
  proof (cases "unat a + n < 2 ^ 64")
    case True
    then show ?thesis by (simp add: mem_ok_def mem_room_def word_less_nat_alt word_le_nat_alt unat_plus_of_nat not_less)
  next
    case False
    then have "unat (a + of_nat n) = unat a + n - 2 ^ 64"
      using a n by (simp add: unat_word_ariths unat_small mod_if)
    then have "a + of_nat n < a" using n False by (simp add: word_less_nat_alt)
    then show ?thesis using False s by (simp add: mem_ok_def mem_room_def)
  qed
qed

lemma chunk_block: "k < chunk_len a len \<Longrightarrow> page_ppn (a + of_nat k) = page_ppn a \<and> page_off (a + of_nat k) = page_off a + k"
proof -
  assume k: "k < chunk_len a len"
  then have o: "unat a mod 2 ^ 12 + k < 2 ^ 12" by (auto simp: chunk_len_def page_off_def DEV_PGSIZE_def DEV_PGSHIFT_def less_diff_conv add.commute)
  have b: "drop_bit 12 (a + of_nat k) = drop_bit 12 a" by (rule in_block [OF o]) simp
  have "unat (a + of_nat k) div 2 ^ 12 = unat a div 2 ^ 12" using b by (simp only: unat_drop [symmetric])
  moreover have "unat (a + of_nat k) mod 2 ^ 12 = (unat a + k) mod 2 ^ 12"
  proof -
    have "(2 ^ 64 :: nat) = 2 ^ 12 * 2 ^ 52" by simp
    then show ?thesis
      by (simp only: unat_word_ariths unat_of_nat take_bit_eq_mod word_size len_of_numeral_defs) (simp add: mod_mod_cancel mod_simps)
  qed
  moreover have "(unat a + k) mod 2 ^ 12 = unat a mod 2 ^ 12 + k" using o by (metis mod_add_left_eq mod_less)
  ultimately show ?thesis using b by (simp add: page_ppn_def page_off_def DEV_PGSIZE_def DEV_PGSHIFT_def)
qed

lemma page_bytes: "page_ppn a = page_ppn b \<Longrightarrow> page_off a = page_off b \<Longrightarrow> a = b"
proof -
  assume "page_ppn a = page_ppn b" "page_off a = page_off b"
  then have "unat a div 2 ^ 12 = unat b div 2 ^ 12" "unat a mod 2 ^ 12 = unat b mod 2 ^ 12"
    by (simp_all only: page_ppn_def page_off_def DEV_PGSIZE_def DEV_PGSHIFT_def unat_drop [symmetric])
  then have "unat a = unat b" by (metis div_mult_mod_eq)
  then show ?thesis by (simp only: word_unat_eq_iff)
qed

lemma mem_page_frame [simp]: "mem_byte (snd (mem_page q m)) = mem_byte m" "mem_sz (snd (mem_page q m)) = mem_sz m"
  by (auto simp: mem_page_def mem_byte_def fun_eq_iff split: option.split)

lemma mem_page_read: "fst (mem_page (page_ppn a) m) (page_off a) = mem_byte m a"
  by (simp add: mem_page_def mem_byte_def split: option.split)

lemma split_range: "n \<le> len \<Longrightarrow> map f [0..<n] @ map (\<lambda>k. f (n + k)) [0..<len - n] = map f [0..<len]"
  by (rule nth_equalityI) (auto simp: nth_append)

lemma read_loop:
  "fst (mem_read_loop a len m) = map (\<lambda>k. mem_byte m (a + of_nat k)) [0..<len] \<and>
   mem_byte (snd (mem_read_loop a len m)) = mem_byte m \<and> mem_sz (snd (mem_read_loop a len m)) = mem_sz m"
proof (induction a len m rule: mem_read_loop.induct)
  case (1 a len m)
  show ?case
  proof (cases "len = 0")
    case False
    let ?n = "chunk_len a len" and ?m = "snd (mem_page (page_ppn a) m)"
    let ?r = "mem_read_loop (a + of_nat ?n) (len - ?n) ?m"
    have ih: "fst ?r = map (\<lambda>k. mem_byte m (a + of_nat ?n + of_nat k)) [0..<len - ?n]"
      "mem_byte (snd ?r) = mem_byte m" "mem_sz (snd ?r) = mem_sz m"
      using "1.IH" [OF False refl refl prod.collapse] by simp_all
    have u: "mem_read_loop a len m =
        (map (\<lambda>k. fst (mem_page (page_ppn a) m) (page_off a + k)) [0..<?n] @ fst ?r, snd ?r)"
      by (subst mem_read_loop.simps) (simp add: False Let_def split_beta)
    have "fst (mem_page (page_ppn a) m) (page_off a + k) = mem_byte m (a + of_nat k)" if "k < ?n" for k
      using chunk_block [OF that] mem_page_read [of "a + of_nat k" m] by simp
    then have "map (\<lambda>k. fst (mem_page (page_ppn a) m) (page_off a + k)) [0..<?n] = map (\<lambda>k. mem_byte m (a + of_nat k)) [0..<?n]"
      by simp
    moreover have "?n \<le> len" by (simp add: chunk_len_def)
    ultimately show ?thesis
      using ih split_range [of ?n len "\<lambda>k. mem_byte m (a + of_nat k)"] by (simp only: u fst_conv snd_conv) (simp add: add.assoc)
  qed (simp add: mem_read_loop.simps)
qed

lemma chunk_iff:
  assumes "n \<le> DEV_PGSIZE - page_off a"
  shows "page_ppn x = page_ppn a \<and> page_off a \<le> page_off x \<and> page_off x < page_off a + n \<longleftrightarrow> unat (x - a) < n"
    "unat (x - a) < n \<Longrightarrow> page_off x = page_off a + unat (x - a)"
proof -
  have c: "chunk_len a n = n" using assms by (simp add: chunk_len_def)
  have fwd: "page_ppn x = page_ppn a \<and> page_off x = page_off a + unat (x - a)" if "unat (x - a) < n"
    using chunk_block [of "unat (x - a)" a n] that c by simp
  have bwd: "unat (x - a) < n" if h: "page_ppn x = page_ppn a" "page_off a \<le> page_off x" "page_off x < page_off a + n"
  proof -
    let ?k = "page_off x - page_off a"
    have k: "?k < n" using h by arith
    have "x = a + of_nat ?k"
      by (rule page_bytes) (use chunk_block [of ?k a n] c k h in simp_all)
    moreover have "n \<le> 4096" using assms by (simp add: DEV_PGSIZE_def DEV_PGSHIFT_def)
    moreover have "x - a = of_nat ?k" using \<open>x = a + of_nat ?k\<close> by (metis add_diff_cancel_left')
    ultimately have "unat (x - a) = ?k" using k unat_small [of ?k] by (simp only:) simp
    then show ?thesis using k by simp
  qed
  show "page_ppn x = page_ppn a \<and> page_off a \<le> page_off x \<and> page_off x < page_off a + n \<longleftrightarrow> unat (x - a) < n"
    using fwd bwd by auto
  show "unat (x - a) < n \<Longrightarrow> page_off x = page_off a + unat (x - a)" using fwd by simp
qed

definition overlay :: "u64 \<Rightarrow> u8 list \<Rightarrow> (u64 \<Rightarrow> u8) \<Rightarrow> u64 \<Rightarrow> u8" where
  "overlay a bs f x = (if unat (x - a) < length bs then bs ! unat (x - a) else f x)"

lemma overlay_append:
  assumes "length bs + length cs < 2 ^ 64"
  shows "overlay (a + of_nat (length bs)) cs (overlay a bs f) = overlay a (bs @ cs) f"
proof
  fix x
  let ?d = "unat (x - a)" and ?n = "length bs"
  have n: "unat (of_nat ?n :: u64) = ?n" using assms by (intro unat_small) simp
  have d: "?d < 2 ^ 64" using unsigned_less [of "x - a"] by simp
  have e: "x - (a + of_nat ?n) = (x - a) - of_nat ?n" by simp
  have "unat ((x - a) - of_nat ?n) = ?d - ?n" if "?n \<le> ?d" using that n by (intro trans [OF unat_sub]) (simp_all add: word_le_nat_alt)
  moreover have "unat ((x - a) - of_nat ?n) = 2 ^ 64 + ?d - ?n" if "?d < ?n"
    using that n d assms by (simp add: unat_sub_if_size word_size)
  ultimately show "overlay (a + of_nat ?n) cs (overlay a bs f) x = overlay a (bs @ cs) f x"
    using assms d unfolding overlay_def e by (cases "?d < ?n") (auto simp: nth_append)
qed

lemma write_loop:
  "length bs < 2 ^ 64 \<Longrightarrow> mem_byte (mem_write_loop a bs m) = overlay a bs (mem_byte m) \<and> mem_sz (mem_write_loop a bs m) = mem_sz m"
proof (induction a bs m rule: mem_write_loop.induct)
  case (1 a bs m)
  show ?case
  proof (cases "bs = []")
    case False
    let ?n = "chunk_len a (length bs)" and ?q = "mem_page (page_ppn a) m"
    let ?m = "(snd ?q)\<lparr>sparse_memory_map := (sparse_memory_map (snd ?q))(page_ppn a \<mapsto> page_write (page_off a) (take ?n bs) (fst ?q))\<rparr>"
    have n: "?n \<le> length bs" "?n \<le> DEV_PGSIZE - page_off a" by (simp_all add: chunk_len_def)
    have ih: "mem_byte (mem_write_loop (a + of_nat ?n) (drop ?n bs) ?m) = overlay (a + of_nat ?n) (drop ?n bs) (mem_byte ?m)"
      "mem_sz (mem_write_loop (a + of_nat ?n) (drop ?n bs) ?m) = mem_sz ?m"
      using "1.IH" [OF False refl prod.collapse refl] "1.prems" by simp_all
    have b: "mem_byte ?m = overlay a (take ?n bs) (mem_byte m)"
    proof
      fix x
      have off: "page_ppn x = page_ppn a \<Longrightarrow> fst ?q (page_off x) = mem_byte m x" using mem_page_read [of x m] by simp
      have "sparse_memory_map (snd ?q) (page_ppn x) = sparse_memory_map m (page_ppn x)" if "page_ppn x \<noteq> page_ppn a"
        using that by (simp add: mem_page_def split: option.split)
      then show "mem_byte ?m x = overlay a (take ?n bs) (mem_byte m) x"
        using chunk_iff [OF n(2), of x] n(1) off
        by (cases "page_ppn x = page_ppn a") (auto simp: overlay_def page_write_def mem_byte_def)
    qed
    have "length (take ?n bs) + length (drop ?n bs) < 2 ^ 64" using "1.prems" by simp
    from overlay_append [OF this, of a] have "overlay (a + of_nat ?n) (drop ?n bs) (overlay a (take ?n bs) (mem_byte m)) = overlay a bs (mem_byte m)"
      using n(1) by simp
    moreover have "mem_write_loop a bs m = mem_write_loop (a + of_nat ?n) (drop ?n bs) ?m"
      by (subst mem_write_loop.simps) (simp add: False Let_def split_beta)
    ultimately show ?thesis using ih b by simp
  qed (simp add: mem_write_loop.simps overlay_def fun_eq_iff)
qed

section \<open>The interface of a memory\<close>

text \<open>What the rest of the machine relies on of a device that holds bytes: transfers inside its
  room succeed, read what the cells hold and write exactly the cells they name; transfers outside
  are refused and change nothing. A length is a \<^verbatim>\<open>size_t\<close>.\<close>

locale flat_memory =
  fixes load :: "u64 \<Rightarrow> nat \<Rightarrow> 'm \<Rightarrow> u8 list outcome \<times> 'm"
    and store :: "u64 \<Rightarrow> u8 list \<Rightarrow> 'm \<Rightarrow> unit outcome \<times> 'm"
    and cell :: "'m \<Rightarrow> u64 \<Rightarrow> u8"
    and room :: "'m \<Rightarrow> u64 \<Rightarrow> nat \<Rightarrow> bool"
  assumes load_in: "n < 2 ^ 64 \<Longrightarrow> room m a n \<Longrightarrow> fst (load a n m) = Done (map (\<lambda>k. cell m (a + of_nat k)) [0..<n])"
    and load_out: "n < 2 ^ 64 \<Longrightarrow> \<not> room m a n \<Longrightarrow> load a n m = (Refused, m)"
    and load_frame: "cell (snd (load a n m)) = cell m" "room (snd (load a n m)) = room m"
    and store_in: "length bs < 2 ^ 64 \<Longrightarrow> room m a (length bs) \<Longrightarrow>
      fst (store a bs m) = Done () \<and> cell (snd (store a bs m)) = overlay a bs (cell m) \<and> room (snd (store a bs m)) = room m"
    and store_out: "length bs < 2 ^ 64 \<Longrightarrow> \<not> room m a (length bs) \<Longrightarrow> store a bs m = (Refused, m)"
    and room_parts: "room m a (k + n) \<Longrightarrow> room m a k \<and> room m (a + of_nat k) n"
begin

lemma store_load:
  assumes "length bs < 2 ^ 64" "room m a (length bs)"
  shows "fst (load a (length bs) (snd (store a bs m))) = Done bs"
proof -
  have "map (\<lambda>k. overlay a bs (cell m) (a + of_nat k)) [0..<length bs] = bs"
    by (rule nth_equalityI) (use assms(1) in \<open>auto simp: overlay_def unat_small\<close>)
  then show ?thesis using store_in [OF assms] load_in [OF assms(1), of "snd (store a bs m)" a] assms(2) by simp
qed

lemma store_load_other:
  assumes "length bs < 2 ^ 64" "n < 2 ^ 64" "room m a (length bs)"
    "\<And>k. k < n \<Longrightarrow> length bs \<le> unat (b + of_nat k - a)"
  shows "fst (load b n (snd (store a bs m))) = fst (load b n m)"
proof (cases "room m b n")
  case True
  have "map (\<lambda>k. overlay a bs (cell m) (b + of_nat k)) [0..<n] = map (\<lambda>k. cell m (b + of_nat k)) [0..<n]"
    using assms(4) by (auto simp: overlay_def not_less [symmetric])
  then show ?thesis using True store_in [OF assms(1,3)] load_in [OF assms(2)] by simp
next
  case False
  then show ?thesis using store_in [OF assms(1,3)] load_out [OF assms(2)] by simp
qed

text \<open>A transfer may be split anywhere.\<close>

lemma store_split:
  assumes "length bs + length cs < 2 ^ 64" "room m a (length bs + length cs)"
  shows "cell (snd (store (a + of_nat (length bs)) cs (snd (store a bs m)))) = cell (snd (store a (bs @ cs) m))"
proof -
  have l: "length bs < 2 ^ 64" "length cs < 2 ^ 64" "length (bs @ cs) < 2 ^ 64" using assms(1) by simp_all
  have r: "room m a (length bs)" "room m (a + of_nat (length bs)) (length cs)" "room m a (length (bs @ cs))"
    using room_parts [OF assms(2)] assms(2) by simp_all
  show ?thesis
    using store_in [OF l(1) r(1)] store_in [OF l(2), of "snd (store a bs m)"] r(2) store_in [OF l(3) r(3)] overlay_append [OF assms(1)]
    by simp
qed

lemma load_split:
  assumes "k + n < 2 ^ 64" "room m a (k + n)"
  shows "\<exists>xs ys. fst (load a k m) = Done xs \<and> fst (load (a + of_nat k) n m) = Done ys \<and> fst (load a (k + n) m) = Done (xs @ ys)"
proof -
  have "k < 2 ^ 64" "n < 2 ^ 64" using assms(1) by simp_all
  then have "fst (load a k m) = Done (map (\<lambda>i. cell m (a + of_nat i)) [0..<k])"
    "fst (load (a + of_nat k) n m) = Done (map (\<lambda>i. cell m (a + of_nat k + of_nat i)) [0..<n])"
    "fst (load a (k + n) m) = Done (map (\<lambda>i. cell m (a + of_nat i)) [0..<k + n])"
    using load_in room_parts [OF assms(2)] assms by auto
  then show ?thesis using split_range [of k "k + n" "\<lambda>i. cell m (a + of_nat i)"] by (auto simp: add.assoc)
qed

end

lemma mem_load_byte: "mem_byte (snd (mem_load a n m)) = mem_byte m" "mem_sz (snd (mem_load a n m)) = mem_sz m"
  using read_loop [of a n m] by (auto simp: mem_load_def split_beta)

interpretation mem: flat_memory mem_load mem_store mem_byte mem_room
proof unfold_locales
  fix n :: nat and a m assume n: "n < 2 ^ 64"
  show "mem_room m a n \<Longrightarrow> fst (mem_load a n m) = Done (map (\<lambda>k. mem_byte m (a + of_nat k)) [0..<n])"
    using read_loop [of a n m] by (simp add: mem_load_def mem_ok_room [OF n] split_beta)
  show "\<not> mem_room m a n \<Longrightarrow> mem_load a n m = (Refused, m)"
    by (simp add: mem_load_def mem_ok_room [OF n])
next
  fix bs :: "u8 list" and a m assume n: "length bs < 2 ^ 64"
  show "\<not> mem_room m a (length bs) \<Longrightarrow> mem_store a bs m = (Refused, m)"
    by (simp add: mem_store_def mem_ok_room [OF n])
  show "mem_room m a (length bs) \<Longrightarrow> fst (mem_store a bs m) = Done () \<and>
      mem_byte (snd (mem_store a bs m)) = overlay a bs (mem_byte m) \<and> mem_room (snd (mem_store a bs m)) = mem_room m"
    using write_loop [OF n, of a m] by (simp add: mem_store_def mem_ok_room [OF n] mem_room_def fun_eq_iff)
next
  fix k n a m assume r: "mem_room m a (k + n)"
  have "unat (mem_sz m) < 2 ^ 64" using unsigned_less [of "mem_sz m"] by simp
  then have "unat (a + of_nat k) = unat a + k" using r by (intro unat_plus_of_nat) (simp add: mem_room_def)
  then show "mem_room m a k \<and> mem_room m (a + of_nat k) n" using r by (simp add: mem_room_def)
qed (simp_all add: mem_load_byte mem_room_def fun_eq_iff)

text \<open>C13: Memory is a flat array of bytes however it is spread over pages that are allocated on first use: what a transfer that fits stores at an address is what a load from there returns, a load that touches none of the stored bytes returns what it did before, a store or a load that does not fit is refused and changes nothing, and a store may be cut in two anywhere.\<close>

theorem memory_is_flat:
  assumes "length bs < 2 ^ 64" "n < 2 ^ 64"
  shows "(mem_room m a (length bs) \<longrightarrow> fst (mem_load a (length bs) (snd (mem_store a bs m))) = Done bs) \<and>
    (mem_room m a (length bs) \<longrightarrow> (\<forall>k < n. length bs \<le> unat (b + of_nat k - a)) \<longrightarrow>
      fst (mem_load b n (snd (mem_store a bs m))) = fst (mem_load b n m)) \<and>
    (\<not> mem_room m a (length bs) \<longrightarrow> mem_store a bs m = (Refused, m)) \<and>
    (\<not> mem_room m b n \<longrightarrow> mem_load b n m = (Refused, m)) \<and>
    (mem_room m a (length bs) \<longrightarrow> k \<le> length bs \<longrightarrow>
      mem_byte (snd (mem_store (a + of_nat k) (drop k bs) (snd (mem_store a (take k bs) m)))) = mem_byte (snd (mem_store a bs m)))"
proof (intro conjI impI)
  assume "mem_room m a (length bs)"
  then show "fst (mem_load a (length bs) (snd (mem_store a bs m))) = Done bs" by (rule mem.store_load [OF assms(1)])
next
  assume "mem_room m a (length bs)" "\<forall>k < n. length bs \<le> unat (b + of_nat k - a)"
  then show "fst (mem_load b n (snd (mem_store a bs m))) = fst (mem_load b n m)"
    by (intro mem.store_load_other [OF assms]) simp_all
next
  assume "\<not> mem_room m a (length bs)"
  then show "mem_store a bs m = (Refused, m)" by (rule mem.store_out [OF assms(1)])
next
  assume "\<not> mem_room m b n"
  then show "mem_load b n m = (Refused, m)" by (rule mem.load_out [OF assms(2)])
next
  assume "mem_room m a (length bs)" "k \<le> length bs"
  then show "mem_byte (snd (mem_store (a + of_nat k) (drop k bs) (snd (mem_store a (take k bs) m)))) = mem_byte (snd (mem_store a bs m))"
    using mem.store_split [of "take k bs" "drop k bs" m a] assms(1) by (simp add: min_absorb2)
qed

theorem memory_is_flat_witness:
  "fst (mem_load 0xFFE 4 (snd (mem_store 0xFFE [1, 2, 3, 4] \<lparr>sparse_memory_map = (\<lambda>_. None), mem_sz = 0x2000\<rparr>))) = Done [1, 2, 3, 4]"
proof -
  let ?m = "\<lparr>sparse_memory_map = (\<lambda>_. None), mem_sz = 0x2000\<rparr>"
  have l: "length [1, 2, 3, 4 :: u8] = 4" by simp
  have "length [1, 2, 3, 4 :: u8] < 2 ^ 64" "(0 :: nat) < 2 ^ 64" by simp_all
  from memory_is_flat [OF this, of ?m "0xFFE"] have "mem_room ?m 0xFFE 4 \<longrightarrow>
      fst (mem_load 0xFFE 4 (snd (mem_store 0xFFE [1, 2, 3, 4] ?m))) = Done [1, 2, 3, 4]" unfolding l by blast
  then show ?thesis by (simp add: mem_room_def)
qed

section \<open>The bus\<close>

definition bus_sorted :: "'v bus \<Rightarrow> bool" where
  "bus_sorted b \<longleftrightarrow> sorted_wrt (<) (map fst b)"

lemma add_device_keys: "set (map fst (add_device a d b)) = insert a (set (map fst b))"
  by (induction a d b rule: add_device.induct) auto

lemma add_device_sorted: "bus_sorted b \<Longrightarrow> bus_sorted (add_device a d b)"
proof (induction a d b rule: add_device.induct)
  case (2 a d k e b)
  then show ?case
    using add_device_keys [of a d b] by (auto simp: bus_sorted_def)
qed (simp add: bus_sorted_def)

lemma add_device_map: "bus_sorted b \<Longrightarrow> map_of (add_device a d b) = (map_of b)(a \<mapsto> d)"
  by (induction a d b rule: add_device.induct) (auto simp: bus_sorted_def fun_eq_iff)

lemma upper_bound_spec:
  assumes "bus_sorted b"
  shows "upper_bound_pred x b = Some (k, d) \<longleftrightarrow> map_of b k = Some d \<and> k \<le> x \<and> (\<forall>k' \<in> dom (map_of b). k' \<le> x \<longrightarrow> k' \<le> k)"
    "upper_bound_pred x b = None \<longleftrightarrow> (\<forall>k' \<in> dom (map_of b). x < k')"
proof -
  have "(upper_bound_pred x b = None \<longleftrightarrow> (\<forall>k' \<in> set (map fst b). x < k')) \<and>
    (upper_bound_pred x b = Some (k, d) \<longleftrightarrow> (k, d) \<in> set b \<and> k \<le> x \<and> (\<forall>k' \<in> set (map fst b). k' \<le> x \<longrightarrow> k' \<le> k))"
    using assms
  proof (induction x b rule: upper_bound_pred.induct)
    case (2 x l e b)
    have ih: "(upper_bound_pred x b = None \<longleftrightarrow> (\<forall>k' \<in> set (map fst b). x < k'))"
      "(upper_bound_pred x b = Some (k, d) \<longleftrightarrow> (k, d) \<in> set b \<and> k \<le> x \<and> (\<forall>k' \<in> set (map fst b). k' \<le> x \<longrightarrow> k' \<le> k))" if "\<not> x < l"
      using "2.IH" [OF that] "2.prems" by (simp_all add: bus_sorted_def)
    have gt: "\<forall>k' \<in> set (map fst b). l < k'" using "2.prems" by (simp add: bus_sorted_def)
    show ?case
    proof (cases "x < l")
      case True
      then show ?thesis using gt by force
    next
      case False
      show ?thesis
      proof (cases "upper_bound_pred x b")
        case None
        then have "\<forall>k' \<in> set (map fst b). x < k'" using ih(1) [OF False] by simp
        then show ?thesis using None False gt by (auto simp: not_less)
      next
        case (Some y)
        then have "\<exists>k' \<in> set (map fst b). k' \<le> x" using ih(1) [OF False] by (auto simp: not_less)
        then show ?thesis using Some False gt ih(2) [OF False] by (auto simp: not_less) (metis fst_conv leD)
      qed
    qed
  qed simp
  moreover have "map_of b k = Some d \<longleftrightarrow> (k, d) \<in> set b"
    using assms by (intro map_of_eq_Some_iff) (simp add: bus_sorted_def strict_sorted_iff)
  moreover have "dom (map_of b) = set (map fst b)" by (simp add: dom_map_of_conv_image_fst)
  ultimately show "upper_bound_pred x b = Some (k, d) \<longleftrightarrow> map_of b k = Some d \<and> k \<le> x \<and> (\<forall>k' \<in> dom (map_of b). k' \<le> x \<longrightarrow> k' \<le> k)"
    "upper_bound_pred x b = None \<longleftrightarrow> (\<forall>k' \<in> dom (map_of b). x < k')" by simp_all
qed

lemma registered:
  "bus_sorted b \<Longrightarrow> bus_sorted (fold (\<lambda>(k, d). add_device k d) ds b) \<and>
    map_of (fold (\<lambda>(k, d). add_device k d) ds b) = map_of b ++ map_of (rev ds)"
proof (induction ds arbitrary: b)
  case (Cons x ds)
  obtain k d where x: "x = (k, d)" by (cases x)
  show ?case using Cons.IH [OF add_device_sorted [OF Cons.prems], of k d] add_device_map [OF Cons.prems, of k d]
    by (simp add: x map_add_def fun_eq_iff split: option.split)
qed simp

text \<open>C31: Whatever the order in which devices are registered, the bus sends a transfer to the device with the greatest base address at or below its address (the device last registered there), with the offset from that base; it refuses the transfer exactly when every base lies above the address.\<close>

theorem bus_routes_closest:
  assumes "b = fold (\<lambda>(k, d). add_device k d) ds []"
  shows "(find_device x b = Some (k, d) \<longleftrightarrow>
      map_of (rev ds) k = Some d \<and> k \<le> x \<and> (\<forall>k' \<in> set (map fst ds). k' \<le> x \<longrightarrow> k' \<le> k)) \<and>
    (find_device x b = None \<longleftrightarrow> (\<forall>k' \<in> set (map fst ds). x < k')) \<and>
    (find_device x b = Some (k, d) \<longrightarrow> bus_load load b x n w = load d (x - k) n w \<and> bus_store store b x bs w = store d (x - k) bs w) \<and>
    (find_device x b = None \<longrightarrow> bus_load load b x n w = (Refused, w) \<and> bus_store store b x bs w = (Refused, w))"
proof -
  have "bus_sorted []" by (simp add: bus_sorted_def)
  from registered [OF this, of ds] have s: "bus_sorted b" and m: "map_of b = map_of (rev ds)" using assms by simp_all
  have "dom (map_of b) = set (map fst ds)" by (simp add: m dom_map_of_conv_image_fst)
  then have "find_device x b = Some (k, d) \<longleftrightarrow>
      map_of (rev ds) k = Some d \<and> k \<le> x \<and> (\<forall>k' \<in> set (map fst ds). k' \<le> x \<longrightarrow> k' \<le> k)"
    "find_device x b = None \<longleftrightarrow> (\<forall>k' \<in> set (map fst ds). x < k')"
    using upper_bound_spec [OF s] m by (simp_all add: find_device_def)
  moreover have "find_device x b = Some (k, d) \<longrightarrow> bus_load load b x n w = load d (x - k) n w \<and> bus_store store b x bs w = store d (x - k) bs w"
    "find_device x b = None \<longrightarrow> bus_load load b x n w = (Refused, w) \<and> bus_store store b x bs w = (Refused, w)"
    by (simp_all add: find_device_def bus_load_def bus_store_def)
  ultimately show ?thesis by blast
qed

theorem bus_routes_closest_witness:
  "find_device 0x02004000 (fold (\<lambda>(k, d). add_device k d) [(0x80000000, ''mem''), (0x02000000, ''clint''), (0x1000, ''rom'')] [])
    = Some (0x02000000, ''clint'')"
proof -
  have "map_of (rev [(0x80000000, ''mem''), (0x02000000, ''clint''), (0x1000, ''rom'')]) (0x02000000 :: u64) = Some ''clint''" by simp
  then show ?thesis
    by (intro iffD2 [OF conjunct1 [OF bus_routes_closest [OF refl]]]) simp
qed

end
