(* ===== verification/PlicFacts.thy ===== *)
theory PlicFacts
  imports Plic
begin

text \<open>
  Facts about the platform-level interrupt controller: requests ordered by urgency, the selection as
  the maximum of the urgent requests, the invariant of the tables and of the interrupt lines under
  every transfer and every movement of a line, and the order in which claims serve requests.
\<close>

section \<open>The order of requests\<close>

text \<open>A request for service: a higher priority is more urgent, and of two of the same priority the
  one with the smaller identifier.\<close>

datatype request = Request (req_prio: u8) (req_id: nat)

instantiation request :: linorder
begin

definition less_eq_request :: "request \<Rightarrow> request \<Rightarrow> bool" where
  "r \<le> s \<longleftrightarrow> req_prio r < req_prio s \<or> req_prio r = req_prio s \<and> req_id s \<le> req_id r"

definition less_request :: "request \<Rightarrow> request \<Rightarrow> bool" where
  "r < s \<longleftrightarrow> req_prio r < req_prio s \<or> req_prio r = req_prio s \<and> req_id s < req_id r"

instance
proof
  fix r s t :: request
  show "r < s \<longleftrightarrow> r \<le> s \<and> \<not> s \<le> r" by (auto simp: less_eq_request_def less_request_def)
  show "r \<le> r" by (simp add: less_eq_request_def)
  show "r \<le> s \<Longrightarrow> s \<le> t \<Longrightarrow> r \<le> t" by (auto simp: less_eq_request_def)
  show "r \<le> s \<Longrightarrow> s \<le> r \<Longrightarrow> r = s" by (cases r; cases s) (auto simp: less_eq_request_def)
  show "r \<le> s \<or> s \<le> r" by (auto simp: less_eq_request_def)
qed

end

section \<open>Bits of the tables\<close>

lemma id_bit_and: "w AND id_bit j = 0 \<longleftrightarrow> \<not> bit w j" "id_bit j AND w = 0 \<longleftrightarrow> \<not> bit w j"
  using bit_iff_and_push_bit_not_eq_0 [of w j] by (simp_all add: id_bit_def and.commute)

lemma bit_id_bit [simp]: "bit (id_bit j) n \<longleftrightarrow> n = j \<and> j < 32"
  by (auto simp: id_bit_def bit_exp_iff)

definition pending_id :: "plic_context_t \<Rightarrow> nat \<Rightarrow> bool" where
  "pending_id c i \<longleftrightarrow> bit (pending c (i div 32)) (i mod 32)"
definition claimed_id :: "plic_context_t \<Rightarrow> nat \<Rightarrow> bool" where
  "claimed_id c i \<longleftrightarrow> bit (claimed c (i div 32)) (i mod 32)"
definition enabled_id :: "plic_context_t \<Rightarrow> nat \<Rightarrow> bool" where
  "enabled_id c i \<longleftrightarrow> bit (enable c (i div 32)) (i mod 32)"

text \<open>The requests of a context: the pending sources that are not being served.\<close>

definition requested :: "plic_t \<Rightarrow> plic_context_t \<Rightarrow> nat \<Rightarrow> bool" where
  "requested p c i \<longleftrightarrow> i < num_ids p \<and> pending_id c i \<and> \<not> claimed_id c i"

definition requests :: "plic_t \<Rightarrow> plic_context_t \<Rightarrow> request set" where
  "requests p c = (\<lambda>i. Request (pending_priority c i) i) ` {i. requested p c i}"

definition urgent :: "plic_t \<Rightarrow> plic_context_t \<Rightarrow> request set" where
  "urgent p c = {r \<in> requests p c. priority_threshold c < req_prio r}"

lemma finite_requests [simp]: "finite (requests p c)" "finite (urgent p c)"
proof -
  have "{i. requested p c i} \<subseteq> {..<num_ids p}" by (auto simp: requested_def)
  then have "finite {i. requested p c i}" by (rule finite_subset) simp
  then show "finite (requests p c)" by (simp add: requests_def)
  then show "finite (urgent p c)" by (simp add: urgent_def)
qed

section \<open>The selection\<close>

definition pick :: "plic_context_t \<Rightarrow> nat \<Rightarrow> nat \<times> u8 \<Rightarrow> nat \<times> u8" where
  "pick c i best = (if fst best = 0 \<or> snd best < pending_priority c i then (i, pending_priority c i) else best)"

lemma fold_blocks: "fold (\<lambda>i. fold (f i) [0..<m]) [0..<n] = fold (\<lambda>k. f (k div m) (k mod m)) [0..<n * m]" if "0 < m"
proof (induction n)
  case (Suc n)
  have "[n * m..<n * m + m] = map (\<lambda>j. j + n * m) [0..<m]" by (simp only: map_add_upt add.commute)
  then have "[0..<Suc n * m] = [0..<n * m] @ map (\<lambda>j. j + n * m) [0..<m]"
    using upt_add_eq_append [of 0 "n * m" m] by (simp only: mult_Suc add.commute)
  moreover have "fold (\<lambda>k. f (k div m) (k mod m)) (map (\<lambda>j. j + n * m) [0..<m]) = fold (f n) [0..<m]"
    unfolding fold_map comp_def using that by (intro ext fold_cong) simp_all
  ultimately show ?case using Suc by (simp add: fun_eq_iff)
qed simp

lemma best_word_steps: "best_word p c i = fold (best_step p c i) [0..<32]"
proof -
  have "fold (best_step p c i) js b = b" if "pending c i = 0" for js b
    using that by (induction js) (simp_all add: best_step_def)
  then show ?thesis by (simp add: best_word_def fun_eq_iff)
qed

lemma best_step_pick: "best_step p c (k div 32) (k mod 32) b = (if requested p c k then pick c k b else b)"
  unfolding best_step_def Let_def requested_def pending_id_def claimed_id_def pick_def div_mult_mod_eq id_bit_and
  by (cases "k < num_ids p") (simp_all add: not_less)

lemma fold_filter_step: "fold (\<lambda>k b. if P k then g k b else b) xs b = fold g (filter P xs) b"
  by (induction xs arbitrary: b) simp_all

lemma scan_filter: "fold (best_word p c) [0..<n] b = fold (pick c) (filter (requested p c) [0..<n * 32]) b"
proof -
  have "best_word p c = (\<lambda>i. fold (best_step p c i) [0..<32])" by (simp add: fun_eq_iff best_word_steps)
  then have "fold (best_word p c) [0..<n] = fold (\<lambda>k. best_step p c (k div 32) (k mod 32)) [0..<n * 32]"
    using fold_blocks [of 32 "best_step p c" n] by simp
  moreover have "(\<lambda>k. best_step p c (k div 32) (k mod 32)) = (\<lambda>k b. if requested p c k then pick c k b else b)"
    by (simp add: fun_eq_iff best_step_pick)
  ultimately show ?thesis by (simp add: fold_filter_step)
qed

lemma pick_max:
  assumes "sorted_wrt (<) xs" "\<forall>i \<in> set xs. 0 < i" "xs \<noteq> []"
  shows "\<exists>i. i \<in> set xs \<and> fold (pick c) xs (0, 0) = (i, pending_priority c i) \<and>
    Max ((\<lambda>i. Request (pending_priority c i) i) ` set xs) = Request (pending_priority c i) i"
  using assms
proof (induction xs rule: rev_induct)
  case (snoc x xs)
  let ?R = "\<lambda>i. Request (pending_priority c i) i"
  show ?case
  proof (cases "xs = []")
    case True
    then show ?thesis by (simp add: pick_def)
  next
    case False
    have xs: "sorted_wrt (<) xs" "\<forall>i \<in> set xs. 0 < i" "\<forall>i \<in> set xs. i < x" using snoc.prems by (auto simp: sorted_wrt_append)
    obtain i where i: "i \<in> set xs" "fold (pick c) xs (0, 0) = (i, pending_priority c i)" "Max (?R ` set xs) = ?R i"
      using snoc.IH [OF xs(1,2) False] by blast
    have "0 < i" "i < x" using i(1) xs by auto
    have m: "Max (?R ` set (xs @ [x])) = max (?R x) (?R i)" using i(3) False by simp
    have f: "fold (pick c) (xs @ [x]) (0, 0) = pick c x (i, pending_priority c i)" using i(2) by simp
    have p: "pick c x (i, pending_priority c i) =
        (if pending_priority c i < pending_priority c x then (x, pending_priority c x) else (i, pending_priority c i))"
      using \<open>0 < i\<close> by (simp add: pick_def)
    have mx: "max (?R x) (?R i) = (if pending_priority c i < pending_priority c x then ?R x else ?R i)"
      using \<open>i < x\<close> by (auto simp: max_def less_eq_request_def)
    show ?thesis unfolding m f p mx using i(1) by simp
  qed
qed simp

text \<open>Identifier zero is never requested.\<close>

definition no_zero :: "plic_context_t \<Rightarrow> bool" where
  "no_zero c \<longleftrightarrow> \<not> pending_id c 0"

definition plic_sized :: "plic_t \<Rightarrow> bool" where
  "plic_sized p \<longleftrightarrow> num_ids_word p = (num_ids p + 31) div 32"

lemma selection:
  assumes "plic_sized p" "no_zero c"
  shows "context_best_pending p c = (if urgent p c = {} then 0 else req_id (Max (urgent p c)))"
    "context_best_pending p c \<noteq> 0 \<longleftrightarrow> urgent p c \<noteq> {}"
proof -
  let ?xs = "filter (requested p c) [0..<num_ids_word p * 32]" and ?R = "\<lambda>i. Request (pending_priority c i) i"
  have le: "num_ids p \<le> num_ids_word p * 32" using assms(1) by (simp add: plic_sized_def)
  have R: "requests p c = ?R ` set ?xs" using le by (auto simp: requests_def requested_def)
  have s: "sorted_wrt (<) ?xs" by (intro sorted_wrt_filter) (simp add: strict_sorted_iff)
  have z: "\<forall>i \<in> set ?xs. 0 < i" using assms(2) by (auto simp: no_zero_def requested_def intro: gr0I)
  have b: "context_best_pending p c = (let (i, q) = fold (pick c) ?xs (0, 0) in if q \<le> priority_threshold c then 0 else i)"
    by (simp add: context_best_pending_def scan_filter)
  have "context_best_pending p c = (if urgent p c = {} then 0 else req_id (Max (urgent p c))) \<and>
    (context_best_pending p c \<noteq> 0 \<longleftrightarrow> urgent p c \<noteq> {})"
  proof (cases "?xs = []")
    case True
    then have "urgent p c = {}" using R by (simp add: urgent_def)
    then show ?thesis using True by (simp add: b)
  next
    case False
    obtain i where i: "i \<in> set ?xs" "fold (pick c) ?xs (0, 0) = (i, pending_priority c i)" "Max (requests p c) = ?R i"
      using pick_max [OF s z False, of c] R by metis
    have mem: "?R i \<in> requests p c" using i(1) R by blast
    have top: "r \<le> ?R i" if "r \<in> requests p c" for r using that i(3) Max_ge [OF finite_requests(1) that] by simp
    have "0 < i" using i(1) z by blast
    show ?thesis
    proof (cases "pending_priority c i \<le> priority_threshold c")
      case True
      have "urgent p c = {}"
      proof (rule ccontr)
        assume "urgent p c \<noteq> {}"
        then obtain r where "r \<in> requests p c" "priority_threshold c < req_prio r" by (auto simp: urgent_def)
        then show False using top [of r] True by (auto simp: less_eq_request_def)
      qed
      then show ?thesis using True by (simp add: b i(2))
    next
      case False
      then have u: "?R i \<in> urgent p c" using mem by (simp add: urgent_def not_le)
      moreover have "Max (urgent p c) = ?R i" using u top by (intro Max_eqI) (auto simp: urgent_def)
      ultimately show ?thesis using False \<open>0 < i\<close> by (auto simp: b i(2))
    qed
  qed
  then show "context_best_pending p c = (if urgent p c = {} then 0 else req_id (Max (urgent p c)))"
    "context_best_pending p c \<noteq> 0 \<longleftrightarrow> urgent p c \<noteq> {}" by blast+
qed

section \<open>The tables\<close>

text \<open>In every context a source is being served only while it is pending, it is pending only
  while it is enabled, and source zero is never enabled.\<close>

definition context_wf :: "plic_context_t \<Rightarrow> bool" where
  "context_wf c \<longleftrightarrow> (\<forall>w j. bit (claimed c w) j \<longrightarrow> bit (pending c w) j) \<and>
     (\<forall>w j. bit (pending c w) j \<longrightarrow> bit (enable c w) j) \<and> \<not> bit (enable c 0) 0"

lemma wf_no_zero: "context_wf c \<Longrightarrow> no_zero c"
  by (auto simp: context_wf_def no_zero_def pending_id_def)

definition same_place :: "plic_context_t \<Rightarrow> plic_context_t \<Rightarrow> bool" where
  "same_place c d \<longleftrightarrow> hartid c = hartid d \<and> mmode c = mmode d"

text \<open>The loop over a written enable word: the first \<open>n\<close> sources follow the new word, the
  others still the old one.\<close>

definition enabling :: "plic_context_t \<Rightarrow> nat \<Rightarrow> u32 \<Rightarrow> nat \<Rightarrow> plic_context_t \<Rightarrow> bool" where
  "enabling c w new n d \<longleftrightarrow> (\<forall>v j. bit (claimed d v) j \<longrightarrow> bit (pending d v) j) \<and>
    (\<forall>v j. v \<noteq> w \<longrightarrow> bit (pending d v) j \<longrightarrow> bit (enable c v) j) \<and>
    (\<forall>j. bit (pending d w) j \<longrightarrow> bit (if j < n then new else enable c w) j) \<and>
    enable d = (enable c)(w := new) \<and> same_place c d"

lemma enabling_step:
  assumes "enabling c w new n d" "n < 32"
  shows "enabling c w new (Suc n) (enable_step p w new (enable c w XOR new) n d)"
proof (cases "bit (enable c w) n = bit new n")
  case True
  then have "enable_step p w new (enable c w XOR new) n d = d" by (simp add: enable_step_def id_bit_and bit_xor_iff)
  moreover have "bit (if j < n then new else enable c w) j = bit (if j < Suc n then new else enable c w) j" for j
    using True by (auto simp: less_Suc_eq)
  ultimately show ?thesis using assms(1) by (simp add: enabling_def)
next
  case False
  have j: "j \<noteq> n \<Longrightarrow> (if j < Suc n then new else enable c w) = (if j < n then new else enable c w)" for j by auto
  show ?thesis
  proof (cases "bit new n")
    case True
    then show ?thesis using False assms
      by (auto simp: enabling_def enable_step_def Let_def id_bit_and bit_xor_iff bit_or_iff same_place_def less_Suc_eq)
  next
    case new: False
    then have "bit (enable c w) n" using False by blast
    then show ?thesis using new assms
      by (auto simp: enabling_def enable_step_def Let_def id_bit_and bit_xor_iff bit_and_iff bit_not_iff same_place_def less_Suc_eq)
  qed
qed

lemma enabling_loop:
  "enabling c w new 0 d \<Longrightarrow> n \<le> 32 \<Longrightarrow> enabling c w new n (fold (enable_step p w new (enable c w XOR new)) [0..<n] d)"
  by (induction n) (simp_all add: enabling_step)

lemma enable_steps:
  assumes "context_wf c" "w = 0 \<longrightarrow> \<not> bit new 0"
  shows "context_wf (fold (enable_step p w new (enable c w XOR new)) [0..<32] (c\<lparr>enable := (enable c)(w := new)\<rparr>)) \<and>
    same_place c (fold (enable_step p w new (enable c w XOR new)) [0..<32] (c\<lparr>enable := (enable c)(w := new)\<rparr>))"
proof -
  let ?d = "fold (enable_step p w new (enable c w XOR new)) [0..<32] (c\<lparr>enable := (enable c)(w := new)\<rparr>)"
  have "enabling c w new 0 (c\<lparr>enable := (enable c)(w := new)\<rparr>)"
    using assms(1) by (simp add: enabling_def context_wf_def same_place_def)
  from enabling_loop [OF this, of 32] have e: "enabling c w new 32 ?d" by simp
  have "bit (pending ?d w) j \<Longrightarrow> j < 32" for j using bit_imp_le_length [of "pending ?d w" j] by simp
  then show ?thesis using e assms by (auto simp: enabling_def context_wf_def)
qed

section \<open>The state of the controller\<close>

text \<open>The tables of every context are well-formed, no two contexts drive the same line, and each
  line is up exactly when the context has an urgent request.\<close>

definition line_mask :: "plic_context_t \<Rightarrow> u64" where
  "line_mask c = (if mmode c then PORT_MEIP else PORT_SEIP)"

definition line_ok :: "plic_t \<Rightarrow> ports \<Rightarrow> plic_context_t \<Rightarrow> bool" where
  "line_ok p hs c \<longleftrightarrow> (port_mip (hs (hartid c)) AND line_mask c \<noteq> 0 \<longleftrightarrow> context_best_pending p c \<noteq> 0)"

definition places :: "plic_t \<Rightarrow> (nat \<times> bool) list" where
  "places p = map (\<lambda>c. (hartid c, mmode c)) (contexts p)"

definition plic_inv :: "(nat \<times> bool) list \<Rightarrow> plic_t \<times> ports \<Rightarrow> bool" where
  "plic_inv pl pm \<longleftrightarrow> (\<forall>c \<in> set (contexts (fst pm)). context_wf c \<and> line_ok (fst pm) (snd pm) c) \<and>
     places (fst pm) = pl \<and> distinct pl \<and> plic_sized (fst pm) \<and> max_prio (fst pm) = 15"

lemma best_frame: "num_ids q = num_ids p \<Longrightarrow> num_ids_word q = num_ids_word p \<Longrightarrow> context_best_pending q c = context_best_pending p c"
proof -
  assume h: "num_ids q = num_ids p" "num_ids_word q = num_ids_word p"
  then have "best_step q c = best_step p c" by (simp add: fun_eq_iff best_step_def)
  then have "best_word q c = best_word p c" by (intro ext) (simp add: best_word_def)
  then show ?thesis using h by (simp add: context_best_pending_def)
qed

lemma line_masks: "line_mask c = push_bit (if mmode c then 11 else 9) 1"
  by (simp add: line_mask_def)

lemma line_bit: "w AND line_mask c \<noteq> 0 \<longleftrightarrow> bit w (if mmode c then 11 else 9)"
  unfolding line_masks using bit_iff_and_push_bit_not_eq_0 by blast

lemma line_write:
  "bit (port_mip (port_backdoor_write (line_mask c) (if b then line_mask c else 0) h)) (if mmode d then 11 else 9) \<longleftrightarrow>
    (if mmode d = mmode c then b else bit (port_mip h) (if mmode d then 11 else 9))"
  by (auto simp: port_backdoor_write_def line_masks bit_or_iff bit_and_iff bit_not_iff bit_exp_iff)

text \<open>One context is changed and its line updated: the others keep theirs.\<close>

lemma update_inv:
  assumes inv: "plic_inv pl (p, hs)" and k: "k < length (contexts p)" and c: "context_wf c" "same_place (contexts p ! k) c"
    and q: "contexts q = (contexts p)[k := c]" "num_ids q = num_ids p" "num_ids_word q = num_ids_word p" "max_prio q = max_prio p"
  shows "plic_inv pl (q, context_update q k hs)"
proof -
  let ?hs = "context_update q k hs"
  have ck: "contexts q ! k = c" using k by (simp add: q(1))
  have u: "?hs = hs(hartid c := port_backdoor_write (line_mask c) (if context_best_pending q c \<noteq> 0 then line_mask c else 0) (hs (hartid c)))"
    by (simp add: context_update_def ck line_mask_def Let_def)
  have pl: "places q = places p"
  proof (rule nth_equalityI)
    fix i assume "i < length (places q)"
    then show "places q ! i = places p ! i" using c(2) by (cases "i = k") (simp_all add: places_def q(1) same_place_def)
  qed (simp add: places_def q(1))
  have "context_wf d \<and> line_ok q ?hs d" if d: "d \<in> set (contexts q)" for d
  proof -
    obtain j where j: "j < length (contexts q)" "d = contexts q ! j" using d by (auto simp: in_set_conv_nth)
    show ?thesis
    proof (cases "j = k")
      case True
      then have "d = c" using j ck by simp
      moreover have "bit (port_mip (?hs (hartid c))) (if mmode c then 11 else 9) = (context_best_pending q c \<noteq> 0)"
        unfolding u fun_upd_same line_write by simp
      ultimately show ?thesis using c(1) unfolding line_ok_def line_bit by simp
    next
      case False
      then have dp: "d = contexts p ! j" "j < length (contexts p)" using j by (simp_all add: q(1))
      then have old: "context_wf d" "line_ok p hs d" using inv by (auto simp: plic_inv_def)
      have "places q ! j \<noteq> places q ! k"
      proof -
        have "distinct (places q)" using inv pl by (simp add: plic_inv_def)
        moreover have "length (places q) = length (contexts p)" by (simp add: places_def q(1))
        ultimately show ?thesis using nth_eq_iff_index_eq [of "places q" j k] False dp(2) k by simp
      qed
      then have "hartid d = hartid c \<Longrightarrow> mmode d \<noteq> mmode c" using j k ck by (auto simp: places_def q(1))
      then have "bit (port_mip (?hs (hartid d))) (if mmode d then 11 else 9) = bit (port_mip (hs (hartid d))) (if mmode d then 11 else 9)"
      proof (cases "hartid d = hartid c")
        case True
        then show ?thesis using \<open>hartid d = hartid c \<Longrightarrow> mmode d \<noteq> mmode c\<close> unfolding u True fun_upd_same line_write by simp
      qed (simp add: u)
      then show ?thesis using old best_frame [OF q(2,3), of d] by (simp add: line_ok_def line_bit)
    qed
  qed
  then show ?thesis using inv pl q by (simp add: plic_inv_def plic_sized_def)
qed

lemma frame_inv:
  assumes "contexts q = contexts p" "num_ids q = num_ids p" "num_ids_word q = num_ids_word p" "max_prio q = max_prio p"
  shows "plic_inv pl (q, hs) = plic_inv pl (p, hs)"
  using assms best_frame [OF assms(2,3)] by (simp add: plic_inv_def line_ok_def places_def plic_sized_def)

lemma set_context_fields [simp]: "contexts (set_context k c p) = (contexts p)[k := c]" "num_ids (set_context k c p) = num_ids p"
  "num_ids_word (set_context k c p) = num_ids_word p" "max_prio (set_context k c p) = max_prio p"
  by (simp_all add: set_context_def)

lemma same_place_fields [simp]: "same_place c c" "same_place c (c\<lparr>claimed := x\<rparr>)" "same_place c (c\<lparr>priority_threshold := y\<rparr>)"
  by (simp_all add: same_place_def)

lemma inv_context: "plic_inv pl (p, hs) \<Longrightarrow> k < length (contexts p) \<Longrightarrow> context_wf (contexts p ! k)"
  by (simp add: plic_inv_def)

lemma claim_pending:
  assumes "plic_inv pl (p, hs)" "k < length (contexts p)" "context_best_pending p (contexts p ! k) = i" "i \<noteq> 0"
  shows "requested p (contexts p ! k) i \<and> Request (pending_priority (contexts p ! k) i) i = Max (urgent p (contexts p ! k))"
proof -
  have z: "plic_sized p" "no_zero (contexts p ! k)" using assms(1) inv_context [OF assms(1,2)] by (simp_all add: plic_inv_def wf_no_zero)
  have u: "urgent p (contexts p ! k) \<noteq> {}" using selection(2) [OF z] assms(3,4) by simp
  then have "Max (urgent p (contexts p ! k)) \<in> urgent p (contexts p ! k)" by (intro Max_in) simp_all
  moreover have "i = req_id (Max (urgent p (contexts p ! k)))" using selection(1) [OF z] u assms(3) by simp
  ultimately show ?thesis by (auto simp: urgent_def requests_def)
qed

lemma claim_inv:
  assumes "plic_inv pl (p, hs)" "k < length (contexts p)"
  shows "plic_inv pl (snd (context_claim k (p, hs)))"
proof (cases "context_best_pending p (contexts p ! k) = 0")
  case True
  then show ?thesis using update_inv [OF assms inv_context [OF assms], of p] by (simp add: context_claim_def)
next
  case False
  let ?c = "contexts p ! k" and ?i = "context_best_pending p (contexts p ! k)"
  let ?d = "?c\<lparr>claimed := (claimed ?c)(?i div 32 := claimed ?c (?i div 32) OR id_bit (?i mod 32))\<rparr>"
  have "pending_id ?c ?i" using claim_pending [OF assms refl False] by (simp add: requested_def)
  then have "context_wf ?d" using inv_context [OF assms] by (auto simp: context_wf_def pending_id_def bit_or_iff)
  from update_inv [OF assms this, of "set_context k ?d p"] show ?thesis using False by (simp add: context_claim_def Let_def)
qed

lemma enable_write_inv:
  assumes "plic_inv pl (p, hs)" "k < length (contexts p)"
  shows "plic_inv pl (context_enable_write k off val (p, hs))"
proof -
  let ?w = "unat (drop_bit 2 off)" and ?c = "contexts p ! k"
  let ?new = "if ?w = 0 then val AND NOT 1 else val"
  let ?d = "fold (enable_step p ?w ?new (enable ?c ?w XOR ?new)) [0..<32] (?c\<lparr>enable := (enable ?c)(?w := ?new)\<rparr>)"
  have "?w = 0 \<longrightarrow> \<not> bit ?new 0" by (simp add: bit_and_iff bit_not_iff)
  from enable_steps [OF inv_context [OF assms] this, of p] have "context_wf ?d" "same_place ?c ?d" by simp_all
  from update_inv [OF assms this, of "set_context k ?d p"] show ?thesis
    using assms(1) by (simp add: context_enable_write_def Let_def)
qed

lemma context_write_inv:
  assumes "plic_inv pl (p, hs)" "k < length (contexts p)"
  shows "plic_inv pl (snd (context_write k off val (p, hs)))"
proof -
  let ?c = "contexts p ! k"
  have "context_wf (?c\<lparr>priority_threshold := x\<rparr>)" "context_wf (?c\<lparr>claimed := (claimed ?c)(w := claimed ?c w AND NOT y)\<rparr>)" for x y w
    using inv_context [OF assms] by (auto simp: context_wf_def bit_and_iff)
  note wf = this
  have "plic_inv pl (set_context k (?c\<lparr>priority_threshold := x\<rparr>) p, context_update (set_context k (?c\<lparr>priority_threshold := x\<rparr>) p) k hs)" for x
    by (rule update_inv [OF assms wf(1)]) simp_all
  moreover have "plic_inv pl (set_context k (?c\<lparr>claimed := (claimed ?c)(w := claimed ?c w AND NOT y)\<rparr>) p,
      context_update (set_context k (?c\<lparr>claimed := (claimed ?c)(w := claimed ?c w AND NOT y)\<rparr>) p) k hs)" for w y
    by (rule update_inv [OF assms wf(2)]) simp_all
  ultimately show ?thesis using assms(1) by (simp add: context_write_def Let_def del: One_nat_def)
qed

lemma first_enabled_spec:
  "first_enabled w b cs i = Some k \<Longrightarrow> i \<le> k \<and> k < i + length cs \<and> enable (cs ! (k - i)) w AND b \<noteq> 0"
proof (induction w b cs i rule: first_enabled.induct)
  case (2 w b c cs i)
  then show ?case by (cases "enable c w AND b = 0") (auto simp: nth_Cons split: nat.split_asm nat.split dest: Suc_diff_le)
qed simp

lemma level_inv:
  assumes "plic_inv pl (p, hs)"
  shows "plic_inv pl (set_interrupt_level i lvl (p, hs))"
proof (cases "i = 0 \<or> num_ids p \<le> i")
  case True
  then show ?thesis using assms by (simp add: set_interrupt_level_def)
next
  case False
  let ?w = "i div 32" and ?b = "id_bit (i mod 32)"
  let ?p = "p\<lparr>level := (level p)(?w := (if lvl then level p ?w OR ?b else level p ?w AND NOT ?b))\<rparr>"
  have p: "plic_inv pl (?p, hs)" using assms frame_inv [of ?p p pl hs] by simp
  show ?thesis
  proof (cases "first_enabled ?w ?b (contexts p) 0")
    case None
    then show ?thesis using False p by (simp add: set_interrupt_level_def Let_def)
  next
    case (Some k)
    let ?c = "contexts p ! k" and ?d = "set_level_context i lvl (priority p i) (contexts p ! k)"
    have k: "k < length (contexts ?p)" "bit (enable ?c ?w) (i mod 32)"
      using first_enabled_spec [OF Some] by (simp_all add: id_bit_and)
    have "context_wf ?c" using inv_context [OF p k(1)] by simp
    then have "context_wf ?d" using k(2) by (auto simp: context_wf_def set_level_context_def Let_def bit_or_iff bit_and_iff bit_not_iff)
    moreover have "same_place ?c ?d" by (simp add: same_place_def set_level_context_def Let_def)
    ultimately have "plic_inv pl (set_context k ?d ?p, context_update (set_context k ?d ?p) k hs)"
      by (intro update_inv [OF p k(1), of ?d]) simp_all
    then show ?thesis using False Some by (simp add: set_interrupt_level_def Let_def)
  qed
qed

lemma load4_inv: "plic_inv pl pm \<Longrightarrow> plic_inv pl (snd (plic_load4 addr pm))"
proof -
  assume inv: "plic_inv pl pm"
  obtain p hs where pm: "pm = (p, hs)" by (cases pm)
  have "plic_inv pl (snd (context_read k off (p, hs)))" if "k < length (contexts p)" for k off
    using claim_inv [OF inv [unfolded pm] that] inv by (simp add: context_read_def pm split_beta)
  then have "plic_inv pl (snd (plic_load_word addr (p, hs)))" using inv by (simp add: plic_load_word_def pm Let_def split_beta)
  then show ?thesis by (simp add: plic_load4_def pm split_beta)
qed

lemma load_inv: "plic_inv pl pm \<Longrightarrow> plic_inv pl (snd (plic_load addr len pm))"
  using load4_inv [of pl pm addr] load4_inv [of pl "snd (plic_load4 addr pm)" "addr + 4"]
  by (cases "plic_load4 addr pm"; cases "fst (plic_load4 addr pm)";
      cases "plic_load4 (addr + 4) (snd (plic_load4 addr pm))"; cases "fst (plic_load4 (addr + 4) (snd (plic_load4 addr pm)))")
    (simp_all add: plic_load_def)

lemma store4_inv: "plic_inv pl pm \<Longrightarrow> plic_inv pl (snd (plic_store4 addr bytes pm))"
proof -
  assume inv: "plic_inv pl pm"
  obtain p hs where pm: "pm = (p, hs)" by (cases pm)
  have "plic_inv pl (priority_write off val p, hs)" for off val
    using inv by (subst frame_inv [of _ p]) (simp_all add: priority_write_def Let_def pm)
  then have "plic_inv pl (snd (plic_store_word addr val (p, hs)))" for val
    using inv enable_write_inv [OF inv [unfolded pm]] context_write_inv [OF inv [unfolded pm]]
    by (simp add: plic_store_word_def pm Let_def)
  then show ?thesis using inv by (simp add: plic_store4_def pm split: outcome.split)
qed

lemma store_inv: "plic_inv pl pm \<Longrightarrow> plic_inv pl (snd (plic_store addr bytes pm))"
  using store4_inv [of pl pm addr bytes] store4_inv [of pl pm addr "take 4 bytes"] store4_inv [of pl "snd (plic_store4 addr (take 4 bytes) pm)" "addr + 4" "drop 4 bytes"]
  by (cases "plic_store4 addr (take 4 bytes) pm"; cases "fst (plic_store4 addr (take 4 bytes) pm)")
    (simp_all add: plic_store_def store4_inv)

section \<open>Runs\<close>

inductive plic_step :: "plic_t \<times> ports \<Rightarrow> plic_t \<times> ports \<Rightarrow> bool" where
  step_load: "plic_step pm (snd (plic_load addr len pm))"
| step_store: "plic_step pm (snd (plic_store addr bytes pm))"
| step_line: "plic_step pm (set_interrupt_level i lvl pm)"

inductive plic_run :: "plic_t \<times> ports \<Rightarrow> plic_t \<times> ports \<Rightarrow> bool" for pm0 where
  run_start: "plic_run pm0 pm0"
| run_step: "plic_run pm0 pm \<Longrightarrow> plic_step pm pm' \<Longrightarrow> plic_run pm0 pm'"

lemma run_inv: "plic_run pm0 pm \<Longrightarrow> plic_inv pl pm0 \<Longrightarrow> plic_inv pl pm"
proof (induction rule: plic_run.induct)
  case (run_step pm pm')
  then show ?case by (cases pm) (auto elim!: plic_step.cases intro: load_inv store_inv level_inv)
qed

definition quiet :: "ports \<Rightarrow> bool" where
  "quiet hs \<longleftrightarrow> (\<forall>h. port_mip (hs h) AND PORT_MEIP = 0 \<and> port_mip (hs h) AND PORT_SEIP = 0)"

lemma new_inv:
  assumes "distinct (map fst harts)" "quiet hs"
  shows "plic_inv (places (plic_new harts ndev)) (plic_new harts ndev, hs)"
proof -
  let ?p = "plic_new harts ndev"
  have c: "\<exists>h m. c = context_new h m" if "c \<in> set (contexts ?p)" for c
    using that by (auto simp: plic_new_def split: if_splits)
  have bw: "best_word ?p (context_new h m) = (\<lambda>i b. b)" for h m
    by (simp add: fun_eq_iff best_word_def context_new_def)
  have z: "context_best_pending ?p (context_new h m) = 0" for h m
  proof -
    have "fold (best_word ?p (context_new h m)) xs b = b" for xs b by (induction xs) (simp_all add: bw)
    then show ?thesis by (simp add: context_best_pending_def)
  qed
  have "context_wf (context_new h m)" "line_ok ?p hs (context_new h m)" for h m
    using assms(2) z [of h m] by (auto simp: context_wf_def line_ok_def line_mask_def quiet_def context_new_def)
  moreover have "distinct (places ?p)"
  proof -
    have "places ?p = concat (map (\<lambda>(h, s). (h, True) # (if s then [(h, False)] else [])) harts)"
      by (induction harts) (auto simp: places_def plic_new_def context_new_def)
    moreover have "fst ` set (concat (map (\<lambda>(h, s). (h, True) # (if s then [(h, False)] else [])) hs')) \<subseteq> fst ` set hs'" for hs' :: "(nat \<times> bool) list"
      by (force split: if_splits)
    then have "distinct (concat (map (\<lambda>(h, s). (h, True) # (if s then [(h, False)] else [])) harts))" using assms(1)
    proof (induction harts)
      case (Cons x xs)
      then show ?case by (cases x) (force split: if_splits)
    qed simp
    ultimately show ?thesis by simp
  qed
  ultimately show ?thesis using c by (force simp: plic_inv_def plic_sized_def plic_new_def PLIC_PRIO_BITS_def)
qed

section \<open>Properties\<close>

text \<open>The requests as a list, for evaluation: the most urgent first.\<close>

lemma inv_zero: "plic_inv pl (p, hs) \<Longrightarrow> c \<in> set (contexts p) \<Longrightarrow> plic_sized p \<and> no_zero c"
  by (simp add: plic_inv_def wf_no_zero)

text \<open>C16: However the registers of the controller are read and written and its interrupt lines move, the external interrupt line of every context is up exactly when some enabled source is pending there, is not being served and was recorded, when it became pending there, with a priority above the threshold that the context has now; and then the source the controller offers is the one recorded with the highest priority, of the smallest identifier among equals. (The controller copies the priority register of a source when it records the request. A later write of that register changes neither the record nor the line.)\<close>

theorem plic_line_tracks_requests:
  assumes "plic_run (plic_new harts ndev, hs0) (p, hs)" "distinct (map fst harts)" "quiet hs0" "c \<in> set (contexts p)"
  shows "(port_mip (hs (hartid c)) AND line_mask c \<noteq> 0 \<longleftrightarrow> urgent p c \<noteq> {}) \<and>
    context_best_pending p c = (if urgent p c = {} then 0 else req_id (Max (urgent p c)))"
proof -
  have inv: "plic_inv (places (plic_new harts ndev)) (p, hs)" by (rule run_inv [OF assms(1) new_inv [OF assms(2,3)]])
  from inv_zero [OF this assms(4)] show ?thesis
    using selection [of p c] inv assms(4) by (simp add: plic_inv_def line_ok_def)
qed

text \<open>C29: In every reachable state of the controller, a source is being served in a context only while it is pending there, is pending only while it is enabled there, and source zero is never enabled.\<close>

theorem plic_tables_nest:
  assumes "plic_run (plic_new harts ndev, hs0) (p, hs)" "distinct (map fst harts)" "quiet hs0" "c \<in> set (contexts p)"
  shows "claimed c w AND NOT (pending c w) = 0 \<and> pending c w AND NOT (enable c w) = 0 \<and> \<not> bit (enable c 0) 0"
proof -
  have "context_wf c" using run_inv [OF assms(1) new_inv [OF assms(2,3)]] assms(4) by (simp add: plic_inv_def)
  then show ?thesis by (auto simp: context_wf_def bit_eq_iff bit_and_iff bit_not_iff)
qed

text \<open>Serving requests one after the other.\<close>

fun claims :: "nat \<Rightarrow> nat \<Rightarrow> plic_t \<times> ports \<Rightarrow> nat list \<times> plic_t \<times> ports" where
  "claims k 0 pm = ([], pm)"
| "claims k (Suc n) pm =
    (let (i, pm) = context_claim k pm; (js, pm) = claims k n pm in (i # js, pm))"

lemma claim_urgent:
  assumes "plic_inv pl (p, hs)" "k < length (contexts p)" "urgent p (contexts p ! k) \<noteq> {}"
  shows "\<exists>q hs'. context_claim k (p, hs) = (req_id (Max (urgent p (contexts p ! k))), q, hs') \<and>
    urgent q (contexts q ! k) = urgent p (contexts p ! k) - {Max (urgent p (contexts p ! k))} \<and>
    plic_inv pl (q, hs') \<and> k < length (contexts q)"
proof -
  let ?c = "contexts p ! k" and ?m = "Max (urgent p (contexts p ! k))"
  let ?i = "req_id ?m"
  have z: "plic_sized p" "no_zero ?c" using inv_zero [OF assms(1), of ?c] assms(2) by simp_all
  have b: "context_best_pending p ?c = ?i" "?i \<noteq> 0" using selection [OF z] assms(3) by simp_all
  have r: "requested p ?c ?i" "Request (pending_priority ?c ?i) ?i = ?m" using claim_pending [OF assms(1,2) b] by simp_all
  let ?d = "?c\<lparr>claimed := (claimed ?c)(?i div 32 := claimed ?c (?i div 32) OR id_bit (?i mod 32))\<rparr>"
  let ?q = "set_context k ?d p"
  have e: "context_claim k (p, hs) = (?i, ?q, context_update ?q k hs)" using b by (simp add: context_claim_def Let_def)
  have "requested ?q ?d j \<longleftrightarrow> requested p ?c j \<and> j \<noteq> ?i" for j
  proof (cases "j = ?i")
    case True
    then show ?thesis by (simp add: requested_def claimed_id_def bit_or_iff)
  next
    case False
    then have "\<not> (j div 32 = ?i div 32 \<and> j mod 32 = ?i mod 32)" by (metis div_mult_mod_eq)
    then show ?thesis using False by (auto simp: requested_def claimed_id_def pending_id_def bit_or_iff)
  qed
  then have "{j. requested ?q ?d j} = {j. requested p ?c j} - {?i}" by blast
  moreover have "inj (\<lambda>j. Request (pending_priority ?c j) j)" by (simp add: inj_def)
  ultimately have "requests ?q ?d = requests p ?c - {Request (pending_priority ?c ?i) ?i}"
    using image_set_diff [of "\<lambda>j. Request (pending_priority ?c j) j" "{j. requested p ?c j}" "{?i}"] by (simp add: requests_def)
  then have "requests ?q ?d = requests p ?c - {?m}" by (simp only: r(2))
  then have "urgent ?q (contexts ?q ! k) = urgent p ?c - {?m}" using assms(2) by (auto simp: urgent_def)
  moreover have "plic_inv pl (?q, context_update ?q k hs)" using claim_inv [OF assms(1,2)] by (simp add: e)
  ultimately show ?thesis using e assms(2) by simp
qed

lemma Max_desc: "finite U \<Longrightarrow> U \<noteq> {} \<Longrightarrow> rev (sorted_list_of_set U) = Max U # rev (sorted_list_of_set (U - {Max U}))" for U :: "'a::linorder set"
proof -
  assume U: "finite U" "U \<noteq> {}"
  have "sorted_list_of_set (U - {Max U}) @ [Max U] = sorted_list_of_set U"
  proof (rule sorted_distinct_set_unique)
    show "sorted (sorted_list_of_set (U - {Max U}) @ [Max U])" using U by (auto simp: sorted_append)
  next
    show "set (sorted_list_of_set (U - {Max U}) @ [Max U]) = set (sorted_list_of_set U)"
      using U Max_in [OF U] by (simp add: insert_absorb)
  qed (use U in auto)
  then show ?thesis by (metis rev.simps(2) rev_append rev_rev_ident append.simps)
qed

lemma claims_sorted:
  assumes "plic_inv pl (p, hs)" "k < length (contexts p)"
  shows "fst (claims k (card (urgent p (contexts p ! k))) (p, hs)) = map req_id (rev (sorted_list_of_set (urgent p (contexts p ! k)))) \<and>
    fst (context_claim k (snd (claims k (card (urgent p (contexts p ! k))) (p, hs)))) = 0"
  using assms
proof (induction "card (urgent p (contexts p ! k))" arbitrary: p hs)
  case 0
  then have "urgent p (contexts p ! k) = {}" by simp
  then show ?case using selection(1) [of p "contexts p ! k"] inv_zero [OF "0.prems"(1), of "contexts p ! k"] "0.prems"(2)
    by (simp add: context_claim_def Let_def)
next
  case (Suc n)
  let ?U = "urgent p (contexts p ! k)"
  have ne: "?U \<noteq> {}" using Suc.hyps(2) by auto
  obtain q hs' where q: "context_claim k (p, hs) = (req_id (Max ?U), q, hs')" "urgent q (contexts q ! k) = ?U - {Max ?U}"
    "plic_inv pl (q, hs')" "k < length (contexts q)"
    using claim_urgent [OF Suc.prems ne] by blast
  have n: "n = card (urgent q (contexts q ! k))" using Suc.hyps(2) ne by (simp add: q(2) card_Diff_singleton)
  note ih = Suc.hyps(1) [OF n q(3,4), folded n]
  have "claims k (card ?U) (p, hs) = (req_id (Max ?U) # fst (claims k n (q, hs')), snd (claims k n (q, hs')))"
    by (simp only: Suc.hyps(2) [symmetric] claims.simps q(1) Let_def case_prod_conv) (simp add: split_beta)
  then show ?case using ih Max_desc [OF finite_requests(2) ne] by (simp add: q(2))
qed

text \<open>C15: No urgent request is starved: from any reachable state, claims on a context hand out its urgent requests one by one, each exactly once, the most urgent first, and after as many claims as there are urgent requests the next claim finds none.\<close>

theorem plic_claims_drain:
  assumes "plic_run (plic_new harts ndev, hs0) (p, hs)" "distinct (map fst harts)" "quiet hs0" "k < length (contexts p)"
  shows "fst (claims k (card (urgent p (contexts p ! k))) (p, hs)) = map req_id (rev (sorted_list_of_set (urgent p (contexts p ! k)))) \<and>
    fst (context_claim k (snd (claims k (card (urgent p (contexts p ! k))) (p, hs)))) = 0"
  by (rule claims_sorted [OF run_inv [OF assms(1) new_inv [OF assms(2,3)]] assms(4)])

text \<open>One hart, whose machine-mode context enables source 3 at priority 5 while the line of the source
  is up.\<close>

definition port_idle :: hart_port where
  "port_idle = \<lparr>port_mip = 0, port_time = 0, port_sstc = False, port_stimecmp = 0, port_vstimecmp = 0,
     port_htimedelta = 0, port_menvcfg = 0, port_henvcfg = 0\<rparr>"

definition plic_demo :: "plic_t \<times> ports" where
  "plic_demo = set_interrupt_level 3 True
     (snd (plic_store 0x2000 [8, 0, 0, 0] (snd (plic_store 12 [5, 0, 0, 0] (plic_new [(0, True)] 31, \<lambda>_. port_idle)))))"

lemma demo_run: "plic_run (plic_new [(0, True)] 31, \<lambda>_. port_idle) plic_demo"
  unfolding plic_demo_def by (intro run_step [OF _ step_line] run_step [OF _ step_store] run_start)

lemma demo_facts: "distinct (map fst [(0 :: nat, True)])" "quiet (\<lambda>_. port_idle)" "length (contexts (fst plic_demo)) = 2"
proof -
  show d: "distinct (map fst [(0 :: nat, True)])" and q: "quiet (\<lambda>_. port_idle)" by (simp_all add: quiet_def port_idle_def)
  have "places (fst plic_demo) = places (plic_new [(0, True)] 31)"
    using run_inv [OF demo_run new_inv [OF d q]] by (simp add: plic_inv_def)
  then have "length (places (fst plic_demo)) = 2" by (simp add: places_def plic_new_def)
  then show "length (contexts (fst plic_demo)) = 2" by (simp add: places_def)
qed

lemma demo_pair: "plic_run (plic_new [(0, True)] 31, \<lambda>_. port_idle) (fst plic_demo, snd plic_demo)"
  using demo_run by simp

theorem plic_line_tracks_requests_witness:
  "port_mip (snd plic_demo (hartid (contexts (fst plic_demo) ! 0))) AND line_mask (contexts (fst plic_demo) ! 0) \<noteq> 0 \<longleftrightarrow>
    urgent (fst plic_demo) (contexts (fst plic_demo) ! 0) \<noteq> {}"
  using plic_line_tracks_requests [OF demo_pair demo_facts(1,2) nth_mem, of 0] demo_facts(3) by simp

theorem plic_tables_nest_witness:
  "claimed (contexts (fst plic_demo) ! 0) 0 AND NOT (pending (contexts (fst plic_demo) ! 0) 0) = 0"
  using plic_tables_nest [OF demo_pair demo_facts(1,2) nth_mem, of 0 0] demo_facts(3) by simp

theorem plic_claims_drain_witness:
  "fst (context_claim 0 (snd (claims 0 (card (urgent (fst plic_demo) (contexts (fst plic_demo) ! 0))) plic_demo))) = 0"
  using plic_claims_drain [OF demo_pair demo_facts(1,2), of 0] demo_facts(3) by simp

section \<open>A stale request\<close>

text \<open>Lowering a line only reaches the first context that enables the source: another one that
  enables it keeps its request, although the level is down.\<close>

definition plic_two :: plic_t where
  "plic_two = \<lparr>contexts = [(context_new 0 True)\<lparr>enable := (\<lambda>_. 2), pending := (\<lambda>_. 2)\<rparr>, (context_new 0 False)\<lparr>enable := (\<lambda>_. 2), pending := (\<lambda>_. 2)\<rparr>],
     num_ids = 2, num_ids_word = 1, max_prio = 15, priority = (\<lambda>_. 1), level = (\<lambda>_. 2)\<rparr>"

lemma plic_stale_request:
  "pending (contexts (fst (set_interrupt_level 1 False (plic_two, \<lambda>_. port_idle))) ! 0) 0 = 0"
  "pending (contexts (fst (set_interrupt_level 1 False (plic_two, \<lambda>_. port_idle))) ! 1) 0 = 2"
  "level (fst (set_interrupt_level 1 False (plic_two, \<lambda>_. port_idle))) 0 = 0"
  by (simp_all add: set_interrupt_level_def plic_two_def id_bit_def set_level_context_def set_context_def Let_def)

end
