(* ===== verification/ClintFacts.thy ===== *)
theory ClintFacts
  imports Clint
begin

text \<open>
  Facts about the core-local interruptor: the machine timer lines follow the comparators in every
  reachable state.
\<close>

section \<open>The timer line\<close>

text \<open>Every hart's machine timer interrupt is pending exactly when its comparator has been reached.\<close>

definition timer_ok :: "clint_t \<times> ports \<Rightarrow> bool" where
  "timer_ok cp \<longleftrightarrow> (\<forall>h \<in> set (clint_harts (fst cp)).
     port_mip (snd cp h) AND PORT_MTIP \<noteq> 0 \<longleftrightarrow> mtimecmp (fst cp) h \<le> mtime (fst cp))"

lemma timer_bit: "w AND PORT_MTIP \<noteq> 0 \<longleftrightarrow> bit w 7" "PORT_MTIP = push_bit 7 1" "PORT_MSIP = push_bit 3 1"
  "PORT_STIP = push_bit 5 1" "PORT_VSTIP = push_bit 6 1"
  using bit_iff_and_push_bit_not_eq_0 [of w 7] by simp_all

lemma timer_write: "bit (port_mip (port_backdoor_write PORT_MTIP (if b then PORT_MTIP else 0) h)) 7 \<longleftrightarrow> b"
  unfolding timer_bit(2) by (simp add: port_backdoor_write_def bit_or_iff bit_and_iff bit_not_iff bit_exp_iff)

lemma software_write: "bit (port_mip (port_backdoor_write PORT_MSIP v h)) 7 \<longleftrightarrow> bit (port_mip h) 7"
  unfolding timer_bit(3) by (simp add: port_backdoor_write_def bit_or_iff bit_and_iff bit_not_iff bit_exp_iff)

lemma lines_written:
  assumes "\<And>x. bit (port_mip (g h x)) 7 \<longleftrightarrow> P" "h \<in> set ks"
  shows "bit (port_mip (fold (\<lambda>h hs. hs(h := g h (hs h))) ks hs h)) 7 \<longleftrightarrow> P"
  using assms(2)
proof (induction ks rule: rev_induct)
  case (snoc k ks)
  then show ?case using assms(1) by (cases "h = k") simp_all
qed simp

lemma tick_ok: "timer_ok (clint_tick now ticks cp)"
proof -
  obtain c hs where cp: "cp = (c, hs)" by (rule prod.exhaust)
  let ?t = "fst (clint_tick now ticks cp)"
  let ?g = "\<lambda>h x. port_backdoor_write PORT_MTIP (if mtime ?t \<ge> mtimecmp ?t h then PORT_MTIP else 0) (time_sync (mtime ?t) x)"
  have e: "clint_tick now ticks cp = (?t, fold (\<lambda>h hs. hs(h := ?g h (hs h))) (clint_harts ?t) hs)"
    by (simp add: clint_tick_def cp Let_def)
  have "bit (port_mip (fold (\<lambda>h hs. hs(h := ?g h (hs h))) (clint_harts ?t) hs h)) 7 \<longleftrightarrow> mtimecmp ?t h \<le> mtime ?t"
    if "h \<in> set (clint_harts ?t)" for h
    by (rule lines_written [OF timer_write that])
  moreover have "snd (clint_tick now ticks cp) = fold (\<lambda>h hs. hs(h := ?g h (hs h))) (clint_harts ?t) hs"
    using arg_cong [OF e, of snd] by (simp only: snd_conv)
  ultimately show ?thesis unfolding timer_ok_def timer_bit(1) by (simp only:) blast
qed

lemma load1_ok: "timer_ok (snd (clint_load1 now a len cp))"
  using tick_ok by (simp add: clint_load1_def Let_def)

lemma load_ok: "timer_ok cp \<Longrightarrow> timer_ok (snd (clint_load now a len cp))"
proof -
  assume ok: "timer_ok cp"
  obtain r cp1 where r: "clint_load1 now a 4 (clint_tick now 0 cp) = (r, cp1)" by (rule prod.exhaust)
  obtain q cp2 where q: "clint_load1 now (a + 4) 4 cp1 = (q, cp2)" by (rule prod.exhaust)
  have "timer_ok cp1" "timer_ok cp2"
    using load1_ok [of now a 4 "clint_tick now 0 cp"] load1_ok [of now "a + 4" 4 cp1] r q by simp_all
  then show ?thesis using ok load1_ok [of now a len cp] r q by (cases r; cases q) (simp_all add: clint_load_def)
qed

lemma store1_ok: "timer_ok cp \<Longrightarrow> timer_ok (snd (clint_store1 now a bs cp))"
proof -
  assume ok: "timer_ok cp"
  show ?thesis
  proof (cases "a < MTIMECMP_BASE")
    case True
    obtain r cp1 where r: "msip_store a bs cp = (r, cp1)" by (rule prod.exhaust)
    have "r \<noteq> Done () \<Longrightarrow> cp1 = cp" using r by (auto simp: msip_store_def Let_def split: if_splits outcome.splits prod.splits)
    then show ?thesis using True ok tick_ok r by (cases r) (simp_all add: clint_store1_def)
  next
    case False
    then show ?thesis using ok tick_ok by (simp add: clint_store1_def split: outcome.split)
  qed
qed

lemma store_ok: "timer_ok cp \<Longrightarrow> timer_ok (snd (clint_store now a bs cp))"
proof -
  assume ok: "timer_ok cp"
  obtain r cp1 where r: "clint_store1 now a (take 4 bs) cp = (r, cp1)" by (rule prod.exhaust)
  have "timer_ok cp1" using store1_ok [OF ok, of now a "take 4 bs"] r by simp
  then show ?thesis using store1_ok [of cp1 now "a + 4" "drop 4 bs"] store1_ok [OF ok, of now a bs] ok r
    by (cases r) (simp_all add: clint_store_def)
qed

inductive clint_step :: "clint_t \<times> ports \<Rightarrow> clint_t \<times> ports \<Rightarrow> bool" where
  step_load: "clint_step cp (snd (clint_load now a len cp))"
| step_store: "clint_step cp (snd (clint_store now a bs cp))"
| step_tick: "clint_step cp (clint_tick now ticks cp)"

inductive clint_run :: "clint_t \<times> ports \<Rightarrow> clint_t \<times> ports \<Rightarrow> bool" for cp0 where
  run_start: "clint_run cp0 cp0"
| run_step: "clint_run cp0 cp \<Longrightarrow> clint_step cp cp' \<Longrightarrow> clint_run cp0 cp'"

lemma step_ok: "clint_step cp cp' \<Longrightarrow> timer_ok cp \<Longrightarrow> timer_ok cp'"
  by (induction rule: clint_step.induct) (simp_all add: load_ok store_ok tick_ok)

text \<open>C30: From its creation on, after every load, store and tick with whatever time of day, the machine timer interrupt of every hart is pending exactly when the time counter has reached the comparator of the hart, compared as unsigned 64-bit numbers.\<close>

theorem clint_timer_line:
  assumes "clint_run (clint_new harts freq rt base now0 hs0) (c, hs)" "h \<in> set (clint_harts c)"
  shows "port_mip (hs h) AND PORT_MTIP \<noteq> 0 \<longleftrightarrow> mtimecmp c h \<le> mtime c"
proof -
  have "timer_ok (c, hs)"
    using assms(1)
  proof (induction "(c, hs)" arbitrary: c hs rule: clint_run.induct)
    case run_start
    then show ?case using tick_ok by (metis clint_new_def)
  next
    case (run_step cp)
    then show ?case using step_ok by (cases cp) blast
  qed
  then show ?thesis using assms(2) by (simp add: timer_ok_def)
qed

definition clint_port :: hart_port where
  "clint_port = \<lparr>port_mip = 0, port_time = 0, port_sstc = False, port_stimecmp = 0, port_vstimecmp = 0,
     port_htimedelta = 0, port_menvcfg = 0, port_henvcfg = 0\<rparr>"

text \<open>A comparator set to 100, and 100 ticks.\<close>

definition clint_demo :: "clint_t \<times> ports" where
  "clint_demo = clint_tick (0, 0) 100 (snd (clint_store (0, 0) 0x4000 [100, 0, 0, 0, 0, 0, 0, 0]
     (clint_new [0] 10000000 False (0, 0) (0, 0) (\<lambda>_. clint_port))))"

theorem clint_timer_line_witness: "port_mip (snd clint_demo 0) AND PORT_MTIP \<noteq> 0 \<longleftrightarrow> mtimecmp (fst clint_demo) 0 \<le> mtime (fst clint_demo)"
proof -
  have r: "clint_run (clint_new [0] 10000000 False (0, 0) (0, 0) (\<lambda>_. clint_port)) (fst clint_demo, snd clint_demo)"
    unfolding clint_demo_def prod.collapse by (intro run_step [OF _ step_tick] run_step [OF _ step_store] run_start)
  have "0 \<in> set (clint_harts (fst clint_demo))"
    by (simp add: clint_demo_def clint_new_def clint_store_def clint_store1_def clint_tick_def timer_store_def Let_def split_beta
        split: outcome.split)
  from clint_timer_line [OF r this] show ?thesis .
qed

end
