(* ===== verification/UartFacts.thy ===== *)
theory UartFacts
  imports Uart
begin

text \<open>
  Facts about the serial port: the receive queue, the status register and the interrupt line agree
  in every reachable state.
\<close>

section \<open>Bits of the status registers\<close>

lemma lsr_tests: "w AND UART_LSR_DR \<noteq> 0 \<longleftrightarrow> bit w 0" "w AND UART_LSR_BI \<noteq> 0 \<longleftrightarrow> bit w 4" for w :: u8
  using bit_iff_and_push_bit_not_eq_0 [of w 0] bit_iff_and_push_bit_not_eq_0 [of w 4] by simp_all

text \<open>The updates of the line status, with the masks as numbers.\<close>

lemma lsr_writes:
  "bit (w OR 96) 0 = bit w 0" "bit (w OR 96) 4 = bit w 4" "\<not> bit (w AND - 2) 0" "bit (w AND - 2) 4 = bit w 4"
  "bit (w OR 1) 0" "bit (w OR 1) 4 = bit w 4" for w :: u8
proof -
  have e: "(96 :: u8) = push_bit 5 3" "(- 2 :: u8) = NOT 1" by (simp_all add: not_eq_complement)
  show "bit (w OR 96) 0 = bit w 0" "bit (w OR 96) 4 = bit w 4" "\<not> bit (w AND - 2) 0" "bit (w AND - 2) 4 = bit w 4"
    "bit (w OR 1) 0" "bit (w OR 1) 4 = bit w 4"
    unfolding e by (simp_all add: bit_or_iff bit_and_iff bit_not_iff bit_push_bit_iff bit_1_iff)
qed

section \<open>The invariant of the serial port\<close>

definition queue_ok :: "ns16550_t \<Rightarrow> bool" where
  "queue_ok u \<longleftrightarrow> length (rx_queue u) \<le> UART_QUEUE_SIZE \<and> (bit (lsr u) 0 \<longleftrightarrow> rx_queue u \<noteq> []) \<and> \<not> bit (lsr u) 4"

definition line_follows :: "ns16550_t \<Rightarrow> bool" where
  "line_follows u \<longleftrightarrow> (irq_levels u \<noteq> [] \<longrightarrow> last (irq_levels u) = (iir u \<noteq> UART_IIR_NO_INT))"

definition uart_inv :: "ns16550_t \<Rightarrow> bool" where
  "uart_inv u \<longleftrightarrow> queue_ok u \<and> line_follows u \<and> backoff_counter u \<le> MAX_BACKOFF"

lemma queue_frame: "rx_queue v = rx_queue u \<Longrightarrow> lsr v = lsr u \<Longrightarrow> queue_ok v = queue_ok u"
  by (simp add: queue_ok_def)

lemma clear_ok: "queue_ok u \<Longrightarrow> queue_ok (clear_tx (clear_rx u))"
  by (simp add: clear_tx_def clear_rx_def queue_ok_def lsr_writes)

lemma causes_distinct: "interrupt_causes u \<noteq> UART_IIR_NO_INT"
  by (simp add: interrupt_causes_def)

lemma backoff_frame [simp]: "backoff_counter (update_interrupt u) = backoff_counter u"
  by (simp add: update_interrupt_def Let_def set_line_def clear_tx_def clear_rx_def)

lemma update_ok:
  assumes "queue_ok u"
  shows "queue_ok (update_interrupt u) \<and> line_follows (update_interrupt u)"
proof -
  let ?v = "clear_tx (clear_rx u)"
  have q: "queue_ok ?v" by (rule clear_ok [OF assms])
  have e: "update_interrupt u = (let w = (if interrupt_causes ?v = 0 then set_line False (?v\<lparr>iir := UART_IIR_NO_INT\<rparr>) else set_line True (?v\<lparr>iir := interrupt_causes ?v\<rparr>))
      in if ier w AND UART_IER_THRI = 0 then w\<lparr>lsr := lsr w OR (UART_LSR_TEMT OR UART_LSR_THRE)\<rparr> else w)"
    by (simp only: update_interrupt_def Let_def)
  show ?thesis unfolding e Let_def using q causes_distinct [of ?v]
    by (simp add: set_line_def queue_ok_def line_follows_def lsr_writes)
qed

lemma rx_ok: "queue_ok u \<Longrightarrow> queue_ok (snd (rx_byte u)) \<and> backoff_counter (snd (rx_byte u)) = backoff_counter u"
  by (auto simp: rx_byte_def queue_ok_def lsr_writes lsr_tests split: list.split)

lemma transmit_ok: "queue_ok u \<Longrightarrow> queue_ok (uart_transmit v u) \<and> backoff_counter (uart_transmit v u) = backoff_counter u"
  by (simp add: uart_transmit_def tx_byte_def queue_ok_def lsr_writes)

lemma uart_load_inv: "uart_inv u \<Longrightarrow> uart_inv (snd (uart_load addr len u))"
  using rx_ok [of u] update_ok [of u] update_ok [of "snd (rx_byte u)"]
  by (auto simp: uart_inv_def uart_load_def Let_def split_beta split: option.split)

lemma uart_store_inv: "uart_inv u \<Longrightarrow> uart_inv (snd (uart_store addr bytes u))"
proof -
  assume inv: "uart_inv u"
  then have q: "queue_ok u" "backoff_counter u \<le> MAX_BACKOFF" by (simp_all add: uart_inv_def)
  have up: "queue_ok v \<Longrightarrow> backoff_counter v = backoff_counter u \<Longrightarrow> uart_inv (update_interrupt v)" for v
    using update_ok [of v] q(2) by (simp add: uart_inv_def)
  have f: "queue_ok (u\<lparr>ier := x\<rparr>)" "queue_ok (u\<lparr>dlm := x\<rparr>)" "queue_ok (u\<lparr>fcr := x\<rparr>)" "queue_ok (u\<lparr>lcr := x\<rparr>)" "queue_ok (u\<lparr>mcr := x\<rparr>)" for x
    using q(1) by (simp_all add: queue_ok_def)
  have s: "uart_inv (u\<lparr>scr := x\<rparr>)" for x using inv by (simp add: uart_inv_def queue_ok_def line_follows_def)
  show ?thesis using inv transmit_ok [OF q(1)] by (auto simp: uart_store_def Let_def up f s split: option.split)
qed

lemma uart_tick_inv: "uart_inv u \<Longrightarrow> uart_inv (uart_tick rc u)"
proof -
  assume inv: "uart_inv u"
  have "queue_ok (u\<lparr>backoff_counter := 0, rx_queue := rx_queue u @ [b], lsr := lsr u OR UART_LSR_DR\<rparr>)"
    if "\<not> UART_QUEUE_SIZE \<le> length (rx_queue u)" for b
    using inv that by (simp add: uart_inv_def queue_ok_def lsr_writes)
  then show ?thesis using inv update_ok
    by (auto simp: uart_tick_def uart_inv_def queue_frame line_follows_def MAX_BACKOFF_def queue_ok_def split: option.split)
qed

inductive uart_step :: "ns16550_t \<Rightarrow> ns16550_t \<Rightarrow> bool" where
  step_load: "uart_step u (snd (uart_load addr len u))"
| step_store: "uart_step u (snd (uart_store addr bytes u))"
| step_tick: "uart_step u (uart_tick rc u)"

inductive uart_run :: "ns16550_t \<Rightarrow> ns16550_t \<Rightarrow> bool" for u0 where
  run_start: "uart_run u0 u0"
| run_step: "uart_run u0 u \<Longrightarrow> uart_step u u' \<Longrightarrow> uart_run u0 u'"

inductive_simps uart_step_simps: "uart_step u u'"

text \<open>C32: In every state the serial port can reach, the receive queue holds at most 64 bytes, the data-ready status bit is set exactly when it holds any, and the interrupt line was last driven up exactly when the interrupt identification register names a cause.\<close>

theorem uart_status_true:
  assumes "uart_run (ns16550_new irq shift width dlm0) u"
  shows "length (rx_queue u) \<le> 64 \<and> (lsr u AND UART_LSR_DR \<noteq> 0 \<longleftrightarrow> rx_queue u \<noteq> []) \<and>
    (irq_levels u = [] \<or> last (irq_levels u) = (iir u \<noteq> UART_IIR_NO_INT)) \<and> backoff_counter u \<le> 16"
proof -
  have "uart_inv (ns16550_new irq shift width dlm0)"
    by (simp add: ns16550_new_def uart_inv_def queue_ok_def line_follows_def bit_numeral_rec)
  with assms have "uart_inv u"
    by (induction rule: uart_run.induct) (auto simp: uart_step_simps uart_load_inv uart_store_inv uart_tick_inv)
  then show ?thesis by (auto simp: uart_inv_def queue_ok_def line_follows_def lsr_tests UART_QUEUE_SIZE_def MAX_BACKOFF_def)
qed

theorem uart_status_true_witness:
  "length (rx_queue (uart_tick (Some 65) (snd (uart_store 2 [1] (ns16550_new 1 0 1 0))))) \<le> 64"
proof -
  have "uart_run (ns16550_new 1 0 1 0) (uart_tick (Some 65) (snd (uart_store 2 [1] (ns16550_new 1 0 1 0))))"
    by (intro run_step [OF _ step_tick] run_step [OF _ step_store] run_start)
  from uart_status_true [OF this] show ?thesis by blast
qed

section \<open>The clear bits\<close>

text \<open>The clear bits of the FIFO control register are tested in the line control register: selecting
  eight data bits there drops the received bytes and loses bit 1 of the selection, while the
  clear command proper has no effect.\<close>

definition uart_full :: ns16550_t where
  "uart_full = (ns16550_new 1 0 1 0)\<lparr>rx_queue := [65], lsr := 0x61\<rparr>"

lemma uart_lcr_loses_input:
  "rx_queue (snd (uart_store 3 [3] uart_full)) = []" "lcr (snd (uart_store 3 [3] uart_full)) = 1"
  "rx_queue (snd (uart_store 2 [3] uart_full)) = [65]"
  by (simp_all add: uart_store_def uart_reg_def uart_full_def ns16550_new_def update_interrupt_def clear_rx_def clear_tx_def
      set_line_def Let_def DEV_PGSIZE_def DEV_PGSHIFT_def)

end
