(* ===== verification/Spec2Isabelle.thy ===== *)
theory Spec2Isabelle
  imports ArithFacts DecodeFacts InsnFacts InterruptFacts TrapFacts KFacts PmpFacts
    InsnMemFacts EncodingFacts CsrMapFacts Execute DeviceFacts PlicFacts ClintFacts UartFacts
begin

text \<open>
  A verification development for the Spike RISC-V instruction set simulator in
  \<^verbatim>\<open>src/riscv-isa-sim\<close>.

  \<^bold>\<open>The program.\<close> A simulator \<^verbatim>\<open>sim_t\<close> owns the harts (\<^verbatim>\<open>processor_t\<close>), the memories
  and the devices behind a bus. Each turn of its loop lets one hart run a quantum of instructions and then moves the
  clock of the devices. A hart fetches a word through its MMU, finds the instruction in a list of match and mask values,
  and runs the C++ body of that instruction; the body works on the state of the hart through a vocabulary of macros, and
  leaves it by a value of the program counter or by an exception. Exceptions become traps, which change the privilege
  mode and the status registers. The MMU translates addresses in one or two stages, checks physical memory protection,
  keeps a lookaside buffer and an instruction cache, and reaches host memory or a device. Interrupt controllers and the
  timer write pending bits into the harts.

  \<^bold>\<open>Shape of the model.\<close> The state of a hart is the record \<open>hart\<close> (\<open>Hart\<close>), with a
  field for each member of \<^verbatim>\<open>state_t\<close> that modelled code reads, and the devices as a last field of
  type parameter \<open>'d\<close>. Code that may throw is a function of type \<open>M\<close> (\<open>Macros\<close>): from a state
  to an exception or a result, with the state at that moment, so that what a body changes before it throws is visible.
  Registers are words of their width, C arithmetic is the arithmetic of words, and an \<^verbatim>\<open>assert\<close> or
  \<^verbatim>\<open>abort\<close> is a value of its own. What a body reads but does not change (the instruction word, its
  address, the configured width, the table of extensions) is the record \<open>ctx\<close>.

  \<^bold>\<open>Theories and sources.\<close>

  \<^item> \<open>Prelude\<close>: word types, collections of rewrite rules, shared lemmas on words.
  \<^item> \<open>Arith\<close>, \<open>ArithFacts\<close>: \<^verbatim>\<open>riscv/arith.h\<close>. The facts compare every helper with
    the operation on integers that it computes.
  \<^item> \<open>Decode\<close>, \<open>Opcodes\<close>, \<open>DecodeFacts\<close>: \<^verbatim>\<open>riscv/decode.h\<close> and
    \<^verbatim>\<open>riscv/opcodes.h\<close>. The bits and ranges of each immediate, and the inversion of the encoders.
  \<^item> \<open>Hart\<close>: \<^verbatim>\<open>riscv/trap.h\<close>, \<^verbatim>\<open>riscv/processor.h\<close> (the state),
    \<^verbatim>\<open>riscv/isa_parser.h\<close> (the extensions).
  \<^item> \<open>Csr\<close>, \<open>CsrFile\<close>, \<open>Reset\<close>: \<^verbatim>\<open>riscv/csrs.cc\<close>, the reset of
    \<^verbatim>\<open>riscv/processor.cc\<close>. \<open>CsrMap\<close>, \<open>CsrMapFacts\<close>: the map from register numbers to
    objects of \<^verbatim>\<open>riscv/csr_init.cc\<close> (and the vector registers of
    \<^verbatim>\<open>riscv/vector_unit.cc\<close>), a constructor of \<open>csr_obj\<close> for each class, the virtual
    functions as recursive functions on it, and the access instructions. The facts: who may access a register, that
    reading accesses write nothing, what the counters and timers do when written.
  \<^item> \<open>Macros\<close>, \<open>InsnInt\<close>, \<open>InsnC\<close>, \<open>InsnK\<close>, \<open>InsnFacts\<close>, \<open>KFacts\<close>:
    \<^verbatim>\<open>riscv/decode_macros.h\<close> and the bodies of \<^verbatim>\<open>riscv/insns\<close> for the integer,
    bit-manipulation, compressed and scalar cryptography extensions, one definition \<open>insn_\<dots>\<close> for each file. The
    facts: results against integer arithmetic and polynomials, the sign-extension invariant of a 32-bit hart, when a
    control transfer faults, inverse ciphers.
  \<^item> \<open>Privileged\<close>, \<open>PrivFacts\<close>, \<open>InterruptFacts\<close>, \<open>TrapFacts\<close>: interrupts, traps, debug
    mode, returns, waits and fences of \<^verbatim>\<open>riscv/processor.cc\<close> and \<^verbatim>\<open>riscv/insns\<close>. The
    facts: legal privilege modes as an invariant of all of them, priorities of interrupts, a trap undone by its return.
  \<^item> \<open>Pmp\<close>, \<open>PmpFacts\<close>: physical memory protection, its registers with their locks, and the two checks
    of the MMU.
  \<^item> \<open>Mmu\<close>, \<open>MemAccess\<close>, \<open>MmuFacts\<close>, \<open>WalkFacts\<close>, \<open>MemoryFacts\<close>,
    \<open>MemoryWitnesses\<close>: \<^verbatim>\<open>riscv/mmu.cc\<close>, \<^verbatim>\<open>riscv/mmu.h\<close>: translation in
    both stages, the lookaside buffer, loads, stores, atomic accesses, reservations, fetch.
  \<^item> \<open>InsnMem\<close>, \<open>InsnMemFacts\<close>: the instructions of \<^verbatim>\<open>riscv/insns\<close> that access
    memory, and what is left unchanged when one faults.
  \<^item> \<open>Encoding\<close>, \<open>EncodingFacts\<close>: \<^verbatim>\<open>riscv/encoding.h\<close> and the decoder of
    \<^verbatim>\<open>riscv/processor.cc\<close>: overlapping encodings, the opcode cache.
  \<^item> \<open>Execute\<close>: the loop of \<^verbatim>\<open>riscv/execute.cc\<close> over all bodies above.
  \<^item> \<open>Devices\<close>, \<open>DeviceFacts\<close>, \<open>Clint\<close>, \<open>ClintFacts\<close>, \<open>Plic\<close>,
    \<open>PlicFacts\<close>, \<open>Uart\<close>, \<open>UartFacts\<close>: \<^verbatim>\<open>riscv/devices.cc\<close>,
    \<^verbatim>\<open>riscv/rom.cc\<close>, \<^verbatim>\<open>riscv/clint.cc\<close>, \<^verbatim>\<open>riscv/plic.cc\<close>,
    \<^verbatim>\<open>riscv/ns16550.cc\<close>; memory as a flat array of bytes, and an invariant of every reachable state
    of each device.
  \<^item> \<open>Sim\<close>, \<open>SimFacts\<close>: \<^verbatim>\<open>riscv/sim.cc\<close>: the bus, the host pointers into memory,
    the port of a hart, the boot ROM and the loop over the harts.

  \<^bold>\<open>Interfaces.\<close> \<open>simif\<close> (\<open>MmuFacts\<close>) is what the MMU uses of the simulator
  (\<^verbatim>\<open>riscv/simif.h\<close>); \<open>translation_invariant\<close> and \<open>access_invariant\<close> extend it by a
  predicate on harts that every step of the MMU keeps, and prove once that each access keeps it and which faults it may
  raise. They are interpreted on the simulator of \<open>Sim\<close> for the lookaside buffer, for what a fault leaves
  unchanged, and for the kinds of faults. \<open>flat_memory\<close> (\<open>DeviceFacts\<close>) is the contract of a device that
  holds bytes, interpreted on the sparse memory.

  \<^bold>\<open>Loops and fuel.\<close> The page table walk recurses on the level, the loops of devices on lengths and counts
  that the code computes before. The loop of a hart (\<open>step_loop\<close>) may turn without retiring an instruction, so it
  takes fuel, and running out is a result of its own. The loop over the harts (\<open>insn_loop\<close>, with
  \<open>hart_loop\<close> inside) takes one unit of fuel for each round too, and a run that has used it up is \<open>Running\<close>
  with the state it has reached; \<open>sim_step_returns\<close> shows that no fuel is enough when there is a hart, and how far the
  run has come.

  \<^bold>\<open>Not modelled.\<close> Triggers (\<^verbatim>\<open>riscv/triggers.cc\<close>; a hart has none, and the MMU asks a
  parameter whether one fires), the debug module and its transports, the vector instructions, the arithmetic of the
  floating-point instructions and \<^verbatim>\<open>softfloat\<close>, the entropy source, the commit log, histogram and
  disassembly, the parsers of the command line, the ISA string and the device tree, the host side
  \<^verbatim>\<open>fesvr\<close>, the custom-instruction and RoCC interfaces, and the accelerator model of
  \<^verbatim>\<open>smart\<close>, most of whose headers are not in the repository. Their places in the modelled code are
  parameters or end in a result of their own.
\<close>

end
